(* ===== verification/Prelude.thy ===== *)
theory Prelude
  imports Complex_Main "HOL-Library.Multiset" "HOL-Library.Sublist"
begin

text \<open>
  The JavaScript runtime the admin front end is written against, as far as the modelled code
  uses it: strings, truthiness, \<open>encodeURIComponent\<close>, decimal printing, JSON values and
  \<open>Array.prototype.sort\<close>.

  A JavaScript string is represented by its UTF-8 bytes (a \<open>char list\<close>), which is what the
  percent encoders work on; a string with a lone surrogate has no such representation.
  Numbers that are not counts or times are exact rationals (the code's doubles without
  rounding). \<open>undefined\<close> and a missing property are \<open>None\<close>.
\<close>

section \<open>Automation collections\<close>

named_theorems js_simps \<open>unfolding rules of the runtime model\<close>
named_theorems str_facts \<open>facts about strings and percent encoding\<close>

section \<open>Truthiness and defaulting\<close>

text \<open>\<open>Boolean(v)\<close> for a value that is a string or undefined/null.\<close>

definition truthy :: "string option \<Rightarrow> bool" where
  "truthy v = (case v of None \<Rightarrow> False | Some s \<Rightarrow> s \<noteq> [])"

text \<open>\<open>a || b\<close> for a possibly missing string \<open>a\<close>.\<close>

definition or_str :: "string option \<Rightarrow> string \<Rightarrow> string" where
  "or_str a b = (case a of None \<Rightarrow> b | Some s \<Rightarrow> if s = [] then b else s)"

text \<open>\<open>a || b\<close> where both sides may be missing, \<open>a ?? b\<close> with a present default.\<close>

definition or_opt :: "string option \<Rightarrow> string option \<Rightarrow> string option" where
  "or_opt a b = (if truthy a then a else b)"

definition nullish :: "'a option \<Rightarrow> 'a \<Rightarrow> 'a" where
  "nullish a b = (case a of None \<Rightarrow> b | Some v \<Rightarrow> v)"

lemma truthy_simps [simp]:
  "truthy None = False" "truthy (Some s) = (s \<noteq> [])"
  by (simp_all add: truthy_def)

lemma or_str_simps [simp]:
  "or_str None b = b" "or_str (Some s) b = (if s = [] then b else s)"
  by (simp_all add: or_str_def)

lemma nullish_simps [simp]:
  "nullish None b = b" "nullish (Some v) b = v"
  by (simp_all add: nullish_def)

lemma truthy_Some_iff: "truthy v \<longleftrightarrow> (\<exists>s. v = Some s \<and> s \<noteq> [])"
  by (cases v) auto

section \<open>Strings\<close>

definition starts_with :: "string \<Rightarrow> string \<Rightarrow> bool" where
  "starts_with p s = (take (length p) s = p)"

lemma starts_with_append [simp]: "starts_with p (p @ s)"
  by (simp add: starts_with_def)

lemma starts_with_iff: "starts_with p s \<longleftrightarrow> (\<exists>r. s = p @ r)"
  unfolding starts_with_def by (metis append_eq_conv_conj append_take_drop_id)

text \<open>\<open>s.replace(/\/$/, "")\<close>: drops one trailing slash.\<close>

definition strip_slash :: "string \<Rightarrow> string" where
  "strip_slash s = (if s \<noteq> [] \<and> last s = CHR ''/'' then butlast s else s)"

text \<open>\<open>s.split(c)\<close> on a one-character separator; never empty.\<close>

fun split_on :: "char \<Rightarrow> string \<Rightarrow> string list" where
  "split_on c [] = [[]]"
| "split_on c (x # xs) =
     (if x = c then [] # split_on c xs
      else (case split_on c xs of [] \<Rightarrow> [[x]] | p # ps \<Rightarrow> (x # p) # ps))"

text \<open>\<open>parts.join(sep)\<close>.\<close>

fun join_with :: "string \<Rightarrow> string list \<Rightarrow> string" where
  "join_with sep [] = []"
| "join_with sep [x] = x"
| "join_with sep (x # y # ys) = x @ sep @ join_with sep (y # ys)"

lemma split_on_nonempty [simp]: "split_on c s \<noteq> []"
  by (induction s) (auto split: list.splits)

lemma join_split_on [str_facts]: "join_with [c] (split_on c s) = s"
proof (induction s)
  case Nil
  then show ?case by simp
next
  case (Cons x s)
  obtain p ps where p: "split_on c s = p # ps"
    by (cases "split_on c s") auto
  with Cons show ?case by (cases ps) auto
qed

lemma split_on_no_sep: "c \<notin> set s \<Longrightarrow> split_on c s = [s]"
  by (induction s) auto

lemma split_on_append_sep: "c \<notin> set p \<Longrightarrow> split_on c (p @ c # s) = p # split_on c s"
  by (induction p) auto

text \<open>Decimal printing of integers (\<open>String(n)\<close>, template literals).\<close>

fun show_nat :: "nat \<Rightarrow> string" where
  "show_nat n = (if n < 10 then [char_of (48 + n)] else show_nat (n div 10) @ [char_of (48 + n mod 10)])"

declare show_nat.simps [simp del]

lemma digit_chars [str_facts]:
  "char_of (48::nat) = CHR ''0''" "char_of (49::nat) = CHR ''1''" "char_of (50::nat) = CHR ''2''"
  "char_of (51::nat) = CHR ''3''" "char_of (52::nat) = CHR ''4''" "char_of (53::nat) = CHR ''5''"
  "char_of (54::nat) = CHR ''6''" "char_of (55::nat) = CHR ''7''" "char_of (56::nat) = CHR ''8''"
  "char_of (57::nat) = CHR ''9''"
  by (simp_all add: char_of_eq_iff)

definition show_int :: "int \<Rightarrow> string" where
  "show_int i = (if i < 0 then CHR ''-'' # show_nat (nat (- i)) else show_nat (nat i))"

section \<open>Percent encoding\<close>

definition is_alnum :: "char \<Rightarrow> bool" where
  "is_alnum c = (let n = (of_char c :: nat) in
     (48 \<le> n \<and> n \<le> 57) \<or> (65 \<le> n \<and> n \<le> 90) \<or> (97 \<le> n \<and> n \<le> 122))"

text \<open>The characters \<open>encodeURIComponent\<close> leaves alone.\<close>

definition uri_unreserved :: "char \<Rightarrow> bool" where
  "uri_unreserved c = (is_alnum c \<or> c \<in> set ''-_.!~*()'' \<or> of_char c = (39::nat))"

definition hexdig :: "nat \<Rightarrow> char" where
  "hexdig n = (if n < 10 then char_of (48 + n) else char_of (55 + n))"

definition hexval :: "char \<Rightarrow> nat option" where
  "hexval c = (let n = (of_char c :: nat) in
     if 48 \<le> n \<and> n \<le> 57 then Some (n - 48)
     else if 65 \<le> n \<and> n \<le> 70 then Some (n - 55)
     else if 97 \<le> n \<and> n \<le> 102 then Some (n - 87)
     else None)"

definition pct_byte :: "char \<Rightarrow> string" where
  "pct_byte c = [CHR ''%'', hexdig (of_char c div 16), hexdig (of_char c mod 16)]"

definition enc_char :: "char \<Rightarrow> string" where
  "enc_char c = (if uri_unreserved c then [c] else pct_byte c)"

definition encodeURIComponent :: "string \<Rightarrow> string" where
  "encodeURIComponent s = concat (map enc_char s)"

text \<open>Percent decoding of a URL component; \<open>None\<close> for a malformed escape.\<close>

fun pct_decode :: "string \<Rightarrow> string option" where
  "pct_decode [] = Some []"
| "pct_decode (c # cs) =
     (if c \<noteq> CHR ''%'' then map_option (Cons c) (pct_decode cs)
      else (case cs of
              a # b # rest \<Rightarrow>
                (case (hexval a, hexval b) of
                   (Some x, Some y) \<Rightarrow> map_option (Cons (char_of (16 * x + y))) (pct_decode rest)
                 | _ \<Rightarrow> None)
            | _ \<Rightarrow> None))"

text \<open>The serializer of \<open>URLSearchParams\<close> (\<open>application/x-www-form-urlencoded\<close>).\<close>

definition form_unreserved :: "char \<Rightarrow> bool" where
  "form_unreserved c = (is_alnum c \<or> c \<in> set ''*-._'')"

definition form_char :: "char \<Rightarrow> string" where
  "form_char c = (if c = CHR '' '' then ''+'' else if form_unreserved c then [c] else pct_byte c)"

definition form_encode :: "string \<Rightarrow> string" where
  "form_encode s = concat (map form_char s)"

definition params_toString :: "(string \<times> string) list \<Rightarrow> string" where
  "params_toString ps = join_with ''&'' (map (\<lambda>(k, v). form_encode k @ ''='' @ form_encode v) ps)"

fun form_decode :: "string \<Rightarrow> string option" where
  "form_decode [] = Some []"
| "form_decode (c # cs) =
     (if c = CHR ''+'' then map_option (Cons (CHR '' '')) (form_decode cs)
      else if c \<noteq> CHR ''%'' then map_option (Cons c) (form_decode cs)
      else (case cs of
              a # b # rest \<Rightarrow>
                (case (hexval a, hexval b) of
                   (Some x, Some y) \<Rightarrow> map_option (Cons (char_of (16 * x + y))) (form_decode rest)
                 | _ \<Rightarrow> None)
            | _ \<Rightarrow> None))"

lemma of_char_less_256: "(of_char c :: nat) < 256"
  by (metis of_char_mod_256 mod_less_divisor zero_less_numeral)

lemma nibbles_less: "(of_char c :: nat) div 16 < 16" "(of_char c :: nat) mod 16 < 16"
  using of_char_less_256 [of c] by (auto intro: less_mult_imp_div_less)

lemma hexval_hexdig: "n < 16 \<Longrightarrow> hexval (hexdig n) = Some n"
  by (auto simp: hexval_def hexdig_def Let_def)

lemma is_alnum_hexdig: "n < 16 \<Longrightarrow> is_alnum (hexdig n)"
  by (auto simp: is_alnum_def hexdig_def Let_def)

lemma uri_unreserved_not_pct: "uri_unreserved c \<Longrightarrow> c \<noteq> CHR ''%''"
  by (auto simp: uri_unreserved_def is_alnum_def)

lemma pct_decode_enc_char:
  "pct_decode (enc_char c @ s) = map_option (Cons c) (pct_decode s)"
proof (cases "uri_unreserved c")
  case True
  then show ?thesis using uri_unreserved_not_pct by (auto simp: enc_char_def)
next
  case False
  then show ?thesis
    by (simp add: enc_char_def pct_byte_def hexval_hexdig nibbles_less)
qed

lemma pct_decode_encode [str_facts]: "pct_decode (encodeURIComponent s) = Some s"
  by (induction s) (simp_all add: encodeURIComponent_def pct_decode_enc_char)

lemma form_unreserved_not_special: "form_unreserved c \<Longrightarrow> c \<noteq> CHR ''%'' \<and> c \<noteq> CHR ''+''"
  by (auto simp: form_unreserved_def is_alnum_def)

lemma form_decode_form_char: "form_decode (form_char c @ s) = map_option (Cons c) (form_decode s)"
proof (cases "form_unreserved c")
  case True
  then show ?thesis using form_unreserved_not_special by (auto simp: form_char_def)
next
  case False
  then show ?thesis by (simp add: form_char_def pct_byte_def hexval_hexdig nibbles_less)
qed

lemma form_decode_encode [str_facts]: "form_decode (form_encode s) = Some s"
  by (induction s) (simp_all add: form_encode_def form_decode_form_char)

lemma form_char_set: "x \<in> set (form_char c) \<Longrightarrow> form_unreserved x \<or> x = CHR ''%'' \<or> x = CHR ''+''"
  using nibbles_less [of c]
  by (auto simp: form_char_def pct_byte_def form_unreserved_def is_alnum_hexdig split: if_splits)

lemma form_encode_set [str_facts]:
  "x \<in> set (form_encode s) \<Longrightarrow> form_unreserved x \<or> x = CHR ''%'' \<or> x = CHR ''+''"
  by (auto simp: form_encode_def dest: form_char_set)

lemma form_encode_no_sep [str_facts]:
  "c \<in> {CHR ''/'', CHR ''?'', CHR ''&'', CHR ''='', CHR ''#''} \<Longrightarrow> c \<notin> set (form_encode s)"
  by (auto dest!: form_encode_set simp: form_unreserved_def is_alnum_def)

lemma encodeURIComponent_inj [str_facts]:
  "encodeURIComponent s = encodeURIComponent t \<longleftrightarrow> s = t"
  by (metis option.inject pct_decode_encode)

lemma enc_char_set: "x \<in> set (enc_char c) \<Longrightarrow> uri_unreserved x \<or> x = CHR ''%''"
  using nibbles_less [of c]
  by (auto simp: enc_char_def pct_byte_def uri_unreserved_def is_alnum_hexdig split: if_splits)

lemma encodeURIComponent_set [str_facts]:
  "x \<in> set (encodeURIComponent s) \<Longrightarrow> uri_unreserved x \<or> x = CHR ''%''"
  by (auto simp: encodeURIComponent_def dest: enc_char_set)

text \<open>An encoded component cannot introduce a separator into the URL it is pasted into.\<close>

lemma encodeURIComponent_no_sep [str_facts]:
  "c \<in> {CHR ''/'', CHR ''?'', CHR ''&'', CHR ''='', CHR ''#''} \<Longrightarrow> c \<notin> set (encodeURIComponent s)"
  by (auto dest!: encodeURIComponent_set simp: uri_unreserved_def is_alnum_def)

lemma encodeURIComponent_append [simp]:
  "encodeURIComponent (s @ t) = encodeURIComponent s @ encodeURIComponent t"
  by (simp add: encodeURIComponent_def)

lemma encodeURIComponent_Nil [simp]: "encodeURIComponent [] = []"
  by (simp add: encodeURIComponent_def)

lemma encodeURIComponent_eq_Nil [simp]: "encodeURIComponent s = [] \<longleftrightarrow> s = []"
  by (cases s) (auto simp: encodeURIComponent_def enc_char_def pct_byte_def)

section \<open>JSON values and plain objects\<close>

datatype json =
    JNull
  | JBool bool
  | JNum rat
  | JStr string
  | JArr "json list"
  | JObj "(string \<times> json) list"

text \<open>Truthiness of a JSON value or a missing one.\<close>

fun truthy_json :: "json option \<Rightarrow> bool" where
  "truthy_json None = False"
| "truthy_json (Some JNull) = False"
| "truthy_json (Some (JBool b)) = b"
| "truthy_json (Some (JNum n)) = (n \<noteq> 0)"
| "truthy_json (Some (JStr s)) = (s \<noteq> [])"
| "truthy_json (Some (JArr _)) = True"
| "truthy_json (Some (JObj _)) = True"

text \<open>
  Own enumerable property access \<open>v[k]\<close> on a JSON value that is not null; a value that is no
  object has none of the properties the code asks for.
\<close>

fun jprop :: "json \<Rightarrow> string \<Rightarrow> json option" where
  "jprop (JObj kvs) k = map_of kvs k"
| "jprop _ k = None"

fun jstr :: "json option \<Rightarrow> string option" where
  "jstr (Some (JStr s)) = Some s"
| "jstr _ = None"

text \<open>
  A plain object as an association list in insertion order: assignment replaces in place,
  spread assigns the properties one after the other.
\<close>

fun obj_set :: "string \<Rightarrow> 'v \<Rightarrow> (string \<times> 'v) list \<Rightarrow> (string \<times> 'v) list" where
  "obj_set k v [] = [(k, v)]"
| "obj_set k v ((k', v') # r) = (if k = k' then (k, v) # r else (k', v') # obj_set k v r)"

definition obj_spread :: "(string \<times> 'v) list \<Rightarrow> (string \<times> 'v) list \<Rightarrow> (string \<times> 'v) list" where
  "obj_spread base more = fold (\<lambda>(k, v) o'. obj_set k v o') more base"

definition obj_del :: "string \<Rightarrow> (string \<times> 'v) list \<Rightarrow> (string \<times> 'v) list" where
  "obj_del k o' = filter (\<lambda>(k', _). k' \<noteq> k) o'"

lemma map_of_obj_set [simp]: "map_of (obj_set k v o') = (map_of o')(k \<mapsto> v)"
  by (induction o') auto

lemma obj_set_keys: "fst ` set (obj_set k v o') = insert k (fst ` set o')"
  by (induction k v o' rule: obj_set.induct) (simp_all add: insert_commute)

lemma distinct_obj_set [simp]: "distinct (map fst (obj_set k v o')) = distinct (map fst o')"
proof (induction o')
  case Nil
  then show ?case by simp
next
  case (Cons p o')
  obtain k' v' where p: "p = (k', v')" by (cases p)
  show ?case
  proof (cases "k = k'")
    case True
    with p show ?thesis by simp
  next
    case False
    have "set (map fst (obj_set k v o')) = insert k (set (map fst o'))"
      using obj_set_keys [of k v o'] by simp
    with False p Cons show ?thesis by simp
  qed
qed

lemma map_of_obj_spread:
  "distinct (map fst more) \<Longrightarrow> map_of (obj_spread base more) = map_of base ++ map_of more"
proof (induction more arbitrary: base)
  case Nil
  then show ?case by (simp add: obj_spread_def)
next
  case (Cons p more)
  obtain k v where p: "p = (k, v)" by (cases p)
  from Cons have "map_of (obj_spread (obj_set k v base) more) = (map_of base)(k \<mapsto> v) ++ map_of more"
    by simp
  moreover have "k \<notin> dom (map_of more)" using Cons.prems p by (auto simp: dom_map_of_conv_image_fst)
  ultimately show ?case
    by (simp add: p obj_spread_def map_add_def fun_eq_iff dom_def split: option.splits)
qed

section \<open>Array.prototype.sort\<close>

text \<open>
  \<open>xs.sort(cmp)\<close> is stable (ECMAScript 2019); on a consistent comparator the result is
  determined, and insertion sort computes it.
\<close>

fun js_insert :: "('a \<Rightarrow> 'a \<Rightarrow> rat) \<Rightarrow> 'a \<Rightarrow> 'a list \<Rightarrow> 'a list" where
  "js_insert cmp x [] = [x]"
| "js_insert cmp x (y # ys) = (if cmp x y \<le> 0 then x # y # ys else y # js_insert cmp x ys)"

definition js_sort :: "('a \<Rightarrow> 'a \<Rightarrow> rat) \<Rightarrow> 'a list \<Rightarrow> 'a list" where
  "js_sort cmp xs = foldr (js_insert cmp) xs []"

lemma js_sort_simps [simp]:
  "js_sort cmp [] = []" "js_sort cmp (x # xs) = js_insert cmp x (js_sort cmp xs)"
  by (simp_all add: js_sort_def)

lemma mset_js_insert [simp]: "mset (js_insert cmp x xs) = add_mset x (mset xs)"
  by (induction xs) auto

lemma mset_js_sort [simp]: "mset (js_sort cmp xs) = mset xs"
  by (induction xs) auto

lemma set_js_sort [simp]: "set (js_sort cmp xs) = set xs"
  by (metis mset_js_sort set_mset_mset)

lemma length_js_sort [simp]: "length (js_sort cmp xs) = length xs"
  by (metis mset_js_sort size_mset)

lemma js_sort_distinct_map: "distinct (map f (js_sort cmp xs)) = distinct (map f xs)"
  by (metis mset_js_sort mset_map mset_eq_imp_distinct_iff)

text \<open>The contract of a comparator: a total preorder through its sign.\<close>

locale comparator =
  fixes cmp :: "'a \<Rightarrow> 'a \<Rightarrow> rat"
  assumes cmp_total: "cmp x y \<le> 0 \<or> cmp y x \<le> 0"
    and cmp_trans: "cmp x y \<le> 0 \<Longrightarrow> cmp y z \<le> 0 \<Longrightarrow> cmp x z \<le> 0"
begin

lemma cmp_refl: "cmp x x \<le> 0"
  using cmp_total [of x x] by simp

lemma sorted_js_insert:
  "sorted_wrt (\<lambda>a b. cmp a b \<le> 0) xs \<Longrightarrow> sorted_wrt (\<lambda>a b. cmp a b \<le> 0) (js_insert cmp x xs)"
proof (induction xs)
  case Nil
  then show ?case by simp
next
  case (Cons y ys)
  have members: "set (js_insert cmp x ys) = insert x (set ys)"
    by (metis mset_js_insert set_mset_add_mset_insert set_mset_mset)
  show ?case
  proof (cases "cmp x y \<le> 0")
    case True
    with Cons.prems show ?thesis by (auto intro: cmp_trans)
  next
    case False
    then have "cmp y x \<le> 0" using cmp_total by blast
    with False Cons members show ?thesis by auto
  qed
qed

lemma sorted_js_sort: "sorted_wrt (\<lambda>a b. cmp a b \<le> 0) (js_sort cmp xs)"
  by (induction xs) (simp_all add: sorted_js_insert)

lemma js_insert_sorted_id: "\<forall>y \<in> set ys. cmp x y \<le> 0 \<Longrightarrow> js_insert cmp x ys = x # ys"
  by (cases ys) auto

lemma js_sort_idem: "sorted_wrt (\<lambda>a b. cmp a b \<le> 0) xs \<Longrightarrow> js_sort cmp xs = xs"
  by (induction xs) (auto simp: js_insert_sorted_id)

end

text \<open>The two ways the code builds comparators: compare a property, compare a number first.\<close>

lemma comparator_on: "comparator c \<Longrightarrow> comparator (\<lambda>x y. c (f x) (f y))"
  by (auto simp: comparator_def)

lemma comparator_by_key:
  assumes "comparator c"
  shows "comparator (\<lambda>x y. if k x - k y \<noteq> 0 then k x - k y else c x y)"
proof
  show "(if k x - k y \<noteq> 0 then k x - k y else c x y) \<le> 0 \<or> (if k y - k x \<noteq> 0 then k y - k x else c y x) \<le> 0"
    for x y using comparator.cmp_total [OF assms] by (auto simp: not_le)
  show "(if k x - k z \<noteq> 0 then k x - k z else c x z) \<le> 0"
    if "(if k x - k y \<noteq> 0 then k x - k y else c x y) \<le> 0"
      "(if k y - k z \<noteq> 0 then k y - k z else c y z) \<le> 0" for x y z
    using that comparator.cmp_trans [OF assms, of x y z] by (auto split: if_splits)
qed

text \<open>The code-unit order on strings, the comparison the runtime falls back to.\<close>

fun codeunit_compare :: "string \<Rightarrow> string \<Rightarrow> rat" where
  "codeunit_compare [] [] = 0"
| "codeunit_compare [] (_ # _) = -1"
| "codeunit_compare (_ # _) [] = 1"
| "codeunit_compare (a # as) (b # bs) =
     (if (of_char a :: nat) < of_char b then -1
      else if (of_char b :: nat) < of_char a then 1
      else codeunit_compare as bs)"

lemma codeunit_total: "codeunit_compare x y \<le> 0 \<or> codeunit_compare y x \<le> 0"
  by (induction x y rule: codeunit_compare.induct) auto

lemma codeunit_trans:
  "codeunit_compare x y \<le> 0 \<Longrightarrow> codeunit_compare y z \<le> 0 \<Longrightarrow> codeunit_compare x z \<le> 0"
proof (induction x arbitrary: y z)
  case Nil
  then show ?case by (cases z) simp_all
next
  case (Cons a as)
  then obtain b bs where y: "y = b # bs" by (cases y) auto
  with Cons.prems obtain c cs where z: "z = c # cs" by (cases z) auto
  show ?case using Cons.prems Cons.IH [of bs cs] by (auto simp: y z split: if_splits)
qed

interpretation codeunit: comparator codeunit_compare
  by unfold_locales (rule codeunit_total, erule (1) codeunit_trans)

end
