(* ===== verification/Http.thy ===== *)
theory Http
  imports Prelude
begin

text \<open>
  Requests, responses and the effects of the server-side code. A piece of \<open>async\<close> code is an
  \<open>eff\<close>: it reads the environment (process environment, the backend, the libraries the code
  calls), carries the world (the OIDC cache kept on \<open>globalThis\<close> and the requests issued so
  far) and either returns a value or throws. The backend is a parameter: a function of all
  requests it has received before and of the new one, which covers any stateful server.
\<close>

section \<open>Messages\<close>

text \<open>A body that is absent, a text, or a value the code passes through \<open>JSON.stringify\<close>.\<close>

datatype payload = NoBody | Text string | Json json

record http_request =
  rq_method :: string
  rq_url :: string
  rq_headers :: "(string \<times> string) list"
  rq_body :: payload
  rq_no_store :: bool

text \<open>
  A received response: header names are lower case, \<open>rs_json\<close> is what \<open>response.json()\<close>
  yields on the text (\<open>Inl\<close> with the parser's message if the text is no JSON).
\<close>

record http_response =
  rs_status :: int
  rs_headers :: "(string \<times> string) list"
  rs_text :: string
  rs_json :: "string + json"

datatype fetch_result = Responded http_response | NetworkError string

text \<open>What a route handler answers with (\<open>NextResponse\<close>).\<close>

record client_response =
  cs_status :: int
  cs_headers :: "(string \<times> string) list"
  cs_body :: payload

text \<open>What a route handler is called with: body text, query parameters, path parameters.\<close>

record client_request =
  cq_body :: string
  cq_query :: "(string \<times> string) list"
  cq_params :: "string \<Rightarrow> string"

section \<open>Thrown values\<close>

datatype js_error =
    NetworkFailure string
  | SyntaxError string
  | TypeError string
  | RangeError string
  | Error string

fun err_message :: "js_error \<Rightarrow> string" where
  "err_message (NetworkFailure m) = m"
| "err_message (SyntaxError m) = m"
| "err_message (TypeError m) = m"
| "err_message (RangeError m) = m"
| "err_message (Error m) = m"

datatype 'a outcome = Done 'a | Threw js_error

section \<open>Sessions, tokens and the OIDC configuration\<close>

record session_user =
  su_id :: "string option"
  su_email :: "string option"
  su_name :: "string option"

record session =
  s_user :: "session_user option"
  s_activeOrgId :: "string option"
  s_isPlatformAdmin :: "bool option"
  s_provider :: "string option"
  s_groups :: "string list option"

text \<open>The claims and header of a JWT built with \<open>SignJWT\<close>; times are seconds.\<close>

record jwt_claims =
  jc_email :: "string option"
  jc_name :: "string option"
  jc_roles :: "string list"
  jc_scope :: string
  jc_source :: "string option"
  jc_groups :: "string list option"
  jc_alg :: string
  jc_sub :: string
  jc_iss :: string
  jc_aud :: string
  jc_iat :: int
  jc_exp :: int

record ResolvedOIDCConfig =
  oidc_issuer :: string
  oidc_clientId :: string
  oidc_clientSecret :: string
  oidc_displayName :: string
  oidc_groupsClaim :: string
  oidc_enabled :: bool

text \<open>The provider descriptions pushed into NextAuth's options.\<close>

record oauth_provider =
  op_id :: string
  op_name :: string
  op_wellKnown :: string
  op_clientId :: string
  op_clientSecret :: string
  op_checks :: "string list"
  op_scope :: string

datatype provider = OAuth oauth_provider | Credentials

text \<open>The options handed to NextAuth; the callbacks are the definitions of theory Auth.\<close>

record auth_options =
  ao_providers :: "provider list"
  ao_secret :: string
  ao_signIn :: string
  ao_strategy :: string

section \<open>Environment and world\<close>

text \<open>
  Parameters: \<open>process.env\<close>; the backend; \<open>Date.now()\<close> in milliseconds as a function of how
  many requests have been issued (time passes while a request is awaited); jose's signing with
  a secret; NextAuth's \<open>getServerSession\<close> for the request at hand; the incoming headers of
  \<open>next/headers\<close>, which throw outside a request context (\<open>None\<close>); the ISO time at which the
  module was loaded (\<open>new Date().toISOString()\<close> of a module constant).
\<close>

record env =
  process_env :: "string \<Rightarrow> string option"
  backend :: "http_request list \<Rightarrow> http_request \<Rightarrow> fetch_result"
  time_at :: "nat \<Rightarrow> int"
  jwt_sign :: "string \<Rightarrow> jwt_claims \<Rightarrow> string"
  getServerSession :: "auth_options \<Rightarrow> session option"
  next_headers :: "(string \<Rightarrow> string option) option"
  load_time_iso :: string

text \<open>
  The cache as a request sees it when no other request is refreshing it; theory OidcCache has
  the interleaved version with the pending promise.
\<close>

record world =
  w_oidcValue :: "ResolvedOIDCConfig option"
  w_oidcExpiry :: int
  w_sent :: "http_request list"

type_synonym 'a eff = "env \<Rightarrow> world \<Rightarrow> 'a outcome \<times> world"
type_synonym handler = "client_request \<Rightarrow> client_response eff"

section \<open>Combinators\<close>

named_theorems eff_simps \<open>running effects\<close>

definition ret :: "'a \<Rightarrow> 'a eff" where
  "ret a E w = (Done a, w)"

definition throw :: "js_error \<Rightarrow> 'a eff" where
  "throw e E w = (Threw e, w)"

text \<open>\<open>const x = await m; k(x)\<close>.\<close>

definition seq :: "'a eff \<Rightarrow> ('a \<Rightarrow> 'b eff) \<Rightarrow> 'b eff" where
  "seq m k E w = (case m E w of (Done a, w') \<Rightarrow> k a E w' | (Threw e, w') \<Rightarrow> (Threw e, w'))"

text \<open>\<open>try { m } catch (e) { h(e) }\<close>.\<close>

definition try_catch :: "'a eff \<Rightarrow> (js_error \<Rightarrow> 'a eff) \<Rightarrow> 'a eff" where
  "try_catch m h E w = (case m E w of (Done a, w') \<Rightarrow> (Done a, w') | (Threw e, w') \<Rightarrow> h e E w')"

definition ask :: "(env \<Rightarrow> 'a) \<Rightarrow> 'a eff" where
  "ask f E w = (Done (f E), w)"

definition date_now :: "int eff" where
  "date_now E w = (Done (time_at E (length (w_sent w))), w)"

text \<open>\<open>fetch\<close>: the request is on the wire before the answer is known.\<close>

definition fetch :: "http_request \<Rightarrow> http_response eff" where
  "fetch rq E w =
     (let w' = w\<lparr>w_sent := w_sent w @ [rq]\<rparr> in
      case backend E (w_sent w) rq of
        Responded rs \<Rightarrow> (Done rs, w')
      | NetworkError msg \<Rightarrow> (Threw (NetworkFailure msg), w'))"

text \<open>\<open>response.ok\<close>, \<open>response.headers.get(k)\<close>, \<open>response.json()\<close>.\<close>

definition rs_ok :: "http_response \<Rightarrow> bool" where
  "rs_ok rs = (200 \<le> rs_status rs \<and> rs_status rs \<le> 299)"

definition rs_header :: "http_response \<Rightarrow> string \<Rightarrow> string option" where
  "rs_header rs k = map_of (rs_headers rs) k"

definition response_json :: "http_response \<Rightarrow> json eff" where
  "response_json rs = (case rs_json rs of Inl m \<Rightarrow> throw (SyntaxError m) | Inr j \<Rightarrow> ret j)"

text \<open>Property access on a value that may be null: a TypeError on null.\<close>

definition js_member :: "json \<Rightarrow> string \<Rightarrow> json option eff" where
  "js_member v k = (if v = JNull then throw (TypeError ''cannot read properties of null'')
                    else ret (jprop v k))"

text \<open>
  The \<open>Response\<close> constructor of the Fetch standard: a status outside 200..599 is a
  RangeError, a body (even an empty text) with a null-body status is a TypeError.
\<close>

definition null_body_status :: "int \<Rightarrow> bool" where
  "null_body_status s = (s \<in> set [101, 103, 204, 205, 304])"

definition newResponse :: "payload \<Rightarrow> int \<Rightarrow> (string \<times> string) list \<Rightarrow> client_response eff" where
  "newResponse b s hs =
     (if s < 200 \<or> 599 < s then throw (RangeError ''init status out of range'')
      else if b \<noteq> NoBody \<and> null_body_status s then throw (TypeError ''invalid response status code'')
      else ret \<lparr>cs_status = s, cs_headers = hs, cs_body = b\<rparr>)"

text \<open>\<open>NextResponse.json(v, { status })\<close>.\<close>

definition json_response :: "json \<Rightarrow> int \<Rightarrow> client_response" where
  "json_response v s =
     \<lparr>cs_status = s, cs_headers = [(''content-type'', ''application/json'')], cs_body = Json v\<rparr>"

definition error_json :: "string \<Rightarrow> json" where
  "error_json m = JObj [(''error'', JStr m)]"

lemmas eff_defs [eff_simps] =
  ret_def throw_def seq_def try_catch_def ask_def date_now_def fetch_def

lemma seq_ret [simp]: "seq (ret a) k = k a"
  by (simp add: seq_def ret_def fun_eq_iff)

lemma seq_throw [simp]: "seq (throw e) k = throw e"
  by (simp add: seq_def throw_def fun_eq_iff)

lemma seq_assoc: "seq (seq m k) l = seq m (\<lambda>a. seq (k a) l)"
  by (auto simp: seq_def fun_eq_iff split: prod.splits outcome.splits)

section \<open>What an effect may send\<close>

text \<open>
  \<open>sends P m\<close>: whatever the environment, every request \<open>m\<close> adds to the log satisfies \<open>P\<close>.
  \<open>pure_eff m\<close>: \<open>m\<close> leaves the world alone.
\<close>

definition sends :: "(http_request \<Rightarrow> bool) \<Rightarrow> 'a eff \<Rightarrow> bool" where
  "sends P m \<longleftrightarrow> (\<forall>E w. \<exists>rqs. w_sent (snd (m E w)) = w_sent w @ rqs \<and> (\<forall>rq \<in> set rqs. P rq))"

definition pure_eff :: "'a eff \<Rightarrow> bool" where
  "pure_eff m \<longleftrightarrow> (\<forall>E w. snd (m E w) = w)"

named_theorems sends_intros \<open>introduction rules for sends\<close>

lemma pure_ret [simp]: "pure_eff (ret a)" and pure_throw [simp]: "pure_eff (throw e)"
  and pure_ask [simp]: "pure_eff (ask f)" and pure_date_now [simp]: "pure_eff date_now"
  by (simp_all add: pure_eff_def eff_simps)

lemma pure_response_json [simp]: "pure_eff (response_json rs)"
  by (simp add: response_json_def split: sum.splits)

lemma pure_js_member [simp]: "pure_eff (js_member v k)"
  by (simp add: js_member_def)

lemma pure_newResponse [simp]: "pure_eff (newResponse b s hs)"
  by (simp add: newResponse_def)

lemma sends_pure [sends_intros]: "pure_eff m \<Longrightarrow> sends P m"
  by (auto simp: sends_def pure_eff_def)

lemma sends_ret [simp]: "sends P (ret a)" and sends_throw [simp]: "sends P (throw e)"
  and sends_ask [simp]: "sends P (ask f)" and sends_date_now [simp]: "sends P date_now"
  by (simp_all add: sends_pure)

lemma sends_response_json [simp]: "sends P (response_json rs)"
  and sends_js_member [simp]: "sends P (js_member v k)"
  and sends_newResponse [simp]: "sends P (newResponse b s hs)"
  by (simp_all add: sends_pure)

lemma sends_fetch [sends_intros]: "P rq \<Longrightarrow> sends P (fetch rq)"
  by (auto simp: sends_def fetch_def Let_def split: fetch_result.splits)

lemma sendsD: "sends P m \<Longrightarrow> \<exists>rqs. w_sent (snd (m E w)) = w_sent w @ rqs \<and> (\<forall>rq \<in> set rqs. P rq)"
  by (auto simp: sends_def)

lemma sends_seq [sends_intros]:
  assumes m: "sends P m" and k: "\<And>a. sends P (k a)"
  shows "sends P (seq m k)"
  unfolding sends_def
proof (intro allI)
  fix E w
  obtain r w1 where r: "m E w = (r, w1)" by (cases "m E w") auto
  from sendsD [OF m, of E w] r obtain rqs where
    rqs: "w_sent w1 = w_sent w @ rqs" "\<forall>rq \<in> set rqs. P rq" by auto
  show "\<exists>rqs. w_sent (snd (seq m k E w)) = w_sent w @ rqs \<and> (\<forall>rq \<in> set rqs. P rq)"
  proof (cases r)
    case (Done a)
    from sendsD [OF k, of a E w1] rqs Done r show ?thesis by (fastforce simp: seq_def)
  next
    case (Threw e)
    with rqs r show ?thesis by (simp add: seq_def)
  qed
qed

lemma sends_try [sends_intros]:
  assumes m: "sends P m" and h: "\<And>e. sends P (h e)"
  shows "sends P (try_catch m h)"
  unfolding sends_def
proof (intro allI)
  fix E w
  obtain r w1 where r: "m E w = (r, w1)" by (cases "m E w") auto
  from sendsD [OF m, of E w] r obtain rqs where
    rqs: "w_sent w1 = w_sent w @ rqs" "\<forall>rq \<in> set rqs. P rq" by auto
  show "\<exists>rqs. w_sent (snd (try_catch m h E w)) = w_sent w @ rqs \<and> (\<forall>rq \<in> set rqs. P rq)"
  proof (cases r)
    case (Done a)
    with rqs r show ?thesis by (simp add: try_catch_def)
  next
    case (Threw e)
    from sendsD [OF h, of e E w1] rqs Threw r show ?thesis by (fastforce simp: try_catch_def)
  qed
qed

lemma sends_mono: "sends P m \<Longrightarrow> (\<And>rq. P rq \<Longrightarrow> Q rq) \<Longrightarrow> sends Q m"
  unfolding sends_def by meson

text \<open>\<open>returns m\<close>: the effect never throws.\<close>

definition returns :: "'a eff \<Rightarrow> bool" where
  "returns m \<longleftrightarrow> (\<forall>E w. \<exists>a w'. m E w = (Done a, w'))"

lemma returns_ret [simp]: "returns (ret a)" and returns_ask [simp]: "returns (ask f)"
  and returns_date_now [simp]: "returns date_now"
  by (simp_all add: returns_def eff_simps)

lemma returns_seq: "returns m \<Longrightarrow> (\<And>a. returns (k a)) \<Longrightarrow> returns (seq m k)"
  unfolding returns_def seq_def by (metis (no_types, lifting) case_prod_conv outcome.simps(5))

lemma returns_try: "(\<And>e. returns (h e)) \<Longrightarrow> returns (try_catch m h)"
  unfolding returns_def try_catch_def
  by (auto split: prod.splits outcome.splits)

end
