(* ===== verification/Auth.thy ===== *)
theory Auth
  imports Http
begin

text \<open>
  \<open>lib/auth.ts\<close>: the settings read from the process environment, the short-lived tokens for
  internal calls, the OIDC configuration with its 60 second cache (as one request sees it), the
  NextAuth options and the callbacks that fill the token and the session.
\<close>

section \<open>Module constants\<close>

definition backendUrl :: "env \<Rightarrow> string" where
  "backendUrl E = or_str (map_option strip_slash (process_env E ''JUST_GATE_BACKEND_URL''))
                    ''http://localhost:9090''"

definition localAccountsEnabled :: "env \<Rightarrow> bool" where
  "localAccountsEnabled E = (process_env E ''JUST_GATE_LOCAL_ACCOUNTS_ENABLED'' \<noteq> Some ''false'')"

definition localRegistrationEnabled :: "env \<Rightarrow> bool" where
  "localRegistrationEnabled E = (process_env E ''JUST_GATE_LOCAL_REGISTRATION_ENABLED'' \<noteq> Some ''false'')"

definition authSecret :: "env \<Rightarrow> string" where
  "authSecret E = or_str (process_env E ''NEXTAUTH_SECRET'') ''justgate-local-auth-secret''"

definition backendJwtSecret :: "env \<Rightarrow> string" where
  "backendJwtSecret E = or_str (process_env E ''JUST_GATE_BACKEND_JWT_SECRET'') ''justgate-local-backend-jwt-secret''"

definition bearer :: "string \<Rightarrow> (string \<times> string) list" where
  "bearer token = [(''authorization'', ''Bearer '' @ token)]"

section \<open>Tokens for internal calls\<close>

text \<open>The claims every token of the front end carries; the caller adds its own.\<close>

definition base_claims :: "string \<Rightarrow> int \<Rightarrow> int \<Rightarrow> jwt_claims" where
  "base_claims subject now lifetime =
     \<lparr>jc_email = None, jc_name = None, jc_roles = [''admin''], jc_scope = ''admin:control'',
      jc_source = None, jc_groups = None, jc_alg = ''HS256'', jc_sub = subject,
      jc_iss = ''justgate-admin'', jc_aud = ''justgate-backend'',
      jc_iat = now div 1000, jc_exp = now div 1000 + lifetime\<rparr>"

definition userAdminClaims :: "string \<Rightarrow> string \<Rightarrow> string \<Rightarrow> int \<Rightarrow> jwt_claims" where
  "userAdminClaims userId email name now =
     (base_claims userId now 60)\<lparr>jc_email := Some email, jc_name := Some name\<rparr>"

definition createUserAdminToken :: "string \<Rightarrow> string \<Rightarrow> string \<Rightarrow> string eff" where
  "createUserAdminToken userId email name =
     seq date_now (\<lambda>now.
     ask (\<lambda>E. jwt_sign E (backendJwtSecret E) (userAdminClaims userId email name now)))"

definition createSystemToken :: "string eff" where
  "createSystemToken =
     seq date_now (\<lambda>now.
     ask (\<lambda>E. jwt_sign E (backendJwtSecret E) (base_claims ''system:frontend'' now 60)))"

section \<open>The OIDC provider configuration\<close>

text \<open>
  A field of a decoded JSON body read at the type string of the code's \<open>as\<close> cast; a missing
  field and one of another type (outside that cast) read as the empty string.
\<close>

fun cast_str :: "json option \<Rightarrow> string" where
  "cast_str (Some (JStr s)) = s"
| "cast_str _ = []"

fun cast_bool :: "json option \<Rightarrow> bool option" where
  "cast_bool (Some (JBool b)) = Some b"
| "cast_bool _ = None"

definition get_request :: "string \<Rightarrow> (string \<times> string) list \<Rightarrow> http_request" where
  "get_request url hs =
     \<lparr>rq_method = ''GET'', rq_url = url, rq_headers = hs, rq_body = NoBody, rq_no_store = True\<rparr>"

definition provider_config_of :: "json \<Rightarrow> ResolvedOIDCConfig option" where
  "provider_config_of data =
     (if \<not> truthy_json (jprop data ''enabled'') \<or> \<not> truthy_json (jprop data ''issuer'')
         \<or> \<not> truthy_json (jprop data ''clientID'') \<or> \<not> truthy_json (jprop data ''clientSecret'')
      then None
      else Some \<lparr>oidc_issuer = cast_str (jprop data ''issuer''),
                 oidc_clientId = cast_str (jprop data ''clientID''),
                 oidc_clientSecret = cast_str (jprop data ''clientSecret''),
                 oidc_displayName = cast_str (jprop data ''displayName''),
                 oidc_groupsClaim = cast_str (jprop data ''groupsClaim''),
                 oidc_enabled = truthy_json (jprop data ''enabled'')\<rparr>)"

definition oidcProviderConfigRequest :: "env \<Rightarrow> string \<Rightarrow> http_request" where
  "oidcProviderConfigRequest E token =
     get_request (backendUrl E @ ''/api/v1/internal/oidc-provider-config'') (bearer token)"

definition fetchOIDCProviderConfig :: "ResolvedOIDCConfig option eff" where
  "fetchOIDCProviderConfig =
     try_catch
       (seq createSystemToken (\<lambda>token.
        seq (ask (\<lambda>E. oidcProviderConfigRequest E token)) (\<lambda>rq.
        seq (fetch rq) (\<lambda>response.
        if \<not> rs_ok response then ret None
        else seq (response_json response) (\<lambda>data.
             seq (js_member data ''enabled'') (\<lambda>_.
             ret (provider_config_of data)))))))
       (\<lambda>_. ret None)"

text \<open>The fallback from the process environment.\<close>

definition envOIDCConfig :: "env \<Rightarrow> ResolvedOIDCConfig option" where
  "envOIDCConfig E =
     (let issuer = map_option strip_slash (process_env E ''JUST_GATE_OIDC_ISSUER'');
          clientId = process_env E ''JUST_GATE_OIDC_CLIENT_ID'';
          clientSecret = process_env E ''JUST_GATE_OIDC_CLIENT_SECRET'' in
      if \<not> truthy issuer \<or> \<not> truthy clientId \<or> \<not> truthy clientSecret then None
      else Some \<lparr>oidc_issuer = the issuer, oidc_clientId = the clientId,
                 oidc_clientSecret = the clientSecret,
                 oidc_displayName = or_str (process_env E ''JUST_GATE_OIDC_NAME'') ''Single Sign-On'',
                 oidc_groupsClaim = [], oidc_enabled = True\<rparr>)"

definition resolveOIDCConfig :: "ResolvedOIDCConfig option eff" where
  "resolveOIDCConfig =
     seq fetchOIDCProviderConfig (\<lambda>dbConfig.
     case dbConfig of
       Some cfg \<Rightarrow> ret (Some cfg)
     | None \<Rightarrow> ask envOIDCConfig)"

definition OIDC_TTL_MS :: int where
  "OIDC_TTL_MS = 60000"

definition storeOIDC :: "ResolvedOIDCConfig option \<Rightarrow> int \<Rightarrow> unit eff" where
  "storeOIDC cfg expiry E w = (Done (), w\<lparr>w_oidcValue := cfg, w_oidcExpiry := expiry\<rparr>)"

definition cachedOIDC :: "world \<Rightarrow> int \<Rightarrow> ResolvedOIDCConfig option option" where
  "cachedOIDC w now = (if now < w_oidcExpiry w then Some (w_oidcValue w) else None)"

definition readCache :: "int \<Rightarrow> ResolvedOIDCConfig option option eff" where
  "readCache now E w = (Done (cachedOIDC w now), w)"

text \<open>\<open>getResolvedOIDC\<close> for a request that finds no refresh pending.\<close>

definition getResolvedOIDC :: "ResolvedOIDCConfig option eff" where
  "getResolvedOIDC =
     seq date_now (\<lambda>now.
     seq (readCache now) (\<lambda>hit.
     case hit of
       Some value \<Rightarrow> ret value
     | None \<Rightarrow>
         seq resolveOIDCConfig (\<lambda>cfg.
         seq date_now (\<lambda>now'.
         seq (storeOIDC cfg (now' + OIDC_TTL_MS)) (\<lambda>_.
         ret cfg)))))"

definition bustOIDCCache :: "unit eff" where
  "bustOIDCCache E w = (Done (), w\<lparr>w_oidcExpiry := 0\<rparr>)"

definition isOIDCEnabled :: "bool eff" where
  "isOIDCEnabled = seq getResolvedOIDC (\<lambda>cfg. ret (cfg \<noteq> None))"

definition getOIDCDisplayName :: "string eff" where
  "getOIDCDisplayName =
     seq getResolvedOIDC (\<lambda>cfg. ret (or_str (map_option oidc_displayName cfg) ''Single Sign-On''))"

definition isLocalAccountsEnabled :: "env \<Rightarrow> bool" where
  "isLocalAccountsEnabled E = localAccountsEnabled E"

definition isLocalRegistrationEnabled :: "env \<Rightarrow> bool" where
  "isLocalRegistrationEnabled E = (localAccountsEnabled E \<and> localRegistrationEnabled E)"

section \<open>Auth options\<close>

definition oidcProvider :: "ResolvedOIDCConfig \<Rightarrow> oauth_provider" where
  "oidcProvider oidc =
     \<lparr>op_id = ''oidc'',
      op_name = (if oidc_displayName oidc = [] then ''Single Sign-On'' else oidc_displayName oidc),
      op_wellKnown = oidc_issuer oidc @ ''/.well-known/openid-configuration'',
      op_clientId = oidc_clientId oidc, op_clientSecret = oidc_clientSecret oidc,
      op_checks = [''pkce'', ''state''], op_scope = ''openid profile email''\<rparr>"

definition buildAuthOptions :: "auth_options eff" where
  "buildAuthOptions =
     seq getResolvedOIDC (\<lambda>oidc.
     ask (\<lambda>E.
       \<lparr>ao_providers =
          (case oidc of None \<Rightarrow> [] | Some cfg \<Rightarrow> [OAuth (oidcProvider cfg)])
          @ (if isLocalAccountsEnabled E then [Credentials] else []),
        ao_secret = authSecret E, ao_signIn = ''/signin'', ao_strategy = ''jwt''\<rparr>))"

definition getAuthOptions :: "auth_options eff" where
  "getAuthOptions = buildAuthOptions"

definition auth :: "session option eff" where
  "auth = seq getAuthOptions (\<lambda>options. ask (\<lambda>E. getServerSession E options))"

text \<open>
  \<open>String(v)\<close> on a decoded JSON value; the printing of numbers that are no integers is the
  argument \<open>num\<close>.
\<close>

fun js_String :: "(rat \<Rightarrow> string) \<Rightarrow> json \<Rightarrow> string" where
  "js_String num JNull = ''null''"
| "js_String num (JBool b) = (if b then ''true'' else ''false'')"
| "js_String num (JNum n) = num n"
| "js_String num (JStr s) = s"
| "js_String num (JArr xs) =
     join_with '','' (map (\<lambda>x. case x of JNull \<Rightarrow> [] | _ \<Rightarrow> js_String num x) xs)"
| "js_String num (JObj _) = ''[object Object]''"

record auth_user =
  au_id :: string
  au_email :: "string option"
  au_name :: "string option"

definition string_and_truthy :: "json option \<Rightarrow> string option" where
  "string_and_truthy v = (if truthy (jstr v) then jstr v else None)"

definition oidc_profile :: "(rat \<Rightarrow> string) \<Rightarrow> json \<Rightarrow> auth_user" where
  "oidc_profile num profile =
     (let sub = jprop profile ''sub''; email = jprop profile ''email'';
          subject = (if truthy_json sub then js_String num (the sub)
                     else if truthy_json email then js_String num (the email)
                     else ''admin-user'') in
      \<lparr>au_id = subject,
       au_email = Some (or_str (string_and_truthy email) (subject @ ''@local.invalid'')),
       au_name = Some (or_str (or_opt (string_and_truthy (jprop profile ''name''))
                              (or_opt (string_and_truthy (jprop profile ''preferred_username''))
                                      (string_and_truthy email)))
                         ''Admin User'')\<rparr>)"

section \<open>Credentials provider\<close>

text \<open>\<open>JSON.stringify\<close> drops properties whose value is undefined.\<close>

definition opt_field :: "string \<Rightarrow> string option \<Rightarrow> (string \<times> json) list" where
  "opt_field k v = (case v of None \<Rightarrow> [] | Some s \<Rightarrow> [(k, JStr s)])"

definition verifyRequest :: "env \<Rightarrow> string option \<Rightarrow> string option \<Rightarrow> http_request" where
  "verifyRequest E email password =
     \<lparr>rq_method = ''POST'', rq_url = backendUrl E @ ''/api/v1/auth/local/verify'',
      rq_headers = [(''content-type'', ''application/json'')],
      rq_body = Json (JObj (opt_field ''email'' email @ opt_field ''password'' password)),
      rq_no_store = True\<rparr>"

definition error_of_body :: "string + json \<Rightarrow> string option" where
  "error_of_body b = (case b of Inl _ \<Rightarrow> None | Inr j \<Rightarrow> jstr (jprop j ''error''))"

definition authorize :: "string option \<Rightarrow> string option \<Rightarrow> auth_user eff" where
  "authorize email password =
     seq (ask (\<lambda>E. verifyRequest E email password)) (\<lambda>rq.
     seq (fetch rq) (\<lambda>response.
     if \<not> rs_ok response
     then throw (Error (or_str (error_of_body (rs_json response)) ''Sign-in failed''))
     else seq (response_json response) (\<lambda>account.
          seq (js_member account ''id'') (\<lambda>_.
          ret \<lparr>au_id = cast_str (jprop account ''id''),
               au_email = jstr (jprop account ''email''),
               au_name = jstr (jprop account ''name'')\<rparr>))))"

section \<open>The jwt and session callbacks\<close>

record jwt_token =
  jt_sub :: "string option"
  jt_email :: "string option"
  jt_name :: "string option"
  jt_isPlatformAdmin :: "bool option"
  jt_provider :: "string option"
  jt_groups :: "string list option"
  jt_activeOrgId :: "string option"

text \<open>The data of a client's \<open>update(...)\<close>: outer \<open>None\<close> is undefined, inner \<open>None\<close> is null.\<close>

record session_update =
  up_activeOrgId :: "string option option"
  up_isPlatformAdmin :: "bool option option"

record jwt_args =
  ja_token :: jwt_token
  ja_user :: "auth_user option"
  ja_provider :: "string option"
  ja_profile :: "json option"
  ja_trigger :: "string option"
  ja_session :: "session_update option"

definition platformCheckRequest :: "env \<Rightarrow> string \<Rightarrow> http_request" where
  "platformCheckRequest E token =
     get_request (backendUrl E @ ''/api/v1/admin/platform/check'') (bearer token)"

definition checkPlatformAdmin :: "auth_user \<Rightarrow> bool option eff" where
  "checkPlatformAdmin user =
     try_catch
       (seq (createUserAdminToken (au_id user) (nullish (au_email user) []) (nullish (au_name user) []))
          (\<lambda>checkToken.
        seq (ask (\<lambda>E. platformCheckRequest E checkToken)) (\<lambda>rq.
        seq (fetch rq) (\<lambda>res.
        if rs_ok res
        then seq (response_json res) (\<lambda>data.
             seq (js_member data ''isPlatformAdmin'') (\<lambda>v. ret (cast_bool v)))
        else ret (Some False)))))
       (\<lambda>_. ret (Some False))"

text \<open>Property access on an array: an index or the length.\<close>

definition array_prop :: "json list \<Rightarrow> string \<Rightarrow> json option" where
  "array_prop xs k =
     (if k = ''length'' then Some (JNum (of_nat (length xs)))
      else map_option snd (find (\<lambda>(i, _). show_nat i = k) (zip [0..<length xs] xs)))"

fun claim_step :: "json option \<Rightarrow> string \<Rightarrow> json option" where
  "claim_step (Some (JObj kvs)) part = map_of kvs part"
| "claim_step (Some (JArr xs)) part = array_prop xs part"
| "claim_step _ part = None"

definition claim_at :: "json \<Rightarrow> string \<Rightarrow> json option" where
  "claim_at profile groupsClaim = foldl claim_step (Some profile) (split_on CHR ''.'' groupsClaim)"

definition groups_of :: "json option \<Rightarrow> string list option" where
  "groups_of v = (case v of
      Some (JArr xs) \<Rightarrow> Some (List.map_filter (\<lambda>x. jstr (Some x)) xs)
    | _ \<Rightarrow> None)"

definition withSignIn :: "auth_user option \<Rightarrow> jwt_token \<Rightarrow> jwt_token eff" where
  "withSignIn u token = (case u of
      None \<Rightarrow> ret token
    | Some user \<Rightarrow>
        seq (checkPlatformAdmin user) (\<lambda>flag.
        ret (token\<lparr>jt_sub := Some (au_id user), jt_email := au_email user, jt_name := au_name user,
                   jt_isPlatformAdmin := flag\<rparr>)))"

definition withGroups :: "string option \<Rightarrow> json option \<Rightarrow> jwt_token \<Rightarrow> jwt_token eff" where
  "withGroups prov profile token =
     (if prov = Some ''oidc'' \<and> profile \<noteq> None
      then seq getResolvedOIDC (\<lambda>cfg.
           if truthy (map_option oidc_groupsClaim cfg)
           then (case groups_of (claim_at (the profile) (oidc_groupsClaim (the cfg))) of
                   Some gs \<Rightarrow> ret (token\<lparr>jt_groups := Some gs\<rparr>)
                 | None \<Rightarrow> ret token)
           else ret token)
      else ret token)"

definition withUpdate :: "string option \<Rightarrow> session_update option \<Rightarrow> jwt_token \<Rightarrow> jwt_token" where
  "withUpdate trigger s token =
     (let org = Option.bind s up_activeOrgId; adm = Option.bind s up_isPlatformAdmin;
          token1 = (if trigger = Some ''update'' \<and> org \<noteq> None
                    then token\<lparr>jt_activeOrgId := the org\<rparr> else token)
      in if trigger = Some ''update'' \<and> adm \<noteq> None
         then token1\<lparr>jt_isPlatformAdmin := the adm\<rparr> else token1)"

definition jwt_callback :: "jwt_args \<Rightarrow> jwt_token eff" where
  "jwt_callback a =
     seq (withSignIn (ja_user a) (ja_token a)) (\<lambda>token.
     let token1 = (if truthy (ja_provider a) then token\<lparr>jt_provider := ja_provider a\<rparr> else token) in
     seq (withGroups (ja_provider a) (ja_profile a) token1) (\<lambda>token2.
     ret (withUpdate (ja_trigger a) (ja_session a) token2)))"

definition session_callback :: "session \<Rightarrow> jwt_token \<Rightarrow> session" where
  "session_callback s token =
     s\<lparr>s_user := map_option (\<lambda>u.
          \<lparr>su_id = Some (or_str (or_opt (jt_sub token) (su_email u)) ''admin-user''),
           su_email = or_opt (jt_email token) (su_email u),
           su_name = or_opt (jt_name token) (su_name u)\<rparr>) (s_user s),
       s_activeOrgId := jt_activeOrgId token,
       s_isPlatformAdmin := Some (nullish (jt_isPlatformAdmin token) False),
       s_provider := jt_provider token,
       s_groups := jt_groups token\<rparr>"

section \<open>What resolving the configuration sends, and that it never throws\<close>

text \<open>The only request the resolution makes: the internal one, with a system token.\<close>

definition is_oidc_refresh :: "http_request \<Rightarrow> bool" where
  "is_oidc_refresh rq \<longleftrightarrow> (\<exists>E token. rq = oidcProviderConfigRequest E token)"

lemma pure_createSystemToken [simp]: "pure_eff createSystemToken"
  by (simp add: createSystemToken_def pure_eff_def eff_simps)

lemma pure_createUserAdminToken [simp]: "pure_eff (createUserAdminToken i e n)"
  by (simp add: createUserAdminToken_def pure_eff_def eff_simps)

lemma pure_readCache [simp]: "pure_eff (readCache now)"
  by (simp add: pure_eff_def readCache_def)

lemma sends_readCache [simp]: "sends P (readCache now)"
  by (simp add: sends_pure)

lemma sends_storeOIDC [sends_intros]: "sends P (storeOIDC c e)"
  by (simp add: sends_def storeOIDC_def)

lemma sends_ask_fetch:
  "(\<And>E. P (f E)) \<Longrightarrow> (\<And>r. sends P (k r)) \<Longrightarrow> sends P (seq (ask f) (\<lambda>rq. seq (fetch rq) k))"
proof -
  assume P: "\<And>E. P (f E)" and k: "\<And>r. sends P (k r)"
  have "seq (ask f) (\<lambda>rq. seq (fetch rq) k) = (\<lambda>E w. seq (fetch (f E)) k E w)"
    by (simp add: fun_eq_iff seq_def ask_def)
  moreover have "\<And>E. sends P (seq (fetch (f E)) k)"
    by (intro sends_seq sends_fetch P k)
  ultimately show ?thesis by (auto simp: sends_def)
qed

lemma sends_fetchOIDC [sends_intros]: "sends is_oidc_refresh fetchOIDCProviderConfig"
  unfolding fetchOIDCProviderConfig_def
  by (intro sends_try sends_seq [OF sends_pure [OF pure_createSystemToken]] sends_ask_fetch)
     (auto simp: is_oidc_refresh_def intro!: sends_seq)

lemma returns_fetchOIDC: "returns fetchOIDCProviderConfig"
  unfolding fetchOIDCProviderConfig_def by (rule returns_try) simp

lemma sends_resolve [sends_intros]: "sends is_oidc_refresh resolveOIDCConfig"
  unfolding resolveOIDCConfig_def
  by (rule sends_seq [OF sends_fetchOIDC]) (auto intro: sends_pure split: option.splits)

lemma returns_resolve: "returns resolveOIDCConfig"
  unfolding resolveOIDCConfig_def
  by (rule returns_seq [OF returns_fetchOIDC]) (auto split: option.splits)

lemma sends_getResolvedOIDC [sends_intros]: "sends is_oidc_refresh getResolvedOIDC"
  unfolding getResolvedOIDC_def
  by (auto intro!: sends_seq sends_resolve sends_storeOIDC intro: sends_pure split: option.splits)

lemma returns_storeOIDC: "returns (storeOIDC c e)"
  by (simp add: returns_def storeOIDC_def)

lemma returns_getResolvedOIDC: "returns getResolvedOIDC"
proof -
  have "returns (readCache n)" for n by (simp add: returns_def readCache_def)
  then show ?thesis
    unfolding getResolvedOIDC_def
    by (auto intro!: returns_seq returns_resolve returns_storeOIDC split: option.splits)
qed

lemma sends_auth [sends_intros]: "sends is_oidc_refresh auth"
  unfolding auth_def getAuthOptions_def buildAuthOptions_def
  by (auto intro!: sends_seq sends_getResolvedOIDC intro: sends_pure)

lemma returns_getAuthOptions: "returns getAuthOptions"
  unfolding getAuthOptions_def buildAuthOptions_def
  by (intro returns_seq returns_getResolvedOIDC returns_ask)

lemma returns_auth: "returns auth"
  unfolding auth_def getAuthOptions_def buildAuthOptions_def
  by (intro returns_seq returns_getResolvedOIDC returns_ask)

text \<open>The session a request runs with, and the world after NextAuth has been asked for it.\<close>

definition auth_result :: "env \<Rightarrow> world \<Rightarrow> session option" where
  "auth_result E w = (case fst (auth E w) of Done s \<Rightarrow> s | Threw _ \<Rightarrow> None)"

definition auth_world :: "env \<Rightarrow> world \<Rightarrow> world" where
  "auth_world E w = snd (auth E w)"

lemma auth_run: "auth E w = (Done (auth_result E w), auth_world E w)"
proof -
  obtain a w' where "auth E w = (Done a, w')"
    using returns_auth unfolding returns_def by blast
  then show ?thesis by (simp add: auth_result_def auth_world_def)
qed

text \<open>Whoever NextAuth reports as signed in, whatever the options, is the session of the request.\<close>

lemma auth_result_const:
  assumes "\<And>ops. getServerSession E ops = s"
  shows "auth_result E w = s"
proof -
  obtain ops w' where "getAuthOptions E w = (Done ops, w')"
    using returns_getAuthOptions unfolding returns_def by blast
  with assms show ?thesis by (simp add: auth_result_def auth_def seq_def ask_def)
qed

lemma auth_world_sent:
  "\<exists>rqs. w_sent (auth_world E w) = w_sent w @ rqs \<and> (\<forall>rq \<in> set rqs. is_oidc_refresh rq)"
  using sendsD [OF sends_auth, of E w] by (simp add: auth_world_def)

section \<open>Running the callbacks\<close>

lemma withUpdate_no_update [simp]: "trigger \<noteq> Some ''update'' \<Longrightarrow> withUpdate trigger s t = t"
  by (simp add: withUpdate_def Let_def)

lemma withGroups_flag:
  "withGroups prov profile t E w = (Done t', w') \<Longrightarrow>
     jt_isPlatformAdmin t' = jt_isPlatformAdmin t \<and> jt_sub t' = jt_sub t"
  by (auto simp: withGroups_def seq_def ret_def split: if_splits prod.splits outcome.splits option.splits)

text \<open>The token a sign-in check is made with.\<close>

definition sign_in_token :: "env \<Rightarrow> world \<Rightarrow> auth_user \<Rightarrow> string" where
  "sign_in_token E w user =
     jwt_sign E (backendJwtSecret E)
       (userAdminClaims (au_id user) (nullish (au_email user) []) (nullish (au_name user) [])
          (time_at E (length (w_sent w))))"

definition confirms_admin :: "fetch_result \<Rightarrow> bool" where
  "confirms_admin r \<longleftrightarrow> (\<exists>rs j. r = Responded rs \<and> rs_ok rs \<and> rs_json rs = Inr j
     \<and> jprop j ''isPlatformAdmin'' = Some (JBool True))"

lemma checkPlatformAdmin_run:
  "\<exists>flag w'. checkPlatformAdmin user E w = (Done flag, w')
     \<and> (flag = Some True \<longleftrightarrow>
          confirms_admin (backend E (w_sent w) (platformCheckRequest E (sign_in_token E w user))))"
proof (cases "backend E (w_sent w) (platformCheckRequest E (sign_in_token E w user))")
  case (NetworkError m)
  then show ?thesis
    by (simp add: checkPlatformAdmin_def createUserAdminToken_def eff_simps sign_in_token_def confirms_admin_def Let_def)
next
  case (Responded rs)
  show ?thesis
  proof (cases "rs_json rs")
    case (Inl m)
    with Responded show ?thesis
      by (simp add: checkPlatformAdmin_def createUserAdminToken_def eff_simps sign_in_token_def
          confirms_admin_def response_json_def Let_def)
  next
    case (Inr j)
    have "cast_bool v = Some True \<longleftrightarrow> v = Some (JBool True)" for v
      by (cases v rule: cast_bool.cases) auto
    with Responded Inr show ?thesis
      by (cases j) (auto simp: checkPlatformAdmin_def createUserAdminToken_def eff_simps sign_in_token_def
          confirms_admin_def response_json_def js_member_def Let_def)
  qed
qed

section \<open>Properties\<close>

text \<open>C5: Signing in makes a session a platform admin exactly when the backend, asked with a token
  minted for that very user, answers with a success status and \<open>isPlatformAdmin: true\<close>; every
  failure of the check leaves the flag down.\<close>

theorem sign_in_admin_iff_backend_confirms:
  assumes "ja_user a = Some user" and "ja_trigger a \<noteq> Some ''update''"
    and "jwt_callback a E w = (Done t, w')"
  shows "jt_sub t = Some (au_id user)
       \<and> (jt_isPlatformAdmin t = Some True \<longleftrightarrow>
            confirms_admin (backend E (w_sent w) (platformCheckRequest E (sign_in_token E w user))))"
proof -
  obtain flag w1 where chk: "checkPlatformAdmin user E w = (Done flag, w1)"
    "flag = Some True \<longleftrightarrow>
       confirms_admin (backend E (w_sent w) (platformCheckRequest E (sign_in_token E w user)))"
    using checkPlatformAdmin_run by blast
  with assms obtain t0 where "withGroups (ja_provider a) (ja_profile a) t0 E w1 = (Done t, w')"
    "jt_isPlatformAdmin t0 = flag" "jt_sub t0 = Some (au_id user)"
    by (fastforce simp: jwt_callback_def withSignIn_def seq_def ret_def Let_def
        split: prod.splits outcome.splits if_splits)
  with chk(2) show ?thesis by (simp add: withGroups_flag)
qed

text \<open>The session data a client passes to \<open>update()\<close> sets the platform-admin flag and the
  active organisation of the token unchecked and without any call to the backend.\<close>

theorem session_update_sets_admin_flag:
  "jwt_callback \<lparr>ja_token = token, ja_user = None, ja_provider = None, ja_profile = None,
                 ja_trigger = Some ''update'',
                 ja_session = Some \<lparr>up_activeOrgId = Some org, up_isPlatformAdmin = Some (Some flag)\<rparr>\<rparr> E w
   = (Done (token\<lparr>jt_activeOrgId := org, jt_isPlatformAdmin := Some flag\<rparr>), w)
   \<and> s_isPlatformAdmin (session_callback s (token\<lparr>jt_activeOrgId := org, jt_isPlatformAdmin := Some flag\<rparr>))
     = Some flag"
  by (simp add: jwt_callback_def withSignIn_def withGroups_def withUpdate_def session_callback_def eff_simps Let_def)

text \<open>When no backend call succeeds and the environment configures no provider, an expired
  cache is overwritten with \<open>null\<close> and stays so for a full TTL: a transient backend failure
  switches single sign-on off for a minute, although the code announces that on an error the last
  known value is kept and the retry comes sooner.\<close>

theorem backend_failure_disables_oidc:
  assumes "w_oidcExpiry w \<le> time_at E (length (w_sent w))" and "envOIDCConfig E = None"
    and "\<And>h rq rs. backend E h rq = Responded rs \<Longrightarrow> \<not> rs_ok rs"
  shows "\<exists>w'. getResolvedOIDC E w = (Done None, w') \<and> w_oidcValue w' = None
     \<and> w_oidcExpiry w' = time_at E (length (w_sent w')) + 60000"
proof -
  have "\<exists>w1. resolveOIDCConfig E w = (Done None, w1)"
    using assms(2,3)
    by (auto simp: resolveOIDCConfig_def fetchOIDCProviderConfig_def createSystemToken_def eff_simps Let_def
        split: fetch_result.splits)
  then obtain w1 where "resolveOIDCConfig E w = (Done None, w1)" ..
  with assms(1) show ?thesis
    by (simp add: getResolvedOIDC_def eff_simps readCache_def cachedOIDC_def storeOIDC_def OIDC_TTL_MS_def)
qed

text \<open>A concrete environment for the witnesses: no settings, an unreachable backend.\<close>

definition dead_env :: env where
  "dead_env = \<lparr>process_env = (\<lambda>_. None), backend = (\<lambda>_ _. NetworkError ''fetch failed''),
               time_at = (\<lambda>n. 1000 + int n), jwt_sign = (\<lambda>_ _. ''jwt''),
               getServerSession = (\<lambda>_. None), next_headers = None, load_time_iso = []\<rparr>"

definition example_config :: ResolvedOIDCConfig where
  "example_config = \<lparr>oidc_issuer = ''https://idp'', oidc_clientId = ''id'', oidc_clientSecret = ''s'',
                     oidc_displayName = ''IdP'', oidc_groupsClaim = ''groups'', oidc_enabled = True\<rparr>"

definition example_world :: world where
  "example_world = \<lparr>w_oidcValue = Some example_config, w_oidcExpiry = 1000, w_sent = []\<rparr>"

theorem backend_failure_disables_oidc_witness:
  "\<exists>w'. getResolvedOIDC dead_env example_world = (Done None, w') \<and> w_oidcValue w' = None
     \<and> w_oidcExpiry w' = time_at dead_env (length (w_sent w')) + 60000"
  by (rule backend_failure_disables_oidc)
     (simp_all add: dead_env_def example_world_def envOIDCConfig_def)

theorem sign_in_admin_iff_backend_confirms_witness:
  "\<exists>t w'. jwt_callback \<lparr>ja_token = \<lparr>jt_sub = None, jt_email = None, jt_name = None,
       jt_isPlatformAdmin = None, jt_provider = None, jt_groups = None, jt_activeOrgId = None\<rparr>,
     ja_user = Some \<lparr>au_id = ''u1'', au_email = None, au_name = None\<rparr>, ja_provider = None,
     ja_profile = None, ja_trigger = Some ''signIn'', ja_session = None\<rparr> dead_env example_world = (Done t, w')
     \<and> jt_sub t = Some ''u1'' \<and> jt_isPlatformAdmin t \<noteq> Some True"
  (is "\<exists>t w'. jwt_callback ?a _ _ = _ \<and> _")
proof -
  have "\<exists>t w'. jwt_callback ?a dead_env example_world = (Done t, w')"
    by (simp add: jwt_callback_def withSignIn_def withGroups_def checkPlatformAdmin_def
        createUserAdminToken_def eff_simps dead_env_def Let_def)
  then obtain t w' where run: "jwt_callback ?a dead_env example_world = (Done t, w')" by blast
  have "\<not> confirms_admin (backend dead_env h rq)" for h rq
    by (simp add: confirms_admin_def dead_env_def)
  with sign_in_admin_iff_backend_confirms [OF _ _ run] run show ?thesis by auto
qed

text \<open>A profile in which a value sits at the end of a path.\<close>

fun nest :: "string list \<Rightarrow> json \<Rightarrow> json" where
  "nest [] v = v"
| "nest (p # ps) v = JObj [(p, nest ps v)]"

lemma foldl_claim_nest: "foldl claim_step (Some (nest ps v)) ps = Some v"
  by (induction ps) auto

lemma split_join_dots:
  "ps \<noteq> [] \<Longrightarrow> \<forall>p \<in> set ps. c \<notin> set p \<Longrightarrow> split_on c (join_with [c] ps) = ps"
proof (induction ps rule: induct_list012)
  case (3 p q ps)
  then show ?case by (simp add: split_on_append_sep)
qed (auto simp: split_on_no_sep)

text \<open>C18: Group claims are read along the dotted path the provider configuration names: from a
  profile that nests a list of strings under the path's parts, exactly that list is extracted.\<close>

theorem groups_claim_roundtrip:
  assumes "ps \<noteq> []" and "\<forall>p \<in> set ps. CHR ''.'' \<notin> set p"
  shows "groups_of (claim_at (nest ps (JArr (map JStr gs))) (join_with ''.'' ps)) = Some gs"
proof -
  have "List.map_filter (\<lambda>x. jstr (Some x)) (map JStr gs) = gs"
    by (induction gs) (simp_all add: List.map_filter_def)
  then show ?thesis
    by (simp add: claim_at_def split_join_dots [OF assms] foldl_claim_nest groups_of_def)
qed

theorem groups_claim_roundtrip_witness:
  "groups_of (claim_at (nest [''realm_access'', ''roles''] (JArr (map JStr [''ops'', ''dev''])))
      (join_with ''.'' [''realm_access'', ''roles''])) = Some [''ops'', ''dev'']"
  by (rule groups_claim_roundtrip) simp_all

end
