(* ===== verification/Machines.thy ===== *)
theory Machines
  imports Main
begin

text \<open>
  Labelled step relations, the states they reach and the contract of an invariant. The OIDC
  cache and the event-stream components are such machines.
\<close>

inductive reach :: "('s \<Rightarrow> bool) \<Rightarrow> ('s \<Rightarrow> 'e \<Rightarrow> 's \<Rightarrow> bool) \<Rightarrow> 's \<Rightarrow> bool" for init step where
  reach_init: "init s \<Longrightarrow> reach init step s"
| reach_step: "reach init step s \<Longrightarrow> step s e t \<Longrightarrow> reach init step t"

text \<open>\<open>run step s es t\<close>: the events \<open>es\<close>, in this order, lead from \<open>s\<close> to \<open>t\<close>.\<close>

inductive run :: "('s \<Rightarrow> 'e \<Rightarrow> 's \<Rightarrow> bool) \<Rightarrow> 's \<Rightarrow> 'e list \<Rightarrow> 's \<Rightarrow> bool" for step where
  run_Nil [intro, simp]: "run step s [] s"
| run_Cons: "step s e t \<Longrightarrow> run step t es u \<Longrightarrow> run step s (e # es) u"

inductive_simps run_Nil_simp [simp]: "run step s [] t"
inductive_simps run_Cons_simp: "run step s (e # es) t"

lemma run_reach: "run step s es t \<Longrightarrow> reach init step s \<Longrightarrow> reach init step t"
  by (induction rule: run.induct) (auto intro: reach_step)

lemma run_append: "run step s es t \<Longrightarrow> run step t fs u \<Longrightarrow> run step s (es @ fs) u"
  by (induction rule: run.induct) (auto intro: run_Cons)

locale invariant =
  fixes init :: "'s \<Rightarrow> bool" and step :: "'s \<Rightarrow> 'e \<Rightarrow> 's \<Rightarrow> bool" and inv :: "'s \<Rightarrow> bool"
  assumes init_inv: "init s \<Longrightarrow> inv s"
    and step_inv: "step s e t \<Longrightarrow> inv s \<Longrightarrow> inv t"
begin

lemma run_inv: "run step s es t \<Longrightarrow> inv s \<Longrightarrow> inv t"
  by (induction rule: run.induct) (auto intro: step_inv)

lemma reach_inv: "reach init step s \<Longrightarrow> inv s"
  by (induction rule: reach.induct) (auto intro: init_inv step_inv)

end

end
