(* ===== verification/OidcCache.thy ===== *)
theory OidcCache
  imports Auth Machines
begin

text \<open>
  The OIDC cache of \<open>lib/auth.ts\<close> under interleaving. The state is what \<open>globalThis\<close> holds (the
  value, its expiry and the pending promise) together with the refreshes in flight, the clock and
  what \<open>resolveOIDCConfig\<close> would resolve to at the moment (\<open>os_db\<close>: the saved configuration, or
  the fallback from the environment). A refresh is started by a call, answered when the backend
  reads the saved configuration, and finished when the promise's handlers run; calls of other
  requests, saving a configuration and \<open>bustOIDCCache\<close> may happen in between.
\<close>

section \<open>State and operations\<close>

type_synonym config = "ResolvedOIDCConfig option"

text \<open>A refresh in flight: not yet answered, or settled and waiting for its handlers.\<close>

type_synonym job = "config outcome option"

record oidc_state =
  os_now :: int
  os_db :: config
  os_value :: config
  os_expiry :: int
  os_pending :: "nat option"
  os_jobs :: "nat \<rightharpoonup> job"
  os_next :: nat

datatype call_result = Serve config | Await nat

definition start_refresh :: "oidc_state \<Rightarrow> oidc_state" where
  "start_refresh s = s\<lparr>os_pending := Some (os_next s), os_jobs := (os_jobs s)(os_next s \<mapsto> None),
                      os_next := Suc (os_next s)\<rparr>"

definition call_oidc :: "oidc_state \<Rightarrow> call_result \<times> oidc_state" where
  "call_oidc s =
     (if os_now s < os_expiry s then (Serve (os_value s), s)
      else (case os_pending s of
              Some n \<Rightarrow> (Await n, s)
            | None \<Rightarrow> (Await (os_next s), start_refresh s)))"

text \<open>The handlers chained to the refresh with \<open>.then\<close> and \<open>.catch\<close>, and the value they give.\<close>

definition then_handler :: "config \<Rightarrow> oidc_state \<Rightarrow> oidc_state" where
  "then_handler cfg s = s\<lparr>os_value := cfg, os_expiry := os_now s + OIDC_TTL_MS, os_pending := None\<rparr>"

definition catch_handler :: "oidc_state \<Rightarrow> oidc_state" where
  "catch_handler s = s\<lparr>os_expiry := os_now s + 10000, os_pending := None\<rparr>"

definition run_handlers :: "config outcome \<Rightarrow> oidc_state \<Rightarrow> config \<times> oidc_state" where
  "run_handlers out s = (case out of
      Done cfg \<Rightarrow> (cfg, then_handler cfg s)
    | Threw _ \<Rightarrow> (os_value s, catch_handler s))"

definition bust :: "oidc_state \<Rightarrow> oidc_state" where
  "bust s = s\<lparr>os_expiry := 0, os_pending := None\<rparr>"

section \<open>Steps\<close>

datatype oidc_event =
    Tick int
  | Save config
  | Call call_result
  | Answer nat
  | Finish nat config
  | Bust

text \<open>
  An answered refresh is settled with \<open>Done\<close>: by \<open>returns_resolve\<close> of theory Auth the resolver
  has no other outcome.
\<close>

inductive oidc_step :: "oidc_state \<Rightarrow> oidc_event \<Rightarrow> oidc_state \<Rightarrow> bool" where
  tick: "0 \<le> d \<Longrightarrow> oidc_step s (Tick d) (s\<lparr>os_now := os_now s + d\<rparr>)"
| save: "oidc_step s (Save cfg) (s\<lparr>os_db := cfg\<rparr>)"
| call: "call_oidc s = (r, t) \<Longrightarrow> oidc_step s (Call r) t"
| answer: "os_jobs s n = Some None \<Longrightarrow>
     oidc_step s (Answer n) (s\<lparr>os_jobs := (os_jobs s)(n \<mapsto> Some (Done (os_db s)))\<rparr>)"
| finish: "os_jobs s n = Some (Some out) \<Longrightarrow> run_handlers out s = (v, t) \<Longrightarrow>
     oidc_step s (Finish n v) (t\<lparr>os_jobs := (os_jobs t)(n := None)\<rparr>)"
| bust: "oidc_step s Bust (bust s)"

inductive_cases oidc_stepE: "oidc_step s e t"
inductive_simps oidc_Call_simp: "oidc_step s (Call r) t"
inductive_simps oidc_Answer_simp: "oidc_step s (Answer n) t"
inductive_simps oidc_Finish_simp: "oidc_step s (Finish n v) t"
inductive_simps oidc_Bust_simp: "oidc_step s Bust t"
inductive_simps oidc_Save_simp: "oidc_step s (Save c) t"
inductive_simps oidc_Tick_simp: "oidc_step s (Tick d) t"

lemmas oidc_step_simps =
  oidc_Call_simp oidc_Answer_simp oidc_Finish_simp oidc_Bust_simp oidc_Save_simp oidc_Tick_simp

lemmas oidc_op_defs =
  call_oidc_def start_refresh_def run_handlers_def then_handler_def catch_handler_def bust_def

definition oidc_init :: "oidc_state \<Rightarrow> bool" where
  "oidc_init s \<longleftrightarrow> 0 \<le> os_now s \<and> os_value s = None \<and> os_expiry s = 0 \<and> os_pending s = None
     \<and> os_jobs s = Map.empty"

section \<open>Invariants of every interleaving\<close>

text \<open>
  Time is not negative, an entry never outlives the TTL, the pending promise is a refresh in
  flight, every settled refresh resolved, numbers of started refreshes are below the counter.
\<close>

definition oidc_inv :: "oidc_state \<Rightarrow> bool" where
  "oidc_inv s \<longleftrightarrow>
     0 \<le> os_now s \<and> os_expiry s \<le> os_now s + OIDC_TTL_MS
     \<and> (\<forall>n. os_pending s = Some n \<longrightarrow> n \<in> dom (os_jobs s))
     \<and> (\<forall>n out. os_jobs s n = Some (Some out) \<longrightarrow> (\<exists>cfg. out = Done cfg))
     \<and> (\<forall>n \<in> dom (os_jobs s). n < os_next s)"

lemma oidc_inv_step: "oidc_step s e t \<Longrightarrow> oidc_inv s \<Longrightarrow> oidc_inv t"
proof (induction rule: oidc_step.induct)
  case (call s r t)
  then show ?case
    by (auto simp: oidc_inv_def oidc_op_defs less_Suc_eq split: if_splits option.splits)
next
  case (finish s n out v t)
  then obtain cfg where "out = Done cfg" unfolding oidc_inv_def by blast
  with finish show ?case
    by (auto simp: oidc_inv_def oidc_op_defs OIDC_TTL_MS_def split: if_splits)
qed (auto simp: oidc_inv_def bust_def OIDC_TTL_MS_def split: if_splits)

lemma oidc_inv_init: "oidc_init s \<Longrightarrow> oidc_inv s"
  by (simp add: oidc_init_def oidc_inv_def OIDC_TTL_MS_def)

interpretation oidc: invariant oidc_init oidc_step oidc_inv
  by unfold_locales (rule oidc_inv_init, assumption, rule oidc_inv_step)

section \<open>Single flight as long as the cache is not busted\<close>

definition single_flight :: "oidc_state \<Rightarrow> bool" where
  "single_flight s \<longleftrightarrow> dom (os_jobs s) = set_option (os_pending s) \<and> (\<forall>n \<in> dom (os_jobs s). n < os_next s)"

definition unbusted_step :: "oidc_state \<Rightarrow> oidc_event \<Rightarrow> oidc_state \<Rightarrow> bool" where
  "unbusted_step s e t \<longleftrightarrow> oidc_step s e t \<and> e \<noteq> Bust"

lemma single_flight_step: "oidc_step s e t \<Longrightarrow> e \<noteq> Bust \<Longrightarrow> single_flight s \<Longrightarrow> single_flight t"
proof (induction rule: oidc_step.induct)
  case (finish s n out v t)
  then have "n \<in> dom (os_jobs s)" by blast
  with finish have "dom (os_jobs s) = {n}" by (cases "os_pending s") (auto simp: single_flight_def)
  with finish show ?case
    by (auto simp: single_flight_def oidc_op_defs split: outcome.splits)
qed (auto simp: single_flight_def oidc_op_defs less_Suc_eq split: if_splits option.splits)

lemma single_flight_init: "oidc_init s \<Longrightarrow> single_flight s"
  by (simp add: oidc_init_def single_flight_def)

interpretation unbusted: invariant oidc_init unbusted_step single_flight
  by unfold_locales
    (rule single_flight_init, assumption, unfold unbusted_step_def, blast intro: single_flight_step)

section \<open>Freshness after a bust\<close>

text \<open>Everything cached or about to be cached is the current configuration.\<close>

definition fresh :: "oidc_state \<Rightarrow> bool" where
  "fresh s \<longleftrightarrow> 0 \<le> os_now s
     \<and> (os_now s < os_expiry s \<longrightarrow> os_value s = os_db s)
     \<and> (\<forall>n out. os_jobs s n = Some (Some out) \<longrightarrow> out = Done (os_db s))"

lemma fresh_call: "call_oidc s = (r, t) \<Longrightarrow> fresh s \<Longrightarrow> fresh t"
  by (auto simp: fresh_def call_oidc_def start_refresh_def split: if_splits option.splits)

lemma fresh_finish:
  assumes "os_jobs s n = Some (Some out)" "run_handlers out s = (v, t)" "fresh s"
  shows "fresh (t\<lparr>os_jobs := (os_jobs t)(n := None)\<rparr>)"
proof -
  from assms(1,3) have out: "out = Done (os_db s)" unfolding fresh_def by blast
  then have t: "t = then_handler (os_db s) s" using assms(2) by (auto simp: run_handlers_def)
  show ?thesis using assms(3) unfolding t fresh_def then_handler_def by simp
qed

lemma fresh_answer:
  "fresh s \<Longrightarrow> fresh (s\<lparr>os_jobs := (os_jobs s)(n \<mapsto> Some (Done (os_db s)))\<rparr>)"
  by (simp add: fresh_def)

lemma fresh_tick: "0 \<le> d \<Longrightarrow> fresh s \<Longrightarrow> fresh (s\<lparr>os_now := os_now s + d\<rparr>)"
  by (simp add: fresh_def)

lemma fresh_bust: "fresh s \<Longrightarrow> fresh (bust s)"
  by (simp add: fresh_def bust_def)

lemma fresh_step: "oidc_step s e t \<Longrightarrow> (\<forall>cfg. e \<noteq> Save cfg) \<Longrightarrow> fresh s \<Longrightarrow> fresh t"
  by (erule oidc_stepE)
     (simp_all add: fresh_tick fresh_call fresh_answer fresh_finish fresh_bust)

lemma fresh_run:
  "run oidc_step s es t \<Longrightarrow> (\<forall>cfg. Save cfg \<notin> set es) \<Longrightarrow> fresh s \<Longrightarrow> fresh t"
proof (induction rule: run.induct)
  case (run_Cons s e t es u)
  then have "fresh t" using fresh_step by (metis list.set_intros(1))
  with run_Cons show ?case by simp
qed simp

lemma db_run: "run oidc_step s es t \<Longrightarrow> (\<forall>cfg. Save cfg \<notin> set es) \<Longrightarrow> os_db t = os_db s"
proof (induction rule: run.induct)
  case (run_Cons s e t es u)
  from run_Cons.hyps(1) run_Cons.prems have "os_db t = os_db s"
    by (cases rule: oidc_stepE) (auto simp: oidc_op_defs split: if_splits option.splits outcome.splits)
  with run_Cons show ?case by simp
qed simp

lemma fresh_serves: "fresh s \<Longrightarrow> fst (call_oidc s) = Serve v \<Longrightarrow> v = os_db s"
  by (auto simp: fresh_def call_oidc_def split: if_splits option.splits)

lemma fresh_hands_out: "fresh s \<Longrightarrow> oidc_step s (Finish n v) t \<Longrightarrow> v = os_db s"
  unfolding oidc_step_simps fresh_def run_handlers_def by fastforce

lemma fresh_bust_quiet: "oidc_inv s \<Longrightarrow> os_jobs s = Map.empty \<Longrightarrow> fresh (bust s)"
  by (auto simp: fresh_def oidc_inv_def bust_def)

section \<open>Expiry and the sequential view\<close>

lemma expiry_unfinished:
  "run oidc_step s es t \<Longrightarrow> \<forall>n v. Finish n v \<notin> set es \<Longrightarrow> os_expiry t \<le> max 0 (os_expiry s)"
proof (induction rule: run.induct)
  case (run_Cons s e t es u)
  from run_Cons.hyps(1) run_Cons.prems have "os_expiry t \<le> max 0 (os_expiry s)"
    by (cases rule: oidc_stepE) (auto simp: oidc_op_defs split: if_splits option.splits)
  with run_Cons show ?case by (fastforce simp: le_max_iff_disj)
qed simp

text \<open>The cache of a world when nothing is in flight.\<close>

definition quiet_state :: "int \<Rightarrow> config \<Rightarrow> world \<Rightarrow> oidc_state" where
  "quiet_state now db w =
     \<lparr>os_now = now, os_db = db, os_value = w_oidcValue w, os_expiry = w_oidcExpiry w,
      os_pending = None, os_jobs = Map.empty, os_next = 0\<rparr>"

lemma getResolvedOIDC_hit:
  "time_at E (length (w_sent w)) < w_oidcExpiry w \<Longrightarrow> getResolvedOIDC E w = (Done (w_oidcValue w), w)"
  by (simp add: getResolvedOIDC_def eff_simps readCache_def cachedOIDC_def)

lemma getResolvedOIDC_miss:
  assumes "\<not> time_at E (length (w_sent w)) < w_oidcExpiry w" "getResolvedOIDC E w = (Done v, w')"
    and "fst (resolveOIDCConfig E w) = Done db"
  shows "v = db \<and> w_oidcValue w' = v \<and> w_oidcExpiry w' = time_at E (length (w_sent w')) + OIDC_TTL_MS"
  using assms
  by (auto simp: getResolvedOIDC_def eff_simps readCache_def cachedOIDC_def storeOIDC_def split: prod.splits)

section \<open>Properties\<close>

text \<open>Without a bust, concurrent callers share one refresh: while a refresh is in flight and
  nothing is cached, every further call waits for that refresh and starts none of its own.\<close>

theorem concurrent_calls_share_refresh:
  assumes "reach oidc_init unbusted_step s" and "n \<in> dom (os_jobs s)" and "os_expiry s \<le> os_now s"
  shows "call_oidc s = (Await n, s)"
proof -
  have "single_flight s" using assms(1) by (rule unbusted.reach_inv)
  with assms(2) have "os_pending s = Some n" by (auto simp: single_flight_def)
  with assms(3) show ?thesis by (simp add: call_oidc_def)
qed

text \<open>An example run used by the witnesses: the first call of a fresh process.\<close>

definition boot :: "config \<Rightarrow> oidc_state" where
  "boot cfg = \<lparr>os_now = 1, os_db = cfg, os_value = None, os_expiry = 0, os_pending = None,
              os_jobs = Map.empty, os_next = 0\<rparr>"

lemma boot_init: "oidc_init (boot cfg)"
  by (simp add: boot_def oidc_init_def)

lemma boot_reach: "reach oidc_init step (boot cfg)"
  by (rule reach_init) (rule boot_init)

theorem concurrent_calls_share_refresh_witness:
  "call_oidc (start_refresh (boot None)) = (Await 0, start_refresh (boot None))"
proof -
  have "unbusted_step (boot None) (Call (Await 0)) (start_refresh (boot None))"
    by (auto simp: unbusted_step_def oidc_step_simps call_oidc_def boot_def start_refresh_def)
  then have "reach oidc_init unbusted_step (start_refresh (boot None))"
    by (rule reach_step [OF boot_reach])
  then show ?thesis
    by (rule concurrent_calls_share_refresh) (simp_all add: boot_def start_refresh_def)
qed

text \<open>C16: A cached configuration is never served once 60 seconds have passed without a refresh
  finishing, whatever else was interleaved.\<close>

theorem cache_expires:
  assumes "reach oidc_init oidc_step s" and "run oidc_step s es t"
    and "\<forall>n v. Finish n v \<notin> set es" and "os_now s + 60000 \<le> os_now t"
  shows "\<exists>n. fst (call_oidc t) = Await n"
proof -
  have "os_expiry s \<le> os_now s + 60000"
    using oidc.reach_inv [OF assms(1)] by (simp add: oidc_inv_def OIDC_TTL_MS_def)
  moreover have "os_expiry t \<le> max 0 (os_expiry s)"
    using assms(2,3) by (rule expiry_unfinished)
  moreover have "0 \<le> os_now s"
    using oidc.reach_inv [OF assms(1)] by (simp add: oidc_inv_def)
  ultimately have "os_expiry t \<le> os_now t" using assms(4) by linarith
  then show ?thesis by (auto simp: call_oidc_def split: option.splits)
qed

theorem cache_expires_witness:
  "\<exists>n. fst (call_oidc ((boot None)\<lparr>os_now := 60001\<rparr>)) = Await n"
proof -
  have "run oidc_step (boot None) [Tick 60000] ((boot None)\<lparr>os_now := 60001\<rparr>)"
    by (auto simp: run_Cons_simp oidc_step_simps boot_def)
  then show ?thesis
    by (rule cache_expires [OF boot_reach]) (simp_all add: boot_def)
qed



text \<open>A bust while a refresh is in flight is lost: the refresh that had read the old
  configuration finishes after the bust, its handler stores the old value for a full TTL, and
  calls are served the old configuration up to a minute after the new one was saved.\<close>

theorem bust_during_refresh_is_lost:
  "\<exists>s t. oidc_init s
     \<and> run oidc_step s [Call (Await 0), Answer 0, Save new, Bust, Finish 0 old, Tick 59999] t
     \<and> os_db t = new \<and> call_oidc t = (Serve old, t)"
  unfolding run_Cons_simp oidc_step_simps
  by (rule exI [of _ "boot old"])
     (simp add: boot_init, simp add: boot_def oidc_op_defs OIDC_TTL_MS_def)



end
