(* ===== verification/ProxyGate.thy ===== *)
theory ProxyGate
  imports Auth
begin

text \<open>
  \<open>proxy.ts\<close>: the gate in front of every page and API route. Public paths pass; every other path
  needs a NextAuth token, and without one the browser is sent to the sign-in page with the place
  to come back to. NextAuth's \<open>getToken\<close> is a parameter.
\<close>

record page_request =
  pr_origin :: string
  pr_pathname :: string
  pr_search :: string

datatype proxy_result = NextResponse_next | Redirect string

definition public_path :: "string \<Rightarrow> bool" where
  "public_path pathname \<longleftrightarrow>
     pathname = ''/signin'' \<or> pathname = ''/setup'' \<or> starts_with ''/api/auth'' pathname
     \<or> starts_with ''/api/setup'' pathname \<or> starts_with ''/app/'' pathname
     \<or> starts_with ''/_next'' pathname \<or> pathname = ''/favicon.ico''"

text \<open>\<open>new URL("/signin", request.url)\<close> with the search parameter \<open>callbackUrl\<close>.\<close>

definition signInURL :: "page_request \<Rightarrow> string" where
  "signInURL rq =
     (let callbackUrl = pr_pathname rq @ pr_search rq in
      pr_origin rq @ ''/signin?'' @
      params_toString [(''callbackUrl'', if callbackUrl = [] then ''/'' else callbackUrl)])"

definition proxy :: "(string \<Rightarrow> page_request \<Rightarrow> bool) \<Rightarrow> env \<Rightarrow> page_request \<Rightarrow> proxy_result" where
  "proxy getToken E rq =
     (if public_path (pr_pathname rq) then NextResponse_next
      else if getToken (authSecret E) rq then NextResponse_next
      else Redirect (signInURL rq))"

section \<open>Properties\<close>



text \<open>The invite preview, documented as a public endpoint for people who have no account yet,
  is not on the gate's list: without a token its path is redirected to the sign-in page.\<close>

theorem invite_preview_is_gated:
  "proxy (\<lambda>_ _. False) E \<lparr>pr_origin = o', pr_pathname = ''/api/invite-preview'', pr_search = q\<rparr>
     = Redirect (signInURL \<lparr>pr_origin = o', pr_pathname = ''/api/invite-preview'', pr_search = q\<rparr>)"
  by (simp add: proxy_def public_path_def starts_with_def)

end
