(* ===== verification/BackendServer.thy ===== *)
theory BackendServer
  imports Auth
begin

text \<open>
  \<open>lib/backend-server.ts\<close> and \<open>lib/backend-admin-token.ts\<close>: the base URLs, the token a
  session is exchanged for and the headers of a call to the admin API.
\<close>

section \<open>Base URLs\<close>

definition getBackendBaseUrl :: "env \<Rightarrow> string" where
  "getBackendBaseUrl E = backendUrl E"

definition getPublicBaseUrl :: "env \<Rightarrow> string" where
  "getPublicBaseUrl E = or_str (map_option strip_slash (process_env E ''NEXTAUTH_URL'')) []"

definition getPublicBackendUrl :: "env \<Rightarrow> string" where
  "getPublicBackendUrl E =
     or_str (map_option strip_slash (process_env E ''JUST_GATE_PUBLIC_BACKEND_URL''))
       (if getPublicBaseUrl E \<noteq> [] then getPublicBaseUrl E else getBackendBaseUrl E)"

section \<open>The backend token of a session\<close>

definition session_subject :: "session \<Rightarrow> string option" where
  "session_subject s = or_opt (Option.bind (s_user s) su_id) (Option.bind (s_user s) su_email)"

definition sessionClaims :: "session \<Rightarrow> string \<Rightarrow> int \<Rightarrow> jwt_claims" where
  "sessionClaims s subject now =
     (base_claims subject now 300)
       \<lparr>jc_email := Option.bind (s_user s) su_email, jc_name := Option.bind (s_user s) su_name,
        jc_source := Some (if s_provider s = Some ''oidc'' then ''oidc'' else ''local''),
        jc_groups := (case s_groups s of
                        Some (g # gs) \<Rightarrow> Some (g # gs)
                      | _ \<Rightarrow> None)\<rparr>"

definition createBackendAdminToken :: "session \<Rightarrow> string eff" where
  "createBackendAdminToken s =
     (if \<not> truthy (session_subject s) then throw (Error ''missing session subject'')
      else seq date_now (\<lambda>now.
           ask (\<lambda>E. jwt_sign E (backendJwtSecret E) (sessionClaims s (the (session_subject s)) now))))"

section \<open>Headers of an admin call\<close>

definition user_id_of :: "session option \<Rightarrow> string option" where
  "user_id_of s = Option.bind (Option.bind s s_user) su_id"

text \<open>
  \<open>nextHeaders()\<close>, or the headers passed in; outside a request it throws and the handler of
  the surrounding \<open>try\<close> leaves the headers as they are.
\<close>

definition request_headers :: "(string \<Rightarrow> string option) option \<Rightarrow> (string \<Rightarrow> string option) eff" where
  "request_headers incoming E w = (case incoming of
      Some h \<Rightarrow> (Done h, w)
    | None \<Rightarrow> (case next_headers E of
        Some h \<Rightarrow> (Done h, w)
      | None \<Rightarrow> (Threw (Error ''headers was called outside a request scope''), w)))"

definition forward_client_headers ::
  "(string \<Rightarrow> string option) \<Rightarrow> (string \<times> string) list \<Rightarrow> (string \<times> string) list" where
  "forward_client_headers h hs =
     (let ua = h ''user-agent''; xff = h ''x-forwarded-for''; realIp = h ''x-real-ip'';
          hs1 = (if truthy ua then obj_set ''X-Forwarded-User-Agent'' (the ua) hs else hs)
      in if truthy xff then obj_set ''X-Forwarded-For'' (the xff) hs1
         else if truthy realIp then obj_set ''X-Forwarded-For'' (the realIp) hs1
         else hs1)"

definition session_headers :: "session \<Rightarrow> string \<Rightarrow> (string \<times> string) list" where
  "session_headers s token =
     (let hs = bearer token in
      if truthy (s_activeOrgId s) then obj_set ''X-Org-ID'' (the (s_activeOrgId s)) hs else hs)"

definition getAdminRequestHeaders ::
  "(string \<Rightarrow> string option) option \<Rightarrow> (string \<times> string) list eff" where
  "getAdminRequestHeaders incoming =
     seq auth (\<lambda>s.
     if \<not> truthy (user_id_of s) then ret []
     else seq (createBackendAdminToken (the s)) (\<lambda>token.
          let headers = session_headers (the s) token in
          try_catch
            (seq (request_headers incoming) (\<lambda>h. ret (forward_client_headers h headers)))
            (\<lambda>_. ret headers)))"

text \<open>\<open>HeadersInit\<close>: a \<open>Headers\<close> object (lower-case keys), an array of pairs, a plain object.\<close>

datatype headers_init =
    HeadersInst "string \<Rightarrow> string option"
  | HeadersArr "(string \<times> string) list"
  | HeadersObj "(string \<times> string) list"

definition to_lower_char :: "char \<Rightarrow> char" where
  "to_lower_char c = (if 65 \<le> (of_char c :: nat) \<and> (of_char c :: nat) \<le> 90
                      then char_of ((of_char c :: nat) + 32) else c)"

definition to_lower :: "string \<Rightarrow> string" where
  "to_lower s = map to_lower_char s"

fun hasAdminRequestAuthorization :: "headers_init \<Rightarrow> bool" where
  "hasAdminRequestAuthorization (HeadersInst h) = truthy (h ''authorization'')"
| "hasAdminRequestAuthorization (HeadersArr hs) =
     (\<exists>(n, v) \<in> set hs. to_lower n = ''authorization'' \<and> v \<noteq> [])"
| "hasAdminRequestAuthorization (HeadersObj hs) = truthy (map_of hs ''authorization'')"

section \<open>Facts about the headers\<close>

lemma session_subject_of_id: "truthy (user_id_of (Some s)) \<Longrightarrow> session_subject s = user_id_of (Some s)"
  by (simp add: session_subject_def user_id_of_def or_opt_def)

text \<open>The claims at a moment, and the header list a signed-in session gets.\<close>

definition session_token :: "env \<Rightarrow> world \<Rightarrow> session \<Rightarrow> string" where
  "session_token E w s =
     jwt_sign E (backendJwtSecret E)
       (sessionClaims s (the (session_subject s)) (time_at E (length (w_sent w))))"

definition admin_headers ::
  "env \<Rightarrow> world \<Rightarrow> (string \<Rightarrow> string option) option \<Rightarrow> session \<Rightarrow> (string \<times> string) list" where
  "admin_headers E w incoming s =
     (let hs = session_headers s (session_token E w s) in
      case (case incoming of Some h \<Rightarrow> Some h | None \<Rightarrow> next_headers E) of
        Some h \<Rightarrow> forward_client_headers h hs
      | None \<Rightarrow> hs)"

lemma createBackendAdminToken_run:
  "truthy (session_subject s) \<Longrightarrow> createBackendAdminToken s E w = (Done (session_token E w s), w)"
  by (simp add: createBackendAdminToken_def session_token_def eff_simps)

lemma truthy_user_id_Some: "truthy (user_id_of s) \<Longrightarrow> \<exists>s'. s = Some s'"
  by (cases s) (auto simp: user_id_of_def)

lemma getAdminRequestHeaders_anonymous:
  "\<not> truthy (user_id_of (auth_result E w)) \<Longrightarrow>
     getAdminRequestHeaders incoming E w = (Done [], auth_world E w)"
  by (simp add: getAdminRequestHeaders_def seq_def auth_run ret_def)

lemma getAdminRequestHeaders_session:
  assumes "auth_result E w = Some s" "truthy (user_id_of (Some s))"
  shows "getAdminRequestHeaders incoming E w = (Done (admin_headers E (auth_world E w) incoming s), auth_world E w)"
proof -
  from assms(2) have "truthy (session_subject s)" by (simp add: session_subject_of_id)
  then show ?thesis using assms
    by (auto simp: getAdminRequestHeaders_def seq_def auth_run createBackendAdminToken_run
        admin_headers_def request_headers_def try_catch_def ret_def Let_def split: option.splits)
qed

lemma forward_keeps_authorization [simp]:
  "map_of (forward_client_headers h hs) ''authorization'' = map_of hs ''authorization''"
  by (auto simp: forward_client_headers_def Let_def)

lemma truthy_the: "truthy v \<Longrightarrow> Some (the v) = v"
  by (cases v) simp_all

lemma forward_lookup_address:
  "map_of (forward_client_headers h hs) ''X-Forwarded-For'' =
     (if truthy (h ''x-forwarded-for'') then h ''x-forwarded-for''
      else if truthy (h ''x-real-ip'') then h ''x-real-ip'' else map_of hs ''X-Forwarded-For'')"
  by (simp add: forward_client_headers_def Let_def truthy_the)

lemma forward_lookup_agent:
  "map_of (forward_client_headers h hs) ''X-Forwarded-User-Agent'' =
     (if truthy (h ''user-agent'') then h ''user-agent'' else map_of hs ''X-Forwarded-User-Agent'')"
  by (simp add: forward_client_headers_def Let_def truthy_the)

lemma forward_lookup_org:
  "map_of (forward_client_headers h hs) ''X-Org-ID'' = map_of hs ''X-Org-ID''"
  by (simp add: forward_client_headers_def Let_def)

lemma session_headers_lookup:
  "map_of (session_headers s token) ''X-Org-ID'' = (if truthy (s_activeOrgId s) then s_activeOrgId s else None)"
  "map_of (session_headers s token) ''X-Forwarded-For'' = None"
  "map_of (session_headers s token) ''X-Forwarded-User-Agent'' = None"
  by (simp_all add: session_headers_def bearer_def Let_def truthy_the)

lemma session_headers_authorization [simp]:
  "map_of (session_headers s token) ''authorization'' = Some (''Bearer '' @ token)"
  by (auto simp: session_headers_def bearer_def Let_def)

lemma admin_headers_authorization:
  "map_of (admin_headers E w incoming s) ''authorization'' = Some (''Bearer '' @ session_token E w s)"
  by (auto simp: admin_headers_def Let_def split: option.splits)

lemma hasAuth_admin_headers [simp]:
  "hasAdminRequestAuthorization (HeadersObj (admin_headers E w incoming s))"
  by (simp add: admin_headers_authorization)

lemma forward_keys:
  "fst ` set (forward_client_headers h hs) \<subseteq>
     fst ` set hs \<union> {''X-Forwarded-User-Agent'', ''X-Forwarded-For''}"
  by (auto simp: forward_client_headers_def Let_def obj_set_keys)

lemma session_headers_keys:
  "fst ` set (session_headers s token) \<subseteq> {''authorization'', ''X-Org-ID''}"
  by (auto simp: session_headers_def bearer_def Let_def)

lemma admin_headers_keys:
  "fst ` set (admin_headers E w incoming s) \<subseteq>
     {''authorization'', ''X-Org-ID'', ''X-Forwarded-User-Agent'', ''X-Forwarded-For''}"
  using forward_keys session_headers_keys
  by (fastforce simp: admin_headers_def Let_def split: option.splits)

lemma distinct_admin_headers: "distinct (map fst (admin_headers E w incoming s))"
  by (auto simp: admin_headers_def session_headers_def forward_client_headers_def bearer_def Let_def
      split: option.splits)

lemma sends_getAdminRequestHeaders: "sends is_oidc_refresh (getAdminRequestHeaders incoming)"
proof -
  have tok: "pure_eff (createBackendAdminToken s)" for s
    by (simp add: createBackendAdminToken_def pure_eff_def eff_simps)
  have rh: "pure_eff (request_headers incoming)"
    by (simp add: pure_eff_def request_headers_def split: option.splits)
  show ?thesis
    unfolding getAdminRequestHeaders_def Let_def
    by (auto intro!: sends_seq sends_try sends_auth sends_pure [OF tok] sends_pure [OF rh]
        intro: sends_pure)
qed

section \<open>Properties\<close>

text \<open>A session that went through the session callback always has a subject, so exchanging it
  for a backend token never fails; the token names the account the sign-in stored, is valid for
  five minutes, and is marked as an OIDC login exactly for the OIDC provider.\<close>

theorem session_token_claims:
  assumes "s_user s = Some u" and "jt_sub token = Some sub" and "sub \<noteq> []"
  shows "\<exists>c. createBackendAdminToken (session_callback s token) E w
              = (Done (jwt_sign E (backendJwtSecret E) c), w)
     \<and> jc_sub c = sub \<and> jc_exp c = jc_iat c + 300 \<and> jc_roles c = [''admin'']
     \<and> jc_iss c = ''justgate-admin'' \<and> jc_aud c = ''justgate-backend''
     \<and> (jc_source c = Some ''oidc'' \<longleftrightarrow> jt_provider token = Some ''oidc'')
     \<and> jc_groups c \<noteq> Some []"
proof -
  have "session_subject (session_callback s token) = Some sub"
    using assms by (simp add: session_subject_def session_callback_def or_opt_def)
  then have "createBackendAdminToken (session_callback s token) E w
      = (Done (jwt_sign E (backendJwtSecret E)
          (sessionClaims (session_callback s token) sub (time_at E (length (w_sent w))))), w)"
    using assms(3) by (simp add: createBackendAdminToken_def eff_simps)
  then show ?thesis
    by (intro exI [of _ "sessionClaims (session_callback s token) sub (time_at E (length (w_sent w)))"])
       (auto simp: sessionClaims_def base_claims_def session_callback_def split: option.splits list.splits)
qed

theorem session_token_claims_witness:
  "\<exists>c. createBackendAdminToken
         (session_callback \<lparr>s_user = Some \<lparr>su_id = None, su_email = None, su_name = None\<rparr>,
             s_activeOrgId = None, s_isPlatformAdmin = None, s_provider = None, s_groups = None\<rparr>
           \<lparr>jt_sub = Some ''u1'', jt_email = None, jt_name = None, jt_isPlatformAdmin = None,
            jt_provider = Some ''oidc'', jt_groups = None, jt_activeOrgId = None\<rparr>) dead_env example_world
       = (Done (jwt_sign dead_env (backendJwtSecret dead_env) c), example_world)
     \<and> jc_sub c = ''u1'' \<and> jc_source c = Some ''oidc''"
  using session_token_claims [of "\<lparr>s_user = Some \<lparr>su_id = None, su_email = None, su_name = None\<rparr>,
      s_activeOrgId = None, s_isPlatformAdmin = None, s_provider = None, s_groups = None\<rparr>" _
      "\<lparr>jt_sub = Some ''u1'', jt_email = None, jt_name = None, jt_isPlatformAdmin = None,
       jt_provider = Some ''oidc'', jt_groups = None, jt_activeOrgId = None\<rparr>" "''u1''" dead_env example_world]
  by auto

text \<open>What the front end tells the backend in an admin call: the bearer token of the session,
  the active organisation when there is one, and the client address (the forwarded-for chain
  before the real IP) and user agent of the browser; nothing else.\<close>

theorem admin_headers_contents:
  "map_of (admin_headers E w (Some h) s) ''authorization'' = Some (''Bearer '' @ session_token E w s)
   \<and> map_of (admin_headers E w (Some h) s) ''X-Org-ID''
      = (if truthy (s_activeOrgId s) then s_activeOrgId s else None)
   \<and> map_of (admin_headers E w (Some h) s) ''X-Forwarded-For''
      = (if truthy (h ''x-forwarded-for'') then h ''x-forwarded-for''
         else if truthy (h ''x-real-ip'') then h ''x-real-ip'' else None)
   \<and> map_of (admin_headers E w (Some h) s) ''X-Forwarded-User-Agent''
      = (if truthy (h ''user-agent'') then h ''user-agent'' else None)
   \<and> fst ` set (admin_headers E w (Some h) s) \<subseteq>
      {''authorization'', ''X-Org-ID'', ''X-Forwarded-User-Agent'', ''X-Forwarded-For''}"
proof (intro conjI)
  show "fst ` set (admin_headers E w (Some h) s) \<subseteq>
      {''authorization'', ''X-Org-ID'', ''X-Forwarded-User-Agent'', ''X-Forwarded-For''}"
    by (rule admin_headers_keys)
  show "map_of (admin_headers E w (Some h) s) ''authorization'' = Some (''Bearer '' @ session_token E w s)"
    by (rule admin_headers_authorization)
qed (simp_all add: admin_headers_def forward_lookup_address forward_lookup_agent forward_lookup_org
      session_headers_lookup Let_def)

end
