(* ===== verification/BackendClient.thy ===== *)
theory BackendClient
  imports BackendServer
begin

text \<open>
  \<open>lib/backend-client.ts\<close>: the queries of the server components and the mutations, and the
  fallback values of \<open>lib/contracts.ts\<close>. A query never fails: it answers with the backend's
  data or with a fallback and the reason. The type argument of \<open>fetchBackend\<close> is erased at run
  time, so the data is the decoded JSON.
\<close>

section \<open>Calling the backend\<close>

definition fetch_backend ::
  "string \<Rightarrow> string \<Rightarrow> (string \<times> string) list \<Rightarrow> payload \<Rightarrow> http_response eff" where
  "fetch_backend meth path hs body =
     seq (ask getBackendBaseUrl) (\<lambda>base.
     fetch \<lparr>rq_method = meth, rq_url = base @ path, rq_headers = hs, rq_body = body,
            rq_no_store = True\<rparr>)"

text \<open>\<open>{ "content-type": "application/json", ...headers }\<close>.\<close>

definition json_headers :: "(string \<times> string) list \<Rightarrow> (string \<times> string) list" where
  "json_headers hs = obj_spread [(''content-type'', ''application/json'')] hs"

section \<open>Queries\<close>

record query_result =
  qr_data :: json
  qr_source :: string
  qr_backendUrl :: string
  qr_error :: "string option"

definition backend_error :: "http_response \<Rightarrow> js_error" where
  "backend_error response =
     Error (''backend returned '' @ show_int (rs_status response) @
            (let e = error_of_body (rs_json response) in if truthy e then '': '' @ the e else []))"

definition fetchBackend :: "string \<Rightarrow> json \<Rightarrow> query_result eff" where
  "fetchBackend path fallback =
     seq (ask getBackendBaseUrl) (\<lambda>base.
     try_catch
       (seq (getAdminRequestHeaders None) (\<lambda>headers.
        seq (fetch_backend ''GET'' path headers NoBody) (\<lambda>response.
        if \<not> rs_ok response then throw (backend_error response)
        else seq (response_json response) (\<lambda>data.
             ret \<lparr>qr_data = data, qr_source = ''backend'', qr_backendUrl = base, qr_error = None\<rparr>))))
       (\<lambda>e. ret \<lparr>qr_data = fallback, qr_source = ''fallback'', qr_backendUrl = base,
                 qr_error = Some (err_message e)\<rparr>))"

subsection \<open>Fallback values\<close>

definition fallback_runtime :: json where
  "fallback_runtime = JObj [(''status'', JStr ''offline''), (''version'', JStr ''v0.0.0-dev''),
                            (''storeKind'', JStr ''none'')]"

definition fallback_stats :: json where
  "fallback_stats = JObj [(''tenants'', JNum 0), (''routes'', JNum 0), (''activeTokens'', JNum 0),
                          (''auditEvents24h'', JNum 0)]"

definition fallbackOverview :: "string \<Rightarrow> json" where
  "fallbackOverview generatedAt =
     JObj [(''generatedAt'', JStr generatedAt), (''runtime'', fallback_runtime), (''stats'', fallback_stats)]"

definition fallbackTenants :: json where
  "fallbackTenants = JArr []"

definition fallbackRoutes :: json where
  "fallbackRoutes = JArr []"

definition fallbackTokens :: json where
  "fallbackTokens = JArr []"

definition fallbackTopology :: "string \<Rightarrow> json" where
  "fallbackTopology generatedAt =
     JObj [(''generatedAt'', JStr generatedAt), (''runtime'', fallback_runtime), (''stats'', fallback_stats),
           (''tenants'', fallbackTenants), (''routes'', fallbackRoutes), (''tokens'', fallbackTokens),
           (''auditEvents'', JArr []), (''upstreamHealth'', JArr []), (''routeUpstreams'', JArr [])]"

definition empty_page :: "int \<Rightarrow> int \<Rightarrow> json" where
  "empty_page page pageSize =
     JObj [(''items'', JArr []), (''total'', JNum 0), (''page'', JNum (of_int page)),
           (''pageSize'', JNum (of_int pageSize))]"

definition fallbackOIDCConfig :: json where
  "fallbackOIDCConfig =
     JObj [(''issuer'', JStr []), (''clientID'', JStr []), (''hasSecret'', JBool False),
           (''displayName'', JStr ''Single Sign-On''), (''groupsClaim'', JStr []),
           (''adminGroup'', JStr []), (''enabled'', JBool False), (''updatedAt'', JStr [])]"

subsection \<open>The getters\<close>

definition getOverview :: "query_result eff" where
  "getOverview = seq (ask load_time_iso) (\<lambda>t. fetchBackend ''/api/v1/admin/overview'' (fallbackOverview t))"

definition getRoutes :: "query_result eff" where
  "getRoutes = fetchBackend ''/api/v1/admin/routes'' fallbackRoutes"

definition getTenants :: "query_result eff" where
  "getTenants = fetchBackend ''/api/v1/admin/tenants'' fallbackTenants"

definition getTokens :: "query_result eff" where
  "getTokens = fetchBackend ''/api/v1/admin/tokens'' fallbackTokens"

text \<open>\<open>result.data.items ?? []\<close>: null data is a TypeError, a null or missing field is empty.\<close>

definition getAuditEvents :: "query_result eff" where
  "getAuditEvents =
     seq (fetchBackend ''/api/v1/admin/audit?page=1&pageSize=50'' (empty_page 1 50)) (\<lambda>result.
     seq (js_member (qr_data result) ''items'') (\<lambda>items.
     ret (result\<lparr>qr_data := (case items of None \<Rightarrow> JArr [] | Some JNull \<Rightarrow> JArr [] | Some v \<Rightarrow> v)\<rparr>)))"

definition getAuditEventsPaginated :: "int \<Rightarrow> int \<Rightarrow> query_result eff" where
  "getAuditEventsPaginated page pageSize =
     fetchBackend (''/api/v1/admin/audit?page='' @ show_int page @ ''&pageSize='' @ show_int pageSize)
       (empty_page page pageSize)"

record audit_filters =
  af_status :: "string option"
  af_tenantID :: "string option"
  af_routeSlug :: "string option"

definition audit_filter_params :: "int \<Rightarrow> int \<Rightarrow> audit_filters \<Rightarrow> (string \<times> string) list" where
  "audit_filter_params page pageSize filters =
     (let p0 = [(''page'', show_int page), (''pageSize'', show_int pageSize)];
          p1 = (if truthy (af_status filters) \<and> af_status filters \<noteq> Some ''all''
                then obj_set ''status'' (the (af_status filters)) p0 else p0);
          p2 = (if truthy (af_tenantID filters)
                then obj_set ''tenantID'' (the (af_tenantID filters)) p1 else p1)
      in if truthy (af_routeSlug filters)
         then obj_set ''routeSlug'' (the (af_routeSlug filters)) p2 else p2)"

definition getAuditEventsPaginatedFiltered :: "int \<Rightarrow> int \<Rightarrow> audit_filters \<Rightarrow> query_result eff" where
  "getAuditEventsPaginatedFiltered page pageSize filters =
     fetchBackend (''/api/v1/admin/audit/filtered?'' @
                   params_toString (audit_filter_params page pageSize filters))
       (empty_page page pageSize)"

definition getPlatformAdmins :: "query_result eff" where
  "getPlatformAdmins = fetchBackend ''/api/v1/admin/platform/admins'' (JArr [])"

definition getPlatformAdminCheck :: "query_result eff" where
  "getPlatformAdminCheck =
     fetchBackend ''/api/v1/admin/platform/check'' (JObj [(''isPlatformAdmin'', JBool False)])"

definition getAdminUsers :: "query_result eff" where
  "getAdminUsers = fetchBackend ''/api/v1/admin/platform/users'' (JArr [])"

definition getAdminOrgs :: "query_result eff" where
  "getAdminOrgs = fetchBackend ''/api/v1/admin/platform/orgs'' (JArr [])"

definition getOrgs :: "query_result eff" where
  "getOrgs = fetchBackend ''/api/v1/admin/orgs'' (JArr [])"

definition getOrgMembers :: "string \<Rightarrow> query_result eff" where
  "getOrgMembers orgID =
     fetchBackend (''/api/v1/admin/orgs/'' @ encodeURIComponent orgID @ ''/members'') (JArr [])"

definition getTopology :: "query_result eff" where
  "getTopology =
     seq (ask load_time_iso) (\<lambda>t.
     seq (fetchBackend ''/api/v1/admin/topology'' (fallbackTopology t)) (\<lambda>result. ret result))"

definition getOIDCConfig :: "query_result eff" where
  "getOIDCConfig = fetchBackend ''/api/v1/admin/settings/oidc'' fallbackOIDCConfig"

definition getRetentionSettings :: "query_result eff" where
  "getRetentionSettings =
     fetchBackend ''/api/v1/admin/settings/retention''
       (JObj [(''retentionDays'', JNum 30), (''autoEnabled'', JBool False)])"

definition getOIDCOrgMappings :: "query_result eff" where
  "getOIDCOrgMappings = fetchBackend ''/api/v1/admin/settings/oidc/mappings'' (JArr [])"

definition getTrafficStats :: "int \<Rightarrow> query_result eff" where
  "getTrafficStats hours = fetchBackend (''/api/v1/admin/traffic/stats?hours='' @ show_int hours) (JArr [])"

definition getTrafficOverview :: "query_result eff" where
  "getTrafficOverview =
     fetchBackend ''/api/v1/admin/traffic/overview''
       (JObj [(''totalRequests'', JNum 0), (''errorRate'', JNum 0), (''avgLatencyMs'', JNum 0),
              (''priorRequests'', JNum 0), (''priorErrorRate'', JNum 0), (''priorAvgLatency'', JNum 0)])"

definition getAdminAuditEvents :: "int \<Rightarrow> int \<Rightarrow> query_result eff" where
  "getAdminAuditEvents page pageSize =
     fetchBackend (''/api/v1/admin/admin-audit?page='' @ show_int page @ ''&pageSize='' @ show_int pageSize)
       (empty_page page pageSize)"

definition getHealthHistory :: "string \<Rightarrow> query_result eff" where
  "getHealthHistory tenantID =
     fetchBackend (''/api/v1/admin/health-history?tenantID='' @ encodeURIComponent tenantID) (JArr [])"

definition getRouteUpstreams :: "string \<Rightarrow> query_result eff" where
  "getRouteUpstreams routeID =
     fetchBackend (''/api/v1/admin/route-upstreams/'' @ encodeURIComponent routeID) (JArr [])"

definition getAdminSessions :: "query_result eff" where
  "getAdminSessions = fetchBackend ''/api/v1/admin/sessions'' (JArr [])"

definition getCircuitBreakers :: "query_result eff" where
  "getCircuitBreakers = fetchBackend ''/api/v1/admin/circuit-breakers'' (JArr [])"

definition getExpiringTokens :: "int \<Rightarrow> query_result eff" where
  "getExpiringTokens days = fetchBackend (''/api/v1/admin/tokens/expiring?days='' @ show_int days) (JArr [])"

definition getReplicas :: "query_result eff" where
  "getReplicas = fetchBackend ''/api/v1/admin/platform/replicas'' (JArr [])"

definition getSearchResults :: "string \<Rightarrow> query_result eff" where
  "getSearchResults query =
     fetchBackend (''/api/v1/admin/search?q='' @ encodeURIComponent query)
       (JObj [(''routes'', JArr []), (''tenants'', JArr []), (''tokens'', JArr []), (''grants'', JArr []),
              (''apps'', JArr [])])"

definition getTokenTrafficStats :: "string \<Rightarrow> int \<Rightarrow> query_result eff" where
  "getTokenTrafficStats tokenID hours =
     fetchBackend (''/api/v1/admin/tokens/'' @ encodeURIComponent tokenID @ ''/stats?hours='' @ show_int hours)
       (JArr [])"

definition getRouteTrafficStats :: "string \<Rightarrow> int \<Rightarrow> query_result eff" where
  "getRouteTrafficStats routeSlug hours =
     fetchBackend (''/api/v1/admin/traffic/route?routeSlug='' @ encodeURIComponent routeSlug @
                   ''&hours='' @ show_int hours)
       (JArr [])"

definition getGrantIssuances :: "string \<Rightarrow> query_result eff" where
  "getGrantIssuances grantID =
     fetchBackend (''/api/v1/admin/grants/'' @ encodeURIComponent grantID @ ''/issuances'') (JArr [])"

definition getOrgIPRules :: "query_result eff" where
  "getOrgIPRules = fetchBackend ''/api/v1/admin/org-ip-rules'' (JArr [])"

definition getProtectedApps :: "query_result eff" where
  "getProtectedApps = fetchBackend ''/api/v1/admin/apps'' (JArr [])"

definition getAppTokens :: "string \<Rightarrow> query_result eff" where
  "getAppTokens appID =
     fetchBackend (''/api/v1/admin/apps/'' @ encodeURIComponent appID @ ''/tokens'') (JArr [])"

definition getAppSessions :: "string \<Rightarrow> query_result eff" where
  "getAppSessions appID =
     fetchBackend (''/api/v1/admin/apps/'' @ encodeURIComponent appID @ ''/sessions'') (JArr [])"

definition getGrants :: "query_result eff" where
  "getGrants = fetchBackend ''/api/v1/admin/grants'' (JArr [])"

definition getOrgInvites :: "string \<Rightarrow> query_result eff" where
  "getOrgInvites orgID =
     fetchBackend (''/api/v1/admin/orgs/'' @ encodeURIComponent orgID @ ''/invites'') (JArr [])"

definition getOrgExport :: "query_result eff" where
  "getOrgExport =
     fetchBackend ''/api/v1/admin/export''
       (JObj [(''exportedAt'', JStr []), (''version'', JStr ''1''), (''tenants'', JArr []), (''routes'', JArr [])])"

section \<open>Mutations\<close>

text \<open>The shapes the mutations have: with a JSON payload, without a body, and void.\<close>

definition send_json :: "string \<Rightarrow> string \<Rightarrow> json \<Rightarrow> json eff" where
  "send_json meth path payload =
     seq (getAdminRequestHeaders None) (\<lambda>headers.
     seq (fetch_backend meth path (json_headers headers) (Json payload)) response_json)"

definition send_plain :: "string \<Rightarrow> string \<Rightarrow> json eff" where
  "send_plain meth path =
     seq (getAdminRequestHeaders None) (\<lambda>headers.
     seq (fetch_backend meth path headers NoBody) response_json)"

definition send_void :: "string \<Rightarrow> string \<Rightarrow> unit eff" where
  "send_void meth path =
     seq (getAdminRequestHeaders None) (\<lambda>headers.
     seq (fetch_backend meth path headers NoBody) (\<lambda>_. ret ()))"

definition rotateToken :: "string \<Rightarrow> json eff" where
  "rotateToken tokenID = send_plain ''POST'' (''/api/v1/admin/tokens/'' @ encodeURIComponent tokenID @ ''/rotate'')"

definition createOrgIPRule :: "string \<Rightarrow> string \<Rightarrow> json eff" where
  "createOrgIPRule cidr description =
     send_json ''POST'' ''/api/v1/admin/org-ip-rules''
       (JObj [(''cidr'', JStr cidr), (''description'', JStr description)])"

definition deleteOrgIPRule :: "string \<Rightarrow> unit eff" where
  "deleteOrgIPRule ruleID = send_void ''DELETE'' (''/api/v1/admin/org-ip-rules/'' @ encodeURIComponent ruleID)"

definition createGrant :: "json \<Rightarrow> json eff" where
  "createGrant payload = send_json ''POST'' ''/api/v1/admin/grants'' payload"

definition deleteGrant :: "string \<Rightarrow> unit eff" where
  "deleteGrant grantID = send_void ''DELETE'' (''/api/v1/admin/grants/'' @ encodeURIComponent grantID)"

definition bulkCreateTokens :: "json \<Rightarrow> json eff" where
  "bulkCreateTokens payload = send_json ''POST'' ''/api/v1/admin/tokens/bulk'' payload"

definition deleteOrgInvite :: "string \<Rightarrow> string \<Rightarrow> unit eff" where
  "deleteOrgInvite orgID inviteID =
     send_void ''DELETE'' (''/api/v1/admin/orgs/'' @ encodeURIComponent orgID @ ''/invites/'' @
                           encodeURIComponent inviteID)"

definition getInvitePreview :: "string \<Rightarrow> json eff" where
  "getInvitePreview code =
     seq (fetch_backend ''GET'' (''/api/v1/invite-preview?code='' @ encodeURIComponent code) [] NoBody)
       response_json"

definition changeMemberRole :: "string \<Rightarrow> string \<Rightarrow> string \<Rightarrow> json eff" where
  "changeMemberRole orgID userID role =
     send_json ''PATCH'' (''/api/v1/admin/orgs/'' @ encodeURIComponent orgID @ ''/members/'' @
                          encodeURIComponent userID)
       (JObj [(''role'', JStr role)])"

definition extendToken :: "string \<Rightarrow> string \<Rightarrow> json eff" where
  "extendToken tokenID newExpiresAt =
     send_json ''POST'' (''/api/v1/admin/tokens/'' @ encodeURIComponent tokenID @ ''/extend'')
       (JObj [(''newExpiresAt'', JStr newExpiresAt)])"

definition duplicateRoute :: "string \<Rightarrow> json eff" where
  "duplicateRoute routeID =
     send_plain ''POST'' (''/api/v1/admin/routes/'' @ encodeURIComponent routeID @ ''/duplicate'')"

definition importOrgConfig :: "json \<Rightarrow> json eff" where
  "importOrgConfig config = send_json ''POST'' ''/api/v1/admin/import'' config"

section \<open>Facts about queries\<close>

lemma returns_fetchBackend: "returns (fetchBackend path fallback)"
  unfolding fetchBackend_def by (intro returns_seq returns_ask returns_try returns_ret)

text \<open>The request a query makes, and the answer it turns a response into.\<close>

definition query_request :: "env \<Rightarrow> string \<Rightarrow> (string \<times> string) list \<Rightarrow> http_request" where
  "query_request E path hs = get_request (getBackendBaseUrl E @ path) hs"

definition query_answer :: "env \<Rightarrow> json \<Rightarrow> fetch_result \<Rightarrow> query_result" where
  "query_answer E fallback r =
     (let failed = (\<lambda>m. \<lparr>qr_data = fallback, qr_source = ''fallback'',
                         qr_backendUrl = getBackendBaseUrl E, qr_error = Some m\<rparr>) in
      case r of
        NetworkError m \<Rightarrow> failed m
      | Responded rs \<Rightarrow>
          (if \<not> rs_ok rs then failed (err_message (backend_error rs))
           else (case rs_json rs of
                   Inl m \<Rightarrow> failed m
                 | Inr j \<Rightarrow> \<lparr>qr_data = j, qr_source = ''backend'',
                            qr_backendUrl = getBackendBaseUrl E, qr_error = None\<rparr>)))"

lemma getAdminRequestHeaders_Done:
  "\<exists>hs. getAdminRequestHeaders incoming E w = (Done hs, auth_world E w)"
proof (cases "truthy (user_id_of (auth_result E w))")
  case True
  then obtain s where "auth_result E w = Some s" using truthy_user_id_Some by blast
  with True show ?thesis using getAdminRequestHeaders_session by metis
next
  case False
  then show ?thesis using getAdminRequestHeaders_anonymous by blast
qed

text \<open>The headers an admin call carries in a given environment and world.\<close>

definition headers_at :: "env \<Rightarrow> world \<Rightarrow> (string \<times> string) list" where
  "headers_at E w = (case fst (getAdminRequestHeaders None E w) of Done hs \<Rightarrow> hs | Threw _ \<Rightarrow> [])"

lemma headers_run: "getAdminRequestHeaders None E w = (Done (headers_at E w), auth_world E w)"
  using getAdminRequestHeaders_Done [of None E w] by (auto simp: headers_at_def)

lemma fetchBackend_run:
  "fetchBackend path fallback E w =
     (let w1 = auth_world E w; rq = query_request E path (headers_at E w) in
      (Done (query_answer E fallback (backend E (w_sent w1) rq)), w1\<lparr>w_sent := w_sent w1 @ [rq]\<rparr>))"
  by (auto simp: fetchBackend_def fetch_backend_def eff_simps headers_run query_request_def get_request_def
      query_answer_def response_json_def Let_def split: fetch_result.splits sum.splits)

section \<open>Properties\<close>

text \<open>C21: A query never throws. It makes one uncached GET with the session's headers and answers with
  the backend's JSON when the status is a success and the body parses, and otherwise with the
  fallback value and a reason; so the data is always the one or the other.\<close>

theorem fetchBackend_total:
  "\<exists>r w1 rq. fetchBackend path fallback E w = (Done r, w1\<lparr>w_sent := w_sent w1 @ [rq]\<rparr>)
     \<and> rq_method rq = ''GET'' \<and> rq_url rq = getBackendBaseUrl E @ path \<and> rq_no_store rq
     \<and> (qr_source r = ''backend'' \<longleftrightarrow>
          (\<exists>rs. backend E (w_sent w1) rq = Responded rs \<and> rs_ok rs \<and> rs_json rs = Inr (qr_data r)))
     \<and> (qr_source r \<noteq> ''backend'' \<longrightarrow> qr_source r = ''fallback'' \<and> qr_data r = fallback \<and> qr_error r \<noteq> None)"
proof -
  let ?rq = "query_request E path (headers_at E w)"
  let ?w1 = "auth_world E w"
  have "fetchBackend path fallback E w =
      (Done (query_answer E fallback (backend E (w_sent ?w1) ?rq)), ?w1\<lparr>w_sent := w_sent ?w1 @ [?rq]\<rparr>)"
    by (simp add: fetchBackend_run Let_def)
  then show ?thesis
    by (intro exI [of _ "query_answer E fallback (backend E (w_sent ?w1) ?rq)"] exI [of _ ?w1] exI [of _ ?rq])
       (auto simp: query_answer_def query_request_def get_request_def Let_def
         split: fetch_result.splits sum.splits if_splits)
qed

text \<open>An environment whose backend answers every request with the same JSON.\<close>

definition json_env :: "int \<Rightarrow> json \<Rightarrow> env" where
  "json_env status j = dead_env\<lparr>backend := (\<lambda>_ _. Responded \<lparr>rs_status = status,
     rs_headers = [(''content-type'', ''application/json'')], rs_text = [], rs_json = Inr j\<rparr>)\<rparr>"

theorem fetchBackend_total_witness:
  "\<exists>r w'. fetchBackend ''/x'' (JArr []) (json_env 500 JNull) example_world = (Done r, w')
     \<and> qr_source r = ''fallback'' \<and> qr_data r = JArr []"
proof -
  from fetchBackend_total [of "''/x''" "JArr []" "json_env 500 JNull" example_world]
  obtain r w1 rq where
    run: "fetchBackend ''/x'' (JArr []) (json_env 500 JNull) example_world = (Done r, w1\<lparr>w_sent := w_sent w1 @ [rq]\<rparr>)"
    and src: "qr_source r = ''backend'' \<longleftrightarrow> (\<exists>rs. backend (json_env 500 JNull) (w_sent w1) rq = Responded rs
       \<and> rs_ok rs \<and> rs_json rs = Inr (qr_data r))"
    and alt: "qr_source r \<noteq> ''backend'' \<longrightarrow> qr_source r = ''fallback'' \<and> qr_data r = JArr [] \<and> qr_error r \<noteq> None"
    by blast
  have "qr_source r \<noteq> ''backend''" using src by (auto simp: json_env_def rs_ok_def)
  with run alt show ?thesis by blast
qed

text \<open>The one query that can throw: the unpaginated audit log reads \<open>items\<close> off the answer outside
  the guarded call, so a backend that answers \<open>null\<close> makes it throw, and any other JSON value
  does not.\<close>

theorem getAuditEvents_null_throws:
  "(\<exists>w'. getAuditEvents (json_env 200 JNull) w = (Threw (TypeError ''cannot read properties of null''), w'))
   \<and> (\<forall>j. j \<noteq> JNull \<longrightarrow> (\<exists>r w'. getAuditEvents (json_env 200 j) w = (Done r, w')))"
  by (auto simp: getAuditEvents_def seq_def fetchBackend_run query_answer_def json_env_def rs_ok_def
      js_member_def ret_def throw_def Let_def)

theorem getAuditEvents_null_throws_witness:
  "\<exists>r w'. getAuditEvents (json_env 200 (JObj [])) example_world = (Done r, w')"
  using getAuditEvents_null_throws [of example_world] by auto

text \<open>The filtered audit query carries exactly the chosen filters: page and page size always, the
  status unless it is empty or \<open>all\<close>, the tenant and the route slug unless empty.\<close>

theorem audit_filter_params_lookup:
  "map_of (audit_filter_params page pageSize f) ''page'' = Some (show_int page)
   \<and> map_of (audit_filter_params page pageSize f) ''pageSize'' = Some (show_int pageSize)
   \<and> map_of (audit_filter_params page pageSize f) ''status''
      = (if truthy (af_status f) \<and> af_status f \<noteq> Some ''all'' then af_status f else None)
   \<and> map_of (audit_filter_params page pageSize f) ''tenantID''
      = (if truthy (af_tenantID f) then af_tenantID f else None)
   \<and> map_of (audit_filter_params page pageSize f) ''routeSlug''
      = (if truthy (af_routeSlug f) then af_routeSlug f else None)
   \<and> distinct (map fst (audit_filter_params page pageSize f))"
  by (simp add: audit_filter_params_def Let_def truthy_the)

end
