(* ===== verification/Gateway.thy ===== *)
theory Gateway
  imports BackendClient
begin

text \<open>
  The shape the route handlers under \<open>app/api/admin\<close> share: refuse a request without a
  signed-in session, call one backend path with the session's headers, answer with what the
  backend said. \<open>forward\<close> is that shape as a function of an endpoint description; the handlers
  themselves are in the theories ApiTenancy, ApiRouting and ApiPlatform.
\<close>

section \<open>The pieces of a handler\<close>

text \<open>
  \<open>const headers = await getAdminRequestHeaders(); if (!hasAdminRequestAuthorization(headers))
  return NextResponse.json(\<dots>, { status: 401 })\<close>
\<close>

definition unauthorized :: client_response where
  "unauthorized = json_response (error_json ''unauthorized'') 401"

definition authorized :: "((string \<times> string) list \<Rightarrow> client_response eff) \<Rightarrow> client_response eff" where
  "authorized k =
     seq (getAdminRequestHeaders None) (\<lambda>headers.
     if \<not> hasAdminRequestAuthorization (HeadersObj headers) then ret unauthorized
     else k headers)"

definition content_type_of :: "http_response \<Rightarrow> (string \<times> string) list" where
  "content_type_of response =
     [(''content-type'', or_str (rs_header response ''content-type'') ''application/json'')]"

text \<open>\<open>new NextResponse(await response.text(), { status, headers })\<close> and its variants for 204.\<close>

definition relay :: "http_response \<Rightarrow> client_response eff" where
  "relay response = newResponse (Text (rs_text response)) (rs_status response) (content_type_of response)"

definition relay_or_empty :: "http_response \<Rightarrow> client_response eff" where
  "relay_or_empty response =
     (if rs_status response = 204 then newResponse NoBody 204 [] else relay response)"

definition relay_null_body :: "http_response \<Rightarrow> client_response eff" where
  "relay_null_body response =
     newResponse (if rs_status response = 204 then NoBody else Text (rs_text response))
       (rs_status response) (content_type_of response)"

text \<open>\<open>searchParams.get(k)\<close>: the first value of a query parameter.\<close>

definition query_get :: "client_request \<Rightarrow> string \<Rightarrow> string option" where
  "query_get rq k = map_of (cq_query rq) k"

section \<open>Endpoint descriptions\<close>

record endpoint =
  ep_method :: string
  ep_path :: "client_request \<Rightarrow> string"
  ep_headers :: "(string \<times> string) list \<Rightarrow> (string \<times> string) list"
  ep_body :: "client_request \<Rightarrow> payload"
  ep_reply :: "http_response \<Rightarrow> client_response eff"

definition forward :: "endpoint \<Rightarrow> handler" where
  "forward ep rq = authorized (\<lambda>headers.
     seq (fetch_backend (ep_method ep) (ep_path ep rq) (ep_headers ep headers) (ep_body ep rq))
         (ep_reply ep))"

text \<open>A call without a request body, and one that passes the body text on as JSON.\<close>

definition plain_ep ::
  "string \<Rightarrow> (client_request \<Rightarrow> string) \<Rightarrow> (http_response \<Rightarrow> client_response eff) \<Rightarrow> endpoint" where
  "plain_ep m p r = \<lparr>ep_method = m, ep_path = p, ep_headers = (\<lambda>hs. hs), ep_body = (\<lambda>_. NoBody), ep_reply = r\<rparr>"

definition body_ep ::
  "string \<Rightarrow> (client_request \<Rightarrow> string) \<Rightarrow> (http_response \<Rightarrow> client_response eff) \<Rightarrow> endpoint" where
  "body_ep m p r = \<lparr>ep_method = m, ep_path = p, ep_headers = json_headers,
                    ep_body = (\<lambda>rq. Text (cq_body rq)), ep_reply = r\<rparr>"

definition typed_body_ep ::
  "string \<Rightarrow> (client_request \<Rightarrow> string) \<Rightarrow> (http_response \<Rightarrow> client_response eff) \<Rightarrow> endpoint" where
  "typed_body_ep m p r = (body_ep m p r)\<lparr>ep_headers := obj_set ''content-type'' ''application/json''\<rparr>"

definition endpoint_request ::
  "endpoint \<Rightarrow> client_request \<Rightarrow> env \<Rightarrow> (string \<times> string) list \<Rightarrow> http_request" where
  "endpoint_request ep rq E hs =
     \<lparr>rq_method = ep_method ep, rq_url = getBackendBaseUrl E @ ep_path ep rq,
      rq_headers = ep_headers ep hs, rq_body = ep_body ep rq, rq_no_store = True\<rparr>"

section \<open>Facts about the pieces\<close>

named_theorems reply_simps \<open>what a reply function answers\<close>

lemma pure_relay [simp]: "pure_eff (relay rs)" "pure_eff (relay_or_empty rs)" "pure_eff (relay_null_body rs)"
  by (simp_all add: relay_def relay_or_empty_def relay_null_body_def)

lemma null_body_status_simps [simp]: "null_body_status 204" "\<not> null_body_status 200"
  by (simp_all add: null_body_status_def)

lemma relay_ok [reply_simps]:
  "200 \<le> rs_status rs \<Longrightarrow> rs_status rs \<le> 599 \<Longrightarrow> \<not> null_body_status (rs_status rs) \<Longrightarrow>
   relay rs = ret \<lparr>cs_status = rs_status rs, cs_headers = content_type_of rs, cs_body = Text (rs_text rs)\<rparr>"
  by (simp add: relay_def newResponse_def)

lemma relay_204 [reply_simps]:
  "rs_status rs = 204 \<Longrightarrow> relay rs = throw (TypeError ''invalid response status code'')"
  by (simp add: relay_def newResponse_def)

lemma relay_or_empty_204 [reply_simps]:
  "rs_status rs = 204 \<Longrightarrow> relay_or_empty rs = ret \<lparr>cs_status = 204, cs_headers = [], cs_body = NoBody\<rparr>"
  by (simp add: relay_or_empty_def newResponse_def)

lemma relay_or_empty_other [reply_simps]: "rs_status rs \<noteq> 204 \<Longrightarrow> relay_or_empty rs = relay rs"
  by (simp add: relay_or_empty_def)

lemma relay_null_body_204 [reply_simps]:
  "rs_status rs = 204 \<Longrightarrow>
   relay_null_body rs = ret \<lparr>cs_status = 204, cs_headers = content_type_of rs, cs_body = NoBody\<rparr>"
  by (simp add: relay_null_body_def newResponse_def)

lemma relay_null_body_other [reply_simps]: "rs_status rs \<noteq> 204 \<Longrightarrow> relay_null_body rs = relay rs"
  by (simp add: relay_null_body_def relay_def)

lemma json_headers_authorization [simp]:
  "distinct (map fst hs) \<Longrightarrow> map_of (json_headers hs) ''authorization'' = map_of hs ''authorization''"
  by (simp add: json_headers_def map_of_obj_spread map_add_def split: option.splits)

lemma headers_at_session:
  "auth_result E w = Some s \<Longrightarrow> truthy (user_id_of (Some s)) \<Longrightarrow>
   headers_at E w = admin_headers E (auth_world E w) None s"
  by (simp add: headers_at_def getAdminRequestHeaders_session)

lemma authorized_anonymous:
  "\<not> truthy (user_id_of (auth_result E w)) \<Longrightarrow> authorized k E w = (Done unauthorized, auth_world E w)"
  by (simp add: authorized_def seq_def getAdminRequestHeaders_anonymous ret_def)

lemma authorized_session:
  "auth_result E w = Some s \<Longrightarrow> truthy (user_id_of (Some s)) \<Longrightarrow>
   authorized k E w = k (admin_headers E (auth_world E w) None s) E (auth_world E w)"
  by (simp add: authorized_def seq_def getAdminRequestHeaders_session admin_headers_authorization)

lemma forward_anonymous:
  "\<not> truthy (user_id_of (auth_result E w)) \<Longrightarrow> forward ep rq E w = (Done unauthorized, auth_world E w)"
  by (simp add: forward_def authorized_anonymous)

lemma fetch_backend_run:
  "fetch_backend m p hs b E w =
     (let rq = \<lparr>rq_method = m, rq_url = getBackendBaseUrl E @ p, rq_headers = hs, rq_body = b,
                rq_no_store = True\<rparr>; w' = w\<lparr>w_sent := w_sent w @ [rq]\<rparr> in
      case backend E (w_sent w) rq of
        Responded rs \<Rightarrow> (Done rs, w')
      | NetworkError msg \<Rightarrow> (Threw (NetworkFailure msg), w'))"
  by (simp add: fetch_backend_def eff_simps Let_def)

text \<open>The URLs a handler calls after the session has been read.\<close>

definition called_urls :: "handler \<Rightarrow> client_request \<Rightarrow> env \<Rightarrow> world \<Rightarrow> string list" where
  "called_urls h rq E w =
     map rq_url (drop (length (w_sent (auth_world E w))) (w_sent (snd (h rq E w))))"

text \<open>
  The interface a route table offers: every listed handler is its endpoint description, every
  description keeps the authorization header and answers without further effects.
\<close>

locale endpoint_table =
  fixes table :: "(handler \<times> endpoint) list"
  assumes forwards: "(h, ep) \<in> set table \<Longrightarrow> h = forward ep"
    and keeps_authorization:
      "(h, ep) \<in> set table \<Longrightarrow> distinct (map fst hs) \<Longrightarrow>
       map_of (ep_headers ep hs) ''authorization'' = map_of hs ''authorization''"
    and reply_pure: "(h, ep) \<in> set table \<Longrightarrow> pure_eff (ep_reply ep rs)"
begin

lemma anonymous:
  "(h, ep) \<in> set table \<Longrightarrow> \<not> truthy (user_id_of (auth_result E w)) \<Longrightarrow>
   h rq E w = (Done unauthorized, auth_world E w)"
  using forwards forward_anonymous by blast

lemma signed_in:
  assumes "(h, ep) \<in> set table" "auth_result E w = Some s" "truthy (user_id_of (Some s))"
  shows "h rq E w =
    (let w1 = auth_world E w; r = endpoint_request ep rq E (admin_headers E w1 None s);
         w2 = w1\<lparr>w_sent := w_sent w1 @ [r]\<rparr> in
     case backend E (w_sent w1) r of
       NetworkError m \<Rightarrow> (Threw (NetworkFailure m), w2)
     | Responded rs \<Rightarrow> (fst (ep_reply ep rs E w2), w2))"
proof -
  have pure: "ep_reply ep rs E w' = (fst (ep_reply ep rs E w'), w')" for rs w'
    using reply_pure [OF assms(1)] unfolding pure_eff_def by (metis prod.collapse)
  have "h rq E w = forward ep rq E w" using forwards [OF assms(1)] by simp
  also have "\<dots> = seq (fetch_backend (ep_method ep) (ep_path ep rq)
      (ep_headers ep (admin_headers E (auth_world E w) None s)) (ep_body ep rq)) (ep_reply ep) E (auth_world E w)"
    by (simp add: forward_def authorized_session [OF assms(2,3)])
  finally show ?thesis
    by (simp add: seq_def fetch_backend_run Let_def endpoint_request_def pure [symmetric]
        split: fetch_result.splits)
qed

lemma called_url:
  assumes "(h, ep) \<in> set table" "auth_result E w = Some s" "truthy (user_id_of (Some s))"
  shows "called_urls h rq E w = [getBackendBaseUrl E @ ep_path ep rq]"
  using signed_in [OF assms, of rq]
  by (simp add: called_urls_def Let_def endpoint_request_def split: fetch_result.splits)

lemma request_authorized:
  assumes "(h, ep) \<in> set table"
  shows "map_of (rq_headers (endpoint_request ep rq E (admin_headers E w None s))) ''authorization''
         = Some (''Bearer '' @ session_token E w s)"
  using keeps_authorization [OF assms distinct_admin_headers] admin_headers_authorization
  by (simp add: endpoint_request_def)

end

text \<open>The descriptions the handlers use satisfy the laws of the interface.\<close>

lemma ep_laws [simp]:
  "ep_headers (plain_ep m p r) = (\<lambda>hs. hs)" "ep_headers (body_ep m p r) = json_headers"
  "ep_headers (typed_body_ep m p r) = obj_set ''content-type'' ''application/json''"
  "ep_reply (plain_ep m p r) = r" "ep_reply (body_ep m p r) = r" "ep_reply (typed_body_ep m p r) = r"
  "ep_method (plain_ep m p r) = m" "ep_method (body_ep m p r) = m" "ep_method (typed_body_ep m p r) = m"
  "ep_path (plain_ep m p r) = p" "ep_path (body_ep m p r) = p" "ep_path (typed_body_ep m p r) = p"
  "ep_body (plain_ep m p r) = (\<lambda>_. NoBody)" "ep_body (body_ep m p r) = (\<lambda>rq. Text (cq_body rq))"
  "ep_body (typed_body_ep m p r) = (\<lambda>rq. Text (cq_body rq))"
  by (simp_all add: plain_ep_def body_ep_def typed_body_ep_def)

definition lawful :: "endpoint \<Rightarrow> bool" where
  "lawful ep \<longleftrightarrow>
     (\<forall>hs. distinct (map fst hs) \<longrightarrow> map_of (ep_headers ep hs) ''authorization'' = map_of hs ''authorization'')
     \<and> (\<forall>rs. pure_eff (ep_reply ep rs))"

lemma lawful_eps [simp]:
  "\<forall>rs. pure_eff (r rs) \<Longrightarrow> lawful (plain_ep m p r)"
  "\<forall>rs. pure_eff (r rs) \<Longrightarrow> lawful (body_ep m p r)"
  "\<forall>rs. pure_eff (r rs) \<Longrightarrow> lawful (typed_body_ep m p r)"
  by (simp_all add: lawful_def)

lemma endpoint_tableI:
  assumes "\<forall>(h, ep) \<in> set table. h = forward ep" "\<forall>(h, ep) \<in> set table. lawful ep"
  shows "endpoint_table table"
  using assms by unfold_locales (auto simp: lawful_def)

lemma endpoint_table_append:
  "endpoint_table xs \<Longrightarrow> endpoint_table ys \<Longrightarrow> endpoint_table (xs @ ys)"
  by (auto simp: endpoint_table_def)

end
