(* ===== verification/ApiTenancy.thy ===== *)
theory ApiTenancy
  imports Gateway
begin

text \<open>
  Route handlers under \<open>app/api/admin\<close> for protected apps, provisioning grants, organisations
  (members, invites, joining) and the organisation's IP rules, one definition per exported method.
\<close>

section \<open>Handlers\<close>

definition apps_GET :: handler where
  "apps_GET rq = authorized (\<lambda>headers.
     seq (fetch_backend ''GET'' ''/api/v1/admin/apps'' headers
            NoBody) relay)"

definition apps_POST :: handler where
  "apps_POST rq = authorized (\<lambda>headers.
     let body = cq_body rq in
     seq (fetch_backend ''POST'' ''/api/v1/admin/apps'' (json_headers headers)
            (Text body)) relay)"

definition apps_appID_GET :: handler where
  "apps_appID_GET rq = authorized (\<lambda>headers.
     let appID = cq_params rq ''appID'' in
     seq (fetch_backend ''GET'' (''/api/v1/admin/apps/'' @ appID) headers
            NoBody) relay)"

definition apps_appID_PUT :: handler where
  "apps_appID_PUT rq = authorized (\<lambda>headers.
     let appID = cq_params rq ''appID''; body = cq_body rq in
     seq (fetch_backend ''PUT'' (''/api/v1/admin/apps/'' @ appID) (json_headers headers)
            (Text body)) relay)"

definition apps_appID_DELETE :: handler where
  "apps_appID_DELETE rq = authorized (\<lambda>headers.
     let appID = cq_params rq ''appID'' in
     seq (fetch_backend ''DELETE'' (''/api/v1/admin/apps/'' @ appID) headers
            NoBody) relay_or_empty)"

definition apps_appID_sessions_GET :: handler where
  "apps_appID_sessions_GET rq = authorized (\<lambda>headers.
     let appID = cq_params rq ''appID'' in
     seq (fetch_backend ''GET'' (''/api/v1/admin/apps/'' @ appID @ ''/sessions'') headers
            NoBody) relay)"

definition apps_appID_sessions_sessionID_DELETE :: handler where
  "apps_appID_sessions_sessionID_DELETE rq = authorized (\<lambda>headers.
     let appID = cq_params rq ''appID''; sessionID = cq_params rq ''sessionID'' in
     seq (fetch_backend ''DELETE'' (''/api/v1/admin/apps/'' @ appID @ ''/sessions/'' @ sessionID) headers
            NoBody) relay_or_empty)"

definition apps_appID_tokens_GET :: handler where
  "apps_appID_tokens_GET rq = authorized (\<lambda>headers.
     let appID = cq_params rq ''appID'' in
     seq (fetch_backend ''GET'' (''/api/v1/admin/apps/'' @ appID @ ''/tokens'') headers
            NoBody) relay)"

definition apps_appID_tokens_POST :: handler where
  "apps_appID_tokens_POST rq = authorized (\<lambda>headers.
     let appID = cq_params rq ''appID''; body = cq_body rq in
     seq (fetch_backend ''POST'' (''/api/v1/admin/apps/'' @ appID @ ''/tokens'') (json_headers headers)
            (Text body)) relay)"

definition apps_appID_tokens_tokenID_DELETE :: handler where
  "apps_appID_tokens_tokenID_DELETE rq = authorized (\<lambda>headers.
     let appID = cq_params rq ''appID''; tokenID = cq_params rq ''tokenID'' in
     seq (fetch_backend ''DELETE'' (''/api/v1/admin/apps/'' @ appID @ ''/tokens/'' @ tokenID) headers
            NoBody) relay_or_empty)"

definition grants_GET :: handler where
  "grants_GET rq = authorized (\<lambda>headers.
     seq (fetch_backend ''GET'' ''/api/v1/admin/grants'' headers
            NoBody) relay)"

definition grants_POST :: handler where
  "grants_POST rq = authorized (\<lambda>headers.
     let body = cq_body rq in
     seq (fetch_backend ''POST'' ''/api/v1/admin/grants'' (json_headers headers)
            (Text body)) relay)"

definition grants_grantID_DELETE :: handler where
  "grants_grantID_DELETE rq = authorized (\<lambda>headers.
     let grantID = cq_params rq ''grantID'' in
     seq (fetch_backend ''DELETE'' (''/api/v1/admin/grants/'' @ grantID) headers
            NoBody) relay_null_body)"

definition grants_grantID_issuances_GET :: handler where
  "grants_grantID_issuances_GET rq = authorized (\<lambda>headers.
     let grantID = cq_params rq ''grantID'' in
     seq (fetch_backend ''GET'' (''/api/v1/admin/grants/'' @ grantID @ ''/issuances'') headers
            NoBody) relay)"

definition org_ip_rules_GET :: handler where
  "org_ip_rules_GET rq = authorized (\<lambda>headers.
     seq (fetch_backend ''GET'' ''/api/v1/admin/org-ip-rules'' headers
            NoBody) relay)"

definition org_ip_rules_POST :: handler where
  "org_ip_rules_POST rq = authorized (\<lambda>headers.
     let body = cq_body rq in
     seq (fetch_backend ''POST'' ''/api/v1/admin/org-ip-rules'' (json_headers headers)
            (Text body)) relay)"

definition org_ip_rules_ruleID_DELETE :: handler where
  "org_ip_rules_ruleID_DELETE rq = authorized (\<lambda>headers.
     let ruleID = cq_params rq ''ruleID'' in
     seq (fetch_backend ''DELETE'' (''/api/v1/admin/org-ip-rules/'' @ ruleID) headers
            NoBody) relay_null_body)"

definition orgs_GET :: handler where
  "orgs_GET rq = authorized (\<lambda>headers.
     seq (fetch_backend ''GET'' ''/api/v1/admin/orgs'' headers
            NoBody) relay)"

definition orgs_POST :: handler where
  "orgs_POST rq = authorized (\<lambda>headers.
     let body = cq_body rq in
     seq (fetch_backend ''POST'' ''/api/v1/admin/orgs'' (json_headers headers)
            (Text body)) relay)"

definition orgs_orgID_invites_GET :: handler where
  "orgs_orgID_invites_GET rq = authorized (\<lambda>headers.
     let orgID = cq_params rq ''orgID'' in
     seq (fetch_backend ''GET'' (''/api/v1/admin/orgs/'' @ orgID @ ''/invites'') headers
            NoBody) relay)"

definition orgs_orgID_invites_POST :: handler where
  "orgs_orgID_invites_POST rq = authorized (\<lambda>headers.
     let orgID = cq_params rq ''orgID'' in
     seq (fetch_backend ''POST'' (''/api/v1/admin/orgs/'' @ orgID @ ''/invites'') headers
            NoBody) relay)"

definition orgs_orgID_invites_inviteID_DELETE :: handler where
  "orgs_orgID_invites_inviteID_DELETE rq = authorized (\<lambda>headers.
     let orgID = cq_params rq ''orgID''; inviteID = cq_params rq ''inviteID'' in
     seq (fetch_backend ''DELETE'' (''/api/v1/admin/orgs/'' @ orgID @ ''/invites/'' @ inviteID) headers
            NoBody) relay_or_empty)"

definition orgs_orgID_members_GET :: handler where
  "orgs_orgID_members_GET rq = authorized (\<lambda>headers.
     let orgID = cq_params rq ''orgID'' in
     seq (fetch_backend ''GET'' (''/api/v1/admin/orgs/'' @ orgID @ ''/members'') headers
            NoBody) relay)"

definition orgs_orgID_members_POST :: handler where
  "orgs_orgID_members_POST rq = authorized (\<lambda>headers.
     let orgID = cq_params rq ''orgID''; body = cq_body rq in
     seq (fetch_backend ''POST'' (''/api/v1/admin/orgs/'' @ orgID @ ''/members'') (json_headers headers)
            (Text body)) relay)"

definition orgs_orgID_members_userID_PATCH :: handler where
  "orgs_orgID_members_userID_PATCH rq = authorized (\<lambda>headers.
     let orgID = cq_params rq ''orgID''; userID = cq_params rq ''userID''; body = cq_body rq in
     seq (fetch_backend ''PATCH'' (''/api/v1/admin/orgs/'' @ orgID @ ''/members/'' @ userID) (json_headers headers)
            (Text body)) relay)"

definition orgs_orgID_members_userID_DELETE :: handler where
  "orgs_orgID_members_userID_DELETE rq = authorized (\<lambda>headers.
     let orgID = cq_params rq ''orgID''; userID = cq_params rq ''userID'' in
     seq (fetch_backend ''DELETE'' (''/api/v1/admin/orgs/'' @ orgID @ ''/members/'' @ userID) headers
            NoBody) relay_or_empty)"

definition orgs_join_POST :: handler where
  "orgs_join_POST rq = authorized (\<lambda>headers.
     let body = cq_body rq in
     seq (fetch_backend ''POST'' ''/api/v1/admin/orgs/join'' (json_headers headers)
            (Text body)) relay)"

section \<open>The handlers as endpoint descriptions\<close>

definition tenancy_table :: "(handler \<times> endpoint) list" where
  "tenancy_table =
    [(apps_GET, plain_ep ''GET'' (\<lambda>rq. ''/api/v1/admin/apps'') relay),
     (apps_POST, body_ep ''POST'' (\<lambda>rq. ''/api/v1/admin/apps'') relay),
     (apps_appID_GET, plain_ep ''GET'' (\<lambda>rq. ''/api/v1/admin/apps/'' @ cq_params rq ''appID'') relay),
     (apps_appID_PUT, body_ep ''PUT'' (\<lambda>rq. ''/api/v1/admin/apps/'' @ cq_params rq ''appID'') relay),
     (apps_appID_DELETE, plain_ep ''DELETE'' (\<lambda>rq. ''/api/v1/admin/apps/'' @ cq_params rq ''appID'') relay_or_empty),
     (apps_appID_sessions_GET, plain_ep ''GET'' (\<lambda>rq. ''/api/v1/admin/apps/'' @ cq_params rq ''appID'' @ ''/sessions'') relay),
     (apps_appID_sessions_sessionID_DELETE, plain_ep ''DELETE'' (\<lambda>rq. ''/api/v1/admin/apps/'' @ cq_params rq ''appID'' @ ''/sessions/'' @ cq_params rq ''sessionID'') relay_or_empty),
     (apps_appID_tokens_GET, plain_ep ''GET'' (\<lambda>rq. ''/api/v1/admin/apps/'' @ cq_params rq ''appID'' @ ''/tokens'') relay),
     (apps_appID_tokens_POST, body_ep ''POST'' (\<lambda>rq. ''/api/v1/admin/apps/'' @ cq_params rq ''appID'' @ ''/tokens'') relay),
     (apps_appID_tokens_tokenID_DELETE, plain_ep ''DELETE'' (\<lambda>rq. ''/api/v1/admin/apps/'' @ cq_params rq ''appID'' @ ''/tokens/'' @ cq_params rq ''tokenID'') relay_or_empty),
     (grants_GET, plain_ep ''GET'' (\<lambda>rq. ''/api/v1/admin/grants'') relay),
     (grants_POST, body_ep ''POST'' (\<lambda>rq. ''/api/v1/admin/grants'') relay),
     (grants_grantID_DELETE, plain_ep ''DELETE'' (\<lambda>rq. ''/api/v1/admin/grants/'' @ cq_params rq ''grantID'') relay_null_body),
     (grants_grantID_issuances_GET, plain_ep ''GET'' (\<lambda>rq. ''/api/v1/admin/grants/'' @ cq_params rq ''grantID'' @ ''/issuances'') relay),
     (org_ip_rules_GET, plain_ep ''GET'' (\<lambda>rq. ''/api/v1/admin/org-ip-rules'') relay),
     (org_ip_rules_POST, body_ep ''POST'' (\<lambda>rq. ''/api/v1/admin/org-ip-rules'') relay),
     (org_ip_rules_ruleID_DELETE, plain_ep ''DELETE'' (\<lambda>rq. ''/api/v1/admin/org-ip-rules/'' @ cq_params rq ''ruleID'') relay_null_body),
     (orgs_GET, plain_ep ''GET'' (\<lambda>rq. ''/api/v1/admin/orgs'') relay),
     (orgs_POST, body_ep ''POST'' (\<lambda>rq. ''/api/v1/admin/orgs'') relay),
     (orgs_orgID_invites_GET, plain_ep ''GET'' (\<lambda>rq. ''/api/v1/admin/orgs/'' @ cq_params rq ''orgID'' @ ''/invites'') relay),
     (orgs_orgID_invites_POST, plain_ep ''POST'' (\<lambda>rq. ''/api/v1/admin/orgs/'' @ cq_params rq ''orgID'' @ ''/invites'') relay),
     (orgs_orgID_invites_inviteID_DELETE, plain_ep ''DELETE'' (\<lambda>rq. ''/api/v1/admin/orgs/'' @ cq_params rq ''orgID'' @ ''/invites/'' @ cq_params rq ''inviteID'') relay_or_empty),
     (orgs_orgID_members_GET, plain_ep ''GET'' (\<lambda>rq. ''/api/v1/admin/orgs/'' @ cq_params rq ''orgID'' @ ''/members'') relay),
     (orgs_orgID_members_POST, body_ep ''POST'' (\<lambda>rq. ''/api/v1/admin/orgs/'' @ cq_params rq ''orgID'' @ ''/members'') relay),
     (orgs_orgID_members_userID_PATCH, body_ep ''PATCH'' (\<lambda>rq. ''/api/v1/admin/orgs/'' @ cq_params rq ''orgID'' @ ''/members/'' @ cq_params rq ''userID'') relay),
     (orgs_orgID_members_userID_DELETE, plain_ep ''DELETE'' (\<lambda>rq. ''/api/v1/admin/orgs/'' @ cq_params rq ''orgID'' @ ''/members/'' @ cq_params rq ''userID'') relay_or_empty),
     (orgs_join_POST, body_ep ''POST'' (\<lambda>rq. ''/api/v1/admin/orgs/join'') relay)]"

lemmas tenancy_handler_defs =
    apps_GET_def apps_POST_def apps_appID_GET_def apps_appID_PUT_def apps_appID_DELETE_def
    apps_appID_sessions_GET_def apps_appID_sessions_sessionID_DELETE_def apps_appID_tokens_GET_def
    apps_appID_tokens_POST_def apps_appID_tokens_tokenID_DELETE_def grants_GET_def grants_POST_def
    grants_grantID_DELETE_def grants_grantID_issuances_GET_def org_ip_rules_GET_def
    org_ip_rules_POST_def org_ip_rules_ruleID_DELETE_def orgs_GET_def orgs_POST_def
    orgs_orgID_invites_GET_def orgs_orgID_invites_POST_def orgs_orgID_invites_inviteID_DELETE_def
    orgs_orgID_members_GET_def orgs_orgID_members_POST_def orgs_orgID_members_userID_PATCH_def
    orgs_orgID_members_userID_DELETE_def orgs_join_POST_def

lemma tenancy_forwards: "\<forall>(h, ep) \<in> set tenancy_table. h = forward ep"
  by (simp add: tenancy_table_def tenancy_handler_defs forward_def fun_eq_iff Let_def)

lemma tenancy_lawful: "\<forall>(h, ep) \<in> set tenancy_table. lawful ep"
  by (simp add: tenancy_table_def)

interpretation tenancy: endpoint_table tenancy_table
  by (rule endpoint_tableI [OF tenancy_forwards tenancy_lawful])

end
