(* ===== verification/ApiRouting.thy ===== *)
theory ApiRouting
  imports Gateway
begin

text \<open>
  Route handlers under \<open>app/api/admin\<close> for routes, their upstreams, tenants, tokens, circuit
  breakers and the route tester, one definition per exported method.
\<close>

section \<open>Handlers\<close>

definition circuit_breakers_routeID_PATCH :: handler where
  "circuit_breakers_routeID_PATCH rq = authorized (\<lambda>headers.
     let routeID = cq_params rq ''routeID''; body = cq_body rq in
     seq (fetch_backend ''PATCH'' (''/api/v1/admin/circuit-breakers/'' @ routeID) (json_headers headers)
            (Text body)) relay)"

definition route_test_POST :: handler where
  "route_test_POST rq = authorized (\<lambda>headers.
     let body = cq_body rq in
     seq (fetch_backend ''POST'' ''/api/v1/admin/route-test'' (json_headers headers)
            (Text body)) relay)"

definition route_upstream_upstreamID_PATCH :: handler where
  "route_upstream_upstreamID_PATCH rq = authorized (\<lambda>headers.
     let upstreamID = cq_params rq ''upstreamID''; body = cq_body rq in
     seq (fetch_backend ''PATCH'' (''/api/v1/admin/route-upstream/'' @ encodeURIComponent upstreamID) (obj_set ''content-type'' ''application/json'' headers)
            (Text body)) relay_or_empty)"

definition route_upstream_upstreamID_DELETE :: handler where
  "route_upstream_upstreamID_DELETE rq = authorized (\<lambda>headers.
     let upstreamID = cq_params rq ''upstreamID'' in
     seq (fetch_backend ''DELETE'' (''/api/v1/admin/route-upstream/'' @ encodeURIComponent upstreamID) headers
            NoBody) relay_or_empty)"

definition routes_POST :: handler where
  "routes_POST rq = authorized (\<lambda>headers.
     let body = cq_body rq in
     seq (fetch_backend ''POST'' ''/api/v1/admin/routes'' (json_headers headers)
            (Text body)) relay)"

definition routes_routeID_PATCH :: handler where
  "routes_routeID_PATCH rq = authorized (\<lambda>headers.
     let routeID = cq_params rq ''routeID''; body = cq_body rq in
     seq (fetch_backend ''PATCH'' (''/api/v1/admin/routes/'' @ routeID) (json_headers headers)
            (Text body)) relay)"

definition routes_routeID_DELETE :: handler where
  "routes_routeID_DELETE rq = authorized (\<lambda>headers.
     let routeID = cq_params rq ''routeID'' in
     seq (fetch_backend ''DELETE'' (''/api/v1/admin/routes/'' @ routeID) headers
            NoBody) relay_or_empty)"

definition routes_routeID_duplicate_POST :: handler where
  "routes_routeID_duplicate_POST rq = authorized (\<lambda>headers.
     let routeID = cq_params rq ''routeID'' in
     seq (fetch_backend ''POST'' (''/api/v1/admin/routes/'' @ routeID @ ''/duplicate'') headers
            NoBody) relay)"

definition routes_routeID_upstreams_GET :: handler where
  "routes_routeID_upstreams_GET rq = authorized (\<lambda>headers.
     let routeID = cq_params rq ''routeID'' in
     seq (fetch_backend ''GET'' (''/api/v1/admin/route-upstreams/'' @ encodeURIComponent routeID) headers
            NoBody) relay)"

definition routes_routeID_upstreams_POST :: handler where
  "routes_routeID_upstreams_POST rq = authorized (\<lambda>headers.
     let routeID = cq_params rq ''routeID''; body = cq_body rq in
     seq (fetch_backend ''POST'' (''/api/v1/admin/route-upstreams/'' @ encodeURIComponent routeID) (json_headers headers)
            (Text body)) relay)"

definition tenant_upstream_upstreamID_PATCH :: handler where
  "tenant_upstream_upstreamID_PATCH rq = authorized (\<lambda>headers.
     let upstreamID = cq_params rq ''upstreamID''; body = cq_body rq in
     seq (fetch_backend ''PATCH'' (''/api/v1/admin/tenant-upstream/'' @ encodeURIComponent upstreamID) (obj_set ''content-type'' ''application/json'' headers)
            (Text body)) relay_or_empty)"

definition tenant_upstream_upstreamID_DELETE :: handler where
  "tenant_upstream_upstreamID_DELETE rq = authorized (\<lambda>headers.
     let upstreamID = cq_params rq ''upstreamID'' in
     seq (fetch_backend ''DELETE'' (''/api/v1/admin/tenant-upstream/'' @ encodeURIComponent upstreamID) headers
            NoBody) relay_or_empty)"

definition tenants_POST :: handler where
  "tenants_POST rq = authorized (\<lambda>headers.
     let body = cq_body rq in
     seq (fetch_backend ''POST'' ''/api/v1/admin/tenants'' (json_headers headers)
            (Text body)) relay)"

definition tenants_tenantID_PATCH :: handler where
  "tenants_tenantID_PATCH rq = authorized (\<lambda>headers.
     let tenantID = cq_params rq ''tenantID''; body = cq_body rq in
     seq (fetch_backend ''PATCH'' (''/api/v1/admin/tenants/'' @ tenantID) (json_headers headers)
            (Text body)) relay)"

definition tenants_tenantID_DELETE :: handler where
  "tenants_tenantID_DELETE rq = authorized (\<lambda>headers.
     let tenantID = cq_params rq ''tenantID'' in
     seq (fetch_backend ''DELETE'' (''/api/v1/admin/tenants/'' @ tenantID) headers
            NoBody) relay_or_empty)"

definition tenants_tenantID_upstreams_GET :: handler where
  "tenants_tenantID_upstreams_GET rq = authorized (\<lambda>headers.
     let tenantID = cq_params rq ''tenantID'' in
     seq (fetch_backend ''GET'' (''/api/v1/admin/tenant-upstreams/'' @ encodeURIComponent tenantID) headers
            NoBody) relay)"

definition tenants_tenantID_upstreams_POST :: handler where
  "tenants_tenantID_upstreams_POST rq = authorized (\<lambda>headers.
     let tenantID = cq_params rq ''tenantID''; body = cq_body rq in
     seq (fetch_backend ''POST'' (''/api/v1/admin/tenant-upstreams/'' @ encodeURIComponent tenantID) (json_headers headers)
            (Text body)) relay)"

definition tokens_POST :: handler where
  "tokens_POST rq = authorized (\<lambda>headers.
     let body = cq_body rq in
     seq (fetch_backend ''POST'' ''/api/v1/admin/tokens'' (json_headers headers)
            (Text body)) relay)"

definition tokens_tokenID_PATCH :: handler where
  "tokens_tokenID_PATCH rq = authorized (\<lambda>headers.
     let tokenID = cq_params rq ''tokenID''; body = cq_body rq in
     seq (fetch_backend ''PATCH'' (''/api/v1/admin/tokens/'' @ tokenID) (json_headers headers)
            (Text body)) relay)"

definition tokens_tokenID_DELETE :: handler where
  "tokens_tokenID_DELETE rq = authorized (\<lambda>headers.
     let tokenID = cq_params rq ''tokenID'' in
     seq (fetch_backend ''DELETE'' (''/api/v1/admin/tokens/'' @ tokenID) headers
            NoBody) relay_or_empty)"

definition tokens_tokenID_extend_POST :: handler where
  "tokens_tokenID_extend_POST rq = authorized (\<lambda>headers.
     let tokenID = cq_params rq ''tokenID''; body = cq_body rq in
     seq (fetch_backend ''POST'' (''/api/v1/admin/tokens/'' @ tokenID @ ''/extend'') (json_headers headers)
            (Text body)) relay)"

definition tokens_tokenID_rotate_POST :: handler where
  "tokens_tokenID_rotate_POST rq = authorized (\<lambda>headers.
     let tokenID = cq_params rq ''tokenID'' in
     seq (fetch_backend ''POST'' (''/api/v1/admin/tokens/'' @ tokenID @ ''/rotate'') headers
            NoBody) relay)"

definition tokens_bulk_POST :: handler where
  "tokens_bulk_POST rq = authorized (\<lambda>headers.
     let body = cq_body rq in
     seq (fetch_backend ''POST'' ''/api/v1/admin/tokens/bulk'' (json_headers headers)
            (Text body)) relay)"

definition tokens_tokenID_stats_GET :: handler where
  "tokens_tokenID_stats_GET rq = authorized (\<lambda>headers.
     let tokenID = cq_params rq ''tokenID''; hours = nullish (query_get rq ''hours'') ''24'' in
     seq (fetch_backend ''GET'' (''/api/v1/admin/tokens/'' @ tokenID @ ''/stats?hours='' @ hours) headers
            NoBody) relay)"

section \<open>The handlers as endpoint descriptions\<close>

definition routing_table :: "(handler \<times> endpoint) list" where
  "routing_table =
    [(circuit_breakers_routeID_PATCH, body_ep ''PATCH'' (\<lambda>rq. ''/api/v1/admin/circuit-breakers/'' @ cq_params rq ''routeID'') relay),
     (route_test_POST, body_ep ''POST'' (\<lambda>rq. ''/api/v1/admin/route-test'') relay),
     (route_upstream_upstreamID_PATCH, typed_body_ep ''PATCH'' (\<lambda>rq. ''/api/v1/admin/route-upstream/'' @ encodeURIComponent (cq_params rq ''upstreamID'')) relay_or_empty),
     (route_upstream_upstreamID_DELETE, plain_ep ''DELETE'' (\<lambda>rq. ''/api/v1/admin/route-upstream/'' @ encodeURIComponent (cq_params rq ''upstreamID'')) relay_or_empty),
     (routes_POST, body_ep ''POST'' (\<lambda>rq. ''/api/v1/admin/routes'') relay),
     (routes_routeID_PATCH, body_ep ''PATCH'' (\<lambda>rq. ''/api/v1/admin/routes/'' @ cq_params rq ''routeID'') relay),
     (routes_routeID_DELETE, plain_ep ''DELETE'' (\<lambda>rq. ''/api/v1/admin/routes/'' @ cq_params rq ''routeID'') relay_or_empty),
     (routes_routeID_duplicate_POST, plain_ep ''POST'' (\<lambda>rq. ''/api/v1/admin/routes/'' @ cq_params rq ''routeID'' @ ''/duplicate'') relay),
     (routes_routeID_upstreams_GET, plain_ep ''GET'' (\<lambda>rq. ''/api/v1/admin/route-upstreams/'' @ encodeURIComponent (cq_params rq ''routeID'')) relay),
     (routes_routeID_upstreams_POST, body_ep ''POST'' (\<lambda>rq. ''/api/v1/admin/route-upstreams/'' @ encodeURIComponent (cq_params rq ''routeID'')) relay),
     (tenant_upstream_upstreamID_PATCH, typed_body_ep ''PATCH'' (\<lambda>rq. ''/api/v1/admin/tenant-upstream/'' @ encodeURIComponent (cq_params rq ''upstreamID'')) relay_or_empty),
     (tenant_upstream_upstreamID_DELETE, plain_ep ''DELETE'' (\<lambda>rq. ''/api/v1/admin/tenant-upstream/'' @ encodeURIComponent (cq_params rq ''upstreamID'')) relay_or_empty),
     (tenants_POST, body_ep ''POST'' (\<lambda>rq. ''/api/v1/admin/tenants'') relay),
     (tenants_tenantID_PATCH, body_ep ''PATCH'' (\<lambda>rq. ''/api/v1/admin/tenants/'' @ cq_params rq ''tenantID'') relay),
     (tenants_tenantID_DELETE, plain_ep ''DELETE'' (\<lambda>rq. ''/api/v1/admin/tenants/'' @ cq_params rq ''tenantID'') relay_or_empty),
     (tenants_tenantID_upstreams_GET, plain_ep ''GET'' (\<lambda>rq. ''/api/v1/admin/tenant-upstreams/'' @ encodeURIComponent (cq_params rq ''tenantID'')) relay),
     (tenants_tenantID_upstreams_POST, body_ep ''POST'' (\<lambda>rq. ''/api/v1/admin/tenant-upstreams/'' @ encodeURIComponent (cq_params rq ''tenantID'')) relay),
     (tokens_POST, body_ep ''POST'' (\<lambda>rq. ''/api/v1/admin/tokens'') relay),
     (tokens_tokenID_PATCH, body_ep ''PATCH'' (\<lambda>rq. ''/api/v1/admin/tokens/'' @ cq_params rq ''tokenID'') relay),
     (tokens_tokenID_DELETE, plain_ep ''DELETE'' (\<lambda>rq. ''/api/v1/admin/tokens/'' @ cq_params rq ''tokenID'') relay_or_empty),
     (tokens_tokenID_extend_POST, body_ep ''POST'' (\<lambda>rq. ''/api/v1/admin/tokens/'' @ cq_params rq ''tokenID'' @ ''/extend'') relay),
     (tokens_tokenID_rotate_POST, plain_ep ''POST'' (\<lambda>rq. ''/api/v1/admin/tokens/'' @ cq_params rq ''tokenID'' @ ''/rotate'') relay),
     (tokens_bulk_POST, body_ep ''POST'' (\<lambda>rq. ''/api/v1/admin/tokens/bulk'') relay),
     (tokens_tokenID_stats_GET, plain_ep ''GET''
      (\<lambda>rq. ''/api/v1/admin/tokens/'' @ cq_params rq ''tokenID'' @ ''/stats?hours='' @ nullish (query_get rq ''hours'') ''24'') relay)]"

lemmas routing_handler_defs =
    circuit_breakers_routeID_PATCH_def route_test_POST_def route_upstream_upstreamID_PATCH_def
    route_upstream_upstreamID_DELETE_def routes_POST_def routes_routeID_PATCH_def
    routes_routeID_DELETE_def routes_routeID_duplicate_POST_def routes_routeID_upstreams_GET_def
    routes_routeID_upstreams_POST_def tenant_upstream_upstreamID_PATCH_def
    tenant_upstream_upstreamID_DELETE_def tenants_POST_def tenants_tenantID_PATCH_def
    tenants_tenantID_DELETE_def tenants_tenantID_upstreams_GET_def
    tenants_tenantID_upstreams_POST_def tokens_POST_def tokens_tokenID_PATCH_def
    tokens_tokenID_DELETE_def tokens_tokenID_extend_POST_def tokens_tokenID_rotate_POST_def
    tokens_bulk_POST_def tokens_tokenID_stats_GET_def

lemma routing_forwards: "\<forall>(h, ep) \<in> set routing_table. h = forward ep"
  by (simp add: routing_table_def routing_handler_defs forward_def fun_eq_iff Let_def)

lemma routing_lawful: "\<forall>(h, ep) \<in> set routing_table. lawful ep"
  by (simp add: routing_table_def)

interpretation routing: endpoint_table routing_table
  by (rule endpoint_tableI [OF routing_forwards routing_lawful])

end
