(* ===== verification/ApiPlatform.thy ===== *)
theory ApiPlatform
  imports Gateway
begin

text \<open>
  Route handlers under \<open>app/api\<close> for platform administration, sessions, settings, import and
  export, search, traffic, health history, topology, the event streams, and the public handlers
  for registration, invite previews and setup; one definition per exported method. The table at
  the end lists every handler that forwards to the backend.
\<close>

section \<open>Handlers\<close>

definition import_POST :: handler where
  "import_POST rq = authorized (\<lambda>headers.
     let body = cq_body rq in
     seq (fetch_backend ''POST'' ''/api/v1/admin/import'' (json_headers headers)
            (Text body)) relay)"

definition platform_admins_GET :: handler where
  "platform_admins_GET rq = authorized (\<lambda>headers.
     seq (fetch_backend ''GET'' ''/api/v1/admin/platform/admins'' headers
            NoBody) relay)"

definition platform_admins_POST :: handler where
  "platform_admins_POST rq = authorized (\<lambda>headers.
     let body = cq_body rq in
     seq (fetch_backend ''POST'' ''/api/v1/admin/platform/admins'' (json_headers headers)
            (Text body)) relay)"

definition platform_admins_userID_DELETE :: handler where
  "platform_admins_userID_DELETE rq = authorized (\<lambda>headers.
     let userID = cq_params rq ''userID'' in
     seq (fetch_backend ''DELETE'' (''/api/v1/admin/platform/admins/'' @ encodeURIComponent userID) headers
            NoBody) relay)"

definition platform_check_GET :: handler where
  "platform_check_GET rq = authorized (\<lambda>headers.
     seq (fetch_backend ''GET'' ''/api/v1/admin/platform/check'' headers
            NoBody) relay)"

definition platform_orgs_GET :: handler where
  "platform_orgs_GET rq = authorized (\<lambda>headers.
     seq (fetch_backend ''GET'' ''/api/v1/admin/platform/orgs'' headers
            NoBody) relay)"

definition platform_orgs_orgID_DELETE :: handler where
  "platform_orgs_orgID_DELETE rq = authorized (\<lambda>headers.
     let orgID = cq_params rq ''orgID'' in
     seq (fetch_backend ''DELETE'' (''/api/v1/admin/platform/orgs/'' @ encodeURIComponent orgID) headers
            NoBody) relay)"

definition platform_replicas_GET :: handler where
  "platform_replicas_GET rq = authorized (\<lambda>headers.
     seq (fetch_backend ''GET'' ''/api/v1/admin/platform/replicas'' headers
            NoBody) relay)"

definition platform_users_GET :: handler where
  "platform_users_GET rq = authorized (\<lambda>headers.
     seq (fetch_backend ''GET'' ''/api/v1/admin/platform/users'' headers
            NoBody) relay)"

definition platform_users_userID_DELETE :: handler where
  "platform_users_userID_DELETE rq = authorized (\<lambda>headers.
     let userID = cq_params rq ''userID'' in
     seq (fetch_backend ''DELETE'' (''/api/v1/admin/platform/users/'' @ encodeURIComponent userID) headers
            NoBody) relay)"

definition sessions_sessionID_revoke_POST :: handler where
  "sessions_sessionID_revoke_POST rq = authorized (\<lambda>headers.
     let sessionID = cq_params rq ''sessionID'' in
     seq (fetch_backend ''POST'' (''/api/v1/admin/sessions/'' @ encodeURIComponent sessionID @ ''/revoke'') headers
            NoBody) relay)"

definition settings_oidc_GET :: handler where
  "settings_oidc_GET rq = authorized (\<lambda>headers.
     seq (fetch_backend ''GET'' ''/api/v1/admin/settings/oidc'' headers
            NoBody) relay)"

definition settings_oidc_PUT :: handler where
  "settings_oidc_PUT rq = authorized (\<lambda>headers.
     let body = cq_body rq in
     seq (fetch_backend ''PUT'' ''/api/v1/admin/settings/oidc'' (json_headers headers)
            (Text body)) relay)"

definition settings_oidc_mappings_GET :: handler where
  "settings_oidc_mappings_GET rq = authorized (\<lambda>headers.
     seq (fetch_backend ''GET'' ''/api/v1/admin/settings/oidc/mappings'' headers
            NoBody) relay)"

definition settings_oidc_mappings_POST :: handler where
  "settings_oidc_mappings_POST rq = authorized (\<lambda>headers.
     let body = cq_body rq in
     seq (fetch_backend ''POST'' ''/api/v1/admin/settings/oidc/mappings'' (json_headers headers)
            (Text body)) relay)"

definition settings_oidc_mappings_id_DELETE :: handler where
  "settings_oidc_mappings_id_DELETE rq = authorized (\<lambda>headers.
     let mappingID = cq_params rq ''id'' in
     seq (fetch_backend ''DELETE'' (''/api/v1/admin/settings/oidc/mappings/'' @ encodeURIComponent mappingID) headers
            NoBody) relay_or_empty)"

definition settings_retention_GET :: handler where
  "settings_retention_GET rq = authorized (\<lambda>headers.
     seq (fetch_backend ''GET'' ''/api/v1/admin/settings/retention'' headers
            NoBody) relay)"

definition settings_retention_PATCH :: handler where
  "settings_retention_PATCH rq = authorized (\<lambda>headers.
     let body = cq_body rq in
     seq (fetch_backend ''PATCH'' ''/api/v1/admin/settings/retention'' (json_headers headers)
            (Text body)) relay)"

definition settings_retention_purge_POST :: handler where
  "settings_retention_purge_POST rq = authorized (\<lambda>headers.
     let body = cq_body rq in
     seq (fetch_backend ''POST'' ''/api/v1/admin/settings/retention/purge'' (json_headers headers)
            (Text body)) relay)"

definition traffic_overview_GET :: handler where
  "traffic_overview_GET rq = authorized (\<lambda>headers.
     seq (fetch_backend ''GET'' ''/api/v1/admin/traffic/overview'' headers
            NoBody) relay)"

definition health_history_GET :: handler where
  "health_history_GET rq = authorized (\<lambda>headers.
     let routeID = or_str (query_get rq ''routeID'') [] in
     seq (fetch_backend ''GET'' (''/api/v1/admin/health-history?routeID='' @ encodeURIComponent routeID) headers
            NoBody) relay)"

definition search_GET :: handler where
  "search_GET rq = authorized (\<lambda>headers.
     let q = or_str (query_get rq ''q'') [] in
     seq (fetch_backend ''GET'' (''/api/v1/admin/search?q='' @ encodeURIComponent q) headers
            NoBody) relay)"

definition traffic_heatmap_GET :: handler where
  "traffic_heatmap_GET rq = authorized (\<lambda>headers.
     let days = nullish (query_get rq ''days'') ''7'' in
     seq (fetch_backend ''GET'' (''/api/v1/admin/traffic/heatmap?days='' @ encodeURIComponent days) headers
            NoBody) relay)"

definition traffic_route_GET :: handler where
  "traffic_route_GET rq = authorized (\<lambda>headers.
     let routeSlug = nullish (query_get rq ''routeSlug'') []; hours = nullish (query_get rq ''hours'') ''24'' in
     seq (fetch_backend ''GET'' (''/api/v1/admin/traffic/route?routeSlug='' @ encodeURIComponent routeSlug @
                                 ''&hours='' @ hours) headers
            NoBody) relay)"

definition traffic_stats_GET :: handler where
  "traffic_stats_GET rq = authorized (\<lambda>headers.
     let hours = nullish (query_get rq ''hours'') ''24'' in
     seq (fetch_backend ''GET'' (''/api/v1/admin/traffic/stats?hours='' @ encodeURIComponent hours) headers
            NoBody) relay)"

text \<open>The export keeps the file name the backend suggests.\<close>

definition export_filename :: string where
  "export_filename = ''attachment; filename='' @ [CHR 0x22] @ ''justgate-config.json'' @ [CHR 0x22]"

definition export_reply :: "http_response \<Rightarrow> client_response eff" where
  "export_reply response =
     newResponse (Text (rs_text response)) (rs_status response)
       [(''content-type'', ''application/json''),
        (''content-disposition'', or_str (rs_header response ''content-disposition'') export_filename)]"

definition export_GET :: handler where
  "export_GET rq = authorized (\<lambda>headers.
     seq (fetch_backend ''GET'' ''/api/v1/admin/export'' headers NoBody) export_reply)"

text \<open>Answered by the front end itself.\<close>

definition settings_oidc_reload_POST :: handler where
  "settings_oidc_reload_POST rq = authorized (\<lambda>headers.
     seq bustOIDCCache (\<lambda>_. ret (json_response (JObj [(''ok'', JBool True)]) 200)))"

definition query_result_json :: "query_result \<Rightarrow> json" where
  "query_result_json r =
     JObj ([(''data'', qr_data r), (''source'', JStr (qr_source r)), (''backendUrl'', JStr (qr_backendUrl r))]
           @ opt_field ''error'' (qr_error r))"

definition topology_GET :: handler where
  "topology_GET rq = authorized (\<lambda>headers.
     seq getTopology (\<lambda>result. ret (json_response (query_result_json result) 200)))"

definition socket_session :: "(session \<Rightarrow> client_response eff) \<Rightarrow> client_response eff" where
  "socket_session k =
     seq auth (\<lambda>s. if \<not> truthy (user_id_of s) then ret unauthorized else k (the s))"

definition audit_socket_info_GET :: handler where
  "audit_socket_info_GET rq = socket_session (\<lambda>s.
     seq (ask getPublicBackendUrl) (\<lambda>base.
     seq (createBackendAdminToken s) (\<lambda>token.
     ret (json_response (JObj [(''token'', JStr token),
                               (''sseUrl'', JStr (base @ ''/api/v1/admin/audit/sse''))]) 200))))"

definition topology_socket_info_GET :: handler where
  "topology_socket_info_GET rq = socket_session (\<lambda>s.
     seq (ask getPublicBackendUrl) (\<lambda>base.
     seq (createBackendAdminToken s) (\<lambda>token.
     ret (json_response
       (JObj [(''token'', JStr token), (''sseUrl'', JStr (base @ ''/api/v1/admin/topology/sse'')),
              (''orgId'', (case s_activeOrgId s of None \<Rightarrow> JNull | Some o' \<Rightarrow> JStr o'))]) 200))))"

text \<open>Handlers that ask for no session.\<close>

definition auth_register_POST :: handler where
  "auth_register_POST rq =
     (let body = cq_body rq in
      seq (fetch_backend ''POST'' ''/api/v1/auth/local/register''
             [(''content-type'', ''application/json'')] (Text body)) relay)"

definition invite_preview_GET :: handler where
  "invite_preview_GET rq =
     (let code = nullish (query_get rq ''code'') [] in
      if code = [] then ret (json_response (error_json ''code is required'') 400)
      else seq (fetch_backend ''GET'' (''/api/v1/invite-preview?code='' @ encodeURIComponent code) [] NoBody)
             relay)"

definition relay_as_json :: "http_response \<Rightarrow> client_response eff" where
  "relay_as_json response =
     newResponse (Text (rs_text response)) (rs_status response) [(''content-type'', ''application/json'')]"

definition setup_complete_POST :: handler where
  "setup_complete_POST rq =
     (let body = cq_body rq in
      seq (fetch_backend ''POST'' ''/api/v1/setup/complete''
             [(''content-type'', ''application/json'')] (Text body)) relay_as_json)"

definition setup_status_GET :: handler where
  "setup_status_GET rq =
     try_catch
       (seq (fetch_backend ''GET'' ''/api/v1/setup/status'' [] NoBody) relay_as_json)
       (\<lambda>_. ret (json_response (JObj [(''setupRequired'', JBool False)]) 200))"

section \<open>The handlers as endpoint descriptions\<close>

definition platform_table :: "(handler \<times> endpoint) list" where
  "platform_table =
    [(import_POST, body_ep ''POST'' (\<lambda>rq. ''/api/v1/admin/import'') relay),
     (platform_admins_GET, plain_ep ''GET'' (\<lambda>rq. ''/api/v1/admin/platform/admins'') relay),
     (platform_admins_POST, body_ep ''POST'' (\<lambda>rq. ''/api/v1/admin/platform/admins'') relay),
     (platform_admins_userID_DELETE, plain_ep ''DELETE'' (\<lambda>rq. ''/api/v1/admin/platform/admins/'' @ encodeURIComponent (cq_params rq ''userID'')) relay),
     (platform_check_GET, plain_ep ''GET'' (\<lambda>rq. ''/api/v1/admin/platform/check'') relay),
     (platform_orgs_GET, plain_ep ''GET'' (\<lambda>rq. ''/api/v1/admin/platform/orgs'') relay),
     (platform_orgs_orgID_DELETE, plain_ep ''DELETE'' (\<lambda>rq. ''/api/v1/admin/platform/orgs/'' @ encodeURIComponent (cq_params rq ''orgID'')) relay),
     (platform_replicas_GET, plain_ep ''GET'' (\<lambda>rq. ''/api/v1/admin/platform/replicas'') relay),
     (platform_users_GET, plain_ep ''GET'' (\<lambda>rq. ''/api/v1/admin/platform/users'') relay),
     (platform_users_userID_DELETE, plain_ep ''DELETE'' (\<lambda>rq. ''/api/v1/admin/platform/users/'' @ encodeURIComponent (cq_params rq ''userID'')) relay),
     (sessions_sessionID_revoke_POST, plain_ep ''POST'' (\<lambda>rq. ''/api/v1/admin/sessions/'' @ encodeURIComponent (cq_params rq ''sessionID'') @ ''/revoke'') relay),
     (settings_oidc_GET, plain_ep ''GET'' (\<lambda>rq. ''/api/v1/admin/settings/oidc'') relay),
     (settings_oidc_PUT, body_ep ''PUT'' (\<lambda>rq. ''/api/v1/admin/settings/oidc'') relay),
     (settings_oidc_mappings_GET, plain_ep ''GET'' (\<lambda>rq. ''/api/v1/admin/settings/oidc/mappings'') relay),
     (settings_oidc_mappings_POST, body_ep ''POST'' (\<lambda>rq. ''/api/v1/admin/settings/oidc/mappings'') relay),
     (settings_oidc_mappings_id_DELETE, plain_ep ''DELETE'' (\<lambda>rq. ''/api/v1/admin/settings/oidc/mappings/'' @ encodeURIComponent (cq_params rq ''id'')) relay_or_empty),
     (settings_retention_GET, plain_ep ''GET'' (\<lambda>rq. ''/api/v1/admin/settings/retention'') relay),
     (settings_retention_PATCH, body_ep ''PATCH'' (\<lambda>rq. ''/api/v1/admin/settings/retention'') relay),
     (settings_retention_purge_POST, body_ep ''POST'' (\<lambda>rq. ''/api/v1/admin/settings/retention/purge'') relay),
     (traffic_overview_GET, plain_ep ''GET'' (\<lambda>rq. ''/api/v1/admin/traffic/overview'') relay),
     (health_history_GET, plain_ep ''GET''
      (\<lambda>rq. ''/api/v1/admin/health-history?routeID='' @ encodeURIComponent (or_str (query_get rq ''routeID'') [])) relay),
     (search_GET, plain_ep ''GET''
      (\<lambda>rq. ''/api/v1/admin/search?q='' @ encodeURIComponent (or_str (query_get rq ''q'') [])) relay),
     (traffic_heatmap_GET, plain_ep ''GET''
      (\<lambda>rq. ''/api/v1/admin/traffic/heatmap?days='' @ encodeURIComponent (nullish (query_get rq ''days'') ''7'')) relay),
     (traffic_route_GET, plain_ep ''GET''
      (\<lambda>rq. ''/api/v1/admin/traffic/route?routeSlug='' @ encodeURIComponent (nullish (query_get rq ''routeSlug'') []) @
           ''&hours='' @ nullish (query_get rq ''hours'') ''24'') relay),
     (traffic_stats_GET, plain_ep ''GET''
      (\<lambda>rq. ''/api/v1/admin/traffic/stats?hours='' @ encodeURIComponent (nullish (query_get rq ''hours'') ''24'')) relay),
     (export_GET, plain_ep ''GET'' (\<lambda>rq. ''/api/v1/admin/export'') export_reply)]"

lemmas platform_handler_defs =
    import_POST_def platform_admins_GET_def platform_admins_POST_def
    platform_admins_userID_DELETE_def platform_check_GET_def platform_orgs_GET_def
    platform_orgs_orgID_DELETE_def platform_replicas_GET_def platform_users_GET_def
    platform_users_userID_DELETE_def sessions_sessionID_revoke_POST_def settings_oidc_GET_def
    settings_oidc_PUT_def settings_oidc_mappings_GET_def settings_oidc_mappings_POST_def
    settings_oidc_mappings_id_DELETE_def settings_retention_GET_def settings_retention_PATCH_def
    settings_retention_purge_POST_def traffic_overview_GET_def health_history_GET_def
    search_GET_def traffic_heatmap_GET_def traffic_route_GET_def traffic_stats_GET_def
    export_GET_def

lemma pure_export_reply [simp]: "pure_eff (export_reply rs)"
  by (simp add: export_reply_def)

lemma platform_forwards: "\<forall>(h, ep) \<in> set platform_table. h = forward ep"
  by (simp add: platform_table_def platform_handler_defs forward_def fun_eq_iff Let_def)

lemma platform_lawful: "\<forall>(h, ep) \<in> set platform_table. lawful ep"
  by (simp add: platform_table_def)

interpretation platform: endpoint_table platform_table
  by (rule endpoint_tableI [OF platform_forwards platform_lawful])

end
