(* ===== verification/FormValues.thy ===== *)
theory FormValues
  imports Prelude
begin

text \<open>
  What the forms of the admin front end do with the values typed into them: \<open>trim\<close>,
  \<open>Number(v) || d\<close>, the objects given to \<open>JSON.stringify\<close>, and the ways in which an error is
  read out of an answer.
\<close>

section \<open>White space\<close>

text \<open>
  The white space and line terminators \<open>String.prototype.trim\<close> removes, as UTF-8: the ASCII ones,
  U+00A0, and the ones of three bytes (U+1680, U+2000 to U+200A, U+2028, U+2029, U+202F, U+205F,
  U+3000, U+FEFF).
\<close>

definition white1 :: "char \<Rightarrow> bool" where
  "white1 a \<longleftrightarrow> (of_char a :: nat) \<in> set [9, 10, 11, 12, 13, 32]"

definition white2 :: "char \<Rightarrow> char \<Rightarrow> bool" where
  "white2 a b \<longleftrightarrow> (of_char a :: nat) = 194 \<and> (of_char b :: nat) = 160"

definition white3 :: "char \<Rightarrow> char \<Rightarrow> char \<Rightarrow> bool" where
  "white3 a b c \<longleftrightarrow>
     (let x = (of_char a :: nat); y = (of_char b :: nat); z = (of_char c :: nat) in
      x = 225 \<and> y = 154 \<and> z = 128
      \<or> x = 226 \<and> y = 128 \<and> (128 \<le> z \<and> z \<le> 138 \<or> z \<in> set [168, 169, 175])
      \<or> x = 226 \<and> y = 129 \<and> z = 159
      \<or> x = 227 \<and> y = 128 \<and> z = 128
      \<or> x = 239 \<and> y = 187 \<and> z = 191)"

fun trimStart :: "string \<Rightarrow> string" where
  "trimStart [] = []"
| "trimStart [a] = (if white1 a then [] else [a])"
| "trimStart [a, b] =
     (if white1 a then trimStart [b] else if white2 a b then [] else [a, b])"
| "trimStart (a # b # c # s) =
     (if white1 a then trimStart (b # c # s) else if white2 a b then trimStart (c # s)
      else if white3 a b c then trimStart s else a # b # c # s)"

text \<open>The same from the end; the argument is the reversed text.\<close>

fun trimEnd_rev :: "string \<Rightarrow> string" where
  "trimEnd_rev [] = []"
| "trimEnd_rev [a] = (if white1 a then [] else [a])"
| "trimEnd_rev [b, a] =
     (if white1 b then trimEnd_rev [a] else if white2 a b then [] else [b, a])"
| "trimEnd_rev (c # b # a # s) =
     (if white1 c then trimEnd_rev (b # a # s) else if white2 b c then trimEnd_rev (a # s)
      else if white3 a b c then trimEnd_rev s else c # b # a # s)"

definition trim :: "string \<Rightarrow> string" where
  "trim s = rev (trimEnd_rev (rev (trimStart s)))"

definition blank :: "string \<Rightarrow> bool" where
  "blank s \<longleftrightarrow> trim s = []"

lemma trimEnd_suffix: "\<exists>p. s = p @ trimEnd_rev s"
proof (induction s rule: trimEnd_rev.induct)
  case (3 b a)
  then show ?case by auto
next
  case (4 c b a s)
  consider "white1 c" | "\<not> white1 c" "white2 b c" | "\<not> white1 c" "\<not> white2 b c" "white3 a b c"
    | "\<not> white1 c" "\<not> white2 b c" "\<not> white3 a b c" by blast
  then show ?case
  proof cases
    case 1
    with 4 obtain p where "b # a # s = p @ trimEnd_rev (b # a # s)" by blast
    with 1 show ?thesis by (metis append_Cons trimEnd_rev.simps(4))
  next
    case 2
    with 4 obtain p where "a # s = p @ trimEnd_rev (a # s)" by blast
    with 2 show ?thesis by (metis append_Cons trimEnd_rev.simps(4))
  next
    case 3
    with 4 obtain p where "s = p @ trimEnd_rev s" by blast
    with 3 show ?thesis by (metis append_Cons trimEnd_rev.simps(4))
  next
    case 4
    then show ?thesis by simp
  qed
qed auto

lemma not_blank_nonempty: "\<not> blank s \<Longrightarrow> s \<noteq> []"
  by (auto simp: blank_def trim_def)

text \<open>\<open>s.length\<close>: the UTF-16 units of the text, one for each character of up to three bytes and two for one
  of four.\<close>

definition js_length :: "string \<Rightarrow> nat" where
  "js_length s = sum_list (map (\<lambda>c. let n = (of_char c :: nat) in
     if n < 128 then 1 else if n < 192 then 0 else if n < 240 then 1 else 2) s)"

section \<open>Numbers\<close>

text \<open>The decimal literals a number field can hold, and \<open>Number\<close> on them; \<open>None\<close> is \<open>NaN\<close>.\<close>

definition digit_of :: "char \<Rightarrow> nat option" where
  "digit_of c = (let n = (of_char c :: nat) in if 48 \<le> n \<and> n \<le> 57 then Some (n - 48) else None)"

fun digits_value :: "nat \<Rightarrow> string \<Rightarrow> nat option" where
  "digits_value acc [] = Some acc"
| "digits_value acc (c # s) =
     (case digit_of c of None \<Rightarrow> None | Some d \<Rightarrow> digits_value (10 * acc + d) s)"

definition unsigned_decimal :: "string \<Rightarrow> rat option" where
  "unsigned_decimal s =
     (let w = takeWhile (\<lambda>c. c \<noteq> CHR ''.'') s; f = drop (Suc (length w)) s in
      if w = [] \<and> f = [] then None
      else case (digits_value 0 w, digits_value 0 f) of
             (Some n, Some m) \<Rightarrow> Some (of_nat n + of_nat m / 10 ^ length f)
           | _ \<Rightarrow> None)"

definition signed_by :: "(string \<Rightarrow> rat option) \<Rightarrow> string \<Rightarrow> rat option" where
  "signed_by f s = (case s of
      CHR ''-'' # t \<Rightarrow> map_option uminus (f t)
    | CHR ''+'' # t \<Rightarrow> f t
    | _ \<Rightarrow> f s)"

definition decimal :: "string \<Rightarrow> rat option" where
  "decimal s =
     (let m = takeWhile (\<lambda>c. c \<noteq> CHR ''e'' \<and> c \<noteq> CHR ''E'') s; r = drop (length m) s in
      case signed_by unsigned_decimal m of
        None \<Rightarrow> None
      | Some x \<Rightarrow>
         (case r of [] \<Rightarrow> Some x
          | _ # e \<Rightarrow>
             (case e of
                CHR ''-'' # d \<Rightarrow> if d = [] then None else map_option (\<lambda>n. x / 10 ^ n) (digits_value 0 d)
              | CHR ''+'' # d \<Rightarrow> if d = [] then None else map_option (\<lambda>n. x * 10 ^ n) (digits_value 0 d)
              | _ \<Rightarrow> if e = [] then None else map_option (\<lambda>n. x * 10 ^ n) (digits_value 0 e))))"

definition js_Number :: "string \<Rightarrow> rat option" where
  "js_Number s = (let t = trim s in if t = [] then Some 0 else decimal t)"

text \<open>\<open>Number(s) || d\<close>.\<close>

definition number_or :: "string \<Rightarrow> rat \<Rightarrow> rat" where
  "number_or s d = (case js_Number s of None \<Rightarrow> d | Some n \<Rightarrow> if n = 0 then d else n)"

text \<open>Reading back a printed number.\<close>

lemma digit_of_digit: "d < 10 \<Longrightarrow> digit_of (char_of (48 + d)) = Some d"
  by (simp add: digit_of_def Let_def)

lemma digits_value_append: "digits_value acc (s @ t) = Option.bind (digits_value acc s) (\<lambda>a. digits_value a t)"
  by (induction s arbitrary: acc) (auto split: option.split)

definition all_digits :: "string \<Rightarrow> bool" where
  "all_digits s \<longleftrightarrow> list_all (\<lambda>c. digit_of c \<noteq> None) s"

lemma show_nat_digits: "all_digits (show_nat n) \<and> show_nat n \<noteq> []"
proof (induction n rule: show_nat.induct)
  case (1 n)
  show ?case
  proof (cases "n < 10")
    case True
    then show ?thesis by (subst (1 2) show_nat.simps) (simp add: all_digits_def digit_of_digit)
  next
    case False
    with 1 show ?thesis
      by (subst (1 2) show_nat.simps) (simp add: all_digits_def digit_of_digit)
  qed
qed

lemma digits_value_show_nat: "digits_value 0 (show_nat n) = Some n"
proof (induction n rule: show_nat.induct)
  case (1 n)
  show ?case
  proof (cases "n < 10")
    case True
    then show ?thesis by (subst show_nat.simps) (simp add: digit_of_digit)
  next
    case False
    with 1 show ?thesis
      by (subst show_nat.simps) (simp add: digits_value_append digit_of_digit)
  qed
qed

lemma digit_range: "digit_of c \<noteq> None \<Longrightarrow> 48 \<le> (of_char c :: nat) \<and> (of_char c :: nat) \<le> 57"
  by (simp add: digit_of_def Let_def split: if_splits)

lemma digit_plain:
  assumes "digit_of c \<noteq> None"
  shows "\<not> white1 c" "\<not> white2 c b" "\<not> white2 b c" "\<not> white3 c b d" "\<not> white3 b d c" "c \<noteq> CHR ''.''"
    "c \<noteq> CHR ''e''" "c \<noteq> CHR ''E''" "c \<noteq> CHR ''-''" "c \<noteq> CHR ''+''"
proof -
  have r: "48 \<le> (of_char c :: nat)" "(of_char c :: nat) \<le> 57" using digit_range [OF assms] by simp_all
  show "\<not> white1 c" "\<not> white2 c b" "\<not> white2 b c" "\<not> white3 c b d" "\<not> white3 b d c"
    using r by (auto simp: white1_def white2_def white3_def Let_def)
  have "(of_char CHR ''.'' :: nat) = 46" "(of_char CHR ''e'' :: nat) = 101" "(of_char CHR ''E'' :: nat) = 69"
    "(of_char CHR ''-'' :: nat) = 45" "(of_char CHR ''+'' :: nat) = 43" by simp_all
  with r show "c \<noteq> CHR ''.''" "c \<noteq> CHR ''e''" "c \<noteq> CHR ''E''" "c \<noteq> CHR ''-''" "c \<noteq> CHR ''+''"
    by (metis Suc_numeral le_less_linear not_less numeral_le_iff semiring_norm)+
qed

lemma trimStart_digit: "digit_of c \<noteq> None \<Longrightarrow> trimStart (c # s) = c # s"
  using digit_plain [of c] by (cases s rule: trimStart.cases) auto

lemma trimEnd_digit: "digit_of c \<noteq> None \<Longrightarrow> trimEnd_rev (c # s) = c # s"
  using digit_plain [of c] by (cases s rule: trimEnd_rev.cases) auto

lemma trim_digits:
  assumes "all_digits s" "s \<noteq> []"
  shows "trim s = s"
proof -
  obtain c t where s: "s = c # t" using assms(2) by (cases s) auto
  have start: "trimStart s = s" using assms(1) by (simp add: s all_digits_def trimStart_digit)
  obtain l u where r: "rev s = l # u" using assms(2) by (cases "rev s") auto
  then have "l \<in> set s" by (metis list.set_intros(1) set_rev)
  then have "digit_of l \<noteq> None" using assms(1) by (auto simp: all_digits_def list_all_iff)
  then have "trimEnd_rev (rev s) = rev s" by (simp add: r trimEnd_digit)
  then show ?thesis by (simp add: trim_def start)
qed

lemma js_Number_digits:
  assumes "all_digits s" "s \<noteq> []"
  shows "js_Number s = map_option of_nat (digits_value 0 s)"
proof -
  have c: "x \<noteq> CHR ''.''" "x \<noteq> CHR ''e''" "x \<noteq> CHR ''E''" if "x \<in> set s" for x
    using assms(1) that digit_plain [of x] by (auto simp: all_digits_def list_all_iff)
  have tw: "takeWhile (\<lambda>c. c \<noteq> CHR ''.'') s = s" "takeWhile (\<lambda>c. c \<noteq> CHR ''e'' \<and> c \<noteq> CHR ''E'') s = s"
    using c by (simp_all add: takeWhile_eq_all_conv)
  obtain h t where s: "s = h # t" using assms(2) by (cases s) auto
  have "digit_of h \<noteq> None" using assms(1) by (simp add: s all_digits_def)
  then have h: "h \<noteq> CHR ''-''" "h \<noteq> CHR ''+''" using digit_plain [of h] by auto
  have "signed_by unsigned_decimal s = unsigned_decimal s"
    using h by (auto simp: signed_by_def s split: char.splits bool.splits)
  moreover have "unsigned_decimal s = map_option of_nat (digits_value 0 s)"
    using assms(2) by (auto simp: unsigned_decimal_def tw Let_def split: option.split)
  ultimately have "decimal s = map_option of_nat (digits_value 0 s)"
    by (simp add: decimal_def tw Let_def split: option.split)
  with assms show ?thesis by (simp add: js_Number_def trim_digits)
qed

lemma number_or_show_int: "0 \<le> n \<Longrightarrow> number_or (show_int n) 0 = of_int n"
  using show_nat_digits [of "nat n"]
  by (simp add: number_or_def show_int_def js_Number_digits digits_value_show_nat)

lemma number_or_empty: "number_or [] d = d"
  by (simp add: number_or_def js_Number_def trim_def)

section \<open>Objects sent\<close>

text \<open>\<open>JSON.stringify\<close> leaves out the properties that are undefined.\<close>

definition json_object :: "(string \<times> json option) list \<Rightarrow> json" where
  "json_object ps = JObj (map (\<lambda>(k, v). (k, the v)) (filter (\<lambda>(k, v). v \<noteq> None) ps))"

text \<open>\<open>s || undefined\<close>, \<open>n || undefined\<close>.\<close>

definition str_or_undefined :: "string \<Rightarrow> json option" where
  "str_or_undefined s = (if s = [] then None else Some (JStr s))"

definition num_or_undefined :: "rat \<Rightarrow> json option" where
  "num_or_undefined n = (if n = 0 then None else Some (JNum n))"

lemma jprop_json_object:
  "distinct (map fst ps) \<Longrightarrow> jprop (json_object ps) k = Option.bind (map_of ps k) (\<lambda>v. v)"
proof (induction ps)
  case Nil
  then show ?case by (simp add: json_object_def)
next
  case (Cons p ps)
  obtain k' v where p: "p = (k', v)" by (cases p)
  have no: "map_of (map (\<lambda>(k, v). (k, the v)) (filter (\<lambda>(k, v). v \<noteq> None) ps)) k' = None"
    using Cons.prems p by (auto simp: map_of_eq_None_iff image_iff)
  show ?case
  proof (cases v)
    case None
    with Cons p no show ?thesis
      by (auto simp: json_object_def dest: map_of_SomeD split: option.splits)
  next
    case (Some x)
    with Cons p show ?thesis by (simp add: json_object_def)
  qed
qed

section \<open>Errors read out of an answer\<close>

text \<open>
  \<open>result?.error || msg\<close>, and \<open>result && "error" in result ? result.error || msg : msg\<close>, which throws
  when the result is a primitive value that is not falsy.
\<close>

definition or_json :: "json option \<Rightarrow> json \<Rightarrow> json" where
  "or_json v d = (if truthy_json v then the v else d)"

definition error_or :: "json \<Rightarrow> string \<Rightarrow> json" where
  "error_or result msg = or_json (jprop result ''error'') (JStr msg)"

fun error_in :: "json \<Rightarrow> string \<Rightarrow> json option" where
  "error_in (JObj kvs) msg = Some (error_or (JObj kvs) msg)"
| "error_in (JArr vs) msg = Some (JStr msg)"
| "error_in v msg = (if truthy_json (Some v) then None else Some (JStr msg))"

lemma error_in_object: "error_in (JObj [(''error'', JStr e)]) msg = Some (JStr (if e = [] then msg else e))"
  by (simp add: error_or_def or_json_def)

lemma truthy_error_or: "msg \<noteq> [] \<Longrightarrow> truthy_json (Some (error_or result msg))"
  by (cases "jprop result ''error''") (simp_all add: error_or_def or_json_def)

lemma truthy_error_in: "msg \<noteq> [] \<Longrightarrow> error_in result msg = Some e \<Longrightarrow> truthy_json (Some e)"
  by (cases result) (auto simp: truthy_error_or split: if_splits)

section \<open>Rounding\<close>

text \<open>\<open>Math.ceil(a / d)\<close> on whole numbers; \<open>Math.floor(a / d)\<close> is \<open>a div d\<close>.\<close>

definition ceil_div :: "int \<Rightarrow> int \<Rightarrow> int" where
  "ceil_div a d = - ((- a) div d)"

lemma le_div_iff: "0 < (c::int) \<Longrightarrow> a \<le> b div c \<longleftrightarrow> a * c \<le> b"
proof
  assume "0 < c" "a \<le> b div c"
  then have "a * c \<le> b div c * c" by simp
  also have "\<dots> \<le> b" using div_mult_mod_eq [of b c] pos_mod_sign [OF \<open>0 < c\<close>, of b] by linarith
  finally show "a * c \<le> b" .
next
  assume "0 < c" "a * c \<le> b"
  then have "(a * c) div c \<le> b div c" by (intro zdiv_mono1)
  with \<open>0 < c\<close> show "a \<le> b div c" by simp
qed

lemma ceil_div_le: "0 < d \<Longrightarrow> ceil_div a d \<le> n \<longleftrightarrow> a \<le> n * d"
  using le_div_iff [of d "- n" "- a"] by (auto simp: ceil_div_def)

section \<open>Parsing integers\<close>

text \<open>\<open>parseInt(s, 10)\<close>: an optional sign and the digits that follow; \<open>None\<close> is \<open>NaN\<close>.\<close>

definition parseInt10 :: "string \<Rightarrow> int option" where
  "parseInt10 s =
     (let t = trimStart s;
          neg = (t \<noteq> [] \<and> hd t = CHR ''-'');
          u = (if t \<noteq> [] \<and> (hd t = CHR ''-'' \<or> hd t = CHR ''+'') then tl t else t);
          ds = takeWhile (\<lambda>c. digit_of c \<noteq> None) u
      in if ds = [] then None
         else map_option (\<lambda>n. if neg then - int n else int n) (digits_value 0 ds))"

lemma parseInt10_show_int:
  assumes "0 \<le> n"
  shows "parseInt10 (show_int n) = Some n"
proof -
  let ?d = "show_nat (nat n)"
  from show_nat_digits [of "nat n"] have d: "all_digits ?d" "?d \<noteq> []" by auto
  then obtain c cs where c: "?d = c # cs" "digit_of c \<noteq> None" by (cases ?d) (auto simp: all_digits_def)
  then have t: "trimStart ?d = ?d" by (simp add: trimStart_digit)
  have sign: "hd ?d \<noteq> CHR ''-''" "hd ?d \<noteq> CHR ''+''"
    using c digit_plain [of c] by auto
  have "takeWhile (\<lambda>c. digit_of c \<noteq> None) ?d = ?d"
    using d(1) by (simp add: all_digits_def list_all_iff)
  with t sign d(2) assms show ?thesis
    by (simp add: parseInt10_def show_int_def Let_def digits_value_show_nat del: not_None_eq takeWhile_eq_all_conv)
qed

end
