(* ===== verification/Wizard.thy ===== *)
theory Wizard
  imports FormValues Machines
begin

text \<open>
  The modal forms of the admin front end share one skeleton (\<open>isOpen\<close>, \<open>currentStep\<close>, \<open>direction\<close>,
  \<open>error\<close>, \<open>useTransition\<close>, the handlers \<open>handleOpenChange\<close>, \<open>goNext\<close>, \<open>goBack\<close> and \<open>handleSubmit\<close>).
  This theory has the skeleton as a machine over a description of what the forms differ in, and the
  contract under which a form only sends what its steps let through; the forms themselves are in the
  theories FormsRouting, FormsCredentials and FormsApps.
\<close>

section \<open>State and description\<close>

text \<open>A request of the browser to the route handlers: method, address and JSON body.\<close>

type_synonym client_call = "string \<times> string \<times> json"

text \<open>
  What a form does to its surroundings: requests, toasts (the description as the parts of its
  template literal), the callback \<open>onCreated\<close>, \<open>router.refresh()\<close>.
\<close>

datatype form_effect =
    Sent client_call
  | Toasted string "json list" string
  | Created json
  | Refreshed

text \<open>
  \<open>md_pending\<close> holds the fields the running submission has captured (\<open>isPending\<close> is that there is
  one); \<open>md_issued\<close> and \<open>md_reload\<close> belong to the forms that show a secret once; \<open>md_crashed\<close>: an
  exception left an action, and the error boundary has replaced the form.
\<close>

record ('p, 'f) modal =
  md_props :: 'p
  md_open :: bool
  md_fields :: 'f
  md_step :: nat
  md_direction :: int
  md_error :: "json option"
  md_pending :: "'f option"
  md_issued :: "json option"
  md_reload :: bool
  md_crashed :: bool
  md_log :: "form_effect list"

text \<open>What \<open>await fetch\<close> and \<open>await response.json().catch(() => null)\<close> end with.\<close>

datatype answer = NoAnswer | Answer bool json

record ('p, 'f, 'e) form =
  fo_fresh :: "'p \<Rightarrow> 'f"
  fo_last :: nat
  fo_edit :: "'e \<Rightarrow> 'p \<Rightarrow> 'f \<Rightarrow> 'f"
  fo_at :: "'e \<Rightarrow> nat"
  fo_next :: "'p \<Rightarrow> nat \<Rightarrow> 'f \<Rightarrow> bool"
  fo_submit :: "'p \<Rightarrow> 'f \<Rightarrow> bool"
  fo_request :: "'p \<Rightarrow> 'f \<Rightarrow> client_call"
  fo_refused :: "json \<Rightarrow> json option"
  fo_accepted :: "'p \<Rightarrow> 'f \<Rightarrow> json \<Rightarrow> ('p, 'f) modal \<Rightarrow> ('p, 'f) modal"

section \<open>The shared handlers\<close>

definition emit :: "form_effect \<Rightarrow> ('p, 'f) modal \<Rightarrow> ('p, 'f) modal" where
  "emit x s = s\<lparr>md_log := md_log s @ [x]\<rparr>"

definition crash :: "('p, 'f) modal \<Rightarrow> ('p, 'f) modal" where
  "crash s = s\<lparr>md_crashed := True\<rparr>"

definition closeModal :: "('p, 'f) modal \<Rightarrow> ('p, 'f) modal" where
  "closeModal s = (if md_reload s then emit Refreshed (s\<lparr>md_reload := False\<rparr>) else s)\<lparr>md_open := False\<rparr>"

definition handleOpenChange :: "('p, 'f, 'e) form \<Rightarrow> bool \<Rightarrow> ('p, 'f) modal \<Rightarrow> ('p, 'f) modal" where
  "handleOpenChange F open' s =
     (if open' then s\<lparr>md_fields := fo_fresh F (md_props s), md_error := None, md_issued := None,
                      md_step := 0, md_direction := 1, md_reload := False, md_open := True\<rparr>
      else closeModal s)"

definition goNext :: "('p, 'f) modal \<Rightarrow> ('p, 'f) modal" where
  "goNext s = s\<lparr>md_direction := 1, md_step := md_step s + 1, md_error := None\<rparr>"

definition goBack :: "('p, 'f) modal \<Rightarrow> ('p, 'f) modal" where
  "goBack s = s\<lparr>md_direction := -1, md_step := md_step s - 1, md_error := None\<rparr>"

text \<open>\<open>handleSubmit\<close> up to its \<open>await\<close>, and what follows the answer. The closure keeps the fields it saw.\<close>

definition handleSubmit :: "('p, 'f, 'e) form \<Rightarrow> ('p, 'f) modal \<Rightarrow> ('p, 'f) modal" where
  "handleSubmit F s =
     emit (Sent (fo_request F (md_props s) (md_fields s)))
       (s\<lparr>md_error := None, md_pending := Some (md_fields s)\<rparr>)"

definition submitted :: "('p, 'f, 'e) form \<Rightarrow> 'f \<Rightarrow> answer \<Rightarrow> ('p, 'f) modal \<Rightarrow> ('p, 'f) modal" where
  "submitted F f a s =
     (let s' = s\<lparr>md_pending := None\<rparr> in
      case a of
        NoAnswer \<Rightarrow> crash s'
      | Answer ok result \<Rightarrow>
          if \<not> ok then (case fo_refused F result of None \<Rightarrow> crash s' | Some e \<Rightarrow> s'\<lparr>md_error := Some e\<rparr>)
          else fo_accepted F (md_props s') f result s')"

section \<open>The machine\<close>

text \<open>
  \<open>TriggerPressed\<close> and \<open>DialogClosed\<close> are the modal's own calls of \<open>onOpenChange\<close>; \<open>ParentOpened\<close> is a
  parent setting \<open>isOpen\<close>, at which the modal does not call back. A control that is not shown, or
  disabled, does nothing.
\<close>

datatype ('p, 'e) form_event =
    TriggerPressed | DialogClosed | ParentOpened
  | NewProps 'p
  | ContinuePressed | BackPressed
  | Edited 'e
  | SubmitPressed
  | Answered answer

fun form_step :: "('p, 'f, 'e) form \<Rightarrow> ('p, 'f) modal \<Rightarrow> ('p, 'e) form_event \<Rightarrow> ('p, 'f) modal" where
  "form_step F s TriggerPressed = (if md_crashed s \<or> md_open s then s else handleOpenChange F True s)"
| "form_step F s DialogClosed = (if md_crashed s \<or> \<not> md_open s then s else handleOpenChange F False s)"
| "form_step F s ParentOpened = (if md_crashed s then s else s\<lparr>md_open := True\<rparr>)"
| "form_step F s (NewProps p) = s\<lparr>md_props := p\<rparr>"
| "form_step F s ContinuePressed =
     (if md_crashed s \<or> \<not> md_open s \<or> md_issued s \<noteq> None \<or> fo_last F \<le> md_step s
         \<or> \<not> fo_next F (md_props s) (md_step s) (md_fields s) then s
      else goNext s)"
| "form_step F s BackPressed =
     (if md_crashed s \<or> \<not> md_open s \<or> md_issued s \<noteq> None \<or> md_step s = 0 then s else goBack s)"
| "form_step F s (Edited e) =
     (if md_crashed s \<or> \<not> md_open s \<or> md_issued s \<noteq> None \<or> md_step s \<noteq> fo_at F e then s
      else s\<lparr>md_fields := fo_edit F e (md_props s) (md_fields s)\<rparr>)"
| "form_step F s SubmitPressed =
     (if md_crashed s \<or> \<not> md_open s \<or> md_issued s \<noteq> None \<or> md_step s \<noteq> fo_last F
         \<or> md_pending s \<noteq> None \<or> \<not> fo_submit F (md_props s) (md_fields s) then s
      else handleSubmit F s)"
| "form_step F s (Answered a) =
     (case md_pending s of None \<Rightarrow> s | Some f \<Rightarrow> if md_crashed s then s else submitted F f a s)"

definition form_trans ::
  "('p, 'f, 'e) form \<Rightarrow> ('p, 'f) modal \<Rightarrow> ('p, 'e) form_event \<Rightarrow> ('p, 'f) modal \<Rightarrow> bool" where
  "form_trans F s e t \<longleftrightarrow> t = form_step F s e"

definition form_start :: "('p, 'f, 'e) form \<Rightarrow> 'p \<Rightarrow> ('p, 'f) modal" where
  "form_start F p = \<lparr>md_props = p, md_open = False, md_fields = fo_fresh F p, md_step = 0,
     md_direction = 1, md_error = None, md_pending = None, md_issued = None, md_reload = False,
     md_crashed = False, md_log = []\<rparr>"

definition form_init :: "('p, 'f, 'e) form \<Rightarrow> ('p, 'f) modal \<Rightarrow> bool" where
  "form_init F s \<longleftrightarrow> (\<exists>p. s = form_start F p)"

text \<open>A run of the machine over a list of events.\<close>

definition form_run :: "('p, 'f, 'e) form \<Rightarrow> ('p, 'f) modal \<Rightarrow> ('p, 'e) form_event list \<Rightarrow> ('p, 'f) modal" where
  "form_run F s es = foldl (form_step F) s es"

lemma form_run_simps [simp]:
  "form_run F s [] = s" "form_run F s (e # es) = form_run F (form_step F s e) es"
  by (simp_all add: form_run_def)

lemma form_run_reach: "reach (form_init F) (form_trans F) s \<Longrightarrow> reach (form_init F) (form_trans F) (form_run F s es)"
proof (induction es arbitrary: s)
  case (Cons e es)
  from Cons.prems have "reach (form_init F) (form_trans F) (form_step F s e)"
    by (rule reach_step [where e = e]) (simp add: form_trans_def)
  then show ?case by (simp add: Cons.IH)
qed simp

lemma form_start_reach: "reach (form_init F) (form_trans F) (form_start F p)"
  by (rule reach_init) (auto simp: form_init_def)

definition sent_calls :: "('p, 'f) modal \<Rightarrow> client_call list" where
  "sent_calls s = concat (map (\<lambda>x. case x of Sent c \<Rightarrow> [c] | _ \<Rightarrow> []) (md_log s))"

text \<open>
  The two ways in which the forms end a successful submission: a toast and closing, or a toast and
  showing the secret of the answer, at which the page is refreshed only when the modal is closed.
  Reading \<open>issued.token.name\<close> throws if there is no \<open>token\<close>.
\<close>

definition done_close :: "string \<Rightarrow> json list \<Rightarrow> json option \<Rightarrow> ('p, 'f) modal \<Rightarrow> ('p, 'f) modal" where
  "done_close title desc created s =
     (let s1 = emit (Toasted title desc ''success'') s;
          s2 = (case created of None \<Rightarrow> s1 | Some c \<Rightarrow> emit (Created c) s1)
      in emit Refreshed (closeModal s2))"

definition done_secret ::
  "string \<Rightarrow> string \<Rightarrow> bool \<Rightarrow> json \<Rightarrow> ('p, 'f) modal \<Rightarrow> ('p, 'f) modal" where
  "done_secret title part calls issued s =
     (let s1 = s\<lparr>md_issued := (if issued = JNull then None else Some issued), md_reload := True\<rparr> in
      case (if issued = JNull then None else jprop issued part) of
        None \<Rightarrow> crash s1
      | Some JNull \<Rightarrow> crash s1
      | Some t \<Rightarrow>
          (let s2 = emit (Toasted title (case jprop t ''name'' of None \<Rightarrow> [] | Some n \<Rightarrow> [n]) ''success'') s1
           in if calls then emit (Created issued) s2 else s2))"

lemmas form_handler_defs =
  emit_def crash_def closeModal_def handleOpenChange_def goNext_def goBack_def handleSubmit_def submitted_def
  done_close_def done_secret_def

lemma sent_calls_emit [simp]:
  "sent_calls (emit x s) = sent_calls s @ (case x of Sent c \<Rightarrow> [c] | _ \<Rightarrow> [])"
  by (simp add: emit_def sent_calls_def)

lemma sent_calls_frame [simp]:
  "sent_calls (s\<lparr>md_props := p\<rparr>) = sent_calls s" "sent_calls (s\<lparr>md_open := v\<rparr>) = sent_calls s"
  "sent_calls (s\<lparr>md_fields := f\<rparr>) = sent_calls s" "sent_calls (s\<lparr>md_step := n\<rparr>) = sent_calls s"
  "sent_calls (s\<lparr>md_direction := d\<rparr>) = sent_calls s" "sent_calls (s\<lparr>md_error := e\<rparr>) = sent_calls s"
  "sent_calls (s\<lparr>md_pending := q\<rparr>) = sent_calls s" "sent_calls (s\<lparr>md_issued := i\<rparr>) = sent_calls s"
  "sent_calls (s\<lparr>md_reload := v\<rparr>) = sent_calls s" "sent_calls (s\<lparr>md_crashed := v\<rparr>) = sent_calls s"
  by (simp_all add: sent_calls_def)

lemma emit_sel [simp]:
  "md_props (emit x s) = md_props s" "md_open (emit x s) = md_open s" "md_fields (emit x s) = md_fields s"
  "md_step (emit x s) = md_step s" "md_error (emit x s) = md_error s" "md_pending (emit x s) = md_pending s"
  "md_issued (emit x s) = md_issued s" "md_reload (emit x s) = md_reload s" "md_crashed (emit x s) = md_crashed s"
  by (simp_all add: emit_def)

lemma closeModal_sel [simp]:
  "md_props (closeModal s) = md_props s" "\<not> md_open (closeModal s)" "md_pending (closeModal s) = md_pending s"
  "md_crashed (closeModal s) = md_crashed s" "md_fields (closeModal s) = md_fields s"
  "md_step (closeModal s) = md_step s" "md_error (closeModal s) = md_error s"
  "md_issued (closeModal s) = md_issued s" "sent_calls (closeModal s) = sent_calls s"
  by (simp_all add: closeModal_def)

lemma handleOpenChange_sel [simp]:
  "md_props (handleOpenChange F v s) = md_props s" "md_open (handleOpenChange F v s) = v"
  "md_pending (handleOpenChange F v s) = md_pending s" "md_crashed (handleOpenChange F v s) = md_crashed s"
  "md_fields (handleOpenChange F v s) = (if v then fo_fresh F (md_props s) else md_fields s)"
  "md_step (handleOpenChange F v s) = (if v then 0 else md_step s)"
  "md_error (handleOpenChange F v s) = (if v then None else md_error s)"
  "md_issued (handleOpenChange F v s) = (if v then None else md_issued s)"
  "sent_calls (handleOpenChange F v s) = sent_calls s"
  by (simp_all add: handleOpenChange_def)

lemma crash_sel [simp]:
  "md_props (crash s) = md_props s" "md_open (crash s) = md_open s" "md_fields (crash s) = md_fields s"
  "md_step (crash s) = md_step s" "md_pending (crash s) = md_pending s" "md_log (crash s) = md_log s"
  "md_crashed (crash s)" "md_issued (crash s) = md_issued s" "sent_calls (crash s) = sent_calls s"
  by (simp_all add: crash_def sent_calls_def)

lemma done_close_sel [simp]:
  "md_fields (done_close t d c s) = md_fields s" "md_step (done_close t d c s) = md_step s"
  "md_pending (done_close t d c s) = md_pending s" "sent_calls (done_close t d c s) = sent_calls s"
  "md_crashed (done_close t d c s) = md_crashed s" "\<not> md_open (done_close t d c s)"
  "md_error (done_close t d c s) = md_error s" "md_issued (done_close t d c s) = md_issued s"
  "md_props (done_close t d c s) = md_props s"
  by (simp_all add: done_close_def Let_def split: option.split)

lemma done_secret_sel [simp]:
  "md_fields (done_secret t k b i s) = md_fields s" "md_step (done_secret t k b i s) = md_step s"
  "md_pending (done_secret t k b i s) = md_pending s" "sent_calls (done_secret t k b i s) = sent_calls s"
  by (simp_all add: done_secret_def Let_def split: option.split json.split)

section \<open>The contract of a form\<close>

text \<open>
  \<open>ok i f\<close>: what step \<open>i\<close> has made sure of; \<open>good f\<close>: what holds of the fields at any time. A form keeps
  the contract if its Continue buttons check the one and its inputs keep the other, no input of a
  later step undoes what a step has checked, and what it does with an answer leaves fields and steps
  alone.
\<close>

locale checked_form =
  fixes F :: "('p, 'f, 'e) form" and ok :: "nat \<Rightarrow> 'f \<Rightarrow> bool" and good :: "'f \<Rightarrow> bool"
  assumes next_ok: "fo_next F p i f \<Longrightarrow> i < fo_last F \<Longrightarrow> ok i f"
    and edit_ok: "ok i f \<Longrightarrow> i < fo_at F e \<Longrightarrow> ok i (fo_edit F e p f)"
    and fresh_good: "good (fo_fresh F p)"
    and edit_good: "good f \<Longrightarrow> good (fo_edit F e p f)"
    and accepted_quiet: "md_fields (fo_accepted F p f r s) = md_fields s"
      "md_step (fo_accepted F p f r s) = md_step s" "md_pending (fo_accepted F p f r s) = md_pending s"
      "sent_calls (fo_accepted F p f r s) = sent_calls s"
begin

definition checked :: "('p, 'f) modal \<Rightarrow> bool" where
  "checked s \<longleftrightarrow> md_step s \<le> fo_last F \<and> good (md_fields s) \<and> (\<forall>i < md_step s. ok i (md_fields s))"

definition well_sent :: "client_call \<Rightarrow> bool" where
  "well_sent c \<longleftrightarrow> (\<exists>p f. c = fo_request F p f \<and> fo_submit F p f \<and> good f \<and> (\<forall>i < fo_last F. ok i f))"

definition form_inv :: "('p, 'f) modal \<Rightarrow> bool" where
  "form_inv s \<longleftrightarrow> checked s \<and> (\<forall>c \<in> set (sent_calls s). well_sent c)"

lemma form_inv_same:
  assumes "form_inv s" "md_fields t = md_fields s" "md_step t = md_step s" "sent_calls t = sent_calls s"
  shows "form_inv t"
  using assms by (simp add: form_inv_def checked_def)

lemma form_inv_open: "form_inv s \<Longrightarrow> form_inv (handleOpenChange F v s)"
  by (simp add: form_inv_def checked_def fresh_good)

lemma form_inv_submitted: "form_inv s \<Longrightarrow> form_inv (submitted F f a s)"
  by (erule form_inv_same)
     (auto simp: submitted_def Let_def accepted_quiet split: answer.splits option.splits)

lemma well_sentI: "fo_submit F p f \<Longrightarrow> good f \<Longrightarrow> (\<forall>i < fo_last F. ok i f) \<Longrightarrow> well_sent (fo_request F p f)"
  unfolding well_sent_def by blast

lemma form_inv_step: "form_inv s \<Longrightarrow> form_inv (form_step F s e)"
proof (cases e)
  case ContinuePressed
  assume "form_inv s"
  with ContinuePressed show ?thesis
    by (auto simp: form_inv_def checked_def goNext_def less_Suc_eq dest: next_ok)
next
  case BackPressed
  assume "form_inv s"
  with BackPressed show ?thesis by (auto simp: form_inv_def checked_def goBack_def)
next
  case (Edited x)
  assume "form_inv s"
  with Edited show ?thesis by (auto simp: form_inv_def checked_def edit_ok edit_good)
next
  case SubmitPressed
  assume "form_inv s"
  with SubmitPressed show ?thesis
    by (auto simp: form_inv_def checked_def handleSubmit_def intro!: well_sentI)
next
  case (Answered a)
  assume "form_inv s"
  with Answered show ?thesis by (simp add: form_inv_submitted split: option.split)
next
  case (NewProps p)
  assume "form_inv s"
  with NewProps show ?thesis by (simp add: form_inv_def checked_def)
next
  case ParentOpened
  assume "form_inv s"
  with ParentOpened show ?thesis by (simp add: form_inv_def checked_def)
qed (simp_all add: form_inv_open)

lemma form_inv_start: "form_inv (form_start F p)"
  by (simp add: form_inv_def checked_def form_start_def sent_calls_def fresh_good)

end

sublocale checked_form \<subseteq> machine: invariant "form_init F" "form_trans F" form_inv
proof unfold_locales
  show "form_inv s" if "form_init F s" for s using that form_inv_start by (auto simp: form_init_def)
  show "form_inv t" if "form_trans F s e t" "form_inv s" for s e t
    using that form_inv_step by (simp add: form_trans_def)
qed

context checked_form
begin

text \<open>Every request of the form was let through by all of its steps and by its submit button.\<close>

lemma sent_checked:
  assumes "reach (form_init F) (form_trans F) s" "c \<in> set (sent_calls s)"
  obtains p f where "c = fo_request F p f" "fo_submit F p f" "good f" "\<And>i. i < fo_last F \<Longrightarrow> ok i f"
  using machine.reach_inv [OF assms(1)] assms(2) by (auto simp: form_inv_def well_sent_def)

lemma step_bounded: "reach (form_init F) (form_trans F) s \<Longrightarrow> md_step s \<le> fo_last F"
  using machine.reach_inv by (auto simp: form_inv_def checked_def)

end

end
