(* ===== verification/ApiRoutes.thy ===== *)
theory ApiRoutes
  imports ApiTenancy ApiRouting ApiPlatform Wizard
begin

text \<open>
  How a request of the browser finds its handler. Next.js serves \<open>app/api/<segments>/route.ts\<close> at
  \<open>/api/<segments>\<close>, a segment \<open>[name]\<close> standing for any text, which the handler receives as its
  parameter. The router itself is a parameter of the model; what is used of it is \<open>serves_api_files\<close>.
\<close>

section \<open>The files\<close>

datatype seg = Lit string | Dyn string

type_synonym api_file = "string \<times> seg list \<times> handler"

text \<open>A router: method and address to a handler and its path parameters.\<close>

type_synonym router = "string \<Rightarrow> string \<Rightarrow> (handler \<times> (string \<Rightarrow> string)) option"

definition tenancy_files :: "api_file list" where
  "tenancy_files =
    [(''GET'', [Lit ''admin'', Lit ''apps''], apps_GET),
     (''POST'', [Lit ''admin'', Lit ''apps''], apps_POST),
     (''GET'', [Lit ''admin'', Lit ''apps'', Dyn ''appID''], apps_appID_GET),
     (''PUT'', [Lit ''admin'', Lit ''apps'', Dyn ''appID''], apps_appID_PUT),
     (''DELETE'', [Lit ''admin'', Lit ''apps'', Dyn ''appID''], apps_appID_DELETE),
     (''GET'', [Lit ''admin'', Lit ''apps'', Dyn ''appID'', Lit ''sessions''], apps_appID_sessions_GET),
     (''DELETE'', [Lit ''admin'', Lit ''apps'', Dyn ''appID'', Lit ''sessions'', Dyn ''sessionID''], apps_appID_sessions_sessionID_DELETE),
     (''GET'', [Lit ''admin'', Lit ''apps'', Dyn ''appID'', Lit ''tokens''], apps_appID_tokens_GET),
     (''POST'', [Lit ''admin'', Lit ''apps'', Dyn ''appID'', Lit ''tokens''], apps_appID_tokens_POST),
     (''DELETE'', [Lit ''admin'', Lit ''apps'', Dyn ''appID'', Lit ''tokens'', Dyn ''tokenID''], apps_appID_tokens_tokenID_DELETE),
     (''GET'', [Lit ''admin'', Lit ''grants''], grants_GET),
     (''POST'', [Lit ''admin'', Lit ''grants''], grants_POST),
     (''DELETE'', [Lit ''admin'', Lit ''grants'', Dyn ''grantID''], grants_grantID_DELETE),
     (''GET'', [Lit ''admin'', Lit ''grants'', Dyn ''grantID'', Lit ''issuances''], grants_grantID_issuances_GET),
     (''GET'', [Lit ''admin'', Lit ''org-ip-rules''], org_ip_rules_GET),
     (''POST'', [Lit ''admin'', Lit ''org-ip-rules''], org_ip_rules_POST),
     (''DELETE'', [Lit ''admin'', Lit ''org-ip-rules'', Dyn ''ruleID''], org_ip_rules_ruleID_DELETE),
     (''GET'', [Lit ''admin'', Lit ''orgs''], orgs_GET),
     (''POST'', [Lit ''admin'', Lit ''orgs''], orgs_POST),
     (''GET'', [Lit ''admin'', Lit ''orgs'', Dyn ''orgID'', Lit ''invites''], orgs_orgID_invites_GET),
     (''POST'', [Lit ''admin'', Lit ''orgs'', Dyn ''orgID'', Lit ''invites''], orgs_orgID_invites_POST),
     (''DELETE'', [Lit ''admin'', Lit ''orgs'', Dyn ''orgID'', Lit ''invites'', Dyn ''inviteID''], orgs_orgID_invites_inviteID_DELETE),
     (''GET'', [Lit ''admin'', Lit ''orgs'', Dyn ''orgID'', Lit ''members''], orgs_orgID_members_GET),
     (''POST'', [Lit ''admin'', Lit ''orgs'', Dyn ''orgID'', Lit ''members''], orgs_orgID_members_POST),
     (''PATCH'', [Lit ''admin'', Lit ''orgs'', Dyn ''orgID'', Lit ''members'', Dyn ''userID''], orgs_orgID_members_userID_PATCH),
     (''DELETE'', [Lit ''admin'', Lit ''orgs'', Dyn ''orgID'', Lit ''members'', Dyn ''userID''], orgs_orgID_members_userID_DELETE),
     (''POST'', [Lit ''admin'', Lit ''orgs'', Lit ''join''], orgs_join_POST)]"

definition routing_files :: "api_file list" where
  "routing_files =
    [(''PATCH'', [Lit ''admin'', Lit ''circuit-breakers'', Dyn ''routeID''], circuit_breakers_routeID_PATCH),
     (''POST'', [Lit ''admin'', Lit ''route-test''], route_test_POST),
     (''PATCH'', [Lit ''admin'', Lit ''route-upstream'', Dyn ''upstreamID''], route_upstream_upstreamID_PATCH),
     (''DELETE'', [Lit ''admin'', Lit ''route-upstream'', Dyn ''upstreamID''], route_upstream_upstreamID_DELETE),
     (''POST'', [Lit ''admin'', Lit ''routes''], routes_POST),
     (''PATCH'', [Lit ''admin'', Lit ''routes'', Dyn ''routeID''], routes_routeID_PATCH),
     (''DELETE'', [Lit ''admin'', Lit ''routes'', Dyn ''routeID''], routes_routeID_DELETE),
     (''POST'', [Lit ''admin'', Lit ''routes'', Dyn ''routeID'', Lit ''duplicate''], routes_routeID_duplicate_POST),
     (''GET'', [Lit ''admin'', Lit ''routes'', Dyn ''routeID'', Lit ''upstreams''], routes_routeID_upstreams_GET),
     (''POST'', [Lit ''admin'', Lit ''routes'', Dyn ''routeID'', Lit ''upstreams''], routes_routeID_upstreams_POST),
     (''PATCH'', [Lit ''admin'', Lit ''tenant-upstream'', Dyn ''upstreamID''], tenant_upstream_upstreamID_PATCH),
     (''DELETE'', [Lit ''admin'', Lit ''tenant-upstream'', Dyn ''upstreamID''], tenant_upstream_upstreamID_DELETE),
     (''POST'', [Lit ''admin'', Lit ''tenants''], tenants_POST),
     (''PATCH'', [Lit ''admin'', Lit ''tenants'', Dyn ''tenantID''], tenants_tenantID_PATCH),
     (''DELETE'', [Lit ''admin'', Lit ''tenants'', Dyn ''tenantID''], tenants_tenantID_DELETE),
     (''GET'', [Lit ''admin'', Lit ''tenants'', Dyn ''tenantID'', Lit ''upstreams''], tenants_tenantID_upstreams_GET),
     (''POST'', [Lit ''admin'', Lit ''tenants'', Dyn ''tenantID'', Lit ''upstreams''], tenants_tenantID_upstreams_POST),
     (''POST'', [Lit ''admin'', Lit ''tokens''], tokens_POST),
     (''PATCH'', [Lit ''admin'', Lit ''tokens'', Dyn ''tokenID''], tokens_tokenID_PATCH),
     (''DELETE'', [Lit ''admin'', Lit ''tokens'', Dyn ''tokenID''], tokens_tokenID_DELETE),
     (''POST'', [Lit ''admin'', Lit ''tokens'', Dyn ''tokenID'', Lit ''extend''], tokens_tokenID_extend_POST),
     (''POST'', [Lit ''admin'', Lit ''tokens'', Dyn ''tokenID'', Lit ''rotate''], tokens_tokenID_rotate_POST),
     (''POST'', [Lit ''admin'', Lit ''tokens'', Lit ''bulk''], tokens_bulk_POST),
     (''GET'', [Lit ''admin'', Lit ''tokens'', Dyn ''tokenID'', Lit ''stats''], tokens_tokenID_stats_GET)]"

definition platform_files :: "api_file list" where
  "platform_files =
    [(''POST'', [Lit ''admin'', Lit ''import''], import_POST),
     (''GET'', [Lit ''admin'', Lit ''platform'', Lit ''admins''], platform_admins_GET),
     (''POST'', [Lit ''admin'', Lit ''platform'', Lit ''admins''], platform_admins_POST),
     (''DELETE'', [Lit ''admin'', Lit ''platform'', Lit ''admins'', Dyn ''userID''], platform_admins_userID_DELETE),
     (''GET'', [Lit ''admin'', Lit ''platform'', Lit ''check''], platform_check_GET),
     (''GET'', [Lit ''admin'', Lit ''platform'', Lit ''orgs''], platform_orgs_GET),
     (''DELETE'', [Lit ''admin'', Lit ''platform'', Lit ''orgs'', Dyn ''orgID''], platform_orgs_orgID_DELETE),
     (''GET'', [Lit ''admin'', Lit ''platform'', Lit ''replicas''], platform_replicas_GET),
     (''GET'', [Lit ''admin'', Lit ''platform'', Lit ''users''], platform_users_GET),
     (''DELETE'', [Lit ''admin'', Lit ''platform'', Lit ''users'', Dyn ''userID''], platform_users_userID_DELETE),
     (''POST'', [Lit ''admin'', Lit ''sessions'', Dyn ''sessionID'', Lit ''revoke''], sessions_sessionID_revoke_POST),
     (''GET'', [Lit ''admin'', Lit ''settings'', Lit ''oidc''], settings_oidc_GET),
     (''PUT'', [Lit ''admin'', Lit ''settings'', Lit ''oidc''], settings_oidc_PUT),
     (''GET'', [Lit ''admin'', Lit ''settings'', Lit ''oidc'', Lit ''mappings''], settings_oidc_mappings_GET),
     (''POST'', [Lit ''admin'', Lit ''settings'', Lit ''oidc'', Lit ''mappings''], settings_oidc_mappings_POST),
     (''DELETE'', [Lit ''admin'', Lit ''settings'', Lit ''oidc'', Lit ''mappings'', Dyn ''id''], settings_oidc_mappings_id_DELETE),
     (''GET'', [Lit ''admin'', Lit ''settings'', Lit ''retention''], settings_retention_GET),
     (''PATCH'', [Lit ''admin'', Lit ''settings'', Lit ''retention''], settings_retention_PATCH),
     (''POST'', [Lit ''admin'', Lit ''settings'', Lit ''retention'', Lit ''purge''], settings_retention_purge_POST),
     (''GET'', [Lit ''admin'', Lit ''traffic'', Lit ''overview''], traffic_overview_GET),
     (''GET'', [Lit ''admin'', Lit ''health-history''], health_history_GET),
     (''GET'', [Lit ''admin'', Lit ''search''], search_GET),
     (''GET'', [Lit ''admin'', Lit ''traffic'', Lit ''heatmap''], traffic_heatmap_GET),
     (''GET'', [Lit ''admin'', Lit ''traffic'', Lit ''route''], traffic_route_GET),
     (''GET'', [Lit ''admin'', Lit ''traffic'', Lit ''stats''], traffic_stats_GET),
     (''GET'', [Lit ''admin'', Lit ''export''], export_GET)]"

definition admin_files :: "api_file list" where
  "admin_files = tenancy_files @ routing_files @ platform_files"

definition api_handler :: "string \<Rightarrow> seg list \<Rightarrow> handler option" where
  "api_handler m pat = map_of (map (\<lambda>(m, pat, h). ((m, pat), h)) admin_files) (m, pat)"

section \<open>Addresses\<close>

definition seg_text :: "(string \<Rightarrow> string) \<Rightarrow> seg \<Rightarrow> string" where
  "seg_text ps s = (case s of Lit l \<Rightarrow> l | Dyn k \<Rightarrow> ps k)"

definition path_of :: "seg list \<Rightarrow> (string \<Rightarrow> string) \<Rightarrow> string" where
  "path_of pat ps = concat (map (\<lambda>s. CHR ''/'' # seg_text ps s) pat)"

definition address :: "seg list \<Rightarrow> (string \<Rightarrow> string) \<Rightarrow> string" where
  "address pat ps = ''/api'' @ path_of pat ps"

text \<open>A text that stands for itself as a segment of an address.\<close>

definition plain_seg :: "string \<Rightarrow> bool" where
  "plain_seg s \<longleftrightarrow> s \<noteq> [] \<and> s \<noteq> ''.'' \<and> s \<noteq> ''..'' \<and> list_all uri_unreserved s"

definition plain_params :: "seg list \<Rightarrow> (string \<Rightarrow> string) \<Rightarrow> bool" where
  "plain_params pat ps \<longleftrightarrow> (\<forall>s \<in> set pat. plain_seg (seg_text ps s))"

fun matches :: "seg list \<Rightarrow> string list \<Rightarrow> bool" where
  "matches [] [] = True"
| "matches (Lit l # pat) (s # ss) = (l = s \<and> matches pat ss)"
| "matches (Dyn k # pat) (s # ss) = matches pat ss"
| "matches _ _ = False"

text \<open>No other file is at this address.\<close>

definition unambiguous :: "seg list \<Rightarrow> (string \<Rightarrow> string) \<Rightarrow> bool" where
  "unambiguous pat ps \<longleftrightarrow> list_all (\<lambda>(m, pat', h). pat' = pat \<or> \<not> matches pat' (map (seg_text ps) pat)) admin_files"

definition serves_api_files :: "router \<Rightarrow> bool" where
  "serves_api_files R \<longleftrightarrow>
     (\<forall>m pat h ps. api_handler m pat = Some h \<and> plain_params pat ps \<and> unambiguous pat ps \<longrightarrow>
        (\<exists>ps'. R m (address pat ps) = Some (h, ps') \<and> (\<forall>k. Dyn k \<in> set pat \<longrightarrow> ps' k = ps k)))"

text \<open>\<open>fetch\<close> in the browser, answered by a handler of the same server; \<open>str\<close> is \<open>JSON.stringify\<close>.\<close>

definition client_fetch :: "router \<Rightarrow> (json \<Rightarrow> string) \<Rightarrow> client_call \<Rightarrow> client_response eff option" where
  "client_fetch R str c =
     (case c of (m, addr, body) \<Rightarrow>
        case R m addr of None \<Rightarrow> None
        | Some (h, ps) \<Rightarrow> Some (h \<lparr>cq_body = str body, cq_query = [], cq_params = ps\<rparr>))"

section \<open>Every file mirrors a path of the backend\<close>

text \<open>
  The files whose backend path is not their own address under \<open>/api/v1\<close>: those that add a query, and
  the upstream lists, whose backend paths have a word of their own.
\<close>

definition rewritten :: "seg list list" where
  "rewritten =
     [[Lit ''admin'', Lit ''routes'', Dyn ''routeID'', Lit ''upstreams''],
      [Lit ''admin'', Lit ''tenants'', Dyn ''tenantID'', Lit ''upstreams''],
      [Lit ''admin'', Lit ''tokens'', Dyn ''tokenID'', Lit ''stats''],
      [Lit ''admin'', Lit ''health-history''], [Lit ''admin'', Lit ''search''],
      [Lit ''admin'', Lit ''traffic'', Lit ''heatmap''], [Lit ''admin'', Lit ''traffic'', Lit ''route''],
      [Lit ''admin'', Lit ''traffic'', Lit ''stats'']]"

definition mirrors :: "string \<Rightarrow> seg list \<Rightarrow> endpoint \<Rightarrow> bool" where
  "mirrors m pat ep \<longleftrightarrow> ep_method ep = m \<and>
     (pat \<in> set rewritten \<or>
      (\<forall>rq. plain_params pat (cq_params rq) \<longrightarrow> ep_path ep rq = ''/api/v1'' @ path_of pat (cq_params rq)))"

definition row_mirrors :: "api_file \<Rightarrow> handler \<times> endpoint \<Rightarrow> bool" where
  "row_mirrors = (\<lambda>(m, pat, h) (h', ep). h = h' \<and> mirrors m pat ep)"

lemma encode_plain: "list_all uri_unreserved s \<Longrightarrow> encodeURIComponent s = s"
  by (induction s) (simp_all add: encodeURIComponent_def enc_char_def)

lemma encode_plain_param:
  "plain_params pat ps \<Longrightarrow> Dyn k \<in> set pat \<Longrightarrow> encodeURIComponent (ps k) = ps k"
  by (force simp: plain_params_def plain_seg_def seg_text_def intro: encode_plain)

lemma row_mirrorsI:
  assumes "ep_method ep = m"
    and "\<And>rq. plain_params pat (cq_params rq) \<Longrightarrow> ep_path ep rq = ''/api/v1'' @ path_of pat (cq_params rq)"
  shows "row_mirrors (m, pat, h) (h, ep)"
  using assms by (simp add: row_mirrors_def mirrors_def)

lemma row_rewritten: "ep_method ep = m \<Longrightarrow> pat \<in> set rewritten \<Longrightarrow> row_mirrors (m, pat, h) (h, ep)"
  by (simp add: row_mirrors_def mirrors_def)

lemma tenancy_mirror: "list_all2 row_mirrors tenancy_files tenancy_table"
  unfolding tenancy_files_def tenancy_table_def list_all2_Cons list_all2_Nil
  by (intro conjI TrueI refl; rule row_mirrorsI; simp add: path_of_def seg_text_def)

lemma routing_mirror: "list_all2 row_mirrors routing_files routing_table"
  unfolding routing_files_def routing_table_def list_all2_Cons list_all2_Nil
  by (intro conjI TrueI refl; (rule row_rewritten; simp add: rewritten_def; fail)?; rule row_mirrorsI;
      simp add: path_of_def seg_text_def encode_plain_param)

lemma platform_mirror: "list_all2 row_mirrors platform_files platform_table"
  unfolding platform_files_def platform_table_def list_all2_Cons list_all2_Nil
  by (intro conjI TrueI refl; (rule row_rewritten; simp add: rewritten_def; fail)?; rule row_mirrorsI;
      simp add: path_of_def seg_text_def encode_plain_param)

lemma list_all2_map_of:
  assumes "list_all2 row_mirrors xs ys" "map_of (map (\<lambda>(m, pat, h). ((m, pat), h)) xs) (m, pat) = Some h"
  shows "\<exists>ep. (h, ep) \<in> set ys \<and> mirrors m pat ep"
  using assms by (induction rule: list_all2_induct) (auto simp: row_mirrors_def split: if_splits)

text \<open>Every file at an address is a forwarding handler for the same method and the mirrored path.\<close>

lemma api_handler_mirrors:
  assumes "api_handler m pat = Some h"
  shows "\<exists>ep. (h, ep) \<in> set (tenancy_table @ routing_table @ platform_table) \<and> mirrors m pat ep"
  using assms unfolding api_handler_def admin_files_def
  by (rule list_all2_map_of [rotated]) (intro list_all2_appendI tenancy_mirror routing_mirror platform_mirror)

section \<open>A router that serves the files\<close>

fun params_of :: "seg list \<Rightarrow> string list \<Rightarrow> string \<Rightarrow> string" where
  "params_of (Dyn k # pat) (s # ss) x = (if x = k then s else params_of pat ss x)"
| "params_of (Lit l # pat) (s # ss) x = params_of pat ss x"
| "params_of _ _ x = []"

lemma params_of_texts: "Dyn k \<in> set pat \<Longrightarrow> params_of pat (map (seg_text ps) pat) k = ps k"
proof (induction pat)
  case (Cons s pat)
  then show ?case by (cases s) (auto simp: seg_text_def)
qed simp

lemma matches_texts: "matches pat (map (seg_text ps) pat)"
proof (induction pat)
  case (Cons s pat)
  then show ?case by (cases s) (simp_all add: seg_text_def)
qed simp

definition match_files :: "string list \<Rightarrow> seg list option" where
  "match_files ss = find (\<lambda>pat. matches pat ss) (map (\<lambda>(m, pat, h). pat) admin_files)"

definition file_router :: router where
  "file_router m addr =
     (case split_on CHR ''/'' addr of
        [] # _ # ss \<Rightarrow>
          (case match_files ss of
             None \<Rightarrow> None
           | Some pat \<Rightarrow> map_option (\<lambda>h. (h, params_of pat ss)) (api_handler m pat))
      | _ \<Rightarrow> None)"

lemma split_path:
  "plain_params pat ps \<Longrightarrow> CHR ''/'' \<notin> set p \<Longrightarrow>
   split_on CHR ''/'' (p @ path_of pat ps) = p # map (seg_text ps) pat"
proof (induction pat arbitrary: p)
  case Nil
  then show ?case by (simp add: path_of_def split_on_no_sep)
next
  case (Cons s pat)
  from Cons.prems(1) have plain: "plain_seg (seg_text ps s)" "plain_params pat ps"
    by (simp_all add: plain_params_def)
  have "CHR ''/'' \<notin> set (seg_text ps s)"
    using plain(1) by (auto simp: plain_seg_def list_all_iff uri_unreserved_def is_alnum_def)
  with Cons.IH [OF plain(2)] Cons.prems(2) show ?case
    by (simp add: path_of_def split_on_append_sep)
qed

lemma split_address:
  "plain_params pat ps \<Longrightarrow> split_on CHR ''/'' (address pat ps) = [] # ''api'' # map (seg_text ps) pat"
  using split_path [of pat ps "''api''"] split_on_append_sep [of "CHR ''/''" "[]"]
  by (simp add: address_def)

lemma found_in: "find P xs = Some q \<Longrightarrow> P q" "find P xs = Some q \<Longrightarrow> q \<in> set xs"
  by (induction xs) (auto split: if_splits)

lemma match_files_unambiguous:
  assumes "unambiguous pat ps" "(m, pat, h) \<in> set admin_files"
  shows "match_files (map (seg_text ps) pat) = Some pat"
proof -
  let ?P = "\<lambda>q. matches q (map (seg_text ps) pat)"
  have "\<exists>q \<in> set (map (\<lambda>(m, pat, h). pat) admin_files). ?P q" using assms(2) matches_texts by force
  then obtain q where q: "find ?P (map (\<lambda>(m, pat, h). pat) admin_files) = Some q"
    by (metis find_None_iff not_None_eq)
  then have "?P q" "q \<in> set (map (\<lambda>(m, pat, h). pat) admin_files)"
    by (rule found_in)+
  with assms(1) have "q = pat" by (auto simp: unambiguous_def list_all_iff)
  with q show ?thesis by (simp add: match_files_def)
qed

lemma file_router_serves: "serves_api_files file_router"
  unfolding serves_api_files_def
proof (intro allI impI)
  fix m pat h ps
  assume "api_handler m pat = Some h \<and> plain_params pat ps \<and> unambiguous pat ps"
  then have h: "api_handler m pat = Some h" and plain: "plain_params pat ps" and u: "unambiguous pat ps" by auto
  have "(m, pat, h) \<in> set admin_files"
    using h by (force simp: api_handler_def dest: map_of_SomeD)
  then have "file_router m (address pat ps) = Some (h, params_of pat (map (seg_text ps) pat))"
    by (simp add: file_router_def split_address [OF plain] match_files_unambiguous [OF u] h)
  then show "\<exists>ps'. file_router m (address pat ps) = Some (h, ps') \<and> (\<forall>k. Dyn k \<in> set pat \<longrightarrow> ps' k = ps k)"
    using params_of_texts by blast
qed

end
