(* ===== verification/Contracts.thy ===== *)
theory Contracts
  imports Prelude
begin

text \<open>
  The records of \<open>lib/contracts.ts\<close> the topology map and the audit views compute with, field by
  field. Optional properties are options; counts, statuses, weights and milliseconds are
  integers, as the backend sends them.
\<close>

record RuntimeState =
  rt_status :: string
  rt_version :: string
  rt_storeKind :: string

record OverviewStats =
  ov_tenants :: int
  ov_routes :: int
  ov_activeTokens :: int
  ov_auditEvents24h :: int

record TenantSummary =
  tn_id :: string
  tn_name :: string
  tn_tenantID :: string
  tn_authMode :: string
  tn_headerName :: string
  tn_orgID :: "string option"

record RouteSummary =
  ro_id :: string
  ro_slug :: string
  ro_targetPath :: string
  ro_tenantID :: string
  ro_upstreamURL :: string
  ro_healthCheckPath :: "string option"
  ro_requiredScope :: string
  ro_methods :: "string list"
  ro_rateLimitRPM :: int
  ro_rateLimitBurst :: int
  ro_allowCIDRs :: string
  ro_denyCIDRs :: string
  ro_circuitBreakerState :: "string option"
  ro_circuitBreakerLocked :: "bool option"

record TokenSummary =
  tk_id :: string
  tk_name :: string
  tk_tenantID :: string
  tk_scopes :: "string list"
  tk_expiresAt :: string
  tk_lastUsedAt :: string
  tk_createdAt :: string
  tk_preview :: string
  tk_active :: bool
  tk_rateLimitRPM :: int
  tk_rateLimitBurst :: int

record AuditEvent =
  ae_id :: string
  ae_timestamp :: string
  ae_routeSlug :: string
  ae_tenantID :: string
  ae_tokenID :: string
  ae_method :: string
  ae_status :: int
  ae_upstreamURL :: string
  ae_latencyMs :: int
  ae_requestPath :: "string option"

record UpstreamHealthEntry =
  uh_routeID :: string
  uh_upstreamURL :: string
  uh_status :: string
  uh_lastCheckedAt :: string
  uh_latencyMs :: int
  uh_error :: "string option"

record RouteUpstreamEntry =
  ru_id :: string
  ru_routeID :: string
  ru_upstreamURL :: string
  ru_weight :: int

text \<open>The two lists the code guards with \<open>?? []\<close> may be missing.\<close>

record TopologySnapshot =
  ts_generatedAt :: string
  ts_runtime :: RuntimeState
  ts_stats :: OverviewStats
  ts_tenants :: "TenantSummary list"
  ts_routes :: "RouteSummary list"
  ts_tokens :: "TokenSummary list"
  ts_auditEvents :: "AuditEvent list"
  ts_upstreamHealth :: "UpstreamHealthEntry list option"
  ts_routeUpstreams :: "RouteUpstreamEntry list option"

end
