(* ===== verification/TopologyGeometry.thy ===== *)
theory TopologyGeometry
  imports Prelude Machines
begin

text \<open>
  The geometry of \<open>components/admin/live-topology-map.tsx\<close>: lanes and row positions, the curve an
  edge is drawn with and the place of its badge, the speed of the packets on it, and the camera
  with everything that moves it (fitting, resizing, the wheel, dragging). Numbers are exact
  rationals.
\<close>

section \<open>Numbers\<close>

text \<open>\<open>Math.round\<close>: halves go up.\<close>

definition math_round :: "rat \<Rightarrow> int" where
  "math_round x = \<lfloor>x + 1 / 2\<rfloor>"

lemma math_round_of_int: "math_round (of_int n) = n"
  by (simp add: math_round_def floor_eq_iff)

lemma math_round_close: "\<bar>of_int (math_round x) - x\<bar> \<le> 1 / 2"
  unfolding math_round_def by linarith

lemma math_round_mono: "x \<le> y \<Longrightarrow> math_round x \<le> math_round y"
  by (simp add: math_round_def floor_mono)

text \<open>\<open>x.toFixed(2)\<close> for a number that is not negative: the nearest multiple of 0.01, halves up.\<close>

definition toFixed2 :: "rat \<Rightarrow> string" where
  "toFixed2 x =
     (let n = nat (math_round (100 * x)) in
      show_nat (n div 100) @ ''.'' @ show_nat (n mod 100 div 10) @ show_nat (n mod 10))"

section \<open>Rows and lanes\<close>

definition SCENE_WIDTH :: rat where "SCENE_WIDTH = 2420"

definition LANE_X_token :: rat where "LANE_X_token = 240"
definition LANE_X_route :: rat where "LANE_X_route = 920"
definition LANE_X_tenant :: rat where "LANE_X_tenant = 1600"
definition LANE_X_upstream :: rat where "LANE_X_upstream = 2120"

lemmas lane_defs = LANE_X_token_def LANE_X_route_def LANE_X_tenant_def LANE_X_upstream_def

definition distributePositions :: "nat \<Rightarrow> rat \<Rightarrow> rat \<Rightarrow> rat list" where
  "distributePositions count' start end' =
     (if count' \<le> 1 then [(start + end') / 2]
      else map (\<lambda>index. start + (end' - start) * of_nat index / (of_nat count' - 1)) [0..<count'])"

lemma length_distributePositions: "length (distributePositions n a b) = max n 1"
  by (auto simp: distributePositions_def)

lemma distributePositions_nth:
  "i < n \<Longrightarrow> 1 < n \<Longrightarrow> distributePositions n a b ! i = a + (b - a) * of_nat i / (of_nat n - 1)"
  by (simp add: distributePositions_def)

lemma distributePositions_bounds:
  assumes "a \<le> b" "y \<in> set (distributePositions n a b)"
  shows "a \<le> y \<and> y \<le> b"
proof (cases "n \<le> 1")
  case True
  with assms show ?thesis by (simp add: distributePositions_def field_simps)
next
  case False
  with assms(2) obtain i where i: "i < n" "y = a + (b - a) * of_nat i / (of_nat n - 1)"
    by (auto simp: distributePositions_def)
  have pos: "0 < (of_nat n - 1 :: rat)" using False by simp
  have "(of_nat (Suc i) :: rat) \<le> of_nat n" using i(1) by (simp only: of_nat_le_iff Suc_le_eq)
  then have "(of_nat i :: rat) \<le> of_nat n - 1" by simp
  moreover define q where "q = (of_nat i :: rat) / (of_nat n - 1)"
  ultimately have q: "0 \<le> q" "q \<le> 1" using pos by simp_all
  have y: "y = a + (b - a) * q" by (simp add: i(2) q_def)
  have "(b - a) * q \<le> b - a" using assms(1) q by (simp add: mult_left_le)
  moreover have "0 \<le> (b - a) * q" using assms(1) q by simp
  ultimately show ?thesis by (simp add: y)
qed

lemma distributePositions_mono:
  assumes "a < b" "i < j" "j < n"
  shows "distributePositions n a b ! i < distributePositions n a b ! j"
proof -
  have "1 < n" using assms by simp
  moreover then have "0 < (of_nat n - 1 :: rat)" by simp
  ultimately show ?thesis using assms
    by (simp add: distributePositions_nth divide_strict_right_mono)
qed

text \<open>The distance between two neighbouring rows.\<close>

lemma distributePositions_gap:
  assumes "Suc i < n"
  shows "distributePositions n a b ! Suc i - distributePositions n a b ! i = (b - a) / (of_nat n - 1)"
proof -
  have "(b - a) * of_nat (Suc i) / c - (b - a) * of_nat i / c = (b - a) / c" for c :: rat
    by (simp add: ring_distribs diff_divide_distrib [symmetric])
  with assms show ?thesis by (simp add: distributePositions_nth)
qed

section \<open>Edges\<close>

type_synonym point = "rat \<times> rat"

text \<open>
  \<open>pathBetween\<close> and \<open>bezierMidpoint\<close> on the positions of the two nodes: the control points of the
  path \<open>M p0 C p1, p2, p3\<close>, and the badge's place.
\<close>

definition forward_edge :: "point \<Rightarrow> point \<Rightarrow> bool" where
  "forward_edge f t \<longleftrightarrow> fst f \<le> fst t"

definition pathBetween :: "point \<Rightarrow> point \<Rightarrow> point \<times> point \<times> point \<times> point" where
  "pathBetween from' to' =
     (let forward = forward_edge from' to';
          startX = fst from' + (if forward then 120 else -120);
          endX = fst to' + (if forward then -120 else 120);
          startY = snd from'; endY = snd to';
          controlOffset = max 120 (\<bar>endX - startX\<bar> * 36 / 100)
      in ((startX, startY),
          (startX + (if forward then controlOffset else - controlOffset), startY),
          (endX - (if forward then controlOffset else - controlOffset), endY),
          (endX, endY)))"

definition bezierMidpoint :: "point \<Rightarrow> point \<Rightarrow> point" where
  "bezierMidpoint from' to' =
     (let forward = forward_edge from' to';
          p0x = fst from' + (if forward then 120 else -120); p0y = snd from';
          p3x = fst to' + (if forward then -120 else 120); p3y = snd to';
          controlOffset = max 120 (\<bar>p3x - p0x\<bar> * 36 / 100);
          p1x = p0x + (if forward then controlOffset else - controlOffset); p1y = p0y;
          p2x = p3x - (if forward then controlOffset else - controlOffset); p2y = p3y
      in (125 / 1000 * p0x + 375 / 1000 * p1x + 375 / 1000 * p2x + 125 / 1000 * p3x,
          125 / 1000 * p0y + 375 / 1000 * p1y + 375 / 1000 * p2y + 125 / 1000 * p3y))"

text \<open>De Casteljau's construction for the curve an SVG renderer draws.\<close>

definition lerp :: "rat \<Rightarrow> point \<Rightarrow> point \<Rightarrow> point" where
  "lerp u p q = (fst p + u * (fst q - fst p), snd p + u * (snd q - snd p))"

definition casteljau :: "rat \<Rightarrow> point \<times> point \<times> point \<times> point \<Rightarrow> point" where
  "casteljau u = (\<lambda>(p0, p1, p2, p3).
     lerp u (lerp u (lerp u p0 p1) (lerp u p1 p2)) (lerp u (lerp u p1 p2) (lerp u p2 p3)))"

lemma bezierMidpoint_mean:
  "bezierMidpoint p q = ((fst p + fst q) / 2, (snd p + snd q) / 2)"
  by (simp add: bezierMidpoint_def Let_def field_simps)

text \<open>Maps a latency in milliseconds to the duration of a packet's travel in seconds.\<close>

definition packet_seconds :: "rat \<Rightarrow> rat" where
  "packet_seconds ms = (let clamped = min (max ms 0) 2000 in 6 / 10 + (clamped / 2000) * (34 / 10))"

definition latencyToDuration :: "rat \<Rightarrow> string" where
  "latencyToDuration ms = toFixed2 (packet_seconds ms) @ ''s''"

lemma packet_seconds_mono: "a \<le> b \<Longrightarrow> packet_seconds a \<le> packet_seconds b"
  by (auto simp: packet_seconds_def Let_def min_def max_def)

lemma packet_seconds_bounds: "6 / 10 \<le> packet_seconds ms \<and> packet_seconds ms \<le> 4"
  by (auto simp: packet_seconds_def Let_def min_def max_def)

section \<open>The camera\<close>

record CameraState =
  cam_scale :: rat
  cam_x :: rat
  cam_y :: rat

definition CAMERA_MARGIN :: rat where "CAMERA_MARGIN = 160"

definition SCALE_max :: rat where "SCALE_max = 135 / 100"
definition SCALE_min :: rat where "SCALE_min = 18 / 100"

lemmas camera_consts = SCENE_WIDTH_def CAMERA_MARGIN_def SCALE_max_def SCALE_min_def

text \<open>One axis of \<open>clampCamera\<close>: the code has it twice, for \<open>x\<close> and for \<open>y\<close>.\<close>

definition clampAxis :: "rat \<Rightarrow> rat \<Rightarrow> rat \<Rightarrow> rat" where
  "clampAxis scaled viewport v =
     (if scaled + CAMERA_MARGIN * 2 \<le> viewport then (viewport - scaled) / 2
      else min CAMERA_MARGIN (max (viewport - scaled - CAMERA_MARGIN) v))"

definition clampCamera :: "CameraState \<Rightarrow> rat \<Rightarrow> rat \<Rightarrow> rat \<Rightarrow> CameraState" where
  "clampCamera camera viewportWidth viewportHeight sceneHeight =
     (let scaledWidth = SCENE_WIDTH * cam_scale camera;
          scaledHeight = sceneHeight * cam_scale camera
      in \<lparr>cam_scale = cam_scale camera,
          cam_x = clampAxis scaledWidth viewportWidth (cam_x camera),
          cam_y = clampAxis scaledHeight viewportHeight (cam_y camera)\<rparr>)"

definition fitCamera :: "rat \<Rightarrow> rat \<Rightarrow> rat \<Rightarrow> CameraState" where
  "fitCamera viewportWidth viewportHeight sceneHeight =
     (let scale = min SCALE_max (max SCALE_min
                    (min ((viewportWidth - 80) / SCENE_WIDTH) ((viewportHeight - 120) / sceneHeight)))
      in clampCamera \<lparr>cam_scale = scale, cam_x = (viewportWidth - SCENE_WIDTH * scale) / 2,
                      cam_y = (viewportHeight - sceneHeight * scale) / 2\<rparr>
           viewportWidth viewportHeight sceneHeight)"

text \<open>The effect after a change of the scene's height: fit, unless that moves nothing visibly.\<close>

definition refit :: "rat \<Rightarrow> rat \<Rightarrow> rat \<Rightarrow> CameraState \<Rightarrow> CameraState" where
  "refit w h sceneHeight current =
     (let nextCamera = fitCamera w h sceneHeight in
      if \<bar>cam_scale current - cam_scale nextCamera\<bar> < 1 / 1000
         \<and> \<bar>cam_x current - cam_x nextCamera\<bar> < 1 / 2 \<and> \<bar>cam_y current - cam_y nextCamera\<bar> < 1 / 2
      then current else nextCamera)"

definition wheel_scale :: "rat \<Rightarrow> rat \<Rightarrow> rat" where
  "wheel_scale scale deltaY = max SCALE_min (min SCALE_max (scale - deltaY / 1000))"

definition wheel :: "rat \<Rightarrow> rat \<Rightarrow> rat \<Rightarrow> rat \<Rightarrow> rat \<Rightarrow> rat \<Rightarrow> CameraState \<Rightarrow> CameraState" where
  "wheel pointerX pointerY deltaY w h sceneHeight prev =
     (let nextScale = wheel_scale (cam_scale prev) deltaY;
          sceneX = (pointerX - cam_x prev) / cam_scale prev;
          sceneY = (pointerY - cam_y prev) / cam_scale prev
      in clampCamera \<lparr>cam_scale = nextScale, cam_x = pointerX - sceneX * nextScale,
                      cam_y = pointerY - sceneY * nextScale\<rparr> w h sceneHeight)"

text \<open>Dragging: where the camera and the pointer were when the button went down.\<close>

record pan_origin =
  pan_originX :: rat
  pan_originY :: rat
  pan_startX :: rat
  pan_startY :: rat

definition pan_start :: "rat \<Rightarrow> rat \<Rightarrow> CameraState \<Rightarrow> pan_origin" where
  "pan_start clientX clientY camera =
     \<lparr>pan_originX = cam_x camera, pan_originY = cam_y camera, pan_startX = clientX, pan_startY = clientY\<rparr>"

definition pan_move :: "pan_origin \<Rightarrow> rat \<Rightarrow> rat \<Rightarrow> rat \<Rightarrow> rat \<Rightarrow> rat \<Rightarrow> CameraState \<Rightarrow> CameraState" where
  "pan_move p clientX clientY w h sceneHeight camera =
     clampCamera (camera\<lparr>cam_x := pan_originX p + (clientX - pan_startX p),
                         cam_y := pan_originY p + (clientY - pan_startY p)\<rparr>) w h sceneHeight"

subsection \<open>Facts about one axis\<close>

lemma clampAxis_idem: "clampAxis s v (clampAxis s v c) = clampAxis s v c"
  by (auto simp: clampAxis_def min_def max_def)

lemma clampAxis_range:
  "\<not> s + CAMERA_MARGIN * 2 \<le> v \<Longrightarrow>
   v - s - CAMERA_MARGIN \<le> clampAxis s v c \<and> clampAxis s v c \<le> CAMERA_MARGIN"
  by (auto simp: clampAxis_def min_def max_def)

text \<open>In a viewport wider than the margin some of the scene stays in sight.\<close>

lemma clampAxis_visible:
  assumes "CAMERA_MARGIN < v" "0 < s"
  shows "clampAxis s v c < v \<and> 0 < clampAxis s v c + s"
proof (cases "s + CAMERA_MARGIN * 2 \<le> v")
  case True
  with assms show ?thesis by (simp add: clampAxis_def CAMERA_MARGIN_def field_simps)
next
  case False
  with clampAxis_range [OF False, of c] assms show ?thesis by linarith
qed

lemma clampAxis_mono: "c \<le> d \<Longrightarrow> clampAxis s v c \<le> clampAxis s v d"
  by (auto simp: clampAxis_def min_def max_def)

lemma clampAxis_nonexpansive: "\<bar>clampAxis s v c - clampAxis s v d\<bar> \<le> \<bar>c - d\<bar>"
  by (auto simp: clampAxis_def min_def max_def)

lemma clampCamera_sel [simp]:
  "cam_scale (clampCamera c w h sh) = cam_scale c"
  "cam_x (clampCamera c w h sh) = clampAxis (SCENE_WIDTH * cam_scale c) w (cam_x c)"
  "cam_y (clampCamera c w h sh) = clampAxis (sh * cam_scale c) h (cam_y c)"
  by (simp_all add: clampCamera_def Let_def)

lemma clampCamera_idem [simp]: "clampCamera (clampCamera c w h sh) w h sh = clampCamera c w h sh"
  by (simp add: clampCamera_def Let_def clampAxis_idem)

lemma fitCamera_clamped [simp]: "clampCamera (fitCamera w h sh) w h sh = fitCamera w h sh"
  by (simp add: fitCamera_def Let_def)

lemma wheel_clamped [simp]: "clampCamera (wheel px py d w h sh c) w h sh = wheel px py d w h sh c"
  by (simp add: wheel_def Let_def)

lemma pan_move_clamped [simp]: "clampCamera (pan_move p x y w h sh c) w h sh = pan_move p x y w h sh c"
  by (simp add: pan_move_def)

section \<open>Every motion of the camera\<close>

text \<open>
  The viewport's size and the scene's height change under the camera; the camera starts at scale
  0.8 in the origin, before the first effect has run.
\<close>

record stage =
  sg_camera :: CameraState
  sg_width :: rat
  sg_height :: rat
  sg_scene :: rat
  sg_pan :: "pan_origin option"

datatype camera_event =
    SceneHeight rat
  | Fit
  | Resize rat rat
  | Wheel rat rat rat
  | PanStart rat rat
  | PanMove rat rat
  | PanEnd

fun camera_step :: "stage \<Rightarrow> camera_event \<Rightarrow> stage" where
  "camera_step s (SceneHeight sh) =
     s\<lparr>sg_scene := sh, sg_camera := refit (sg_width s) (sg_height s) sh (sg_camera s)\<rparr>"
| "camera_step s Fit = s\<lparr>sg_camera := fitCamera (sg_width s) (sg_height s) (sg_scene s)\<rparr>"
| "camera_step s (Resize w h) =
     s\<lparr>sg_width := w, sg_height := h, sg_camera := clampCamera (sg_camera s) w h (sg_scene s)\<rparr>"
| "camera_step s (Wheel px py d) =
     s\<lparr>sg_camera := wheel px py d (sg_width s) (sg_height s) (sg_scene s) (sg_camera s)\<rparr>"
| "camera_step s (PanStart x y) = s\<lparr>sg_pan := Some (pan_start x y (sg_camera s))\<rparr>"
| "camera_step s (PanMove x y) =
     (case sg_pan s of
        None \<Rightarrow> s
      | Some p \<Rightarrow> s\<lparr>sg_camera := pan_move p x y (sg_width s) (sg_height s) (sg_scene s) (sg_camera s)\<rparr>)"
| "camera_step s PanEnd = s\<lparr>sg_pan := None\<rparr>"

definition stage_init :: "stage \<Rightarrow> bool" where
  "stage_init s \<longleftrightarrow> sg_camera s = \<lparr>cam_scale = 8 / 10, cam_x = 0, cam_y = 0\<rparr> \<and> sg_pan s = None"

definition camera_trans :: "stage \<Rightarrow> camera_event \<Rightarrow> stage \<Rightarrow> bool" where
  "camera_trans s e t \<longleftrightarrow> t = camera_step s e"

definition scale_ok :: "rat \<Rightarrow> bool" where
  "scale_ok z \<longleftrightarrow> SCALE_min \<le> z \<and> z \<le> SCALE_max"

lemma SCALE_order: "SCALE_min \<le> SCALE_max"
  by (simp add: camera_consts)

lemma scale_ok_fit: "scale_ok (cam_scale (fitCamera w h sh))"
  using SCALE_order by (simp add: fitCamera_def Let_def scale_ok_def)

lemma scale_ok_wheel: "scale_ok (cam_scale (wheel px py d w h sh c))"
  using SCALE_order by (simp add: wheel_def wheel_scale_def Let_def scale_ok_def)

lemma scale_ok_refit: "scale_ok (cam_scale c) \<Longrightarrow> scale_ok (cam_scale (refit w h sh c))"
  by (simp add: refit_def Let_def scale_ok_fit)

lemma scale_ok_pan: "cam_scale (pan_move p x y w h sh c) = cam_scale c"
  by (simp add: pan_move_def)

lemma scale_ok_step: "scale_ok (cam_scale (sg_camera s)) \<Longrightarrow> scale_ok (cam_scale (sg_camera (camera_step s e)))"
  by (cases e) (auto simp: scale_ok_fit scale_ok_wheel scale_ok_refit scale_ok_pan split: option.splits)

interpretation camera: invariant stage_init camera_trans "\<lambda>s. scale_ok (cam_scale (sg_camera s))"
proof unfold_locales
  show "scale_ok (cam_scale (sg_camera s))" if "stage_init s" for s
    using that by (simp add: stage_init_def scale_ok_def camera_consts)
  show "scale_ok (cam_scale (sg_camera t))" if "camera_trans s e t" "scale_ok (cam_scale (sg_camera s))" for s e t
    using that by (simp add: camera_trans_def scale_ok_step)
qed

section \<open>Properties\<close>

text \<open>The rows of a lane lie between the lane's two ends, in order, the first at one end and the
  last at the other, at equal distances.\<close>

theorem rows_fill_the_lane:
  assumes "a < b" and "1 < n"
  shows "length (distributePositions n a b) = n
     \<and> distributePositions n a b ! 0 = a \<and> distributePositions n a b ! (n - 1) = b
     \<and> sorted_wrt (<) (distributePositions n a b)
     \<and> (\<forall>i. Suc i < n \<longrightarrow> distributePositions n a b ! Suc i - distributePositions n a b ! i
                            = (b - a) / (of_nat n - 1))"
proof (intro conjI allI impI)
  show len: "length (distributePositions n a b) = n"
    using assms(2) by (simp add: length_distributePositions)
  show "sorted_wrt (<) (distributePositions n a b)"
    using assms(1) by (auto simp: sorted_wrt_iff_nth_less len intro: distributePositions_mono)
  have "(of_nat n - 1 :: rat) = of_nat (n - 1)" "(of_nat (n - 1) :: rat) \<noteq> 0"
    using assms(2) by (simp_all add: of_nat_diff)
  then show "distributePositions n a b ! (n - 1) = b"
    using assms(2) by (simp add: distributePositions_nth)
  show "distributePositions n a b ! 0 = a" using assms(2) by (simp add: distributePositions_nth)
qed (rule distributePositions_gap)

theorem rows_fill_the_lane_witness:
  "length (distributePositions 3 220 800) = 3 \<and> distributePositions 3 220 800 ! 0 = 220
   \<and> distributePositions 3 220 800 ! 2 = 800"
  using rows_fill_the_lane [of 220 800 3] by simp

text \<open>The badge of an edge sits on the edge: \<open>bezierMidpoint\<close> is the point at parameter one half
  of the curve \<open>pathBetween\<close> draws, and it is the middle between the two nodes.\<close>

theorem badge_sits_on_edge:
  "bezierMidpoint p q = casteljau (1 / 2) (pathBetween p q)
   \<and> bezierMidpoint p q = ((fst p + fst q) / 2, (snd p + snd q) / 2)"
  by (simp add: bezierMidpoint_mean casteljau_def lerp_def pathBetween_def Let_def field_simps)

text \<open>Whatever the user does to the camera, and however the viewport and the scene change, its
  scale stays within the limits.\<close>

theorem camera_scale_within_limits:
  assumes "reach stage_init camera_trans s"
  shows "18 / 100 \<le> cam_scale (sg_camera s) \<and> cam_scale (sg_camera s) \<le> 135 / 100"
  using camera.reach_inv [OF assms] by (simp add: scale_ok_def SCALE_max_def SCALE_min_def)

definition example_stage :: stage where
  "example_stage = \<lparr>sg_camera = \<lparr>cam_scale = 8 / 10, cam_x = 0, cam_y = 0\<rparr>, sg_width = 1000,
     sg_height = 700, sg_scene = 980, sg_pan = None\<rparr>"

lemma example_stage_reach: "reach stage_init camera_trans example_stage"
  by (rule reach_init) (simp add: stage_init_def example_stage_def)

theorem camera_scale_within_limits_witness:
  "18 / 100 \<le> cam_scale (sg_camera (camera_step example_stage (Wheel 10 10 5000)))
   \<and> cam_scale (sg_camera (camera_step example_stage (Wheel 10 10 5000))) \<le> 135 / 100"
  by (rule camera_scale_within_limits, rule reach_step [OF example_stage_reach, where e = "Wheel 10 10 5000"])
     (simp add: camera_trans_def)

text \<open>Clamping loses the scene for no one: in a viewport larger than the margin some of the scene
  is in sight on both axes, a scene that fits with its margins is centred, and clamping again
  changes nothing.\<close>

theorem clamped_scene_stays_in_sight:
  assumes "160 < w" and "160 < h" and "0 < sh" and "0 < cam_scale c"
  shows "let c' = clampCamera c w h sh; sw = SCENE_WIDTH * cam_scale c'; sh' = sh * cam_scale c' in
      cam_x c' < w \<and> 0 < cam_x c' + sw \<and> cam_y c' < h \<and> 0 < cam_y c' + sh'
      \<and> clampCamera c' w h sh = c'"
proof -
  have "0 < SCENE_WIDTH * cam_scale c" "0 < sh * cam_scale c"
    using assms(3,4) by (simp_all add: SCENE_WIDTH_def)
  with assms(1,2) show ?thesis
    using clampAxis_visible [of w "SCENE_WIDTH * cam_scale c"] clampAxis_visible [of h "sh * cam_scale c"]
    by (simp add: Let_def CAMERA_MARGIN_def)
qed

theorem clamped_scene_stays_in_sight_witness:
  "cam_x (clampCamera \<lparr>cam_scale = 1, cam_x = 99999, cam_y = -99999\<rparr> 1000 700 980) < 1000
   \<and> 0 < cam_y (clampCamera \<lparr>cam_scale = 1, cam_x = 99999, cam_y = -99999\<rparr> 1000 700 980) + 980"
  using clamped_scene_stays_in_sight [of 1000 700 980 "\<lparr>cam_scale = 1, cam_x = 99999, cam_y = -99999\<rparr>"]
  by (simp add: Let_def)

text \<open>Zooming with the wheel moves the scale by a thousandth of the wheel's way, within the limits,
  and keeps the point of the scene that is under the pointer under the pointer as long as the
  camera stays inside the margins.\<close>

theorem wheel_zooms_at_pointer:
  assumes "scale_ok (cam_scale c)" and "z = wheel_scale (cam_scale c) deltaY"
    and "x = px - (px - cam_x c) / cam_scale c * z" and "w < SCENE_WIDTH * z + 320"
    and "w - SCENE_WIDTH * z - 160 \<le> x" and "x \<le> 160"
  shows "cam_scale (wheel px py deltaY w h sh c) = z
     \<and> (px - cam_x (wheel px py deltaY w h sh c)) / z = (px - cam_x c) / cam_scale c"
proof -
  have "scale_ok z" using scale_ok_wheel [of px py deltaY w h sh c] assms(2)
    by (simp add: wheel_def Let_def)
  then have "z \<noteq> 0" by (auto simp: scale_ok_def SCALE_min_def)
  moreover have "clampAxis (SCENE_WIDTH * z) w x = x"
    using assms(4-6) by (simp add: clampAxis_def CAMERA_MARGIN_def)
  then have "cam_x (wheel px py deltaY w h sh c) = x"
    by (simp add: wheel_def Let_def assms(2,3))
  ultimately show ?thesis by (simp add: wheel_def Let_def assms(2,3))
qed

theorem wheel_zooms_at_pointer_witness:
  "cam_scale (wheel 500 350 (-200) 1000 700 980 \<lparr>cam_scale = 8 / 10, cam_x = 0, cam_y = 0\<rparr>) = 1
   \<and> 500 - cam_x (wheel 500 350 (-200) 1000 700 980 \<lparr>cam_scale = 8 / 10, cam_x = 0, cam_y = 0\<rparr>) = 625"
  using wheel_zooms_at_pointer [of "\<lparr>cam_scale = 8 / 10, cam_x = 0, cam_y = 0\<rparr>" 1 "-200" "-125" 500 1000 350 700 980]
  by (simp add: scale_ok_def wheel_scale_def camera_consts)

text \<open>The slower the route, the slower the packets drawn on its edges, between 0.6 and 4 seconds.\<close>

theorem packets_follow_latency:
  "6 / 10 \<le> packet_seconds a \<and> packet_seconds a \<le> 4
   \<and> packet_seconds (min a b) \<le> packet_seconds (max a b)
   \<and> latencyToDuration 0 = ''0.60s'' \<and> latencyToDuration 2000 = ''4.00s''"
proof -
  have rounds: "math_round 60 = 60" "math_round 400 = 400"
    using math_round_of_int [of 60] math_round_of_int [of 400] by simp_all
  have p: "packet_seconds 0 = 3 / 5" "packet_seconds 2000 = 4" by (simp_all add: packet_seconds_def)
  have t: "toFixed2 (3 / 5) = ''0.60''" "toFixed2 4 = ''4.00''"
    using rounds by (simp_all add: toFixed2_def Let_def show_nat.simps digit_chars)
  have "latencyToDuration 0 = ''0.60s''" "latencyToDuration 2000 = ''4.00s''"
    unfolding latencyToDuration_def p t by simp_all
  then show ?thesis
    using packet_seconds_bounds [of a] packet_seconds_mono [of "min a b" "max a b"] by simp
qed

end
