(* ===== verification/TopologyGraph.thy ===== *)
theory TopologyGraph
  imports Contracts TopologyGeometry
begin

text \<open>
  The graph \<open>components/admin/live-topology-map.tsx\<close> draws from a snapshot: the order of the rows,
  the nodes of the four lanes and the edges between them, with the marks for live traffic, errors,
  revoked credentials and upstream health.
\<close>

section \<open>The browser\<close>

text \<open>
  What the code takes from the browser: the clock; the milliseconds a timestamp stands for
  (\<open>None\<close> for an invalid date, whose comparisons are all false); the host and origin of a URL
  (\<open>None\<close> where \<open>new URL\<close> throws); \<open>localeCompare\<close> in the browser's locale.
\<close>

record browser =
  br_now :: int
  br_getTime :: "string \<Rightarrow> int option"
  br_host :: "string \<Rightarrow> string option"
  br_origin :: "string \<Rightarrow> string option"
  br_localeCompare :: "string \<Rightarrow> string \<Rightarrow> rat"

section \<open>Nodes and edges\<close>

datatype node_kind = TokenNode | RouteNode | TenantNode | DraftNode | UpstreamNode

datatype edge_kind = Access | Binding | DraftEdge | Upstream

record GraphNode =
  nd_id :: string
  nd_kind :: node_kind
  nd_label :: string
  nd_meta :: string
  nd_stats :: "string option"
  nd_cbState :: "string option"
  nd_x :: rat
  nd_y :: rat
  nd_tone :: string

record GraphEdge =
  ed_id :: string
  ed_from :: string
  ed_to :: string
  ed_kind :: edge_kind
  ed_hot :: bool
  ed_error :: bool
  ed_reachable :: "bool option"
  ed_revoked :: "bool option"
  ed_latencyMs :: "rat option"
  ed_circuitBreakerState :: "string option"
  ed_circuitBreakerLocked :: "bool option"
  ed_label :: "string option"

text \<open>The bullet (U+2022) and the middle dot (U+00B7) between spaces, in UTF-8.\<close>

definition bullet :: string where
  "bullet = '' '' @ [CHR 0xE2, CHR 0x80, CHR 0xA2] @ '' ''"

definition middot :: string where
  "middot = '' '' @ [CHR 0xC2, CHR 0xB7] @ '' ''"

section \<open>JavaScript maps and arrays\<close>

text \<open>\<open>new Map(pairs)\<close>: a later pair replaces an earlier one with the same key.\<close>

definition js_map :: "('k \<times> 'v) list \<Rightarrow> 'k \<Rightarrow> 'v option" where
  "js_map ps = map_of (rev ps)"

text \<open>\<open>xs[i] ?? d\<close>.\<close>

definition array_or :: "'a list \<Rightarrow> nat \<Rightarrow> 'a \<Rightarrow> 'a" where
  "array_or xs i d = (if i < length xs then xs ! i else d)"

definition js_find :: "('a \<Rightarrow> bool) \<Rightarrow> 'a list \<Rightarrow> 'a option" where
  "js_find P xs = List.find P xs"

text \<open>\<open>xs.map((x, index) => f(x, index))\<close>.\<close>

definition map_index :: "('a \<Rightarrow> nat \<Rightarrow> 'b) \<Rightarrow> 'a list \<Rightarrow> 'b list" where
  "map_index f xs = map2 f xs [0..<length xs]"

lemma length_map_index [simp]: "length (map_index f xs) = length xs"
  by (simp add: map_index_def)

lemma nth_map_index [simp]: "i < length xs \<Longrightarrow> map_index f xs ! i = f (xs ! i) i"
  by (simp add: map_index_def)

lemma set_map_index: "set (map_index f xs) = {f (xs ! i) i |i. i < length xs}"
  by (auto simp: set_conv_nth) (metis nth_map_index)

lemma map_map_index: "map g (map_index (\<lambda>x _. f x) xs) = map (g \<circ> f) xs"
  by (rule nth_equalityI) simp_all

lemma map_map_index_const:
  "(\<And>x i. g (f x i) = h x) \<Longrightarrow> map g (map_index f xs) = map h xs"
  by (rule nth_equalityI) simp_all

lemma array_or_nth [simp]: "i < length xs \<Longrightarrow> array_or xs i d = xs ! i"
  by (simp add: array_or_def)

lemma js_find_Some: "js_find P xs = Some x \<Longrightarrow> x \<in> set xs \<and> P x"
  by (auto simp: js_find_def find_Some_iff)

lemma js_find_None: "js_find P xs = None \<longleftrightarrow> (\<forall>x \<in> set xs. \<not> P x)"
  by (auto simp: js_find_def find_None_iff)

lemma js_map_unique:
  assumes "distinct (map fst ps)" "(k, v) \<in> set ps"
  shows "js_map ps k = Some v"
  using assms by (simp add: js_map_def rev_map [symmetric])

section \<open>Recent traffic\<close>

definition ACTIVE_THRESHOLD_MS :: int where "ACTIVE_THRESHOLD_MS = 30 * 1000"

definition recentAudits :: "TopologySnapshot \<Rightarrow> AuditEvent list" where
  "recentAudits s = take 18 (ts_auditEvents s)"

definition isActiveAudit :: "browser \<Rightarrow> AuditEvent \<Rightarrow> bool" where
  "isActiveAudit b e =
     (case br_getTime b (ae_timestamp e) of None \<Rightarrow> False | Some t \<Rightarrow> br_now b - t < ACTIVE_THRESHOLD_MS)"

definition activeAudits :: "browser \<Rightarrow> TopologySnapshot \<Rightarrow> AuditEvent list" where
  "activeAudits b s = filter (isActiveAudit b) (recentAudits s)"

section \<open>The order of the rows\<close>

definition sortedTenants :: "browser \<Rightarrow> TopologySnapshot \<Rightarrow> TenantSummary list" where
  "sortedTenants b s = js_sort (\<lambda>x y. br_localeCompare b (tn_tenantID x) (tn_tenantID y)) (ts_tenants s)"

definition rowCount :: "TopologySnapshot \<Rightarrow> nat" where
  "rowCount s = max (max (length (ts_tokens s)) (length (ts_routes s))) (max (length (ts_tenants s)) 1)"

definition graphSceneHeight :: "TopologySnapshot \<Rightarrow> rat" where
  "graphSceneHeight s = max 980 (260 + of_nat (rowCount s) * 170)"

text \<open>\<open>distributePositions(xs.length || 1, top, sceneHeight - 180)\<close>.\<close>

definition laneRows :: "nat \<Rightarrow> rat \<Rightarrow> TopologySnapshot \<Rightarrow> rat list" where
  "laneRows n top' s = distributePositions (if n = 0 then 1 else n) top' (graphSceneHeight s - 180)"

definition tenantYArr :: "TopologySnapshot \<Rightarrow> rat list" where
  "tenantYArr s = laneRows (length (ts_tenants s)) 220 s"

definition tenantYByTenantID :: "browser \<Rightarrow> TopologySnapshot \<Rightarrow> string \<Rightarrow> rat option" where
  "tenantYByTenantID b s =
     js_map (map_index (\<lambda>t i. (tn_tenantID t, array_or (tenantYArr s) i (graphSceneHeight s / 2))) (sortedTenants b s))"

definition routeOrder :: "browser \<Rightarrow> TopologySnapshot \<Rightarrow> RouteSummary \<Rightarrow> RouteSummary \<Rightarrow> rat" where
  "routeOrder b s x y =
     (let ay = nullish (tenantYByTenantID b s (ro_tenantID x)) 0;
          by' = nullish (tenantYByTenantID b s (ro_tenantID y)) 0
      in if ay - by' \<noteq> 0 then ay - by' else br_localeCompare b (ro_slug x) (ro_slug y))"

definition sortedRoutes :: "browser \<Rightarrow> TopologySnapshot \<Rightarrow> RouteSummary list" where
  "sortedRoutes b s = js_sort (routeOrder b s) (ts_routes s)"

definition routeYArr :: "TopologySnapshot \<Rightarrow> rat list" where
  "routeYArr s = laneRows (length (ts_routes s)) 180 s"

definition routeYByRouteID :: "browser \<Rightarrow> TopologySnapshot \<Rightarrow> string \<Rightarrow> rat option" where
  "routeYByRouteID b s =
     js_map (map_index (\<lambda>r i. (ro_id r, array_or (routeYArr s) i (graphSceneHeight s / 2))) (sortedRoutes b s))"

definition canAccessRoute :: "TokenSummary \<Rightarrow> RouteSummary \<Rightarrow> bool" where
  "canAccessRoute token route \<longleftrightarrow>
     tk_tenantID token = ro_tenantID route \<and> ro_requiredScope route \<in> set (tk_scopes token)"

definition avgY :: "browser \<Rightarrow> TopologySnapshot \<Rightarrow> TokenSummary \<Rightarrow> rat" where
  "avgY b s token =
     (let accessible = filter (canAccessRoute token) (sortedRoutes b s) in
      if accessible = [] then nullish (tenantYByTenantID b s (tk_tenantID token)) (graphSceneHeight s / 2)
      else foldl (\<lambda>sum r. sum + nullish (routeYByRouteID b s (ro_id r)) 0) 0 accessible / of_nat (length accessible))"

definition tokenOrder :: "browser \<Rightarrow> TopologySnapshot \<Rightarrow> TokenSummary \<Rightarrow> TokenSummary \<Rightarrow> rat" where
  "tokenOrder b s x y =
     (let diff = avgY b s x - avgY b s y;
          act = of_bool (tk_active y) - of_bool (tk_active x)
      in if diff \<noteq> 0 then diff
         else if act \<noteq> 0 then act
         else br_localeCompare b (tk_name x) (tk_name y))"

definition sortedTokens :: "browser \<Rightarrow> TopologySnapshot \<Rightarrow> TokenSummary list" where
  "sortedTokens b s = js_sort (tokenOrder b s) (ts_tokens s)"

definition tokenYArr :: "TopologySnapshot \<Rightarrow> rat list" where
  "tokenYArr s = laneRows (length (ts_tokens s)) 220 s"

section \<open>Metrics of a route\<close>

record route_metrics =
  rm_throughput :: nat
  rm_errors :: nat
  rm_avgLatencyMs :: rat

definition auditOf :: "RouteSummary \<Rightarrow> AuditEvent \<Rightarrow> bool" where
  "auditOf route audit \<longleftrightarrow> ae_routeSlug audit = ro_slug route \<and> ae_tenantID audit = ro_tenantID route"

definition metricsOf :: "browser \<Rightarrow> TopologySnapshot \<Rightarrow> RouteSummary \<Rightarrow> route_metrics" where
  "metricsOf b s route =
     (let matchingAudits = filter (auditOf route) (recentAudits s);
          activeMatchingAudits = filter (auditOf route) (activeAudits b s);
          latencyAudits = filter (\<lambda>a. 0 < ae_latencyMs a) matchingAudits
      in \<lparr>rm_throughput = length matchingAudits,
          rm_errors = length (filter (\<lambda>a. 400 \<le> ae_status a) activeMatchingAudits),
          rm_avgLatencyMs =
            (if latencyAudits \<noteq> []
             then foldl (\<lambda>sum a. sum + of_int (ae_latencyMs a)) 0 latencyAudits / of_nat (length latencyAudits)
             else 0)\<rparr>)"

text \<open>The loop \<open>for (const route of routes) routeMetrics.set(route.id, \<dots>)\<close>.\<close>

definition routeMetrics :: "browser \<Rightarrow> TopologySnapshot \<Rightarrow> string \<Rightarrow> route_metrics option" where
  "routeMetrics b s = js_map (map (\<lambda>r. (ro_id r, metricsOf b s r)) (sortedRoutes b s))"

definition latencyOf :: "browser \<Rightarrow> TopologySnapshot \<Rightarrow> string \<Rightarrow> rat" where
  "latencyOf b s rid = (case routeMetrics b s rid of None \<Rightarrow> 0 | Some m \<Rightarrow> rm_avgLatencyMs m)"

definition errorsOf :: "browser \<Rightarrow> TopologySnapshot \<Rightarrow> string \<Rightarrow> nat" where
  "errorsOf b s rid = (case routeMetrics b s rid of None \<Rightarrow> 0 | Some m \<Rightarrow> rm_errors m)"

section \<open>Upstream entries\<close>

text \<open>
  \<open>routeSummary(s)\<close>: the code looks a route of the sorted list up again in the snapshot.
\<close>

definition routeSummary :: "TopologySnapshot \<Rightarrow> string \<Rightarrow> RouteSummary option" where
  "routeSummary s rid = js_find (\<lambda>r. ro_id r = rid) (ts_routes s)"

definition cbStateOf :: "TopologySnapshot \<Rightarrow> string \<Rightarrow> string option" where
  "cbStateOf s rid = Option.bind (routeSummary s rid) ro_circuitBreakerState"

definition breakerOpen :: "string option \<Rightarrow> bool" where
  "breakerOpen st \<longleftrightarrow> st = Some ''open'' \<or> st = Some ''half_open''"

definition healthIndex :: "TopologySnapshot \<Rightarrow> string \<Rightarrow> string option" where
  "healthIndex s =
     js_map (map (\<lambda>h. (uh_routeID h @ ''::'' @ uh_upstreamURL h, uh_status h)) (nullish (ts_upstreamHealth s) []))"

definition addToPool ::
  "RouteUpstreamEntry \<Rightarrow> (string \<Rightarrow> RouteUpstreamEntry list option) \<Rightarrow> string \<Rightarrow> RouteUpstreamEntry list option" where
  "addToPool u m = m(ru_routeID u \<mapsto> nullish (m (ru_routeID u)) [] @ [u])"

definition lbByRoute :: "TopologySnapshot \<Rightarrow> string \<Rightarrow> RouteUpstreamEntry list option" where
  "lbByRoute s = fold addToPool (nullish (ts_routeUpstreams s) []) Map.empty"

record UpstreamEntry =
  ue_nodeId :: string
  ue_label :: string
  ue_meta :: string
  ue_routeSlug :: string
  ue_statsText :: "string option"
  ue_tone :: string
  ue_fromNodeId :: string
  ue_isDown :: bool
  ue_isReachable :: bool
  ue_upstreamURL :: string

text \<open>\<open>upstreamTone\<close>: the tone, whether the upstream is down, and its health status.\<close>

definition upstreamTone ::
  "TopologySnapshot \<Rightarrow> string \<Rightarrow> string \<Rightarrow> bool \<Rightarrow> string \<times> bool \<times> string option" where
  "upstreamTone s routeID upstreamURL cbOpen =
     (let healthStatus = healthIndex s (routeID @ ''::'' @ upstreamURL);
          isDown = (cbOpen \<or> healthStatus = Some ''down'');
          isUp = (healthStatus = Some ''up'' \<and> \<not> cbOpen)
      in (if isDown then ''var(--danger)'' else if isUp then ''var(--success)'' else ''var(--muted)'',
          isDown, healthStatus))"

definition upstreamStatsText ::
  "bool \<Rightarrow> string option \<Rightarrow> string option \<Rightarrow> string option \<Rightarrow> string option \<Rightarrow> string option" where
  "upstreamStatsText cbOpen cbState healthStatus healthCheckPath weightLabel =
     (let base = (if cbOpen then ''CB: '' @ nullish cbState ''undefined''
                  else if healthStatus = Some ''up'' then ''healthy''
                  else if healthStatus = Some ''down'' then ''unreachable''
                  else if truthy healthCheckPath then ''healthz '' @ the healthCheckPath
                  else []);
          text' = (if truthy weightLabel
                   then (if base \<noteq> [] then the weightLabel @ middot @ base else the weightLabel)
                   else base)
      in if text' = [] then None else Some text')"

text \<open>\<open>lbPool.reduce((s, u) => s + u.weight, 0) || 1\<close> and the share of one member.\<close>

definition totalWeight :: "RouteUpstreamEntry list \<Rightarrow> int" where
  "totalWeight pool = (let t = foldl (\<lambda>acc u. acc + ru_weight u) 0 pool in if t = 0 then 1 else t)"

definition weightPct :: "RouteUpstreamEntry list \<Rightarrow> RouteUpstreamEntry \<Rightarrow> int" where
  "weightPct pool u = math_round (of_int (ru_weight u) / of_int (totalWeight pool) * 100)"

definition weightLabelOf :: "RouteUpstreamEntry list \<Rightarrow> RouteUpstreamEntry \<Rightarrow> string" where
  "weightLabelOf pool u = show_int (weightPct pool u) @ ''%'' @ middot @ ''w'' @ show_int (ru_weight u)"

text \<open>\<open>new URL(u).host\<close> and \<open>.origin\<close>, or the whole text where it is no URL.\<close>

definition urlLabel :: "browser \<Rightarrow> string \<Rightarrow> string" where
  "urlLabel b u = nullish (br_host b u) u"

definition urlOrigin :: "browser \<Rightarrow> string \<Rightarrow> string" where
  "urlOrigin b u = nullish (br_origin b u) u"

definition fromNodeId :: "browser \<Rightarrow> TopologySnapshot \<Rightarrow> RouteSummary \<Rightarrow> string" where
  "fromNodeId b s route =
     (case js_find (\<lambda>t. tn_tenantID t = ro_tenantID route) (sortedTenants b s) of
        Some t \<Rightarrow> ''tenant:'' @ tn_id t
      | None \<Rightarrow> ''route:'' @ ro_id route)"

definition upstreamEntry ::
  "browser \<Rightarrow> TopologySnapshot \<Rightarrow> RouteSummary \<Rightarrow> string \<Rightarrow> string \<Rightarrow> string option \<Rightarrow> UpstreamEntry" where
  "upstreamEntry b s route nodeKey url weightLabel =
     (let cbState = cbStateOf s (ro_id route);
          cbOpen = breakerOpen cbState;
          (tone, isDown, healthStatus) = upstreamTone s (ro_id route) url cbOpen
      in \<lparr>ue_nodeId = ''upstream:'' @ nodeKey, ue_label = urlLabel b url,
          ue_meta = ''/proxy/'' @ ro_slug route, ue_routeSlug = ro_slug route,
          ue_statsText = upstreamStatsText cbOpen cbState healthStatus (ro_healthCheckPath route) weightLabel,
          ue_tone = tone, ue_fromNodeId = fromNodeId b s route, ue_isDown = isDown,
          ue_isReachable = (\<not> isDown), ue_upstreamURL = url\<rparr>)"

definition routeUpstreamEntries :: "browser \<Rightarrow> TopologySnapshot \<Rightarrow> RouteSummary \<Rightarrow> UpstreamEntry list" where
  "routeUpstreamEntries b s route =
     (if ro_upstreamURL route = [] then []
      else case lbByRoute s (ro_id route) of
             Some (u # us) \<Rightarrow>
               map (\<lambda>m. upstreamEntry b s route (ru_id m) (ru_upstreamURL m)
                          (Some (weightLabelOf (u # us) m))) (u # us)
           | _ \<Rightarrow> [upstreamEntry b s route (ro_id route) (ro_upstreamURL route) None])"

definition upstreamEntries :: "browser \<Rightarrow> TopologySnapshot \<Rightarrow> UpstreamEntry list" where
  "upstreamEntries b s = concat (map (routeUpstreamEntries b s) (sortedRoutes b s))"

section \<open>Nodes\<close>

definition tokenNode :: "TopologySnapshot \<Rightarrow> TokenSummary \<Rightarrow> nat \<Rightarrow> GraphNode" where
  "tokenNode s token index =
     \<lparr>nd_id = ''token:'' @ tk_id token, nd_kind = TokenNode, nd_label = tk_name token,
      nd_meta = tk_tenantID token @ bullet @ join_with '', '' (tk_scopes token),
      nd_stats = Some (if tk_active token then ''Active credential'' else ''Inactive credential''),
      nd_cbState = None, nd_x = LANE_X_token, nd_y = array_or (tokenYArr s) index (graphSceneHeight s / 2),
      nd_tone = (if tk_active token then ''var(--success)'' else ''var(--muted)'')\<rparr>"

definition routeTone :: "string option \<Rightarrow> nat \<Rightarrow> string" where
  "routeTone cbState errors =
     (if breakerOpen cbState then (if cbState = Some ''open'' then ''var(--danger)'' else ''var(--warning)'')
      else if 0 < errors then ''var(--danger)'' else ''var(--accent)'')"

definition routeNode :: "browser \<Rightarrow> TopologySnapshot \<Rightarrow> RouteSummary \<Rightarrow> nat \<Rightarrow> GraphNode" where
  "routeNode b s route index =
     (let metrics = nullish (routeMetrics b s (ro_id route))
                      \<lparr>rm_throughput = 0, rm_errors = 0, rm_avgLatencyMs = 0\<rparr>;
          cbState = cbStateOf s (ro_id route)
      in \<lparr>nd_id = ''route:'' @ ro_id route, nd_kind = RouteNode, nd_label = ''/proxy/'' @ ro_slug route,
          nd_meta = ro_tenantID route @ bullet @ ro_requiredScope route @ bullet @ join_with '', '' (ro_methods route),
          nd_stats = Some (show_nat (rm_throughput metrics) @ '' req'' @ bullet @ show_nat (rm_errors metrics) @ '' err''),
          nd_cbState = cbState, nd_x = LANE_X_route,
          nd_y = array_or (routeYArr s) index (graphSceneHeight s / 2),
          nd_tone = routeTone cbState (rm_errors metrics)\<rparr>)"

definition tenantNode :: "TopologySnapshot \<Rightarrow> TenantSummary \<Rightarrow> nat \<Rightarrow> GraphNode" where
  "tenantNode s tenant index =
     \<lparr>nd_id = ''tenant:'' @ tn_id tenant, nd_kind = TenantNode, nd_label = tn_name tenant,
      nd_meta = tn_tenantID tenant @ bullet @ tn_authMode tenant, nd_stats = Some (tn_headerName tenant),
      nd_cbState = None, nd_x = LANE_X_tenant, nd_y = array_or (tenantYArr s) index (graphSceneHeight s / 2),
      nd_tone = ''var(--accent)''\<rparr>"

definition upstreamYArr :: "browser \<Rightarrow> TopologySnapshot \<Rightarrow> rat list" where
  "upstreamYArr b s = laneRows (length (upstreamEntries b s)) 220 s"

definition upstreamNode :: "browser \<Rightarrow> TopologySnapshot \<Rightarrow> UpstreamEntry \<Rightarrow> nat \<Rightarrow> GraphNode" where
  "upstreamNode b s entry index =
     \<lparr>nd_id = ue_nodeId entry, nd_kind = UpstreamNode, nd_label = ue_label entry, nd_meta = ue_meta entry,
      nd_stats = ue_statsText entry, nd_cbState = None, nd_x = LANE_X_upstream,
      nd_y = array_or (upstreamYArr b s) index (graphSceneHeight s / 2), nd_tone = ue_tone entry\<rparr>"

definition tokenNodes :: "browser \<Rightarrow> TopologySnapshot \<Rightarrow> GraphNode list" where
  "tokenNodes b s = map_index (tokenNode s) (sortedTokens b s)"

definition routeNodes :: "browser \<Rightarrow> TopologySnapshot \<Rightarrow> GraphNode list" where
  "routeNodes b s = map_index (routeNode b s) (sortedRoutes b s)"

definition tenantNodes :: "browser \<Rightarrow> TopologySnapshot \<Rightarrow> GraphNode list" where
  "tenantNodes b s = map_index (tenantNode s) (sortedTenants b s)"

definition upstreamNodes :: "browser \<Rightarrow> TopologySnapshot \<Rightarrow> GraphNode list" where
  "upstreamNodes b s = map_index (upstreamNode b s) (upstreamEntries b s)"

definition allNodes :: "browser \<Rightarrow> TopologySnapshot \<Rightarrow> GraphNode list" where
  "allNodes b s = tokenNodes b s @ routeNodes b s @ tenantNodes b s @ upstreamNodes b s"

section \<open>Keys of live traffic\<close>

definition hotRouteKeys :: "browser \<Rightarrow> TopologySnapshot \<Rightarrow> string set" where
  "hotRouteKeys b s = set (map (\<lambda>e. ''route:'' @ ae_routeSlug e @ '':'' @ ae_tenantID e) (activeAudits b s))"

definition hotTokenKeys :: "browser \<Rightarrow> TopologySnapshot \<Rightarrow> string set" where
  "hotTokenKeys b s = set (map (\<lambda>e. ''token:'' @ ae_tokenID e @ '':'' @ ae_routeSlug e) (activeAudits b s))"

definition tokenRouteErrorKeys :: "browser \<Rightarrow> TopologySnapshot \<Rightarrow> string set" where
  "tokenRouteErrorKeys b s =
     set (map (\<lambda>a. ae_tokenID a @ '':'' @ ae_routeSlug a @ '':'' @ ae_tenantID a)
       (filter (\<lambda>a. 400 \<le> ae_status a) (activeAudits b s)))"

text \<open>A request the gateway itself rejected never reached the upstream.\<close>

definition wasForwarded :: "AuditEvent \<Rightarrow> bool" where
  "wasForwarded e \<longleftrightarrow> ae_status e \<noteq> 401 \<and> ae_status e \<noteq> 403 \<and> ae_status e \<noteq> 429 \<and> ae_status e \<noteq> 503
     \<and> ae_upstreamURL e \<noteq> []"

definition hotUpstreamKeys :: "browser \<Rightarrow> TopologySnapshot \<Rightarrow> string set" where
  "hotUpstreamKeys b s =
     set (map (\<lambda>e. ae_routeSlug e @ ''::'' @ urlOrigin b (ae_upstreamURL e))
       (filter wasForwarded (activeAudits b s)))"

section \<open>Edges\<close>

definition tokenEdge :: "browser \<Rightarrow> TopologySnapshot \<Rightarrow> TokenSummary \<Rightarrow> RouteSummary \<Rightarrow> GraphEdge" where
  "tokenEdge b s token route =
     \<lparr>ed_id = ''edge:'' @ tk_id token @ '':'' @ ro_id route,
      ed_from = ''token:'' @ tk_id token, ed_to = ''route:'' @ ro_id route, ed_kind = Access,
      ed_hot = (if \<not> tk_active token then False
                else ''token:'' @ tk_id token @ '':'' @ ro_slug route \<in> hotTokenKeys b s),
      ed_error = (if \<not> tk_active token then False
                  else tk_id token @ '':'' @ ro_slug route @ '':'' @ ro_tenantID route \<in> tokenRouteErrorKeys b s),
      ed_reachable = None, ed_revoked = Some (\<not> tk_active token),
      ed_latencyMs = Some (latencyOf b s (ro_id route)),
      ed_circuitBreakerState = None, ed_circuitBreakerLocked = None, ed_label = None\<rparr>"

definition tokenEdges :: "browser \<Rightarrow> TopologySnapshot \<Rightarrow> GraphEdge list" where
  "tokenEdges b s =
     concat (map (\<lambda>token. map (tokenEdge b s token) (filter (canAccessRoute token) (sortedRoutes b s)))
       (sortedTokens b s))"

definition tenantEdge :: "browser \<Rightarrow> TopologySnapshot \<Rightarrow> RouteSummary \<Rightarrow> GraphEdge option" where
  "tenantEdge b s route =
     (case js_find (\<lambda>t. tn_tenantID t = ro_tenantID route) (sortedTenants b s) of
        None \<Rightarrow> None
      | Some tenant \<Rightarrow>
          (let routeHasErrors = 0 < errorsOf b s (ro_id route); summary = routeSummary s (ro_id route) in
           Some \<lparr>ed_id = ''edge:'' @ ro_id route @ '':'' @ tn_id tenant,
                 ed_from = ''route:'' @ ro_id route, ed_to = ''tenant:'' @ tn_id tenant, ed_kind = Binding,
                 ed_hot = (''route:'' @ ro_slug route @ '':'' @ ro_tenantID route \<in> hotRouteKeys b s),
                 ed_error = routeHasErrors, ed_reachable = None, ed_revoked = None,
                 ed_latencyMs = Some (latencyOf b s (ro_id route)),
                 ed_circuitBreakerState = Option.bind summary ro_circuitBreakerState,
                 ed_circuitBreakerLocked = Option.bind summary ro_circuitBreakerLocked, ed_label = None\<rparr>))"

definition tenantEdges :: "browser \<Rightarrow> TopologySnapshot \<Rightarrow> GraphEdge list" where
  "tenantEdges b s = List.map_filter (tenantEdge b s) (sortedRoutes b s)"

definition upstreamEdge :: "browser \<Rightarrow> TopologySnapshot \<Rightarrow> UpstreamEntry \<Rightarrow> GraphEdge" where
  "upstreamEdge b s entry =
     \<lparr>ed_id = ''edge:'' @ ue_fromNodeId entry @ '':'' @ ue_nodeId entry,
      ed_from = ue_fromNodeId entry, ed_to = ue_nodeId entry, ed_kind = Upstream,
      ed_hot = (ue_routeSlug entry @ ''::'' @ urlOrigin b (ue_upstreamURL entry) \<in> hotUpstreamKeys b s),
      ed_error = ue_isDown entry, ed_reachable = Some (ue_isReachable entry), ed_revoked = None,
      ed_latencyMs = None, ed_circuitBreakerState = None, ed_circuitBreakerLocked = None,
      ed_label = Some (ue_routeSlug entry)\<rparr>"

definition upstreamEdges :: "browser \<Rightarrow> TopologySnapshot \<Rightarrow> GraphEdge list" where
  "upstreamEdges b s = map (upstreamEdge b s) (upstreamEntries b s)"

text \<open>\<open>[...graph.tokenEdges, ...graph.tenantEdges, ...graph.upstreamEdges]\<close> and the two lookups.\<close>

definition snapshotEdges :: "browser \<Rightarrow> TopologySnapshot \<Rightarrow> GraphEdge list" where
  "snapshotEdges b s = tokenEdges b s @ tenantEdges b s @ upstreamEdges b s"

definition tenantNodeByTenantID :: "browser \<Rightarrow> TopologySnapshot \<Rightarrow> string \<Rightarrow> GraphNode option" where
  "tenantNodeByTenantID b s = js_map (map_index (\<lambda>t i. (tn_tenantID t, tenantNodes b s ! i)) (sortedTenants b s))"

definition routeNodeByRouteID :: "browser \<Rightarrow> TopologySnapshot \<Rightarrow> string \<Rightarrow> GraphNode option" where
  "routeNodeByRouteID b s = js_map (map_index (\<lambda>r i. (ro_id r, routeNodes b s ! i)) (sortedRoutes b s))"

end
