(* ===== verification/TopologyLaws.thy ===== *)
theory TopologyLaws
  imports TopologyGraph
begin

text \<open>
  What the topology graph guarantees: every edge ends at nodes of the graph, identifiers are
  unique when the snapshot's are, rows stay inside the scene, the binding edges of routes and
  tenants do not cross, marks for traffic and errors come from recent requests, and the shares of
  a load-balancing pool add up to about one hundred percent.
\<close>

section \<open>Rows\<close>

lemma scene_height: "980 \<le> graphSceneHeight s"
  by (simp add: graphSceneHeight_def)

lemma length_laneRows: "length (laneRows n a s) = max n 1"
  by (simp add: laneRows_def length_distributePositions)

lemma laneRows_bounds:
  assumes "a \<le> 800" "y \<in> set (laneRows n a s)"
  shows "a \<le> y \<and> y \<le> graphSceneHeight s - 180"
  using assms scene_height [of s] by (intro distributePositions_bounds) (auto simp: laneRows_def)

lemma laneRows_mono: "i < j \<Longrightarrow> j < n \<Longrightarrow> a < 800 \<Longrightarrow> laneRows n a s ! i < laneRows n a s ! j"
  using scene_height [of s] by (auto simp: laneRows_def intro!: distributePositions_mono)

lemma laneRows_less_iff:
  assumes "i < n" "j < n" "a < 800"
  shows "laneRows n a s ! i < laneRows n a s ! j \<longleftrightarrow> i < j"
  using laneRows_mono [of i j n a s] laneRows_mono [of j i n a s] assms by (cases i j rule: linorder_cases) auto

lemma array_or_laneRows:
  assumes "i < n" "a \<le> 800"
  shows "a \<le> array_or (laneRows n a s) i d \<and> array_or (laneRows n a s) i d \<le> graphSceneHeight s - 180"
  using assms laneRows_bounds [of a "laneRows n a s ! i" n s] by (simp add: length_laneRows)

lemmas row_arrays = tenantYArr_def routeYArr_def tokenYArr_def upstreamYArr_def

lemma length_sorted [simp]:
  "length (sortedTenants b s) = length (ts_tenants s)" "length (sortedRoutes b s) = length (ts_routes s)"
  "length (sortedTokens b s) = length (ts_tokens s)"
  by (simp_all add: sortedTenants_def sortedRoutes_def sortedTokens_def)

lemma set_sorted [simp]:
  "set (sortedTenants b s) = set (ts_tenants s)" "set (sortedRoutes b s) = set (ts_routes s)"
  "set (sortedTokens b s) = set (ts_tokens s)"
  by (simp_all add: sortedTenants_def sortedRoutes_def sortedTokens_def)

lemma distinct_sorted [simp]:
  "distinct (map f (sortedTenants b s)) = distinct (map f (ts_tenants s))"
  "distinct (map g (sortedRoutes b s)) = distinct (map g (ts_routes s))"
  "distinct (map h (sortedTokens b s)) = distinct (map h (ts_tokens s))"
  by (simp_all add: sortedTenants_def sortedRoutes_def sortedTokens_def js_sort_distinct_map)

section \<open>Identifiers of the nodes\<close>

named_theorems node_ids \<open>identifiers of the lanes\<close>

lemma token_node_ids [node_ids]: "map nd_id (tokenNodes b s) = map (\<lambda>t. ''token:'' @ tk_id t) (sortedTokens b s)"
  unfolding tokenNodes_def by (rule map_map_index_const) (simp add: tokenNode_def)

lemma route_node_ids [node_ids]: "map nd_id (routeNodes b s) = map (\<lambda>r. ''route:'' @ ro_id r) (sortedRoutes b s)"
  unfolding routeNodes_def by (rule map_map_index_const) (simp add: routeNode_def Let_def)

lemma tenant_node_ids [node_ids]: "map nd_id (tenantNodes b s) = map (\<lambda>t. ''tenant:'' @ tn_id t) (sortedTenants b s)"
  unfolding tenantNodes_def by (rule map_map_index_const) (simp add: tenantNode_def)

lemma upstream_node_ids [node_ids]: "map nd_id (upstreamNodes b s) = map ue_nodeId (upstreamEntries b s)"
  unfolding upstreamNodes_def by (rule map_map_index_const) (simp add: upstreamNode_def)

lemma all_node_ids:
  "set (map nd_id (allNodes b s)) =
     (\<lambda>t. ''token:'' @ tk_id t) ` set (ts_tokens s) \<union> (\<lambda>r. ''route:'' @ ro_id r) ` set (ts_routes s)
     \<union> (\<lambda>t. ''tenant:'' @ tn_id t) ` set (ts_tenants s) \<union> ue_nodeId ` set (upstreamEntries b s)"
  by (simp only: allNodes_def map_append set_append node_ids) (simp add: Un_assoc)

text \<open>The grouping loop collects for each route the upstream entries that name it, in order.\<close>

lemma fold_addToPool:
  "fold addToPool us m r =
     (let mine = filter (\<lambda>u. ru_routeID u = r) us in
      if mine = [] then m r else Some (nullish (m r) [] @ mine))"
  by (induction us arbitrary: m) (auto simp: addToPool_def Let_def)

lemma lbByRoute_filter:
  "lbByRoute s r =
     (let mine = filter (\<lambda>u. ru_routeID u = r) (nullish (ts_routeUpstreams s) []) in
      if mine = [] then None else Some mine)"
  by (simp add: lbByRoute_def fold_addToPool Let_def)

lemma upstreamEntry_sel [simp]:
  "ue_nodeId (upstreamEntry b s r k u w) = ''upstream:'' @ k"
  "ue_fromNodeId (upstreamEntry b s r k u w) = fromNodeId b s r"
  "ue_routeSlug (upstreamEntry b s r k u w) = ro_slug r"
  "ue_upstreamURL (upstreamEntry b s r k u w) = u"
  by (simp_all add: upstreamEntry_def Let_def split: prod.splits)

lemma upstreamEntry_down:
  "ue_isDown (upstreamEntry b s r k u w) \<longleftrightarrow>
     breakerOpen (cbStateOf s (ro_id r)) \<or> healthIndex s (ro_id r @ ''::'' @ u) = Some ''down''"
  "ue_isReachable (upstreamEntry b s r k u w) \<longleftrightarrow> \<not> ue_isDown (upstreamEntry b s r k u w)"
  by (simp_all add: upstreamEntry_def upstreamTone_def Let_def)

definition poolOf :: "TopologySnapshot \<Rightarrow> RouteSummary \<Rightarrow> RouteUpstreamEntry list" where
  "poolOf s r = filter (\<lambda>u. ru_routeID u = ro_id r) (nullish (ts_routeUpstreams s) [])"

lemma routeUpstreamEntries_alt:
  "routeUpstreamEntries b s r =
     (if ro_upstreamURL r = [] then []
      else if poolOf s r = [] then [upstreamEntry b s r (ro_id r) (ro_upstreamURL r) None]
      else map (\<lambda>m. upstreamEntry b s r (ru_id m) (ru_upstreamURL m) (Some (weightLabelOf (poolOf s r) m)))
             (poolOf s r))"
  by (auto simp: routeUpstreamEntries_def lbByRoute_filter poolOf_def Let_def split: option.splits list.splits)

text \<open>What an upstream entry of the graph is.\<close>

lemma upstreamEntriesE:
  assumes "e \<in> set (upstreamEntries b s)"
  obtains r k u w where "r \<in> set (ts_routes s)" "ro_upstreamURL r \<noteq> []" "e = upstreamEntry b s r k u w"
    "(k = ro_id r \<and> u = ro_upstreamURL r) \<or> (\<exists>m \<in> set (poolOf s r). k = ru_id m \<and> u = ru_upstreamURL m)"
proof -
  from assms obtain r where r: "r \<in> set (ts_routes s)" "e \<in> set (routeUpstreamEntries b s r)"
    by (auto simp: upstreamEntries_def)
  then have url: "ro_upstreamURL r \<noteq> []" by (auto simp: routeUpstreamEntries_alt)
  show ?thesis
  proof (cases "poolOf s r = []")
    case True
    with r url have "e = upstreamEntry b s r (ro_id r) (ro_upstreamURL r) None"
      by (simp add: routeUpstreamEntries_alt)
    with r(1) url show ?thesis by (intro that) auto
  next
    case False
    with r url obtain m where "m \<in> set (poolOf s r)"
      "e = upstreamEntry b s r (ru_id m) (ru_upstreamURL m) (Some (weightLabelOf (poolOf s r) m))"
      by (auto simp: routeUpstreamEntries_alt)
    with r(1) url show ?thesis by (intro that) auto
  qed
qed

section \<open>Where edges end\<close>

lemma fromNodeId_in:
  assumes "r \<in> set (ts_routes s)"
  shows "fromNodeId b s r \<in> set (map nd_id (allNodes b s))"
proof (cases "js_find (\<lambda>t. tn_tenantID t = ro_tenantID r) (sortedTenants b s)")
  case None
  with assms show ?thesis by (auto simp: fromNodeId_def all_node_ids simp del: set_map)
next
  case (Some t)
  then have "t \<in> set (ts_tenants s)" using js_find_Some by fastforce
  with Some show ?thesis by (auto simp: fromNodeId_def all_node_ids simp del: set_map)
qed

lemma tokenEdgesE:
  assumes "e \<in> set (tokenEdges b s)"
  obtains token route where "token \<in> set (ts_tokens s)" "route \<in> set (ts_routes s)"
    "canAccessRoute token route" "e = tokenEdge b s token route"
  using assms by (auto simp: tokenEdges_def)

lemma tenantEdgesE:
  assumes "e \<in> set (tenantEdges b s)"
  obtains route tenant where "route \<in> set (ts_routes s)" "tenant \<in> set (ts_tenants s)"
    "js_find (\<lambda>t. tn_tenantID t = ro_tenantID route) (sortedTenants b s) = Some tenant"
    "tn_tenantID tenant = ro_tenantID route" "tenantEdge b s route = Some e"
    "ed_from e = ''route:'' @ ro_id route" "ed_to e = ''tenant:'' @ tn_id tenant"
proof -
  from assms obtain route where r: "route \<in> set (ts_routes s)" "tenantEdge b s route = Some e"
    by (auto simp: tenantEdges_def List.map_filter_def)
  then obtain tenant where "js_find (\<lambda>t. tn_tenantID t = ro_tenantID route) (sortedTenants b s) = Some tenant"
    by (auto simp: tenantEdge_def split: option.splits)
  moreover from js_find_Some [OF this] have "tenant \<in> set (ts_tenants s)" "tn_tenantID tenant = ro_tenantID route"
    by simp_all
  ultimately show ?thesis using r that by (auto simp: tenantEdge_def Let_def)
qed

lemma snapshot_edge_ends:
  assumes "e \<in> set (snapshotEdges b s)"
  shows "ed_from e \<in> set (map nd_id (allNodes b s)) \<and> ed_to e \<in> set (map nd_id (allNodes b s))"
proof -
  from assms consider "e \<in> set (tokenEdges b s)" | "e \<in> set (tenantEdges b s)" | "e \<in> set (upstreamEdges b s)"
    by (auto simp: snapshotEdges_def)
  then show ?thesis
  proof cases
    case 1
    then show ?thesis by (rule tokenEdgesE) (auto simp: all_node_ids tokenEdge_def simp del: set_map)
  next
    case 2
    then show ?thesis by (rule tenantEdgesE) (auto simp: all_node_ids simp del: set_map)
  next
    case 3
    then obtain u where u: "u \<in> set (upstreamEntries b s)" "e = upstreamEdge b s u"
      by (auto simp: upstreamEdges_def)
    moreover from u(1) obtain r where "r \<in> set (ts_routes s)" "ue_fromNodeId u = fromNodeId b s r"
      by (rule upstreamEntriesE) simp
    ultimately show ?thesis using fromNodeId_in [of r s b]
      by (simp add: all_node_ids upstreamEdge_def del: set_map)
  qed
qed

section \<open>Unique identifiers\<close>

text \<open>
  The identifiers of a snapshot are database keys: unique within tokens, routes and tenants, and
  across routes and their pool members.
\<close>

definition well_keyed :: "TopologySnapshot \<Rightarrow> bool" where
  "well_keyed s \<longleftrightarrow>
     distinct (map tk_id (ts_tokens s)) \<and> distinct (map tn_id (ts_tenants s))
     \<and> distinct (map ro_id (ts_routes s) @ map ru_id (nullish (ts_routeUpstreams s) []))"

definition nodeKeys :: "TopologySnapshot \<Rightarrow> RouteSummary \<Rightarrow> string list" where
  "nodeKeys s r =
     (if ro_upstreamURL r = [] then []
      else if poolOf s r = [] then [ro_id r] else map ru_id (poolOf s r))"

lemma upstream_ids_keys:
  "map ue_nodeId (upstreamEntries b s) = map ((@) ''upstream:'') (concat (map (nodeKeys s) (sortedRoutes b s)))"
  by (auto simp: upstreamEntries_def map_concat comp_def routeUpstreamEntries_alt nodeKeys_def
      intro!: arg_cong [where f = concat])

lemma nodeKeysE:
  assumes "k \<in> set (nodeKeys s r)"
  obtains "k = ro_id r" | u where "u \<in> set (nullish (ts_routeUpstreams s) [])" "ru_routeID u = ro_id r" "k = ru_id u"
  using assms by (auto simp: nodeKeys_def poolOf_def split: if_splits)

lemma nodeKeys_disjoint:
  assumes "distinct (map ru_id us)" "us = nullish (ts_routeUpstreams s) []"
    and "ro_id r \<noteq> ro_id x" "ro_id r \<notin> ru_id ` set us" "ro_id x \<notin> ru_id ` set us"
    and "k \<in> set (nodeKeys s r)" "k \<in> set (nodeKeys s x)"
  shows False
  using assms(6)
proof (cases rule: nodeKeysE)
  case 1
  from assms(7) show ?thesis by (rule nodeKeysE) (use 1 assms in \<open>simp, metis imageI\<close>)
next
  case (2 u)
  from assms(7) show ?thesis
  proof (cases rule: nodeKeysE)
    case 1
    with 2 assms(2,5) show ?thesis by auto
  next
    case (2 v)
    with \<open>u \<in> _\<close> \<open>k = ru_id u\<close> assms(1,2) have "u = v" by (auto simp: distinct_map inj_on_def)
    with 2 \<open>ru_routeID u = _\<close> assms(3) show ?thesis by simp
  qed
qed

lemma distinct_nodeKeys: "distinct (map ru_id (nullish (ts_routeUpstreams s) [])) \<Longrightarrow> distinct (nodeKeys s r)"
  by (simp add: nodeKeys_def poolOf_def distinct_map_filter)

lemma distinct_concat_keys:
  assumes "distinct (map ru_id us)" "us = nullish (ts_routeUpstreams s) []"
  shows "distinct (map ro_id rs) \<Longrightarrow> ro_id ` set rs \<inter> ru_id ` set us = {} \<Longrightarrow>
         distinct (concat (map (nodeKeys s) rs))"
proof (induction rs)
  case (Cons r rs)
  have "set (nodeKeys s r) \<inter> set (nodeKeys s x) = {}" if "x \<in> set rs" for x
  proof -
    have "ro_id r \<noteq> ro_id x" using Cons.prems(1) that by auto
    moreover have "ro_id r \<notin> ru_id ` set us" "ro_id x \<notin> ru_id ` set us" using Cons.prems(2) that by auto
    ultimately show ?thesis using nodeKeys_disjoint [OF assms] by blast
  qed
  then have "set (nodeKeys s r) \<inter> set (concat (map (nodeKeys s) rs)) = {}" by fastforce
  moreover have "distinct (nodeKeys s r)" using assms by (simp add: distinct_nodeKeys)
  moreover have "distinct (concat (map (nodeKeys s) rs))" using Cons by auto
  ultimately show ?case by simp
qed simp

lemma distinct_prefix: "distinct (map (\<lambda>x. p @ f x) xs) = distinct (map f xs)"
  by (induction xs) auto

lemma distinct_upstream_ids:
  assumes "well_keyed s"
  shows "distinct (map ue_nodeId (upstreamEntries b s))"
proof -
  have "distinct (concat (map (nodeKeys s) (sortedRoutes b s)))"
    using assms unfolding well_keyed_def
    by (intro distinct_concat_keys [OF _ refl]) auto
  then show ?thesis by (simp add: upstream_ids_keys distinct_map inj_on_def)
qed

lemma upstream_id_shape: "x \<in> ue_nodeId ` set (upstreamEntries b s) \<Longrightarrow> \<exists>k. x = ''upstream:'' @ k"
  by (auto elim!: upstreamEntriesE)

lemma distinct_four:
  assumes "distinct as" "distinct bs" "distinct cs" "distinct ds"
    and "set as \<subseteq> A" "set bs \<subseteq> B" "set cs \<subseteq> C" "set ds \<subseteq> D"
    and "A \<inter> B = {}" "A \<inter> C = {}" "A \<inter> D = {}" "B \<inter> C = {}" "B \<inter> D = {}" "C \<inter> D = {}"
  shows "distinct (as @ bs @ cs @ ds)"
  using assms by auto

lemma distinct_node_ids:
  assumes "well_keyed s"
  shows "distinct (map nd_id (allNodes b s))"
proof -
  have parts: "distinct (map nd_id (tokenNodes b s))" "distinct (map nd_id (routeNodes b s))"
    "distinct (map nd_id (tenantNodes b s))" "distinct (map nd_id (upstreamNodes b s))"
    unfolding node_ids distinct_prefix distinct_sorted
    using assms distinct_upstream_ids [OF assms] by (simp_all add: well_keyed_def)
  have sets: "set (map nd_id (tokenNodes b s)) \<subseteq> range ((@) ''token:'')"
    "set (map nd_id (routeNodes b s)) \<subseteq> range ((@) ''route:'')"
    "set (map nd_id (tenantNodes b s)) \<subseteq> range ((@) ''tenant:'')"
    "set (map nd_id (upstreamNodes b s)) \<subseteq> range ((@) ''upstream:'')"
    unfolding node_ids using upstream_id_shape by (force, force, force, force)
  show ?thesis
    unfolding allNodes_def map_append
    by (rule distinct_four [OF parts sets]) auto
qed

text \<open>The row of a node, looked up by its identifier the way the drawing code does.\<close>

definition nodeAt :: "browser \<Rightarrow> TopologySnapshot \<Rightarrow> string \<Rightarrow> GraphNode option" where
  "nodeAt b s i = js_find (\<lambda>n. nd_id n = i) (allNodes b s)"

lemma js_find_unique:
  assumes "distinct (map f xs)" "x \<in> set xs"
  shows "js_find (\<lambda>y. f y = f x) xs = Some x"
proof -
  obtain y where "js_find (\<lambda>y. f y = f x) xs = Some y"
    using assms(2) js_find_None [of "\<lambda>y. f y = f x" xs] by auto
  moreover from js_find_Some [OF this] assms have "y = x" by (auto simp: distinct_map inj_on_def)
  ultimately show ?thesis by simp
qed

lemma nodeAt_route:
  assumes "well_keyed s" "i < length (ts_routes s)" "sortedRoutes b s ! i = r"
  shows "nodeAt b s (''route:'' @ ro_id r) = Some (routeNode b s r i)"
proof -
  have "routeNode b s r i \<in> set (allNodes b s)"
    using assms(2,3) by (auto simp: allNodes_def routeNodes_def set_map_index)
  from js_find_unique [OF distinct_node_ids [OF assms(1)] this]
  show ?thesis by (simp add: nodeAt_def routeNode_def Let_def)
qed

lemma nodeAt_tenant:
  assumes "well_keyed s" "i < length (ts_tenants s)" "sortedTenants b s ! i = t"
  shows "nodeAt b s (''tenant:'' @ tn_id t) = Some (tenantNode s t i)"
proof -
  have "tenantNode s t i \<in> set (allNodes b s)"
    using assms(2,3) by (auto simp: allNodes_def tenantNodes_def set_map_index)
  from js_find_unique [OF distinct_node_ids [OF assms(1)] this]
  show ?thesis by (simp add: nodeAt_def tenantNode_def)
qed

section \<open>The order of routes follows the order of tenants\<close>

lemma tenantY_lookup:
  assumes "distinct (map tn_tenantID (ts_tenants s))" "i < length (ts_tenants s)"
  shows "tenantYByTenantID b s (tn_tenantID (sortedTenants b s ! i)) = Some (tenantYArr s ! i)"
proof -
  let ?ps = "map_index (\<lambda>t i. (tn_tenantID t, array_or (tenantYArr s) i (graphSceneHeight s / 2))) (sortedTenants b s)"
  have "map fst ?ps = map tn_tenantID (sortedTenants b s)" by (rule map_map_index_const) simp
  then have "distinct (map fst ?ps)" using assms(1) by simp
  moreover have "i < length (tenantYArr s)" using assms(2) by (simp add: tenantYArr_def length_laneRows)
  then have "(tn_tenantID (sortedTenants b s ! i), tenantYArr s ! i) \<in> set ?ps"
    using assms(2) by (force simp: set_map_index)
  ultimately show ?thesis unfolding tenantYByTenantID_def by (rule js_map_unique)
qed

lemma routeOrder_comparator: "comparator (br_localeCompare b) \<Longrightarrow> comparator (routeOrder b s)"
  unfolding routeOrder_def Let_def
  by (rule comparator_by_key [OF comparator_on [where c = "br_localeCompare b" and f = ro_slug]])

lemma sortedRoutes_order:
  assumes "comparator (br_localeCompare b)" "i < j" "j < length (ts_routes s)"
  shows "routeOrder b s (sortedRoutes b s ! i) (sortedRoutes b s ! j) \<le> 0"
proof -
  have "sorted_wrt (\<lambda>x y. routeOrder b s x y \<le> 0) (sortedRoutes b s)"
    unfolding sortedRoutes_def by (rule comparator.sorted_js_sort [OF routeOrder_comparator [OF assms(1)]])
  then show ?thesis by (rule sorted_wrt_nth_less) (use assms(2,3) in simp_all)
qed

lemma routeOrder_le:
  "routeOrder b s x y \<le> 0 \<Longrightarrow>
   nullish (tenantYByTenantID b s (ro_tenantID x)) 0 \<le> nullish (tenantYByTenantID b s (ro_tenantID y)) 0"
  by (auto simp: routeOrder_def Let_def split: if_splits)

lemma nth_of_set: "x \<in> set xs \<Longrightarrow> length xs = n \<Longrightarrow> \<exists>i < n. xs ! i = x"
  by (metis in_set_conv_nth)

lemma routeNode_row:
  "i < length (ts_routes s) \<Longrightarrow> nd_y (routeNode b s r i) = laneRows (length (ts_routes s)) 180 s ! i"
  by (simp add: routeNode_def Let_def routeYArr_def length_laneRows)

lemma tenantNode_row:
  "i < length (ts_tenants s) \<Longrightarrow> nd_y (tenantNode s t i) = tenantYArr s ! i"
  by (simp add: tenantNode_def tenantYArr_def length_laneRows)

text \<open>A binding edge by the rows of its two ends.\<close>

lemma tenantEdge_rows:
  assumes "well_keyed s" "distinct (map tn_tenantID (ts_tenants s))" "e \<in> set (tenantEdges b s)"
  obtains i k where "i < length (ts_routes s)" "k < length (ts_tenants s)"
    "nodeAt b s (ed_from e) = Some (routeNode b s (sortedRoutes b s ! i) i)"
    "nodeAt b s (ed_to e) = Some (tenantNode s (sortedTenants b s ! k) k)"
    "tenantYByTenantID b s (ro_tenantID (sortedRoutes b s ! i)) = Some (tenantYArr s ! k)"
  using assms(3)
proof (rule tenantEdgesE)
  fix route tenant
  assume r: "route \<in> set (ts_routes s)" and t: "tenant \<in> set (ts_tenants s)"
    and same: "tn_tenantID tenant = ro_tenantID route"
    and ends: "ed_from e = ''route:'' @ ro_id route" "ed_to e = ''tenant:'' @ tn_id tenant"
  from r obtain i where i: "i < length (ts_routes s)" "sortedRoutes b s ! i = route"
    using nth_of_set [of route "sortedRoutes b s"] by auto
  from t obtain k where k: "k < length (ts_tenants s)" "sortedTenants b s ! k = tenant"
    using nth_of_set [of tenant "sortedTenants b s"] by auto
  show thesis
    using that [OF i(1) k(1)] nodeAt_route [OF assms(1) i] nodeAt_tenant [OF assms(1) k]
      tenantY_lookup [OF assms(2) k(1), of b] i(2) k(2) same ends by simp
qed

section \<open>Properties of the graph\<close>

text \<open>Every edge of the graph starts and ends at a node of the graph, and with unique keys in the
  snapshot the node the drawing code finds for an end is the only one with that identifier.\<close>

theorem edges_connect_nodes:
  assumes "well_keyed s" and "e \<in> set (snapshotEdges b s)"
  shows "distinct (map nd_id (allNodes b s))
     \<and> (\<exists>n \<in> set (allNodes b s). nd_id n = ed_from e \<and> nodeAt b s (ed_from e) = Some n)
     \<and> (\<exists>n \<in> set (allNodes b s). nd_id n = ed_to e \<and> nodeAt b s (ed_to e) = Some n)"
proof -
  have d: "distinct (map nd_id (allNodes b s))" using assms(1) by (rule distinct_node_ids)
  have "\<exists>n \<in> set (allNodes b s). nd_id n = i \<and> nodeAt b s i = Some n" if "i \<in> set (map nd_id (allNodes b s))" for i
    using js_find_unique [OF d] that by (auto simp: nodeAt_def)
  with d snapshot_edge_ends [OF assms(2)] show ?thesis by blast
qed

text \<open>C14: The edges that bind routes to their tenants never cross each other: of two such edges the one
  that starts higher does not end lower.\<close>

theorem binding_edges_do_not_cross:
  assumes "comparator (br_localeCompare b)" and "well_keyed s"
    and "distinct (map tn_tenantID (ts_tenants s))"
    and "e1 \<in> set (tenantEdges b s)" and "e2 \<in> set (tenantEdges b s)"
    and "nodeAt b s (ed_from e1) = Some r1" and "nodeAt b s (ed_from e2) = Some r2"
    and "nodeAt b s (ed_to e1) = Some t1" and "nodeAt b s (ed_to e2) = Some t2"
    and "nd_y r1 < nd_y r2"
  shows "nd_y t1 \<le> nd_y t2"
proof -
  obtain i k where i: "i < length (ts_routes s)" "k < length (ts_tenants s)"
      "r1 = routeNode b s (sortedRoutes b s ! i) i" "t1 = tenantNode s (sortedTenants b s ! k) k"
      "tenantYByTenantID b s (ro_tenantID (sortedRoutes b s ! i)) = Some (tenantYArr s ! k)"
    by (rule tenantEdge_rows [OF assms(2,3,4)]) (use assms(6,8) in auto)
  obtain j l where j: "j < length (ts_routes s)" "l < length (ts_tenants s)"
      "r2 = routeNode b s (sortedRoutes b s ! j) j" "t2 = tenantNode s (sortedTenants b s ! l) l"
      "tenantYByTenantID b s (ro_tenantID (sortedRoutes b s ! j)) = Some (tenantYArr s ! l)"
    by (rule tenantEdge_rows [OF assms(2,3,5)]) (use assms(7,9) in auto)
  have "i < j" using assms(10) i(1,3) j(1,3) by (simp add: routeNode_row laneRows_less_iff)
  from routeOrder_le [OF sortedRoutes_order [OF assms(1) this j(1)]]
  show ?thesis using i j by (simp add: tenantNode_row)
qed

lemma lane_in_scene:
  assumes "n \<in> set (map_index f xs)" "180 \<le> a" "a \<le> 800"
    and "\<And>x i. nd_x (f x i) = l \<and> nd_y (f x i) = array_or (laneRows (length xs) a s) i d"
  shows "nd_x n = l \<and> 180 \<le> nd_y n \<and> nd_y n \<le> graphSceneHeight s - 180"
proof -
  from assms(1) obtain i where i: "i < length xs" "n = f (xs ! i) i" by (auto simp: set_map_index)
  with array_or_laneRows [of i "length xs" a s d] assms(2-4) show ?thesis by simp
qed

lemma lane_places:
  "n \<in> set (tokenNodes b s) \<Longrightarrow> nd_x n = 240 \<and> 180 \<le> nd_y n \<and> nd_y n \<le> graphSceneHeight s - 180"
  "n \<in> set (routeNodes b s) \<Longrightarrow> nd_x n = 920 \<and> 180 \<le> nd_y n \<and> nd_y n \<le> graphSceneHeight s - 180"
  "n \<in> set (tenantNodes b s) \<Longrightarrow> nd_x n = 1600 \<and> 180 \<le> nd_y n \<and> nd_y n \<le> graphSceneHeight s - 180"
  "n \<in> set (upstreamNodes b s) \<Longrightarrow> nd_x n = 2120 \<and> 180 \<le> nd_y n \<and> nd_y n \<le> graphSceneHeight s - 180"
  unfolding tokenNodes_def routeNodes_def tenantNodes_def upstreamNodes_def
  by (erule lane_in_scene [where a = 220] lane_in_scene [where a = 180];
      simp add: tokenNode_def routeNode_def tenantNode_def upstreamNode_def Let_def lane_defs row_arrays; fail)+

text \<open>Every node lies in its lane and inside the scene, whose height grows with the longest lane.\<close>

theorem nodes_lie_inside_the_scene:
  assumes "n \<in> set (allNodes b s)"
  shows "180 \<le> nd_y n \<and> nd_y n \<le> graphSceneHeight s - 180
     \<and> nd_x n \<in> {240, 920, 1600, 2120} \<and> nd_x n < SCENE_WIDTH \<and> 980 \<le> graphSceneHeight s"
  using assms lane_places scene_height by (auto simp: allNodes_def SCENE_WIDTH_def)

section \<open>Traffic, errors and health\<close>

text \<open>A key of parts joined with a separator determines its parts when the first has no separator.\<close>

lemma key_parts: "c \<notin> set a \<Longrightarrow> c \<notin> set a' \<Longrightarrow> a @ c # x = a' @ c # x' \<longleftrightarrow> a = a' \<and> x = x'"
proof (induction a arbitrary: a')
  case Nil
  then show ?case by (cases a') auto
next
  case (Cons d a)
  then show ?case by (cases a') auto
qed

lemma in_hotTokenKeys:
  assumes "CHR '':'' \<notin> set tid" "\<forall>e \<in> set (ts_auditEvents s). CHR '':'' \<notin> set (ae_tokenID e)"
  shows "''token:'' @ tid @ '':'' @ slug \<in> hotTokenKeys b s \<longleftrightarrow>
     (\<exists>e \<in> set (recentAudits s). isActiveAudit b e \<and> ae_tokenID e = tid \<and> ae_routeSlug e = slug)"
proof -
  have "CHR '':'' \<notin> set (ae_tokenID e)" if "e \<in> set (recentAudits s)" for e
    using that assms(2) by (auto simp: recentAudits_def dest: in_set_takeD)
  then show ?thesis
    using assms(1) by (auto simp: hotTokenKeys_def activeAudits_def image_iff key_parts)
qed

lemma in_hotUpstreamKeys:
  assumes "CHR '':'' \<notin> set slug" "\<forall>e \<in> set (ts_auditEvents s). CHR '':'' \<notin> set (ae_routeSlug e)"
  shows "slug @ ''::'' @ o' \<in> hotUpstreamKeys b s \<longleftrightarrow>
     (\<exists>e \<in> set (recentAudits s). isActiveAudit b e \<and> wasForwarded e \<and> ae_routeSlug e = slug
        \<and> urlOrigin b (ae_upstreamURL e) = o')"
proof -
  have "CHR '':'' \<notin> set (ae_routeSlug e)" if "e \<in> set (recentAudits s)" for e
    using that assms(2) by (auto simp: recentAudits_def dest: in_set_takeD)
  then show ?thesis
    using assms(1) by (auto simp: hotUpstreamKeys_def activeAudits_def image_iff key_parts)
qed

text \<open>The edge of a token to a route is animated exactly when the credential is active and one of
  the 18 latest requests, less than 30 seconds old, used this token on this route; an inactive
  credential's edge is marked revoked and shows neither traffic nor errors.\<close>

theorem access_edges_animate_on_live_traffic:
  assumes "CHR '':'' \<notin> set (tk_id token)"
    and "\<forall>e \<in> set (ts_auditEvents s). CHR '':'' \<notin> set (ae_tokenID e)"
  shows "(ed_hot (tokenEdge b s token route) \<longleftrightarrow> tk_active token
       \<and> (\<exists>e \<in> set (take 18 (ts_auditEvents s)). ae_tokenID e = tk_id token \<and> ae_routeSlug e = ro_slug route
            \<and> (\<exists>t. br_getTime b (ae_timestamp e) = Some t \<and> br_now b - t < 30000)))
     \<and> ed_revoked (tokenEdge b s token route) = Some (\<not> tk_active token)
     \<and> (\<not> tk_active token \<longrightarrow> \<not> ed_error (tokenEdge b s token route))"
  using in_hotTokenKeys [OF assms, of "ro_slug route" b]
  by (auto simp: tokenEdge_def isActiveAudit_def ACTIVE_THRESHOLD_MS_def recentAudits_def split: option.splits)

text \<open>The edge to an upstream is animated exactly when one of the recent requests for its route was
  really forwarded to that upstream's origin: requests the gateway itself answered (401, 403, 429,
  503) never animate it.\<close>

theorem upstream_edges_animate_on_forwarded_traffic:
  assumes "CHR '':'' \<notin> set (ue_routeSlug u)"
    and "\<forall>e \<in> set (ts_auditEvents s). CHR '':'' \<notin> set (ae_routeSlug e)"
  shows "ed_hot (upstreamEdge b s u) \<longleftrightarrow>
     (\<exists>e \<in> set (recentAudits s). isActiveAudit b e \<and> ae_routeSlug e = ue_routeSlug u
        \<and> ae_status e \<notin> {401, 403, 429, 503} \<and> ae_upstreamURL e \<noteq> []
        \<and> urlOrigin b (ae_upstreamURL e) = urlOrigin b (ue_upstreamURL u))"
  using in_hotUpstreamKeys [OF assms, of "urlOrigin b (ue_upstreamURL u)" b]
  by (auto simp: upstreamEdge_def wasForwarded_def)

lemma routeSummary_self:
  assumes "distinct (map ro_id (ts_routes s))" "r \<in> set (ts_routes s)"
  shows "routeSummary s (ro_id r) = Some r"
  unfolding routeSummary_def by (rule js_find_unique [OF assms])

text \<open>The edge to an upstream shows an error exactly when the route's circuit breaker is open or
  half open or the last health entry for the upstream says down; it is marked reachable exactly
  when it shows no error.\<close>

theorem upstream_edges_show_health:
  assumes "well_keyed s" and "r \<in> set (ts_routes s)" and "u \<in> set (routeUpstreamEntries b s r)"
  shows "(ed_error (upstreamEdge b s u) \<longleftrightarrow>
       ro_circuitBreakerState r \<in> {Some ''open'', Some ''half_open''}
       \<or> healthIndex s (ro_id r @ ''::'' @ ue_upstreamURL u) = Some ''down'')
     \<and> ed_reachable (upstreamEdge b s u) = Some (\<not> ed_error (upstreamEdge b s u))"
proof -
  obtain k url w where u: "u = upstreamEntry b s r k url w"
    using assms(3) by (auto simp: routeUpstreamEntries_alt split: if_splits)
  have "cbStateOf s (ro_id r) = ro_circuitBreakerState r"
    using routeSummary_self [of s r] assms(1,2) by (simp add: cbStateOf_def well_keyed_def)
  then show ?thesis by (simp add: u upstreamEdge_def upstreamEntry_down breakerOpen_def)
qed

section \<open>Load-balancing pools\<close>

text \<open>A route with pool members is drawn with exactly its members, in the order of the snapshot; a
  route without any is drawn with its primary upstream; a route without upstream is not connected.\<close>

theorem pools_are_drawn_completely:
  "map ue_upstreamURL (routeUpstreamEntries b s r) =
     (let mine = filter (\<lambda>u. ru_routeID u = ro_id r) (nullish (ts_routeUpstreams s) []) in
      if ro_upstreamURL r = [] then [] else if mine = [] then [ro_upstreamURL r] else map ru_upstreamURL mine)"
  by (simp add: routeUpstreamEntries_alt poolOf_def Let_def comp_def)

lemma totalWeight_sum:
  "totalWeight us = (if sum_list (map ru_weight us) = 0 then 1 else sum_list (map ru_weight us))"
proof -
  have "foldl (\<lambda>acc u. acc + ru_weight u) a us = a + sum_list (map ru_weight us)" for a
    by (induction us arbitrary: a) simp_all
  then show ?thesis by (simp add: totalWeight_def Let_def)
qed

lemma sum_round_close:
  "\<bar>of_int (sum_list (map (\<lambda>x. math_round (f x)) xs)) - sum_list (map f xs)\<bar> \<le> of_nat (length xs) / (2 :: rat)"
proof (induction xs)
  case (Cons x xs)
  with math_round_close [of "f x"] show ?case by (simp add: abs_if field_simps split: if_splits)
qed simp

lemma sum_shares:
  "(T :: int) \<noteq> 0 \<Longrightarrow>
   sum_list (map (\<lambda>u. of_int (ru_weight u) / of_int T * 100) us) =
     of_int (sum_list (map ru_weight us)) / of_int T * (100 :: rat)"
  by (induction us) (simp_all add: field_simps)

text \<open>The shares shown for a pool with non-negative weights, not all zero, are percentages, and
  rounding moves their sum away from one hundred by at most half a percent for each member.\<close>

theorem pool_shares_add_up:
  assumes "\<forall>u \<in> set us. 0 \<le> ru_weight u" and "\<exists>u \<in> set us. 0 < ru_weight u"
  shows "(\<forall>u \<in> set us. 0 \<le> weightPct us u \<and> weightPct us u \<le> 100)
     \<and> 2 * \<bar>sum_list (map (weightPct us) us) - 100\<bar> \<le> int (length us)"
proof -
  let ?T = "sum_list (map ru_weight us)"
  have le: "ru_weight u \<le> ?T" if "u \<in> set us" for u
    using member_le_sum_list [of "ru_weight u" "map ru_weight us"] that assms(1) by auto
  from assms(2) obtain v where "v \<in> set us" "0 < ru_weight v" by blast
  with le [of v] have T: "0 < ?T" by linarith
  then have total: "totalWeight us = ?T" by (simp add: totalWeight_sum)
  define share where "share u = (of_int (ru_weight u) / of_int ?T :: rat)" for u :: RouteUpstreamEntry
  have pct: "weightPct us = (\<lambda>u. math_round (share u * 100))"
    by (simp add: fun_eq_iff weightPct_def total share_def)
  have range: "0 \<le> share u \<and> share u \<le> 1" if "u \<in> set us" for u
    using le [OF that] T assms(1) that by (simp add: share_def divide_le_eq_1)
  have "0 \<le> weightPct us u \<and> weightPct us u \<le> 100" if "u \<in> set us" for u
  proof -
    from range [OF that] have "0 \<le> share u * 100" "share u * 100 \<le> 100" by simp_all
    from this [THEN math_round_mono] show ?thesis
      using math_round_of_int [of 0] math_round_of_int [of 100] by (simp add: pct)
  qed
  moreover have "sum_list (map (\<lambda>u. share u * 100) us) = 100"
    using sum_shares [of ?T us] T by (simp add: share_def)
  then have "\<bar>of_int (sum_list (map (weightPct us) us)) - 100\<bar> \<le> of_nat (length us) / (2 :: rat)"
    using sum_round_close [of "\<lambda>u. share u * 100" us] by (simp add: pct)
  then have "of_int (2 * \<bar>sum_list (map (weightPct us) us) - 100\<bar>) \<le> (of_int (int (length us)) :: rat)"
    by simp
  then have "2 * \<bar>sum_list (map (weightPct us) us) - 100\<bar> \<le> int (length us)"
    by (simp only: of_int_le_iff)
  ultimately show ?thesis by blast
qed

section \<open>Examples\<close>

definition exTenant :: "string \<Rightarrow> TenantSummary" where
  "exTenant k = \<lparr>tn_id = ''n'' @ k, tn_name = k, tn_tenantID = k, tn_authMode = ''header'',
     tn_headerName = ''X-Org'', tn_orgID = None\<rparr>"

definition exRoute :: "string \<Rightarrow> string \<Rightarrow> RouteSummary" where
  "exRoute k tenant = \<lparr>ro_id = ''r'' @ k, ro_slug = k, ro_targetPath = ''/'', ro_tenantID = tenant,
     ro_upstreamURL = ''http://up'', ro_healthCheckPath = None, ro_requiredScope = k, ro_methods = [''GET''],
     ro_rateLimitRPM = 0, ro_rateLimitBurst = 0, ro_allowCIDRs = [], ro_denyCIDRs = [],
     ro_circuitBreakerState = None, ro_circuitBreakerLocked = None\<rparr>"

definition exToken :: "string \<Rightarrow> string \<Rightarrow> string list \<Rightarrow> TokenSummary" where
  "exToken k tenant scopes = \<lparr>tk_id = ''t'' @ k, tk_name = k, tk_tenantID = tenant, tk_scopes = scopes,
     tk_expiresAt = [], tk_lastUsedAt = [], tk_createdAt = [], tk_preview = [], tk_active = True,
     tk_rateLimitRPM = 0, tk_rateLimitBurst = 0\<rparr>"

definition exAudit :: "string \<Rightarrow> string \<Rightarrow> int \<Rightarrow> AuditEvent" where
  "exAudit tokenID slug status = \<lparr>ae_id = ''e1'', ae_timestamp = ''now'', ae_routeSlug = slug,
     ae_tenantID = ''acme'', ae_tokenID = tokenID, ae_method = ''GET'', ae_status = status,
     ae_upstreamURL = ''http://up'', ae_latencyMs = 12, ae_requestPath = None\<rparr>"

definition exSnapshot ::
  "TenantSummary list \<Rightarrow> RouteSummary list \<Rightarrow> TokenSummary list \<Rightarrow> AuditEvent list \<Rightarrow> TopologySnapshot" where
  "exSnapshot ts rs ks es = \<lparr>ts_generatedAt = [],
     ts_runtime = \<lparr>rt_status = ''online'', rt_version = [], rt_storeKind = []\<rparr>,
     ts_stats = \<lparr>ov_tenants = 0, ov_routes = 0, ov_activeTokens = 0, ov_auditEvents24h = 0\<rparr>,
     ts_tenants = ts, ts_routes = rs, ts_tokens = ks, ts_auditEvents = es, ts_upstreamHealth = None,
     ts_routeUpstreams = None\<rparr>"

definition exBrowser :: browser where
  "exBrowser = \<lparr>br_now = 1000, br_getTime = (\<lambda>_. Some 0), br_host = (\<lambda>_. None), br_origin = (\<lambda>_. None),
     br_localeCompare = codeunit_compare\<rparr>"

text \<open>Two tenants, three routes, two tokens: token 1 may use routes a and c, token 2 route b.\<close>

definition exGraph :: TopologySnapshot where
  "exGraph = exSnapshot [exTenant ''acme'', exTenant ''beta'']
     [exRoute ''c'' ''acme'', exRoute ''a'' ''acme'', exRoute ''b'' ''acme'', exRoute ''d'' ''beta'']
     [exToken ''1'' ''acme'' [''a'', ''c''], exToken ''2'' ''acme'' [''b'']] [exAudit ''t1'' ''a'' 200]"

lemma exBrowser_compare: "comparator (br_localeCompare exBrowser)"
  by (simp add: exBrowser_def codeunit.comparator_axioms)

lemma exGraph_keyed: "well_keyed exGraph"
  by (simp add: well_keyed_def exGraph_def exSnapshot_def exTenant_def exRoute_def exToken_def)

lemma exGraph_tenants: "distinct (map tn_tenantID (ts_tenants exGraph))"
  by (simp add: exGraph_def exSnapshot_def exTenant_def)

lemma exGraph_rows:
  "map (\<lambda>i. map_option nd_y (nodeAt exBrowser exGraph i))
     [''token:t1'', ''token:t2'', ''route:ra'', ''route:rb'', ''route:rc'', ''route:rd'',
      ''tenant:nacme'', ''tenant:nbeta'']
   = [Some 220, Some 800, Some 180, Some (1160 / 3), Some (1780 / 3), Some 800, Some 220, Some 800]"
  by code_simp

section \<open>Edges of tokens can cross\<close>

lemma ex_row: "nodeAt exBrowser exGraph i = Some n \<Longrightarrow> map_option nd_y (nodeAt exBrowser exGraph i) = Some (nd_y n)"
  by simp

lemma ex_token_edge:
  assumes "token \<in> set (ts_tokens exGraph)" "route \<in> set (ts_routes exGraph)" "canAccessRoute token route"
  shows "tokenEdge exBrowser exGraph token route \<in> set (tokenEdges exBrowser exGraph)"
  using assms by (auto simp: tokenEdges_def)

text \<open>Unlike the edges of routes and tenants, the edges from tokens to routes can cross, although the
  code says that ordering tokens by the average row of their routes prevents it: a token for the
  first and the last route of a tenant and a token for the middle one give crossing edges.\<close>

theorem access_edges_can_cross:
  "\<exists>b s e1 e2. comparator (br_localeCompare b) \<and> well_keyed s
     \<and> e1 \<in> set (tokenEdges b s) \<and> e2 \<in> set (tokenEdges b s)
     \<and> map_option nd_y (nodeAt b s (ed_from e1)) = Some 220 \<and> map_option nd_y (nodeAt b s (ed_from e2)) = Some 800
     \<and> map_option nd_y (nodeAt b s (ed_to e1)) = Some (1780 / 3)
     \<and> map_option nd_y (nodeAt b s (ed_to e2)) = Some (1160 / 3)"
proof -
  let ?e1 = "tokenEdge exBrowser exGraph (exToken ''1'' ''acme'' [''a'', ''c'']) (exRoute ''c'' ''acme'')"
  let ?e2 = "tokenEdge exBrowser exGraph (exToken ''2'' ''acme'' [''b'']) (exRoute ''b'' ''acme'')"
  have "?e1 \<in> set (tokenEdges exBrowser exGraph)" "?e2 \<in> set (tokenEdges exBrowser exGraph)"
    by (rule ex_token_edge; simp add: exGraph_def exSnapshot_def canAccessRoute_def exToken_def exRoute_def)+
  moreover have "ed_from ?e1 = ''token:t1''" "ed_to ?e1 = ''route:rc''" "ed_from ?e2 = ''token:t2''" "ed_to ?e2 = ''route:rb''"
    by (simp_all add: tokenEdge_def exToken_def exRoute_def)
  ultimately show ?thesis
    using exBrowser_compare exGraph_keyed exGraph_rows
    by (intro exI [of _ exBrowser] exI [of _ exGraph] exI [of _ ?e1] exI [of _ ?e2]) simp
qed

section \<open>Witnesses\<close>

lemma exGraph_binding:
  "map (\<lambda>e. (ed_from e, ed_to e)) (tenantEdges exBrowser exGraph) =
     [(''route:ra'', ''tenant:nacme''), (''route:rb'', ''tenant:nacme''), (''route:rc'', ''tenant:nacme''),
      (''route:rd'', ''tenant:nbeta'')]"
  by code_simp

lemma exGraph_bindingE:
  assumes "(f, t) \<in> set (map (\<lambda>e. (ed_from e, ed_to e)) (tenantEdges exBrowser exGraph))"
  obtains e where "e \<in> set (tenantEdges exBrowser exGraph)" "ed_from e = f" "ed_to e = t"
  using assms by auto

theorem edges_connect_nodes_witness:
  "\<exists>e \<in> set (snapshotEdges exBrowser exGraph). ed_from e = ''route:ra''
     \<and> (\<exists>n \<in> set (allNodes exBrowser exGraph). nd_id n = ''tenant:nacme'')"
proof -
  obtain e where e: "e \<in> set (tenantEdges exBrowser exGraph)" "ed_from e = ''route:ra''" "ed_to e = ''tenant:nacme''"
    by (rule exGraph_bindingE [of "''route:ra''" "''tenant:nacme''"]) (simp_all add: exGraph_binding)
  then have "e \<in> set (snapshotEdges exBrowser exGraph)" by (simp add: snapshotEdges_def)
  with e edges_connect_nodes [OF exGraph_keyed this] show ?thesis by metis
qed

theorem binding_edges_do_not_cross_witness:
  "\<exists>r1 r2 t1 t2. nodeAt exBrowser exGraph ''route:ra'' = Some r1 \<and> nodeAt exBrowser exGraph ''route:rd'' = Some r2
     \<and> nodeAt exBrowser exGraph ''tenant:nacme'' = Some t1 \<and> nodeAt exBrowser exGraph ''tenant:nbeta'' = Some t2
     \<and> nd_y t1 \<le> nd_y t2"
proof -
  obtain e1 where e1: "e1 \<in> set (tenantEdges exBrowser exGraph)" "ed_from e1 = ''route:ra''" "ed_to e1 = ''tenant:nacme''"
    by (rule exGraph_bindingE [of "''route:ra''" "''tenant:nacme''"]) (simp_all add: exGraph_binding)
  obtain e2 where e2: "e2 \<in> set (tenantEdges exBrowser exGraph)" "ed_from e2 = ''route:rd''" "ed_to e2 = ''tenant:nbeta''"
    by (rule exGraph_bindingE [of "''route:rd''" "''tenant:nbeta''"]) (simp_all add: exGraph_binding)
  obtain r1 r2 t1 t2 where n: "nodeAt exBrowser exGraph ''route:ra'' = Some r1" "nodeAt exBrowser exGraph ''route:rd'' = Some r2"
      "nodeAt exBrowser exGraph ''tenant:nacme'' = Some t1" "nodeAt exBrowser exGraph ''tenant:nbeta'' = Some t2"
      "nd_y r1 < nd_y r2"
    using exGraph_rows by auto
  have "nd_y t1 \<le> nd_y t2"
    by (rule binding_edges_do_not_cross [OF exBrowser_compare exGraph_keyed exGraph_tenants e1(1) e2(1)])
       (use e1 e2 n in simp_all)
  with n show ?thesis by blast
qed

theorem nodes_lie_inside_the_scene_witness:
  "180 \<le> nd_y (tenantNode exGraph (exTenant ''acme'') 0) \<and> nd_y (tenantNode exGraph (exTenant ''acme'') 0) \<le> 800"
proof -
  have "nodeAt exBrowser exGraph ''tenant:nacme'' \<noteq> None" using exGraph_rows by auto
  then obtain n where n: "nodeAt exBrowser exGraph ''tenant:nacme'' = Some n" by blast
  have "n \<in> set (allNodes exBrowser exGraph)" using js_find_Some n unfolding nodeAt_def by fast
  moreover have "nd_y n = 220" using exGraph_rows n by simp
  moreover have "nd_y (tenantNode exGraph (exTenant ''acme'') 0) = 220" by code_simp
  moreover have "graphSceneHeight exGraph = 980" by code_simp
  ultimately show ?thesis using nodes_lie_inside_the_scene [of n exBrowser exGraph] by simp
qed

theorem access_edges_animate_on_live_traffic_witness:
  "ed_hot (tokenEdge exBrowser exGraph (exToken ''1'' ''acme'' [''a'', ''c'']) (exRoute ''a'' ''acme''))"
proof -
  have "CHR '':'' \<notin> set (tk_id (exToken ''1'' ''acme'' [''a'', ''c'']))"
    "\<forall>e \<in> set (ts_auditEvents exGraph). CHR '':'' \<notin> set (ae_tokenID e)"
    by (simp_all add: exToken_def exGraph_def exSnapshot_def exAudit_def)
  from access_edges_animate_on_live_traffic [OF this] show ?thesis
    by (simp add: exGraph_def exSnapshot_def exAudit_def exToken_def exRoute_def exBrowser_def)
qed

theorem upstream_edges_animate_on_forwarded_traffic_witness:
  "ed_hot (upstreamEdge exBrowser exGraph
     (upstreamEntry exBrowser exGraph (exRoute ''a'' ''acme'') ''ra'' ''http://up'' None))"
proof -
  let ?u = "upstreamEntry exBrowser exGraph (exRoute ''a'' ''acme'') ''ra'' ''http://up'' None"
  have "CHR '':'' \<notin> set (ue_routeSlug ?u)"
    "\<forall>e \<in> set (ts_auditEvents exGraph). CHR '':'' \<notin> set (ae_routeSlug e)"
    by (simp_all add: exRoute_def exGraph_def exSnapshot_def exAudit_def)
  from upstream_edges_animate_on_forwarded_traffic [OF this] show ?thesis
    by (simp add: exGraph_def exSnapshot_def exAudit_def exRoute_def exBrowser_def recentAudits_def
        isActiveAudit_def ACTIVE_THRESHOLD_MS_def urlOrigin_def)
qed

theorem upstream_edges_show_health_witness:
  "\<not> ed_error (upstreamEdge exBrowser exGraph
      (upstreamEntry exBrowser exGraph (exRoute ''a'' ''acme'') ''ra'' ''http://up'' None))"
proof -
  let ?u = "upstreamEntry exBrowser exGraph (exRoute ''a'' ''acme'') ''ra'' ''http://up'' None"
  have "healthIndex exGraph x = None" "ro_circuitBreakerState (exRoute k t) = None" for x k t
    by (simp_all add: healthIndex_def js_map_def exGraph_def exSnapshot_def exRoute_def)
  moreover have "exRoute ''a'' ''acme'' \<in> set (ts_routes exGraph)" by (simp add: exGraph_def exSnapshot_def)
  moreover have "?u \<in> set (routeUpstreamEntries exBrowser exGraph (exRoute ''a'' ''acme''))"
    by (simp add: routeUpstreamEntries_alt poolOf_def exGraph_def exSnapshot_def exRoute_def)
  ultimately show ?thesis
    using upstream_edges_show_health [OF exGraph_keyed, of "exRoute ''a'' ''acme''" ?u exBrowser] by simp
qed

theorem pool_shares_add_up_witness:
  "(let pool = [\<lparr>ru_id = ''1'', ru_routeID = ''r'', ru_upstreamURL = ''a'', ru_weight = 1\<rparr>,
                \<lparr>ru_id = ''2'', ru_routeID = ''r'', ru_upstreamURL = ''b'', ru_weight = 2\<rparr>] in
    2 * \<bar>sum_list (map (weightPct pool) pool) - 100\<bar> \<le> 2)"
  using pool_shares_add_up [of "[\<lparr>ru_id = ''1'', ru_routeID = ''r'', ru_upstreamURL = ''a'', ru_weight = 1\<rparr>,
                \<lparr>ru_id = ''2'', ru_routeID = ''r'', ru_upstreamURL = ''b'', ru_weight = 2\<rparr>]"]
  by (simp add: Let_def)

end
