(* ===== verification/TopologyStream.thy ===== *)
theory TopologyStream
  imports Contracts Machines
begin

text \<open>
  The live connection of \<open>components/admin/live-topology-map.tsx\<close>: an effect that asks for the
  stream's address, opens an \<open>EventSource\<close> and reconnects, with its steps interleaved with the
  network's, the timer's and React's (mounting, and cleaning up when the component goes away or the
  organisation changes). The refs are shared by all runs of the effect; \<open>disposed\<close> belongs to one
  run, so a run is disposed exactly when it is not the mounted one.
\<close>

section \<open>State\<close>

datatype stream_status = Connecting | Live | Retrying | Offline

record topology_data =
  td_data :: TopologySnapshot
  td_error :: "string option"
  td_source :: string

text \<open>The answer of the socket-info handler.\<close>

record socket_info =
  si_token :: string
  si_sseUrl :: string
  si_orgId :: "string option"

text \<open>An open event source remembers the run of the effect and the attempt that created it.\<close>

record event_source =
  es_url :: string
  es_run :: nat
  es_attempt :: nat

text \<open>Where a call of \<open>connect\<close> is suspended.\<close>

datatype stage = AwaitFetch | AwaitJson

record stream_state =
  st_mounted :: "nat option"
  st_runs :: nat
  st_attempt :: nat
  st_calls :: "nat \<rightharpoonup> nat \<times> stage"
  st_socket :: "nat option"
  st_open :: "nat \<rightharpoonup> event_source"
  st_next :: nat
  st_timer :: "nat option"
  st_status :: stream_status
  st_snapshot :: topology_data

text \<open>\<open>disposed || attemptID !== connectionAttemptRef.current\<close>.\<close>

definition stale :: "stream_state \<Rightarrow> nat \<Rightarrow> nat \<Rightarrow> bool" where
  "stale s r a \<longleftrightarrow> st_mounted s \<noteq> Some r \<or> a \<noteq> st_attempt s"

section \<open>Operations\<close>

definition stream_url :: "socket_info \<Rightarrow> string" where
  "stream_url i = si_sseUrl i @ ''?access_token='' @ encodeURIComponent (si_token i)
     @ (case si_orgId i of
          Some o' \<Rightarrow> if o' \<noteq> [] then ''&org_id='' @ encodeURIComponent o' else []
        | None \<Rightarrow> [])"

text \<open>Closing a source takes it off the open ones; the browser delivers nothing from it any more.\<close>

definition close_socket :: "stream_state \<Rightarrow> stream_state" where
  "close_socket s = (case st_socket s of
      None \<Rightarrow> s
    | Some n \<Rightarrow> s\<lparr>st_open := (st_open s)(n := None), st_socket := None\<rparr>)"

definition begin_status :: "stream_status \<Rightarrow> stream_status" where
  "begin_status current =
     (if current = Live then current else if current = Retrying then Retrying else Connecting)"

text \<open>\<open>connect\<close> up to its first \<open>await\<close>.\<close>

definition connect :: "nat \<Rightarrow> stream_state \<Rightarrow> stream_state" where
  "connect r s =
     (let attemptID = st_attempt s + 1; s1 = close_socket (s\<lparr>st_attempt := attemptID\<rparr>) in
      s1\<lparr>st_status := begin_status (st_status s1), st_calls := (st_calls s1)(attemptID \<mapsto> (r, AwaitFetch))\<rparr>)"

definition scheduleReconnect :: "nat \<Rightarrow> stream_state \<Rightarrow> stream_state" where
  "scheduleReconnect r s = (if st_mounted s \<noteq> Some r then s else s\<lparr>st_timer := Some r\<rparr>)"

definition leave_call :: "nat \<Rightarrow> stream_state \<Rightarrow> stream_state" where
  "leave_call a s = s\<lparr>st_calls := (st_calls s)(a := None)\<rparr>"

text \<open>The end of an attempt without a stream: offline, unless the attempt is stale.\<close>

definition give_up :: "nat \<Rightarrow> nat \<Rightarrow> stream_state \<Rightarrow> stream_state" where
  "give_up r a s =
     (if stale s r a then leave_call a s
      else scheduleReconnect r ((leave_call a s)\<lparr>st_status := Offline\<rparr>))"

text \<open>The socket-info request has been answered: with \<open>response.ok\<close> the code awaits its JSON.\<close>

definition fetched :: "bool \<Rightarrow> nat \<Rightarrow> nat \<Rightarrow> stream_state \<Rightarrow> stream_state" where
  "fetched ok r a s =
     (if stale s r a then leave_call a s
      else if \<not> ok then give_up r a s
      else s\<lparr>st_calls := (st_calls s)(a \<mapsto> (r, AwaitJson))\<rparr>)"

text \<open>The JSON is there: the code opens the event source without asking again whether it is stale.\<close>

definition parsed :: "socket_info \<Rightarrow> nat \<Rightarrow> nat \<Rightarrow> stream_state \<Rightarrow> stream_state" where
  "parsed i r a s =
     (let n = st_next s; es = \<lparr>es_url = stream_url i, es_run = r, es_attempt = a\<rparr> in
      (leave_call a s)\<lparr>st_next := n + 1, st_open := (st_open s)(n \<mapsto> es), st_socket := Some n\<rparr>)"

definition on_open :: "event_source \<Rightarrow> stream_state \<Rightarrow> stream_state" where
  "on_open es s = (if stale s (es_run es) (es_attempt es) then s else s\<lparr>st_timer := None, st_status := Live\<rparr>)"

text \<open>A message with a snapshot, or another one (an error report, no data, no JSON).\<close>

definition on_message :: "event_source \<Rightarrow> TopologySnapshot option \<Rightarrow> stream_state \<Rightarrow> stream_state" where
  "on_message es m s =
     (if stale s (es_run es) (es_attempt es) then s
      else case m of None \<Rightarrow> s
           | Some d \<Rightarrow> s\<lparr>st_snapshot := (st_snapshot s)\<lparr>td_data := d, td_error := None, td_source := ''backend''\<rparr>\<rparr>)"

definition on_error :: "event_source \<Rightarrow> stream_state \<Rightarrow> stream_state" where
  "on_error es s = (if stale s (es_run es) (es_attempt es) then s else s\<lparr>st_status := Retrying\<rparr>)"

definition mount :: "stream_state \<Rightarrow> stream_state" where
  "mount s = connect (st_runs s) (s\<lparr>st_mounted := Some (st_runs s), st_runs := st_runs s + 1\<rparr>)"

definition cleanup :: "stream_state \<Rightarrow> stream_state" where
  "cleanup s = (close_socket (s\<lparr>st_mounted := None, st_timer := None\<rparr>))\<lparr>st_socket := None\<rparr>"

section \<open>Steps\<close>

text \<open>
  \<open>Dropped\<close> is an interrupted connection the browser re-establishes by itself; \<open>Failed\<close> is one the
  browser gives up, which it does on any answer but 200, such as the 401 for an expired token.
\<close>

datatype stream_event =
    Mount | Cleanup
  | Fetched nat bool
  | FetchFailed nat
  | Parsed nat socket_info
  | ParseFailed nat
  | Opened nat
  | Message nat "TopologySnapshot option"
  | Dropped nat
  | Failed nat
  | TimerFired

inductive stream_step :: "stream_state \<Rightarrow> stream_event \<Rightarrow> stream_state \<Rightarrow> bool" where
  s_mount: "st_mounted s = None \<Longrightarrow> stream_step s Mount (mount s)"
| s_cleanup: "st_mounted s = Some r \<Longrightarrow> stream_step s Cleanup (cleanup s)"
| s_fetched: "st_calls s a = Some (r, AwaitFetch) \<Longrightarrow> stream_step s (Fetched a ok) (fetched ok r a s)"
| s_fetchFailed: "st_calls s a = Some (r, AwaitFetch) \<Longrightarrow> stream_step s (FetchFailed a) (give_up r a s)"
| s_parsed: "st_calls s a = Some (r, AwaitJson) \<Longrightarrow> stream_step s (Parsed a i) (parsed i r a s)"
| s_parseFailed: "st_calls s a = Some (r, AwaitJson) \<Longrightarrow> stream_step s (ParseFailed a) (give_up r a s)"
| s_opened: "st_open s n = Some es \<Longrightarrow> stream_step s (Opened n) (on_open es s)"
| s_message: "st_open s n = Some es \<Longrightarrow> stream_step s (Message n m) (on_message es m s)"
| s_dropped: "st_open s n = Some es \<Longrightarrow> stream_step s (Dropped n) (on_error es s)"
| s_failed: "st_open s n = Some es \<Longrightarrow>
     stream_step s (Failed n) ((on_error es s)\<lparr>st_open := (st_open s)(n := None)\<rparr>)"
| s_timer: "st_timer s = Some r \<Longrightarrow> stream_step s TimerFired (connect r (s\<lparr>st_timer := None\<rparr>))"

inductive_cases stream_stepE: "stream_step s e t"
inductive_simps stream_step_simps:
  "stream_step s Mount t" "stream_step s Cleanup t" "stream_step s (Fetched a ok) t"
  "stream_step s (FetchFailed a) t" "stream_step s (Parsed a i) t" "stream_step s (ParseFailed a) t"
  "stream_step s (Opened n) t" "stream_step s (Message n m) t" "stream_step s (Dropped n) t"
  "stream_step s (Failed n) t" "stream_step s TimerFired t"

lemmas stream_op_defs =
  mount_def cleanup_def connect_def close_socket_def scheduleReconnect_def leave_call_def give_up_def
  fetched_def parsed_def on_open_def on_message_def on_error_def stale_def Let_def

definition stream_init :: "stream_state \<Rightarrow> bool" where
  "stream_init s \<longleftrightarrow> st_mounted s = None \<and> st_attempt s = 0 \<and> st_calls s = Map.empty \<and> st_socket s = None
     \<and> st_open s = Map.empty \<and> st_timer s = None \<and> st_status s = Connecting"

section \<open>What holds in every interleaving\<close>

text \<open>
  Attempts are numbered upwards; the current attempt, while the component is mounted, belongs to
  the mounted run; the timer is the mounted run's; an event source is older than the counter.
\<close>

definition stream_inv :: "stream_state \<Rightarrow> bool" where
  "stream_inv s \<longleftrightarrow>
     (\<forall>a c. st_calls s a = Some c \<longrightarrow> a \<le> st_attempt s)
     \<and> (\<forall>r g. st_calls s (st_attempt s) = Some (r, g) \<longrightarrow> st_mounted s = None \<or> st_mounted s = Some r)
     \<and> (st_timer s = None \<or> st_timer s = st_mounted s)
     \<and> (\<forall>n es. st_open s n = Some es \<longrightarrow> n < st_next s)
     \<and> (\<forall>n. st_socket s = Some n \<longrightarrow> n < st_next s)"

text \<open>A call of the mounted run that is not outdated.\<close>

definition live_call :: "stream_state \<Rightarrow> bool" where
  "live_call s \<longleftrightarrow> st_calls s (st_attempt s) \<noteq> None"

definition live_source :: "stream_state \<Rightarrow> bool" where
  "live_source s \<longleftrightarrow> (\<exists>n es. st_open s n = Some es \<and> \<not> stale s (es_run es) (es_attempt es))"

lemma close_socket_sel [simp]:
  "st_mounted (close_socket s) = st_mounted s" "st_runs (close_socket s) = st_runs s"
  "st_attempt (close_socket s) = st_attempt s" "st_calls (close_socket s) = st_calls s"
  "st_socket (close_socket s) = None" "st_next (close_socket s) = st_next s"
  "st_timer (close_socket s) = st_timer s" "st_status (close_socket s) = st_status s"
  "st_snapshot (close_socket s) = st_snapshot s"
  by (simp_all add: close_socket_def split: option.split)

lemma close_socket_open:
  "st_open (close_socket s) = (case st_socket s of None \<Rightarrow> st_open s | Some n \<Rightarrow> (st_open s)(n := None))"
  by (simp add: close_socket_def split: option.split)

lemma connect_sel [simp]:
  "st_mounted (connect r s) = st_mounted s" "st_runs (connect r s) = st_runs s"
  "st_attempt (connect r s) = Suc (st_attempt s)"
  "st_calls (connect r s) = (st_calls s)(Suc (st_attempt s) \<mapsto> (r, AwaitFetch))"
  "st_socket (connect r s) = None" "st_next (connect r s) = st_next s" "st_timer (connect r s) = st_timer s"
  "st_snapshot (connect r s) = st_snapshot s"
  "st_open (connect r s) = (case st_socket s of None \<Rightarrow> st_open s | Some n \<Rightarrow> (st_open s)(n := None))"
  by (simp_all add: connect_def Let_def close_socket_open split: option.split)

lemma give_up_sel [simp]:
  "st_mounted (give_up r a s) = st_mounted s" "st_attempt (give_up r a s) = st_attempt s"
  "st_calls (give_up r a s) = (st_calls s)(a := None)" "st_socket (give_up r a s) = st_socket s"
  "st_open (give_up r a s) = st_open s" "st_next (give_up r a s) = st_next s"
  "st_snapshot (give_up r a s) = st_snapshot s" "st_runs (give_up r a s) = st_runs s"
  "st_timer (give_up r a s) = (if stale s r a then st_timer s else Some r)"
  by (auto simp: give_up_def leave_call_def scheduleReconnect_def stale_def)

lemma fetched_cases:
  "fetched ok r a s =
     (if stale s r a \<or> \<not> ok then give_up r a s else s\<lparr>st_calls := (st_calls s)(a \<mapsto> (r, AwaitJson))\<rparr>)"
  by (simp add: fetched_def give_up_def)

lemma handlers_sel [simp]:
  "st_mounted (on_open es s) = st_mounted s" "st_attempt (on_open es s) = st_attempt s"
  "st_calls (on_open es s) = st_calls s" "st_socket (on_open es s) = st_socket s"
  "st_open (on_open es s) = st_open s" "st_next (on_open es s) = st_next s"
  "st_snapshot (on_open es s) = st_snapshot s"
  "st_timer (on_open es s) = (if stale s (es_run es) (es_attempt es) then st_timer s else None)"
  "st_mounted (on_message es m s) = st_mounted s" "st_attempt (on_message es m s) = st_attempt s"
  "st_calls (on_message es m s) = st_calls s" "st_socket (on_message es m s) = st_socket s"
  "st_open (on_message es m s) = st_open s" "st_next (on_message es m s) = st_next s"
  "st_timer (on_message es m s) = st_timer s"
  "st_mounted (on_error es s) = st_mounted s" "st_attempt (on_error es s) = st_attempt s"
  "st_calls (on_error es s) = st_calls s" "st_socket (on_error es s) = st_socket s"
  "st_open (on_error es s) = st_open s" "st_next (on_error es s) = st_next s"
  "st_timer (on_error es s) = st_timer s" "st_snapshot (on_error es s) = st_snapshot s"
  by (auto simp: on_open_def on_message_def on_error_def split: option.split)

lemma stream_inv_connect:
  assumes "stream_inv s" "st_mounted s = Some r"
  shows "stream_inv (connect r s)"
  using assms by (auto simp: stream_inv_def le_SucI split: option.splits)

lemma stream_inv_give_up:
  assumes "stream_inv s"
  shows "stream_inv (give_up r a s)"
proof (cases "stale s r a")
  case True
  with assms show ?thesis by (auto simp: stream_inv_def)
next
  case False
  then have "st_mounted s = Some r" by (simp add: stale_def)
  with False assms show ?thesis by (auto simp: stream_inv_def)
qed

lemma stream_inv_step:
  assumes "stream_step s e t" "stream_inv s"
  shows "stream_inv t"
  using assms
proof (induction rule: stream_step.induct)
  case (s_mount s)
  then show ?case by (auto simp: mount_def stream_inv_def le_SucI split: option.splits)
next
  case (s_cleanup s r)
  then show ?case by (auto simp: cleanup_def close_socket_open stream_inv_def split: option.splits)
next
  case (s_fetched s a r ok)
  then show ?case
    by (simp add: fetched_cases stream_inv_give_up) (auto simp: stream_inv_def stale_def)
next
  case (s_parsed s a r i)
  then show ?case by (auto simp: parsed_def Let_def leave_call_def stream_inv_def less_SucI)
next
  case (s_timer s r)
  then have "stream_inv (s\<lparr>st_timer := None\<rparr>)" "st_mounted s = Some r" by (auto simp: stream_inv_def)
  then show ?case by (intro stream_inv_connect) auto
next
  case (s_opened s n es)
  then show ?case by (simp add: stream_inv_def)
next
  case (s_failed s n es)
  then show ?case by (simp add: stream_inv_def)
qed (simp_all add: stream_inv_give_up, simp_all add: stream_inv_def)

lemma stream_inv_init: "stream_init s \<Longrightarrow> stream_inv s"
  by (simp add: stream_init_def stream_inv_def)

interpretation stream: invariant stream_init stream_step stream_inv
  by unfold_locales (rule stream_inv_init, assumption, rule stream_inv_step)

section \<open>Runs in which no clean-up meets a call that awaits its JSON\<close>

definition calm_step :: "stream_state \<Rightarrow> stream_event \<Rightarrow> stream_state \<Rightarrow> bool" where
  "calm_step s e t \<longleftrightarrow>
     stream_step s e t \<and> (e = Cleanup \<longrightarrow> (\<forall>a r. st_calls s a \<noteq> Some (r, AwaitJson)))"

text \<open>
  Then the open source is the one the ref names, only the current call awaits its JSON, a current
  call excludes a socket and a timer, and without a mounted component there is no socket.
\<close>

definition calm_inv :: "stream_state \<Rightarrow> bool" where
  "calm_inv s \<longleftrightarrow> stream_inv s
     \<and> (\<forall>n es. st_open s n = Some es \<longrightarrow> st_socket s = Some n)
     \<and> (\<forall>a r. st_calls s a = Some (r, AwaitJson) \<longrightarrow> st_mounted s = Some r \<and> a = st_attempt s)
     \<and> (st_mounted s = None \<or> st_calls s (st_attempt s) = None \<or> st_socket s = None \<and> st_timer s = None)
     \<and> (st_mounted s = None \<longrightarrow> st_socket s = None)"

definition no_json :: "stream_state \<Rightarrow> bool" where
  "no_json s \<longleftrightarrow> (\<forall>a r. st_calls s a \<noteq> Some (r, AwaitJson))"

lemma calm_inv_connect:
  assumes "calm_inv s" "no_json s" "st_timer s = None" "st_mounted s = Some r"
  shows "calm_inv (connect r s)"
proof -
  have "stream_inv (connect r s)" using assms by (intro stream_inv_connect) (auto simp: calm_inv_def)
  with assms show ?thesis by (auto simp: calm_inv_def no_json_def split: option.splits)
qed

lemma calm_inv_give_up: "calm_inv s \<Longrightarrow> calm_inv (give_up r a s)"
  using stream_inv_give_up [of s r a] by (auto simp: calm_inv_def stale_def)

lemma calm_cleanup:
  assumes "calm_inv s" "no_json s" "stream_inv (cleanup s)"
  shows "calm_inv (cleanup s)"
proof -
  have "st_open (cleanup s) n = None" for n
    using assms(1) by (cases "st_open s n")
      (auto simp: calm_inv_def cleanup_def close_socket_open split: option.splits)
  with assms(2,3) show ?thesis by (simp add: calm_inv_def cleanup_def no_json_def)
qed

lemma calm_inv_step:
  assumes "calm_step s e t" "calm_inv s"
  shows "calm_inv t"
proof -
  have step: "stream_step s e t" and inv: "stream_inv s" using assms by (auto simp: calm_step_def calm_inv_def)
  have t: "stream_inv t" using stream_inv_step [OF step inv] .
  show ?thesis
    using step assms t
  proof (cases rule: stream_step.cases)
    case s_mount
    let ?s = "s\<lparr>st_mounted := Some (st_runs s), st_runs := st_runs s + 1\<rparr>"
    have "st_timer s = None" "no_json s" "st_open s n = None" for n
      using s_mount assms(2) by (cases "st_open s n"; auto simp: calm_inv_def stream_inv_def no_json_def)+
    then show ?thesis
      using s_mount assms(2) t by (auto simp: calm_inv_def mount_def no_json_def split: option.splits)
  next
    case (s_cleanup r)
    then show ?thesis using assms t by (auto simp: calm_step_def no_json_def intro!: calm_cleanup)
  next
    case (s_fetched a r ok)
    then show ?thesis using assms(2) t
      by (auto simp: fetched_cases calm_inv_give_up) (auto simp: calm_inv_def stale_def)
  next
    case (s_parsed a r i)
    have none: "st_open s n = None" for n
      using s_parsed assms(2) by (cases "st_open s n") (auto simp: calm_inv_def)
    have now: "a = st_attempt s" "st_mounted s = Some r"
      and only: "st_calls s a' = Some (r', AwaitJson) \<Longrightarrow> a' = a" for a' r'
      using s_parsed(3) assms(2) unfolding calm_inv_def by blast+
    have calls: "st_calls t = (st_calls s)(a := None)" and fields: "st_socket t = Some (st_next s)"
      "st_open t n = Some es \<longrightarrow> n = st_next s" "st_mounted t = Some r" "st_attempt t = a" for n es
      using s_parsed(2) none now by (simp_all add: parsed_def Let_def leave_call_def)
    have "st_calls t a' \<noteq> Some (r', AwaitJson)" for a' r'
      using only [of a' r'] by (cases "a' = a") (auto simp: calls)
    then show ?thesis using t calls fields by (simp add: calm_inv_def)
  next
    case (s_timer r)
    have m: "st_mounted s = Some r" using inv s_timer(3) unfolding stream_inv_def by force
    have c: "st_calls s (st_attempt s) = None"
      using assms(2) m s_timer(3) unfolding calm_inv_def by force
    have "no_json s" using assms(2) c unfolding calm_inv_def no_json_def by force
    note m c this
    moreover from assms(2) have "calm_inv (s\<lparr>st_timer := None\<rparr>)" by (auto simp: calm_inv_def stream_inv_def)
    ultimately show ?thesis using s_timer by (auto simp: no_json_def intro: calm_inv_connect)
  next
    case (s_opened n es)
    with assms(2) t show ?thesis by (auto simp: calm_inv_def)
  next
    case (s_failed n es)
    with assms(2) t show ?thesis by (auto simp: calm_inv_def split: if_splits)
  qed (use assms(2) t in \<open>auto simp: calm_inv_give_up\<close>, auto simp: calm_inv_def)
qed

interpretation calm: invariant stream_init calm_step calm_inv
proof unfold_locales
  show "calm_inv s" if "stream_init s" for s
    using that stream_inv_init [OF that] by (simp add: calm_inv_def stream_init_def)
qed (rule calm_inv_step)

section \<open>Runs in which the browser gives no source up\<close>

definition kept_step :: "stream_state \<Rightarrow> stream_event \<Rightarrow> stream_state \<Rightarrow> bool" where
  "kept_step s e t \<longleftrightarrow> stream_step s e t \<and> (\<forall>n. e \<noteq> Failed n)"

text \<open>A mounted component always has a current call, a timer for the next one, or a current source.\<close>

definition busy :: "stream_state \<Rightarrow> bool" where
  "busy s \<longleftrightarrow> st_mounted s = None \<or> live_call s \<or> st_timer s \<noteq> None \<or> live_source s"

definition busy_inv :: "stream_state \<Rightarrow> bool" where
  "busy_inv s \<longleftrightarrow> stream_inv s \<and> busy s"

lemma busy_connect: "busy (connect r s)"
  by (simp add: busy_def live_call_def)

lemma live_source_cong:
  "st_mounted s = st_mounted t \<Longrightarrow> st_attempt s = st_attempt t \<Longrightarrow> st_open s = st_open t \<Longrightarrow>
   live_source s = live_source t"
  by (simp add: live_source_def stale_def)

lemma busy_give_up:
  assumes "busy_inv s" "st_calls s a = Some (r, g)"
  shows "busy (give_up r a s)"
proof (cases "stale s r a \<and> st_mounted s \<noteq> None")
  case True
  then have "a \<noteq> st_attempt s" using assms by (auto simp: stale_def busy_inv_def stream_inv_def)
  moreover have "live_source (give_up r a s) = live_source s" by (rule live_source_cong) simp_all
  ultimately show ?thesis using assms(1) True by (auto simp: busy_inv_def busy_def live_call_def)
next
  case False
  then show ?thesis by (auto simp: busy_def)
qed

lemma busy_parsed:
  assumes "busy_inv s" "st_calls s a = Some (r, g)"
  shows "busy (parsed i r a s)"
proof (cases "stale s r a")
  case False
  then have "live_source (parsed i r a s)"
    by (auto simp: live_source_def parsed_def Let_def leave_call_def stale_def intro!: exI [of _ "st_next s"])
  then show ?thesis by (simp add: busy_def)
next
  case True
  show ?thesis
  proof (cases "st_mounted s")
    case None
    then show ?thesis by (simp add: busy_def parsed_def Let_def leave_call_def)
  next
    case (Some r')
    with True assms have other: "a \<noteq> st_attempt s" by (auto simp: stale_def busy_inv_def stream_inv_def)
    have "live_source (parsed i r a s)" if "live_source s"
    proof -
      from that obtain n es where n: "st_open s n = Some es" "\<not> stale s (es_run es) (es_attempt es)"
        by (auto simp: live_source_def)
      with assms(1) have "n < st_next s" by (auto simp: busy_inv_def stream_inv_def)
      with n show ?thesis
        by (auto simp: live_source_def parsed_def Let_def leave_call_def stale_def intro!: exI [of _ n])
    qed
    with other assms(1) show ?thesis
      by (auto simp: busy_inv_def busy_def live_call_def parsed_def Let_def leave_call_def)
  qed
qed

lemma busy_step:
  assumes "kept_step s e t" "busy_inv s"
  shows "busy_inv t"
proof -
  have step: "stream_step s e t" and inv: "stream_inv s" and busy: "busy s"
    using assms by (auto simp: kept_step_def busy_inv_def)
  have "stream_inv t" by (rule stream_inv_step [OF step inv])
  moreover have "busy t" using step
  proof (cases rule: stream_step.cases)
    case (s_cleanup r)
    then show ?thesis by (simp add: busy_def cleanup_def)
  next
    case (s_fetched a r ok)
    then show ?thesis using busy_give_up [OF assms(2)]
      by (auto simp: fetched_cases) (auto simp: busy_def live_call_def stale_def)
  next
    case (s_opened n es)
    have "live_source t" if "\<not> stale s (es_run es) (es_attempt es)"
      using s_opened that by (auto simp: live_source_def stale_def)
    moreover have "live_source t = live_source s" using s_opened by (intro live_source_cong) simp_all
    ultimately show ?thesis using busy s_opened by (auto simp: busy_def live_call_def)
  next
    case (s_message n es m)
    then have "live_source t = live_source s" by (intro live_source_cong) simp_all
    with s_message busy show ?thesis by (simp add: busy_def live_call_def)
  next
    case (s_dropped n es)
    then have "live_source t = live_source s" by (intro live_source_cong) simp_all
    with s_dropped busy show ?thesis by (simp add: busy_def live_call_def)
  next
    case (s_failed n es)
    with assms(1) show ?thesis by (simp add: kept_step_def)
  next
    case s_mount
    then show ?thesis by (simp add: mount_def busy_connect)
  next
    case (s_fetchFailed a r)
    then show ?thesis using busy_give_up [OF assms(2)] by simp
  next
    case (s_parsed a r i)
    then show ?thesis using busy_parsed [OF assms(2)] by simp
  next
    case (s_parseFailed a r)
    then show ?thesis using busy_give_up [OF assms(2)] by simp
  next
    case (s_timer r)
    then show ?thesis by (simp add: busy_connect)
  qed
  ultimately show ?thesis by (simp add: busy_inv_def)
qed

interpretation kept: invariant stream_init kept_step busy_inv
proof unfold_locales
  show "busy_inv s" if "stream_init s" for s
    using that stream_inv_init [OF that] by (simp add: busy_inv_def busy_def stream_init_def)
qed (rule busy_step)

section \<open>Leaked sources\<close>

text \<open>A source the ref no longer names.\<close>

definition lost :: "nat \<Rightarrow> stream_state \<Rightarrow> bool" where
  "lost n s \<longleftrightarrow> st_open s n \<noteq> None \<and> st_socket s \<noteq> Some n \<and> n < st_next s"

lemma lost_step:
  assumes "stream_step s e t" "e \<noteq> Failed n" "lost n s"
  shows "lost n t"
  using assms
proof (cases rule: stream_step.cases)
  case s_mount
  with assms(3) show ?thesis by (auto simp: lost_def mount_def split: option.split)
next
  case (s_cleanup r)
  with assms(3) show ?thesis by (auto simp: lost_def cleanup_def close_socket_open split: option.split)
next
  case (s_fetched a r ok)
  with assms(3) show ?thesis by (auto simp: lost_def fetched_cases)
next
  case (s_parsed a r i)
  with assms(3) show ?thesis by (auto simp: lost_def parsed_def Let_def leave_call_def)
next
  case (s_timer r)
  with assms(3) show ?thesis by (auto simp: lost_def split: option.split)
next
  case (s_failed m es)
  with assms(2,3) show ?thesis by (auto simp: lost_def)
qed (use assms(3) in \<open>simp_all add: lost_def\<close>)

lemma lost_run:
  assumes "run stream_step s es t" "lost n s" "Failed n \<notin> set es"
  shows "lost n t"
  using assms by (induction rule: run.induct) (auto intro: lost_step)

section \<open>Properties\<close>


text \<open>C13: As long as the browser gives no source up, the mounted map always has a call for a stream under
  way, a timer set for the next one, or an open stream of the current attempt.\<close>

theorem stream_is_always_pursued:
  assumes "reach stream_init kept_step s" and "st_mounted s = Some r"
  shows "(\<exists>g. st_calls s (st_attempt s) = Some (r, g)) \<or> st_timer s = Some r
     \<or> (\<exists>n es. st_open s n = Some es \<and> es_run es = r \<and> es_attempt es = st_attempt s)"
proof -
  have "busy_inv s" using assms(1) by (rule kept.reach_inv)
  then have "busy s" "stream_inv s" by (simp_all add: busy_inv_def)
  then show ?thesis using assms(2)
    by (auto simp: busy_def live_call_def live_source_def stale_def stream_inv_def)
qed

text \<open>If no clean-up meets a call that awaits its JSON, at most one stream is open at a time, the one the
  ref names, and none is open once the map is gone.\<close>

theorem calm_runs_leak_nothing:
  assumes "reach stream_init calm_step s"
  shows "dom (st_open s) \<subseteq> set_option (st_socket s) \<and> card (dom (st_open s)) \<le> 1
     \<and> (st_mounted s = None \<longrightarrow> st_open s = Map.empty)"
proof -
  have inv: "calm_inv s" using assms by (rule calm.reach_inv)
  then have sub: "dom (st_open s) \<subseteq> set_option (st_socket s)" by (auto simp: calm_inv_def)
  have "card (dom (st_open s)) \<le> card (set_option (st_socket s))" using sub by (intro card_mono) auto
  also have "\<dots> \<le> 1" by (cases "st_socket s") auto
  finally have "card (dom (st_open s)) \<le> 1" .
  moreover have "st_mounted s = None \<longrightarrow> st_open s = Map.empty"
    using inv sub by (auto simp: calm_inv_def)
  ultimately show ?thesis using sub by blast
qed

text \<open>The state of a map that has not been mounted yet.\<close>

definition idle :: "topology_data \<Rightarrow> stream_state" where
  "idle d = \<lparr>st_mounted = None, st_runs = 0, st_attempt = 0, st_calls = Map.empty, st_socket = None,
     st_open = Map.empty, st_next = 0, st_timer = None, st_status = Connecting, st_snapshot = d\<rparr>"

lemma idle_init: "stream_init (idle d)"
  by (simp add: idle_def stream_init_def)

text \<open>The missing check after awaiting the JSON: if the organisation is switched at that moment and the
  new stream is opened first, the old call overwrites the ref with its own stream, so the new stream
  is never closed again, not even when the map goes away.\<close>

theorem switching_organisation_can_leak_a_stream:
  "\<exists>t. run stream_step (idle d)
       [Mount, Fetched 1 True, Cleanup, Mount, Fetched 2 True, Parsed 2 new, Parsed 1 old, Cleanup] t
     \<and> st_mounted t = None
     \<and> (\<forall>es u. run stream_step t es u \<longrightarrow> Failed 0 \<notin> set es \<longrightarrow> st_open u 0 \<noteq> None)"
proof -
  obtain t where t: "run stream_step (idle d)
       [Mount, Fetched 1 True, Cleanup, Mount, Fetched 2 True, Parsed 2 new, Parsed 1 old, Cleanup] t"
    and "st_mounted t = None" "lost 0 t"
    unfolding run_Cons_simp stream_step_simps
    by (simp add: idle_def stream_op_defs lost_def)
  with lost_run [of t _ _ 0] show ?thesis unfolding lost_def by blast
qed

text \<open>The code relies on the browser to reconnect, but a browser gives a stream up when the
  reconnection is refused, as it is once the five-minute token in the address has expired: the map
  then says "retrying" with no stream, no timer and no call, and the only thing that can still
  happen is that the map goes away.\<close>

theorem refused_stream_is_never_retried:
  "\<exists>t. run stream_step (idle d) [Mount, Fetched 1 True, Parsed 1 i, Opened 0, Dropped 0, Failed 0] t
     \<and> st_status t = Retrying \<and> st_mounted t \<noteq> None
     \<and> (\<forall>e u. stream_step t e u \<longrightarrow> e = Cleanup)"
proof -
  obtain t where t: "run stream_step (idle d) [Mount, Fetched 1 True, Parsed 1 i, Opened 0, Dropped 0, Failed 0] t"
    and s: "st_status t = Retrying" "st_mounted t \<noteq> None" "st_calls t = Map.empty" "st_open t = Map.empty"
      "st_timer t = None"
    unfolding run_Cons_simp stream_step_simps
    by (simp add: idle_def stream_op_defs)
  have "e = Cleanup" if "stream_step t e u" for e u
    using that s by (cases rule: stream_step.cases) simp_all
  with t s show ?thesis by blast
qed

text \<open>The address of the stream carries exactly the token and, if there is one, the organisation, each
  encoded so that it is read back unchanged.\<close>

theorem stream_address_carries_token_and_organisation:
  "\<exists>q. stream_url i = si_sseUrl i @ ''?'' @ q
     \<and> map (\<lambda>p. map (\<lambda>x. pct_decode x) (split_on CHR ''='' p)) (split_on CHR ''&'' q)
       = [Some ''access_token'', Some (si_token i)]
         # (case si_orgId i of Some (c # cs) \<Rightarrow> [[Some ''org_id'', Some (c # cs)]] | _ \<Rightarrow> [])"
proof -
  have no: "CHR ''&'' \<notin> set (encodeURIComponent x)" "CHR ''='' \<notin> set (encodeURIComponent x)" for x
    using encodeURIComponent_no_sep by blast+
  let ?tok = "''access_token='' @ encodeURIComponent (si_token i)"
  have tok: "CHR ''&'' \<notin> set ?tok" "split_on CHR ''='' ?tok = [''access_token'', encodeURIComponent (si_token i)]"
    using no by (simp_all add: split_on_no_sep)
  have org: "split_on CHR ''='' (''org_id='' @ encodeURIComponent x) = [''org_id'', encodeURIComponent x]"
      "CHR ''&'' \<notin> set (''org_id='' @ encodeURIComponent x)" for x
    using no by (simp_all add: split_on_no_sep)
  show ?thesis
  proof (cases "or_str (si_orgId i) [] = []")
    case True
    then have "stream_url i = si_sseUrl i @ ''?'' @ ?tok"
      by (simp add: stream_url_def or_str_def split: option.splits if_splits)
    moreover have "(case si_orgId i of Some (c # cs) \<Rightarrow> [[Some ''org_id'', Some (c # cs)]] | _ \<Rightarrow> []) = []"
      using True by (auto simp: or_str_def split: option.splits list.splits if_splits)
    ultimately show ?thesis
      using tok by (intro exI [of _ ?tok]) (simp add: split_on_no_sep pct_decode_encode)
  next
    case False
    then obtain c cs where o': "si_orgId i = Some (c # cs)"
      by (cases "si_orgId i") (auto simp: or_str_def neq_Nil_conv split: if_splits)
    let ?q = "?tok @ CHR ''&'' # (''org_id='' @ encodeURIComponent (c # cs))"
    have "split_on CHR ''&'' ?q = [?tok, ''org_id='' @ encodeURIComponent (c # cs)]"
      by (subst split_on_append_sep [OF tok(1)]) (simp only: split_on_no_sep [OF org(2)])
    then show ?thesis
      using tok(2) org(1) [of "c # cs"] o'
      by (intro exI [of _ ?q]) (simp add: stream_url_def pct_decode_encode)
  qed
qed

section \<open>Witnesses\<close>

definition no_data :: topology_data where
  "no_data = \<lparr>td_data = \<lparr>ts_generatedAt = [],
       ts_runtime = \<lparr>rt_status = ''offline'', rt_version = [], rt_storeKind = []\<rparr>,
       ts_stats = \<lparr>ov_tenants = 0, ov_routes = 0, ov_activeTokens = 0, ov_auditEvents24h = 0\<rparr>,
       ts_tenants = [], ts_routes = [], ts_tokens = [], ts_auditEvents = [], ts_upstreamHealth = None,
       ts_routeUpstreams = None\<rparr>, td_error = Some ''unreachable'', td_source = ''fallback''\<rparr>"

definition some_info :: socket_info where
  "some_info = \<lparr>si_token = ''a.b.c'', si_sseUrl = ''http://gate/sse'', si_orgId = Some ''org1''\<rparr>"

definition streaming :: stream_state where
  "streaming = parsed some_info 0 1 (fetched True 0 1 (mount (idle no_data)))"

lemma mounted_step: "stream_step (idle no_data) Mount (mount (idle no_data))"
  by (simp add: stream_step_simps idle_def)


theorem stream_is_always_pursued_witness:
  "\<exists>g. st_calls (mount (idle no_data)) 1 = Some (0, g)"
proof -
  have "reach stream_init kept_step (mount (idle no_data))"
    by (rule reach_step [OF reach_init [of stream_init, OF idle_init [of no_data]], where e = Mount])
       (simp add: kept_step_def mounted_step)
  from stream_is_always_pursued [OF this, of 0] show ?thesis
    by (simp add: idle_def stream_op_defs)
qed

theorem calm_runs_leak_nothing_witness:
  "card (dom (st_open (mount (idle no_data)))) \<le> 1"
proof -
  have "reach stream_init calm_step (mount (idle no_data))"
    by (rule reach_step [OF reach_init [of stream_init, OF idle_init [of no_data]], where e = Mount])
       (simp add: calm_step_def mounted_step)
  from calm_runs_leak_nothing [OF this] show ?thesis by blast
qed

text \<open>The leaked stream is still open after a clean-up; the map that lost its stream can still go away.\<close>

theorem switching_organisation_can_leak_a_stream_witness:
  "\<exists>t :: stream_state. st_mounted t = None \<and> st_open t 0 \<noteq> None"
proof -
  obtain t :: stream_state where t: "st_mounted t = None"
      "\<forall>es u. run stream_step t es u \<longrightarrow> Failed 0 \<notin> set es \<longrightarrow> st_open u 0 \<noteq> None"
    using switching_organisation_can_leak_a_stream [of no_data some_info some_info] by auto
  have "st_open t 0 \<noteq> None" using t(2) run_Nil [of stream_step t] by fastforce
  with t(1) show ?thesis by blast
qed

theorem refused_stream_is_never_retried_witness:
  "\<exists>t u. st_status t = Retrying \<and> stream_step t Cleanup u \<and> st_mounted u = None"
proof -
  obtain t :: stream_state where t: "st_status t = Retrying" "st_mounted t \<noteq> None"
    using refused_stream_is_never_retried [of no_data some_info] by auto
  then have "stream_step t Cleanup (cleanup t)" by (auto simp: stream_step_simps)
  moreover have "st_mounted (cleanup t) = None" by (simp add: cleanup_def)
  ultimately show ?thesis using t(1) by blast
qed

end
