(* ===== verification/AuditStream.thy ===== *)
theory AuditStream
  imports Contracts Machines
begin

text \<open>
  The live audit stream of \<open>components/admin/live-audit-stream.tsx\<close>: a panel that opens an
  \<open>EventSource\<close> when it is opened and closes it when it is closed, the list of the latest 200 events
  and the filters over it. As in theory TopologyStream, a call of \<open>connect\<close> suspended on the network
  is kept as such, and every step may be interleaved with the user's.
\<close>

section \<open>Filters\<close>

datatype status_filter = AllStatus | SuccessStatus | ErrorStatus

text \<open>\<open>s.includes(t)\<close>.\<close>

fun str_includes :: "string \<Rightarrow> string \<Rightarrow> bool" where
  "str_includes [] t = (t = [])"
| "str_includes (c # cs) t = (take (length t) (c # cs) = t \<or> str_includes cs t)"

text \<open>The two case conversions of the language are parameters.\<close>

record casing =
  toLowerCase :: "string \<Rightarrow> string"
  toUpperCase :: "string \<Rightarrow> string"

definition passesFilter :: "casing \<Rightarrow> string \<Rightarrow> string \<Rightarrow> status_filter \<Rightarrow> AuditEvent \<Rightarrow> bool" where
  "passesFilter L filterRoute filterMethod filterStatus e =
     (if filterRoute \<noteq> [] \<and> \<not> str_includes (toLowerCase L (ae_routeSlug e)) (toLowerCase L filterRoute) then False
      else if filterMethod \<noteq> [] \<and> toUpperCase L (ae_method e) \<noteq> toUpperCase L filterMethod then False
      else if filterStatus = SuccessStatus \<and> 400 \<le> ae_status e then False
      else if filterStatus = ErrorStatus \<and> ae_status e < 400 then False
      else True)"

lemma includes_iff: "str_includes s t \<longleftrightarrow> (\<exists>p q. s = p @ t @ q)"
proof (induction s)
  case Nil
  then show ?case by auto
next
  case (Cons c s)
  have "(\<exists>q. c # s = t @ q) \<longleftrightarrow> take (length t) (c # s) = t"
    by (metis append_eq_conv_conj append_take_drop_id)
  moreover have "(\<exists>p q. c # s = p @ t @ q) \<longleftrightarrow> (\<exists>q. c # s = t @ q) \<or> (\<exists>p q. s = p @ t @ q)"
    by (auto simp: Cons_eq_append_conv)
  ultimately show ?case using Cons by simp
qed

section \<open>State and operations\<close>

datatype audit_stage = AwaitAnswer | AwaitBody

record audit_stream =
  as_panel :: bool
  as_events :: "AuditEvent list"
  as_connected :: bool
  as_filterRoute :: string
  as_filterMethod :: string
  as_filterStatus :: status_filter
  as_ref :: "nat option"
  as_sources :: "nat set"
  as_calls :: "nat \<rightharpoonup> audit_stage"
  as_nextCall :: nat
  as_nextSource :: nat

definition filtered :: "casing \<Rightarrow> audit_stream \<Rightarrow> AuditEvent list" where
  "filtered L s = filter (passesFilter L (as_filterRoute s) (as_filterMethod s) (as_filterStatus s)) (as_events s)"

text \<open>\<open>connect\<close> up to its first \<open>await\<close>; it does nothing while the ref holds a source.\<close>

definition connect_audit :: "audit_stream \<Rightarrow> audit_stream" where
  "connect_audit s =
     (if as_ref s \<noteq> None then s
      else s\<lparr>as_calls := (as_calls s)(as_nextCall s \<mapsto> AwaitAnswer), as_nextCall := as_nextCall s + 1\<rparr>)"

text \<open>The effect's clean-up, and the same statements in the close button.\<close>

definition close_ref :: "audit_stream \<Rightarrow> audit_stream" where
  "close_ref s = (case as_ref s of
      None \<Rightarrow> s
    | Some n \<Rightarrow> s\<lparr>as_sources := as_sources s - {n}, as_ref := None, as_connected := False\<rparr>)"

text \<open>The new source is stored in the ref whatever has happened meanwhile.\<close>

definition source_created :: "nat \<Rightarrow> audit_stream \<Rightarrow> audit_stream" where
  "source_created a s =
     s\<lparr>as_calls := (as_calls s)(a := None), as_sources := insert (as_nextSource s) (as_sources s),
       as_ref := Some (as_nextSource s), as_nextSource := as_nextSource s + 1\<rparr>"

definition add_event :: "AuditEvent option \<Rightarrow> audit_stream \<Rightarrow> audit_stream" where
  "add_event m s = (case m of None \<Rightarrow> s | Some e \<Rightarrow> s\<lparr>as_events := take 200 (e # as_events s)\<rparr>)"

section \<open>Steps\<close>

datatype audit_event =
    OpenPanel | ClosePanel | Leave
  | Answered nat bool
  | AnswerFailed nat
  | BodyRead nat
  | BodyFailed nat
  | SourceOpened nat
  | SourceError nat
  | SourceMessage nat "AuditEvent option"
  | SetFilters string string status_filter

inductive audit_step :: "audit_stream \<Rightarrow> audit_event \<Rightarrow> audit_stream \<Rightarrow> bool" where
  a_open: "\<not> as_panel s \<Longrightarrow> audit_step s OpenPanel (connect_audit (close_ref (s\<lparr>as_panel := True\<rparr>)))"
| a_close: "as_panel s \<Longrightarrow> audit_step s ClosePanel (close_ref (s\<lparr>as_panel := False, as_events := []\<rparr>))"
| a_leave: "audit_step s Leave (close_ref s)"
| a_answered: "as_calls s a = Some AwaitAnswer \<Longrightarrow>
     audit_step s (Answered a ok) (s\<lparr>as_calls := (as_calls s)(a := if ok then Some AwaitBody else None)\<rparr>)"
| a_answerFailed: "as_calls s a = Some AwaitAnswer \<Longrightarrow>
     audit_step s (AnswerFailed a) (s\<lparr>as_calls := (as_calls s)(a := None)\<rparr>)"
| a_body: "as_calls s a = Some AwaitBody \<Longrightarrow> audit_step s (BodyRead a) (source_created a s)"
| a_bodyFailed: "as_calls s a = Some AwaitBody \<Longrightarrow>
     audit_step s (BodyFailed a) (s\<lparr>as_calls := (as_calls s)(a := None)\<rparr>)"
| a_opened: "n \<in> as_sources s \<Longrightarrow> audit_step s (SourceOpened n) (s\<lparr>as_connected := True\<rparr>)"
| a_error: "n \<in> as_sources s \<Longrightarrow> audit_step s (SourceError n) (s\<lparr>as_connected := False\<rparr>)"
| a_message: "n \<in> as_sources s \<Longrightarrow> audit_step s (SourceMessage n m) (add_event m s)"
| a_filters: "audit_step s (SetFilters r m st)
     (s\<lparr>as_filterRoute := r, as_filterMethod := m, as_filterStatus := st\<rparr>)"

inductive_simps audit_step_simps:
  "audit_step s OpenPanel t" "audit_step s ClosePanel t" "audit_step s Leave t" "audit_step s (Answered a ok) t"
  "audit_step s (AnswerFailed a) t" "audit_step s (BodyRead a) t" "audit_step s (BodyFailed a) t"
  "audit_step s (SourceOpened n) t" "audit_step s (SourceError n) t" "audit_step s (SourceMessage n m) t"
  "audit_step s (SetFilters r m st) t"

lemmas audit_op_defs = connect_audit_def close_ref_def source_created_def add_event_def

definition audit_init :: "audit_stream \<Rightarrow> bool" where
  "audit_init s \<longleftrightarrow> \<not> as_panel s \<and> as_events s = [] \<and> \<not> as_connected s \<and> as_ref s = None
     \<and> as_sources s = {} \<and> as_calls s = Map.empty"

lemma close_ref_sel [simp]:
  "as_panel (close_ref s) = as_panel s" "as_events (close_ref s) = as_events s"
  "as_ref (close_ref s) = None" "as_calls (close_ref s) = as_calls s"
  "as_nextCall (close_ref s) = as_nextCall s"
  "as_sources (close_ref s) = as_sources s - set_option (as_ref s)"
  by (auto simp: close_ref_def split: option.split)

lemma connect_audit_sel [simp]:
  "as_panel (connect_audit s) = as_panel s" "as_events (connect_audit s) = as_events s"
  "as_ref (connect_audit s) = as_ref s" "as_sources (connect_audit s) = as_sources s"
  by (auto simp: connect_audit_def)

section \<open>Invariants\<close>

lemma bounded_step: "audit_step s e t \<Longrightarrow> length (as_events s) \<le> 200 \<Longrightarrow> length (as_events t) \<le> 200"
  by (induction rule: audit_step.induct) (auto simp: add_event_def source_created_def split: option.split)

interpretation bounded: invariant audit_init audit_step "\<lambda>s. length (as_events s) \<le> 200"
proof unfold_locales
  show "length (as_events s) \<le> 200" if "audit_init s" for s using that by (simp add: audit_init_def)
qed (rule bounded_step)

text \<open>Runs in which the panel is not closed while a call is under way.\<close>

definition patient_step :: "audit_stream \<Rightarrow> audit_event \<Rightarrow> audit_stream \<Rightarrow> bool" where
  "patient_step s e t \<longleftrightarrow> audit_step s e t \<and> (e \<in> {ClosePanel, Leave} \<longrightarrow> as_calls s = Map.empty)"

definition patient_inv :: "audit_stream \<Rightarrow> bool" where
  "patient_inv s \<longleftrightarrow> as_sources s \<subseteq> set_option (as_ref s)
     \<and> (as_calls s = Map.empty \<or> as_ref s = None \<and> (\<exists>a. dom (as_calls s) = {a}))
     \<and> (\<not> as_panel s \<longrightarrow> as_calls s = Map.empty \<and> as_ref s = None)"

lemma patient_pending:
  assumes "patient_inv s" "as_calls s a = Some g"
  shows "as_panel s" "as_ref s = None" "as_sources s = {}" "dom (as_calls s) = {a}"
    "(as_calls s)(a := None) = Map.empty"
proof -
  have "as_calls s \<noteq> Map.empty" and a: "a \<in> dom (as_calls s)" using assms(2) by auto
  with assms(1) obtain b where b: "dom (as_calls s) = {b}"
    and rest: "as_panel s" "as_ref s = None" "as_sources s = {}" by (auto simp: patient_inv_def)
  show "as_panel s" "as_ref s = None" "as_sources s = {}" by (fact rest)+
  show d: "dom (as_calls s) = {a}" using a b by simp
  then have "dom ((as_calls s)(a := None)) = {}" by simp
  then show "(as_calls s)(a := None) = Map.empty" by (simp only: dom_eq_empty_conv)
qed

lemma patient_inv_step:
  assumes "patient_step s e t" "patient_inv s"
  shows "patient_inv t"
proof -
  have step: "audit_step s e t" and patient: "e \<in> {ClosePanel, Leave} \<longrightarrow> as_calls s = Map.empty"
    using assms(1) by (auto simp: patient_step_def)
  note pending = patient_pending [OF assms(2)]
  show ?thesis
    using step assms(2) patient
  proof (cases rule: audit_step.cases)
    case a_open
    then show ?thesis using assms(2) by (auto simp: patient_inv_def connect_audit_def)
  next
    case (a_answered a ok)
    then show ?thesis using pending [of a] by (auto simp: patient_inv_def)
  next
    case (a_answerFailed a)
    then show ?thesis using pending [of a] by (simp add: patient_inv_def)
  next
    case (a_body a)
    then show ?thesis using pending [of a] by (simp add: patient_inv_def source_created_def)
  next
    case (a_bodyFailed a)
    then show ?thesis using pending [of a] by (simp add: patient_inv_def)
  qed (use assms(2) patient in \<open>auto simp: patient_inv_def add_event_def split: option.splits\<close>)
qed

interpretation patient: invariant audit_init patient_step patient_inv
proof unfold_locales
  show "patient_inv s" if "audit_init s" for s using that by (simp add: audit_init_def patient_inv_def)
qed (rule patient_inv_step)

section \<open>Properties\<close>


text \<open>If the panel is not closed while its stream is being set up, at most one stream is open at a
  time, and none once the panel is closed.\<close>

theorem patient_panel_leaks_nothing:
  assumes "reach audit_init patient_step s"
  shows "card (as_sources s) \<le> 1 \<and> (\<not> as_panel s \<longrightarrow> as_sources s = {})"
proof -
  have inv: "patient_inv s" using assms by (rule patient.reach_inv)
  have "card (as_sources s) \<le> card (set_option (as_ref s))"
    using inv by (intro card_mono) (auto simp: patient_inv_def)
  also have "\<dots> \<le> 1" by (cases "as_ref s") auto
  finally show ?thesis using inv by (auto simp: patient_inv_def)
qed

text \<open>The panel before its first use.\<close>

definition fresh_panel :: audit_stream where
  "fresh_panel = \<lparr>as_panel = False, as_events = [], as_connected = False, as_filterRoute = [],
     as_filterMethod = [], as_filterStatus = AllStatus, as_ref = None, as_sources = {},
     as_calls = Map.empty, as_nextCall = 0, as_nextSource = 0\<rparr>"

lemma fresh_panel_init: "audit_init fresh_panel"
  by (simp add: fresh_panel_def audit_init_def)

text \<open>Opening the panel, closing it and opening it again before the first answer has arrived leaves two
  streams open: every event is listed twice, and closing the panel closes only one of them.\<close>

theorem reopening_panel_doubles_events:
  "\<exists>t. run audit_step fresh_panel
       [OpenPanel, ClosePanel, OpenPanel, Answered 0 True, Answered 1 True, BodyRead 0, BodyRead 1,
        SourceMessage 0 (Some ev), SourceMessage 1 (Some ev)] t
     \<and> as_events t = [ev, ev]
     \<and> (\<exists>u. audit_step t ClosePanel u \<and> as_sources u = {0} \<and> as_ref u = None)"
  unfolding run_Cons_simp audit_step_simps
  by (simp add: fresh_panel_def audit_op_defs)

definition no_casing :: casing where
  "no_casing = \<lparr>toLowerCase = (\<lambda>x. x), toUpperCase = (\<lambda>x. x)\<rparr>"


theorem patient_panel_leaks_nothing_witness:
  "card (as_sources (connect_audit (close_ref (fresh_panel\<lparr>as_panel := True\<rparr>)))) \<le> 1"
proof -
  have "reach audit_init patient_step (connect_audit (close_ref (fresh_panel\<lparr>as_panel := True\<rparr>)))"
    by (rule reach_step [OF reach_init [of audit_init, OF fresh_panel_init], where e = OpenPanel])
       (simp add: patient_step_def audit_step_simps fresh_panel_def)
  from patient_panel_leaks_nothing [OF this] show ?thesis by blast
qed

end
