(* ===== verification/TopologySelection.thy ===== *)
theory TopologySelection
  imports TopologyLaws
begin

text \<open>
  The interaction of \<open>components/admin/live-topology-map.tsx\<close>: selecting nodes, the three ways to
  connect entities on the map, the draft nodes while a form is open, the two edge panels with their
  two-step confirmations, and the requests a confirmation sends. One event is one handler run to
  its end; a request's completion is an event of its own.
\<close>

section \<open>State\<close>

datatype ConnectionMode = RouteFromTenant | TokenFromTenant | TokenFromRoute

record cb_panel =
  cp_routeID :: string
  cp_routeLabel :: string
  cp_tenantLabel :: string
  cp_state :: string
  cp_locked :: bool
  cp_latencyMs :: rat
  cp_scene :: point

record token_panel =
  tp_tokenID :: string
  tp_routeID :: string
  tp_tokenLabel :: string
  tp_routeLabel :: string
  tp_scene :: point

text \<open>A request of the map: method, path below \<open>/api/admin\<close>, JSON body.\<close>

type_synonym map_request = "string \<times> string \<times> json"

record topology_ui =
  ui_snapshot :: TopologySnapshot
  ui_selectedNode :: "(string \<times> string option) option"
  ui_connectionMode :: "ConnectionMode option"
  ui_createTenantOpen :: bool
  ui_createRouteOpen :: bool
  ui_createTokenOpen :: bool
  ui_routeDraftTenantID :: "string option"
  ui_tokenDraftTenantID :: "string option"
  ui_tokenDraftScopes :: "string option"
  ui_editingRouteID :: "string option"
  ui_editingTenantID :: "string option"
  ui_selectedCBEdge :: "cb_panel option"
  ui_isForcingCB :: bool
  ui_pendingCBAction :: "string option"
  ui_selectedTokenEdge :: "token_panel option"
  ui_pendingTokenAction :: "string option"
  ui_isActingOnToken :: bool
  ui_sent :: "map_request list"

section \<open>Handlers\<close>

definition clearConnectionMode :: "topology_ui \<Rightarrow> topology_ui" where
  "clearConnectionMode s = s\<lparr>ui_connectionMode := None, ui_routeDraftTenantID := None,
                            ui_tokenDraftTenantID := None, ui_tokenDraftScopes := None\<rparr>"

definition activateConnectionMode :: "ConnectionMode \<Rightarrow> topology_ui \<Rightarrow> topology_ui" where
  "activateConnectionMode mode s = s\<lparr>ui_selectedNode := None, ui_connectionMode := Some mode,
     ui_routeDraftTenantID := None, ui_tokenDraftTenantID := None, ui_tokenDraftScopes := None\<rparr>"

text \<open>A toolbar button: pressing the active mode again leaves it.\<close>

definition toggleConnectionMode :: "ConnectionMode \<Rightarrow> topology_ui \<Rightarrow> topology_ui" where
  "toggleConnectionMode mode s =
     (if ui_connectionMode s = Some mode then clearConnectionMode s else activateConnectionMode mode s)"

text \<open>\<open>const [kind, id] = node.id.split(":")\<close>.\<close>

fun node_ref :: "string list \<Rightarrow> string \<times> string option" where
  "node_ref (kind # i # _) = (kind, Some i)"
| "node_ref [kind] = (kind, None)"
| "node_ref [] = ([], None)"

definition handleNodeSelect :: "string \<Rightarrow> topology_ui \<Rightarrow> topology_ui" where
  "handleNodeSelect nodeId s =
     (let (kind, i) = node_ref (split_on CHR '':'' nodeId);
          tenant = js_find (\<lambda>t. Some (tn_id t) = i) (ts_tenants (ui_snapshot s));
          route = js_find (\<lambda>r. Some (ro_id r) = i) (ts_routes (ui_snapshot s))
      in if ui_connectionMode s = Some RouteFromTenant \<and> kind = ''tenant'' then
           (case tenant of None \<Rightarrow> s
            | Some t \<Rightarrow> s\<lparr>ui_routeDraftTenantID := Some (tn_tenantID t), ui_createRouteOpen := True,
                         ui_connectionMode := None\<rparr>)
         else if ui_connectionMode s = Some TokenFromTenant \<and> kind = ''tenant'' then
           (case tenant of None \<Rightarrow> s
            | Some t \<Rightarrow> s\<lparr>ui_tokenDraftTenantID := Some (tn_tenantID t), ui_tokenDraftScopes := None,
                         ui_createTokenOpen := True, ui_connectionMode := None\<rparr>)
         else if ui_connectionMode s = Some TokenFromRoute \<and> kind = ''route'' then
           (case route of None \<Rightarrow> s
            | Some r \<Rightarrow> s\<lparr>ui_selectedNode := Some (''route'', Some (ro_id r)),
                         ui_tokenDraftTenantID := Some (ro_tenantID r),
                         ui_tokenDraftScopes := Some (ro_requiredScope r),
                         ui_createTokenOpen := True, ui_connectionMode := None\<rparr>)
         else if kind \<in> {''route'', ''tenant'', ''token''} then
           s\<lparr>ui_selectedNode := (if ui_selectedNode s = Some (kind, i) then None else Some (kind, i))\<rparr>
         else s)"

definition handleNodeDoubleClick :: "string \<Rightarrow> string option" where
  "handleNodeDoubleClick nodeId =
     (let kind = fst (node_ref (split_on CHR '':'' nodeId)) in
      if kind = ''route'' then Some ''/routes'' else if kind = ''tenant'' then Some ''/tenants''
      else if kind = ''token'' then Some ''/tokens'' else None)"

definition closePanels :: "topology_ui \<Rightarrow> topology_ui" where
  "closePanels s = s\<lparr>ui_selectedCBEdge := None, ui_pendingCBAction := None,
                    ui_selectedTokenEdge := None, ui_pendingTokenAction := None\<rparr>"

text \<open>\<open>x.startsWith(p) ? x.slice(p.length) : x\<close>.\<close>

definition strip_prefix :: "string \<Rightarrow> string \<Rightarrow> string" where
  "strip_prefix p x = (if starts_with p x then drop (length p) x else x)"

text \<open>
  Clicking an edge between two nodes: binding edges open the circuit-breaker panel, access edges
  the token panel, others nothing; clicking the edge of an open panel closes it. The code
  recognises the open panel's edge by the position of its badge.
\<close>

definition openEdgePanel :: "GraphEdge \<Rightarrow> GraphNode \<Rightarrow> GraphNode \<Rightarrow> topology_ui \<Rightarrow> topology_ui" where
  "openEdgePanel edge from' to' s =
     (let mid = bezierMidpoint (nd_x from', nd_y from') (nd_x to', nd_y to');
          cbState = nullish (ed_circuitBreakerState edge) ''closed''
      in if ed_kind edge = Binding then
           s\<lparr>ui_selectedTokenEdge := None, ui_pendingTokenAction := None,
             ui_selectedCBEdge :=
               (if map_option cp_scene (ui_selectedCBEdge s) = Some mid then None
                else Some \<lparr>cp_routeID = strip_prefix ''route:'' (nd_id from'), cp_routeLabel = nd_label from',
                           cp_tenantLabel = nd_label to', cp_state = cbState,
                           cp_locked = nullish (ed_circuitBreakerLocked edge) False,
                           cp_latencyMs = nullish (ed_latencyMs edge) 0, cp_scene = mid\<rparr>),
             ui_pendingCBAction := None\<rparr>
         else if ed_kind edge = Access then
           s\<lparr>ui_selectedCBEdge := None, ui_pendingCBAction := None,
             ui_selectedTokenEdge :=
               (if map_option tp_scene (ui_selectedTokenEdge s) = Some mid then None
                else Some \<lparr>tp_tokenID = strip_prefix ''token:'' (nd_id from'),
                           tp_routeID = strip_prefix ''route:'' (nd_id to'), tp_tokenLabel = nd_label from',
                           tp_routeLabel = nd_label to', tp_scene = mid\<rparr>),
             ui_pendingTokenAction := None\<rparr>
         else s)"

text \<open>The requests of the two confirmations.\<close>

definition forceStateRequest :: "string \<Rightarrow> string \<Rightarrow> map_request" where
  "forceStateRequest routeID state =
     (''PATCH'', ''/api/admin/circuit-breakers/'' @ routeID, JObj [(''state'', JStr state)])"

definition tokenActionRequest :: "string \<Rightarrow> string \<Rightarrow> map_request" where
  "tokenActionRequest tokenID action =
     (''PATCH'', ''/api/admin/tokens/'' @ tokenID, JObj [(''active'', JBool (action = ''reactivate''))])"

section \<open>Events\<close>

datatype ui_event =
    NewSnapshot TopologySnapshot
  | NewTenantPressed
  | ModePressed ConnectionMode
  | NodeClicked string
  | BackgroundPressed
  | EdgeClicked GraphEdge GraphNode GraphNode
  | CloseCBPanel | CloseTokenPanel
  | EditRoutePressed | InspectTokenPressed
  | AskCBAction | CancelCBAction | ConfirmCBAction | CBActionDone bool
  | AskTokenAction | CancelTokenAction | ConfirmTokenAction | TokenActionDone bool
  | InspectorNewRoute | InspectorIssueToken | InspectorIssueTokenForRoute
  | InspectorEdit
  | TenantFormOpenChange bool | RouteFormOpenChange bool | TokenFormOpenChange bool
  | RouteOrTokenCreated
  | EditRouteFormClosed | EditTenantFormClosed

text \<open>The tenant, route or token the inspector shows.\<close>

definition inspectedTenant :: "topology_ui \<Rightarrow> TenantSummary option" where
  "inspectedTenant s = (case ui_selectedNode s of
      Some (k, i) \<Rightarrow> if k = ''tenant'' then js_find (\<lambda>t. Some (tn_id t) = i) (ts_tenants (ui_snapshot s)) else None
    | None \<Rightarrow> None)"

definition inspectedRoute :: "topology_ui \<Rightarrow> RouteSummary option" where
  "inspectedRoute s = (case ui_selectedNode s of
      Some (k, i) \<Rightarrow> if k = ''route'' then js_find (\<lambda>r. Some (ro_id r) = i) (ts_routes (ui_snapshot s)) else None
    | None \<Rightarrow> None)"

text \<open>\<open>tokenData?.active ?? true\<close> for the token of the open panel.\<close>

definition panelTokenActive :: "topology_ui \<Rightarrow> token_panel \<Rightarrow> bool" where
  "panelTokenActive s p =
     (case js_find (\<lambda>t. tk_id t = tp_tokenID p) (ts_tokens (ui_snapshot s)) of Some t \<Rightarrow> tk_active t | None \<Rightarrow> True)"

text \<open>
  The handlers of the buttons, one by one. A button that is not on the screen, or disabled, cannot
  be pressed: such an event leaves the state as it is.
\<close>

definition pressNewTenant :: "topology_ui \<Rightarrow> topology_ui" where
  [simp]: "pressNewTenant s = (clearConnectionMode s)\<lparr>ui_createTenantOpen := True\<rparr>"

definition closeCBPanel :: "topology_ui \<Rightarrow> topology_ui" where
  [simp]: "closeCBPanel s = s\<lparr>ui_selectedCBEdge := None, ui_pendingCBAction := None\<rparr>"

definition closeTokenPanel :: "topology_ui \<Rightarrow> topology_ui" where
  [simp]: "closeTokenPanel s = s\<lparr>ui_selectedTokenEdge := None, ui_pendingTokenAction := None\<rparr>"

text \<open>The buttons of the circuit-breaker panel: the question is asked, cancelled or confirmed.\<close>

definition pressEditRoute :: "topology_ui \<Rightarrow> topology_ui" where
  [simp]: "pressEditRoute s =
     (case (ui_selectedCBEdge s, ui_pendingCBAction s) of
        (Some p, None) \<Rightarrow> s\<lparr>ui_selectedCBEdge := None, ui_editingRouteID := Some (cp_routeID p)\<rparr>
      | _ \<Rightarrow> s)"

definition askCBAction :: "topology_ui \<Rightarrow> topology_ui" where
  [simp]: "askCBAction s =
     (case (ui_selectedCBEdge s, ui_pendingCBAction s) of
        (Some p, None) \<Rightarrow> s\<lparr>ui_pendingCBAction := Some (if cp_state p = ''closed'' then ''open'' else ''close'')\<rparr>
      | _ \<Rightarrow> s)"

definition cancelCBAction :: "topology_ui \<Rightarrow> topology_ui" where
  [simp]: "cancelCBAction s = (if ui_selectedCBEdge s = None then s else s\<lparr>ui_pendingCBAction := None\<rparr>)"

definition execForceState :: "topology_ui \<Rightarrow> topology_ui" where
  [simp]: "execForceState s =
     (case (ui_selectedCBEdge s, ui_pendingCBAction s) of
        (Some p, Some a) \<Rightarrow>
          if ui_isForcingCB s then s
          else s\<lparr>ui_isForcingCB := True,
                 ui_sent := ui_sent s @ [forceStateRequest (cp_routeID p) (if a = ''open'' then ''open'' else ''closed'')]\<rparr>
      | _ \<Rightarrow> s)"

text \<open>The part behind its \<open>await\<close>: \<open>answered\<close> tells whether the fetch resolved or threw.\<close>

definition execForceState_end :: "bool \<Rightarrow> topology_ui \<Rightarrow> topology_ui" where
  [simp]: "execForceState_end answered s =
     (if \<not> ui_isForcingCB s then s
      else if answered then s\<lparr>ui_pendingCBAction := None, ui_selectedCBEdge := None, ui_isForcingCB := False\<rparr>
      else s\<lparr>ui_isForcingCB := False\<rparr>)"

text \<open>The buttons of the token panel.\<close>

definition pressInspectToken :: "topology_ui \<Rightarrow> topology_ui" where
  [simp]: "pressInspectToken s =
     (case (ui_selectedTokenEdge s, ui_pendingTokenAction s) of
        (Some p, None) \<Rightarrow> s\<lparr>ui_selectedTokenEdge := None, ui_selectedNode := Some (''token'', Some (tp_tokenID p))\<rparr>
      | _ \<Rightarrow> s)"

definition askTokenAction :: "topology_ui \<Rightarrow> topology_ui" where
  [simp]: "askTokenAction s =
     (case (ui_selectedTokenEdge s, ui_pendingTokenAction s) of
        (Some p, None) \<Rightarrow>
          s\<lparr>ui_pendingTokenAction := Some (if panelTokenActive s p then ''revoke'' else ''reactivate'')\<rparr>
      | _ \<Rightarrow> s)"

definition cancelTokenAction :: "topology_ui \<Rightarrow> topology_ui" where
  [simp]: "cancelTokenAction s = (if ui_selectedTokenEdge s = None then s else s\<lparr>ui_pendingTokenAction := None\<rparr>)"

definition execTokenAction :: "topology_ui \<Rightarrow> topology_ui" where
  [simp]: "execTokenAction s =
     (case (ui_selectedTokenEdge s, ui_pendingTokenAction s) of
        (Some p, Some a) \<Rightarrow>
          if ui_isActingOnToken s then s
          else s\<lparr>ui_isActingOnToken := True, ui_sent := ui_sent s @ [tokenActionRequest (tp_tokenID p) a]\<rparr>
      | _ \<Rightarrow> s)"

definition execTokenAction_end :: "bool \<Rightarrow> topology_ui \<Rightarrow> topology_ui" where
  [simp]: "execTokenAction_end answered s =
     (if \<not> ui_isActingOnToken s then s
      else if answered then s\<lparr>ui_pendingTokenAction := None, ui_selectedTokenEdge := None, ui_isActingOnToken := False\<rparr>
      else s\<lparr>ui_isActingOnToken := False\<rparr>)"

text \<open>The buttons of the inspector.\<close>

definition inspectorNewRoute :: "topology_ui \<Rightarrow> topology_ui" where
  [simp]: "inspectorNewRoute s =
     (case inspectedTenant s of None \<Rightarrow> s
      | Some t \<Rightarrow> (clearConnectionMode s)\<lparr>ui_routeDraftTenantID := Some (tn_tenantID t), ui_createRouteOpen := True\<rparr>)"

definition inspectorIssueToken :: "topology_ui \<Rightarrow> topology_ui" where
  [simp]: "inspectorIssueToken s =
     (case inspectedTenant s of None \<Rightarrow> s
      | Some t \<Rightarrow> (clearConnectionMode s)\<lparr>ui_tokenDraftTenantID := Some (tn_tenantID t),
                    ui_tokenDraftScopes := None, ui_createTokenOpen := True\<rparr>)"

definition inspectorIssueTokenForRoute :: "topology_ui \<Rightarrow> topology_ui" where
  [simp]: "inspectorIssueTokenForRoute s =
     (case inspectedRoute s of None \<Rightarrow> s
      | Some r \<Rightarrow> (clearConnectionMode s)\<lparr>ui_tokenDraftTenantID := Some (ro_tenantID r),
                    ui_tokenDraftScopes := Some (ro_requiredScope r), ui_createTokenOpen := True\<rparr>)"

definition inspectorEdit :: "topology_ui \<Rightarrow> topology_ui" where
  [simp]: "inspectorEdit s =
     (case (inspectedTenant s, inspectedRoute s) of
        (Some t, _) \<Rightarrow> s\<lparr>ui_editingTenantID := Some (tn_id t)\<rparr>
      | (None, Some r) \<Rightarrow> s\<lparr>ui_editingRouteID := Some (ro_id r)\<rparr>
      | (None, None) \<Rightarrow> s)"

text \<open>What the forms tell the map when they open, close and have created something.\<close>

definition routeFormOpenChange :: "bool \<Rightarrow> topology_ui \<Rightarrow> topology_ui" where
  [simp]: "routeFormOpenChange v s =
     (let s' = s\<lparr>ui_createRouteOpen := v\<rparr> in if \<not> v then clearConnectionMode s' else s')"

definition tokenFormOpenChange :: "bool \<Rightarrow> topology_ui \<Rightarrow> topology_ui" where
  [simp]: "tokenFormOpenChange v s =
     (let s' = s\<lparr>ui_createTokenOpen := v\<rparr> in if \<not> v then clearConnectionMode s' else s')"

fun ui_step :: "topology_ui \<Rightarrow> ui_event \<Rightarrow> topology_ui" where
  "ui_step s (NewSnapshot d) = s\<lparr>ui_snapshot := d\<rparr>"
| "ui_step s NewTenantPressed = pressNewTenant s"
| "ui_step s (ModePressed m) = toggleConnectionMode m s"
| "ui_step s (NodeClicked i) = handleNodeSelect i s"
| "ui_step s BackgroundPressed = closePanels s"
| "ui_step s (EdgeClicked e f t) = openEdgePanel e f t s"
| "ui_step s CloseCBPanel = closeCBPanel s"
| "ui_step s CloseTokenPanel = closeTokenPanel s"
| "ui_step s EditRoutePressed = pressEditRoute s"
| "ui_step s InspectTokenPressed = pressInspectToken s"
| "ui_step s AskCBAction = askCBAction s"
| "ui_step s CancelCBAction = cancelCBAction s"
| "ui_step s ConfirmCBAction = execForceState s"
| "ui_step s (CBActionDone answered) = execForceState_end answered s"
| "ui_step s AskTokenAction = askTokenAction s"
| "ui_step s CancelTokenAction = cancelTokenAction s"
| "ui_step s ConfirmTokenAction = execTokenAction s"
| "ui_step s (TokenActionDone answered) = execTokenAction_end answered s"
| "ui_step s InspectorNewRoute = inspectorNewRoute s"
| "ui_step s InspectorIssueToken = inspectorIssueToken s"
| "ui_step s InspectorIssueTokenForRoute = inspectorIssueTokenForRoute s"
| "ui_step s InspectorEdit = inspectorEdit s"
| "ui_step s (TenantFormOpenChange v) = s\<lparr>ui_createTenantOpen := v\<rparr>"
| "ui_step s (RouteFormOpenChange v) = routeFormOpenChange v s"
| "ui_step s (TokenFormOpenChange v) = tokenFormOpenChange v s"
| "ui_step s RouteOrTokenCreated = clearConnectionMode s"
| "ui_step s EditRouteFormClosed = s\<lparr>ui_editingRouteID := None\<rparr>"
| "ui_step s EditTenantFormClosed = s\<lparr>ui_editingTenantID := None\<rparr>"

section \<open>Draft nodes and emphasis\<close>

definition draftNode :: "string \<Rightarrow> string \<Rightarrow> string \<Rightarrow> string \<Rightarrow> rat \<Rightarrow> rat \<Rightarrow> GraphNode" where
  "draftNode i label meta stats x y =
     \<lparr>nd_id = i, nd_kind = DraftNode, nd_label = label, nd_meta = meta, nd_stats = Some stats,
      nd_cbState = None, nd_x = x, nd_y = y, nd_tone = ''var(--warning)''\<rparr>"

definition draftEdge :: "string \<Rightarrow> string \<Rightarrow> string \<Rightarrow> GraphEdge" where
  "draftEdge i f t =
     \<lparr>ed_id = i, ed_from = f, ed_to = t, ed_kind = DraftEdge, ed_hot = True, ed_error = False,
      ed_reachable = None, ed_revoked = None, ed_latencyMs = None, ed_circuitBreakerState = None,
      ed_circuitBreakerLocked = None, ed_label = None\<rparr>"

definition routeDraft :: "browser \<Rightarrow> topology_ui \<Rightarrow> GraphNode list \<times> GraphEdge list" where
  "routeDraft b s =
     (if truthy (ui_routeDraftTenantID s) then
        (let tid = the (ui_routeDraftTenantID s) in
         case tenantNodeByTenantID b (ui_snapshot s) tid of
           None \<Rightarrow> ([], [])
         | Some tNode \<Rightarrow>
             ([draftNode ''draft:route'' ''New route'' (''Linked to '' @ tid) ''Pending route details'' 1220 (nd_y tNode)],
              [draftEdge (''draft-edge:route:'' @ tid) ''draft:route'' (nd_id tNode)]))
      else ([], []))"

definition tokenDraft :: "browser \<Rightarrow> topology_ui \<Rightarrow> GraphNode list \<times> GraphEdge list" where
  "tokenDraft b s =
     (if truthy (ui_tokenDraftTenantID s) then
        (let tid = the (ui_tokenDraftTenantID s);
             tNode = tenantNodeByTenantID b (ui_snapshot s) tid;
             scoped = truthy (ui_tokenDraftScopes s);
             rNode = (case ui_selectedNode s of
                            Some (k, Some i) \<Rightarrow>
                              if k = ''route'' \<and> scoped then routeNodeByRouteID b (ui_snapshot s) i else None
                          | _ \<Rightarrow> None);
             meta = (if scoped then tid @ bullet @ the (ui_tokenDraftScopes s) else ''Linked to '' @ tid);
             stats = (if scoped then ''Will satisfy selected route'' else ''Tenant-scoped credential'');
             y = (case rNode of Some n \<Rightarrow> nd_y n
                  | None \<Rightarrow> (case tNode of Some n \<Rightarrow> nd_y n
                             | None \<Rightarrow> graphSceneHeight (ui_snapshot s) / 2));
             edges = (case rNode of
                        Some n \<Rightarrow> [draftEdge (''draft-edge:token-route:'' @ nd_id n) ''draft:token'' (nd_id n)]
                      | None \<Rightarrow> (case tNode of
                          Some n \<Rightarrow> [draftEdge (''draft-edge:token-tenant:'' @ nd_id n) ''draft:token'' (nd_id n)]
                        | None \<Rightarrow> []))
         in ([draftNode ''draft:token'' ''New token'' meta stats 520 y], edges))
      else ([], []))"

definition draftNodes :: "browser \<Rightarrow> topology_ui \<Rightarrow> GraphNode list" where
  "draftNodes b s = fst (routeDraft b s) @ fst (tokenDraft b s)"

definition draftEdges :: "browser \<Rightarrow> topology_ui \<Rightarrow> GraphEdge list" where
  "draftEdges b s = snd (routeDraft b s) @ snd (tokenDraft b s)"

definition graphNodes :: "browser \<Rightarrow> topology_ui \<Rightarrow> GraphNode list" where
  "graphNodes b s = allNodes b (ui_snapshot s) @ draftNodes b s"

definition graphEdges :: "browser \<Rightarrow> topology_ui \<Rightarrow> GraphEdge list" where
  "graphEdges b s = snapshotEdges b (ui_snapshot s) @ draftEdges b s"

definition selectedNodeId :: "topology_ui \<Rightarrow> string option" where
  "selectedNodeId s =
     map_option (\<lambda>(kind, i). kind @ '':'' @ nullish i ''undefined'') (ui_selectedNode s)"

text \<open>The nodes and edges drawn at full strength while something is selected or drafted.\<close>

definition touching :: "string \<Rightarrow> GraphEdge \<Rightarrow> bool" where
  "touching i e \<longleftrightarrow> ed_from e = i \<or> ed_to e = i"

definition emphasis :: "browser \<Rightarrow> topology_ui \<Rightarrow> string set \<times> string set" where
  "emphasis b s =
     (let chosen = (case selectedNodeId s of
                      None \<Rightarrow> [] | Some i \<Rightarrow> filter (touching i) (snapshotEdges b (ui_snapshot s)));
          edges = chosen @ draftEdges b s
      in (set (map ed_id edges),
          set_option (selectedNodeId s) \<union> set (map nd_id (draftNodes b s))
            \<union> set (map ed_from edges) \<union> set (map ed_to edges)))"

lemma js_map_SomeD: "js_map ps k = Some v \<Longrightarrow> (k, v) \<in> set ps"
  by (auto simp: js_map_def dest: map_of_SomeD)

lemma tenantNodeByTenantID_in:
  "tenantNodeByTenantID b d tid = Some n \<Longrightarrow> n \<in> set (allNodes b d)"
  unfolding tenantNodeByTenantID_def
  by (drule js_map_SomeD) (auto simp: set_map_index allNodes_def tenantNodes_def)

lemma routeNodeByRouteID_in:
  "routeNodeByRouteID b d i = Some n \<Longrightarrow> n \<in> set (allNodes b d)"
  unfolding routeNodeByRouteID_def
  by (drule js_map_SomeD) (auto simp: set_map_index allNodes_def routeNodes_def)

lemma routeDraft_edges:
  assumes "e \<in> set (snd (routeDraft b s))"
  shows "ed_from e \<in> nd_id ` set (fst (routeDraft b s)) \<and> ed_to e \<in> nd_id ` set (allNodes b (ui_snapshot s))"
  using assms tenantNodeByTenantID_in [of b "ui_snapshot s"]
  by (auto simp: routeDraft_def draftEdge_def draftNode_def Let_def split: if_splits option.splits)

lemma tokenDraft_edges:
  assumes "e \<in> set (snd (tokenDraft b s))"
  shows "ed_from e \<in> nd_id ` set (fst (tokenDraft b s)) \<and> ed_to e \<in> nd_id ` set (allNodes b (ui_snapshot s))"
  using assms tenantNodeByTenantID_in [of b "ui_snapshot s"] routeNodeByRouteID_in [of b "ui_snapshot s"]
  by (auto simp: tokenDraft_def draftEdge_def draftNode_def Let_def split: if_splits option.splits)

lemma graph_edge_ends:
  assumes "e \<in> set (graphEdges b s)"
  shows "ed_from e \<in> set (map nd_id (graphNodes b s)) \<and> ed_to e \<in> set (map nd_id (graphNodes b s))"
  using assms snapshot_edge_ends [of e b "ui_snapshot s"] routeDraft_edges [of e b s] tokenDraft_edges [of e b s]
  by (auto simp: graphEdges_def graphNodes_def draftNodes_def draftEdges_def)

section \<open>Invariants of the interaction\<close>

text \<open>
  While a way to connect is armed nothing is drafted; a draft is on the map only while its form is
  open; at most one of the two panels is open, and a question is only asked in its panel.
\<close>

definition ui_inv :: "topology_ui \<Rightarrow> bool" where
  "ui_inv s \<longleftrightarrow>
     (ui_connectionMode s \<noteq> None \<longrightarrow> ui_routeDraftTenantID s = None \<and> ui_tokenDraftTenantID s = None)
     \<and> (ui_routeDraftTenantID s \<noteq> None \<longrightarrow> ui_createRouteOpen s)
     \<and> (ui_tokenDraftTenantID s \<noteq> None \<longrightarrow> ui_createTokenOpen s)
     \<and> (ui_tokenDraftScopes s \<noteq> None \<longrightarrow> ui_tokenDraftTenantID s \<noteq> None)
     \<and> (ui_selectedCBEdge s = None \<or> ui_selectedTokenEdge s = None)
     \<and> (ui_pendingCBAction s \<noteq> None \<longrightarrow> ui_selectedCBEdge s \<noteq> None)
     \<and> (ui_pendingTokenAction s \<noteq> None \<longrightarrow> ui_selectedTokenEdge s \<noteq> None)"

definition ui_init :: "topology_ui \<Rightarrow> bool" where
  "ui_init s \<longleftrightarrow> ui_selectedNode s = None \<and> ui_connectionMode s = None \<and> \<not> ui_createTenantOpen s
     \<and> \<not> ui_createRouteOpen s \<and> \<not> ui_createTokenOpen s \<and> ui_routeDraftTenantID s = None
     \<and> ui_tokenDraftTenantID s = None \<and> ui_tokenDraftScopes s = None \<and> ui_editingRouteID s = None
     \<and> ui_editingTenantID s = None \<and> ui_selectedCBEdge s = None \<and> \<not> ui_isForcingCB s
     \<and> ui_pendingCBAction s = None \<and> ui_selectedTokenEdge s = None \<and> ui_pendingTokenAction s = None
     \<and> \<not> ui_isActingOnToken s \<and> ui_sent s = []"

definition ui_trans :: "topology_ui \<Rightarrow> ui_event \<Rightarrow> topology_ui \<Rightarrow> bool" where
  "ui_trans s e t \<longleftrightarrow> t = ui_step s e"

lemmas ui_handler_defs =
  clearConnectionMode_def activateConnectionMode_def toggleConnectionMode_def closePanels_def
  openEdgePanel_def handleNodeSelect_def

text \<open>The invariant is about these fields only.\<close>

lemma ui_inv_modes:
  "ui_inv s \<Longrightarrow> ui_inv (clearConnectionMode s)"
  "ui_inv s \<Longrightarrow> ui_inv (activateConnectionMode m s)"
  "ui_inv s \<Longrightarrow> ui_inv (closePanels s)"
  "ui_inv s \<Longrightarrow> ui_inv (s\<lparr>ui_selectedNode := n\<rparr>)"
  by (simp_all add: ui_inv_def clearConnectionMode_def activateConnectionMode_def closePanels_def)

lemma ui_inv_toggle: "ui_inv s \<Longrightarrow> ui_inv (toggleConnectionMode m s)"
  by (simp add: toggleConnectionMode_def ui_inv_modes)

lemma ui_inv_select:
  assumes "ui_inv s"
  shows "ui_inv (handleNodeSelect i s)"
proof -
  obtain kind k where ref: "node_ref (split_on CHR '':'' i) = (kind, k)"
    by (cases "node_ref (split_on CHR '':'' i)") auto
  have 1: "ui_inv (s\<lparr>ui_routeDraftTenantID := Some t, ui_createRouteOpen := True, ui_connectionMode := None\<rparr>)"
    if "ui_connectionMode s = Some RouteFromTenant" for t
    using assms that by (auto simp: ui_inv_def)
  have 2: "ui_inv (s\<lparr>ui_tokenDraftTenantID := Some t, ui_tokenDraftScopes := None, ui_createTokenOpen := True,
      ui_connectionMode := None\<rparr>)" if "ui_connectionMode s = Some TokenFromTenant" for t
    using assms that by (auto simp: ui_inv_def)
  have 3: "ui_inv (s\<lparr>ui_selectedNode := n, ui_tokenDraftTenantID := Some t, ui_tokenDraftScopes := Some sc,
      ui_createTokenOpen := True, ui_connectionMode := None\<rparr>)" if "ui_connectionMode s = Some TokenFromRoute" for n t sc
    using assms that by (auto simp: ui_inv_def)
  show ?thesis
    unfolding handleNodeSelect_def ref Let_def prod.case
    using assms 1 2 3 ui_inv_modes(4) by (simp split: option.split)
qed

lemma ui_inv_edge: "ui_inv s \<Longrightarrow> ui_inv (openEdgePanel e f t s)"
  by (simp add: openEdgePanel_def ui_inv_def Let_def)

lemma ui_inv_step:
  assumes "ui_inv s"
  shows "ui_inv (ui_step s e)"
proof (cases e)
  case (NewSnapshot d)
  with assms show ?thesis by (simp add: ui_inv_def)
next
  case NewTenantPressed
  have "ui_inv (s'\<lparr>ui_createTenantOpen := True\<rparr>) = ui_inv s'" for s' by (simp add: ui_inv_def)
  with NewTenantPressed assms show ?thesis by (simp add: ui_inv_modes)
next
  case InspectorNewRoute
  with assms show ?thesis by (simp add: ui_inv_def clearConnectionMode_def split: option.split)
next
  case InspectorIssueToken
  with assms show ?thesis by (simp add: ui_inv_def clearConnectionMode_def split: option.split)
next
  case InspectorIssueTokenForRoute
  with assms show ?thesis by (simp add: ui_inv_def clearConnectionMode_def split: option.split)
next
  case InspectorEdit
  with assms show ?thesis by (simp add: ui_inv_def split: option.split)
next
  case (RouteFormOpenChange v)
  with assms show ?thesis by (cases v) (simp_all add: ui_inv_def clearConnectionMode_def)
next
  case (TokenFormOpenChange v)
  with assms show ?thesis by (cases v) (simp_all add: ui_inv_def clearConnectionMode_def)
next
  case (TenantFormOpenChange v)
  with assms show ?thesis by (simp add: ui_inv_def)
qed (use assms in \<open>simp_all add: ui_inv_modes ui_inv_toggle ui_inv_select ui_inv_edge split: option.split\<close>,
     simp_all add: ui_inv_def, auto)

interpretation topology_ui: invariant ui_init ui_trans ui_inv
proof unfold_locales
  show "ui_inv s" if "ui_init s" for s using that by (simp add: ui_init_def ui_inv_def)
  show "ui_inv t" if "ui_trans s e t" "ui_inv s" for s e t
    using that by (simp add: ui_trans_def ui_inv_step)
qed

section \<open>Properties\<close>

text \<open>C22: However the user works on the map, while a way to connect is armed nothing is drafted, a draft
  is on the map only while its form is open, at most one edge panel is open, and a question is only
  asked in an open panel.\<close>

theorem map_interaction_is_consistent:
  assumes "reach ui_init ui_trans s"
  shows "(ui_connectionMode s \<noteq> None \<longrightarrow> draftNodes b s = [])
     \<and> (fst (routeDraft b s) \<noteq> [] \<longrightarrow> ui_createRouteOpen s)
     \<and> (fst (tokenDraft b s) \<noteq> [] \<longrightarrow> ui_createTokenOpen s)
     \<and> (ui_selectedCBEdge s = None \<or> ui_selectedTokenEdge s = None)
     \<and> (ui_pendingCBAction s \<noteq> None \<longrightarrow> ui_selectedCBEdge s \<noteq> None)
     \<and> (ui_pendingTokenAction s \<noteq> None \<longrightarrow> ui_selectedTokenEdge s \<noteq> None)"
proof -
  have inv: "ui_inv s" using assms by (rule topology_ui.reach_inv)
  have "ui_routeDraftTenantID s = None \<Longrightarrow> fst (routeDraft b s) = []"
    "ui_tokenDraftTenantID s = None \<Longrightarrow> fst (tokenDraft b s) = []"
    by (simp_all add: routeDraft_def tokenDraft_def truthy_def)
  with inv show ?thesis unfolding ui_inv_def draftNodes_def by fastforce
qed


text \<open>A question never carries over to another edge: the question asked after an event was asked in
  the same panel before, or the event asks it in that panel.\<close>

theorem questions_stay_with_their_edge:
  assumes "ui_inv s" and "ui_pendingCBAction (ui_step s e) = Some a"
  shows "ui_selectedCBEdge (ui_step s e) = ui_selectedCBEdge s \<and> ui_selectedCBEdge s \<noteq> None
     \<and> (ui_pendingCBAction s = Some a \<or> e = AskCBAction)"
proof -
  have same: "ui_pendingCBAction (clearConnectionMode s) = ui_pendingCBAction s \<and>
      ui_selectedCBEdge (clearConnectionMode s) = ui_selectedCBEdge s"
    "ui_pendingCBAction (toggleConnectionMode m s) = ui_pendingCBAction s \<and>
      ui_selectedCBEdge (toggleConnectionMode m s) = ui_selectedCBEdge s"
    "ui_pendingCBAction (handleNodeSelect i s) = ui_pendingCBAction s \<and>
      ui_selectedCBEdge (handleNodeSelect i s) = ui_selectedCBEdge s" for m i
    by (simp_all add: clearConnectionMode_def toggleConnectionMode_def activateConnectionMode_def
        handleNodeSelect_def Let_def split: prod.split option.split)
  have edge: "ui_pendingCBAction (openEdgePanel g f t s) = None" if "ed_kind g = Binding \<or> ed_kind g = Access" for g f t
    using that by (auto simp: openEdgePanel_def Let_def)
  have other: "openEdgePanel g f t s = s" if "ed_kind g \<noteq> Binding" "ed_kind g \<noteq> Access" for g f t
    using that by (simp add: openEdgePanel_def Let_def)
  have open': "ui_pendingCBAction s \<noteq> None \<Longrightarrow> ui_selectedCBEdge s \<noteq> None"
    using assms(1) by (simp add: ui_inv_def)
  show ?thesis
  proof (cases "e = AskCBAction")
    case True
    with assms open' show ?thesis by (auto split: option.splits)
  next
    case False
    have "ui_selectedCBEdge (ui_step s e) = ui_selectedCBEdge s \<and> ui_pendingCBAction s = Some a"
    proof (cases e)
      case (EdgeClicked g f t)
      with assms(2) edge [of g f t] other [of g f t] show ?thesis by fastforce
    next
      case (RouteFormOpenChange v)
      with assms(2) show ?thesis by (cases v) (simp_all add: clearConnectionMode_def)
    next
      case (TokenFormOpenChange v)
      with assms(2) show ?thesis by (cases v) (simp_all add: clearConnectionMode_def)
    qed (use assms(2) False same in \<open>simp_all add: closePanels_def split: option.splits if_splits\<close>)
    with open' show ?thesis by simp
  qed
qed

text \<open>C23: Every edge on the map, drafts included, starts and ends at a node on the map.\<close>

theorem map_edges_connect_nodes:
  assumes "e \<in> set (graphEdges b s)"
  shows "ed_from e \<in> set (map nd_id (graphNodes b s)) \<and> ed_to e \<in> set (map nd_id (graphNodes b s))"
  using assms by (rule graph_edge_ends)

text \<open>Arming "Route to tenant" and clicking a tenant opens the route form bound to that tenant and
  disarms; clicking a node twice with nothing armed selects and deselects it.\<close>

theorem connecting_binds_the_clicked_tenant:
  assumes "t \<in> set (ts_tenants (ui_snapshot s))" and "distinct (map tn_id (ts_tenants (ui_snapshot s)))"
    and "CHR '':'' \<notin> set (tn_id t)" and "ui_connectionMode s = None"
  shows "(let s' = ui_step (ui_step s (ModePressed RouteFromTenant)) (NodeClicked (''tenant:'' @ tn_id t)) in
        ui_routeDraftTenantID s' = Some (tn_tenantID t) \<and> ui_createRouteOpen s' \<and> ui_connectionMode s' = None
        \<and> ui_tokenDraftTenantID s' = None)
     \<and> (let s' = ui_step (ui_step s (NodeClicked (''tenant:'' @ tn_id t))) (NodeClicked (''tenant:'' @ tn_id t)) in
        ui_selectedNode s' = (if ui_selectedNode s = Some (''tenant'', Some (tn_id t))
                              then Some (''tenant'', Some (tn_id t)) else None))"
proof -
  have "split_on CHR '':'' (''tenant'' @ CHR '':'' # tn_id t) = [''tenant'', tn_id t]"
    by (subst split_on_append_sep) (simp_all add: split_on_no_sep assms(3))
  then have ref: "node_ref (split_on CHR '':'' (''tenant:'' @ tn_id t)) = (''tenant'', Some (tn_id t))"
    by simp
  have "js_find (\<lambda>t'. Some (tn_id t') = Some (tn_id t)) (ts_tenants (ui_snapshot s)) = Some t"
    using js_find_unique [OF assms(2,1)] by simp
  then show ?thesis
    using assms(4) ref
    by (simp add: toggleConnectionMode_def activateConnectionMode_def handleNodeSelect_def Let_def)
qed

section \<open>Examples and witnesses\<close>

definition exUi :: topology_ui where
  "exUi = \<lparr>ui_snapshot = exGraph, ui_selectedNode = None, ui_connectionMode = None,
     ui_createTenantOpen = False, ui_createRouteOpen = False, ui_createTokenOpen = False,
     ui_routeDraftTenantID = None, ui_tokenDraftTenantID = None, ui_tokenDraftScopes = None,
     ui_editingRouteID = None, ui_editingTenantID = None, ui_selectedCBEdge = None, ui_isForcingCB = False,
     ui_pendingCBAction = None, ui_selectedTokenEdge = None, ui_pendingTokenAction = None,
     ui_isActingOnToken = False, ui_sent = []\<rparr>"

definition exPanel :: "string \<Rightarrow> cb_panel" where
  "exPanel r = \<lparr>cp_routeID = r, cp_routeLabel = r, cp_tenantLabel = ''acme'', cp_state = ''closed'',
     cp_locked = False, cp_latencyMs = 0, cp_scene = (0, 0)\<rparr>"

definition exAsking :: topology_ui where
  "exAsking = exUi\<lparr>ui_selectedCBEdge := Some (exPanel ''ra''), ui_pendingCBAction := Some ''open''\<rparr>"

lemma exUi_init: "ui_init exUi"
  by (simp add: ui_init_def exUi_def)

lemma exUi_step_reach: "reach ui_init ui_trans (ui_step exUi e)"
  by (rule reach_step [OF reach_init [of ui_init, OF exUi_init], where e = e]) (simp add: ui_trans_def)

theorem map_interaction_is_consistent_witness:
  "ui_connectionMode (ui_step exUi (ModePressed TokenFromRoute)) = Some TokenFromRoute
   \<and> draftNodes exBrowser (ui_step exUi (ModePressed TokenFromRoute)) = []"
  using map_interaction_is_consistent [OF exUi_step_reach [of "ModePressed TokenFromRoute"], of exBrowser]
  by (simp add: exUi_def toggleConnectionMode_def activateConnectionMode_def)


theorem questions_stay_with_their_edge_witness:
  "ui_selectedCBEdge (ui_step (exAsking\<lparr>ui_pendingCBAction := None\<rparr>) AskCBAction) = Some (exPanel ''ra'')"
proof -
  have "ui_inv (exAsking\<lparr>ui_pendingCBAction := None\<rparr>)"
    by (simp add: ui_inv_def exAsking_def exUi_def)
  moreover have "ui_pendingCBAction (ui_step (exAsking\<lparr>ui_pendingCBAction := None\<rparr>) AskCBAction) = Some ''open''"
    by (simp add: exAsking_def exPanel_def)
  ultimately have "ui_selectedCBEdge (ui_step (exAsking\<lparr>ui_pendingCBAction := None\<rparr>) AskCBAction)
      = ui_selectedCBEdge (exAsking\<lparr>ui_pendingCBAction := None\<rparr>)"
    using questions_stay_with_their_edge by blast
  then show ?thesis by (simp add: exAsking_def)
qed

theorem map_edges_connect_nodes_witness:
  "\<exists>e \<in> set (graphEdges exBrowser exUi). ed_from e = ''route:ra''
     \<and> ''route:ra'' \<in> set (map nd_id (graphNodes exBrowser exUi))"
proof -
  obtain e where e: "e \<in> set (tenantEdges exBrowser exGraph)" "ed_from e = ''route:ra''" "ed_to e = ''tenant:nacme''"
    by (rule exGraph_bindingE [of "''route:ra''" "''tenant:nacme''"]) (simp_all add: exGraph_binding)
  then have "e \<in> set (graphEdges exBrowser exUi)" by (simp add: graphEdges_def snapshotEdges_def exUi_def)
  with e map_edges_connect_nodes [OF this] show ?thesis by metis
qed

theorem connecting_binds_the_clicked_tenant_witness:
  "ui_routeDraftTenantID (ui_step (ui_step exUi (ModePressed RouteFromTenant)) (NodeClicked ''tenant:nacme'')) = Some ''acme''"
proof -
  have "exTenant ''acme'' \<in> set (ts_tenants (ui_snapshot exUi))"
    "distinct (map tn_id (ts_tenants (ui_snapshot exUi)))"
    "CHR '':'' \<notin> set (tn_id (exTenant ''acme''))" "ui_connectionMode exUi = None"
    by (simp_all add: exUi_def exGraph_def exSnapshot_def exTenant_def)
  from connecting_binds_the_clicked_tenant [OF this] show ?thesis
    by (simp add: exTenant_def Let_def)
qed

text \<open>A confirmation that is still running when the user opens another edge's panel closes that other
  panel when it completes.\<close>

theorem late_completion_closes_another_panel:
  "\<exists>s t e f g p. ui_inv s \<and> ui_pendingCBAction s = Some ''open''
     \<and> run ui_trans s [ConfirmCBAction, EdgeClicked e f g] t
     \<and> ui_selectedCBEdge t = Some p \<and> Some p \<noteq> ui_selectedCBEdge s
     \<and> ui_selectedCBEdge (ui_step t (CBActionDone True)) = None"
proof -
  let ?f = "routeNode exBrowser exGraph (exRoute ''b'' ''acme'') 2"
  let ?g = "tenantNode exGraph (exTenant ''acme'') 0"
  let ?e = "(draftEdge [] [] [])\<lparr>ed_kind := Binding\<rparr>"
  let ?t = "ui_step (ui_step exAsking ConfirmCBAction) (EdgeClicked ?e ?f ?g)"
  have inv: "ui_inv exAsking" by (simp add: ui_inv_def exAsking_def exUi_def)
  have x: "nd_x ?f = 920" "nd_x ?g = 1600" "nd_id ?f = ''route:rb''"
    by (simp_all add: routeNode_def tenantNode_def Let_def lane_defs exRoute_def)
  have "fst (bezierMidpoint (nd_x ?f, nd_y ?f) (nd_x ?g, nd_y ?g)) \<noteq> 0"
    by (simp add: bezierMidpoint_mean x)
  then have mid: "(0, 0) \<noteq> bezierMidpoint (nd_x ?f, nd_y ?f) (nd_x ?g, nd_y ?g)"
    by (metis fst_conv)
  have asking: "ui_selectedCBEdge exAsking = Some (exPanel ''ra'')" "ui_pendingCBAction exAsking = Some ''open''"
    "\<not> ui_isForcingCB exAsking" "cp_scene (exPanel ''ra'') = (0, 0)" "cp_routeID (exPanel ''ra'') = ''ra''"
    by (simp_all add: exAsking_def exUi_def exPanel_def)
  then obtain p where p: "ui_selectedCBEdge ?t = Some p" "cp_routeID p = strip_prefix ''route:'' ''route:rb''"
    using mid x(3) by (simp add: openEdgePanel_def Let_def draftEdge_def)
  have "cp_routeID p = ''rb''" using p(2) by (simp add: strip_prefix_def starts_with_def)
  then have "Some p \<noteq> ui_selectedCBEdge exAsking" using asking by auto
  moreover have "ui_isForcingCB ?t"
    using asking by (simp add: openEdgePanel_def Let_def draftEdge_def)
  then have "ui_selectedCBEdge (ui_step ?t (CBActionDone True)) = None" by simp
  moreover have "run ui_trans exAsking [ConfirmCBAction, EdgeClicked ?e ?f ?g] ?t"
    unfolding run_Cons_simp ui_trans_def by blast
  ultimately show ?thesis using inv p(1) asking(2) by blast
qed

text \<open>The panel of a revoked token offers the way back and sends it, although the panel of an active
  one warns that revoking cannot be undone.\<close>

theorem revoked_token_can_be_reactivated:
  assumes "ui_selectedTokenEdge s = Some p" and "ui_pendingTokenAction s = None"
    and "\<not> panelTokenActive s p" and "\<not> ui_isActingOnToken s"
  shows "ui_sent (ui_step (ui_step s AskTokenAction) ConfirmTokenAction) =
     ui_sent s @ [(''PATCH'', ''/api/admin/tokens/'' @ tp_tokenID p, JObj [(''active'', JBool True)])]"
  using assms by (simp add: tokenActionRequest_def)

definition exRevoked :: topology_ui where
  "exRevoked = exUi\<lparr>ui_snapshot := exSnapshot [] [] [(exToken ''1'' ''acme'' [])\<lparr>tk_active := False\<rparr>] [],
     ui_selectedTokenEdge := Some \<lparr>tp_tokenID = ''t1'', tp_routeID = ''ra'', tp_tokenLabel = ''1'',
       tp_routeLabel = ''a'', tp_scene = (0, 0)\<rparr>\<rparr>"

theorem revoked_token_can_be_reactivated_witness:
  "ui_sent (ui_step (ui_step exRevoked AskTokenAction) ConfirmTokenAction) =
     [(''PATCH'', ''/api/admin/tokens/t1'', JObj [(''active'', JBool True)])]"
proof -
  obtain p where p: "ui_selectedTokenEdge exRevoked = Some p" "tp_tokenID p = ''t1''"
    by (simp add: exRevoked_def)
  then have "\<not> panelTokenActive exRevoked p"
    by (simp add: panelTokenActive_def exRevoked_def exSnapshot_def exToken_def js_find_def)
  moreover have "ui_pendingTokenAction exRevoked = None" "\<not> ui_isActingOnToken exRevoked" "ui_sent exRevoked = []"
    by (simp_all add: exRevoked_def exUi_def)
  ultimately show ?thesis
    using revoked_token_can_be_reactivated [OF p(1)] p(2) by (simp del: ui_step.simps)
qed

end
