(* ===== verification/FormsRouting.thy ===== *)
theory FormsRouting
  imports Wizard Contracts
begin

text \<open>
  The forms for routes and tenants: \<open>components/admin/create-route-form.tsx\<close>,
  \<open>update-route-form.tsx\<close>, \<open>create-tenant-form.tsx\<close> and \<open>update-tenant-form.tsx\<close>, each as its fields,
  its inputs with the step they stand on, the conditions of its buttons, its request and what it does
  with the answer. The machine over them is the one of theory Wizard.
\<close>

section \<open>Routes\<close>

record route_fields =
  rf_slug :: string
  rf_tenantID :: string
  rf_upstreamURL :: string
  rf_healthCheckPath :: string
  rf_targetPath :: string
  rf_requiredScope :: string
  rf_methods :: string
  rf_rateLimitRPM :: rat
  rf_rateLimitBurst :: rat
  rf_allowCIDRs :: string
  rf_denyCIDRs :: string

text \<open>The name typed into the create form is kept beside the fields.\<close>

record create_route_fields = route_fields +
  rf_slugName :: string

record create_route_props =
  cr_existingSlugs :: "string list"
  cr_tenants :: "TenantSummary list"
  cr_initialTenantID :: "string option"

definition createRoute_fresh :: "create_route_props \<Rightarrow> create_route_fields" where
  "createRoute_fresh p = \<lparr>rf_slug = [], rf_tenantID = nullish (cr_initialTenantID p) [], rf_upstreamURL = [],
     rf_healthCheckPath = [], rf_targetPath = ''/'', rf_requiredScope = [], rf_methods = ''POST'',
     rf_rateLimitRPM = 0, rf_rateLimitBurst = 0, rf_allowCIDRs = [], rf_denyCIDRs = [], rf_slugName = []\<rparr>"

subsection \<open>The name of a route\<close>

definition lower_alnum :: "char \<Rightarrow> bool" where
  "lower_alnum c \<longleftrightarrow> (let n = (of_char c :: nat) in 48 \<le> n \<and> n \<le> 57 \<or> 97 \<le> n \<and> n \<le> 122)"

definition slug_char :: "char \<Rightarrow> bool" where
  "slug_char c \<longleftrightarrow> lower_alnum c \<or> c = CHR ''_'' \<or> c = CHR ''-''"

definition ascii_lower :: "char \<Rightarrow> char" where
  "ascii_lower c = (let n = (of_char c :: nat) in if 65 \<le> n \<and> n \<le> 90 then char_of (n + 32) else c)"

text \<open>
  \<open>v.toLowerCase().replace(/[^a-z0-9_-]/g, "")\<close>. The only characters outside ASCII whose lower case has
  an ASCII letter are U+0130 (an i with a combining dot) and the Kelvin sign U+212A.
\<close>

fun slug_input :: "string \<Rightarrow> string" where
  "slug_input [] = []"
| "slug_input (a # s) =
     (case s of
        b # s' \<Rightarrow>
          if (of_char a :: nat) = 196 \<and> (of_char b :: nat) = 176 then CHR ''i'' # slug_input s'
          else (case s' of
                  c # s'' \<Rightarrow>
                    if (of_char a :: nat) = 226 \<and> (of_char b :: nat) = 132 \<and> (of_char c :: nat) = 170
                    then CHR ''k'' # slug_input s''
                    else if slug_char (ascii_lower a) then ascii_lower a # slug_input s else slug_input s
                | [] \<Rightarrow> if slug_char (ascii_lower a) then ascii_lower a # slug_input s else slug_input s)
      | [] \<Rightarrow> if slug_char (ascii_lower a) then [ascii_lower a] else [])"

text \<open>\<open>SLUG_NAME_RE\<close>.\<close>

definition slug_name_re :: "string \<Rightarrow> bool" where
  "slug_name_re s = (case s of [] \<Rightarrow> False | c # cs \<Rightarrow> lower_alnum c \<and> list_all slug_char cs)"

definition fullSlug :: "create_route_fields \<Rightarrow> string" where
  "fullSlug f = (if rf_tenantID f \<noteq> [] \<and> rf_slugName f \<noteq> [] then rf_tenantID f @ ''/'' @ rf_slugName f
                 else rf_slugName f)"

definition slugNameInvalid :: "create_route_fields \<Rightarrow> bool" where
  "slugNameInvalid f \<longleftrightarrow> rf_slugName f \<noteq> [] \<and> \<not> slug_name_re (rf_slugName f)"

definition slugTaken :: "create_route_props \<Rightarrow> create_route_fields \<Rightarrow> bool" where
  "slugTaken p f \<longleftrightarrow> rf_slugName f \<noteq> [] \<and> fullSlug f \<in> set (cr_existingSlugs p)"

definition slugError :: "create_route_props \<Rightarrow> create_route_fields \<Rightarrow> string option" where
  "slugError p f =
     (if slugNameInvalid f then Some ''Only lowercase letters, numbers, hyphens and underscores allowed.''
      else if slugTaken p f then Some ''This slug is already taken.'' else None)"

definition slugValid :: "create_route_props \<Rightarrow> create_route_fields \<Rightarrow> bool" where
  "slugValid p f \<longleftrightarrow> rf_slugName f \<noteq> [] \<and> \<not> slugNameInvalid f \<and> \<not> slugTaken p f"

subsection \<open>Inputs, buttons and request\<close>

datatype route_input =
    InTenant string | InSlug string
  | InUpstreamURL string | InTargetPath string | InHealthCheckPath string | InRequiredScope string | InMethods string
  | InRPM string | InBurst string | InAllowCIDRs string | InDenyCIDRs string

text \<open>The inputs of the second and third step, the same in both forms.\<close>

fun route_edit :: "route_input \<Rightarrow> 'a route_fields_scheme \<Rightarrow> 'a route_fields_scheme" where
  "route_edit (InTenant v) f = f\<lparr>rf_tenantID := v\<rparr>"
| "route_edit (InSlug v) f = f\<lparr>rf_slug := v\<rparr>"
| "route_edit (InUpstreamURL v) f = f\<lparr>rf_upstreamURL := v\<rparr>"
| "route_edit (InTargetPath v) f = f\<lparr>rf_targetPath := v\<rparr>"
| "route_edit (InHealthCheckPath v) f = f\<lparr>rf_healthCheckPath := v\<rparr>"
| "route_edit (InRequiredScope v) f = f\<lparr>rf_requiredScope := v\<rparr>"
| "route_edit (InMethods v) f = f\<lparr>rf_methods := v\<rparr>"
| "route_edit (InRPM v) f = f\<lparr>rf_rateLimitRPM := number_or v 0\<rparr>"
| "route_edit (InBurst v) f = f\<lparr>rf_rateLimitBurst := number_or v 0\<rparr>"
| "route_edit (InAllowCIDRs v) f = f\<lparr>rf_allowCIDRs := v\<rparr>"
| "route_edit (InDenyCIDRs v) f = f\<lparr>rf_denyCIDRs := v\<rparr>"

fun route_input_step :: "route_input \<Rightarrow> nat" where
  "route_input_step (InTenant v) = 0"
| "route_input_step (InSlug v) = 0"
| "route_input_step (InUpstreamURL v) = 1"
| "route_input_step (InTargetPath v) = 1"
| "route_input_step (InHealthCheckPath v) = 1"
| "route_input_step (InRequiredScope v) = 1"
| "route_input_step (InMethods v) = 1"
| "route_input_step (InRPM v) = 2"
| "route_input_step (InBurst v) = 2"
| "route_input_step (InAllowCIDRs v) = 2"
| "route_input_step (InDenyCIDRs v) = 2"

text \<open>Choosing a tenant clears the name, which can only be typed once a tenant is chosen.\<close>

fun createRoute_edit :: "route_input \<Rightarrow> create_route_props \<Rightarrow> create_route_fields \<Rightarrow> create_route_fields" where
  "createRoute_edit (InTenant v) p f = f\<lparr>rf_tenantID := v, rf_slugName := []\<rparr>"
| "createRoute_edit (InSlug v) p f = (if rf_tenantID f = [] then f else f\<lparr>rf_slugName := slug_input v\<rparr>)"
| "createRoute_edit e p f = route_edit e f"

definition createRoute_next :: "create_route_props \<Rightarrow> nat \<Rightarrow> create_route_fields \<Rightarrow> bool" where
  "createRoute_next p i f =
     (if i = 0 then slugValid p f \<and> rf_tenantID f \<noteq> []
      else \<not> (blank (rf_upstreamURL f) \<or> blank (rf_targetPath f) \<or> blank (rf_requiredScope f) \<or> blank (rf_methods f)))"

definition route_payload :: "string \<Rightarrow> 'a route_fields_scheme \<Rightarrow> json" where
  "route_payload slug f = json_object
     [(''slug'', Some (JStr slug)), (''tenantID'', Some (JStr (rf_tenantID f))),
      (''upstreamURL'', Some (JStr (rf_upstreamURL f))),
      (''healthCheckPath'', str_or_undefined (rf_healthCheckPath f)),
      (''targetPath'', Some (JStr (rf_targetPath f))), (''requiredScope'', Some (JStr (rf_requiredScope f))),
      (''methods'', Some (JStr (rf_methods f))),
      (''rateLimitRPM'', num_or_undefined (rf_rateLimitRPM f)),
      (''rateLimitBurst'', num_or_undefined (rf_rateLimitBurst f)),
      (''allowCIDRs'', str_or_undefined (rf_allowCIDRs f)), (''denyCIDRs'', str_or_undefined (rf_denyCIDRs f))]"

definition createRoute_request :: "create_route_props \<Rightarrow> create_route_fields \<Rightarrow> client_call" where
  "createRoute_request p f = (''POST'', ''/api/admin/routes'', route_payload (fullSlug f) f)"

definition createRoute_accepted ::
  "create_route_props \<Rightarrow> create_route_fields \<Rightarrow> json \<Rightarrow> (create_route_props, create_route_fields) modal
   \<Rightarrow> (create_route_props, create_route_fields) modal" where
  "createRoute_accepted p f result s =
     (let slug = or_json (jprop result ''slug'') (JStr (fullSlug f))
      in done_close ''Route registered'' [JStr ''/proxy/'', slug] (Some slug) s)"

definition createRoute :: "(create_route_props, create_route_fields, route_input) form" where
  "createRoute = \<lparr>fo_fresh = createRoute_fresh, fo_last = 2, fo_edit = createRoute_edit, fo_at = route_input_step,
     fo_next = createRoute_next, fo_submit = (\<lambda>p f. True), fo_request = createRoute_request,
     fo_refused = (\<lambda>r. Some (error_or r ''Failed to create route.'')), fo_accepted = createRoute_accepted\<rparr>"

text \<open>The edit form: the slug is typed as it is, and its Continue buttons are never disabled.\<close>

record update_route_props =
  ur_route :: RouteSummary
  ur_tenants :: "TenantSummary list"

definition updateRoute_fresh :: "update_route_props \<Rightarrow> route_fields" where
  "updateRoute_fresh p =
     (let r = ur_route p in
      \<lparr>rf_slug = ro_slug r, rf_tenantID = ro_tenantID r, rf_upstreamURL = ro_upstreamURL r,
       rf_healthCheckPath = or_str (ro_healthCheckPath r) [], rf_targetPath = or_str (Some (ro_targetPath r)) ''/'',
       rf_requiredScope = ro_requiredScope r, rf_methods = join_with '', '' (ro_methods r),
       rf_rateLimitRPM = of_int (ro_rateLimitRPM r), rf_rateLimitBurst = of_int (ro_rateLimitBurst r),
       rf_allowCIDRs = ro_allowCIDRs r, rf_denyCIDRs = ro_denyCIDRs r\<rparr>)"

definition updateRoute_request :: "update_route_props \<Rightarrow> route_fields \<Rightarrow> client_call" where
  "updateRoute_request p f =
     (''PATCH'', ''/api/admin/routes/'' @ ro_id (ur_route p), route_payload (rf_slug f) f)"

definition updateRoute_accepted ::
  "update_route_props \<Rightarrow> route_fields \<Rightarrow> json \<Rightarrow> (update_route_props, route_fields) modal
   \<Rightarrow> (update_route_props, route_fields) modal" where
  "updateRoute_accepted p f result s = done_close ''Route updated'' [JStr (''/proxy/'' @ rf_slug f)] None s"

definition updateRoute :: "(update_route_props, route_fields, route_input) form" where
  "updateRoute = \<lparr>fo_fresh = updateRoute_fresh, fo_last = 2, fo_edit = (\<lambda>e p. route_edit e), fo_at = route_input_step,
     fo_next = (\<lambda>p i f. True), fo_submit = (\<lambda>p f. True), fo_request = updateRoute_request,
     fo_refused = (\<lambda>r. error_in r ''Route update failed''), fo_accepted = updateRoute_accepted\<rparr>"

section \<open>Tenants\<close>

record tenant_fields =
  tf_name :: string
  tf_tenantID :: string
  tf_authMode :: string
  tf_headerName :: string

datatype tenant_input = InTenantName string | InTenantID string | InAuthMode string | InHeaderName string

fun tenant_edit :: "tenant_input \<Rightarrow> tenant_fields \<Rightarrow> tenant_fields" where
  "tenant_edit (InTenantName v) f = f\<lparr>tf_name := v\<rparr>"
| "tenant_edit (InTenantID v) f = f\<lparr>tf_tenantID := v\<rparr>"
| "tenant_edit (InAuthMode v) f = f\<lparr>tf_authMode := v\<rparr>"
| "tenant_edit (InHeaderName v) f = f\<lparr>tf_headerName := v\<rparr>"

fun tenant_input_step :: "tenant_input \<Rightarrow> nat" where
  "tenant_input_step (InTenantName v) = 0"
| "tenant_input_step (InTenantID v) = 0"
| "tenant_input_step (InAuthMode v) = 1"
| "tenant_input_step (InHeaderName v) = 1"

definition createTenant_fresh :: tenant_fields where
  "createTenant_fresh = \<lparr>tf_name = [], tf_tenantID = [], tf_authMode = ''header'', tf_headerName = ''X-Scope-OrgID''\<rparr>"

definition tenant_payload :: "tenant_fields \<Rightarrow> json" where
  "tenant_payload f = json_object
     [(''name'', Some (JStr (tf_name f))), (''tenantID'', Some (JStr (tf_tenantID f))),
      (''headerName'', Some (JStr (tf_headerName f))), (''authMode'', Some (JStr (tf_authMode f)))]"

definition createTenant_next :: "unit \<Rightarrow> nat \<Rightarrow> tenant_fields \<Rightarrow> bool" where
  "createTenant_next p i f \<longleftrightarrow> \<not> blank (tf_name f) \<and> \<not> blank (tf_tenantID f)"

definition tenant_submit :: "'p \<Rightarrow> tenant_fields \<Rightarrow> bool" where
  "tenant_submit p f \<longleftrightarrow> \<not> blank (tf_headerName f)"

text \<open>\<open>tenant.name\<close> throws if the answer is \<open>null\<close>.\<close>

definition createTenant_accepted ::
  "unit \<Rightarrow> tenant_fields \<Rightarrow> json \<Rightarrow> (unit, tenant_fields) modal \<Rightarrow> (unit, tenant_fields) modal" where
  "createTenant_accepted p f tenant s =
     (if tenant = JNull then crash s
      else done_close ''Tenant created'' (case jprop tenant ''name'' of None \<Rightarrow> [] | Some n \<Rightarrow> [n]) (Some tenant) s)"

definition createTenant :: "(unit, tenant_fields, tenant_input) form" where
  "createTenant = \<lparr>fo_fresh = (\<lambda>_. createTenant_fresh), fo_last = 1, fo_edit = (\<lambda>e p. tenant_edit e),
     fo_at = tenant_input_step, fo_next = createTenant_next, fo_submit = tenant_submit,
     fo_request = (\<lambda>p f. (''POST'', ''/api/admin/tenants'', tenant_payload f)),
     fo_refused = (\<lambda>r. error_in r ''Tenant creation failed''), fo_accepted = createTenant_accepted\<rparr>"

definition updateTenant_fresh :: "TenantSummary \<Rightarrow> tenant_fields" where
  "updateTenant_fresh t = \<lparr>tf_name = tn_name t, tf_tenantID = tn_tenantID t,
     tf_authMode = or_str (Some (tn_authMode t)) ''header'',
     tf_headerName = or_str (Some (tn_headerName t)) ''X-Scope-OrgID''\<rparr>"

definition updateTenant_request :: "TenantSummary \<Rightarrow> tenant_fields \<Rightarrow> client_call" where
  "updateTenant_request t f = (''PATCH'', ''/api/admin/tenants/'' @ tn_id t, json_object
     [(''name'', Some (JStr (tf_name f))), (''tenantID'', Some (JStr (tf_tenantID f))),
      (''authMode'', Some (JStr (tf_authMode f))), (''headerName'', Some (JStr (tf_headerName f)))])"

definition updateTenant :: "(TenantSummary, tenant_fields, tenant_input) form" where
  "updateTenant = \<lparr>fo_fresh = updateTenant_fresh, fo_last = 1, fo_edit = (\<lambda>e p. tenant_edit e),
     fo_at = tenant_input_step, fo_next = (\<lambda>p i f. True), fo_submit = tenant_submit,
     fo_request = updateTenant_request, fo_refused = (\<lambda>r. error_in r ''Tenant update failed''),
     fo_accepted = (\<lambda>p f r. done_close ''Tenant updated'' [JStr (tf_tenantID f)] None)\<rparr>"

section \<open>What the forms make sure of\<close>

text \<open>What the first two steps of the create form have made sure of, and the first one for tenants.\<close>

definition route_ok :: "nat \<Rightarrow> create_route_fields \<Rightarrow> bool" where
  "route_ok i f \<longleftrightarrow>
     (if i = 0 then rf_tenantID f \<noteq> [] \<and> slug_name_re (rf_slugName f)
      else \<not> blank (rf_upstreamURL f) \<and> \<not> blank (rf_targetPath f) \<and> \<not> blank (rf_requiredScope f)
           \<and> \<not> blank (rf_methods f))"

definition tenant_ok :: "nat \<Rightarrow> tenant_fields \<Rightarrow> bool" where
  "tenant_ok i f \<longleftrightarrow> \<not> blank (tf_name f) \<and> \<not> blank (tf_tenantID f)"

lemma route_edit_frame [simp]:
  "rf_tenantID (route_edit e f) = (case e of InTenant v \<Rightarrow> v | _ \<Rightarrow> rf_tenantID f)"
  "rf_upstreamURL (route_edit e f) = (case e of InUpstreamURL v \<Rightarrow> v | _ \<Rightarrow> rf_upstreamURL f)"
  "rf_targetPath (route_edit e f) = (case e of InTargetPath v \<Rightarrow> v | _ \<Rightarrow> rf_targetPath f)"
  "rf_requiredScope (route_edit e f) = (case e of InRequiredScope v \<Rightarrow> v | _ \<Rightarrow> rf_requiredScope f)"
  "rf_methods (route_edit e f) = (case e of InMethods v \<Rightarrow> v | _ \<Rightarrow> rf_methods f)"
  by (cases e; simp)+

interpretation create_route: checked_form createRoute route_ok "\<lambda>f. True"
proof unfold_locales
  show "route_ok i f" if "fo_next createRoute p i f" for p i f
    using that by (auto simp: createRoute_def createRoute_next_def route_ok_def slugValid_def slugNameInvalid_def
        split: if_splits)
  show "route_ok i (fo_edit createRoute e p f)" if "route_ok i f" "i < fo_at createRoute e" for i f e p
    using that by (cases e) (auto simp: createRoute_def route_ok_def split: if_splits)
qed (simp_all add: createRoute_def createRoute_accepted_def Let_def)

interpretation create_tenant: checked_form createTenant tenant_ok "\<lambda>f. True"
proof unfold_locales
  show "tenant_ok i f" if "fo_next createTenant p i f" for p i f
    using that by (simp add: createTenant_def createTenant_next_def tenant_ok_def)
  show "tenant_ok i (fo_edit createTenant e p f)" if "tenant_ok i f" "i < fo_at createTenant e" for i f e p
    using that by (cases e) (auto simp: createTenant_def tenant_ok_def)
qed (simp_all add: createTenant_def createTenant_accepted_def)

text \<open>The edit forms let everything through.\<close>

interpretation update_route: checked_form updateRoute "\<lambda>i f. True" "\<lambda>f. True"
  by unfold_locales (simp_all add: updateRoute_def updateRoute_accepted_def)

interpretation update_tenant: checked_form updateTenant "\<lambda>i f. True" "\<lambda>f. True"
  by unfold_locales (simp_all add: updateTenant_def)

section \<open>Properties\<close>


text \<open>The name field takes over only what can stand in a name, so the only name it can show that the
  pattern refuses starts with a hyphen or an underscore.\<close>

lemma slug_input_chars: "list_all slug_char (slug_input v)"
proof (induction v rule: slug_input.induct)
  case (2 a s)
  have ik: "slug_char CHR ''i''" "slug_char CHR ''k''" by code_simp+
  show ?case
  proof (cases s)
    case Nil
    then show ?thesis by simp
  next
    case (Cons b s')
    show ?thesis
    proof (cases s')
      case Nil
      with Cons 2 ik show ?thesis by simp
    next
      case c: (Cons c s'')
      with Cons 2 ik show ?thesis by simp
    qed
  qed
qed simp

theorem typed_names_are_cleaned:
  "slug_input v = [] \<or> slug_name_re (slug_input v) \<or> hd (slug_input v) = CHR ''_'' \<or> hd (slug_input v) = CHR ''-''"
  using slug_input_chars [of v] by (cases "slug_input v") (auto simp: slug_name_re_def slug_char_def)

text \<open>C25: Opening the edit form of a route and submitting it as it is sends the route back unchanged.\<close>

theorem unchanged_route_is_sent_back:
  assumes "ro_targetPath (ur_route p) \<noteq> []"
  shows "\<exists>body. sent_calls (form_run updateRoute (form_start updateRoute q)
       [NewProps p, TriggerPressed, ContinuePressed, ContinuePressed, SubmitPressed])
       = [(''PATCH'', ''/api/admin/routes/'' @ ro_id (ur_route p), body)]
     \<and> jprop body ''slug'' = Some (JStr (ro_slug (ur_route p)))
     \<and> jprop body ''tenantID'' = Some (JStr (ro_tenantID (ur_route p)))
     \<and> jprop body ''upstreamURL'' = Some (JStr (ro_upstreamURL (ur_route p)))
     \<and> jprop body ''targetPath'' = Some (JStr (ro_targetPath (ur_route p)))
     \<and> jprop body ''requiredScope'' = Some (JStr (ro_requiredScope (ur_route p)))
     \<and> jprop body ''methods'' = Some (JStr (join_with '', '' (ro_methods (ur_route p))))
     \<and> nullish (jprop body ''rateLimitRPM'') (JNum 0) = JNum (of_int (ro_rateLimitRPM (ur_route p)))
     \<and> nullish (jprop body ''rateLimitBurst'') (JNum 0) = JNum (of_int (ro_rateLimitBurst (ur_route p)))
     \<and> nullish (jprop body ''allowCIDRs'') (JStr []) = JStr (ro_allowCIDRs (ur_route p))
     \<and> nullish (jprop body ''denyCIDRs'') (JStr []) = JStr (ro_denyCIDRs (ur_route p))
     \<and> nullish (jprop body ''healthCheckPath'') (JStr []) = JStr (or_str (ro_healthCheckPath (ur_route p)) [])"
proof -
  have sent: "sent_calls (form_run updateRoute (form_start updateRoute q)
       [NewProps p, TriggerPressed, ContinuePressed, ContinuePressed, SubmitPressed])
       = [updateRoute_request p (updateRoute_fresh p)]"
    by (simp add: form_start_def updateRoute_def handleOpenChange_def goNext_def handleSubmit_def emit_def
        sent_calls_def)
  show ?thesis
    unfolding sent using assms
    by (simp add: updateRoute_request_def updateRoute_fresh_def route_payload_def jprop_json_object
        str_or_undefined_def num_or_undefined_def Let_def)
qed

text \<open>A create form that its parent opens is not reset: after a successful submission it comes up again on
  its last step with the previous route still in it, ready to be submitted once more.\<close>

theorem parent_reopens_previous_route:
  assumes "md_pending s = Some f" and "md_fields s = f" and "md_step s = 2" and "\<not> md_crashed s"
    and "md_issued s = None"
  shows "(let t = form_run createRoute s [Answered (Answer True r), ParentOpened] in
       md_open t \<and> md_fields t = f \<and> md_step t = 2
       \<and> sent_calls (form_step createRoute t SubmitPressed) = sent_calls s @ [createRoute_request (md_props s) f])"
  using assms
  by (simp add: submitted_def createRoute_def createRoute_accepted_def Let_def handleSubmit_def)

section \<open>Witnesses\<close>

definition exRouteProps :: create_route_props where
  "exRouteProps = \<lparr>cr_existingSlugs = [], cr_tenants = [], cr_initialTenantID = None\<rparr>"

text \<open>A user filling in the create form.\<close>

definition fillRoute :: "string \<Rightarrow> string \<Rightarrow> string \<Rightarrow> string \<Rightarrow> (create_route_props, route_input) form_event list" where
  "fillRoute tid name up scope =
    [TriggerPressed, Edited (InTenant tid), Edited (InSlug name), ContinuePressed,
     Edited (InUpstreamURL up), Edited (InRequiredScope scope), ContinuePressed, SubmitPressed]"

lemma fillRoute_run:
  assumes "tid \<noteq> []" "slug_input name = n" "slug_name_re n" "\<not> blank up" "\<not> blank scope"
    "\<not> blank ''/''" "\<not> blank ''POST''" "cr_existingSlugs p = []"
  shows "form_run createRoute (form_start createRoute p) (fillRoute tid name up scope) =
    (let f = (createRoute_fresh p)\<lparr>rf_tenantID := tid, rf_slugName := n, rf_upstreamURL := up, rf_requiredScope := scope\<rparr> in
     (form_start createRoute p)\<lparr>md_open := True, md_fields := f, md_step := 2, md_pending := Some f,
       md_log := [Sent (createRoute_request p f)]\<rparr>)"
proof -
  have "n \<noteq> []" using assms(3) by (auto simp: slug_name_re_def)
  with assms show ?thesis
    by (simp add: fillRoute_def createRoute_def form_start_def handleOpenChange_def goNext_def
      handleSubmit_def emit_def createRoute_fresh_def createRoute_next_def slugValid_def
      slugNameInvalid_def slugTaken_def numeral_2_eq_2 Let_def)
qed

definition exSubmitting :: "(create_route_props, create_route_fields) modal" where
  "exSubmitting = form_run createRoute (form_start createRoute exRouteProps)
     (fillRoute ''acme'' ''Loki Write!'' ''http://up'' ''w'')"

lemma exSubmitting_facts:
  "sent_calls exSubmitting \<noteq> []" "md_pending exSubmitting = Some (md_fields exSubmitting)"
  "md_step exSubmitting = 2" "\<not> md_crashed exSubmitting" "md_issued exSubmitting = None"
proof -
  have "slug_input ''Loki Write!'' = ''lokiwrite''" "slug_name_re ''lokiwrite''"
    "\<not> blank ''http://up''" "\<not> blank ''w''" "\<not> blank ''/''" "\<not> blank ''POST''"
    by code_simp+
  note eq = fillRoute_run [OF _ this, of "''acme''" exRouteProps, folded exSubmitting_def]
  have ex: "exSubmitting = (let f = (createRoute_fresh exRouteProps)\<lparr>rf_tenantID := ''acme'', rf_slugName := ''lokiwrite'',
        rf_upstreamURL := ''http://up'', rf_requiredScope := ''w''\<rparr> in
     (form_start createRoute exRouteProps)\<lparr>md_open := True, md_fields := f, md_step := 2, md_pending := Some f,
       md_log := [Sent (createRoute_request exRouteProps f)]\<rparr>)"
    by (rule eq) (simp_all add: exRouteProps_def)
  show "sent_calls exSubmitting \<noteq> []" "md_pending exSubmitting = Some (md_fields exSubmitting)"
    "md_step exSubmitting = 2" "\<not> md_crashed exSubmitting" "md_issued exSubmitting = None"
    unfolding ex by (simp_all add: Let_def sent_calls_def form_start_def)
qed


definition exRoute0 :: RouteSummary where
  "exRoute0 = \<lparr>ro_id = ''r1'', ro_slug = ''a'', ro_targetPath = ''/'', ro_tenantID = ''t'',
     ro_upstreamURL = ''u'', ro_healthCheckPath = None, ro_requiredScope = ''w'', ro_methods = [''GET'', ''PUT''],
     ro_rateLimitRPM = 60, ro_rateLimitBurst = 0, ro_allowCIDRs = [], ro_denyCIDRs = [],
     ro_circuitBreakerState = None, ro_circuitBreakerLocked = None\<rparr>"

theorem unchanged_route_is_sent_back_witness:
  "\<exists>body. jprop body ''methods'' = Some (JStr ''GET, PUT'') \<and> nullish (jprop body ''rateLimitRPM'') (JNum 0) = JNum 60
     \<and> nullish (jprop body ''rateLimitBurst'') (JNum 0) = JNum 0"
proof -
  let ?p = "\<lparr>ur_route = exRoute0, ur_tenants = []\<rparr>"
  have "ro_targetPath (ur_route ?p) \<noteq> []" by (simp add: exRoute0_def)
  from unchanged_route_is_sent_back [OF this, of ?p] obtain body where
    "jprop body ''methods'' = Some (JStr (join_with '', '' (ro_methods (ur_route ?p))))"
    "nullish (jprop body ''rateLimitRPM'') (JNum 0) = JNum (of_int (ro_rateLimitRPM (ur_route ?p)))"
    "nullish (jprop body ''rateLimitBurst'') (JNum 0) = JNum (of_int (ro_rateLimitBurst (ur_route ?p)))"
    by blast
  moreover have "join_with '', '' (ro_methods (ur_route ?p)) = ''GET, PUT''" "ro_rateLimitRPM (ur_route ?p) = 60"
    "ro_rateLimitBurst (ur_route ?p) = 0"
    by (simp_all add: exRoute0_def)
  ultimately show ?thesis by (intro exI [of _ body]) simp
qed

theorem parent_reopens_previous_route_witness:
  "md_open (form_run createRoute exSubmitting [Answered (Answer True JNull), ParentOpened])
   \<and> md_step (form_run createRoute exSubmitting [Answered (Answer True JNull), ParentOpened]) = 2"
  using parent_reopens_previous_route [OF exSubmitting_facts(2) refl exSubmitting_facts(3-5), of JNull, unfolded Let_def]
  by blast

end
