(* ===== verification/FormsCredentials.thy ===== *)
theory FormsCredentials
  imports Wizard
begin

text \<open>
  The forms that issue credentials, \<open>components/admin/create-token-form.tsx\<close> and
  \<open>create-grant-form.tsx\<close>: two steps, a secret that is shown after the answer, and a refresh of the
  page put off until the modal is closed.
\<close>

section \<open>Expiry\<close>

text \<open>Parsing a local time and printing an instant are the platform's; an invalid date is \<open>None\<close>.\<close>

record date_lib =
  date_parse :: "string \<Rightarrow> int option"
  date_iso :: "int \<Rightarrow> string"

definition toApiExpiry :: "date_lib \<Rightarrow> string \<Rightarrow> string" where
  "toApiExpiry D value =
     (let trimmed = trim value in
      if trimmed = [] then trimmed
      else case date_parse D trimmed of Some t \<Rightarrow> date_iso D t | None \<Rightarrow> trimmed)"

section \<open>Tokens\<close>

record token_props =
  tp_tenantIDs :: "string list"
  tp_initialTenantID :: "string option"
  tp_initialScopes :: "string option"
  tp_dates :: date_lib

record credential_fields =
  cf_name :: string
  cf_tenantID :: string
  cf_scopes :: string
  cf_expiresAt :: string
  cf_rateLimitRPM :: rat
  cf_rateLimitBurst :: rat

definition createToken_fresh :: "token_props \<Rightarrow> credential_fields" where
  "createToken_fresh p = \<lparr>cf_name = [], cf_tenantID = nullish (tp_initialTenantID p) [],
     cf_scopes = nullish (tp_initialScopes p) [], cf_expiresAt = [], cf_rateLimitRPM = 0, cf_rateLimitBurst = 0\<rparr>"

datatype credential_input =
    InName string | InTenantID string | InScopes string
  | InExpiresAt string | InRPM string | InBurst string

fun credential_edit :: "credential_input \<Rightarrow> 'a credential_fields_scheme \<Rightarrow> 'a credential_fields_scheme" where
  "credential_edit (InName v) f = f\<lparr>cf_name := v\<rparr>"
| "credential_edit (InTenantID v) f = f\<lparr>cf_tenantID := v\<rparr>"
| "credential_edit (InScopes v) f = f\<lparr>cf_scopes := v\<rparr>"
| "credential_edit (InExpiresAt v) f = f\<lparr>cf_expiresAt := v\<rparr>"
| "credential_edit (InRPM v) f = f\<lparr>cf_rateLimitRPM := number_or v 0\<rparr>"
| "credential_edit (InBurst v) f = f\<lparr>cf_rateLimitBurst := number_or v 0\<rparr>"

fun credential_input_step :: "credential_input \<Rightarrow> nat" where
  "credential_input_step (InName v) = 0"
| "credential_input_step (InTenantID v) = 0"
| "credential_input_step (InScopes v) = 0"
| "credential_input_step (InExpiresAt v) = 1"
| "credential_input_step (InRPM v) = 1"
| "credential_input_step (InBurst v) = 1"

definition credential_next :: "'a credential_fields_scheme \<Rightarrow> bool" where
  "credential_next f \<longleftrightarrow> \<not> (blank (cf_name f) \<or> cf_tenantID f = [] \<or> blank (cf_scopes f))"

definition credential_submit :: "'a credential_fields_scheme \<Rightarrow> bool" where
  "credential_submit f \<longleftrightarrow> \<not> blank (cf_expiresAt f)"

definition token_payload :: "token_props \<Rightarrow> credential_fields \<Rightarrow> json" where
  "token_payload p f = json_object
     [(''name'', Some (JStr (cf_name f))), (''tenantID'', Some (JStr (cf_tenantID f))),
      (''scopes'', Some (JStr (cf_scopes f))), (''expiresAt'', Some (JStr (toApiExpiry (tp_dates p) (cf_expiresAt f)))),
      (''rateLimitRPM'', num_or_undefined (cf_rateLimitRPM f)),
      (''rateLimitBurst'', num_or_undefined (cf_rateLimitBurst f))]"

definition createToken :: "(token_props, credential_fields, credential_input) form" where
  "createToken = \<lparr>fo_fresh = createToken_fresh, fo_last = 1, fo_edit = (\<lambda>e p. credential_edit e),
     fo_at = credential_input_step, fo_next = (\<lambda>p i. credential_next), fo_submit = (\<lambda>p. credential_submit),
     fo_request = (\<lambda>p f. (''POST'', ''/api/admin/tokens'', token_payload p f)),
     fo_refused = (\<lambda>r. error_in r ''Token issue failed''),
     fo_accepted = (\<lambda>p f. done_secret ''Token issued'' ''token'' True)\<rparr>"

section \<open>Grants\<close>

record grant_fields = credential_fields +
  gf_tokenTTLHours :: rat
  gf_maxUses :: rat

definition createGrant_fresh :: grant_fields where
  "createGrant_fresh = \<lparr>cf_name = [], cf_tenantID = [], cf_scopes = [], cf_expiresAt = [],
     cf_rateLimitRPM = 0, cf_rateLimitBurst = 0, gf_tokenTTLHours = 720, gf_maxUses = 10\<rparr>"

datatype grant_input = Common credential_input | InTokenTTLHours string | InMaxUses string

fun grant_edit :: "grant_input \<Rightarrow> grant_fields \<Rightarrow> grant_fields" where
  "grant_edit (Common e) f = credential_edit e f"
| "grant_edit (InTokenTTLHours v) f = f\<lparr>gf_tokenTTLHours := number_or v 720\<rparr>"
| "grant_edit (InMaxUses v) f = f\<lparr>gf_maxUses := number_or v 10\<rparr>"

fun grant_input_step :: "grant_input \<Rightarrow> nat" where
  "grant_input_step (Common e) = credential_input_step e"
| "grant_input_step (InTokenTTLHours v) = 1"
| "grant_input_step (InMaxUses v) = 1"

text \<open>\<open>n || d\<close> on numbers.\<close>

definition num_or :: "rat \<Rightarrow> rat \<Rightarrow> rat" where
  "num_or n d = (if n = 0 then d else n)"

definition grant_payload :: "date_lib \<Rightarrow> grant_fields \<Rightarrow> json" where
  "grant_payload D f = json_object
     [(''name'', Some (JStr (cf_name f))), (''tenantID'', Some (JStr (cf_tenantID f))),
      (''scopes'', Some (JStr (cf_scopes f))), (''expiresAt'', Some (JStr (toApiExpiry D (cf_expiresAt f)))),
      (''tokenTTLHours'', Some (JNum (num_or (gf_tokenTTLHours f) 720))),
      (''maxUses'', Some (JNum (num_or (gf_maxUses f) 10))),
      (''rateLimitRPM'', num_or_undefined (cf_rateLimitRPM f)),
      (''rateLimitBurst'', num_or_undefined (cf_rateLimitBurst f))]"

definition createGrantForm :: "(date_lib, grant_fields, grant_input) form" where
  "createGrantForm = \<lparr>fo_fresh = (\<lambda>_. createGrant_fresh), fo_last = 1, fo_edit = (\<lambda>e p. grant_edit e),
     fo_at = grant_input_step, fo_next = (\<lambda>p i. credential_next), fo_submit = (\<lambda>p. credential_submit),
     fo_request = (\<lambda>p f. (''POST'', ''/api/admin/grants'', grant_payload p f)),
     fo_refused = (\<lambda>r. error_in r ''Grant creation failed''),
     fo_accepted = (\<lambda>p f. done_secret ''Grant created'' ''grant'' False)\<rparr>"

section \<open>What the forms make sure of\<close>

lemma credential_edit_next:
  "credential_next f \<Longrightarrow> 0 < credential_input_step e \<Longrightarrow> credential_next (credential_edit e f)"
  by (cases e) (simp_all add: credential_next_def)

interpretation create_token: checked_form createToken "\<lambda>i. credential_next" "\<lambda>f. True"
proof unfold_locales
  show "credential_next (fo_edit createToken e p f)" if "credential_next f" "i < fo_at createToken e" for i :: nat and f e p
    using that credential_edit_next [of f e] by (simp add: createToken_def)
qed (simp_all add: createToken_def)

text \<open>A grant always has a lifetime and a number of uses that are not zero.\<close>

definition grant_good :: "grant_fields \<Rightarrow> bool" where
  "grant_good f \<longleftrightarrow> gf_tokenTTLHours f \<noteq> 0 \<and> gf_maxUses f \<noteq> 0"

lemma number_or_nonzero: "d \<noteq> 0 \<Longrightarrow> number_or v d \<noteq> 0"
  by (simp add: number_or_def split: option.split)

lemma credential_edit_more [simp]:
  "gf_tokenTTLHours (credential_edit e f) = gf_tokenTTLHours f" "gf_maxUses (credential_edit e f) = gf_maxUses f"
  by (cases e; simp)+

interpretation create_grant: checked_form createGrantForm "\<lambda>i. credential_next" grant_good
proof unfold_locales
  show "credential_next (fo_edit createGrantForm e p f)" if "credential_next f" "i < fo_at createGrantForm e" for i :: nat and f e p
    using that credential_edit_next [of f] by (cases e) (auto simp: createGrantForm_def credential_next_def)
  show "grant_good (fo_edit createGrantForm e p f)" if "grant_good f" for f e p
    using that by (cases e) (auto simp: createGrantForm_def grant_good_def number_or_nonzero)
qed (simp_all add: createGrantForm_def grant_good_def createGrant_fresh_def)

section \<open>Properties\<close>

text \<open>Every grant the form asks for has a name, a tenant, scopes and an expiry, all filled in, and a
  lifetime and a number of uses that are not zero.\<close>

theorem issued_credentials_are_complete:
  assumes "reach (form_init createGrantForm) (form_trans createGrantForm) s" and "c \<in> set (sent_calls s)"
  shows "\<exists>body name tid scopes ttl uses. c = (''POST'', ''/api/admin/grants'', body)
     \<and> jprop body ''name'' = Some (JStr name) \<and> \<not> blank name
     \<and> jprop body ''tenantID'' = Some (JStr tid) \<and> tid \<noteq> []
     \<and> jprop body ''scopes'' = Some (JStr scopes) \<and> \<not> blank scopes
     \<and> (\<exists>D v. jprop body ''expiresAt'' = Some (JStr (toApiExpiry D v)) \<and> \<not> blank v)
     \<and> jprop body ''tokenTTLHours'' = Some (JNum ttl) \<and> ttl \<noteq> 0
     \<and> jprop body ''maxUses'' = Some (JNum uses) \<and> uses \<noteq> 0"
proof -
  obtain p f where c: "c = fo_request createGrantForm p f" and good: "grant_good f" and sub: "fo_submit createGrantForm p f"
    and passed: "\<And>i. i < fo_last createGrantForm \<Longrightarrow> credential_next f"
    by (rule create_grant.sent_checked [OF assms]) blast
  have f: "credential_next f" "grant_good f" using passed [of 0] good by (simp_all add: createGrantForm_def)
  have c': "c = (''POST'', ''/api/admin/grants'', grant_payload p f)" by (simp add: c createGrantForm_def)
  have e: "\<not> blank (cf_expiresAt f)" using sub by (simp add: createGrantForm_def credential_submit_def)
  show ?thesis
    unfolding c'
    by (rule exI [of _ "grant_payload p f"], rule exI [of _ "cf_name f"], rule exI [of _ "cf_tenantID f"],
        rule exI [of _ "cf_scopes f"], rule exI [of _ "gf_tokenTTLHours f"], rule exI [of _ "gf_maxUses f"])
       (use f e in \<open>auto simp: grant_payload_def jprop_json_object credential_next_def grant_good_def num_or_def\<close>)
qed

text \<open>A token is shown with its secret until the modal is closed, at which the page is refreshed exactly once;
  a user who opens the form again does not see the secret any more.\<close>

theorem secret_is_forgotten:
  assumes "md_pending s = Some f" and "md_open s" and "\<not> md_crashed s"
    and "jprop issued ''token'' = Some (JObj t)"
  shows "(let s1 = form_step createToken s (Answered (Answer True issued));
             s2 = form_step createToken s1 DialogClosed;
             s3 = form_step createToken s2 TriggerPressed
          in md_issued s1 = Some issued \<and> form_step createToken s1 SubmitPressed = s1
             \<and> md_log s2 = md_log s1 @ [Refreshed] \<and> form_step createToken s2 DialogClosed = s2
             \<and> md_issued s3 = None \<and> md_open s3)"
proof -
  have "issued \<noteq> JNull" using assms(4) by auto
  with assms show ?thesis
    by (simp add: createToken_def submitted_def done_secret_def closeModal_def handleOpenChange_def emit_def Let_def)
qed

text \<open>A parent that opens the form, as the topology map does, brings the last secret up again, and it does so
  whatever tenant and scopes the parent has meanwhile chosen for the new token.\<close>

theorem parent_reopens_with_secret:
  assumes "md_pending s = Some f" and "md_open s" and "\<not> md_crashed s"
    and "jprop issued ''token'' = Some (JObj t)"
  shows "(let u = form_run createToken s [Answered (Answer True issued), DialogClosed, NewProps p, ParentOpened]
          in md_open u \<and> md_issued u = Some issued \<and> md_fields u = md_fields s)"
proof -
  have "issued \<noteq> JNull" using assms(4) by auto
  with assms show ?thesis
    by (simp add: createToken_def submitted_def done_secret_def closeModal_def emit_def Let_def)
qed

section \<open>Witnesses\<close>

definition exDates :: date_lib where
  "exDates = \<lparr>date_parse = (\<lambda>_. Some 0), date_iso = (\<lambda>_. ''1970-01-01T00:00:00.000Z'')\<rparr>"

definition exTokenProps :: token_props where
  "exTokenProps = \<lparr>tp_tenantIDs = [''t''], tp_initialTenantID = None, tp_initialScopes = None, tp_dates = exDates\<rparr>"

definition exGrantRun :: "(date_lib, grant_fields) modal" where
  "exGrantRun = form_run createGrantForm (form_start createGrantForm exDates)
     [TriggerPressed, Edited (Common (InName ''n'')), Edited (Common (InTenantID ''t'')),
      Edited (Common (InScopes ''s'')), ContinuePressed, Edited (Common (InExpiresAt ''x'')), SubmitPressed]"

lemma exGrantRun_sent: "sent_calls exGrantRun \<noteq> []"
proof -
  have "\<not> blank ''n''" "\<not> blank ''s''" "\<not> blank ''x''" by code_simp+
  then show ?thesis
    by (simp add: exGrantRun_def createGrantForm_def form_start_def createGrant_fresh_def handleOpenChange_def goNext_def
        handleSubmit_def emit_def credential_next_def credential_submit_def sent_calls_def)
qed

theorem issued_credentials_are_complete_witness:
  "\<exists>c \<in> set (sent_calls exGrantRun). \<exists>ttl. jprop (snd (snd c)) ''tokenTTLHours'' = Some (JNum ttl) \<and> ttl \<noteq> 0"
proof -
  obtain c where c: "c \<in> set (sent_calls exGrantRun)"
    using exGrantRun_sent by (cases "sent_calls exGrantRun") auto
  have "reach (form_init createGrantForm) (form_trans createGrantForm) exGrantRun"
    unfolding exGrantRun_def by (rule form_run_reach) (rule form_start_reach)
  from issued_credentials_are_complete [OF this c] obtain body ttl where
    "c = (''POST'', ''/api/admin/grants'', body)" "jprop body ''tokenTTLHours'' = Some (JNum ttl)" "ttl \<noteq> 0"
    by blast
  with c show ?thesis by (metis snd_conv)
qed

text \<open>A form waiting for the answer.\<close>

definition exWaiting :: "(token_props, credential_fields) modal" where
  "exWaiting = (form_start createToken exTokenProps)\<lparr>md_open := True, md_step := 1,
     md_pending := Some (createToken_fresh exTokenProps)\<rparr>"

definition exIssued :: json where
  "exIssued = JObj [(''token'', JObj [(''name'', JStr ''n'')]), (''secret'', JStr ''s3cret'')]"

lemma exWaiting_facts:
  "md_pending exWaiting = Some (createToken_fresh exTokenProps)" "md_open exWaiting" "\<not> md_crashed exWaiting"
  "jprop exIssued ''token'' = Some (JObj [(''name'', JStr ''n'')])"
  by (simp_all add: exWaiting_def exIssued_def form_start_def)

theorem secret_is_forgotten_witness:
  "md_issued (form_step createToken exWaiting (Answered (Answer True exIssued))) = Some exIssued"
  using secret_is_forgotten [OF exWaiting_facts, unfolded Let_def] by blast

theorem parent_reopens_with_secret_witness:
  "md_issued (form_run createToken exWaiting
      [Answered (Answer True exIssued), DialogClosed, NewProps exTokenProps, ParentOpened]) = Some exIssued"
  using parent_reopens_with_secret [OF exWaiting_facts, of exTokenProps, unfolded Let_def] by blast

end
