(* ===== verification/FormsOnMap.thy ===== *)
theory FormsOnMap
  imports TopologySelection FormsRouting FormsCredentials
begin

text \<open>
  The topology map and the forms it opens: \<open>CreateRouteForm\<close> and \<open>CreateTokenForm\<close> are mounted once
  with the map, get the drafted tenant and scopes as props and are opened and closed by the map
  (\<open>isOpen\<close>). The modal of the component library calls \<open>onOpenChange\<close> for what the user does to it and
  not when its parent changes \<open>isOpen\<close>.
\<close>

text \<open>The props the map gives to the two forms.\<close>

definition mapRouteProps :: "topology_ui \<Rightarrow> create_route_props" where
  "mapRouteProps s = \<lparr>cr_existingSlugs = [], cr_tenants = ts_tenants (ui_snapshot s),
     cr_initialTenantID = ui_routeDraftTenantID s\<rparr>"

definition mapTokenProps :: "date_lib \<Rightarrow> topology_ui \<Rightarrow> token_props" where
  "mapTokenProps D s = \<lparr>tp_tenantIDs = map tn_tenantID (ts_tenants (ui_snapshot s)),
     tp_initialTenantID = ui_tokenDraftTenantID s, tp_initialScopes = ui_tokenDraftScopes s, tp_dates = D\<rparr>"

text \<open>The map after an event, as the route form sees it: new props, and the open flag if it has changed.\<close>

definition mapRouteEvents :: "topology_ui \<Rightarrow> topology_ui \<Rightarrow> (create_route_props, route_input) form_event list" where
  "mapRouteEvents s t = NewProps (mapRouteProps t)
     # (if ui_createRouteOpen t \<and> \<not> ui_createRouteOpen s then [ParentOpened] else [])"

definition mapTokenEvents ::
  "date_lib \<Rightarrow> topology_ui \<Rightarrow> topology_ui \<Rightarrow> (token_props, credential_input) form_event list" where
  "mapTokenEvents D s t = NewProps (mapTokenProps D t)
     # (if ui_createTokenOpen t \<and> \<not> ui_createTokenOpen s then [ParentOpened] else [])"

text \<open>The map and its two forms, advanced together.\<close>

record map_with_forms =
  mf_map :: topology_ui
  mf_route :: "(create_route_props, create_route_fields) modal"
  mf_token :: "(token_props, credential_fields) modal"

definition map_event :: "date_lib \<Rightarrow> map_with_forms \<Rightarrow> ui_event \<Rightarrow> map_with_forms" where
  "map_event D m e =
     (let s = mf_map m; t = ui_step s e in
      \<lparr>mf_map = t, mf_route = form_run createRoute (mf_route m) (mapRouteEvents s t),
       mf_token = form_run createToken (mf_token m) (mapTokenEvents D s t)\<rparr>)"

definition mounted_map :: "date_lib \<Rightarrow> topology_ui \<Rightarrow> map_with_forms" where
  "mounted_map D s = \<lparr>mf_map = s, mf_route = form_start createRoute (mapRouteProps s),
     mf_token = form_start createToken (mapTokenProps D s)\<rparr>"

text \<open>No event of the map ever reaches the fields of its forms.\<close>

lemma form_run_parent:
  "md_fields (form_run F f (NewProps p # (if c then [ParentOpened] else []))) = md_fields f"
  by simp

lemma map_event_fields:
  "md_fields (mf_route (map_event D m e)) = md_fields (mf_route m)"
  "md_fields (mf_token (map_event D m e)) = md_fields (mf_token m)"
  unfolding map_event_def mapRouteEvents_def mapTokenEvents_def Let_def map_with_forms.simps
  by (rule form_run_parent)+

text \<open>"Route to tenant ... opens a route modal already bound to that tenant": after arming it and clicking a
  tenant the map has drafted a route for this tenant and the form is open, but no tenant is chosen in the
  form, and its first step cannot be left.\<close>

theorem drafted_route_form_is_not_bound:
  assumes "t \<in> set (ts_tenants (ui_snapshot s))" and "distinct (map tn_id (ts_tenants (ui_snapshot s)))"
    and "CHR '':'' \<notin> set (tn_id t)" and "ui_init s"
  shows "(let m = map_event D (map_event D (mounted_map D s) (ModePressed RouteFromTenant))
                    (NodeClicked (''tenant:'' @ tn_id t)) in
      ui_routeDraftTenantID (mf_map m) = Some (tn_tenantID t)
      \<and> cr_initialTenantID (md_props (mf_route m)) = Some (tn_tenantID t)
      \<and> md_open (mf_route m) \<and> rf_tenantID (md_fields (mf_route m)) = []
      \<and> form_step createRoute (mf_route m) ContinuePressed = mf_route m)"
proof -
  let ?m1 = "map_event D (mounted_map D s) (ModePressed RouteFromTenant)"
  let ?m = "map_event D ?m1 (NodeClicked (''tenant:'' @ tn_id t))"
  let ?s1 = "ui_step s (ModePressed RouteFromTenant)"
  have maps: "mf_map ?m1 = ?s1" "mf_map ?m = ui_step ?s1 (NodeClicked (''tenant:'' @ tn_id t))"
    by (simp_all add: map_event_def mounted_map_def Let_def)
  have none: "ui_connectionMode s = None" and closed: "\<not> ui_createRouteOpen s" and no_draft: "ui_routeDraftTenantID s = None"
    using assms(4) by (simp_all add: ui_init_def)
  have step: "ui_routeDraftTenantID (mf_map ?m) = Some (tn_tenantID t)" "ui_createRouteOpen (mf_map ?m)"
    using connecting_binds_the_clicked_tenant [OF assms(1-3) none] unfolding maps Let_def by blast+
  have closed1: "\<not> ui_createRouteOpen ?s1"
    using closed by (simp add: toggleConnectionMode_def activateConnectionMode_def clearConnectionMode_def)
  have alive: "\<not> md_crashed (mf_route ?m1)" "md_step (mf_route ?m1) = 0"
    by (simp_all add: map_event_def mounted_map_def mapRouteEvents_def form_start_def Let_def)
  have form: "mf_route ?m = form_run createRoute (mf_route ?m1) (mapRouteEvents ?s1 (mf_map ?m))"
    by (simp add: map_event_def mounted_map_def Let_def)
  have ev: "mapRouteEvents ?s1 (mf_map ?m) = [NewProps (mapRouteProps (mf_map ?m)), ParentOpened]"
    using closed1 step(2) by (simp only: mapRouteEvents_def) simp
  have st: "md_open (mf_route ?m)" "md_props (mf_route ?m) = mapRouteProps (mf_map ?m)" "md_step (mf_route ?m) = 0"
    unfolding form ev using alive by simp_all
  have "md_fields (mf_route ?m) = createRoute_fresh (mapRouteProps s)"
    unfolding map_event_fields by (simp add: mounted_map_def form_start_def createRoute_def)
  then have tid: "rf_tenantID (md_fields (mf_route ?m)) = []"
    by (simp add: createRoute_fresh_def mapRouteProps_def no_draft)
  then have "form_step createRoute (mf_route ?m) ContinuePressed = mf_route ?m"
    using st(3) by (simp add: createRoute_def createRoute_next_def)
  with step st tid show ?thesis by (simp add: Let_def mapRouteProps_def)
qed

theorem drafted_route_form_is_not_bound_witness:
  "rf_tenantID (md_fields (mf_route (map_event exDates (map_event exDates (mounted_map exDates exUi)
      (ModePressed RouteFromTenant)) (NodeClicked ''tenant:nacme'')))) = []"
proof -
  have t: "exTenant ''acme'' \<in> set (ts_tenants (ui_snapshot exUi))"
    "distinct (map tn_id (ts_tenants (ui_snapshot exUi)))" "CHR '':'' \<notin> set (tn_id (exTenant ''acme''))"
    "''tenant:'' @ tn_id (exTenant ''acme'') = ''tenant:nacme''"
    by (simp_all add: exUi_def exGraph_def exSnapshot_def exTenant_def)
  have "ui_init exUi" by (simp add: ui_init_def exUi_def)
  from drafted_route_form_is_not_bound [OF t(1-3) this, of exDates, unfolded Let_def t(4)] show ?thesis by blast
qed

end
