(* ===== verification/FormsApps.thy ===== *)
theory FormsApps
  imports Wizard
begin

text \<open>
  The forms for protected apps: the four steps of \<open>components/admin/create-app-modal.tsx\<close> and the
  single page of \<open>edit-app-modal.tsx\<close>, with the editors of the header rules they share.
\<close>

section \<open>Header rules\<close>

record HeaderRule =
  hr_name :: string
  hr_value :: string

text \<open>The editor of the injected headers: rules are added empty and changed or removed by position.\<close>

definition addRule :: "HeaderRule list \<Rightarrow> HeaderRule list" where
  "addRule rules = rules @ [\<lparr>hr_name = [], hr_value = []\<rparr>]"

fun removeAt :: "nat \<Rightarrow> 'a list \<Rightarrow> 'a list" where
  "removeAt i [] = []"
| "removeAt 0 (x # xs) = xs"
| "removeAt (Suc i) (x # xs) = x # removeAt i xs"

definition updateRuleName :: "nat \<Rightarrow> string \<Rightarrow> HeaderRule list \<Rightarrow> HeaderRule list" where
  "updateRuleName i v rules =
     (if i < length rules then rules[i := (rules ! i)\<lparr>hr_name := v\<rparr>] else rules)"

definition updateRuleValue :: "nat \<Rightarrow> string \<Rightarrow> HeaderRule list \<Rightarrow> HeaderRule list" where
  "updateRuleValue i v rules =
     (if i < length rules then rules[i := (rules ! i)\<lparr>hr_value := v\<rparr>] else rules)"

text \<open>The editor of the stripped headers adds the trimmed text unless it is empty or there already.\<close>

definition addStrip :: "string \<Rightarrow> string list \<Rightarrow> string list" where
  "addStrip input headers =
     (let trimmed = trim input in
      if trimmed \<noteq> [] \<and> trimmed \<notin> set headers then headers @ [trimmed] else headers)"

text \<open>\<open>removeAt i xs\<close> is \<open>xs.filter((_, idx) => idx !== i)\<close>.\<close>

lemma removeAt_filter:
  "map fst (filter (\<lambda>p. snd p \<noteq> k + i) (zip xs [k..<k + length xs])) = removeAt i xs"
proof (induction i xs arbitrary: k rule: removeAt.induct)
  case (2 x xs)
  have "[k..<k + length (x # xs)] = k # [Suc k..<Suc k + length xs]" by (simp add: upt_conv_Cons del: upt_Suc)
  moreover have "filter (\<lambda>p. snd p \<noteq> k) (zip xs [Suc k..<Suc k + length xs]) = zip xs [Suc k..<Suc k + length xs]"
    by (rule filter_True) (auto dest: set_zip_rightD)
  ultimately show ?case by (simp del: upt_Suc)
next
  case (3 i x xs)
  have "[k..<k + length (x # xs)] = k # [Suc k..<Suc k + length xs]" by (simp add: upt_conv_Cons del: upt_Suc)
  with 3 [of "Suc k"] show ?case by (simp del: upt_Suc)
qed simp

lemma set_removeAt: "set (removeAt i xs) \<subseteq> set xs"
  by (induction i xs rule: removeAt.induct) auto

lemma distinct_removeAt: "distinct xs \<Longrightarrow> distinct (removeAt i xs)"
  by (induction i xs rule: removeAt.induct) (auto dest: subsetD [OF set_removeAt])

section \<open>Fields and request\<close>

record app_fields =
  af_name :: string
  af_slug :: string
  af_upstreamURL :: string
  af_authMode :: string
  af_allowCIDRs :: string
  af_denyCIDRs :: string
  af_rateLimitRPM :: string
  af_rateLimitBurst :: string
  af_rateLimitPer :: string
  af_healthCheckPath :: string
  af_injectHeaders :: "HeaderRule list"
  af_stripHeaders :: "string list"
  af_stripInput :: string
  af_extraCAPEM :: string

definition AUTH_MODES :: "string list" where
  "AUTH_MODES = [''oidc'', ''bearer'', ''any'', ''none'']"

definition RATE_LIMIT_PER :: "string list" where
  "RATE_LIMIT_PER = [''session'', ''ip'', ''token'']"

text \<open>Modes are chosen by the buttons of the two lists.\<close>

datatype app_input =
    InName string | InSlug string | InUpstreamURL string
  | ChooseAuthMode nat | InAllowCIDRs string | InDenyCIDRs string
  | InRPM string | InBurst string | ChoosePer nat | InHealthCheckPath string
  | AddHeader | RemoveHeader nat | HeaderName nat string | HeaderValue nat string
  | StripTyped string | StripAdded | StripRemoved nat | InExtraCAPEM string

fun app_edit :: "app_input \<Rightarrow> app_fields \<Rightarrow> app_fields" where
  "app_edit (InName v) f = f\<lparr>af_name := v\<rparr>"
| "app_edit (InSlug v) f = f\<lparr>af_slug := v\<rparr>"
| "app_edit (InUpstreamURL v) f = f\<lparr>af_upstreamURL := v\<rparr>"
| "app_edit (ChooseAuthMode i) f =
     (if i < length AUTH_MODES then f\<lparr>af_authMode := AUTH_MODES ! i\<rparr> else f)"
| "app_edit (InAllowCIDRs v) f = f\<lparr>af_allowCIDRs := v\<rparr>"
| "app_edit (InDenyCIDRs v) f = f\<lparr>af_denyCIDRs := v\<rparr>"
| "app_edit (InRPM v) f = f\<lparr>af_rateLimitRPM := v\<rparr>"
| "app_edit (InBurst v) f = f\<lparr>af_rateLimitBurst := v\<rparr>"
| "app_edit (ChoosePer i) f =
     (if i < length RATE_LIMIT_PER then f\<lparr>af_rateLimitPer := RATE_LIMIT_PER ! i\<rparr> else f)"
| "app_edit (InHealthCheckPath v) f = f\<lparr>af_healthCheckPath := v\<rparr>"
| "app_edit AddHeader f = f\<lparr>af_injectHeaders := addRule (af_injectHeaders f)\<rparr>"
| "app_edit (RemoveHeader i) f = f\<lparr>af_injectHeaders := removeAt i (af_injectHeaders f)\<rparr>"
| "app_edit (HeaderName i v) f = f\<lparr>af_injectHeaders := updateRuleName i v (af_injectHeaders f)\<rparr>"
| "app_edit (HeaderValue i v) f = f\<lparr>af_injectHeaders := updateRuleValue i v (af_injectHeaders f)\<rparr>"
| "app_edit (StripTyped v) f = f\<lparr>af_stripInput := v\<rparr>"
| "app_edit StripAdded f = f\<lparr>af_stripHeaders := addStrip (af_stripInput f) (af_stripHeaders f), af_stripInput := []\<rparr>"
| "app_edit (StripRemoved i) f = f\<lparr>af_stripHeaders := removeAt i (af_stripHeaders f)\<rparr>"
| "app_edit (InExtraCAPEM v) f = f\<lparr>af_extraCAPEM := v\<rparr>"

text \<open>\<open>injectHeaders.filter((r) => r.name.trim() !== "")\<close> and the same for the stripped ones.\<close>

definition rules_json :: "HeaderRule list \<Rightarrow> json" where
  "rules_json rules = JArr (map (\<lambda>r. JObj [(''name'', JStr (hr_name r)), (''value'', JStr (hr_value r))])
                                (filter (\<lambda>r. \<not> blank (hr_name r)) rules))"

definition strips_json :: "string list \<Rightarrow> json" where
  "strips_json hs = JArr (map JStr (filter (\<lambda>h. \<not> blank h) hs))"

text \<open>The body of both requests; they differ in where slug and certificate come from.\<close>

definition app_payload :: "string \<Rightarrow> string \<Rightarrow> app_fields \<Rightarrow> json" where
  "app_payload slug pem f = JObj
     [(''name'', JStr (trim (af_name f))), (''slug'', JStr slug), (''upstreamURL'', JStr (trim (af_upstreamURL f))),
      (''authMode'', JStr (af_authMode f)), (''injectHeaders'', rules_json (af_injectHeaders f)),
      (''stripHeaders'', strips_json (af_stripHeaders f)), (''extraCAPEM'', JStr pem),
      (''rateLimitRPM'', JNum (number_or (af_rateLimitRPM f) 0)),
      (''rateLimitBurst'', JNum (number_or (af_rateLimitBurst f) 0)),
      (''rateLimitPer'', JStr (af_rateLimitPer f)), (''allowCIDRs'', JStr (trim (af_allowCIDRs f))),
      (''denyCIDRs'', JStr (trim (af_denyCIDRs f))), (''healthCheckPath'', JStr (trim (af_healthCheckPath f)))]"

section \<open>Creating\<close>

definition createApp_fresh :: app_fields where
  "createApp_fresh = \<lparr>af_name = [], af_slug = [], af_upstreamURL = [], af_authMode = ''oidc'', af_allowCIDRs = [],
     af_denyCIDRs = [], af_rateLimitRPM = [], af_rateLimitBurst = [], af_rateLimitPer = ''session'',
     af_healthCheckPath = [], af_injectHeaders = [], af_stripHeaders = [], af_stripInput = [], af_extraCAPEM = []\<rparr>"

fun app_input_step :: "app_input \<Rightarrow> nat" where
  "app_input_step (InName v) = 0" | "app_input_step (InSlug v) = 0" | "app_input_step (InUpstreamURL v) = 0"
| "app_input_step (ChooseAuthMode i) = 1" | "app_input_step (InAllowCIDRs v) = 1"
| "app_input_step (InDenyCIDRs v) = 1"
| "app_input_step (InRPM v) = 2" | "app_input_step (InBurst v) = 2" | "app_input_step (ChoosePer i) = 2"
| "app_input_step (InHealthCheckPath v) = 2"
| "app_input_step AddHeader = 3" | "app_input_step (RemoveHeader i) = 3" | "app_input_step (HeaderName i v) = 3"
| "app_input_step (HeaderValue i v) = 3" | "app_input_step (StripTyped v) = 3" | "app_input_step StripAdded = 3"
| "app_input_step (StripRemoved i) = 3"
| "app_input_step (InExtraCAPEM v) = 4"

definition step0Valid :: "app_fields \<Rightarrow> bool" where
  "step0Valid f \<longleftrightarrow> trim (af_name f) \<noteq> [] \<and> trim (af_slug f) \<noteq> [] \<and> trim (af_upstreamURL f) \<noteq> []"

definition createApp :: "(unit, app_fields, app_input) form" where
  "createApp = \<lparr>fo_fresh = (\<lambda>_. createApp_fresh), fo_last = 3, fo_edit = (\<lambda>e p. app_edit e), fo_at = app_input_step,
     fo_next = (\<lambda>p i f. if i = 0 then step0Valid f else True), fo_submit = (\<lambda>p f. True),
     fo_request = (\<lambda>p f. (''POST'', ''/api/admin/apps'', app_payload (trim (af_slug f)) [] f)),
     fo_refused = (\<lambda>r. Some (error_or r ''Failed to create app.'')),
     fo_accepted = (\<lambda>p f r. done_close ''App created'' [JStr (trim (af_name f))] None)\<rparr>"

section \<open>Editing\<close>

record ProtectedApp =
  ap_id :: string
  ap_name :: string
  ap_slug :: string
  ap_upstreamURL :: string
  ap_authMode :: string
  ap_injectHeaders :: "HeaderRule list option"
  ap_stripHeaders :: "string list option"
  ap_extraCAPEM :: "string option"
  ap_rateLimitRPM :: int
  ap_rateLimitBurst :: int
  ap_rateLimitPer :: string
  ap_allowCIDRs :: string
  ap_denyCIDRs :: string
  ap_healthCheckPath :: string

definition headerRulesFromApp :: "ProtectedApp \<Rightarrow> HeaderRule list" where
  "headerRulesFromApp a = (case ap_injectHeaders a of None \<Rightarrow> []
     | Some hs \<Rightarrow> map (\<lambda>h. \<lparr>hr_name = hr_name h, hr_value = hr_value h\<rparr>) hs)"

text \<open>\<open>String(n || "")\<close>.\<close>

definition show_limit :: "int \<Rightarrow> string" where
  "show_limit n = (if n = 0 then [] else show_int n)"

definition editApp_fresh :: "ProtectedApp \<Rightarrow> app_fields" where
  "editApp_fresh a = \<lparr>af_name = ap_name a, af_slug = ap_slug a, af_upstreamURL = ap_upstreamURL a,
     af_authMode = ap_authMode a, af_allowCIDRs = ap_allowCIDRs a, af_denyCIDRs = ap_denyCIDRs a,
     af_rateLimitRPM = show_limit (ap_rateLimitRPM a), af_rateLimitBurst = show_limit (ap_rateLimitBurst a),
     af_rateLimitPer = or_str (Some (ap_rateLimitPer a)) ''session'', af_healthCheckPath = ap_healthCheckPath a,
     af_injectHeaders = headerRulesFromApp a, af_stripHeaders = nullish (ap_stripHeaders a) [], af_stripInput = [],
     af_extraCAPEM = nullish (ap_extraCAPEM a) []\<rparr>"

text \<open>The slug cannot be edited, so its input does nothing.\<close>

fun editApp_edit :: "app_input \<Rightarrow> ProtectedApp \<Rightarrow> app_fields \<Rightarrow> app_fields" where
  "editApp_edit (InSlug v) a f = f"
| "editApp_edit e a f = app_edit e f"

definition editApp_submit :: "ProtectedApp \<Rightarrow> app_fields \<Rightarrow> bool" where
  "editApp_submit a f \<longleftrightarrow> \<not> (blank (af_name f) \<or> blank (af_upstreamURL f))"

definition editApp_request :: "ProtectedApp \<Rightarrow> app_fields \<Rightarrow> client_call" where
  "editApp_request a f =
     (''PUT'', ''/api/admin/apps/'' @ ap_id a, app_payload (ap_slug a) (trim (af_extraCAPEM f)) f)"

definition editApp :: "(ProtectedApp, app_fields, app_input) form" where
  "editApp = \<lparr>fo_fresh = editApp_fresh, fo_last = 0, fo_edit = editApp_edit, fo_at = (\<lambda>e. 0),
     fo_next = (\<lambda>p i f. False), fo_submit = editApp_submit, fo_request = editApp_request,
     fo_refused = (\<lambda>r. Some (error_or r ''Failed to update app.'')),
     fo_accepted = (\<lambda>p f r. done_close ''App updated'' [JStr (trim (af_name f))] None)\<rparr>"

section \<open>What the forms make sure of\<close>

text \<open>At any time: the modes are of the lists, and the stripped headers are trimmed, not empty and distinct.\<close>

definition app_good :: "app_fields \<Rightarrow> bool" where
  "app_good f \<longleftrightarrow> af_authMode f \<in> set AUTH_MODES \<and> af_rateLimitPer f \<in> set RATE_LIMIT_PER
     \<and> distinct (af_stripHeaders f) \<and> [] \<notin> set (af_stripHeaders f)"

lemma addStrip_good:
  "distinct hs \<and> [] \<notin> set hs \<Longrightarrow> distinct (addStrip v hs) \<and> [] \<notin> set (addStrip v hs)"
  by (auto simp: addStrip_def Let_def)

lemma app_edit_good: "app_good f \<Longrightarrow> app_good (app_edit e f)"
proof (cases e)
  case StripAdded
  assume "app_good f"
  with StripAdded addStrip_good [of "af_stripHeaders f" "af_stripInput f"] show ?thesis by (simp add: app_good_def)
next
  case (StripRemoved i)
  assume "app_good f"
  with StripRemoved distinct_removeAt [of "af_stripHeaders f" i] set_removeAt [of i "af_stripHeaders f"]
  show ?thesis by (auto simp: app_good_def)
qed (simp_all add: app_good_def)

lemma modes_member [simp]:
  "''oidc'' \<in> set AUTH_MODES" "''session'' \<in> set RATE_LIMIT_PER"
  by (simp_all add: AUTH_MODES_def RATE_LIMIT_PER_def)

lemma createApp_fresh_good: "app_good createApp_fresh"
  by (simp add: app_good_def createApp_fresh_def)

interpretation create_app: checked_form createApp "\<lambda>i f. i = 0 \<longrightarrow> step0Valid f" app_good
proof unfold_locales
  show "i = 0 \<longrightarrow> step0Valid f" if "fo_next createApp p i f" for p i f
    using that by (auto simp: createApp_def)
  show "i = 0 \<longrightarrow> step0Valid (fo_edit createApp e p f)" if "i = 0 \<longrightarrow> step0Valid f" "i < fo_at createApp e" for i e p f
    using that by (cases e) (auto simp: createApp_def step0Valid_def)
qed (simp_all add: createApp_def app_edit_good createApp_fresh_good)

interpretation edit_app: checked_form editApp "\<lambda>i f. True" "\<lambda>f. True"
  by unfold_locales (simp_all add: editApp_def)

section \<open>Properties\<close>

text \<open>Every app the create form submits has a name, a slug and an upstream without white space around them, a
  known mode, no header rule without a name, and stripped headers that are not blank and not repeated.\<close>

theorem created_apps_are_complete:
  assumes "reach (form_init createApp) (form_trans createApp) s" and "c \<in> set (sent_calls s)"
  shows "\<exists>body name slug up mode rules hs. c = (''POST'', ''/api/admin/apps'', body)
     \<and> jprop body ''name'' = Some (JStr (trim name)) \<and> trim name \<noteq> []
     \<and> jprop body ''slug'' = Some (JStr (trim slug)) \<and> trim slug \<noteq> []
     \<and> jprop body ''upstreamURL'' = Some (JStr (trim up)) \<and> trim up \<noteq> []
     \<and> jprop body ''authMode'' = Some (JStr mode) \<and> mode \<in> set [''oidc'', ''bearer'', ''any'', ''none'']
     \<and> jprop body ''injectHeaders'' = Some (JArr rules) \<and> (\<forall>r \<in> set rules. \<exists>n. jprop r ''name'' = Some (JStr n) \<and> \<not> blank n)
     \<and> jprop body ''stripHeaders'' = Some (JArr (map JStr hs)) \<and> distinct hs \<and> (\<forall>h \<in> set hs. \<not> blank h)"
proof -
  obtain p f where c: "c = fo_request createApp p f" and good: "app_good f"
    and passed: "\<And>i. i < fo_last createApp \<Longrightarrow> i = 0 \<longrightarrow> step0Valid f"
    by (rule create_app.sent_checked [OF assms]) blast
  have c': "c = (''POST'', ''/api/admin/apps'', app_payload (trim (af_slug f)) [] f)" by (simp add: c createApp_def)
  have f: "step0Valid f" using passed [of 0] by (simp add: createApp_def)
  show ?thesis
    unfolding c'
    by (rule exI [of _ "app_payload (trim (af_slug f)) [] f"], rule exI [of _ "af_name f"], rule exI [of _ "af_slug f"],
        rule exI [of _ "af_upstreamURL f"], rule exI [of _ "af_authMode f"],
        rule exI [of _ "map (\<lambda>r. JObj [(''name'', JStr (hr_name r)), (''value'', JStr (hr_value r))])
                         (filter (\<lambda>r. \<not> blank (hr_name r)) (af_injectHeaders f))"],
        rule exI [of _ "filter (\<lambda>h. \<not> blank h) (af_stripHeaders f)"])
       (use f good in \<open>simp add: app_payload_def step0Valid_def app_good_def AUTH_MODES_def rules_json_def strips_json_def\<close>)
qed

text \<open>Opening the editor of an app and saving it as it is sends the app back unchanged, provided its texts have
  no white space around them and its header rules have names.\<close>

theorem unchanged_app_is_sent_back:
  assumes "\<forall>x \<in> set [ap_name a, ap_upstreamURL a, ap_allowCIDRs a, ap_denyCIDRs a, ap_healthCheckPath a,
                    nullish (ap_extraCAPEM a) []]. trim x = x"
    and "ap_name a \<noteq> []" and "ap_upstreamURL a \<noteq> []" and "0 \<le> ap_rateLimitRPM a" and "0 \<le> ap_rateLimitBurst a"
    and "ap_rateLimitPer a \<noteq> []"
    and "\<forall>r \<in> set (nullish (ap_injectHeaders a) []). \<not> blank (hr_name r)"
    and "\<forall>h \<in> set (nullish (ap_stripHeaders a) []). \<not> blank h"
  shows "sent_calls (form_run editApp (form_start editApp q) [NewProps a, TriggerPressed, SubmitPressed]) =
     [(''PUT'', ''/api/admin/apps/'' @ ap_id a, JObj
        [(''name'', JStr (ap_name a)), (''slug'', JStr (ap_slug a)), (''upstreamURL'', JStr (ap_upstreamURL a)),
         (''authMode'', JStr (ap_authMode a)),
         (''injectHeaders'', JArr (map (\<lambda>r. JObj [(''name'', JStr (hr_name r)), (''value'', JStr (hr_value r))])
                                      (nullish (ap_injectHeaders a) []))),
         (''stripHeaders'', JArr (map JStr (nullish (ap_stripHeaders a) []))),
         (''extraCAPEM'', JStr (nullish (ap_extraCAPEM a) [])), (''rateLimitRPM'', JNum (of_int (ap_rateLimitRPM a))),
         (''rateLimitBurst'', JNum (of_int (ap_rateLimitBurst a))), (''rateLimitPer'', JStr (ap_rateLimitPer a)),
         (''allowCIDRs'', JStr (ap_allowCIDRs a)), (''denyCIDRs'', JStr (ap_denyCIDRs a)),
         (''healthCheckPath'', JStr (ap_healthCheckPath a))])]"
proof -
  have submit: "editApp_submit a (editApp_fresh a)"
    using assms(1-3) by (simp add: editApp_submit_def editApp_fresh_def blank_def)
  have sent: "sent_calls (form_run editApp (form_start editApp q) [NewProps a, TriggerPressed, SubmitPressed])
      = [editApp_request a (editApp_fresh a)]"
    using submit
    by (simp add: form_start_def editApp_def handleOpenChange_def handleSubmit_def emit_def sent_calls_def)
  have limit: "number_or (show_limit n) 0 = of_int n" if "0 \<le> n" for n
    using that by (simp add: show_limit_def number_or_empty number_or_show_int)
  have same: "(\<lambda>h :: HeaderRule. \<lparr>hr_name = hr_name h, hr_value = hr_value h\<rparr>) = (\<lambda>h. h)" by (rule ext) simp
  have rules: "headerRulesFromApp a = nullish (ap_injectHeaders a) []"
    unfolding headerRulesFromApp_def same by (simp split: option.split)
  have "filter (\<lambda>r. \<not> blank (hr_name r)) (nullish (ap_injectHeaders a) []) = nullish (ap_injectHeaders a) []"
    "filter (\<lambda>h. \<not> blank h) (nullish (ap_stripHeaders a) []) = nullish (ap_stripHeaders a) []"
    using assms(7,8) by simp_all
  then show ?thesis
    unfolding sent using assms(1,4-6)
    by (simp add: editApp_request_def editApp_fresh_def app_payload_def rules_json_def strips_json_def rules limit)
qed

section \<open>Witnesses\<close>

definition exApp :: ProtectedApp where
  "exApp = \<lparr>ap_id = ''1'', ap_name = ''g'', ap_slug = ''s'', ap_upstreamURL = ''u'', ap_authMode = ''any'',
     ap_injectHeaders = Some [\<lparr>hr_name = ''h'', hr_value = ''v''\<rparr>], ap_stripHeaders = Some [''h''], ap_extraCAPEM = None,
     ap_rateLimitRPM = 120, ap_rateLimitBurst = 0, ap_rateLimitPer = ''ip'', ap_allowCIDRs = [], ap_denyCIDRs = [],
     ap_healthCheckPath = []\<rparr>"

theorem unchanged_app_is_sent_back_witness:
  "\<exists>body. sent_calls (form_run editApp (form_start editApp exApp) [NewProps exApp, TriggerPressed, SubmitPressed])
       = [(''PUT'', ''/api/admin/apps/'' @ ap_id exApp, body)] \<and> jprop body ''rateLimitRPM'' = Some (JNum 120)"
proof -
  have t: "trim ''g'' = ''g''" "trim ''u'' = ''u''" "trim [] = []" "\<not> blank ''h''" by code_simp+
  have "ap_rateLimitRPM exApp = 120" by (simp add: exApp_def)
  moreover have "sent_calls (form_run editApp (form_start editApp exApp) [NewProps exApp, TriggerPressed, SubmitPressed])
     = [(''PUT'', ''/api/admin/apps/'' @ ap_id exApp, JObj
        [(''name'', JStr (ap_name exApp)), (''slug'', JStr (ap_slug exApp)), (''upstreamURL'', JStr (ap_upstreamURL exApp)),
         (''authMode'', JStr (ap_authMode exApp)),
         (''injectHeaders'', JArr (map (\<lambda>r. JObj [(''name'', JStr (hr_name r)), (''value'', JStr (hr_value r))])
                                      (nullish (ap_injectHeaders exApp) []))),
         (''stripHeaders'', JArr (map JStr (nullish (ap_stripHeaders exApp) []))),
         (''extraCAPEM'', JStr (nullish (ap_extraCAPEM exApp) [])),
         (''rateLimitRPM'', JNum (of_int (ap_rateLimitRPM exApp))),
         (''rateLimitBurst'', JNum (of_int (ap_rateLimitBurst exApp))), (''rateLimitPer'', JStr (ap_rateLimitPer exApp)),
         (''allowCIDRs'', JStr (ap_allowCIDRs exApp)), (''denyCIDRs'', JStr (ap_denyCIDRs exApp)),
         (''healthCheckPath'', JStr (ap_healthCheckPath exApp))])]"
    by (rule unchanged_app_is_sent_back) (simp_all add: exApp_def t)
  ultimately show ?thesis by (intro exI conjI) (assumption, simp)
qed

definition exCreating :: "(unit, app_fields) modal" where
  "exCreating = form_run createApp (form_start createApp ())
     [TriggerPressed, Edited (InName ''g''), Edited (InSlug ''s''), Edited (InUpstreamURL ''u''), ContinuePressed,
      ContinuePressed, ContinuePressed, SubmitPressed]"

lemma exCreating_sent: "sent_calls exCreating \<noteq> []"
proof -
  have "trim ''g'' \<noteq> []" "trim ''s'' \<noteq> []" "trim ''u'' \<noteq> []" by code_simp+
  then show ?thesis
    by (simp add: exCreating_def createApp_def form_start_def createApp_fresh_def handleOpenChange_def goNext_def
        handleSubmit_def emit_def step0Valid_def sent_calls_def)
qed

theorem created_apps_are_complete_witness:
  "\<exists>c \<in> set (sent_calls exCreating). \<exists>name. jprop (snd (snd c)) ''name'' = Some (JStr (trim name)) \<and> trim name \<noteq> []"
proof -
  obtain c where c: "c \<in> set (sent_calls exCreating)"
    using exCreating_sent by (cases "sent_calls exCreating") auto
  have "reach (form_init createApp) (form_trans createApp) exCreating"
    unfolding exCreating_def by (rule form_run_reach) (rule form_start_reach)
  from created_apps_are_complete [OF this c] obtain body name where
    "c = (''POST'', ''/api/admin/apps'', body)" "jprop body ''name'' = Some (JStr (trim name))" "trim name \<noteq> []"
    by blast
  with c show ?thesis by (metis snd_conv)
qed

end
