(* ===== verification/SetupWizard.thy ===== *)
theory SetupWizard
  imports Wizard
begin

text \<open>
  The first-run wizard \<open>components/admin/setup-wizard.tsx\<close>: a local administrator or an identity
  provider whose administrator group is named, and one request that ends the set-up.
\<close>

section \<open>State\<close>

datatype setup_page = Welcome | Account | OIDC | Complete

record AccountFields =
  ac_name :: string
  ac_email :: string
  ac_password :: string
  ac_confirmPassword :: string

record OIDCFields =
  oi_issuer :: string
  oi_clientID :: string
  oi_clientSecret :: string
  oi_displayName :: string
  oi_adminGroup :: string
  oi_enabled :: bool

record setup_state =
  sw_step :: setup_page
  sw_error :: "json option"
  sw_pending :: bool
  sw_skipAccount :: bool
  sw_account :: AccountFields
  sw_oidc :: OIDCFields
  sw_sent :: "client_call list"

definition setup_start :: setup_state where
  "setup_start = \<lparr>sw_step = Welcome, sw_error = None, sw_pending = False, sw_skipAccount = False,
     sw_account = \<lparr>ac_name = [], ac_email = [], ac_password = [], ac_confirmPassword = []\<rparr>,
     sw_oidc = \<lparr>oi_issuer = [], oi_clientID = [], oi_clientSecret = [], oi_displayName = ''Single Sign-On'',
                oi_adminGroup = [], oi_enabled = False\<rparr>, sw_sent = []\<rparr>"

section \<open>Handlers\<close>

datatype account_input = AName string | AEmail string | APassword string | AConfirm string

fun setAccountField :: "account_input \<Rightarrow> AccountFields \<Rightarrow> AccountFields" where
  "setAccountField (AName v) f = f\<lparr>ac_name := v\<rparr>"
| "setAccountField (AEmail v) f = f\<lparr>ac_email := v\<rparr>"
| "setAccountField (APassword v) f = f\<lparr>ac_password := v\<rparr>"
| "setAccountField (AConfirm v) f = f\<lparr>ac_confirmPassword := v\<rparr>"

datatype oidc_input = Issuer string | ClientID string | ClientSecret string | DisplayName string
  | AdminGroup string | Enabled bool

fun oidc_set :: "oidc_input \<Rightarrow> OIDCFields \<Rightarrow> OIDCFields" where
  "oidc_set (Issuer v) f = f\<lparr>oi_issuer := v\<rparr>"
| "oidc_set (ClientID v) f = f\<lparr>oi_clientID := v\<rparr>"
| "oidc_set (ClientSecret v) f = f\<lparr>oi_clientSecret := v\<rparr>"
| "oidc_set (DisplayName v) f = f\<lparr>oi_displayName := v\<rparr>"
| "oidc_set (AdminGroup v) f = f\<lparr>oi_adminGroup := v\<rparr>"
| "oidc_set (Enabled v) f = f\<lparr>oi_enabled := v\<rparr>"

definition oidc_filled :: "OIDCFields \<Rightarrow> bool" where
  "oidc_filled f \<longleftrightarrow> oi_issuer f \<noteq> [] \<and> oi_clientID f \<noteq> [] \<and> oi_clientSecret f \<noteq> []"

text \<open>With automatic enabling once the required fields are filled.\<close>

definition setOIDCField :: "oidc_input \<Rightarrow> OIDCFields \<Rightarrow> OIDCFields" where
  "setOIDCField x f =
     (let next = oidc_set x f in
      if \<not> oi_enabled next \<and> oidc_filled next then next\<lparr>oi_enabled := True\<rparr> else next)"

definition validateAccount :: "AccountFields \<Rightarrow> string option" where
  "validateAccount a =
     (if blank (ac_name a) then Some ''Name is required.''
      else if blank (ac_email a) then Some ''Email is required.''
      else if js_length (ac_password a) < 10 then Some ''Password must be at least 10 characters.''
      else if ac_password a \<noteq> ac_confirmPassword a then Some ''Passwords do not match.''
      else None)"

definition handleAccountNext :: "setup_state \<Rightarrow> setup_state" where
  "handleAccountNext s = (case validateAccount (sw_account s) of
      Some err \<Rightarrow> s\<lparr>sw_error := Some (JStr err)\<rparr>
    | None \<Rightarrow> s\<lparr>sw_error := None, sw_step := OIDC\<rparr>)"

definition handleSkipAccount :: "setup_state \<Rightarrow> setup_state" where
  "handleSkipAccount s = s\<lparr>sw_error := None, sw_skipAccount := True, sw_step := OIDC\<rparr>"

definition backToAccount :: "setup_state \<Rightarrow> setup_state" where
  "backToAccount s = s\<lparr>sw_error := None, sw_skipAccount := False, sw_step := Account\<rparr>"

text \<open>The body of the request.\<close>

definition setup_body :: "setup_state \<Rightarrow> json" where
  "setup_body s =
     (let a = sw_account s; f = sw_oidc s in
      JObj ((if sw_skipAccount s then []
             else [(''adminName'', JStr (trim (ac_name a))), (''adminEmail'', JStr (trim (ac_email a))),
                   (''adminPassword'', JStr (ac_password a))])
            @ (if oidc_filled f then
                 [(''oidc'', JObj [(''issuer'', JStr (oi_issuer f)), (''clientID'', JStr (oi_clientID f)),
                     (''clientSecret'', JStr (oi_clientSecret f)),
                     (''displayName'', JStr (or_str (Some (oi_displayName f)) ''Single Sign-On'')),
                     (''adminGroup'', JStr (trim (oi_adminGroup f)))])]
               else [])))"

definition handleComplete :: "setup_state \<Rightarrow> setup_state" where
  "handleComplete s =
     (let s' = s\<lparr>sw_error := None\<rparr> in
      if sw_skipAccount s \<and> \<not> oidc_filled (sw_oidc s) then
        s'\<lparr>sw_error := Some (JStr ''Issuer URL, Client ID, and Client Secret are required for OIDC-only setup.'')\<rparr>
      else if sw_skipAccount s \<and> blank (oi_adminGroup (sw_oidc s)) then
        s'\<lparr>sw_error := Some (JStr ''Platform Admin Group is required when skipping local account creation.'')\<rparr>
      else s'\<lparr>sw_pending := True, sw_sent := sw_sent s @ [(''POST'', ''/api/setup/complete'', setup_body s)]\<rparr>)"

definition setup_answered :: "answer \<Rightarrow> setup_state \<Rightarrow> setup_state" where
  "setup_answered a s =
     (let s' = s\<lparr>sw_pending := False\<rparr> in
      case a of
        NoAnswer \<Rightarrow> s'\<lparr>sw_error := Some (JStr ''Could not reach the backend. Check that it is running.'')\<rparr>
      | Answer ok d \<Rightarrow>
          if \<not> ok then s'\<lparr>sw_error := Some (error_or d ''Setup failed. Please try again.'')\<rparr>
          else s'\<lparr>sw_step := Complete\<rparr>)"

section \<open>Steps\<close>

datatype setup_event =
    GetStarted | TypeAccount account_input | AccountNext | SkipAccount
  | TypeOIDC oidc_input | BackPressed | CompletePressed | Answered answer

text \<open>The switch is shown once the required fields are filled.\<close>

fun setup_step :: "setup_state \<Rightarrow> setup_event \<Rightarrow> setup_state" where
  "setup_step s GetStarted = (if sw_step s = Welcome then s\<lparr>sw_step := Account\<rparr> else s)"
| "setup_step s (TypeAccount x) =
     (if sw_step s = Account then s\<lparr>sw_account := setAccountField x (sw_account s)\<rparr> else s)"
| "setup_step s AccountNext = (if sw_step s = Account then handleAccountNext s else s)"
| "setup_step s SkipAccount = (if sw_step s = Account then handleSkipAccount s else s)"
| "setup_step s (TypeOIDC x) =
     (if sw_step s \<noteq> OIDC \<or> (\<exists>v. x = Enabled v) \<and> \<not> oidc_filled (sw_oidc s) then s
      else s\<lparr>sw_oidc := setOIDCField x (sw_oidc s)\<rparr>)"
| "setup_step s BackPressed = (if sw_step s = OIDC then backToAccount s else s)"
| "setup_step s CompletePressed = (if sw_step s = OIDC \<and> \<not> sw_pending s then handleComplete s else s)"
| "setup_step s (Answered a) = (if sw_pending s then setup_answered a s else s)"

definition setup_trans :: "setup_state \<Rightarrow> setup_event \<Rightarrow> setup_state \<Rightarrow> bool" where
  "setup_trans s e t \<longleftrightarrow> t = setup_step s e"

definition setup_init :: "setup_state \<Rightarrow> bool" where
  "setup_init s \<longleftrightarrow> s = setup_start"

section \<open>What a set-up establishes\<close>

text \<open>A request that makes someone an administrator: a local account or a group of the provider.\<close>

definition establishes_admin :: "client_call \<Rightarrow> bool" where
  "establishes_admin c \<longleftrightarrow>
     (\<exists>body. c = (''POST'', ''/api/setup/complete'', body) \<and>
       ((\<exists>name email pw. jprop body ''adminName'' = Some (JStr name) \<and> name \<noteq> []
            \<and> jprop body ''adminEmail'' = Some (JStr email) \<and> email \<noteq> []
            \<and> jprop body ''adminPassword'' = Some (JStr pw) \<and> 10 \<le> js_length pw)
        \<or> (\<exists>p i c s g. jprop body ''oidc'' = Some p \<and> jprop p ''issuer'' = Some (JStr i) \<and> i \<noteq> []
            \<and> jprop p ''clientID'' = Some (JStr c) \<and> c \<noteq> [] \<and> jprop p ''clientSecret'' = Some (JStr s) \<and> s \<noteq> []
            \<and> jprop p ''adminGroup'' = Some (JStr g) \<and> g \<noteq> [])))"

definition setup_inv :: "setup_state \<Rightarrow> bool" where
  "setup_inv s \<longleftrightarrow> (sw_step s = OIDC \<and> \<not> sw_skipAccount s \<longrightarrow> validateAccount (sw_account s) = None)
     \<and> (\<forall>c \<in> set (sw_sent s). establishes_admin c)
     \<and> (sw_pending s \<longrightarrow> sw_sent s \<noteq> [])"

lemma valid_account:
  assumes "validateAccount a = None"
  shows "trim (ac_name a) \<noteq> []" "trim (ac_email a) \<noteq> []" "10 \<le> js_length (ac_password a)"
  using assms by (auto simp: validateAccount_def blank_def split: if_splits)

lemma complete_establishes:
  assumes "validateAccount (sw_account s) = None \<or> sw_skipAccount s"
    and "\<not> (sw_skipAccount s \<and> \<not> oidc_filled (sw_oidc s))"
    and "\<not> (sw_skipAccount s \<and> blank (oi_adminGroup (sw_oidc s)))"
  shows "establishes_admin (''POST'', ''/api/setup/complete'', setup_body s)"
proof (cases "sw_skipAccount s")
  case True
  with assms show ?thesis
    by (simp add: establishes_admin_def setup_body_def Let_def oidc_filled_def blank_def)
next
  case False
  with assms(1) valid_account [of "sw_account s"] show ?thesis
    by (simp add: establishes_admin_def setup_body_def Let_def)
qed

lemma setup_inv_step:
  assumes "setup_inv s"
  shows "setup_inv (setup_step s e)"
proof (cases e)
  case CompletePressed
  show ?thesis
  proof (cases "sw_step s = OIDC \<and> \<not> sw_pending s")
    case True
    with assms complete_establishes [of s] CompletePressed show ?thesis
      by (auto simp: setup_inv_def handleComplete_def Let_def)
  qed (use CompletePressed assms in auto)
qed (use assms in \<open>auto simp: setup_inv_def handleAccountNext_def handleSkipAccount_def backToAccount_def
      setup_answered_def Let_def split: option.splits answer.splits\<close>)

interpretation set_up: invariant setup_init setup_trans setup_inv
proof unfold_locales
  show "setup_inv s" if "setup_init s" for s
    using that by (simp add: setup_init_def setup_inv_def setup_start_def)
  show "setup_inv t" if "setup_trans s e t" "setup_inv s" for s e t
    using that setup_inv_step by (simp add: setup_trans_def)
qed

section \<open>Properties\<close>


text \<open>The switch for the provider cannot be turned off: turning it off turns it on again, and what is sent does
  not depend on it at all.\<close>

theorem sso_switch_has_no_effect:
  assumes "sw_step s = OIDC" and "oidc_filled (sw_oidc s)"
  shows "oi_enabled (sw_oidc (setup_step s (TypeOIDC (Enabled False))))
     \<and> setup_body (setup_step s (TypeOIDC (Enabled v))) = setup_body s"
  using assms by (auto simp: setOIDCField_def setup_body_def Let_def oidc_filled_def)

text \<open>An answer that refuses the set-up, and no answer at all, keep the user on the page with everything typed,
  tell the reason, and let the user try again.\<close>

theorem refused_setup_can_be_retried:
  assumes "sw_pending s" and "sw_step s = OIDC" and "a = NoAnswer \<or> (\<exists>d. a = Answer False d)"
  shows "(let t = setup_step s (Answered a) in
      sw_step t = OIDC \<and> sw_account t = sw_account s \<and> sw_oidc t = sw_oidc s \<and> \<not> sw_pending t
      \<and> truthy_json (sw_error t)
      \<and> (\<not> sw_skipAccount s \<longrightarrow>
          sw_sent (setup_step t CompletePressed) = sw_sent s @ [(''POST'', ''/api/setup/complete'', setup_body s)]))"
proof -
  have body: "setup_body (s\<lparr>sw_pending := p, sw_error := e\<rparr>) = setup_body s" for p e by (simp add: setup_body_def)
  from assms(3) show ?thesis
  proof
    assume "a = NoAnswer"
    with assms(1,2) show ?thesis by (simp add: setup_answered_def handleComplete_def Let_def body)
  next
    assume "\<exists>d. a = Answer False d"
    then obtain d where "a = Answer False d" by blast
    with assms(1,2) truthy_error_or [of "''Setup failed. Please try again.''" d] show ?thesis
      by (simp add: setup_answered_def handleComplete_def Let_def body)
  qed
qed

section \<open>Witnesses\<close>

definition exSetup :: setup_state where
  "exSetup = foldl setup_step setup_start
     [GetStarted, SkipAccount, TypeOIDC (Issuer ''i''), TypeOIDC (ClientID ''c''), TypeOIDC (ClientSecret ''s''),
      TypeOIDC (AdminGroup ''g''), CompletePressed]"

lemma exSetup_reach: "reach setup_init setup_trans exSetup"
  unfolding exSetup_def foldl.simps
  by (rule reach_step, rule reach_step, rule reach_step, rule reach_step, rule reach_step, rule reach_step,
      rule reach_step, rule reach_init, unfold setup_init_def, rule refl) (simp_all only: setup_trans_def)

lemma exSetup_facts: "sw_sent exSetup \<noteq> []" "sw_pending exSetup" "sw_step exSetup = OIDC" "oidc_filled (sw_oidc exSetup)"
proof -
  have "\<not> blank ''g''" by code_simp
  then show "sw_sent exSetup \<noteq> []" "sw_pending exSetup" "sw_step exSetup = OIDC" "oidc_filled (sw_oidc exSetup)"
    by (simp_all add: exSetup_def setup_start_def handleSkipAccount_def setOIDCField_def oidc_filled_def handleComplete_def
        Let_def)
qed


theorem sso_switch_has_no_effect_witness: "oi_enabled (sw_oidc (setup_step exSetup (TypeOIDC (Enabled False))))"
  using sso_switch_has_no_effect [OF exSetup_facts(3,4)] by blast

theorem refused_setup_can_be_retried_witness:
  "sw_step (setup_step exSetup (Answered NoAnswer)) = OIDC \<and> \<not> sw_pending (setup_step exSetup (Answered NoAnswer))"
  using refused_setup_can_be_retried [OF exSetup_facts(2,3), of NoAnswer, unfolded Let_def] by blast

end
