(* ===== verification/Onboarding.thy ===== *)
theory Onboarding
  imports FormsCredentials
begin

text \<open>
  The guided set-up \<open>components/admin/onboarding-modal.tsx\<close>: organisation, tenant, route and token one
  after the other. Which steps there are depends on the session, and the steps are counted by their
  position; a submission that awaits its answer keeps the number of steps it saw when it was pressed.
\<close>

section \<open>State\<close>

datatype onboarding_page = OrgPage | TenantPage | RoutePage | TokenPage

text \<open>What a running submission has captured, and for the organisation whether the session is being updated.\<close>

datatype submission =
    OrgCall nat | OrgUpdate nat json
  | TenantCall nat string "string list"
  | RouteCall nat
  | TokenCall

record onboarding =
  ob_tenantIDs :: "string list"
  ob_activeOrgId :: "string option"
  ob_open :: bool
  ob_index :: nat
  ob_orgName :: string
  ob_orgError :: "json option"
  ob_createdOrg :: "json option"
  ob_tenantName :: string
  ob_tenantID :: string
  ob_headerName :: string
  ob_tenantError :: "json option"
  ob_createdTenant :: "json option"
  ob_routeSlug :: string
  ob_routeTenantID :: string
  ob_routeUpstreamURL :: string
  ob_targetPath :: string
  ob_requiredScope :: string
  ob_routeMethods :: string
  ob_routeError :: "json option"
  ob_routeCreated :: bool
  ob_tokenName :: string
  ob_tokenTenantID :: string
  ob_scopes :: string
  ob_expiresInDays :: string
  ob_tokenError :: "json option"
  ob_issuedToken :: "json option"
  ob_localTenantIDs :: "string list"
  ob_calls :: "submission list"
  ob_log :: "form_effect list"

definition hasOrg :: "onboarding \<Rightarrow> bool" where
  "hasOrg s = truthy (ob_activeOrgId s)"

definition stepDefs :: "onboarding \<Rightarrow> onboarding_page list" where
  "stepDefs s = (if hasOrg s then [TenantPage, RoutePage, TokenPage] else [OrgPage, TenantPage, RoutePage, TokenPage])"

definition activeStepId :: "onboarding \<Rightarrow> onboarding_page option" where
  "activeStepId s = (if ob_index s < length (stepDefs s) then Some (stepDefs s ! ob_index s) else None)"

text \<open>The expiry: a number of days from now, or the text as it is; the clock is the platform's.\<close>

record clock =
  cl_parseInt :: "string \<Rightarrow> int option"
  cl_iso_in_days :: "int \<Rightarrow> string"

definition toApiExpiryFromDays :: "clock \<Rightarrow> string \<Rightarrow> string" where
  "toApiExpiryFromDays C v =
     (case cl_parseInt C (trim v) of
        Some days \<Rightarrow> if days \<le> 0 then trim v else cl_iso_in_days C days
      | None \<Rightarrow> trim v)"

section \<open>Handlers\<close>

text \<open>\<open>goNext\<close> with the number of steps its closure has.\<close>

definition ob_next :: "nat \<Rightarrow> onboarding \<Rightarrow> onboarding" where
  "ob_next n s = s\<lparr>ob_index := min (ob_index s + 1) (n - 1)\<rparr>"

definition ob_back :: "onboarding \<Rightarrow> onboarding" where
  "ob_back s = s\<lparr>ob_index := ob_index s - 1\<rparr>"

definition array_head_or :: "string list \<Rightarrow> string" where
  "array_head_or xs = (case xs of [] \<Rightarrow> [] | x # _ \<Rightarrow> x)"

definition resetWizard :: "onboarding \<Rightarrow> onboarding" where
  "resetWizard s = s\<lparr>ob_index := 0, ob_orgName := [], ob_orgError := None, ob_createdOrg := None,
     ob_tenantName := [], ob_tenantID := [], ob_headerName := ''X-Scope-OrgID'', ob_tenantError := None,
     ob_createdTenant := None, ob_routeSlug := [], ob_routeTenantID := array_head_or (ob_tenantIDs s),
     ob_routeUpstreamURL := [], ob_targetPath := ''/'', ob_requiredScope := [], ob_routeMethods := ''POST'',
     ob_routeError := None, ob_routeCreated := False, ob_tokenName := [],
     ob_tokenTenantID := array_head_or (ob_tenantIDs s), ob_scopes := ''metrics:write'', ob_expiresInDays := ''30'',
     ob_tokenError := None, ob_issuedToken := None, ob_localTenantIDs := ob_tenantIDs s\<rparr>"

definition ob_emit :: "form_effect \<Rightarrow> onboarding \<Rightarrow> onboarding" where
  "ob_emit x s = s\<lparr>ob_log := ob_log s @ [x]\<rparr>"

definition ob_call :: "submission \<Rightarrow> client_call \<Rightarrow> onboarding \<Rightarrow> onboarding" where
  "ob_call k c s = ob_emit (Sent c) (s\<lparr>ob_calls := ob_calls s @ [k]\<rparr>)"

definition submitOrg :: "onboarding \<Rightarrow> onboarding" where
  "submitOrg s = ob_call (OrgCall (length (stepDefs s)))
     (''POST'', ''/api/admin/orgs'', JObj [(''name'', JStr (ob_orgName s))]) (s\<lparr>ob_orgError := None\<rparr>)"

definition submitTenant :: "onboarding \<Rightarrow> onboarding" where
  "submitTenant s = ob_call (TenantCall (length (stepDefs s)) (ob_tenantID s) (ob_localTenantIDs s))
     (''POST'', ''/api/admin/tenants'', JObj [(''name'', JStr (ob_tenantName s)), (''tenantID'', JStr (ob_tenantID s)),
        (''headerName'', JStr (ob_headerName s)), (''authMode'', JStr ''header'')]) (s\<lparr>ob_tenantError := None\<rparr>)"

definition submitRoute :: "onboarding \<Rightarrow> onboarding" where
  "submitRoute s = ob_call (RouteCall (length (stepDefs s)))
     (''POST'', ''/api/admin/routes'', JObj [(''slug'', JStr (ob_routeSlug s)), (''tenantID'', JStr (ob_routeTenantID s)),
        (''upstreamURL'', JStr (ob_routeUpstreamURL s)), (''targetPath'', JStr (ob_targetPath s)),
        (''requiredScope'', JStr (ob_requiredScope s)), (''methods'', JStr (ob_routeMethods s))])
     (s\<lparr>ob_routeError := None\<rparr>)"

definition submitToken :: "clock \<Rightarrow> onboarding \<Rightarrow> onboarding" where
  "submitToken C s = ob_call TokenCall
     (''POST'', ''/api/admin/tokens'', JObj [(''name'', JStr (ob_tokenName s)), (''tenantID'', JStr (ob_tokenTenantID s)),
        (''scopes'', JStr (ob_scopes s)), (''expiresAt'', JStr (toApiExpiryFromDays C (ob_expiresInDays s)))])
     (s\<lparr>ob_tokenError := None\<rparr>)"

text \<open>
  What follows an answer. A rejected fetch, or \<open>org.id\<close> of a \<open>null\<close>, is an unhandled rejection: nothing
  more happens. The new organisation becomes the active one of the session before the wizard goes on.
\<close>

definition org_answered :: "nat \<Rightarrow> bool \<Rightarrow> json \<Rightarrow> onboarding \<Rightarrow> onboarding" where
  "org_answered n ok result s =
     (if \<not> ok then s\<lparr>ob_orgError := Some (error_or result ''Organisation creation failed'')\<rparr>
      else if result = JNull then s\<lparr>ob_createdOrg := None\<rparr>
      else s\<lparr>ob_createdOrg := Some result, ob_calls := ob_calls s @ [OrgUpdate n result]\<rparr>)"

definition session_updated :: "nat \<Rightarrow> json \<Rightarrow> onboarding \<Rightarrow> onboarding" where
  "session_updated n org s =
     ob_next n (ob_emit Refreshed (s\<lparr>ob_activeOrgId := jstr (jprop org ''id'')\<rparr>))"

definition tenant_answered :: "nat \<Rightarrow> string \<Rightarrow> string list \<Rightarrow> bool \<Rightarrow> json \<Rightarrow> onboarding \<Rightarrow> onboarding" where
  "tenant_answered n tid locals ok result s =
     (if \<not> ok then s\<lparr>ob_tenantError := Some (error_or result ''Tenant creation failed'')\<rparr>
      else ob_next n (ob_emit Refreshed
        (s\<lparr>ob_createdTenant := (if result = JNull then None else Some result),
           ob_localTenantIDs := (if tid \<in> set locals then ob_localTenantIDs s else ob_localTenantIDs s @ [tid]),
           ob_routeTenantID := tid, ob_tokenTenantID := tid\<rparr>)))"

definition route_answered :: "nat \<Rightarrow> bool \<Rightarrow> json \<Rightarrow> onboarding \<Rightarrow> onboarding" where
  "route_answered n ok result s =
     (if \<not> ok then s\<lparr>ob_routeError := Some (error_or result ''Failed to create route.'')\<rparr>
      else ob_next n (ob_emit Refreshed (s\<lparr>ob_routeCreated := True\<rparr>)))"

definition token_answered :: "bool \<Rightarrow> json \<Rightarrow> onboarding \<Rightarrow> onboarding" where
  "token_answered ok result s =
     (if \<not> ok then s\<lparr>ob_tokenError := Some (error_or result ''Token issue failed'')\<rparr>
      else ob_emit Refreshed (ob_emit (Toasted ''Setup complete'' [JStr ''Your first token is ready''] ''success'')
             (s\<lparr>ob_issuedToken := (if result = JNull then None else Some result)\<rparr>)))"

fun call_answered :: "submission \<Rightarrow> answer \<Rightarrow> onboarding \<Rightarrow> onboarding" where
  "call_answered k NoAnswer s = s"
| "call_answered (OrgCall n) (Answer ok r) s = org_answered n ok r s"
| "call_answered (OrgUpdate n org) (Answer ok r) s = session_updated n org s"
| "call_answered (TenantCall n tid locals) (Answer ok r) s = tenant_answered n tid locals ok r s"
| "call_answered (RouteCall n) (Answer ok r) s = route_answered n ok r s"
| "call_answered TokenCall (Answer ok r) s = token_answered ok r s"

section \<open>Steps\<close>

datatype onboarding_input =
    InOrgName string | InTenantName string | InTenantID string | InHeaderName string
  | InRouteSlug string | InRouteTenant string | InUpstreamURL string | InTargetPath string | InRequiredScope string
  | InRouteMethods string | InTokenName string | InTokenTenant string | InExpiresInDays string | InScopes string

fun onboarding_input_page :: "onboarding_input \<Rightarrow> onboarding_page" where
  "onboarding_input_page (InOrgName v) = OrgPage"
| "onboarding_input_page (InTenantName v) = TenantPage" | "onboarding_input_page (InTenantID v) = TenantPage"
| "onboarding_input_page (InHeaderName v) = TenantPage"
| "onboarding_input_page (InRouteSlug v) = RoutePage" | "onboarding_input_page (InRouteTenant v) = RoutePage"
| "onboarding_input_page (InUpstreamURL v) = RoutePage" | "onboarding_input_page (InTargetPath v) = RoutePage"
| "onboarding_input_page (InRequiredScope v) = RoutePage" | "onboarding_input_page (InRouteMethods v) = RoutePage"
| "onboarding_input_page (InTokenName v) = TokenPage" | "onboarding_input_page (InTokenTenant v) = TokenPage"
| "onboarding_input_page (InExpiresInDays v) = TokenPage" | "onboarding_input_page (InScopes v) = TokenPage"

fun onboarding_type :: "onboarding_input \<Rightarrow> onboarding \<Rightarrow> onboarding" where
  "onboarding_type (InOrgName v) s = s\<lparr>ob_orgName := v\<rparr>"
| "onboarding_type (InTenantName v) s = s\<lparr>ob_tenantName := v\<rparr>"
| "onboarding_type (InTenantID v) s = s\<lparr>ob_tenantID := v\<rparr>"
| "onboarding_type (InHeaderName v) s = s\<lparr>ob_headerName := v\<rparr>"
| "onboarding_type (InRouteSlug v) s = s\<lparr>ob_routeSlug := v\<rparr>"
| "onboarding_type (InRouteTenant v) s = s\<lparr>ob_routeTenantID := v\<rparr>"
| "onboarding_type (InUpstreamURL v) s = s\<lparr>ob_routeUpstreamURL := v\<rparr>"
| "onboarding_type (InTargetPath v) s = s\<lparr>ob_targetPath := v\<rparr>"
| "onboarding_type (InRequiredScope v) s = s\<lparr>ob_requiredScope := v\<rparr>"
| "onboarding_type (InRouteMethods v) s = s\<lparr>ob_routeMethods := v\<rparr>"
| "onboarding_type (InTokenName v) s = s\<lparr>ob_tokenName := v\<rparr>"
| "onboarding_type (InTokenTenant v) s = s\<lparr>ob_tokenTenantID := v\<rparr>"
| "onboarding_type (InExpiresInDays v) s = s\<lparr>ob_expiresInDays := v\<rparr>"
| "onboarding_type (InScopes v) s = s\<lparr>ob_scopes := v\<rparr>"

text \<open>A page shows its form until what it creates has been created, and a Continue button from then on.\<close>

fun page_done :: "onboarding_page \<Rightarrow> onboarding \<Rightarrow> bool" where
  "page_done OrgPage s = (ob_createdOrg s \<noteq> None \<or> hasOrg s)"
| "page_done TenantPage s = (ob_createdTenant s \<noteq> None)"
| "page_done RoutePage s = ob_routeCreated s"
| "page_done TokenPage s = (ob_issuedToken s \<noteq> None)"

text \<open>The submit button of a page is enabled.\<close>

fun page_ready :: "onboarding_page \<Rightarrow> onboarding \<Rightarrow> bool" where
  "page_ready OrgPage s = (\<not> blank (ob_orgName s))"
| "page_ready TenantPage s = (\<not> blank (ob_tenantName s) \<and> \<not> blank (ob_tenantID s))"
| "page_ready RoutePage s = (\<not> blank (ob_routeSlug s) \<and> ob_routeTenantID s \<noteq> [] \<and> \<not> blank (ob_routeUpstreamURL s)
      \<and> \<not> blank (ob_requiredScope s))"
| "page_ready TokenPage s = (\<not> blank (ob_tokenName s) \<and> ob_tokenTenantID s \<noteq> [] \<and> \<not> blank (ob_scopes s))"

fun page_submit :: "clock \<Rightarrow> onboarding_page \<Rightarrow> onboarding \<Rightarrow> onboarding" where
  "page_submit C OrgPage s = submitOrg s"
| "page_submit C TenantPage s = submitTenant s"
| "page_submit C RoutePage s = submitRoute s"
| "page_submit C TokenPage s = submitToken C s"

text \<open>
  \<open>Pressed refreshing\<close>: the submit button; \<open>refreshing\<close> is \<open>isPending\<close>, which belongs to the page refresh and
  not to the request. \<open>Finished\<close> is the button under the secret, \<open>Dismissed\<close> the modal's own closing.
\<close>

datatype onboarding_event =
    Opened | Dismissed | Finished
  | Typed onboarding_input
  | Pressed bool
  | ContinuePressed | BackPressed
  | CallEnded nat answer
  | SessionChanged "string option"

fun onboarding_step :: "clock \<Rightarrow> onboarding \<Rightarrow> onboarding_event \<Rightarrow> onboarding" where
  "onboarding_step C s Opened = (if ob_open s then s else s\<lparr>ob_index := 0, ob_open := True\<rparr>)"
| "onboarding_step C s Dismissed = (if ob_open s then resetWizard (s\<lparr>ob_open := False\<rparr>) else s)"
| "onboarding_step C s Finished =
     (if ob_open s \<and> activeStepId s = Some TokenPage \<and> page_done TokenPage s then s\<lparr>ob_open := False\<rparr> else s)"
| "onboarding_step C s (Typed x) =
     (if ob_open s \<and> activeStepId s = Some (onboarding_input_page x) \<and> \<not> page_done (onboarding_input_page x) s
      then onboarding_type x s else s)"
| "onboarding_step C s (Pressed refreshing) =
     (case activeStepId s of
        None \<Rightarrow> s
      | Some p \<Rightarrow> if ob_open s \<and> \<not> page_done p s \<and> page_ready p s \<and> \<not> refreshing then page_submit C p s else s)"
| "onboarding_step C s ContinuePressed =
     (case activeStepId s of
        None \<Rightarrow> s
      | Some p \<Rightarrow> if ob_open s \<and> page_done p s \<and> p \<noteq> TokenPage then ob_next (length (stepDefs s)) s else s)"
| "onboarding_step C s BackPressed =
     (case activeStepId s of
        None \<Rightarrow> s
      | Some p \<Rightarrow> if ob_open s \<and> \<not> page_done p s \<and> (p = TenantPage \<and> \<not> hasOrg s \<or> p = RoutePage \<or> p = TokenPage)
                  then ob_back s else s)"
| "onboarding_step C s (CallEnded i a) =
     (if i < length (ob_calls s) then
        call_answered (ob_calls s ! i) a (s\<lparr>ob_calls := take i (ob_calls s) @ drop (Suc i) (ob_calls s)\<rparr>)
      else s)"
| "onboarding_step C s (SessionChanged v) = s\<lparr>ob_activeOrgId := v\<rparr>"

section \<open>Facts about the pieces\<close>

lemmas onboarding_handler_defs =
  ob_next_def ob_back_def resetWizard_def ob_emit_def ob_call_def submitOrg_def submitTenant_def submitRoute_def
  submitToken_def org_answered_def session_updated_def tenant_answered_def route_answered_def token_answered_def

definition onboarding_start :: "string list \<Rightarrow> string option \<Rightarrow> onboarding" where
  "onboarding_start tenantIDs org = \<lparr>ob_tenantIDs = tenantIDs, ob_activeOrgId = org, ob_open = False, ob_index = 0,
     ob_orgName = [], ob_orgError = None, ob_createdOrg = None, ob_tenantName = [], ob_tenantID = [],
     ob_headerName = ''X-Scope-OrgID'', ob_tenantError = None, ob_createdTenant = None, ob_routeSlug = [],
     ob_routeTenantID = [], ob_routeUpstreamURL = [], ob_targetPath = ''/'', ob_requiredScope = [],
     ob_routeMethods = ''POST'', ob_routeError = None, ob_routeCreated = False, ob_tokenName = [],
     ob_tokenTenantID = [], ob_scopes = ''metrics:write'', ob_expiresInDays = ''30'', ob_tokenError = None,
     ob_issuedToken = None, ob_localTenantIDs = tenantIDs, ob_calls = [], ob_log = []\<rparr>"

definition onboarding_init :: "onboarding \<Rightarrow> bool" where
  "onboarding_init s \<longleftrightarrow> (\<exists>ids org. s = onboarding_start ids org)"

definition onboarding_trans :: "clock \<Rightarrow> onboarding \<Rightarrow> onboarding_event \<Rightarrow> onboarding \<Rightarrow> bool" where
  "onboarding_trans C s e t \<longleftrightarrow> t = onboarding_step C s e"

definition onboarding_run :: "clock \<Rightarrow> onboarding \<Rightarrow> onboarding_event list \<Rightarrow> onboarding" where
  "onboarding_run C s es = foldl (onboarding_step C) s es"

lemma onboarding_run_simps [simp]:
  "onboarding_run C s [] = s" "onboarding_run C s (e # es) = onboarding_run C (onboarding_step C s e) es"
  by (simp_all add: onboarding_run_def)

lemma activeStepId_simps:
  "hasOrg s \<Longrightarrow> ob_index s = 0 \<Longrightarrow> activeStepId s = Some TenantPage"
  "hasOrg s \<Longrightarrow> ob_index s = 1 \<Longrightarrow> activeStepId s = Some RoutePage"
  "hasOrg s \<Longrightarrow> ob_index s = 2 \<Longrightarrow> activeStepId s = Some TokenPage"
  "\<not> hasOrg s \<Longrightarrow> ob_index s = 0 \<Longrightarrow> activeStepId s = Some OrgPage"
  "\<not> hasOrg s \<Longrightarrow> ob_index s = 1 \<Longrightarrow> activeStepId s = Some TenantPage"
  by (simp_all add: activeStepId_def stepDefs_def)

lemma activeStepId_cong:
  "ob_activeOrgId t = ob_activeOrgId s \<Longrightarrow> ob_index t = ob_index s \<Longrightarrow> activeStepId t = activeStepId s"
  by (simp add: activeStepId_def stepDefs_def hasOrg_def)

section \<open>What is sent\<close>

text \<open>A request of one of the four pages, with what the page asks for filled in.\<close>

definition filled :: "json \<Rightarrow> string \<Rightarrow> bool" where
  "filled body k \<longleftrightarrow> (\<exists>v. jprop body k = Some (JStr v) \<and> v \<noteq> [])"

definition onboarding_call_ok :: "client_call \<Rightarrow> bool" where
  "onboarding_call_ok c \<longleftrightarrow> (\<exists>url body ks. c = (''POST'', url, body)
     \<and> (url, ks) \<in> set [(''/api/admin/orgs'', [''name'']), (''/api/admin/tenants'', [''name'', ''tenantID'']),
          (''/api/admin/routes'', [''slug'', ''tenantID'', ''upstreamURL'', ''requiredScope'']),
          (''/api/admin/tokens'', [''name'', ''tenantID'', ''scopes''])]
     \<and> (\<forall>k \<in> set ks. filled body k))"

definition log_ok :: "onboarding \<Rightarrow> bool" where
  "log_ok s \<longleftrightarrow> (\<forall>c. Sent c \<in> set (ob_log s) \<longrightarrow> onboarding_call_ok c)"

lemma log_ok_same: "ob_log t = ob_log s \<Longrightarrow> log_ok t = log_ok s"
  by (simp add: log_ok_def)

lemma log_ok_emit: "log_ok (ob_emit x s) \<longleftrightarrow> log_ok s \<and> (\<forall>c. x = Sent c \<longrightarrow> onboarding_call_ok c)"
  by (auto simp: log_ok_def ob_emit_def)

lemma log_ok_call: "log_ok (ob_call k c s) \<longleftrightarrow> log_ok s \<and> onboarding_call_ok c"
  by (simp add: ob_call_def log_ok_emit) (simp add: log_ok_def)

lemma page_submit_ok:
  assumes "page_ready p s" "log_ok s"
  shows "log_ok (page_submit C p s)"
proof -
  have same: "log_ok (s\<lparr>ob_orgError := e\<rparr>) = log_ok s" "log_ok (s\<lparr>ob_tenantError := e\<rparr>) = log_ok s"
    "log_ok (s\<lparr>ob_routeError := e\<rparr>) = log_ok s" "log_ok (s\<lparr>ob_tokenError := e\<rparr>) = log_ok s" for e
    by (simp_all add: log_ok_def)
  show ?thesis
  proof (cases p)
    case OrgPage
    with assms show ?thesis
      by (auto simp: submitOrg_def log_ok_call same onboarding_call_ok_def filled_def dest: not_blank_nonempty)
  next
    case TenantPage
    with assms show ?thesis
      by (auto simp: submitTenant_def log_ok_call same onboarding_call_ok_def filled_def dest: not_blank_nonempty)
  next
    case RoutePage
    with assms show ?thesis
      by (auto simp: submitRoute_def log_ok_call same onboarding_call_ok_def filled_def dest: not_blank_nonempty)
  next
    case TokenPage
    with assms show ?thesis
      by (auto simp: submitToken_def log_ok_call same onboarding_call_ok_def filled_def dest: not_blank_nonempty)
  qed
qed

lemma call_answered_ok: "log_ok s \<Longrightarrow> log_ok (call_answered k a s)"
  by (cases "(k, a, s)" rule: call_answered.cases)
     (auto simp: log_ok_def org_answered_def session_updated_def tenant_answered_def route_answered_def
       token_answered_def ob_next_def ob_emit_def split: if_splits)

lemma onboarding_log_step:
  assumes "log_ok s"
  shows "log_ok (onboarding_step C s e)"
proof (cases e)
  case (Pressed r)
  with assms show ?thesis by (auto split: option.split intro: page_submit_ok)
next
  case (CallEnded i a)
  have "log_ok (s\<lparr>ob_calls := xs\<rparr>)" for xs using assms by (simp add: log_ok_def)
  with CallEnded assms show ?thesis by (simp add: call_answered_ok)
next
  case (Typed x)
  have "ob_log (onboarding_type x s) = ob_log s" by (cases x) simp_all
  with Typed assms show ?thesis by (simp add: log_ok_def)
qed (use assms in \<open>auto simp: log_ok_def resetWizard_def ob_next_def ob_back_def split: option.split\<close>)

interpretation onboarding: invariant onboarding_init "onboarding_trans C" log_ok for C
proof unfold_locales
  show "log_ok s" if "onboarding_init s" for s
    using that by (auto simp: onboarding_init_def onboarding_start_def log_ok_def)
  show "log_ok t" if "onboarding_trans C s e t" "log_ok s" for s e t
    using that onboarding_log_step by (simp add: onboarding_trans_def)
qed

section \<open>Properties\<close>


text \<open>When a tenant has been created the wizard goes on to the route, with route and token bound to the new
  tenant and the tenant among those to choose from.\<close>

theorem new_tenant_is_carried_on:
  assumes "ob_open s" and "activeStepId s = Some TenantPage" and "\<not> page_done TenantPage s"
    and "page_ready TenantPage s" and "ob_calls s = []" and "r \<noteq> JNull"
  shows "(let t = onboarding_run C s [Pressed False, CallEnded 0 (Answer True r)] in
      activeStepId t = Some RoutePage \<and> ob_createdTenant t = Some r
      \<and> ob_routeTenantID t = ob_tenantID s \<and> ob_tokenTenantID t = ob_tenantID s
      \<and> ob_tenantID s \<in> set (ob_localTenantIDs t) \<and> ob_calls t = [])"
proof -
  from assms(2) have i: "hasOrg s \<and> ob_index s = 0 \<or> \<not> hasOrg s \<and> ob_index s = 1"
    by (auto simp: activeStepId_def stepDefs_def nth_Cons split: if_splits nat.splits)
  with assms show ?thesis
    by (auto simp: onboarding_handler_defs Let_def activeStepId_def stepDefs_def hasOrg_def)
qed

text \<open>Creating the organisation drops the first step from the list while the wizard counts one step further: the
  user lands on the route, past the tenant, which has not been created.\<close>

theorem creating_org_skips_the_tenant:
  assumes "ob_open s" and "activeStepId s = Some OrgPage" and "\<not> page_done OrgPage s" and "page_ready OrgPage s"
    and "ob_calls s = []" and "ob_createdTenant s = None" and "jprop org ''id'' = Some (JStr i)" and "i \<noteq> []"
  shows "(let t = onboarding_run C s [Pressed False, CallEnded 0 (Answer True org), CallEnded 0 (Answer True JNull)] in
      stepDefs t = [TenantPage, RoutePage, TokenPage] \<and> activeStepId t = Some RoutePage
      \<and> ob_createdTenant t = None)"
proof -
  have i: "\<not> hasOrg s" "ob_index s = 0"
    using assms(2) by (auto simp: activeStepId_def stepDefs_def nth_Cons split: if_splits nat.splits)
  have "org \<noteq> JNull" using assms(7) by auto
  with assms i show ?thesis
    by (simp add: onboarding_handler_defs Let_def activeStepId_def stepDefs_def hasOrg_def)
qed

text \<open>The submit buttons are disabled while the page refreshes, not while the request runs: pressing twice before
  the answer creates the tenant twice.\<close>

theorem pressing_twice_sends_twice:
  assumes "ob_open s" and "activeStepId s = Some TenantPage" and "\<not> page_done TenantPage s"
    and "page_ready TenantPage s"
  shows "\<exists>c. ob_log (onboarding_run C s [Pressed False, Pressed False]) = ob_log s @ [Sent c, Sent c]"
proof -
  have "activeStepId (submitTenant s) = Some TenantPage"
    using assms(2) activeStepId_cong [of "submitTenant s" s] by (simp add: onboarding_handler_defs)
  with assms show ?thesis by (simp add: onboarding_handler_defs)
qed

text \<open>"Finish & close" closes the wizard without resetting it: opened again, it shows the last secret once more.\<close>

theorem finished_wizard_shows_secret_again:
  assumes "ob_open s" and "hasOrg s" and "activeStepId s = Some TokenPage" and "ob_issuedToken s = Some tok"
    and "ob_createdTenant s \<noteq> None" and "ob_routeCreated s"
  shows "(let t = onboarding_run C s [Finished, Opened, ContinuePressed, ContinuePressed] in
      ob_open t \<and> activeStepId t = Some TokenPage \<and> page_done TokenPage t \<and> ob_issuedToken t = Some tok)"
  using assms by (simp add: onboarding_handler_defs Let_def activeStepId_def stepDefs_def hasOrg_def)

section \<open>Witnesses\<close>

definition exClock :: clock where
  "exClock = \<lparr>cl_parseInt = (\<lambda>_. None), cl_iso_in_days = (\<lambda>_. [])\<rparr>"

text \<open>A user without an organisation, one with, and one at the end.\<close>

definition exNewcomer :: onboarding where
  "exNewcomer = (onboarding_start [] None)\<lparr>ob_open := True, ob_orgName := ''o''\<rparr>"

definition exMember :: onboarding where
  "exMember = (onboarding_start [] (Some ''o''))\<lparr>ob_open := True, ob_tenantName := ''n'', ob_tenantID := ''t''\<rparr>"

definition exFinished :: onboarding where
  "exFinished = (onboarding_start [] (Some ''o''))\<lparr>ob_open := True, ob_index := 2, ob_createdTenant := Some (JBool True),
     ob_routeCreated := True, ob_issuedToken := Some (JStr ''secret'')\<rparr>"

lemma ex_texts: "\<not> blank ''o''" "\<not> blank ''n''" "\<not> blank ''t''"
  by code_simp+

lemma exMember_facts:
  "ob_open exMember" "activeStepId exMember = Some TenantPage" "\<not> page_done TenantPage exMember"
  "page_ready TenantPage exMember" "ob_calls exMember = []"
  by (simp_all add: exMember_def onboarding_start_def activeStepId_def stepDefs_def hasOrg_def ex_texts)

theorem new_tenant_is_carried_on_witness:
  "activeStepId (onboarding_run exClock exMember [Pressed False, CallEnded 0 (Answer True (JBool True))]) = Some RoutePage"
  using new_tenant_is_carried_on [OF exMember_facts, of "JBool True" exClock, unfolded Let_def] by blast

theorem pressing_twice_sends_twice_witness:
  "\<exists>c. ob_log (onboarding_run exClock exMember [Pressed False, Pressed False]) = ob_log exMember @ [Sent c, Sent c]"
  by (rule pressing_twice_sends_twice [OF exMember_facts(1-4)])

theorem creating_org_skips_the_tenant_witness:
  "activeStepId (onboarding_run exClock exNewcomer [Pressed False, CallEnded 0 (Answer True (JObj [(''id'', JStr ''o'')])),
     CallEnded 0 (Answer True JNull)]) = Some RoutePage"
proof -
  have "ob_open exNewcomer" "activeStepId exNewcomer = Some OrgPage" "\<not> page_done OrgPage exNewcomer"
    "page_ready OrgPage exNewcomer" "ob_calls exNewcomer = []" "ob_createdTenant exNewcomer = None"
    by (simp_all add: exNewcomer_def onboarding_start_def activeStepId_def stepDefs_def hasOrg_def ex_texts)
  from creating_org_skips_the_tenant [OF this, of "JObj [(''id'', JStr ''o'')]" "''o''" exClock, unfolded Let_def]
  show ?thesis by simp
qed

theorem finished_wizard_shows_secret_again_witness:
  "ob_issuedToken (onboarding_run exClock exFinished [Finished, Opened, ContinuePressed, ContinuePressed]) = Some (JStr ''secret'')"
proof -
  have "ob_open exFinished" "hasOrg exFinished" "activeStepId exFinished = Some TokenPage"
    "ob_issuedToken exFinished = Some (JStr ''secret'')" "ob_createdTenant exFinished \<noteq> None" "ob_routeCreated exFinished"
    by (simp_all add: exFinished_def onboarding_start_def activeStepId_def stepDefs_def hasOrg_def)
  from finished_wizard_shows_secret_again [OF this, of exClock, unfolded Let_def] show ?thesis by blast
qed

lemma exStart_reach:
  "reach onboarding_init (onboarding_trans exClock)
     (onboarding_run exClock (onboarding_start [] None) [Opened, Typed (InOrgName ''o''), Pressed False])"
proof -
  have "reach onboarding_init (onboarding_trans exClock) (onboarding_start [] None)"
    by (rule reach_init) (auto simp: onboarding_init_def)
  then show ?thesis
    unfolding onboarding_run_simps
    by (blast intro: reach_step onboarding_trans_def [THEN iffD2])
qed


end
