(* ===== verification/Tables.thy ===== *)
theory Tables
  imports Contracts Wizard
begin

text \<open>
  The tables of routes and tokens, \<open>components/admin/routes-table.tsx\<close> and \<open>tokens-table.tsx\<close>: search, sorting,
  selection, the bulk actions on the selected rows with their confirmation, and what a row has
  opened. The two tables differ in their view of a row and in the actions they have.
\<close>

section \<open>What the tables share\<close>

text \<open>
  The browser's \<open>toLowerCase\<close>, \<open>localeCompare\<close> and \<open>new Date(s).getTime()\<close> (\<open>None\<close> is \<open>NaN\<close>), and
  \<open>Date.now()\<close>.
\<close>

record platform =
  pf_lower :: "string \<Rightarrow> string"
  pf_compare :: "string \<Rightarrow> string \<Rightarrow> rat"
  pf_getTime :: "string \<Rightarrow> int option"
  pf_now :: int

text \<open>A JavaScript \<open>Set\<close> in its insertion order.\<close>

definition js_Set :: "'a list \<Rightarrow> 'a list" where
  "js_Set xs = foldl (\<lambda>s x. if x \<in> set s then s else s @ [x]) [] xs"

definition set_toggle :: "'a \<Rightarrow> 'a list \<Rightarrow> 'a list" where
  "set_toggle x s = (if x \<in> set s then filter (\<lambda>y. y \<noteq> x) s else s @ [x])"

datatype bulk_action = BulkDelete | BulkRevoke

text \<open>
  A view of the rows: their key, the texts the search looks at, the comparison behind each column,
  and the request of a bulk action for a row.
\<close>

record ('r, 'k) table_view =
  tv_id :: "'r \<Rightarrow> string"
  tv_texts :: "'r \<Rightarrow> string list"
  tv_compare :: "'k \<Rightarrow> 'r \<Rightarrow> 'r \<Rightarrow> rat"
  tv_request :: "bulk_action \<Rightarrow> string \<Rightarrow> client_call"
  tv_actions :: "bulk_action list"

text \<open>\<open>ta_confirm\<close> is the confirmation that is open, \<open>ta_running\<close> the bulk actions under way.\<close>

record ('r, 'k) table =
  ta_rows :: "'r list"
  ta_disabled :: bool
  ta_search :: string
  ta_sortKey :: 'k
  ta_asc :: bool
  ta_selected :: "string list"
  ta_confirm :: "bulk_action option"
  ta_running :: "bulk_action list"
  ta_expanded :: "string option"
  ta_tester :: "string option"
  ta_log :: "form_effect list"

definition row_matches :: "platform \<Rightarrow> ('r, 'k) table_view \<Rightarrow> string \<Rightarrow> 'r \<Rightarrow> bool" where
  "row_matches P V q r \<longleftrightarrow> q = [] \<or> (\<exists>t \<in> set (tv_texts V r). sublist q (pf_lower P t))"

definition directed :: "bool \<Rightarrow> ('r \<Rightarrow> 'r \<Rightarrow> rat) \<Rightarrow> 'r \<Rightarrow> 'r \<Rightarrow> rat" where
  "directed asc cmp a b = (if asc then cmp a b else cmp b a)"

definition filtered_rows :: "platform \<Rightarrow> ('r, 'k) table_view \<Rightarrow> ('r, 'k, 'm) table_scheme \<Rightarrow> 'r list" where
  "filtered_rows P V s =
     js_sort (directed (ta_asc s) (tv_compare V (ta_sortKey s)))
       (filter (row_matches P V (pf_lower P (ta_search s))) (ta_rows s))"

section \<open>Handlers\<close>

definition toggleSort :: "'k \<Rightarrow> ('r, 'k, 'm) table_scheme \<Rightarrow> ('r, 'k, 'm) table_scheme" where
  "toggleSort k s = (if ta_sortKey s = k then s\<lparr>ta_asc := \<not> ta_asc s\<rparr> else s\<lparr>ta_sortKey := k, ta_asc := True\<rparr>)"

definition toggleSelect :: "string \<Rightarrow> ('r, 'k, 'm) table_scheme \<Rightarrow> ('r, 'k, 'm) table_scheme" where
  "toggleSelect i s = s\<lparr>ta_selected := set_toggle i (ta_selected s)\<rparr>"

definition toggleSelectAll ::
  "platform \<Rightarrow> ('r, 'k) table_view \<Rightarrow> ('r, 'k, 'm) table_scheme \<Rightarrow> ('r, 'k, 'm) table_scheme" where
  "toggleSelectAll P V s =
     (if length (ta_selected s) = length (filtered_rows P V s) then s\<lparr>ta_selected := []\<rparr>
      else s\<lparr>ta_selected := js_Set (map (tv_id V) (filtered_rows P V s))\<rparr>)"

text \<open>The checkbox in the header.\<close>

definition header_checked :: "platform \<Rightarrow> ('r, 'k) table_view \<Rightarrow> ('r, 'k, 'm) table_scheme \<Rightarrow> bool" where
  "header_checked P V s \<longleftrightarrow> length (ta_selected s) = length (filtered_rows P V s) \<and> filtered_rows P V s \<noteq> []"

text \<open>\<open>handleBulkDelete\<close> and \<open>handleBulkRevoke\<close> up to \<open>await Promise.all\<close>: one request for each selected row.\<close>

definition handleBulk ::
  "('r, 'k) table_view \<Rightarrow> bulk_action \<Rightarrow> ('r, 'k, 'm) table_scheme \<Rightarrow> ('r, 'k, 'm) table_scheme" where
  "handleBulk V a s =
     (if ta_selected s = [] then s
      else s\<lparr>ta_running := ta_running s @ [a],
             ta_log := ta_log s @ map (\<lambda>i. Sent (tv_request V a i)) (ta_selected s)\<rparr>)"

text \<open>
  What follows: the statuses of the answers, \<open>None\<close> for a fetch that was rejected. A rejection skips
  the two statements in the \<open>try\<close> and is not handled any further.
\<close>

definition bulk_ended ::
  "bulk_action \<Rightarrow> int option list \<Rightarrow> ('r, 'k, 'm) table_scheme \<Rightarrow> ('r, 'k, 'm) table_scheme" where
  "bulk_ended a statuses s =
     (let s' = (if None \<in> set statuses then s
                else s\<lparr>ta_selected := [], ta_confirm := None, ta_log := ta_log s @ [Refreshed]\<rparr>)
      in s'\<lparr>ta_running := filter (\<lambda>x. x \<noteq> a) (ta_running s)\<rparr>)"

text \<open>The buttons of a row: the tester opens its row, collapsing a row closes the tester.\<close>

definition toggleExpanded :: "string \<Rightarrow> ('r, 'k, 'm) table_scheme \<Rightarrow> ('r, 'k, 'm) table_scheme" where
  "toggleExpanded i s =
     (if ta_expanded s = Some i then s\<lparr>ta_expanded := None, ta_tester := None\<rparr> else s\<lparr>ta_expanded := Some i\<rparr>)"

definition toggleTester :: "string \<Rightarrow> ('r, 'k, 'm) table_scheme \<Rightarrow> ('r, 'k, 'm) table_scheme" where
  "toggleTester i s =
     (if ta_tester s = Some i then s\<lparr>ta_tester := None\<rparr>
      else s\<lparr>ta_tester := Some i, ta_expanded := Some i\<rparr>)"

section \<open>Steps\<close>

text \<open>The bulk buttons are shown while rows are selected, and with them their confirmations.\<close>

datatype ('r, 'k) table_event =
    NewRows "'r list" bool
  | SearchTyped string | SortPressed 'k
  | RowToggled string | AllToggled
  | ExpandPressed string | TesterPressed string
  | BulkPressed bulk_action | BulkCancelled | BulkConfirmed
  | BulkAnswered bulk_action "int option list"

definition keep_confirm :: "('r, 'k, 'm) table_scheme \<Rightarrow> ('r, 'k, 'm) table_scheme" where
  "keep_confirm s = (if ta_selected s = [] then s\<lparr>ta_confirm := None\<rparr> else s)"

fun table_step ::
  "platform \<Rightarrow> ('r, 'k) table_view \<Rightarrow> ('r, 'k, 'm) table_scheme \<Rightarrow> ('r, 'k) table_event \<Rightarrow> ('r, 'k, 'm) table_scheme" where
  "table_step P V s (NewRows rs d) = s\<lparr>ta_rows := rs, ta_disabled := d\<rparr>"
| "table_step P V s (SearchTyped t) = s\<lparr>ta_search := t\<rparr>"
| "table_step P V s (SortPressed k) = toggleSort k s"
| "table_step P V s (RowToggled i) =
     (if i \<in> tv_id V ` set (filtered_rows P V s) then keep_confirm (toggleSelect i s) else s)"
| "table_step P V s AllToggled = keep_confirm (toggleSelectAll P V s)"
| "table_step P V s (ExpandPressed i) =
     (if i \<in> tv_id V ` set (filtered_rows P V s) then toggleExpanded i s else s)"
| "table_step P V s (TesterPressed i) =
     (if i \<in> tv_id V ` set (filtered_rows P V s) then toggleTester i s else s)"
| "table_step P V s (BulkPressed a) =
     (if ta_selected s = [] \<or> ta_disabled s \<or> a \<notin> set (tv_actions V) \<or> a \<in> set (ta_running s) \<or> ta_confirm s \<noteq> None
      then s else s\<lparr>ta_confirm := Some a\<rparr>)"
| "table_step P V s BulkCancelled = s\<lparr>ta_confirm := None\<rparr>"
| "table_step P V s BulkConfirmed =
     (case ta_confirm s of
        None \<Rightarrow> s
      | Some a \<Rightarrow> if a \<in> set (ta_running s) then s else handleBulk V a (s\<lparr>ta_confirm := None\<rparr>))"
| "table_step P V s (BulkAnswered a statuses) = (if a \<in> set (ta_running s) then bulk_ended a statuses s else s)"

definition table_trans ::
  "platform \<Rightarrow> ('r, 'k) table_view \<Rightarrow> ('r, 'k, 'm) table_scheme \<Rightarrow> ('r, 'k) table_event \<Rightarrow> ('r, 'k, 'm) table_scheme \<Rightarrow> bool" where
  "table_trans P V s e t \<longleftrightarrow> t = table_step P V s e"

definition table_fresh :: "('r, 'k, 'm) table_scheme \<Rightarrow> bool" where
  "table_fresh s \<longleftrightarrow> ta_search s = [] \<and> ta_asc s \<and> ta_selected s = [] \<and> ta_confirm s = None \<and> ta_running s = []
     \<and> ta_expanded s = None \<and> ta_tester s = None \<and> ta_log s = []"

lemmas table_handler_defs =
  toggleSort_def toggleSelect_def toggleSelectAll_def handleBulk_def bulk_ended_def toggleExpanded_def
  toggleTester_def keep_confirm_def

section \<open>The table of routes\<close>

datatype route_sort = BySlug | ByTenant | ByUpstream

fun route_sort_text :: "route_sort \<Rightarrow> RouteSummary \<Rightarrow> string" where
  "route_sort_text BySlug r = ro_slug r"
| "route_sort_text ByTenant r = ro_tenantID r"
| "route_sort_text ByUpstream r = ro_upstreamURL r"

definition routesView :: "platform \<Rightarrow> (RouteSummary, route_sort) table_view" where
  "routesView P = \<lparr>tv_id = ro_id,
     tv_texts = (\<lambda>r. [ro_slug r, ro_upstreamURL r, ro_tenantID r, ro_requiredScope r]),
     tv_compare = (\<lambda>k a b. pf_compare P (route_sort_text k a) (route_sort_text k b)),
     tv_request = (\<lambda>a i. (''DELETE'', ''/api/admin/routes/'' @ encodeURIComponent i, JNull)),
     tv_actions = [BulkDelete]\<rparr>"

text \<open>Beside the shared state: the duplications under way, the row that shows one, and the error banner.\<close>

record routes_table = "(RouteSummary, route_sort) table" +
  rt_duplicating :: "string option"
  rt_duplicateError :: "json option"
  rt_duplicates :: "string list"

text \<open>The answer to a duplication: rejected, or status and body (\<open>JNull\<close> where parsing failed).\<close>

datatype status_answer = Rejected | Status int json

definition handleDuplicate :: "string \<Rightarrow> routes_table \<Rightarrow> routes_table" where
  "handleDuplicate i s = s\<lparr>rt_duplicating := Some i, rt_duplicateError := None, rt_duplicates := rt_duplicates s @ [i],
     ta_log := ta_log s @ [Sent (''POST'', ''/api/admin/routes/'' @ encodeURIComponent i @ ''/duplicate'', JNull)]\<rparr>"

definition ok_status :: "int \<Rightarrow> bool" where
  "ok_status n \<longleftrightarrow> 200 \<le> n \<and> n \<le> 299"

text \<open>\<open>body?.error ?? d\<close>.\<close>

definition error_nullish :: "json \<Rightarrow> string \<Rightarrow> json" where
  "error_nullish body d = (case jprop body ''error'' of None \<Rightarrow> JStr d | Some JNull \<Rightarrow> JStr d | Some e \<Rightarrow> e)"

definition duplicated :: "string \<Rightarrow> status_answer \<Rightarrow> routes_table \<Rightarrow> routes_table" where
  "duplicated i a s =
     (let s' = (case a of
          Rejected \<Rightarrow> s\<lparr>rt_duplicateError := Some (JStr ''Failed to duplicate route'')\<rparr>
        | Status n body \<Rightarrow>
            if ok_status n then s\<lparr>ta_log := ta_log s @ [Refreshed]\<rparr>
            else s\<lparr>rt_duplicateError := Some (error_nullish body (''Failed to duplicate route ('' @ show_int n @ '')''))\<rparr>)
      in s'\<lparr>rt_duplicating := None, rt_duplicates := remove1 i (rt_duplicates s)\<rparr>)"

datatype routes_event =
    TableEvent "(RouteSummary, route_sort) table_event"
  | DuplicatePressed string | DuplicateAnswered string status_answer | BannerClosed

fun routes_step :: "platform \<Rightarrow> routes_table \<Rightarrow> routes_event \<Rightarrow> routes_table" where
  "routes_step P s (TableEvent e) = table_step P (routesView P) s e"
| "routes_step P s (DuplicatePressed i) =
     (if ta_disabled s \<or> rt_duplicating s = Some i \<or> i \<notin> ro_id ` set (filtered_rows P (routesView P) s) then s
      else handleDuplicate i s)"
| "routes_step P s (DuplicateAnswered i a) = (if i \<in> set (rt_duplicates s) then duplicated i a s else s)"
| "routes_step P s BannerClosed = s\<lparr>rt_duplicateError := None\<rparr>"

text \<open>What a row shows: the address of the route and the state of its breaker.\<close>

definition fullUrl :: "string option \<Rightarrow> RouteSummary \<Rightarrow> string" where
  "fullUrl base r = (if truthy base then nullish base [] @ ''/proxy/'' @ ro_slug r else ''/proxy/'' @ ro_slug r)"

section \<open>The table of tokens\<close>

datatype token_sort = ByName | ByTokenTenant | ByExpiry | ByLastUsed

definition never_used :: string where
  "never_used = ''0001-01-01T00:00:00Z''"

definition lastUsed_time :: "platform \<Rightarrow> TokenSummary \<Rightarrow> int option" where
  "lastUsed_time P t = (if tk_lastUsedAt t = never_used then Some 0 else pf_getTime P (tk_lastUsedAt t))"

text \<open>The difference of two times; \<open>NaN\<close>, which \<open>sort\<close> takes for 0, if one is invalid.\<close>

definition time_diff :: "int option \<Rightarrow> int option \<Rightarrow> rat" where
  "time_diff a b = (case (a, b) of (Some x, Some y) \<Rightarrow> of_int (x - y) | _ \<Rightarrow> 0)"

fun token_compare :: "platform \<Rightarrow> token_sort \<Rightarrow> TokenSummary \<Rightarrow> TokenSummary \<Rightarrow> rat" where
  "token_compare P ByName a b = pf_compare P (tk_name a) (tk_name b)"
| "token_compare P ByTokenTenant a b = pf_compare P (tk_tenantID a) (tk_tenantID b)"
| "token_compare P ByExpiry a b = time_diff (pf_getTime P (tk_expiresAt a)) (pf_getTime P (tk_expiresAt b))"
| "token_compare P ByLastUsed a b = time_diff (lastUsed_time P a) (lastUsed_time P b)"

fun token_request :: "bulk_action \<Rightarrow> string \<Rightarrow> client_call" where
  "token_request BulkRevoke i =
     (''PATCH'', ''/api/admin/tokens/'' @ encodeURIComponent i, JObj [(''active'', JBool False)])"
| "token_request BulkDelete i = (''DELETE'', ''/api/admin/tokens/'' @ encodeURIComponent i, JNull)"

definition tokensView :: "platform \<Rightarrow> (TokenSummary, token_sort) table_view" where
  "tokensView P = \<lparr>tv_id = tk_id, tv_texts = (\<lambda>t. [tk_name t, tk_tenantID t, tk_preview t] @ tk_scopes t),
     tv_compare = token_compare P, tv_request = token_request, tv_actions = [BulkRevoke, BulkDelete]\<rparr>"

text \<open>The table of tokens has no steps of its own.\<close>

definition tokens_step ::
  "platform \<Rightarrow> (TokenSummary, token_sort) table \<Rightarrow> (TokenSummary, token_sort) table_event \<Rightarrow> (TokenSummary, token_sort) table" where
  "tokens_step P = table_step P (tokensView P)"

definition day_ms :: int where
  "day_ms = 1000 * 60 * 60 * 24"

text \<open>A warning is its label and whether it is urgent; an invalid date gives none.\<close>

definition expiryStatus :: "platform \<Rightarrow> string \<Rightarrow> int \<Rightarrow> (string \<times> bool) option" where
  "expiryStatus P expiresAt warningDays =
     (case pf_getTime P expiresAt of
        None \<Rightarrow> None
      | Some t \<Rightarrow>
          (let ms = t - pf_now P; days = ceil_div ms day_ms in
           if ms < 0 then Some (''Expired'', True)
           else if days \<le> warningDays then Some (''Expires in '' @ show_int days @ ''d'', days \<le> 2)
           else None))"

text \<open>With an invalid date every comparison fails and the label ends in \<open>NaN\<close>.\<close>

definition lastUsedLabel :: "platform \<Rightarrow> string \<Rightarrow> string" where
  "lastUsedLabel P lastUsedAt =
     (if lastUsedAt = [] \<or> lastUsedAt = never_used then ''Never used''
      else case pf_getTime P lastUsedAt of
        None \<Rightarrow> ''Used NaNd ago''
      | Some t \<Rightarrow>
          (let mins = (pf_now P - t) div 60000; hrs = mins div 60; days = hrs div 24 in
           if mins < 1 then ''Used just now''
           else if mins < 60 then ''Used '' @ show_int mins @ ''m ago''
           else if hrs < 24 then ''Used '' @ show_int hrs @ ''h ago''
           else ''Used '' @ show_int days @ ''d ago''))"

section \<open>Facts about the pieces\<close>

lemma js_Set_props: "distinct (js_Set xs) \<and> set (js_Set xs) = set xs"
proof -
  have "distinct s \<Longrightarrow> distinct (foldl (\<lambda>s x. if x \<in> set s then s else s @ [x]) s xs)
      \<and> set (foldl (\<lambda>s x. if x \<in> set s then s else s @ [x]) s xs) = set s \<union> set xs" for s
    by (induction xs arbitrary: s) auto
  from this [of "[]"] show ?thesis by (simp add: js_Set_def)
qed

lemma js_Set_distinct: "distinct xs \<Longrightarrow> js_Set xs = xs"
proof -
  have "distinct (s @ xs) \<Longrightarrow> foldl (\<lambda>s x. if x \<in> set s then s else s @ [x]) s xs = s @ xs" for s
    by (induction xs arbitrary: s) auto
  from this [of "[]"] show "distinct xs \<Longrightarrow> js_Set xs = xs" by (simp add: js_Set_def)
qed

lemma distinct_set_toggle [simp]: "distinct s \<Longrightarrow> distinct (set_toggle x s)"
  by (simp add: set_toggle_def)

lemma set_set_toggle [simp]: "set (set_toggle x s) = (if x \<in> set s then set s - {x} else insert x (set s))"
  by (auto simp: set_toggle_def)

lemma set_filtered_rows: "set (filtered_rows P V s) = {r \<in> set (ta_rows s). row_matches P V (pf_lower P (ta_search s)) r}"
  by (auto simp: filtered_rows_def)

text \<open>
  The contract of a view whose bulk actions name the row: different rows, different requests. The
  confirmation is for an action of the view, and what leaves the table are its requests.
\<close>

locale bulk_view =
  fixes P :: platform and V :: "('r, 'k) table_view"
  assumes request_inj: "tv_request V a i = tv_request V a j \<Longrightarrow> i = j"
begin

definition table_inv :: "('r, 'k, 'm) table_scheme \<Rightarrow> bool" where
  "table_inv s \<longleftrightarrow> distinct (ta_selected s) \<and> distinct (ta_running s)
     \<and> (\<forall>a. ta_confirm s = Some a \<longrightarrow> a \<in> set (tv_actions V) \<and> ta_selected s \<noteq> [])
     \<and> (\<forall>c. Sent c \<in> set (ta_log s) \<longrightarrow> (\<exists>a \<in> set (tv_actions V). \<exists>i. c = tv_request V a i))"

lemma table_inv_fresh: "table_fresh s \<Longrightarrow> table_inv s"
  by (simp add: table_fresh_def table_inv_def)

lemma table_inv_step: "table_inv s \<Longrightarrow> table_inv (table_step P V s e)"
proof (cases e)
  case (RowToggled i)
  assume "table_inv s"
  then show ?thesis
    unfolding RowToggled by (auto simp: table_inv_def keep_confirm_def toggleSelect_def)
next
  case AllToggled
  assume "table_inv s"
  then show ?thesis
    unfolding AllToggled
    by (auto simp: table_inv_def keep_confirm_def toggleSelectAll_def js_Set_props)
next
  case BulkConfirmed
  assume "table_inv s"
  then show ?thesis
    unfolding BulkConfirmed by (auto simp: table_inv_def handleBulk_def split: option.split)
next
  case (BulkAnswered a sts)
  assume "table_inv s"
  then show ?thesis
    unfolding BulkAnswered by (auto simp: table_inv_def bulk_ended_def Let_def)
qed (auto simp: table_inv_def toggleSort_def toggleExpanded_def toggleTester_def)

lemma distinct_requests: "distinct is \<Longrightarrow> distinct (map (tv_request V a) is)"
  by (auto simp: distinct_map inj_on_def dest: request_inj)

lemma log_changes:
  assumes "table_inv s" "ta_log (table_step P V s e) \<noteq> ta_log s"
  obtains (confirmed) a where "e = BulkConfirmed" "ta_confirm s = Some a" "a \<in> set (tv_actions V)"
      "a \<notin> set (ta_running s)" "ta_selected s \<noteq> []" "distinct (map (tv_request V a) (ta_selected s))"
      "ta_log (table_step P V s e) = ta_log s @ map (\<lambda>i. Sent (tv_request V a i)) (ta_selected s)"
  | (answered) a sts where "e = BulkAnswered a sts" "a \<in> set (ta_running s)" "None \<notin> set sts"
      "ta_log (table_step P V s e) = ta_log s @ [Refreshed]"
proof (cases e)
  case BulkConfirmed
  with assms(2) obtain a where a: "ta_confirm s = Some a" "a \<notin> set (ta_running s)" "ta_selected s \<noteq> []"
    by (auto simp: handleBulk_def split: option.splits if_splits)
  have "ta_log (table_step P V s e) = ta_log s @ map (\<lambda>i. Sent (tv_request V a i)) (ta_selected s)"
    using a by (simp add: BulkConfirmed handleBulk_def)
  moreover have "a \<in> set (tv_actions V)" "distinct (ta_selected s)" using assms(1) a by (auto simp: table_inv_def)
  ultimately show thesis using that(1) BulkConfirmed a distinct_requests by blast
next
  case (BulkAnswered a sts)
  with assms(2) have a: "a \<in> set (ta_running s)" "None \<notin> set sts"
    by (auto simp: bulk_ended_def Let_def split: if_splits)
  then have "ta_log (table_step P V s e) = ta_log s @ [Refreshed]"
    by (simp add: BulkAnswered bulk_ended_def Let_def)
  with a BulkAnswered that(2) show thesis by blast
qed (use assms(2) in \<open>auto simp: table_handler_defs split: if_splits\<close>)

end

sublocale bulk_view \<subseteq> machine: invariant table_fresh "table_trans P V" table_inv
proof unfold_locales
  show "table_inv s" if "table_fresh s" for s using that by (rule table_inv_fresh)
  show "table_inv t" if "table_trans P V s e t" "table_inv s" for s e t
    using that table_inv_step by (simp add: table_trans_def)
qed

interpretation routes_view: bulk_view P "routesView P" for P
  by unfold_locales (simp add: routesView_def encodeURIComponent_inj)

interpretation tokens_view: bulk_view P "tokensView P" for P
proof unfold_locales
  show "i = j" if "tv_request (tokensView P) a i = tv_request (tokensView P) a j" for a i j
    using that by (cases a) (simp_all add: tokensView_def encodeURIComponent_inj)
qed

section \<open>Properties\<close>


text \<open>What the table of routes shows: the routes that contain the search text, each as often as it is in the
  data, in the order of the chosen column and direction; sorting again changes nothing.\<close>

theorem shown_routes_are_the_matches_in_order:
  assumes "comparator (pf_compare P)"
  shows "mset (filtered_rows P (routesView P) s)
         = filter_mset (\<lambda>r. pf_lower P (ta_search s) = [] \<or> sublist (pf_lower P (ta_search s)) (pf_lower P (ro_slug r))
             \<or> sublist (pf_lower P (ta_search s)) (pf_lower P (ro_upstreamURL r))
             \<or> sublist (pf_lower P (ta_search s)) (pf_lower P (ro_tenantID r))
             \<or> sublist (pf_lower P (ta_search s)) (pf_lower P (ro_requiredScope r))) (mset (ta_rows s))
    \<and> sorted_wrt (\<lambda>a b. (if ta_asc s
           then pf_compare P (route_sort_text (ta_sortKey s) a) (route_sort_text (ta_sortKey s) b)
           else pf_compare P (route_sort_text (ta_sortKey s) b) (route_sort_text (ta_sortKey s) a)) \<le> 0)
         (filtered_rows P (routesView P) s)"
proof -
  let ?cmp = "directed (ta_asc s) (tv_compare (routesView P) (ta_sortKey s))"
  have "comparator (\<lambda>a b. pf_compare P (route_sort_text (ta_sortKey s) a) (route_sort_text (ta_sortKey s) b))"
    using assms by (rule comparator_on)
  then have "comparator ?cmp"
    by (auto simp: comparator_def directed_def routesView_def)
  then have sorted: "sorted_wrt (\<lambda>a b. ?cmp a b \<le> 0) (filtered_rows P (routesView P) s)"
    unfolding filtered_rows_def by (rule comparator.sorted_js_sort)
  have cmp: "?cmp = (\<lambda>a b. if ta_asc s
           then pf_compare P (route_sort_text (ta_sortKey s) a) (route_sort_text (ta_sortKey s) b)
           else pf_compare P (route_sort_text (ta_sortKey s) b) (route_sort_text (ta_sortKey s) a))"
    by (intro ext) (simp add: directed_def routesView_def)
  have shown: "mset (filtered_rows P (routesView P) s)
      = filter_mset (row_matches P (routesView P) (pf_lower P (ta_search s))) (mset (ta_rows s))"
    by (simp add: filtered_rows_def)
  have match: "row_matches P (routesView P) q = (\<lambda>r. q = [] \<or> sublist q (pf_lower P (ro_slug r))
      \<or> sublist q (pf_lower P (ro_upstreamURL r)) \<or> sublist q (pf_lower P (ro_tenantID r))
      \<or> sublist q (pf_lower P (ro_requiredScope r)))" for q
    by (intro ext) (simp add: row_matches_def routesView_def)
  from sorted shown show ?thesis unfolding cmp match by (intro conjI)
qed

text \<open>Selecting all rows selects exactly the rows shown, and doing it again clears the selection, provided the
  keys are unique and not as many rows were selected as are shown.\<close>

theorem select_all_selects_what_is_shown:
  assumes "distinct (map ro_id (ta_rows s))"
    and "length (ta_selected s) \<noteq> length (filtered_rows P (routesView P) s)"
  shows "(let t = table_step P (routesView P) s AllToggled in
      ta_selected t = map ro_id (filtered_rows P (routesView P) s)
      \<and> filtered_rows P (routesView P) t = filtered_rows P (routesView P) s
      \<and> ta_selected (table_step P (routesView P) t AllToggled) = [])"
proof -
  let ?F = "filtered_rows P (routesView P)"
  have frame: "?F (s\<lparr>ta_selected := x\<rparr>) = ?F s" "?F (s\<lparr>ta_selected := x, ta_confirm := y\<rparr>) = ?F s" for x y
    by (simp_all add: filtered_rows_def)
  have "distinct (map ro_id (?F s))"
    using assms(1) unfolding filtered_rows_def js_sort_distinct_map by (rule distinct_map_filter)
  then have "js_Set (map ro_id (?F s)) = map ro_id (?F s)" by (rule js_Set_distinct)
  moreover have "tv_id (routesView P) = ro_id" by (simp add: routesView_def)
  ultimately show ?thesis
    using assms(2) by (simp add: toggleSelectAll_def keep_confirm_def frame Let_def)
qed

text \<open>The header checkbox compares counts only: with as many rows selected by an earlier search as are shown
  now, it shows all of them as selected, and pressing it clears the selection instead.\<close>

theorem hidden_selection_defeats_select_all:
  assumes "length (ta_selected s) = length (filtered_rows P (routesView P) s)" and "ta_selected s \<noteq> []"
    and "\<forall>r \<in> set (filtered_rows P (routesView P) s). ro_id r \<notin> set (ta_selected s)"
  shows "\<exists>r \<in> set (filtered_rows P (routesView P) s). header_checked P (routesView P) s
     \<and> ro_id r \<notin> set (ta_selected s) \<and> ta_selected (table_step P (routesView P) s AllToggled) = []"
proof -
  have "filtered_rows P (routesView P) s \<noteq> []" using assms(1,2) by auto
  then obtain r where "r \<in> set (filtered_rows P (routesView P) s)" by (cases "filtered_rows P (routesView P) s") auto
  with assms show ?thesis by (auto simp: header_checked_def toggleSelectAll_def keep_confirm_def)
qed

text \<open>A search does not touch the selection: rows that are no longer shown are still deleted with the others.\<close>

theorem hidden_rows_are_deleted:
  assumes "ta_confirm s = None" and "\<not> ta_disabled s" and "BulkDelete \<notin> set (ta_running s)" and "i \<in> set (ta_selected s)"
  shows "Sent (''DELETE'', ''/api/admin/routes/'' @ encodeURIComponent i, JNull)
    \<in> set (ta_log (foldl (table_step P (routesView P)) s [SearchTyped q, BulkPressed BulkDelete, BulkConfirmed]))"
  using assms by (auto simp: handleBulk_def routesView_def)

text \<open>The answers to a bulk action are not looked at: refused by the backend or not, the selection is cleared and
  the page refreshed, and nothing is reported.\<close>

theorem bulk_failures_go_unnoticed:
  assumes "a \<in> set (ta_running s)" and "None \<notin> set sts" and "None \<notin> set sts'"
  shows "table_step P V s (BulkAnswered a sts) = table_step P V s (BulkAnswered a sts')
    \<and> ta_selected (table_step P V s (BulkAnswered a sts)) = []
    \<and> ta_log (table_step P V s (BulkAnswered a sts)) = ta_log s @ [Refreshed]"
  using assms by (simp add: bulk_ended_def)

lemma ceil_days_le: "ceil_div a day_ms \<le> n \<longleftrightarrow> a \<le> n * day_ms"
  by (rule ceil_div_le) (simp add: day_ms_def)

text \<open>The warning of a token: "Expired" when its time has passed, none while it lasts longer than the warning
  period, and otherwise the number of days it still lasts, rounded up, urgent for the last two.\<close>

theorem expiry_warning_is_exact:
  assumes "pf_getTime P e = Some t" and "ms = t - pf_now P"
  shows "(ms < 0 \<longrightarrow> expiryStatus P e w = Some (''Expired'', True))
    \<and> (0 \<le> ms \<and> w * day_ms < ms \<longrightarrow> expiryStatus P e w = None)
    \<and> (0 \<le> ms \<and> ms \<le> w * day_ms \<longrightarrow>
        (\<exists>d. expiryStatus P e w = Some (''Expires in '' @ show_int d @ ''d'', ms \<le> 2 * day_ms)
           \<and> (d - 1) * day_ms < ms \<and> ms \<le> d * day_ms))"
proof -
  have eq: "expiryStatus P e w = (if ms < 0 then Some (''Expired'', True)
      else if ms \<le> w * day_ms then Some (''Expires in '' @ show_int (ceil_div ms day_ms) @ ''d'', ms \<le> 2 * day_ms)
      else None)"
    using assms by (simp add: expiryStatus_def Let_def ceil_days_le)
  have "(ceil_div ms day_ms - 1) * day_ms < ms" "ms \<le> ceil_div ms day_ms * day_ms"
    using ceil_days_le [of ms "ceil_div ms day_ms - 1"] ceil_days_le [of ms "ceil_div ms day_ms"] by auto
  then show ?thesis unfolding eq by auto
qed

section \<open>Witnesses\<close>

definition exPlatform :: platform where
  "exPlatform = \<lparr>pf_lower = (\<lambda>s. s), pf_compare = codeunit_compare, pf_getTime = (\<lambda>_. Some 100), pf_now = 0\<rparr>"

definition exRoute :: "string \<Rightarrow> RouteSummary" where
  "exRoute i = \<lparr>ro_id = i, ro_slug = i, ro_targetPath = ''/'', ro_tenantID = ''t'',
     ro_upstreamURL = ''u'', ro_healthCheckPath = None, ro_requiredScope = ''w'', ro_methods = [''GET''],
     ro_rateLimitRPM = 0, ro_rateLimitBurst = 0, ro_allowCIDRs = [], ro_denyCIDRs = [],
     ro_circuitBreakerState = None, ro_circuitBreakerLocked = None\<rparr>"

definition exRoutes :: "(RouteSummary, route_sort) table" where
  "exRoutes = \<lparr>ta_rows = [exRoute ''b'', exRoute ''a''], ta_disabled = False, ta_search = [], ta_sortKey = BySlug,
     ta_asc = True, ta_selected = [], ta_confirm = None, ta_running = [], ta_expanded = None, ta_tester = None,
     ta_log = []\<rparr>"

definition exTokens :: "(TokenSummary, token_sort) table" where
  "exTokens = \<lparr>ta_rows = [\<lparr>tk_id = ''t1'', tk_name = ''n'', tk_tenantID = ''t'', tk_scopes = [], tk_expiresAt = [],
       tk_lastUsedAt = never_used, tk_createdAt = [], tk_preview = [], tk_active = True, tk_rateLimitRPM = 0,
       tk_rateLimitBurst = 0\<rparr>],
     ta_disabled = False, ta_search = [], ta_sortKey = ByName, ta_asc = True, ta_selected = [], ta_confirm = None,
     ta_running = [], ta_expanded = None, ta_tester = None, ta_log = []\<rparr>"

definition exConfirming :: "(TokenSummary, token_sort) table" where
  "exConfirming = exTokens\<lparr>ta_selected := [''t1''], ta_confirm := Some BulkRevoke\<rparr>"

lemma exConfirming_reach: "reach table_fresh (table_trans exPlatform (tokensView exPlatform)) exConfirming"
proof -
  have "reach table_fresh (table_trans exPlatform (tokensView exPlatform)) exTokens"
    by (rule reach_init) (simp add: table_fresh_def exTokens_def)
  then have "reach table_fresh (table_trans exPlatform (tokensView exPlatform)) (exTokens\<lparr>ta_selected := [''t1'']\<rparr>)"
    by (rule reach_step [where e = "RowToggled ''t1''"])
       (simp add: table_trans_def keep_confirm_def toggleSelect_def set_toggle_def set_filtered_rows row_matches_def
          exPlatform_def tokensView_def exTokens_def)
  then show ?thesis
    by (rule reach_step [where e = "BulkPressed BulkRevoke"])
       (simp add: table_trans_def tokensView_def exConfirming_def exTokens_def)
qed


theorem shown_routes_are_the_matches_in_order_witness:
  "mset (filtered_rows exPlatform (routesView exPlatform) exRoutes) = {#exRoute ''b'', exRoute ''a''#}"
proof -
  have "comparator (pf_compare exPlatform)"
    by (simp add: exPlatform_def codeunit.comparator_axioms)
  from shown_routes_are_the_matches_in_order [OF this, of exRoutes] show ?thesis
    by (simp add: exRoutes_def exPlatform_def)
qed

lemma exShown:
  "filtered_rows exPlatform (routesView exPlatform) (exRoutes\<lparr>ta_search := ''a'', ta_selected := x\<rparr>) = [exRoute ''a'']"
  by (simp add: filtered_rows_def exRoutes_def row_matches_def routesView_def exPlatform_def exRoute_def sublist_code
      directed_def)

theorem select_all_selects_what_is_shown_witness:
  "ta_selected (table_step exPlatform (routesView exPlatform) (exRoutes\<lparr>ta_search := ''a'', ta_selected := []\<rparr>) AllToggled)
   = [''a'']"
proof -
  have "distinct (map ro_id (ta_rows (exRoutes\<lparr>ta_search := ''a'', ta_selected := []\<rparr>)))"
    by (simp add: exRoutes_def exRoute_def)
  from select_all_selects_what_is_shown [OF this, of exPlatform] show ?thesis
    by (simp add: exShown Let_def) (simp add: exRoute_def)
qed

theorem hidden_selection_defeats_select_all_witness:
  "ta_selected (table_step exPlatform (routesView exPlatform) (exRoutes\<lparr>ta_search := ''a'', ta_selected := [''b'']\<rparr>) AllToggled)
   = []"
proof -
  let ?s = "exRoutes\<lparr>ta_search := ''a'', ta_selected := [''b'']\<rparr>"
  have "length (ta_selected ?s) = length (filtered_rows exPlatform (routesView exPlatform) ?s)" "ta_selected ?s \<noteq> []"
    "\<forall>r \<in> set (filtered_rows exPlatform (routesView exPlatform) ?s). ro_id r \<notin> set (ta_selected ?s)"
    by (simp_all add: exShown) (simp add: exRoute_def)
  from hidden_selection_defeats_select_all [OF this] show ?thesis by blast
qed

theorem hidden_rows_are_deleted_witness:
  "Sent (''DELETE'', ''/api/admin/routes/'' @ encodeURIComponent ''b'', JNull)
    \<in> set (ta_log (foldl (table_step exPlatform (routesView exPlatform)) (exRoutes\<lparr>ta_selected := [''b'']\<rparr>)
        [SearchTyped ''a'', BulkPressed BulkDelete, BulkConfirmed]))"
  by (rule hidden_rows_are_deleted) (simp_all add: exRoutes_def)

theorem bulk_failures_go_unnoticed_witness:
  "ta_selected (table_step exPlatform (tokensView exPlatform) (exConfirming\<lparr>ta_running := [BulkRevoke]\<rparr>)
     (BulkAnswered BulkRevoke [Some 500])) = []"
proof -
  have "BulkRevoke \<in> set (ta_running (exConfirming\<lparr>ta_running := [BulkRevoke]\<rparr>))"
    "None \<notin> set [Some (500::int)]" "None \<notin> set [Some (200::int)]" by simp_all
  from bulk_failures_go_unnoticed [OF this] show ?thesis by blast
qed

theorem expiry_warning_is_exact_witness:
  "\<exists>d. expiryStatus exPlatform ''x'' 7 = Some (''Expires in '' @ show_int d @ ''d'', True) \<and> d * day_ms \<ge> 100"
proof -
  have "pf_getTime exPlatform ''x'' = Some 100" "(100::int) = 100 - pf_now exPlatform" by (simp_all add: exPlatform_def)
  from expiry_warning_is_exact [OF this, of 7] show ?thesis by (auto simp: day_ms_def)
qed

end
