(* ===== verification/Charts.thy ===== *)
theory Charts
  imports Tables TopologyGeometry
begin

text \<open>
  The figures of the statistics widgets: the day in five-minute slots that
  \<open>components/admin/dashboard-charts.tsx\<close>, \<open>route-traffic-panel.tsx\<close> and \<open>token-stats-panel.tsx\<close>
  draw, the zoom of the first, the shades of \<open>traffic-heatmap.tsx\<close>, the bars of
  \<open>token-lifecycle-gantt.tsx\<close> and of \<open>request-waterfall.tsx\<close>. Drawing them is left to the browser and to
  recharts. A computation that may throw while it renders is an option, \<open>None\<close> the exception.
\<close>

section \<open>The day in slots\<close>

text \<open>
  \<open>TrafficStat\<close> and \<open>TokenTrafficStat\<close> share the properties that are read here. Latencies are
  averages, so they may be fractions.
\<close>

record TrafficStat =
  sx_bucket :: string
  sx_tenantID :: string
  sx_routeSlug :: string
  sx_requestCount :: int
  sx_errorCount :: int
  sx_avgLatencyMs :: rat

record TokenTrafficStat = TrafficStat +
  sx_tokenID :: string
  sx_status2xx :: int
  sx_status4xx :: int
  sx_status5xx :: int

record slot_sums =
  sl_requests :: int
  sl_errors :: int
  sl_latencySum :: rat
  sl_latencyCount :: int

record DataPoint =
  dp_time :: string
  dp_requests :: int
  dp_errors :: int
  dp_avgLatency :: int

definition BUCKET_ms :: int where
  "BUCKET_ms = 5 * 60000"

definition SLOTS :: nat where
  "SLOTS = 24 * 60 div 5"

definition alignedNow :: "platform \<Rightarrow> int" where
  "alignedNow P = pf_now P div BUCKET_ms * BUCKET_ms"

definition slotTime :: "platform \<Rightarrow> nat \<Rightarrow> int" where
  "slotTime P i = alignedNow P - int i * BUCKET_ms"

definition first_in_slot :: "('m) TrafficStat_scheme \<Rightarrow> slot_sums" where
  "first_in_slot s = \<lparr>sl_requests = sx_requestCount s, sl_errors = sx_errorCount s,
     sl_latencySum = sx_avgLatencyMs s * of_int (sx_requestCount s), sl_latencyCount = sx_requestCount s\<rparr>"

definition add_to_slot :: "('m) TrafficStat_scheme \<Rightarrow> slot_sums \<Rightarrow> slot_sums" where
  "add_to_slot s d = d\<lparr>sl_requests := sl_requests d + sx_requestCount s,
     sl_errors := sl_errors d + sx_errorCount s,
     sl_latencySum := sl_latencySum d + sx_avgLatencyMs s * of_int (sx_requestCount s),
     sl_latencyCount := sl_latencyCount d + sx_requestCount s\<rparr>"

text \<open>
  The keys of the map are ISO strings, one per valid time, so the times serve as well;
  \<open>toISOString\<close> throws for an invalid one.
\<close>

fun dataMap ::
  "platform \<Rightarrow> (int \<rightharpoonup> slot_sums) \<Rightarrow> ('m) TrafficStat_scheme list \<Rightarrow> (int \<rightharpoonup> slot_sums) option" where
  "dataMap P m [] = Some m"
| "dataMap P m (s # ss) =
     (case pf_getTime P (sx_bucket s) of
        None \<Rightarrow> None
      | Some t \<Rightarrow>
          dataMap P (m(t \<mapsto> (case m t of Some d \<Rightarrow> add_to_slot s d | None \<Rightarrow> first_in_slot s))) ss)"

definition slot_point :: "(int \<Rightarrow> string) \<Rightarrow> int \<Rightarrow> slot_sums option \<Rightarrow> DataPoint" where
  "slot_point label t d = \<lparr>dp_time = label t,
     dp_requests = (case d of Some x \<Rightarrow> sl_requests x | None \<Rightarrow> 0),
     dp_errors = (case d of Some x \<Rightarrow> sl_errors x | None \<Rightarrow> 0),
     dp_avgLatency =
       (case d of
          Some x \<Rightarrow> if sl_latencyCount x > 0 then math_round (sl_latencySum x / of_int (sl_latencyCount x)) else 0
        | None \<Rightarrow> 0)\<rparr>"

text \<open>\<open>label\<close> stands for \<open>toLocaleTimeString\<close> with hours and minutes.\<close>

definition buildTimeSeries ::
  "platform \<Rightarrow> (int \<Rightarrow> string) \<Rightarrow> ('m) TrafficStat_scheme list \<Rightarrow> DataPoint list option" where
  "buildTimeSeries P label stats =
     map_option (\<lambda>m. map (\<lambda>i. slot_point label (slotTime P i) (m (slotTime P i))) (rev [0..<SLOTS]))
       (dataMap P Map.empty stats)"

text \<open>The two panels have the same function under another name.\<close>

definition buildSeries_route :: "platform \<Rightarrow> (int \<Rightarrow> string) \<Rightarrow> TrafficStat list \<Rightarrow> DataPoint list option" where
  "buildSeries_route P label stats = buildTimeSeries P label stats"

definition buildSeries_token :: "platform \<Rightarrow> (int \<Rightarrow> string) \<Rightarrow> TokenTrafficStat list \<Rightarrow> DataPoint list option" where
  "buildSeries_token P label stats = buildTimeSeries P label stats"

section \<open>The totals of a panel\<close>

record panel_totals =
  pt_requests :: int
  pt_errors :: int
  pt_avgLatency :: int

text \<open>Both panels add up in the same way; the route's also shows the share of errors.\<close>

definition panelTotals :: "('m) TrafficStat_scheme list \<Rightarrow> panel_totals" where
  "panelTotals stats = \<lparr>pt_requests = sum_list (map sx_requestCount stats),
     pt_errors = sum_list (map sx_errorCount stats),
     pt_avgLatency =
       (if stats \<noteq> [] then math_round (sum_list (map sx_avgLatencyMs stats) / of_nat (length stats)) else 0)\<rparr>"

text \<open>\<open>x.toFixed(1)\<close> for a number that is not negative.\<close>

definition toFixed1 :: "rat \<Rightarrow> string" where
  "toFixed1 x = (let n = nat (math_round (10 * x)) in show_nat (n div 10) @ ''.'' @ show_nat (n mod 10))"

definition panel_errorRate :: "TrafficStat list \<Rightarrow> string" where
  "panel_errorRate stats =
     (let n = pt_requests (panelTotals stats) in
      if n > 0 then toFixed1 (of_int (pt_errors (panelTotals stats)) / of_int n * 100) else ''0'')"

text \<open>What a panel shows: a placeholder while it loads or without requests, else its totals and its chart.\<close>

datatype panel_view = Panel_loading | Panel_empty | Panel_shown panel_totals "DataPoint list"

text \<open>\<open>answer\<close>: what the fetch came to; anything but a list of statistics leaves the list empty.\<close>

datatype 's panel_answer = Panel_waiting | Panel_list "'s list" | Panel_other

definition panel_stats :: "'s panel_answer \<Rightarrow> 's list" where
  "panel_stats a = (case a of Panel_list ss \<Rightarrow> ss | _ \<Rightarrow> [])"

definition statsPanel ::
  "platform \<Rightarrow> (int \<Rightarrow> string) \<Rightarrow> ('m) TrafficStat_scheme panel_answer \<Rightarrow> panel_view option" where
  "statsPanel P label a =
     map_option (\<lambda>pts.
       if a = Panel_waiting then Panel_loading
       else if pt_requests (panelTotals (panel_stats a)) = 0 then Panel_empty
       else Panel_shown (panelTotals (panel_stats a)) pts)
     (buildTimeSeries P label (panel_stats a))"

section \<open>The slots against a direct definition\<close>

definition slot_members :: "platform \<Rightarrow> int \<Rightarrow> ('m) TrafficStat_scheme list \<Rightarrow> ('m) TrafficStat_scheme list" where
  "slot_members P t stats = filter (\<lambda>s. pf_getTime P (sx_bucket s) = Some t) stats"

definition weighted_latency :: "('m) TrafficStat_scheme list \<Rightarrow> rat" where
  "weighted_latency ss = sum_list (map (\<lambda>s. sx_avgLatencyMs s * of_int (sx_requestCount s)) ss)"

definition requests_of :: "('m) TrafficStat_scheme list \<Rightarrow> int" where
  "requests_of ss = sum_list (map sx_requestCount ss)"

definition direct_point :: "(int \<Rightarrow> string) \<Rightarrow> int \<Rightarrow> ('m) TrafficStat_scheme list \<Rightarrow> DataPoint" where
  "direct_point label t ss = \<lparr>dp_time = label t, dp_requests = requests_of ss,
     dp_errors = sum_list (map sx_errorCount ss),
     dp_avgLatency =
       (if requests_of ss > 0 then math_round (weighted_latency ss / of_int (requests_of ss)) else 0)\<rparr>"

definition slot_after :: "slot_sums option \<Rightarrow> ('m) TrafficStat_scheme list \<Rightarrow> slot_sums option" where
  "slot_after d ss = fold (\<lambda>s d. Some (case d of Some x \<Rightarrow> add_to_slot s x | None \<Rightarrow> first_in_slot s)) ss d"

lemma dataMap_slots:
  "dataMap P m ss =
     (if \<exists>s \<in> set ss. pf_getTime P (sx_bucket s) = None then None
      else Some (\<lambda>t. slot_after (m t) (slot_members P t ss)))"
proof (induction ss arbitrary: m)
  case (Cons s ss)
  then show ?case
    by (cases "pf_getTime P (sx_bucket s)")
      (auto simp: slot_after_def slot_members_def fun_eq_iff split: option.splits)
qed (simp add: slot_after_def slot_members_def)

lemma slot_after_Some:
  "slot_after (Some d) ss = Some \<lparr>sl_requests = sl_requests d + requests_of ss,
     sl_errors = sl_errors d + sum_list (map sx_errorCount ss),
     sl_latencySum = sl_latencySum d + weighted_latency ss,
     sl_latencyCount = sl_latencyCount d + requests_of ss\<rparr>"
  by (induction ss arbitrary: d)
    (simp_all add: slot_after_def requests_of_def weighted_latency_def add_to_slot_def algebra_simps)

lemma slot_after_None:
  "slot_after None ss = (if ss = [] then None else Some \<lparr>sl_requests = requests_of ss,
     sl_errors = sum_list (map sx_errorCount ss), sl_latencySum = weighted_latency ss,
     sl_latencyCount = requests_of ss\<rparr>)"
proof (cases ss)
  case (Cons s r)
  have "slot_after None (s # r) = slot_after (Some (first_in_slot s)) r" by (simp add: slot_after_def)
  then show ?thesis
    using Cons by (simp add: slot_after_Some requests_of_def weighted_latency_def first_in_slot_def)
qed (simp add: slot_after_def)

lemma slot_point_direct: "slot_point label t (slot_after None ss) = direct_point label t ss"
  by (simp add: slot_after_None slot_point_def direct_point_def requests_of_def)

text \<open>C31: The chart of a day has one point for each of its 288 slots of five minutes, the latest last, and
  each point adds up the statistics of its own slot, the latency weighted by requests. If the time
  of some statistic cannot be read the widget fails instead.
\<close>

theorem day_is_charted_by_slots:
  "buildTimeSeries P label stats =
     (if \<exists>s \<in> set stats. pf_getTime P (sx_bucket s) = None then None
      else Some (map (\<lambda>i. direct_point label (slotTime P i) (slot_members P (slotTime P i) stats)) (rev [0..<SLOTS])))"
  by (simp add: buildTimeSeries_def dataMap_slots slot_point_direct)

definition on_chart :: "platform \<Rightarrow> ('m) TrafficStat_scheme \<Rightarrow> bool" where
  "on_chart P s =
     (case pf_getTime P (sx_bucket s) of
        None \<Rightarrow> False
      | Some t \<Rightarrow> t mod BUCKET_ms = 0 \<and> alignedNow P - 287 * BUCKET_ms \<le> t \<and> t \<le> alignedNow P)"

lemma slotTime_inj: "slotTime P i = slotTime P j \<longleftrightarrow> i = j"
  by (simp add: slotTime_def BUCKET_ms_def)

lemma on_chart_slot:
  assumes "pf_getTime P (sx_bucket s) = Some t"
  shows "on_chart P s \<longleftrightarrow> (\<exists>i < SLOTS. t = slotTime P i)"
proof
  assume "on_chart P s"
  then have t: "t mod BUCKET_ms = 0" "alignedNow P - 287 * BUCKET_ms \<le> t" "t \<le> alignedNow P"
    using assms by (auto simp: on_chart_def)
  define k where "k = pf_now P div BUCKET_ms - t div BUCKET_ms"
  have "t = t div BUCKET_ms * BUCKET_ms" using t(1) by auto
  then have e: "alignedNow P - t = k * BUCKET_ms" by (simp add: alignedNow_def k_def left_diff_distrib)
  then have "0 \<le> k \<and> k \<le> 287" using t(2,3) by (simp add: BUCKET_ms_def)
  then show "\<exists>i < SLOTS. t = slotTime P i"
    using e by (intro exI [of _ "nat k"]) (auto simp: SLOTS_def slotTime_def nat_less_iff)
next
  assume "\<exists>i < SLOTS. t = slotTime P i"
  then show "on_chart P s"
    using assms by (auto simp: on_chart_def slotTime_def alignedNow_def SLOTS_def BUCKET_ms_def)
qed

lemma sum_single: "sum_list (map (\<lambda>x. if P x then c else 0) xs) = (of_nat (length (filter P xs)) * c :: int)"
  by (induction xs) (simp_all add: algebra_simps)

lemma slot_count:
  assumes "pf_getTime P (sx_bucket s) = Some t"
  shows "length (filter (\<lambda>i. t = slotTime P i) [0..<SLOTS]) = (if on_chart P s then 1 else 0)"
proof -
  have "length (filter (\<lambda>i. t = slotTime P i) [0..<SLOTS]) = card {i. i < SLOTS \<and> t = slotTime P i}"
    by (subst distinct_length_filter) (auto intro: arg_cong [where f = card])
  also have "\<dots> = (if on_chart P s then 1 else 0)"
  proof (cases "on_chart P s")
    case True
    then obtain i where "i < SLOTS" "t = slotTime P i" using on_chart_slot [OF assms] by blast
    then have "{i. i < SLOTS \<and> t = slotTime P i} = {i}" by (auto simp: slotTime_inj)
    then show ?thesis using True by simp
  next
    case False
    then show ?thesis using on_chart_slot [OF assms] by auto
  qed
  finally show ?thesis .
qed

lemma charted_sum:
  assumes "\<forall>s \<in> set stats. pf_getTime P (sx_bucket s) \<noteq> None"
  shows "sum_list (map (\<lambda>i. requests_of (slot_members P (slotTime P i) stats)) [0..<SLOTS])
     = requests_of (filter (on_chart P) stats)"
  using assms
proof (induction stats)
  case (Cons s ss)
  from Cons.prems obtain t where t: "pf_getTime P (sx_bucket s) = Some t" by auto
  have "requests_of (slot_members P (slotTime P i) (s # ss))
      = (if t = slotTime P i then sx_requestCount s else 0) + requests_of (slot_members P (slotTime P i) ss)" for i
    by (simp add: requests_of_def slot_members_def t)
  then have "sum_list (map (\<lambda>i. requests_of (slot_members P (slotTime P i) (s # ss))) [0..<SLOTS])
      = sum_list (map (\<lambda>i. if t = slotTime P i then sx_requestCount s else 0) [0..<SLOTS])
        + requests_of (filter (on_chart P) ss)"
    using Cons by (simp add: sum_list_addf del: upt_rec_numeral)
  also have "sum_list (map (\<lambda>i. if t = slotTime P i then sx_requestCount s else 0) [0..<SLOTS])
      = (if on_chart P s then sx_requestCount s else 0)"
    by (simp add: sum_single slot_count [OF t])
  finally show ?case by (simp add: requests_of_def)
qed (simp add: requests_of_def slot_members_def)

text \<open>
  The chart shows every request of the last 24 hours once: its points add up to the requests of the
  statistics that begin on a five-minute mark of the day shown. Statistics that begin off a mark,
  or before it, are left out without notice.
\<close>

theorem charted_requests_add_up:
  assumes "buildTimeSeries P label stats = Some pts"
  shows "length pts = 288
     \<and> sum_list (map dp_requests pts) = requests_of (filter (on_chart P) stats)"
proof -
  have ok: "\<forall>s \<in> set stats. pf_getTime P (sx_bucket s) \<noteq> None"
    and pts: "pts = map (\<lambda>i. direct_point label (slotTime P i) (slot_members P (slotTime P i) stats)) (rev [0..<SLOTS])"
    using assms [unfolded buildTimeSeries_def dataMap_slots]
    by (auto simp: slot_point_direct split: if_splits)
  have "map dp_requests pts = rev (map (\<lambda>i. requests_of (slot_members P (slotTime P i) stats)) [0..<SLOTS])"
    by (simp add: pts rev_map direct_point_def o_def)
  then show ?thesis using charted_sum [OF ok] by (simp add: pts SLOTS_def sum_list_rev)
qed

section \<open>The zoom of the dashboard\<close>

record TrafficOverview =
  to_totalRequests :: int
  to_errorRate :: rat
  to_avgLatencyMs :: rat
  to_priorRequests :: int
  to_priorErrorRate :: rat
  to_priorAvgLatency :: rat

text \<open>\<open>fullData\<close> is memoised: it is built anew when the statistics change, by the clock of that moment.\<close>

record dashboard =
  db_fullData :: "DataPoint list"
  db_overview :: TrafficOverview
  db_zoomLeft :: "string option"
  db_zoomRight :: "string option"
  db_isDragging :: bool
  db_zoomedDomain :: "(nat \<times> nat) option"

definition dashboard_start ::
  "platform \<Rightarrow> (int \<Rightarrow> string) \<Rightarrow> TrafficStat list \<Rightarrow> TrafficOverview \<Rightarrow> dashboard option" where
  "dashboard_start P label stats ov = map_option (\<lambda>d. \<lparr>db_fullData = d, db_overview = ov,
     db_zoomLeft = None, db_zoomRight = None, db_isDragging = False, db_zoomedDomain = None\<rparr>)
     (buildTimeSeries P label stats)"

definition findIndex :: "('a \<Rightarrow> bool) \<Rightarrow> 'a list \<Rightarrow> nat option" where
  "findIndex p xs = (let i = length (takeWhile (\<lambda>x. \<not> p x) xs) in if i < length xs then Some i else None)"

definition slice :: "nat \<Rightarrow> nat \<Rightarrow> 'a list \<Rightarrow> 'a list" where
  "slice a b xs = take (b - a) (drop a xs)"

definition visibleData :: "dashboard \<Rightarrow> DataPoint list" where
  "visibleData s =
     (case db_zoomedDomain s of None \<Rightarrow> db_fullData s | Some (a, b) \<Rightarrow> slice a (b + 1) (db_fullData s))"

definition tickInterval :: "dashboard \<Rightarrow> nat" where
  "tickInterval s = max 1 (length (visibleData s) div 8)"

text \<open>The places that get a label.\<close>

definition labelled_ticks :: "dashboard \<Rightarrow> nat list" where
  "labelled_ticks s = filter (\<lambda>i. i mod tickInterval s = 0) [0..<length (visibleData s)]"

text \<open>The chart library passes the label under the pointer, if any.\<close>

definition handleMouseDown :: "string option \<Rightarrow> dashboard \<Rightarrow> dashboard" where
  "handleMouseDown l s =
     (if \<not> truthy l then s else s\<lparr>db_zoomLeft := l, db_zoomRight := None, db_isDragging := True\<rparr>)"

definition handleMouseMove :: "string option \<Rightarrow> dashboard \<Rightarrow> dashboard" where
  "handleMouseMove l s = (if \<not> db_isDragging s \<or> \<not> truthy l then s else s\<lparr>db_zoomRight := l\<rparr>)"

definition dragged_domain :: "dashboard \<Rightarrow> (nat \<times> nat) option" where
  "dragged_domain s =
     (if truthy (db_zoomLeft s) \<and> truthy (db_zoomRight s) \<and> db_zoomLeft s \<noteq> db_zoomRight s then
        (case (findIndex (\<lambda>d. Some (dp_time d) = db_zoomLeft s) (db_fullData s),
               findIndex (\<lambda>d. Some (dp_time d) = db_zoomRight s) (db_fullData s)) of
           (Some l, Some r) \<Rightarrow>
             (let lo = min l r; hi = max l r in if hi - lo \<ge> 2 then Some (lo, hi) else None)
         | _ \<Rightarrow> None)
      else None)"

definition handleMouseUp :: "dashboard \<Rightarrow> dashboard" where
  "handleMouseUp s =
     (if \<not> db_isDragging s then s
      else s\<lparr>db_isDragging := False,
        db_zoomedDomain := (case dragged_domain s of None \<Rightarrow> db_zoomedDomain s | Some d \<Rightarrow> Some d),
        db_zoomLeft := None, db_zoomRight := None\<rparr>)"

definition resetZoom :: "dashboard \<Rightarrow> dashboard" where
  "resetZoom s = s\<lparr>db_zoomedDomain := None, db_zoomLeft := None, db_zoomRight := None, db_isDragging := False\<rparr>"

text \<open>
  An answer of the poll is its status and what its body parses to, if it parses. Both requests must
  be answered; a body that does not parse ends the round, after what was set before it.
\<close>

type_synonym 'a poll_answer = "int \<times> 'a option"

definition polled ::
  "platform \<Rightarrow> (int \<Rightarrow> string) \<Rightarrow> (TrafficStat list poll_answer \<times> TrafficOverview poll_answer) option
    \<Rightarrow> dashboard \<Rightarrow> dashboard option" where
  "polled P label r s =
     (case r of
        None \<Rightarrow> Some s
      | Some ((c1, b1), (c2, b2)) \<Rightarrow>
          (let ok1 = ok_status c1; ok2 = ok_status c2;
               ov = (if ok2 \<and> (\<not> ok1 \<or> b1 \<noteq> None) then (case b2 of Some v \<Rightarrow> v | None \<Rightarrow> db_overview s)
                     else db_overview s)
           in case (if ok1 then b1 else None) of
                None \<Rightarrow> Some (s\<lparr>db_overview := ov\<rparr>)
              | Some stats \<Rightarrow>
                  map_option (\<lambda>d. s\<lparr>db_overview := ov, db_fullData := d\<rparr>) (buildTimeSeries P label stats)))"

text \<open>The button that resets the zoom is shown while there is one.\<close>

datatype dashboard_event =
    MouseDown "string option" | MouseMove "string option" | MouseUp | ResetPressed
  | Polled platform "(TrafficStat list poll_answer \<times> TrafficOverview poll_answer) option"

fun dashboard_step :: "(int \<Rightarrow> string) \<Rightarrow> dashboard \<Rightarrow> dashboard_event \<Rightarrow> dashboard option" where
  "dashboard_step label s (MouseDown l) = Some (handleMouseDown l s)"
| "dashboard_step label s (MouseMove l) = Some (handleMouseMove l s)"
| "dashboard_step label s MouseUp = Some (handleMouseUp s)"
| "dashboard_step label s ResetPressed = Some (if db_zoomedDomain s \<noteq> None then resetZoom s else s)"
| "dashboard_step label s (Polled P r) = polled P label r s"

definition dashboard_fresh :: "(int \<Rightarrow> string) \<Rightarrow> dashboard \<Rightarrow> bool" where
  "dashboard_fresh label s \<longleftrightarrow> (\<exists>P stats ov. dashboard_start P label stats ov = Some s)"

definition dashboard_trans :: "(int \<Rightarrow> string) \<Rightarrow> dashboard \<Rightarrow> dashboard_event \<Rightarrow> dashboard \<Rightarrow> bool" where
  "dashboard_trans label s e t \<longleftrightarrow> dashboard_step label s e = Some t"

definition dashboard_inv :: "dashboard \<Rightarrow> bool" where
  "dashboard_inv s \<longleftrightarrow> length (db_fullData s) = 288
     \<and> (case db_zoomedDomain s of None \<Rightarrow> True | Some (lo, hi) \<Rightarrow> lo + 2 \<le> hi \<and> hi < 288)"

lemma buildTimeSeries_length: "buildTimeSeries P label stats = Some d \<Longrightarrow> length d = 288"
  by (auto simp: buildTimeSeries_def SLOTS_def)

lemma findIndex_Some: "findIndex p xs = Some i \<longleftrightarrow> i < length xs \<and> p (xs ! i) \<and> (\<forall>j < i. \<not> p (xs ! j))"
proof (induction xs arbitrary: i)
  case (Cons x xs)
  have "findIndex p (x # xs) = (if p x then Some 0 else map_option Suc (findIndex p xs))"
    by (simp add: findIndex_def Let_def)
  then show ?case using Cons by (cases i) (auto simp: less_Suc_eq_0_disj)
qed (simp add: findIndex_def)

lemma dragged_domain_props: "dragged_domain s = Some (lo, hi) \<Longrightarrow> lo + 2 \<le> hi \<and> hi < length (db_fullData s)"
  by (auto simp: dragged_domain_def Let_def findIndex_Some split: if_splits option.splits)

lemma dashboard_inv_step:
  assumes "dashboard_step label s e = Some t" "dashboard_inv s"
  shows "dashboard_inv t"
proof (cases e)
  case MouseUp
  then show ?thesis
    using assms dragged_domain_props [of s]
    by (auto simp: dashboard_inv_def handleMouseUp_def split: option.splits if_splits)
next
  case (Polled P r)
  then show ?thesis
    using assms
    by (auto simp: dashboard_inv_def polled_def Let_def split: option.splits prod.splits if_splits dest!: buildTimeSeries_length)
qed (use assms in \<open>auto simp: dashboard_inv_def handleMouseDown_def handleMouseMove_def resetZoom_def\<close>)

interpretation dashboard: invariant "dashboard_fresh label" "dashboard_trans label" dashboard_inv for label
proof
  show "dashboard_inv s" if "dashboard_fresh label s" for s
    using that by (auto simp: dashboard_fresh_def dashboard_start_def dashboard_inv_def dest: buildTimeSeries_length)
  show "dashboard_inv t" if "dashboard_trans label s e t" "dashboard_inv s" for s e t
    using that by (auto simp: dashboard_trans_def intro: dashboard_inv_step)
qed

lemma multiples_below:
  assumes "n \<le> 15 * k" "0 < k"
  shows "length (filter (\<lambda>i. i mod k = 0) [0..<n]) \<le> 15"
proof -
  have "set (filter (\<lambda>i. i mod k = 0) [0..<n]) \<subseteq> (\<lambda>j. j * k) ` {..<15}"
  proof
    fix i assume "i \<in> set (filter (\<lambda>i. i mod k = 0) [0..<n])"
    then have "i < n" "i = i div k * k" by (auto simp: mod_eq_0_iff_dvd)
    then have "i < 15 * k" using assms by linarith
    then have "i div k < 15" by (rule less_mult_imp_div_less)
    then show "i \<in> (\<lambda>j. j * k) ` {..<15}" using \<open>i = i div k * k\<close> by (intro rev_image_eqI [of "i div k"]) auto
  qed
  then have "card (set (filter (\<lambda>i. i mod k = 0) [0..<n])) \<le> card ((\<lambda>j. j * k) ` {..<(15::nat)})"
    by (intro card_mono) auto
  also have "\<dots> \<le> 15" using card_image_le [of "{..<15::nat}"] by simp
  finally show ?thesis by (metis distinct_card distinct_filter distinct_upt)
qed

text \<open>However the user drags and whatever the polls bring, the chart shows a window of at least three
  and at most 288 consecutive points of the day, and labels between one and fifteen of them.
\<close>

theorem chart_shows_a_window:
  assumes "reach (dashboard_fresh label) (dashboard_trans label) s"
  shows "3 \<le> length (visibleData s) \<and> length (visibleData s) \<le> 288
     \<and> sublist (visibleData s) (db_fullData s)
     \<and> labelled_ticks s \<noteq> [] \<and> length (labelled_ticks s) \<le> 15"
proof -
  have inv: "dashboard_inv s" using dashboard.reach_inv [OF assms] .
  have len: "3 \<le> length (visibleData s) \<and> length (visibleData s) \<le> 288"
    using inv by (auto simp: dashboard_inv_def visibleData_def slice_def split: option.splits)
  have sub: "sublist (visibleData s) (db_fullData s)"
    by (auto simp: visibleData_def slice_def split: option.splits)
      (meson sublist_drop sublist_order.order_trans sublist_take)
  have "0 \<in> set (labelled_ticks s)" using len by (cases "visibleData s") (simp_all add: labelled_ticks_def)
  then have "labelled_ticks s \<noteq> []" by force
  moreover have "length (labelled_ticks s) \<le> 15"
    unfolding labelled_ticks_def by (rule multiples_below) (auto simp: tickInterval_def max_def)
  ultimately show ?thesis using len sub by blast
qed

text \<open>
  Dragging from one label to another shows exactly the points from the one to the other, when the
  labels of the day differ and are at least two slots apart.
\<close>

theorem dragging_zooms_to_the_selection:
  assumes "distinct (map dp_time (db_fullData s))" "[] \<notin> set (map dp_time (db_fullData s))"
    and "i < length (db_fullData s)" "j < length (db_fullData s)" "i + 2 \<le> j \<or> j + 2 \<le> i"
  shows "visibleData (handleMouseUp (handleMouseMove (Some (dp_time (db_fullData s ! j)))
           (handleMouseDown (Some (dp_time (db_fullData s ! i))) s)))
     = map ((!) (db_fullData s)) [min i j..<Suc (max i j)]"
proof -
  let ?D = "db_fullData s"
  have idx: "findIndex (\<lambda>d. dp_time d = dp_time (?D ! k)) ?D = Some k" if "k < length ?D" for k
    using that assms(1) by (auto simp: findIndex_Some distinct_conv_nth)
  have ne: "dp_time (?D ! k) \<noteq> []" if "k < length ?D" for k
    using that assms(2) by (force simp: in_set_conv_nth)
  have df: "dp_time (?D ! i) \<noteq> dp_time (?D ! j)" using assms(1,3,4,5) by (auto simp: distinct_conv_nth)
  have "visibleData (handleMouseUp (handleMouseMove (Some (dp_time (?D ! j)))
           (handleMouseDown (Some (dp_time (?D ! i))) s))) = slice (min i j) (Suc (max i j)) ?D"
    using assms(3-5) ne df
    by (auto simp: handleMouseDown_def handleMouseMove_def handleMouseUp_def dragged_domain_def
        visibleData_def Let_def idx truthy_Some_iff)
  also have "\<dots> = map ((!) ?D) [min i j..<Suc (max i j)]"
    using assms(3,4) by (intro nth_equalityI) (auto simp: slice_def simp del: upt_Suc)
  finally show ?thesis .
qed

section \<open>The heat map\<close>

record TrafficHeatmapCell =
  hm_routeSlug :: string
  hm_hour :: int
  hm_requestCount :: int

text \<open>
  What the fetch came to: a body that parses, whatever its status, is stored, and \<open>null\<close> stands for
  no cells. A body that is no list makes the next rendering throw.
\<close>

datatype heat_body = Heat_cells "TrafficHeatmapCell list" | Heat_null | Heat_no_list

datatype heat_answer = Heat_waiting | Heat_failed | Heat_body heat_body

datatype heat_view = Heat_loading | Heat_error | Heat_empty | Heat_grid "(string \<times> (int \<times> int option) list) list"

text \<open>Setting a count of the grid overwrites an earlier one of the same route and hour.\<close>

definition heat_grid :: "TrafficHeatmapCell list \<Rightarrow> string \<Rightarrow> int \<Rightarrow> int option" where
  "heat_grid cells = fold (\<lambda>c g. g(hm_routeSlug c := (g (hm_routeSlug c))(hm_hour c \<mapsto> hm_requestCount c)))
     cells (\<lambda>_. Map.empty)"

definition maxCount :: "TrafficHeatmapCell list \<Rightarrow> int" where
  "maxCount cells = fold max (map hm_requestCount cells) 1"

text \<open>The share of the accent colour in a square, \<open>None\<close> for the grey of no requests.\<close>

definition heat_shade :: "TrafficHeatmapCell list \<Rightarrow> int \<Rightarrow> int option" where
  "heat_shade cells n =
     (if n = 0 then None else Some (math_round (of_int n / of_int (maxCount cells) * 90 + 10)))"

definition HOURS :: "int list" where
  "HOURS = map int [0..<24]"

text \<open>\<open>sort\<close> without a comparator compares code units.\<close>

definition heat_routes :: "TrafficHeatmapCell list \<Rightarrow> string list" where
  "heat_routes cells = js_sort codeunit_compare (js_Set (map hm_routeSlug cells))"

definition heat_rows :: "TrafficHeatmapCell list \<Rightarrow> (string \<times> (int \<times> int option) list) list" where
  "heat_rows cells = map (\<lambda>r. (r, map (\<lambda>h.
     let n = nullish (heat_grid cells r h) 0 in (n, heat_shade cells n)) HOURS)) (heat_routes cells)"

fun trafficHeatmap :: "heat_answer \<Rightarrow> heat_view option" where
  "trafficHeatmap Heat_waiting = Some Heat_loading"
| "trafficHeatmap Heat_failed = Some Heat_error"
| "trafficHeatmap (Heat_body Heat_null) = Some Heat_empty"
| "trafficHeatmap (Heat_body Heat_no_list) = None"
| "trafficHeatmap (Heat_body (Heat_cells cells)) =
     Some (if heat_routes cells = [] then Heat_empty else Heat_grid (heat_rows cells))"

section \<open>The bars of the tokens\<close>

datatype gantt_sort = GanttName | GanttExpiry | GanttLastUsed | GanttCreated

record gantt =
  gn_sortKey :: gantt_sort
  gn_asc :: bool

definition gantt_start :: gantt where
  "gantt_start = \<lparr>gn_sortKey = GanttExpiry, gn_asc = True\<rparr>"

definition gantt_toggleSort :: "gantt_sort \<Rightarrow> gantt \<Rightarrow> gantt" where
  "gantt_toggleSort k s =
     (if gn_sortKey s = k then s\<lparr>gn_asc := \<not> gn_asc s\<rparr> else s\<lparr>gn_sortKey := k, gn_asc := True\<rparr>)"

text \<open>A token that was never used starts with \<open>0001-01\<close>.\<close>

definition was_used :: "TokenSummary \<Rightarrow> bool" where
  "was_used t \<longleftrightarrow> tk_lastUsedAt t \<noteq> [] \<and> \<not> starts_with (take 7 never_used) (tk_lastUsedAt t)"

fun gantt_compare :: "platform \<Rightarrow> gantt_sort \<Rightarrow> TokenSummary \<Rightarrow> TokenSummary \<Rightarrow> rat" where
  "gantt_compare P GanttName a b = pf_compare P (tk_name a) (tk_name b)"
| "gantt_compare P GanttExpiry a b = time_diff (pf_getTime P (tk_expiresAt a)) (pf_getTime P (tk_expiresAt b))"
| "gantt_compare P GanttLastUsed a b =
     (let lu = (\<lambda>t. if was_used t then pf_getTime P (tk_lastUsedAt t) else Some 0) in time_diff (lu a) (lu b))"
| "gantt_compare P GanttCreated a b = time_diff (pf_getTime P (tk_createdAt a)) (pf_getTime P (tk_createdAt b))"

definition validTokens :: "platform \<Rightarrow> TokenSummary list \<Rightarrow> gantt \<Rightarrow> TokenSummary list" where
  "validTokens P tokens s =
     js_sort (directed (gn_asc s) (gantt_compare P (gn_sortKey s)))
       (filter (\<lambda>t. tk_createdAt t \<noteq> [] \<and> \<not> starts_with ''0001'' (tk_createdAt t)) tokens)"

text \<open>Times may be invalid (\<open>NaN\<close>, here \<open>None\<close>), and then so is their minimum or maximum.\<close>

fun times_fold :: "(int \<Rightarrow> int \<Rightarrow> int) \<Rightarrow> int \<Rightarrow> int option list \<Rightarrow> int option" where
  "times_fold f a [] = Some a"
| "times_fold f a (None # ts) = None"
| "times_fold f a (Some t # ts) = times_fold f (f a t) ts"

definition gantt_minTime :: "platform \<Rightarrow> TokenSummary list \<Rightarrow> int option" where
  "gantt_minTime P ts =
     (case map (\<lambda>t. pf_getTime P (tk_createdAt t)) ts of
        Some c # cs \<Rightarrow> times_fold min c cs
      | _ \<Rightarrow> None)"

definition gantt_maxTime :: "platform \<Rightarrow> TokenSummary list \<Rightarrow> int option" where
  "gantt_maxTime P ts = times_fold max (pf_now P + 7 * day_ms) (map (\<lambda>t. pf_getTime P (tk_expiresAt t)) ts)"

definition pct :: "int \<Rightarrow> int \<Rightarrow> int \<Rightarrow> rat" where
  "pct value mn mx =
     (if mx \<le> mn then 0 else max 0 (min 100 (of_int (value - mn) / of_int (mx - mn) * 100)))"

record gantt_bar =
  gb_token :: TokenSummary
  gb_left :: rat
  gb_width :: rat
  gb_lastUsed :: "rat option"
  gb_color :: string

definition ganttBar :: "platform \<Rightarrow> int \<Rightarrow> int \<Rightarrow> int \<Rightarrow> int \<Rightarrow> TokenSummary \<Rightarrow> gantt_bar" where
  "ganttBar P mn mx created expires t =
     (let lastUsed = (if was_used t then pf_getTime P (tk_lastUsedAt t) else None);
          isExpired = expires < pf_now P;
          isNearExpiry = (\<not> isExpired \<and> expires - pf_now P < 7 * day_ms)
      in \<lparr>gb_token = t, gb_left = pct created mn mx,
          gb_width = max (1 / 2) (pct expires mn mx - pct created mn mx),
          gb_lastUsed = (case lastUsed of Some l \<Rightarrow> if l \<noteq> 0 then Some (pct l mn mx) else None | None \<Rightarrow> None),
          gb_color = (if isExpired then ''var(--danger)'' else if isNearExpiry then ''var(--warning)''
                      else if tk_active t then ''var(--accent)'' else ''var(--muted)'')\<rparr>)"

record gantt_view =
  gv_axis :: "int \<times> int"
  gv_nowPct :: rat
  gv_bars :: "gantt_bar list"

text \<open>
  Without tokens to show the widget is empty (\<open>Some None\<close>). The axis is labelled by
  \<open>new Date(minTime).toISOString()\<close> and the same of \<open>maxTime\<close>, which throws (\<open>None\<close>) when one of the times is invalid.
\<close>

definition tokenGantt :: "platform \<Rightarrow> TokenSummary list \<Rightarrow> gantt \<Rightarrow> gantt_view option option" where
  "tokenGantt P tokens s =
     (let ts = validTokens P tokens s in
      if ts = [] then Some None
      else case (gantt_minTime P ts, gantt_maxTime P ts) of
        (Some mn, Some mx) \<Rightarrow>
          Some (Some \<lparr>gv_axis = (mn, mx), gv_nowPct = pct (pf_now P) mn mx,
            gv_bars = map (\<lambda>t. ganttBar P mn mx (the (pf_getTime P (tk_createdAt t)))
                                 (the (pf_getTime P (tk_expiresAt t))) t) ts\<rparr>)
      | _ \<Rightarrow> None)"

section \<open>The bar of a request\<close>

definition barPct :: "int \<Rightarrow> rat" where
  "barPct latency = max 4 (of_int (min latency 5000) / 5000 * 100)"

definition latencyColor :: "int \<Rightarrow> string" where
  "latencyColor latency =
     (if latency < 100 then ''var(--success)'' else if latency < 500 then ''var(--warning)'' else ''var(--danger)'')"

definition requestWaterfall :: "AuditEvent \<Rightarrow> (rat \<times> string) option" where
  "requestWaterfall e =
     (if ae_latencyMs e \<le> 0 then None else Some (barPct (ae_latencyMs e), latencyColor (ae_latencyMs e)))"

section \<open>What the figures show\<close>

lemma maxCount_ge: "c \<in> set cells \<Longrightarrow> hm_requestCount c \<le> maxCount cells" and maxCount_pos: "1 \<le> maxCount cells"
proof -
  have "a \<le> fold max xs a \<and> (\<forall>x \<in> set xs. x \<le> fold max xs a)" for a :: int and xs
    by (induction xs arbitrary: a) (simp, metis fold_simps(2) insert_iff list.set(2) max.bounded_iff)
  then show "c \<in> set cells \<Longrightarrow> hm_requestCount c \<le> maxCount cells" "1 \<le> maxCount cells"
    by (force simp: maxCount_def)+
qed

text \<open>
  The squares of the heat map are shaded from 10 to 100 per cent: the more requests the darker, the
  busiest square fully.
\<close>

theorem heat_map_shades_are_graded:
  assumes "c \<in> set cells" "d \<in> set cells" "0 < hm_requestCount c" "hm_requestCount c \<le> hm_requestCount d"
  shows "\<exists>x y. heat_shade cells (hm_requestCount c) = Some x \<and> heat_shade cells (hm_requestCount d) = Some y
     \<and> 10 \<le> x \<and> x \<le> y \<and> y \<le> 100 \<and> (hm_requestCount d = maxCount cells \<longrightarrow> y = 100)"
proof -
  let ?m = "maxCount cells"
  have m: "0 < ?m" using maxCount_pos [of cells] by simp
  define f where "f n = (of_int n / of_int ?m * 90 + 10 :: rat)" for n
  have mono: "f a \<le> f b" if "a \<le> b" for a b using that m by (simp add: f_def divide_right_mono)
  have "f 0 = of_int 10" "f ?m = of_int 100" using m by (simp_all add: f_def)
  then have "math_round (f 0) = 10" "math_round (f ?m) = 100" using math_round_of_int by metis+
  moreover have "math_round (f 0) \<le> math_round (f (hm_requestCount c))"
    "math_round (f (hm_requestCount c)) \<le> math_round (f (hm_requestCount d))"
    "math_round (f (hm_requestCount d)) \<le> math_round (f ?m)"
    using assms maxCount_ge by (auto intro!: math_round_mono mono)
  ultimately have "10 \<le> math_round (f (hm_requestCount c))"
    "math_round (f (hm_requestCount d)) \<le> 100" "math_round (f (hm_requestCount c)) \<le> math_round (f (hm_requestCount d))"
    "hm_requestCount d = ?m \<longrightarrow> math_round (f (hm_requestCount d)) = 100" by simp_all
  moreover have "heat_shade cells n = Some (math_round (f n))" if "0 < n" for n
    using that by (simp add: heat_shade_def f_def)
  ultimately show ?thesis using assms(3,4) by auto
qed

lemma heat_grid_map_of:
  "heat_grid cells r h = map_of (rev (map (\<lambda>c. ((hm_routeSlug c, hm_hour c), hm_requestCount c)) cells)) (r, h)"
proof -
  have "fold (\<lambda>c g. g(hm_routeSlug c := (g (hm_routeSlug c))(hm_hour c \<mapsto> hm_requestCount c))) cells g r h
      = ((\<lambda>(r, h). g r h) ++ map_of (rev (map (\<lambda>c. ((hm_routeSlug c, hm_hour c), hm_requestCount c)) cells))) (r, h)" for g
  proof (induction cells arbitrary: g)
    case (Cons c cs)
    then show ?case by (auto simp: map_add_def split: option.splits)
  qed simp
  then show ?thesis by (simp add: heat_grid_def map_add_def split: option.splits)
qed

text \<open>
  The heat map has one row for each route of the cells, in the order of their names, and shows the
  count of each cell at its route and hour, if no two cells are of the same route and hour.
\<close>

theorem heat_map_shows_every_cell:
  assumes "distinct (map (\<lambda>c. (hm_routeSlug c, hm_hour c)) cells)" "c \<in> set cells"
    and "0 \<le> hm_hour c" "hm_hour c < 24"
  shows "\<exists>row. (hm_routeSlug c, row) \<in> set (heat_rows cells)
     \<and> row ! nat (hm_hour c) = (hm_requestCount c, heat_shade cells (hm_requestCount c))
     \<and> distinct (map fst (heat_rows cells))"
proof -
  let ?row = "map (\<lambda>h. let n = nullish (heat_grid cells (hm_routeSlug c) h) 0 in (n, heat_shade cells n)) HOURS"
  have "heat_grid cells (hm_routeSlug c) (hm_hour c) = Some (hm_requestCount c)"
    unfolding heat_grid_map_of using assms(1,2)
    by (intro map_of_is_SomeI) (auto simp: rev_map [symmetric] o_def)
  moreover have "nat (hm_hour c) < 24" "HOURS ! nat (hm_hour c) = hm_hour c" "length HOURS = 24"
    using assms(3,4) by (simp_all add: HOURS_def nat_less_iff del: upt_rec_numeral)
  ultimately have "?row ! nat (hm_hour c) = (hm_requestCount c, heat_shade cells (hm_requestCount c))"
    by (simp add: Let_def)
  moreover have "(hm_routeSlug c, ?row) \<in> set (heat_rows cells)"
    using assms(2) js_Set_props [of "map hm_routeSlug cells"]
    by (auto simp: heat_rows_def heat_routes_def)
  moreover have "distinct (map fst (heat_rows cells))"
    using js_Set_props [of "map hm_routeSlug cells"] js_sort_distinct_map [of "\<lambda>x. x" codeunit_compare]
    by (simp add: heat_rows_def heat_routes_def o_def)
  ultimately show ?thesis by blast
qed

lemma times_fold_Some:
  "times_fold f a ts = Some m \<Longrightarrow> \<forall>t \<in> set ts. t \<noteq> None"
  by (induction f a ts rule: times_fold.induct) auto

lemma times_fold_max: "times_fold max a ts = Some m \<Longrightarrow> a \<le> m \<and> (\<forall>t. Some t \<in> set ts \<longrightarrow> t \<le> m)"
  by (induction "max :: int \<Rightarrow> _" a ts rule: times_fold.induct) auto

lemma times_fold_min: "times_fold min a ts = Some m \<Longrightarrow> m \<le> a \<and> (\<forall>t. Some t \<in> set ts \<longrightarrow> m \<le> t)"
  by (induction "min :: int \<Rightarrow> _" a ts rule: times_fold.induct) auto

lemma pct_range: "0 \<le> pct v mn mx \<and> pct v mn mx \<le> 100"
  by (simp add: pct_def)

lemma pct_mono:
  assumes "v \<le> w"
  shows "pct v mn mx \<le> pct w mn mx"
proof (cases "mx \<le> mn")
  case False
  then have "of_int (v - mn) / of_int (mx - mn) * 100 \<le> of_int (w - mn) / of_int (mx - mn) * (100 :: rat)"
    using assms by (intro mult_right_mono divide_right_mono) simp_all
  then show ?thesis using False by (auto simp only: pct_def if_False intro!: max.mono min.mono order_refl)
qed (simp add: pct_def)

lemma pct_below: "mn < mx \<Longrightarrow> v < mx \<Longrightarrow> pct v mn mx < 100"
  by (simp add: pct_def min_less_iff_disj divide_less_eq)

lemma set_validTokens:
  "set (validTokens P tokens s) = {t \<in> set tokens. tk_createdAt t \<noteq> [] \<and> \<not> starts_with ''0001'' (tk_createdAt t)}"
  by (auto simp: validTokens_def)

lemma tokenGantt_shown:
  assumes "tokenGantt P tokens s = Some (Some v)"
  shows "gv_bars v = map (\<lambda>t. ganttBar P (fst (gv_axis v)) (snd (gv_axis v)) (the (pf_getTime P (tk_createdAt t)))
      (the (pf_getTime P (tk_expiresAt t))) t) (validTokens P tokens s)
    \<and> gv_nowPct v = pct (pf_now P) (fst (gv_axis v)) (snd (gv_axis v))
    \<and> pf_now P < snd (gv_axis v)
    \<and> (\<forall>t \<in> set (validTokens P tokens s). \<exists>e. pf_getTime P (tk_expiresAt t) = Some e \<and> e \<le> snd (gv_axis v))"
proof -
  obtain mn mx where m: "gantt_maxTime P (validTokens P tokens s) = Some mx"
    and v: "v = \<lparr>gv_axis = (mn, mx), gv_nowPct = pct (pf_now P) mn mx,
            gv_bars = map (\<lambda>t. ganttBar P mn mx (the (pf_getTime P (tk_createdAt t)))
                                 (the (pf_getTime P (tk_expiresAt t))) t) (validTokens P tokens s)\<rparr>"
    using assms by (auto simp: tokenGantt_def Let_def split: if_splits option.splits)
  have "pf_now P + 7 * day_ms \<le> mx \<and> (\<forall>t. Some t \<in> set (map (\<lambda>t. pf_getTime P (tk_expiresAt t)) (validTokens P tokens s)) \<longrightarrow> t \<le> mx)"
    using times_fold_max m by (simp add: gantt_maxTime_def)
  moreover have "\<forall>t \<in> set (map (\<lambda>t. pf_getTime P (tk_expiresAt t)) (validTokens P tokens s)). t \<noteq> None"
    using times_fold_Some m by (simp add: gantt_maxTime_def)
  ultimately show ?thesis using v by (force simp: day_ms_def)
qed

text \<open>
  Every bar of the timeline starts on the axis and has a width of at least half a per cent; the mark
  of today is on the axis and never at its end; a bar is red exactly if its token has expired, and
  then, if it was created before it expired, the bar ends at or left of today or has the least width.
\<close>

theorem timeline_is_consistent:
  assumes "tokenGantt P tokens s = Some (Some v)" "b \<in> set (gv_bars v)"
    and "pf_getTime P (tk_createdAt (gb_token b)) = Some c" "pf_getTime P (tk_expiresAt (gb_token b)) = Some e" "c \<le> e"
  shows "0 \<le> gb_left b \<and> gb_left b \<le> 100 \<and> 1 / 2 \<le> gb_width b
     \<and> 0 \<le> gv_nowPct v \<and> gv_nowPct v \<le> 100
     \<and> (fst (gv_axis v) < snd (gv_axis v) \<longrightarrow> gv_nowPct v < 100)
     \<and> (gb_color b = ''var(--danger)'' \<longleftrightarrow> e < pf_now P)
     \<and> (e < pf_now P \<longrightarrow> gb_width b = 1 / 2 \<or> gb_left b + gb_width b \<le> gv_nowPct v)"
proof -
  obtain t where b: "b = ganttBar P (fst (gv_axis v)) (snd (gv_axis v)) (the (pf_getTime P (tk_createdAt t)))
      (the (pf_getTime P (tk_expiresAt t))) t"
    using tokenGantt_shown [OF assms(1)] assms(2) by auto
  then have "gb_token b = t" by (simp add: ganttBar_def Let_def)
  then have b': "b = ganttBar P (fst (gv_axis v)) (snd (gv_axis v)) c e t" using b assms(3,4) by simp
  have now: "gv_nowPct v = pct (pf_now P) (fst (gv_axis v)) (snd (gv_axis v))" "pf_now P < snd (gv_axis v)"
    using tokenGantt_shown [OF assms(1)] by simp_all
  have "pct e (fst (gv_axis v)) (snd (gv_axis v)) \<le> gv_nowPct v" if "e < pf_now P"
    unfolding now(1) using that by (intro pct_mono) simp
  then show ?thesis
    using pct_range [of c "fst (gv_axis v)" "snd (gv_axis v)"] pct_range [of "pf_now P" "fst (gv_axis v)" "snd (gv_axis v)"]
      pct_below [OF _ now(2)] now(1)
    unfolding b' by (auto simp: ganttBar_def Let_def max_def)
qed

text \<open>
  One token whose creation or expiry time cannot be read takes the whole timeline down: its axis is
  labelled with the minimum and maximum of all times, and formatting an invalid one throws.
\<close>

theorem unreadable_time_breaks_the_timeline:
  assumes "t \<in> set tokens" "tk_createdAt t \<noteq> []" "\<not> starts_with ''0001'' (tk_createdAt t)"
    and "pf_getTime P (tk_expiresAt t) = None"
  shows "tokenGantt P tokens s = None"
proof -
  have "t \<in> set (validTokens P tokens s)" using assms by (simp add: set_validTokens)
  moreover have "gantt_maxTime P (validTokens P tokens s) = None"
  proof (rule ccontr)
    assume "gantt_maxTime P (validTokens P tokens s) \<noteq> None"
    then obtain m where "times_fold max (pf_now P + 7 * day_ms)
        (map (\<lambda>t. pf_getTime P (tk_expiresAt t)) (validTokens P tokens s)) = Some m"
      by (auto simp: gantt_maxTime_def)
    from times_fold_Some [OF this] calculation assms(4) show False by auto
  qed
  ultimately show ?thesis by (auto simp: tokenGantt_def Let_def split: option.splits)
qed

text \<open>
  The bar of a request fills from 4 per cent and is full from 5000 ms on, not from 2000 ms as its
  comment says, where it is at 40 per cent.
\<close>

theorem request_bar_is_full_at_5000:
  "4 \<le> barPct n \<and> barPct n \<le> 100 \<and> (barPct n = 100 \<longleftrightarrow> 5000 \<le> n) \<and> barPct 2000 = 40"
  by (auto simp: barPct_def max_def min_def)

section \<open>Examples\<close>

text \<open>A platform on which a time is written as its number, and a label is the time.\<close>

definition exClock :: platform where
  "exClock = \<lparr>pf_lower = (\<lambda>s. s), pf_compare = codeunit_compare, pf_getTime = parseInt10, pf_now = 86400000\<rparr>"

definition exStat :: "int \<Rightarrow> int \<Rightarrow> rat \<Rightarrow> TrafficStat" where
  "exStat t n l = \<lparr>sx_bucket = show_int t, sx_tenantID = ''acme'', sx_routeSlug = ''orders'',
     sx_requestCount = n, sx_errorCount = 0, sx_avgLatencyMs = l\<rparr>"

text \<open>
  The panel of a route and its chart disagree about the latency: the panel averages the averages, so
  that one slow request in one record counts as much as 99 fast ones in another.
\<close>

theorem panel_latency_is_not_weighted:
  "pt_avgLatency (panelTotals [exStat 86400000 1 1000, exStat 86400000 99 0]) = 500
   \<and> dp_avgLatency (direct_point label t [exStat 86400000 1 1000, exStat 86400000 99 0]) = 10"
  by (simp add: panelTotals_def exStat_def direct_point_def requests_of_def weighted_latency_def math_round_def floor_eq_iff)

lemma exClock_stat: "0 \<le> n \<Longrightarrow> pf_getTime exClock (sx_bucket (exStat n c l)) = Some n"
  using parseInt10_show_int by (simp add: exClock_def exStat_def)

theorem charted_requests_add_up_witness:
  "\<exists>pts. buildTimeSeries exClock show_int [exStat 86400000 3 1, exStat 86400001 4 1] = Some pts
     \<and> length pts = 288 \<and> sum_list (map dp_requests pts) = 3"
proof -
  obtain pts where pts: "buildTimeSeries exClock show_int [exStat 86400000 3 1, exStat 86400001 4 1] = Some pts"
    by (simp add: buildTimeSeries_def dataMap_slots exClock_stat)
  have "requests_of (filter (on_chart exClock) [exStat 86400000 3 1, exStat 86400001 4 1]) = 3"
    by (simp add: on_chart_def exClock_stat requests_of_def alignedNow_def BUCKET_ms_def)
      (simp add: exClock_def exStat_def)
  then show ?thesis using charted_requests_add_up [OF pts] pts by auto
qed

definition exOverview :: TrafficOverview where
  "exOverview = \<lparr>to_totalRequests = 0, to_errorRate = 0, to_avgLatencyMs = 0, to_priorRequests = 0,
     to_priorErrorRate = 0, to_priorAvgLatency = 0\<rparr>"

theorem chart_shows_a_window_witness:
  "\<exists>s. dashboard_start exClock show_int [] exOverview = Some s \<and> 3 \<le> length (visibleData s)
     \<and> labelled_ticks s \<noteq> [] \<and> length (labelled_ticks s) \<le> 15"
proof -
  obtain s where s: "dashboard_start exClock show_int [] exOverview = Some s"
    by (simp add: dashboard_start_def buildTimeSeries_def)
  then have "reach (dashboard_fresh show_int) (dashboard_trans show_int) s"
    by (intro reach_init) (auto simp: dashboard_fresh_def)
  from chart_shows_a_window [OF this] s show ?thesis by blast
qed

definition exPoint :: "string \<Rightarrow> DataPoint" where
  "exPoint l = \<lparr>dp_time = l, dp_requests = 0, dp_errors = 0, dp_avgLatency = 0\<rparr>"

definition exDashboard :: dashboard where
  "exDashboard = \<lparr>db_fullData = map exPoint [''a'', ''b'', ''c'', ''d''], db_overview = exOverview,
     db_zoomLeft = None, db_zoomRight = None, db_isDragging = False, db_zoomedDomain = None\<rparr>"

theorem dragging_zooms_to_the_selection_witness:
  "visibleData (handleMouseUp (handleMouseMove (Some ''b'') (handleMouseDown (Some ''d'') exDashboard)))
     = map exPoint [''b'', ''c'', ''d'']"
proof -
  have "distinct (map dp_time (db_fullData exDashboard))" "[] \<notin> set (map dp_time (db_fullData exDashboard))"
    "3 < length (db_fullData exDashboard)" "1 < length (db_fullData exDashboard)" "3 + 2 \<le> (1::nat) \<or> 1 + 2 \<le> (3::nat)"
    by (simp_all add: exDashboard_def exPoint_def)
  from dragging_zooms_to_the_selection [OF this] show ?thesis
    by (simp add: exDashboard_def exPoint_def upt_rec)
qed

definition exToken :: TokenSummary where
  "exToken = \<lparr>tk_id = ''t1'', tk_name = ''ci'', tk_tenantID = ''acme'', tk_scopes = [],
     tk_expiresAt = show_int 2000, tk_lastUsedAt = [], tk_createdAt = show_int 1000, tk_preview = [],
     tk_active = True, tk_rateLimitRPM = 0, tk_rateLimitBurst = 0\<rparr>"

text \<open>The time of the example token that has expired.\<close>

lemma exToken_bars:
  "\<exists>v. tokenGantt exClock [exToken] gantt_start = Some (Some v)
     \<and> gv_bars v = [ganttBar exClock 1000 691200000 1000 2000 exToken]"
proof -
  have n: "show_int 1000 = ''1000''" by code_simp
  then have "parseInt10 ''1000'' = Some 1000" using parseInt10_show_int [of 1000] by simp
  then show ?thesis
  by (simp add: tokenGantt_def validTokens_def gantt_minTime_def gantt_maxTime_def exToken_def exClock_def
      parseInt10_show_int n Let_def starts_with_def day_ms_def)
qed

theorem timeline_is_consistent_witness:
  "\<exists>v b. tokenGantt exClock [exToken] gantt_start = Some (Some v) \<and> b \<in> set (gv_bars v)
     \<and> gb_color b = ''var(--danger)'' \<and> (gb_width b = 1 / 2 \<or> gb_left b + gb_width b \<le> gv_nowPct v)"
proof -
  obtain v where v: "tokenGantt exClock [exToken] gantt_start = Some (Some v)"
    and b: "gv_bars v = [ganttBar exClock 1000 691200000 1000 2000 exToken]"
    using exToken_bars by blast
  let ?b = "ganttBar exClock 1000 691200000 1000 2000 exToken"
  have "gb_token ?b = exToken" by (simp add: ganttBar_def Let_def)
  then have "pf_getTime exClock (tk_createdAt (gb_token ?b)) = Some 1000" "pf_getTime exClock (tk_expiresAt (gb_token ?b)) = Some 2000"
    by (simp_all add: exToken_def exClock_def parseInt10_show_int)
  from timeline_is_consistent [OF v _ this] b
  have "gb_color ?b = ''var(--danger)'' \<longleftrightarrow> 2000 < pf_now exClock"
    "2000 < pf_now exClock \<longrightarrow> gb_width ?b = 1 / 2 \<or> gb_left ?b + gb_width ?b \<le> gv_nowPct v" by simp_all
  moreover have "2000 < pf_now exClock" by (simp add: exClock_def)
  ultimately have "gb_color ?b = ''var(--danger)'' \<and> (gb_width ?b = 1 / 2 \<or> gb_left ?b + gb_width ?b \<le> gv_nowPct v)"
    by blast
  moreover have "?b \<in> set (gv_bars v)" by (simp add: b)
  ultimately show ?thesis using v by blast
qed

end
