(* ===== verification/AuditSearch.thy ===== *)
theory AuditSearch
  imports BackendClient FormValues
begin

text \<open>
  The audit page: \<open>app/audit/page.tsx\<close> reads the filters from its address and queries the backend,
  \<open>components/admin/audit-view.tsx\<close> writes them there, and \<open>admin-audit-view.tsx\<close> turns the pages. The view
  keeps its own copy of the filters, taken from the page when it is mounted.
\<close>

section \<open>Search parameters\<close>

type_synonym params = "(string \<times> string) list"

definition params_delete :: "string \<Rightarrow> params \<Rightarrow> params" where
  "params_delete k ps = filter (\<lambda>(k', v). k' \<noteq> k) ps"

text \<open>\<open>set\<close> replaces the first value of the name and drops the others, or appends.\<close>

fun params_set :: "string \<Rightarrow> string \<Rightarrow> params \<Rightarrow> params" where
  "params_set k v [] = [(k, v)]"
| "params_set k v ((k', v') # ps) =
     (if k' = k then (k, v) # params_delete k ps else (k', v') # params_set k v ps)"

text \<open>The parser of \<open>URLSearchParams\<close>: a malformed escape stands for itself.\<close>

fun form_parse :: "string \<Rightarrow> string" where
  "form_parse [] = []"
| "form_parse (c # cs) =
     (if c = CHR ''+'' then CHR '' '' # form_parse cs
      else if c \<noteq> CHR ''%'' then c # form_parse cs
      else (case cs of
              a # b # rest \<Rightarrow>
                (case (hexval a, hexval b) of
                   (Some x, Some y) \<Rightarrow> char_of (16 * x + y) # form_parse rest
                 | _ \<Rightarrow> c # form_parse cs)
            | _ \<Rightarrow> c # form_parse cs))"

definition parse_pair :: "string \<Rightarrow> string \<times> string" where
  "parse_pair p = (form_parse (takeWhile (\<lambda>c. c \<noteq> CHR ''='') p), form_parse (tl (dropWhile (\<lambda>c. c \<noteq> CHR ''='') p)))"

definition params_parse :: "string \<Rightarrow> params" where
  "params_parse s = map parse_pair (filter (\<lambda>p. p \<noteq> []) (split_on CHR ''&'' s))"

text \<open>
  \<open>String(sp.k ?? d)\<close> on the page's \<open>searchParams\<close>: \<open>undefined\<close>, one value, or an array of the values,
  which prints with commas.
\<close>

definition sp_string :: "params \<Rightarrow> string \<Rightarrow> string \<Rightarrow> string" where
  "sp_string sp k d = (case map snd (filter (\<lambda>(k', v). k' = k) sp) of [] \<Rightarrow> d | vs \<Rightarrow> join_with '','' vs)"

section \<open>The page\<close>

definition PAGE_SIZE :: int where
  "PAGE_SIZE = 20"

definition sp_page :: "params \<Rightarrow> int" where
  "sp_page sp = (case parseInt10 (sp_string sp ''page'' ''1'') of
      None \<Rightarrow> 1 | Some n \<Rightarrow> max 1 (if n = 0 then 1 else n))"

text \<open>The filters of an address or of the view.\<close>

record view_filters =
  vf_status :: string
  vf_tenant :: string
  vf_route :: string
  vf_from :: string
  vf_to :: string

definition sp_filters :: "params \<Rightarrow> view_filters" where
  "sp_filters sp = \<lparr>vf_status = sp_string sp ''status'' ''all'', vf_tenant = sp_string sp ''tenant'' [],
     vf_route = sp_string sp ''route'' [], vf_from = sp_string sp ''from'' [], vf_to = sp_string sp ''to'' []\<rparr>"

definition hasFilters :: "view_filters \<Rightarrow> bool" where
  "hasFilters f \<longleftrightarrow> vf_status f \<noteq> ''all'' \<or> vf_tenant f \<noteq> [] \<or> vf_route f \<noteq> [] \<or> vf_from f \<noteq> [] \<or> vf_to f \<noteq> []"

definition backend_filters :: "view_filters \<Rightarrow> audit_filters" where
  "backend_filters f = \<lparr>af_status = Some (vf_status f), af_tenantID = Some (vf_tenant f), af_routeSlug = Some (vf_route f)\<rparr>"

text \<open>The first of the two queries the page awaits; the other one is \<open>getAdminAuditEvents\<close> on the same page.\<close>

definition proxyQuery :: "params \<Rightarrow> query_result eff" where
  "proxyQuery sp =
     (if hasFilters (sp_filters sp)
      then getAuditEventsPaginatedFiltered (sp_page sp) PAGE_SIZE (backend_filters (sp_filters sp))
      else getAuditEventsPaginated (sp_page sp) PAGE_SIZE)"

definition adminQuery :: "params \<Rightarrow> query_result eff" where
  "adminQuery sp = getAdminAuditEvents (sp_page sp) PAGE_SIZE"

definition totalPages :: "int \<Rightarrow> int \<Rightarrow> int" where
  "totalPages events pageSize = max 1 (ceil_div events pageSize)"

section \<open>The view\<close>

definition set_or_delete :: "bool \<Rightarrow> string \<Rightarrow> string \<Rightarrow> params \<Rightarrow> params" where
  "set_or_delete b k v ps = (if b then params_set k v ps else params_delete k ps)"

text \<open>\<open>buildParams\<close> on the filters merged with the overrides, before \<open>toString\<close>.\<close>

definition buildParams :: "view_filters \<Rightarrow> params \<Rightarrow> params" where
  "buildParams f location =
     set_or_delete (vf_to f \<noteq> []) ''to'' (vf_to f)
      (set_or_delete (vf_from f \<noteq> []) ''from'' (vf_from f)
        (set_or_delete (vf_route f \<noteq> []) ''route'' (vf_route f)
          (set_or_delete (vf_tenant f \<noteq> []) ''tenant'' (vf_tenant f)
            (set_or_delete (vf_status f \<noteq> [] \<and> vf_status f \<noteq> ''all'') ''status'' (vf_status f)
              (params_set ''page'' ''1'' location)))))"

definition cleared :: "params \<Rightarrow> params" where
  "cleared location = params_set ''page'' ''1''
     (params_delete ''to'' (params_delete ''from'' (params_delete ''route''
       (params_delete ''tenant'' (params_delete ''status'' location)))))"

definition pageParams :: "int \<Rightarrow> params \<Rightarrow> params" where
  "pageParams p location = params_set ''page'' (show_int p) location"

text \<open>The view's filters, the query text of the address it is shown at, and its calls of the router.\<close>

datatype router_call = Pushed string | RefreshedPage

record audit_view =
  av_filters :: view_filters
  av_location :: string
  av_calls :: "router_call list"

definition push :: "params \<Rightarrow> audit_view \<Rightarrow> audit_view" where
  "push ps s = s\<lparr>av_location := params_toString ps, av_calls := av_calls s @ [Pushed (params_toString ps)]\<rparr>"

definition applyFilters :: "view_filters \<Rightarrow> audit_view \<Rightarrow> audit_view" where
  "applyFilters f s = push (buildParams f (params_parse (av_location s))) s"

definition goToPage :: "int \<Rightarrow> audit_view \<Rightarrow> audit_view" where
  "goToPage p s = push (pageParams p (params_parse (av_location s))) s"

definition no_filters :: view_filters where
  "no_filters = \<lparr>vf_status = ''all'', vf_tenant = [], vf_route = [], vf_from = [], vf_to = []\<rparr>"

definition clearFilters :: "audit_view \<Rightarrow> audit_view" where
  "clearFilters s = push (cleared (params_parse (av_location s))) (s\<lparr>av_filters := no_filters\<rparr>)"

text \<open>
  \<open>DatesPicked\<close> has the two times as their first 16 characters, or empty texts for no range; \<open>FieldLeft\<close>
  is blur or the Enter key in one of the two text fields; \<open>Moved\<close> is a navigation from outside, the
  back button for one; \<open>Polled\<close> is the timer or the button for refreshing.
\<close>

datatype audit_view_event =
    StatusPicked string | TenantTyped string | RouteTyped string | FieldLeft | DatesPicked string string
  | ClearPressed | PreviousPressed int int | NextPressed int int | Moved string | Polled

fun audit_view_step :: "audit_view \<Rightarrow> audit_view_event \<Rightarrow> audit_view" where
  "audit_view_step s (StatusPicked v) =
     (let f = (av_filters s)\<lparr>vf_status := v\<rparr> in applyFilters f (s\<lparr>av_filters := f\<rparr>))"
| "audit_view_step s (TenantTyped v) = s\<lparr>av_filters := (av_filters s)\<lparr>vf_tenant := v\<rparr>\<rparr>"
| "audit_view_step s (RouteTyped v) = s\<lparr>av_filters := (av_filters s)\<lparr>vf_route := v\<rparr>\<rparr>"
| "audit_view_step s FieldLeft = applyFilters (av_filters s) s"
| "audit_view_step s (DatesPicked a b) =
     (let f = (av_filters s)\<lparr>vf_from := a, vf_to := b\<rparr> in applyFilters f (s\<lparr>av_filters := f\<rparr>))"
| "audit_view_step s ClearPressed = (if hasFilters (av_filters s) then clearFilters s else s)"
| "audit_view_step s (PreviousPressed page pages) = (if pages \<le> 1 \<or> page \<le> 1 then s else goToPage (page - 1) s)"
| "audit_view_step s (NextPressed page pages) = (if pages \<le> 1 \<or> pages \<le> page then s else goToPage (page + 1) s)"
| "audit_view_step s (Moved q) = s\<lparr>av_location := q\<rparr>"
| "audit_view_step s Polled = s\<lparr>av_calls := av_calls s @ [RefreshedPage]\<rparr>"

definition audit_view_start :: "string \<Rightarrow> audit_view" where
  "audit_view_start q = \<lparr>av_filters = sp_filters (params_parse q), av_location = q, av_calls = []\<rparr>"

text \<open>The events a page shows: the numbers of the first and the last.\<close>

definition pageStart :: "int \<Rightarrow> int \<Rightarrow> int" where
  "pageStart page pageSize = (page - 1) * pageSize + 1"

definition pageEnd :: "int \<Rightarrow> int \<Rightarrow> int \<Rightarrow> int" where
  "pageEnd page pageSize events = min (page * pageSize) events"

section \<open>Facts about search parameters\<close>

lemma map_of_params_delete [simp]: "map_of (params_delete k ps) k' = (if k' = k then None else map_of ps k')"
  by (induction ps) (auto simp: params_delete_def)

lemma map_of_params_set [simp]: "map_of (params_set k v ps) k' = (if k' = k then Some v else map_of ps k')"
  by (induction ps) auto

definition values_of :: "string \<Rightarrow> params \<Rightarrow> string list" where
  "values_of k ps = map snd (filter (\<lambda>(k', v). k' = k) ps)"

lemma values_of_delete [simp]: "values_of k' (params_delete k ps) = (if k' = k then [] else values_of k' ps)"
  by (induction ps) (auto simp: values_of_def params_delete_def)

lemma values_of_Cons: "values_of k ((k', v) # ps) = (if k' = k then v # values_of k ps else values_of k ps)"
  by (simp add: values_of_def)

lemma values_of_set [simp]: "values_of k' (params_set k v ps) = (if k' = k then [v] else values_of k' ps)"
proof (induction ps)
  case Nil
  then show ?case by (simp add: values_of_def)
next
  case (Cons p ps)
  then show ?case by (cases p) (auto simp: values_of_Cons)
qed

lemma values_of_set_or_delete [simp]:
  "values_of k' (set_or_delete b k v ps) = (if k' = k then (if b then [v] else []) else values_of k' ps)"
  by (simp add: set_or_delete_def)

lemma sp_string_values: "sp_string sp k d = (case values_of k sp of [] \<Rightarrow> d | vs \<Rightarrow> join_with '','' vs)"
  by (simp add: sp_string_def values_of_def)

text \<open>Printing and parsing again gives the same parameters.\<close>

lemma form_parse_form_char: "form_parse (form_char c @ s) = c # form_parse s"
proof (cases "form_unreserved c")
  case True
  then show ?thesis using form_unreserved_not_special by (auto simp: form_char_def)
next
  case False
  then show ?thesis by (simp add: form_char_def pct_byte_def hexval_hexdig nibbles_less)
qed

lemma form_parse_encode: "form_parse (form_encode s) = s"
  by (induction s) (simp_all add: form_encode_def form_parse_form_char)

lemma no_eq: "CHR ''='' \<notin> set (form_encode k)" "CHR ''&'' \<notin> set (form_encode k)"
  by (simp_all add: form_encode_no_sep)

lemma cut_at: "c \<notin> set xs \<Longrightarrow> takeWhile (\<lambda>x. x \<noteq> c) (xs @ c # r) = xs"
  "c \<notin> set xs \<Longrightarrow> dropWhile (\<lambda>x. x \<noteq> c) (xs @ c # r) = c # r"
  by (induction xs) auto

lemma parse_pair_encode: "parse_pair (form_encode k @ ''='' @ form_encode v) = (k, v)"
  by (simp add: parse_pair_def cut_at no_eq form_parse_encode)

lemma split_join:
  "xs \<noteq> [] \<Longrightarrow> \<forall>x \<in> set xs. c \<notin> set x \<Longrightarrow> split_on c (join_with [c] xs) = xs"
proof (induction "[c]" xs rule: join_with.induct)
  case (3 x y ys)
  then show ?case by (simp add: split_on_append_sep)
qed (simp_all add: split_on_no_sep)

theorem params_roundtrip: "params_parse (params_toString ps) = ps"
proof (cases "ps = []")
  case True
  then show ?thesis by (simp add: params_parse_def params_toString_def)
next
  case False
  let ?xs = "map (\<lambda>(k, v). form_encode k @ ''='' @ form_encode v) ps"
  have "\<forall>x \<in> set ?xs. CHR ''&'' \<notin> set x" using no_eq(2) by auto
  with False have "split_on CHR ''&'' (params_toString ps) = ?xs"
    unfolding params_toString_def by (intro split_join) auto
  moreover have "filter (\<lambda>p. p \<noteq> []) ?xs = ?xs" by (auto simp: filter_id_conv)
  moreover have "map parse_pair ?xs = ps"
    using parse_pair_encode by (induction ps) auto
  ultimately show ?thesis by (simp add: params_parse_def)
qed

section \<open>Properties\<close>

text \<open>The status as the page reads it back: none means all.\<close>

definition normal_status :: "view_filters \<Rightarrow> view_filters" where
  "normal_status f = f\<lparr>vf_status := if vf_status f = [] then ''all'' else vf_status f\<rparr>"

lemma sp_filters_build: "sp_filters (buildParams f location) = normal_status f"
  by (simp add: sp_filters_def sp_string_values buildParams_def normal_status_def)

lemma sp_page_values: "sp_page sp = (case parseInt10 (case values_of ''page'' sp of [] \<Rightarrow> ''1'' | vs \<Rightarrow> join_with '','' vs) of
      None \<Rightarrow> 1 | Some n \<Rightarrow> max 1 (if n = 0 then 1 else n))"
  by (simp add: sp_page_def sp_string_values)

lemma sp_page_set: "1 \<le> n \<Longrightarrow> values_of ''page'' sp = [show_int n] \<Longrightarrow> sp_page sp = n"
  by (simp add: sp_page_values parseInt10_show_int)

lemma show_one: "show_int 1 = ''1''"
  by (simp add: show_int_def show_nat.simps digit_chars)

lemma sp_page_build: "sp_page (buildParams f location) = 1"
  by (rule sp_page_set) (simp_all add: buildParams_def show_one)

lemma applied_location [simp]: "params_parse (av_location (applyFilters f s)) = buildParams f (params_parse (av_location s))"
  by (simp add: applyFilters_def push_def params_roundtrip)


text \<open>The time range is written to the address and counts as a filter, but the query leaves it out: choosing a
  range alone asks the backend for all events.\<close>

theorem time_range_is_ignored:
  assumes "av_filters s = no_filters" and "a \<noteq> []"
  shows "proxyQuery (params_parse (av_location (audit_view_step s (DatesPicked a b))))
       = fetchBackend ''/api/v1/admin/audit/filtered?page=1&pageSize=20'' (empty_page 1 20)"
proof -
  let ?f = "no_filters\<lparr>vf_from := a, vf_to := b\<rparr>"
  have "normal_status ?f = ?f" by (simp add: normal_status_def no_filters_def)
  moreover have "hasFilters ?f" using assms(2) by (simp add: hasFilters_def)
  ultimately have "proxyQuery (params_parse (av_location (audit_view_step s (DatesPicked a b))))
      = getAuditEventsPaginatedFiltered 1 20 (backend_filters ?f)"
    using assms(1) by (simp add: Let_def proxyQuery_def sp_filters_build sp_page_build PAGE_SIZE_def)
  moreover have "show_int 20 = ''20''" by (simp add: show_int_def show_nat.simps digit_chars)
  ultimately show ?thesis
    by (simp add: getAuditEventsPaginatedFiltered_def audit_filter_params_def backend_filters_def no_filters_def
        show_one params_toString_def form_encode_def form_char_def form_unreserved_def is_alnum_def)
qed

text \<open>Leaving one of the text fields, even without a change, goes back to the first page.\<close>

theorem leaving_a_field_returns_to_page_one:
  assumes "sp_filters (params_parse (av_location s)) = normal_status (av_filters s)"
    and "sp_page (params_parse (av_location s)) = n" and "1 < n"
  shows "(let sp = params_parse (av_location (audit_view_step s FieldLeft)) in
      sp_filters sp = sp_filters (params_parse (av_location s)) \<and> sp_page sp = 1 \<and> sp_page sp < n)"
  using assms by (simp add: Let_def sp_filters_build sp_page_build)

text \<open>A navigation from outside leaves the view's own filters as they were: the next time a field is left, they
  replace those of the address.\<close>

theorem stale_filters_override_the_address:
  shows "sp_filters (params_parse (av_location (audit_view_step (audit_view_step s (Moved q)) FieldLeft)))
       = normal_status (av_filters s)"
  by (simp add: sp_filters_build)

text \<open>Turning to the next page shows that page with the same filters, and turning back the page before.\<close>

theorem turning_pages_keeps_the_filters:
  assumes "1 \<le> page" and "page < pages"
  shows "(let t = audit_view_step s (NextPressed page pages); u = audit_view_step t (PreviousPressed (page + 1) pages);
             sp = (\<lambda>x. params_parse (av_location x)) in
      sp_page (sp t) = page + 1 \<and> sp_filters (sp t) = sp_filters (sp s)
      \<and> sp_page (sp u) = page \<and> sp_filters (sp u) = sp_filters (sp s))"
proof -
  have page: "sp_page (pageParams n l) = n" if "1 \<le> n" for n l
    using that by (intro sp_page_set) (simp_all add: pageParams_def)
  have filters: "sp_filters (pageParams n l) = sp_filters l" for n l
    by (simp add: sp_filters_def sp_string_values pageParams_def)
  have loc: "params_parse (av_location (goToPage n x)) = pageParams n (params_parse (av_location x))" for n x
    by (simp add: goToPage_def push_def params_roundtrip)
  from assms show ?thesis
    by (simp add: Let_def page filters loc)
qed

text \<open>C30: The pages divide the events among themselves: every event is on exactly one of them.\<close>

theorem pages_partition_the_events:
  assumes "0 < pageSize" and "1 \<le> k" and "k \<le> events"
  shows "\<exists>!page. 1 \<le> page \<and> page \<le> totalPages events pageSize
     \<and> pageStart page pageSize \<le> k \<and> k \<le> pageEnd page pageSize events"
proof -
  let ?p = "ceil_div k pageSize"
  have iff: "(pageStart p pageSize \<le> k \<and> k \<le> p * pageSize) \<longleftrightarrow> p = ?p" for p
  proof -
    have "pageStart p pageSize \<le> k \<longleftrightarrow> \<not> k \<le> (p - 1) * pageSize" by (auto simp: pageStart_def)
    also have "\<dots> \<longleftrightarrow> \<not> ?p \<le> p - 1" using ceil_div_le [OF assms(1), of k "p - 1"] by simp
    finally show ?thesis using ceil_div_le [OF assms(1), of k p] by auto
  qed
  have "1 \<le> ?p" using ceil_div_le [OF assms(1), of k 0] assms(2) by auto
  moreover have "k \<le> ceil_div events pageSize * pageSize"
    using ceil_div_le [OF assms(1), of events "ceil_div events pageSize"] assms(3) by simp
  then have "?p \<le> ceil_div events pageSize" using ceil_div_le [OF assms(1)] by simp
  then have "?p \<le> totalPages events pageSize" by (simp add: totalPages_def)
  ultimately show ?thesis
    using iff assms(3) by (intro ex1I [of _ ?p]) (auto simp: pageEnd_def)
qed

section \<open>Witnesses\<close>


theorem time_range_is_ignored_witness:
  "proxyQuery (params_parse (av_location (audit_view_step (audit_view_start []) (DatesPicked ''2024-01-01T00:00'' ''2024-01-02T00:00''))))
   = fetchBackend ''/api/v1/admin/audit/filtered?page=1&pageSize=20'' (empty_page 1 20)"
  by (rule time_range_is_ignored)
     (simp_all add: audit_view_start_def params_parse_def sp_filters_def sp_string_def no_filters_def)

theorem leaving_a_field_returns_to_page_one_witness:
  "sp_page (params_parse (av_location (audit_view_step (audit_view_start ''page=3'') FieldLeft))) = 1"
proof -
  have p: "params_parse ''page=3'' = [(''page'', ''3'')]"
    by (simp add: params_parse_def parse_pair_def)
  have "parseInt10 ''3'' = Some 3" by code_simp
  then have n: "sp_page (params_parse (av_location (audit_view_start ''page=3''))) = 3"
    by (simp add: audit_view_start_def p sp_page_def sp_string_def)
  have f: "sp_filters (params_parse (av_location (audit_view_start ''page=3'')))
      = normal_status (av_filters (audit_view_start ''page=3''))"
    by (simp add: audit_view_start_def p sp_filters_def sp_string_def normal_status_def)
  show ?thesis
    using leaving_a_field_returns_to_page_one [OF f n, unfolded Let_def] by simp
qed

theorem turning_pages_keeps_the_filters_witness:
  "sp_page (params_parse (av_location (audit_view_step (audit_view_start []) (NextPressed 1 3)))) = 2"
  using turning_pages_keeps_the_filters [of 1 3 "audit_view_start []", unfolded Let_def] by simp

theorem pages_partition_the_events_witness:
  "\<exists>!page. 1 \<le> page \<and> page \<le> totalPages 45 20 \<and> pageStart page 20 \<le> 41 \<and> 41 \<le> pageEnd page 20 45"
  by (rule pages_partition_the_events) simp_all

end
