(* ===== verification/Pools.thy ===== *)
theory Pools
  imports Tables TopologyGraph
begin

text \<open>
  The editors of load-balancing pools, \<open>components/admin/route-upstreams.tsx\<close> and
  \<open>tenant-upstreams.tsx\<close>. They are the same program over two pairs of addresses, so there is one
  machine, over the addresses, and two interpretations of its contract.
\<close>

section \<open>State\<close>

record RouteUpstream =
  rx_id :: string
  rx_upstreamURL :: string
  rx_weight :: int
  rx_isPrimary :: bool
  rx_status :: "string option"
  rx_latencyMs :: "int option"
  rx_error :: "string option"
  rx_lastChecked :: "string option"

text \<open>The two fields of a form are texts: the address and the weight.\<close>

record pool_form =
  pf_upstreamURL :: string
  pf_weight :: string

definition empty_form :: pool_form where
  "empty_form = \<lparr>pf_upstreamURL = [], pf_weight = ''1''\<rparr>"

text \<open>
  \<open>pe_adding\<close> and \<open>pe_saving\<close> are \<open>isPending\<close> and \<open>isEditPending\<close>; \<open>pe_calls\<close> the requests that are not
  answered yet, with what the code does next; \<open>pe_crashed\<close>: an exception has left an action or a
  rendering, and the error boundary has replaced the editor.
\<close>

datatype pool_call = Loading | Adding | Saving | Deleting string | LoadingFor pool_call

record pool_editor =
  pe_upstreams :: "RouteUpstream list"
  pe_loading :: bool
  pe_error :: "json option"
  pe_isAdding :: bool
  pe_editing :: "string option"
  pe_form :: pool_form
  pe_editForm :: pool_form
  pe_formError :: "json option"
  pe_editError :: "json option"
  pe_adding :: bool
  pe_saving :: bool
  pe_confirm :: "string option"
  pe_calls :: "pool_call list"
  pe_log :: "client_call list"
  pe_crashed :: bool

record pool_api =
  pa_list :: string
  pa_item :: "string \<Rightarrow> string"

definition routeUpstreams :: "string \<Rightarrow> pool_api" where
  "routeUpstreams routeID = \<lparr>pa_list = ''/api/admin/routes/'' @ encodeURIComponent routeID @ ''/upstreams'',
     pa_item = (\<lambda>i. ''/api/admin/route-upstream/'' @ encodeURIComponent i)\<rparr>"

definition tenantUpstreams :: "string \<Rightarrow> pool_api" where
  "tenantUpstreams tenantInternalID = \<lparr>pa_list = ''/api/admin/tenants/'' @ encodeURIComponent tenantInternalID @ ''/upstreams'',
     pa_item = (\<lambda>i. ''/api/admin/tenant-upstream/'' @ encodeURIComponent i)\<rparr>"

section \<open>Handlers\<close>

definition call_pool :: "pool_call \<Rightarrow> client_call \<Rightarrow> pool_editor \<Rightarrow> pool_editor" where
  "call_pool c q s = s\<lparr>pe_calls := pe_calls s @ [c], pe_log := pe_log s @ [q]\<rparr>"

text \<open>\<open>load\<close>: after the mount, and awaited at the end of the other handlers.\<close>

definition load :: "pool_api \<Rightarrow> pool_call \<Rightarrow> pool_editor \<Rightarrow> pool_editor" where
  "load A c s = call_pool c (''GET'', pa_list A, JNull) (s\<lparr>pe_loading := True, pe_error := None\<rparr>)"

text \<open>
  What a load ends with: no answer (and the message of the exception), a refusal with its body
  (\<open>JNull\<close> if it does not parse), a list, or a body that is no list, at which rendering fails.
\<close>

datatype load_answer =
    Load_failed string | Load_refused int json | Load_list "RouteUpstream list" | Load_no_list

definition loaded :: "load_answer \<Rightarrow> pool_editor \<Rightarrow> pool_editor" where
  "loaded a s =
     (case a of
        Load_failed msg \<Rightarrow> s\<lparr>pe_error := Some (JStr msg)\<rparr>
      | Load_refused n body \<Rightarrow> s\<lparr>pe_error := Some (error_or body (''Error '' @ show_int n))\<rparr>
      | Load_list us \<Rightarrow> s\<lparr>pe_upstreams := us\<rparr>
      | Load_no_list \<Rightarrow> s\<lparr>pe_crashed := True\<rparr>)\<lparr>pe_loading := False\<rparr>"

text \<open>\<open>JSON.stringify({ upstreamURL: f.upstreamURL.trim(), weight: Number(f.weight) || 1 })\<close>\<close>

definition pool_body :: "pool_form \<Rightarrow> json" where
  "pool_body f = JObj [(''upstreamURL'', JStr (trim (pf_upstreamURL f))), (''weight'', JNum (number_or (pf_weight f) 1))]"

definition handleAdd :: "pool_api \<Rightarrow> pool_editor \<Rightarrow> pool_editor" where
  "handleAdd A s = call_pool Adding (''POST'', pa_list A, pool_body (pe_form s))
     (s\<lparr>pe_formError := None, pe_adding := True\<rparr>)"

definition added :: "pool_api \<Rightarrow> status_answer \<Rightarrow> pool_editor \<Rightarrow> pool_editor" where
  "added A a s =
     (case a of
        Rejected \<Rightarrow> s\<lparr>pe_crashed := True\<rparr>
      | Status n body \<Rightarrow>
          if ok_status n then load A (LoadingFor Adding) (s\<lparr>pe_form := empty_form, pe_isAdding := False\<rparr>)
          else s\<lparr>pe_formError := Some (error_or body ''Failed to add upstream''), pe_adding := False\<rparr>)"

definition startEdit :: "RouteUpstream \<Rightarrow> pool_editor \<Rightarrow> pool_editor" where
  "startEdit u s = s\<lparr>pe_editing := Some (rx_id u),
     pe_editForm := \<lparr>pf_upstreamURL = rx_upstreamURL u, pf_weight = show_int (rx_weight u)\<rparr>, pe_editError := None\<rparr>"

definition handleEdit :: "pool_api \<Rightarrow> pool_editor \<Rightarrow> pool_editor" where
  "handleEdit A s =
     (case pe_editing s of
        None \<Rightarrow> s
      | Some i \<Rightarrow>
          if i = [] then s
          else call_pool Saving (''PATCH'', pa_item A i, pool_body (pe_editForm s))
                 (s\<lparr>pe_editError := None, pe_saving := True\<rparr>))"

definition saved :: "pool_api \<Rightarrow> status_answer \<Rightarrow> pool_editor \<Rightarrow> pool_editor" where
  "saved A a s =
     (case a of
        Rejected \<Rightarrow> s\<lparr>pe_crashed := True\<rparr>
      | Status n body \<Rightarrow>
          if ok_status n then load A (LoadingFor Saving) (s\<lparr>pe_editing := None\<rparr>)
          else s\<lparr>pe_editError := Some (error_or body ''Failed to update upstream''), pe_saving := False\<rparr>)"

definition handleDelete :: "pool_api \<Rightarrow> string \<Rightarrow> pool_editor \<Rightarrow> pool_editor" where
  "handleDelete A i s = call_pool (Deleting i) (''DELETE'', pa_item A i, JNull) s"

text \<open>
  The closure that waits for the answer compares \<open>editingID\<close> as it was when the deletion was
  confirmed, and its row was shown then, not edited; so it never closes an editor.
\<close>

definition deleted :: "pool_api \<Rightarrow> string \<Rightarrow> status_answer \<Rightarrow> pool_editor \<Rightarrow> pool_editor" where
  "deleted A i a s =
     (case a of
        Rejected \<Rightarrow> s
      | Status n body \<Rightarrow> if ok_status n \<or> n = 204 then load A (LoadingFor (Deleting i)) s else s)"

text \<open>When the load that an action awaits has ended, so has the action.\<close>

definition action_ended :: "pool_call \<Rightarrow> pool_editor \<Rightarrow> pool_editor" where
  "action_ended c s =
     (case c of
        LoadingFor Adding \<Rightarrow> s\<lparr>pe_adding := False\<rparr>
      | LoadingFor Saving \<Rightarrow> s\<lparr>pe_saving := False\<rparr>
      | _ \<Rightarrow> s)"

section \<open>Steps\<close>

definition rows_shown :: "pool_editor \<Rightarrow> bool" where
  "rows_shown s \<longleftrightarrow> \<not> pe_loading s \<and> pe_error s = None \<and> (pe_upstreams s \<noteq> [] \<or> pe_isAdding s)"

definition shown_row :: "pool_editor \<Rightarrow> string \<Rightarrow> bool" where
  "shown_row s i \<longleftrightarrow> rows_shown s \<and> pe_editing s \<noteq> Some i \<and> i \<in> rx_id ` set (pe_upstreams s)"

definition editor_shown :: "pool_editor \<Rightarrow> bool" where
  "editor_shown s \<longleftrightarrow> rows_shown s \<and> (\<exists>i. pe_editing s = Some i \<and> i \<in> rx_id ` set (pe_upstreams s))"

datatype pool_event =
    ToggleAdd | AddTyped pool_form | AddSubmitted | AddCancelled
  | EditPressed RouteUpstream | EditTyped pool_form | EditSubmitted | EditCancelled
  | DeletePressed string | DeleteCancelled | DeleteConfirmed
  | PoolAnswered pool_call status_answer | LoadAnswered pool_call load_answer

text \<open>
  A row and its confirmation exist while the row is shown: a reload removes both. \<open>valid\<close> is the
  browser's check of a form (its inputs are of the types \<open>url\<close>, required, and \<open>number\<close> with a minimum
  of 1), without which it does not submit.
\<close>

definition drop_confirm :: "pool_editor \<Rightarrow> pool_editor" where
  "drop_confirm s =
     (case pe_confirm s of
        None \<Rightarrow> s
      | Some i \<Rightarrow> if shown_row s i then s else s\<lparr>pe_confirm := None\<rparr>)"

fun pool_act :: "(pool_form \<Rightarrow> bool) \<Rightarrow> pool_api \<Rightarrow> pool_editor \<Rightarrow> pool_event \<Rightarrow> pool_editor" where
  "pool_act valid A s ToggleAdd = s\<lparr>pe_isAdding := \<not> pe_isAdding s, pe_formError := None\<rparr>"
| "pool_act valid A s (AddTyped f) = (if pe_isAdding s then s\<lparr>pe_form := f\<rparr> else s)"
| "pool_act valid A s AddSubmitted =
     (if pe_isAdding s \<and> \<not> pe_adding s \<and> valid (pe_form s) then handleAdd A s else s)"
| "pool_act valid A s AddCancelled = (if pe_isAdding s then s\<lparr>pe_isAdding := False\<rparr> else s)"
| "pool_act valid A s (EditPressed u) =
     (if shown_row s (rx_id u) \<and> u \<in> set (pe_upstreams s) then startEdit u s else s)"
| "pool_act valid A s (EditTyped f) = (if editor_shown s then s\<lparr>pe_editForm := f\<rparr> else s)"
| "pool_act valid A s EditSubmitted =
     (if editor_shown s \<and> \<not> pe_saving s \<and> valid (pe_editForm s) then handleEdit A s else s)"
| "pool_act valid A s EditCancelled = (if editor_shown s then s\<lparr>pe_editing := None\<rparr> else s)"
| "pool_act valid A s (DeletePressed i) = (if shown_row s i \<and> pe_confirm s = None then s\<lparr>pe_confirm := Some i\<rparr> else s)"
| "pool_act valid A s DeleteCancelled = s\<lparr>pe_confirm := None\<rparr>"
| "pool_act valid A s DeleteConfirmed =
     (case pe_confirm s of None \<Rightarrow> s | Some i \<Rightarrow> handleDelete A i (s\<lparr>pe_confirm := None\<rparr>))"
| "pool_act valid A s (PoolAnswered c a) =
     (if c \<notin> set (pe_calls s) then s
      else let s' = s\<lparr>pe_calls := remove1 c (pe_calls s)\<rparr> in
        case c of Adding \<Rightarrow> added A a s' | Saving \<Rightarrow> saved A a s' | Deleting i \<Rightarrow> deleted A i a s' | _ \<Rightarrow> s)"
| "pool_act valid A s (LoadAnswered c a) =
     (if c \<notin> set (pe_calls s) then s
      else let s' = s\<lparr>pe_calls := remove1 c (pe_calls s)\<rparr> in
        case c of Loading \<Rightarrow> loaded a s' | LoadingFor d \<Rightarrow> action_ended c (loaded a s') | _ \<Rightarrow> s)"

definition pool_step :: "(pool_form \<Rightarrow> bool) \<Rightarrow> pool_api \<Rightarrow> pool_editor \<Rightarrow> pool_event \<Rightarrow> pool_editor" where
  "pool_step valid A s e = (if pe_crashed s then s else drop_confirm (pool_act valid A s e))"

definition pool_start :: "pool_api \<Rightarrow> pool_editor" where
  "pool_start A = load A Loading \<lparr>pe_upstreams = [], pe_loading = True, pe_error = None, pe_isAdding = False,
     pe_editing = None, pe_form = empty_form, pe_editForm = empty_form, pe_formError = None, pe_editError = None,
     pe_adding = False, pe_saving = False, pe_confirm = None, pe_calls = [], pe_log = [], pe_crashed = False\<rparr>"

definition pool_init :: "pool_api \<Rightarrow> pool_editor \<Rightarrow> bool" where
  "pool_init A s \<longleftrightarrow> s = pool_start A"

definition pool_trans :: "(pool_form \<Rightarrow> bool) \<Rightarrow> pool_api \<Rightarrow> pool_editor \<Rightarrow> pool_event \<Rightarrow> pool_editor \<Rightarrow> bool" where
  "pool_trans valid A s e t \<longleftrightarrow> t = pool_step valid A s e"

section \<open>The split of the traffic\<close>

definition pool_total :: "RouteUpstream list \<Rightarrow> int" where
  "pool_total us = (let n = sum_list (map rx_weight us) in if n = 0 then 1 else n)"

definition share_width :: "RouteUpstream list \<Rightarrow> RouteUpstream \<Rightarrow> rat" where
  "share_width us u = of_int (rx_weight u) / of_int (pool_total us) * 100"

definition share_label :: "RouteUpstream list \<Rightarrow> RouteUpstream \<Rightarrow> string" where
  "share_label us u =
     (if length us > 1 then show_int (math_round (share_width us u)) @ ''% of traffic '' @ middot @ ''weight '' @ show_int (rx_weight u)
      else ''weight '' @ show_int (rx_weight u))"

section \<open>The contract\<close>

text \<open>
  The addresses of a pool: the entries differ from one another and from the list. Under it, every
  request says what it is for, additions and savings are made one at a time, and what is sent with
  them has passed the browser's check.
\<close>

definition pool_request :: "(pool_form \<Rightarrow> bool) \<Rightarrow> pool_api \<Rightarrow> client_call \<Rightarrow> bool" where
  "pool_request valid A q \<longleftrightarrow> q = (''GET'', pa_list A, JNull)
     \<or> (\<exists>f. valid f \<and> q = (''POST'', pa_list A, pool_body f))
     \<or> (\<exists>i f. valid f \<and> q = (''PATCH'', pa_item A i, pool_body f))
     \<or> (\<exists>i. q = (''DELETE'', pa_item A i, JNull))"

lemmas pool_handler_defs = load_def call_pool_def handleAdd_def added_def startEdit_def handleEdit_def saved_def
  handleDelete_def deleted_def loaded_def action_ended_def

locale pool_addresses =
  fixes A :: pool_api
  assumes item_inj: "pa_item A i = pa_item A j \<Longrightarrow> i = j"
    and item_list: "pa_item A i \<noteq> pa_list A"
begin

lemma log_grows:
  assumes "\<forall>q \<in> set (pe_log s). pool_request valid A q"
  shows "\<forall>q \<in> set (pe_log (pool_act valid A s e)). pool_request valid A q"
proof (cases e)
  case (PoolAnswered c a)
  then show ?thesis using assms
    by (cases c; cases a) (auto simp: Let_def pool_handler_defs pool_request_def)
next
  case (LoadAnswered c a)
  then show ?thesis using assms
    by (cases c) (auto simp: Let_def loaded_def action_ended_def split: load_answer.split pool_call.split)
qed (use assms in \<open>auto simp: pool_handler_defs pool_request_def split: option.split\<close>)

end

text \<open>The calls of an action under way: its own request, or the load it awaits.\<close>

definition busy :: "pool_call \<Rightarrow> pool_call list \<Rightarrow> nat" where
  "busy k cs = length (filter (\<lambda>c. c = k \<or> c = LoadingFor k) cs)"

lemma busy_append [simp]: "busy k (cs @ [c]) = busy k cs + of_bool (c = k \<or> c = LoadingFor k)"
  by (simp add: busy_def)

lemma busy_remove1: "c \<in> set cs \<Longrightarrow> busy k (remove1 c cs) = busy k cs - of_bool (c = k \<or> c = LoadingFor k)"
  by (auto simp: busy_def filter_remove1 length_remove1)

lemma busy_mem: "c \<in> set cs \<Longrightarrow> c = k \<or> c = LoadingFor k \<Longrightarrow> 0 < busy k cs"
  by (induction cs) (auto simp: busy_def)

definition actions_single :: "pool_editor \<Rightarrow> bool" where
  "actions_single s \<longleftrightarrow> pe_crashed s
     \<or> busy Adding (pe_calls s) = of_bool (pe_adding s) \<and> busy Saving (pe_calls s) = of_bool (pe_saving s)"

lemma actions_single_drop [simp]: "actions_single (drop_confirm s) = actions_single s"
  by (simp add: actions_single_def drop_confirm_def split: option.split)

lemma actions_single_answer:
  assumes "actions_single s" "\<not> pe_crashed s" "c \<in> set (pe_calls s)"
  shows "actions_single (pool_act valid A s (PoolAnswered c a)) \<and> actions_single (pool_act valid A s (LoadAnswered c b))"
proof -
  have add: "busy Adding (pe_calls s) = of_bool (pe_adding s)" and save: "busy Saving (pe_calls s) = of_bool (pe_saving s)"
    using assms(1,2) by (simp_all add: actions_single_def)
  have adding: "pe_adding s" if "c = Adding \<or> c = LoadingFor Adding"
    using busy_mem [OF assms(3) that] add by (cases "pe_adding s") simp_all
  have saving: "pe_saving s" if "c = Saving \<or> c = LoadingFor Saving"
    using busy_mem [OF assms(3) that] save by (cases "pe_saving s") simp_all
  have rm: "busy Adding (remove1 c (pe_calls s)) = of_bool (pe_adding s) - of_bool (c = Adding \<or> c = LoadingFor Adding)"
    "busy Saving (remove1 c (pe_calls s)) = of_bool (pe_saving s) - of_bool (c = Saving \<or> c = LoadingFor Saving)"
    using busy_remove1 [OF assms(3)] add save by simp_all
  show ?thesis
  proof (cases c)
    case (LoadingFor d)
    then show ?thesis using assms(1,3) rm adding saving
      by (cases d; cases b) (simp_all add: Let_def loaded_def action_ended_def actions_single_def)
  qed (use assms(1,3) rm adding saving in \<open>cases a; cases b;
      simp add: Let_def loaded_def added_def saved_def deleted_def load_def call_pool_def action_ended_def actions_single_def\<close>)+
qed

lemma actions_single_step: "actions_single s \<Longrightarrow> actions_single (pool_step valid A s e)"
proof (cases "pe_crashed s")
  case False
  assume s: "actions_single s"
  have "actions_single (pool_act valid A s e)"
  proof (cases e)
    case (PoolAnswered c a)
    then show ?thesis using actions_single_answer [OF s False, of c] s by (cases "c \<in> set (pe_calls s)") auto
  next
    case (LoadAnswered c a)
    then show ?thesis using actions_single_answer [OF s False, of c] s by (cases "c \<in> set (pe_calls s)") auto
  qed (use s False in \<open>auto simp: actions_single_def handleAdd_def handleEdit_def handleDelete_def call_pool_def
      startEdit_def split: option.split\<close>)
  then show ?thesis using False by (simp add: pool_step_def)
qed (simp add: pool_step_def)

definition pool_inv :: "(pool_form \<Rightarrow> bool) \<Rightarrow> pool_api \<Rightarrow> pool_editor \<Rightarrow> bool" where
  "pool_inv valid A s \<longleftrightarrow> (\<forall>q \<in> set (pe_log s). pool_request valid A q) \<and> actions_single s"

sublocale pool_addresses \<subseteq> machine: invariant "pool_init A" "pool_trans valid A" "pool_inv valid A" for valid
proof
  show "pool_inv valid A s" if "pool_init A s" for s
    using that by (simp add: pool_init_def pool_start_def load_def call_pool_def pool_inv_def pool_request_def
        actions_single_def busy_def)
  show "pool_inv valid A t" if "pool_trans valid A s e t" "pool_inv valid A s" for s e t
    using that log_grows [of s valid e] actions_single_step [of s valid A e]
    by (auto simp: pool_trans_def pool_inv_def pool_step_def drop_confirm_def split: option.splits)
qed

interpretation route_pool: pool_addresses "routeUpstreams r" for r
  by unfold_locales (simp_all add: routeUpstreams_def encodeURIComponent_inj)

interpretation tenant_pool: pool_addresses "tenantUpstreams t" for t
  by unfold_locales (simp_all add: tenantUpstreams_def encodeURIComponent_inj)

section \<open>Properties\<close>

definition sound_body :: "json \<Rightarrow> bool" where
  "sound_body body \<longleftrightarrow> (\<exists>url n. trim url \<noteq> [] \<and> 1 \<le> n
     \<and> body = JObj [(''upstreamURL'', JStr (trim url)), (''weight'', JNum (of_int n))])"

definition sound_request :: "pool_api \<Rightarrow> client_call \<Rightarrow> bool" where
  "sound_request A q \<longleftrightarrow> q = (''GET'', pa_list A, JNull)
     \<or> (\<exists>body. sound_body body \<and> (q = (''POST'', pa_list A, body) \<or> (\<exists>i. q = (''PATCH'', pa_item A i, body))))
     \<or> (\<exists>i. q = (''DELETE'', pa_item A i, JNull))"

text \<open>C28: In both editors, whatever the user does and however the server answers: at most one addition and
  one saving are under way at a time, and every upstream they send has a trimmed address that is not
  empty and a weight that is a whole number of at least 1.
\<close>

theorem pool_changes_are_valid:
  assumes "A = routeUpstreams x \<or> A = tenantUpstreams x" and "reach (pool_init A) (pool_trans valid A) s"
    and "\<And>f. valid f \<Longrightarrow> trim (pf_upstreamURL f) \<noteq> []
          \<and> (pf_weight f = [] \<or> (\<exists>n \<ge> 1. js_Number (pf_weight f) = Some (of_int n)))"
  shows "(\<forall>q \<in> set (pe_log s). sound_request A q)
     \<and> (pe_crashed s \<or> busy Adding (pe_calls s) \<le> 1 \<and> busy Saving (pe_calls s) \<le> 1)"
proof
  have inv: "pool_inv valid A s"
    using assms(1,2) route_pool.machine.reach_inv tenant_pool.machine.reach_inv by blast
  then show "pe_crashed s \<or> busy Adding (pe_calls s) \<le> 1 \<and> busy Saving (pe_calls s) \<le> 1"
    by (auto simp: pool_inv_def actions_single_def)
  have body: "sound_body (pool_body f)" if "valid f" for f
  proof -
    have "\<exists>n \<ge> 1. number_or (pf_weight f) 1 = of_int n"
      using assms(3) [OF that] number_or_empty [of 1] by (auto simp: number_or_def intro: exI [of _ 1])
    then show ?thesis using assms(3) [OF that] unfolding pool_body_def sound_body_def by blast
  qed
  show "\<forall>q \<in> set (pe_log s). sound_request A q"
  proof
    fix q assume "q \<in> set (pe_log s)"
    then have "pool_request valid A q" using inv by (simp add: pool_inv_def)
    then show "sound_request A q" unfolding pool_request_def sound_request_def using body by blast
  qed
qed

lemma weights_sum:
  "\<forall>u \<in> set us. 1 \<le> rx_weight u \<Longrightarrow>
   0 \<le> sum_list (map rx_weight us) \<and> (\<forall>u \<in> set us. rx_weight u \<le> sum_list (map rx_weight us))"
proof (induction us)
  case (Cons a us)
  then have "0 \<le> sum_list (map rx_weight us)" "\<forall>u \<in> set us. rx_weight u \<le> sum_list (map rx_weight us)" "1 \<le> rx_weight a"
    by simp_all
  then show ?case by (auto intro: add_increasing)
qed simp

text \<open>
  The bar that shows the split of the traffic is filled exactly, each upstream with a share above 0,
  when the weights are positive.
\<close>

theorem shares_fill_the_bar:
  assumes "us \<noteq> []" "\<forall>u \<in> set us. 1 \<le> rx_weight u"
  shows "sum_list (map (share_width us) us) = 100 \<and> (\<forall>u \<in> set us. 0 < share_width us u \<and> share_width us u \<le> 100)"
proof -
  let ?T = "sum_list (map rx_weight us)"
  have "hd us \<in> set us" using assms(1) by simp
  then have T: "0 < ?T" using weights_sum [OF assms(2)] assms(2) by fastforce
  then have tot: "pool_total us = ?T" by (simp add: pool_total_def)
  have "sum_list (map (share_width us) vs) = of_int (sum_list (map rx_weight vs)) / of_int ?T * 100" for vs
    by (induction vs) (simp_all add: share_width_def tot add_divide_distrib distrib_right)
  moreover have "0 < share_width us u \<and> share_width us u \<le> 100" if "u \<in> set us" for u
  proof -
    have "1 \<le> rx_weight u" "rx_weight u \<le> ?T" using that assms(2) weights_sum [OF assms(2)] by auto
    then have "0 < rat_of_int (rx_weight u)" "rat_of_int (rx_weight u) \<le> of_int ?T" by simp_all
    then show ?thesis using T by (simp add: share_width_def tot divide_le_eq)
  qed
  ultimately show ?thesis using T by simp
qed

section \<open>Orders that go wrong\<close>

definition exUpstream :: RouteUpstream where
  "exUpstream = \<lparr>rx_id = ''u1'', rx_upstreamURL = ''http://b'', rx_weight = 1, rx_isPrimary = False,
     rx_status = None, rx_latencyMs = None, rx_error = None, rx_lastChecked = None\<rparr>"

definition exForm :: pool_form where
  "exForm = \<lparr>pf_upstreamURL = ''http://b'', pf_weight = ''1''\<rparr>"

definition pool_run :: "(pool_form \<Rightarrow> bool) \<Rightarrow> pool_api \<Rightarrow> pool_event list \<Rightarrow> pool_editor" where
  "pool_run valid A es = foldl (pool_step valid A) (pool_start A) es"

lemma pool_run_reach: "reach (pool_init A) (pool_trans valid A) (pool_run valid A es)"
proof (induction es rule: rev_induct)
  case (snoc e es)
  then show ?case by (auto simp: pool_run_def pool_trans_def intro: reach_step)
qed (simp add: pool_run_def pool_init_def reach_init)

text \<open>
  Loads are not ordered: if the first load is answered after the one that follows an addition, the
  editor shows the pool as it was before, without the upstream that has been added, and no request
  is left that would correct it.
\<close>

theorem late_load_hides_the_addition:
  "\<exists>s. reach (pool_init A) (pool_trans (\<lambda>_. True) A) s
     \<and> map (\<lambda>(m, _). m) (pe_log s) = [''GET'', ''POST'', ''GET''] \<and> pe_calls s = []
     \<and> pe_error s = None \<and> \<not> pe_loading s \<and> pe_upstreams s = []"
proof (intro exI conjI)
  let ?es = "[ToggleAdd, AddTyped exForm, AddSubmitted, PoolAnswered Adding (Status 201 JNull),
     LoadAnswered (LoadingFor Adding) (Load_list [exUpstream]), LoadAnswered Loading (Load_list [])]"
  show "reach (pool_init A) (pool_trans (\<lambda>_. True) A) (pool_run (\<lambda>_. True) A ?es)" by (rule pool_run_reach)
  have "pool_run (\<lambda>_. True) A ?es = (pool_start A)\<lparr>pe_loading := False, pe_form := empty_form,
      pe_log := [(''GET'', pa_list A, JNull), (''POST'', pa_list A, pool_body exForm), (''GET'', pa_list A, JNull)],
      pe_calls := []\<rparr>"
    by (simp add: pool_run_def pool_start_def pool_step_def drop_confirm_def pool_handler_defs ok_status_def Let_def)
  then show "map (\<lambda>(m, _). m) (pe_log (pool_run (\<lambda>_. True) A ?es)) = [''GET'', ''POST'', ''GET'']" "pe_calls (pool_run (\<lambda>_. True) A ?es) = []"
    "pe_error (pool_run (\<lambda>_. True) A ?es) = None" "\<not> pe_loading (pool_run (\<lambda>_. True) A ?es)" "pe_upstreams (pool_run (\<lambda>_. True) A ?es) = []"
    by (simp_all add: pool_start_def load_def call_pool_def)
qed

text \<open>A refused deletion changes nothing and says nothing.\<close>

theorem refused_deletion_is_silent:
  assumes "\<not> pe_crashed s" "Deleting i \<in> set (pe_calls s)" "\<not> ok_status n" "pe_confirm s = None"
  shows "pool_step valid A s (PoolAnswered (Deleting i) (Status n body)) = s\<lparr>pe_calls := remove1 (Deleting i) (pe_calls s)\<rparr>"
proof -
  have "n \<noteq> 204" using assms(3) by (auto simp: ok_status_def)
  then show ?thesis using assms by (simp add: pool_step_def deleted_def drop_confirm_def Let_def)
qed

text \<open>
  The answer to a saving closes whatever editor is open by then: the user may have begun to edit
  another upstream, whose changes are lost.
\<close>

theorem late_save_closes_another_editor:
  assumes "\<not> pe_crashed s" "Saving \<in> set (pe_calls s)" "ok_status n" "pe_editing s = Some j"
  shows "pe_editing (pool_step valid A s (PoolAnswered Saving (Status n body))) = None"
  using assms by (auto simp: pool_step_def saved_def drop_confirm_def load_def call_pool_def Let_def split: option.splits)

theorem pool_changes_are_valid_witness:
  "\<exists>s. reach (pool_init (tenantUpstreams ''t'')) (pool_trans (\<lambda>f. f = exForm) (tenantUpstreams ''t'')) s \<and> pe_adding s
     \<and> (pe_crashed s \<or> busy Adding (pe_calls s) \<le> 1 \<and> busy Saving (pe_calls s) \<le> 1)"
proof -
  let ?A = "tenantUpstreams ''t''" and ?v = "\<lambda>f. f = exForm"
  let ?s = "pool_run ?v ?A [ToggleAdd, AddTyped exForm, AddSubmitted]"
  have "trim (pf_upstreamURL exForm) \<noteq> [] \<and> js_Number (pf_weight exForm) = Some (of_int 1)" by code_simp
  then have v: "trim (pf_upstreamURL f) \<noteq> [] \<and> (pf_weight f = [] \<or> (\<exists>n \<ge> 1. js_Number (pf_weight f) = Some (of_int n)))"
    if "f = exForm" for f using that by (metis order_refl)
  have "pe_adding ?s"
    by (simp add: pool_run_def pool_start_def pool_step_def drop_confirm_def load_def call_pool_def handleAdd_def)
  moreover have r: "reach (pool_init ?A) (pool_trans ?v ?A) ?s" by (rule pool_run_reach)
  moreover have "?A = routeUpstreams ''t'' \<or> ?A = tenantUpstreams ''t''" by simp
  from pool_changes_are_valid [OF this r v]
  have "pe_crashed ?s \<or> busy Adding (pe_calls ?s) \<le> 1 \<and> busy Saving (pe_calls ?s) \<le> 1" by blast
  ultimately show ?thesis by blast
qed

theorem shares_fill_the_bar_witness: "sum_list (map (share_width [exUpstream, exUpstream]) [exUpstream, exUpstream]) = 100"
proof -
  have "[exUpstream, exUpstream] \<noteq> []" "\<forall>u \<in> set [exUpstream, exUpstream]. 1 \<le> rx_weight u"
    by (simp_all add: exUpstream_def)
  from shares_fill_the_bar [OF this] show ?thesis by blast
qed

end
