(* ===== verification/RowActions.thy ===== *)
theory RowActions
  imports Tables
begin

text \<open>
  The actions at the rows of the admin tables: a button, a question
  (\<open>components/admin/confirm-dialog.tsx\<close>), one request, and what follows its answer. The components
  differ in the request, in which answers count as done, in what they say and in when the button is
  disabled; so there is one machine over a description, and a description per component:
  \<open>delete-route-button.tsx\<close>, \<open>delete-tenant-button.tsx\<close>, \<open>delete-token-button.tsx\<close>,
  \<open>revoke-token-button.tsx\<close>, \<open>grants-table.tsx\<close>, \<open>protected-apps-table.tsx\<close>, \<open>sessions-table.tsx\<close>,
  \<open>platform-users-table.tsx\<close>, \<open>platform-orgs-table.tsx\<close>, \<open>platform-admins-table.tsx\<close>,
  \<open>team-members-table.tsx\<close>, \<open>org-ip-rules-table.tsx\<close> and \<open>pending-invites-list.tsx\<close>.
\<close>

section \<open>Descriptions\<close>

text \<open>
  When a button is disabled: while its own request runs (the request is inside the row's transition),
  while the page is refreshed (only \<open>router.refresh()\<close> is), or while its row is the last one acted on.
\<close>

datatype waiting = Own_request | Page_refresh | Last_marked

text \<open>
  \<open>ra_refused\<close>: what is said and the error shown when the answer is not as wanted. A rejected request
  inside a transition reaches the error boundary.
\<close>

record 'i row_action =
  ra_request :: "'i \<Rightarrow> client_call"
  ra_asks :: bool
  ra_waits :: waiting
  ra_done :: "int \<Rightarrow> bool"
  ra_accepted :: "'i \<Rightarrow> form_effect list"
  ra_refused :: "json \<Rightarrow> form_effect list \<times> json option"

definition said :: "string \<Rightarrow> json \<Rightarrow> string \<Rightarrow> form_effect" where
  "said title detail kind = Toasted title [detail] kind"

definition silent :: "json \<Rightarrow> form_effect list \<times> json option" where
  "silent body = ([], None)"

text \<open>The buttons that delete one object, with \<open>payload?.error || msg\<close> in the toast.\<close>

definition delete_button :: "string \<Rightarrow> string \<Rightarrow> string \<Rightarrow> string row_action" where
  "delete_button address done_title refused = \<lparr>ra_request = (\<lambda>i. (''DELETE'', address @ i, JNull)), ra_asks = True,
     ra_waits = Own_request, ra_done = ok_status,
     ra_accepted = (\<lambda>i. [said done_title (JStr i) ''success'', Refreshed]),
     ra_refused = (\<lambda>body. ([said ''Delete failed'' (error_or body refused) ''error''], None))\<rparr>"

definition deleteRoute :: "string row_action" where
  "deleteRoute = delete_button ''/api/admin/routes/'' ''Route deleted'' ''Route could not be deleted''"

definition deleteTenant :: "string row_action" where
  "deleteTenant = delete_button ''/api/admin/tenants/'' ''Tenant deleted'' ''Tenant could not be deleted''"

definition deleteToken :: "string row_action" where
  "deleteToken = delete_button ''/api/admin/tokens/'' ''Token revoked'' ''Token could not be deleted''"

definition deleteApp :: "string row_action" where
  "deleteApp = delete_button ''/api/admin/apps/'' ''App deleted'' ''App could not be deleted''"

definition revokeToken :: "string row_action" where
  "revokeToken = \<lparr>ra_request = (\<lambda>i. (''PATCH'', ''/api/admin/tokens/'' @ i, JObj [(''active'', JBool False)])),
     ra_asks = True, ra_waits = Own_request, ra_done = ok_status, ra_accepted = (\<lambda>i. [Refreshed]),
     ra_refused = (\<lambda>body. ([], Some (error_or body ''token revoke failed'')))\<rparr>"

text \<open>The grant's button does not look at the answer.\<close>

definition deleteGrantRow :: "string row_action" where
  "deleteGrantRow = \<lparr>ra_request = (\<lambda>i. (''DELETE'', ''/api/admin/grants/'' @ i, JNull)), ra_asks = True,
     ra_waits = Own_request, ra_done = (\<lambda>_. True), ra_accepted = (\<lambda>i. [Refreshed]), ra_refused = silent\<rparr>"

text \<open>The tables that say nothing when the answer is not \<open>ok\<close>.\<close>

definition quiet_action :: "waiting \<Rightarrow> bool \<Rightarrow> ('i \<Rightarrow> client_call) \<Rightarrow> 'i row_action" where
  "quiet_action w asks req = \<lparr>ra_request = req, ra_asks = asks, ra_waits = w, ra_done = ok_status,
     ra_accepted = (\<lambda>i. [Refreshed]), ra_refused = silent\<rparr>"

definition revokeSession :: "string row_action" where
  "revokeSession = quiet_action Last_marked True
     (\<lambda>i. (''POST'', ''/api/admin/sessions/'' @ encodeURIComponent i @ ''/revoke'', JNull))"

definition deletePlatformUser :: "string row_action" where
  "deletePlatformUser = quiet_action Page_refresh True
     (\<lambda>i. (''DELETE'', ''/api/admin/platform/users/'' @ encodeURIComponent i, JNull))"

definition deletePlatformOrg :: "string row_action" where
  "deletePlatformOrg = quiet_action Page_refresh True
     (\<lambda>i. (''DELETE'', ''/api/admin/platform/orgs/'' @ encodeURIComponent i, JNull))"

definition revokePlatformAdmin :: "string row_action" where
  "revokePlatformAdmin = quiet_action Page_refresh True
     (\<lambda>i. (''DELETE'', ''/api/admin/platform/admins/'' @ encodeURIComponent i, JNull))"

definition member_address :: "string \<Rightarrow> string \<Rightarrow> string" where
  "member_address org i = ''/api/admin/orgs/'' @ encodeURIComponent org @ ''/members/'' @ encodeURIComponent i"

definition removeMember :: "string \<Rightarrow> string row_action" where
  "removeMember org = quiet_action Page_refresh True (\<lambda>i. (''DELETE'', member_address org i, JNull))"

text \<open>A role is changed by choosing it in the row, which asks nothing.\<close>

definition changeRole :: "string \<Rightarrow> (string \<times> string) row_action" where
  "changeRole org = quiet_action Page_refresh False
     (\<lambda>(i, role). (''PATCH'', member_address org i, JObj [(''role'', JStr role)]))"

definition revokeInvite :: "string \<Rightarrow> string row_action" where
  "revokeInvite org = quiet_action Page_refresh False
     (\<lambda>i. (''DELETE'', ''/api/admin/orgs/'' @ encodeURIComponent org @ ''/invites/'' @ encodeURIComponent i, JNull))"

text \<open>\<open>addToast\<close> without a description.\<close>

definition deleteIPRule :: "string row_action" where
  "deleteIPRule = \<lparr>ra_request = (\<lambda>i. (''DELETE'', ''/api/admin/org-ip-rules/'' @ encodeURIComponent i, JNull)),
     ra_asks = True, ra_waits = Page_refresh, ra_done = (\<lambda>n. ok_status n \<or> n = 204),
     ra_accepted = (\<lambda>i. [Toasted ''IP rule removed'' [] ''success'', Refreshed]),
     ra_refused = (\<lambda>body. ([Toasted ''Failed to remove rule'' [] ''error''], None))\<rparr>"

section \<open>State and steps\<close>

record 'i row_buttons =
  rb_rows :: "'i list"
  rb_disabled :: bool
  rb_asking :: "'i option"
  rb_running :: "'i list"
  rb_marked :: "'i option"
  rb_refreshing :: bool
  rb_error :: "json option"
  rb_crashed :: bool
  rb_log :: "form_effect list"

definition blocked :: "'i row_action \<Rightarrow> 'i row_buttons \<Rightarrow> 'i \<Rightarrow> bool" where
  "blocked R s i \<longleftrightarrow> (case ra_waits R of
     Own_request \<Rightarrow> i \<in> set (rb_running s) | Page_refresh \<Rightarrow> rb_refreshing s | Last_marked \<Rightarrow> rb_marked s = Some i)"

text \<open>The handler up to \<open>await fetch\<close>.\<close>

definition act_on :: "'i row_action \<Rightarrow> 'i \<Rightarrow> 'i row_buttons \<Rightarrow> 'i row_buttons" where
  "act_on R i s = s\<lparr>rb_running := rb_running s @ [i], rb_error := None,
     rb_marked := (if ra_waits R = Last_marked then Some i else rb_marked s),
     rb_log := rb_log s @ [Sent (ra_request R i)]\<rparr>"

text \<open>
  And after it. The button of a session forgets the mark in \<open>finally\<close>, whatever row it is at. A
  rejection outside a transition has no handler and changes nothing.
\<close>

definition acted :: "'i row_action \<Rightarrow> 'i \<Rightarrow> status_answer \<Rightarrow> 'i row_buttons \<Rightarrow> 'i row_buttons" where
  "acted R i a s =
     (let s' = s\<lparr>rb_running := remove1 i (rb_running s),
                 rb_marked := (if ra_waits R = Last_marked then None else rb_marked s)\<rparr> in
      case a of
        Rejected \<Rightarrow> if ra_waits R = Own_request then s'\<lparr>rb_crashed := True\<rparr> else s'
      | Status n body \<Rightarrow>
          if ra_done R n then s'\<lparr>rb_log := rb_log s @ ra_accepted R i,
                                  rb_refreshing := rb_refreshing s \<or> ra_waits R = Page_refresh\<rparr>
          else s'\<lparr>rb_log := rb_log s @ fst (ra_refused R body),
                  rb_error := (case snd (ra_refused R body) of None \<Rightarrow> rb_error s | Some e \<Rightarrow> Some e)\<rparr>)"

datatype 'i row_event =
    RowsShown "'i list" bool | RefreshEnded
  | ButtonPressed 'i | QuestionClosed | QuestionConfirmed
  | RowAnswered 'i status_answer

text \<open>A question belongs to its row; its buttons are disabled while the row's own transition runs.\<close>

fun row_step :: "'i row_action \<Rightarrow> 'i row_buttons \<Rightarrow> 'i row_event \<Rightarrow> 'i row_buttons" where
  "row_step R s (RowsShown rs d) = s\<lparr>rb_rows := rs, rb_disabled := d,
     rb_asking := (case rb_asking s of None \<Rightarrow> None | Some i \<Rightarrow> if i \<in> set rs then Some i else None)\<rparr>"
| "row_step R s RefreshEnded = s\<lparr>rb_refreshing := False\<rparr>"
| "row_step R s (ButtonPressed i) =
     (if rb_crashed s \<or> rb_disabled s \<or> i \<notin> set (rb_rows s) \<or> blocked R s i \<or> rb_asking s \<noteq> None then s
      else if ra_asks R then s\<lparr>rb_asking := Some i\<rparr>
      else act_on R i s)"
| "row_step R s QuestionClosed = s\<lparr>rb_asking := None\<rparr>"
| "row_step R s QuestionConfirmed =
     (case rb_asking s of
        None \<Rightarrow> s
      | Some i \<Rightarrow>
          if rb_crashed s \<or> (ra_waits R = Own_request \<and> i \<in> set (rb_running s)) then s
          else act_on R i (s\<lparr>rb_asking := None\<rparr>))"
| "row_step R s (RowAnswered i a) =
     (if i \<in> set (rb_running s) \<and> \<not> rb_crashed s then acted R i a s else s)"

definition row_fresh :: "'i row_buttons \<Rightarrow> bool" where
  "row_fresh s \<longleftrightarrow> rb_asking s = None \<and> rb_running s = [] \<and> rb_marked s = None \<and> \<not> rb_refreshing s
     \<and> rb_error s = None \<and> \<not> rb_crashed s \<and> rb_log s = []"

definition row_trans :: "'i row_action \<Rightarrow> 'i row_buttons \<Rightarrow> 'i row_event \<Rightarrow> 'i row_buttons \<Rightarrow> bool" where
  "row_trans R s e t \<longleftrightarrow> t = row_step R s e"

section \<open>The contract\<close>

text \<open>
  An action whose requests name their row and which sends none of its own after an answer: then all
  requests are the action's, and one of a row that waits for its own request runs once at a time.
\<close>

fun is_request :: "form_effect \<Rightarrow> bool" where
  "is_request (Sent c) = True"
| "is_request _ = False"

definition requests :: "form_effect list \<Rightarrow> form_effect list" where
  "requests = filter is_request"

lemma requests_simps [simp]:
  "requests [] = []" "requests (x # xs) = (if is_request x then x # requests xs else requests xs)"
  "requests (xs @ ys) = requests xs @ requests ys"
  by (simp_all add: requests_def)

lemma no_requests: "requests xs = [] \<Longrightarrow> Sent c \<notin> set xs"
  by (force simp: requests_def filter_empty_conv)

locale row_action_laws =
  fixes R :: "'i row_action"
  assumes request_inj: "ra_request R i = ra_request R j \<Longrightarrow> i = j"
    and quiet_accept: "requests (ra_accepted R i) = []"
    and quiet_refuse: "requests (fst (ra_refused R body)) = []"
begin

definition row_inv :: "'i row_buttons \<Rightarrow> bool" where
  "row_inv s \<longleftrightarrow> (\<forall>c. Sent c \<in> set (rb_log s) \<longrightarrow> (\<exists>i. c = ra_request R i))
     \<and> (\<forall>i. rb_asking s = Some i \<longrightarrow> i \<in> set (rb_rows s) \<and> ra_asks R)
     \<and> (ra_waits R = Own_request \<longrightarrow> distinct (rb_running s))"

lemma row_inv_step: "row_inv s \<Longrightarrow> row_inv (row_step R s e)"
proof (cases e)
  case (RowAnswered i a)
  assume "row_inv s"
  then show ?thesis
    using no_requests [OF quiet_accept] no_requests [OF quiet_refuse] unfolding RowAnswered
    by (cases a) (auto simp: row_inv_def acted_def Let_def)
qed (auto simp: row_inv_def act_on_def blocked_def split: option.splits)

text \<open>Requests leave only when a button is pressed that asks nothing, or when its question is confirmed.\<close>

lemma sent_by:
  assumes "row_inv s" "requests (rb_log (row_step R s e)) \<noteq> requests (rb_log s)"
  obtains i where "i \<in> set (rb_rows s)" "rb_log (row_step R s e) = rb_log s @ [Sent (ra_request R i)]"
    "ra_waits R = Own_request \<longrightarrow> i \<notin> set (rb_running s)"
    "if ra_asks R then e = QuestionConfirmed \<and> rb_asking s = Some i else e = ButtonPressed i"
proof (cases e)
  case (ButtonPressed i)
  with assms(2) that [of i] show thesis
    by (auto simp: act_on_def blocked_def split: if_splits waiting.splits)
next
  case QuestionConfirmed
  with assms(2) obtain i where "rb_asking s = Some i" "\<not> (ra_waits R = Own_request \<and> i \<in> set (rb_running s))"
    "rb_log (row_step R s e) = rb_log s @ [Sent (ra_request R i)]"
    by (auto simp: act_on_def split: option.splits if_splits)
  with assms(1) QuestionConfirmed that [of i] show thesis by (auto simp: row_inv_def)
next
  case (RowAnswered i a)
  have "requests (rb_log (row_step R s e)) = requests (rb_log s)"
    unfolding RowAnswered by (cases a) (simp_all add: acted_def Let_def quiet_accept quiet_refuse)
  with assms(2) show thesis by simp
qed (use assms(2) in auto)

end

sublocale row_action_laws \<subseteq> machine: invariant row_fresh "row_trans R" row_inv
proof
  show "row_inv s" if "row_fresh s" for s using that by (simp add: row_fresh_def row_inv_def)
  show "row_inv t" if "row_trans R s e t" "row_inv s" for s e t
    using that row_inv_step by (simp add: row_trans_def)
qed

context row_action_laws
begin

lemma reach_row_inv: "reach row_fresh (row_trans R) s \<Longrightarrow> row_inv s"
  by (rule machine.reach_inv)

end

section \<open>The components keep it\<close>

lemmas action_defs = deleteRoute_def deleteTenant_def deleteToken_def deleteApp_def revokeToken_def deleteGrantRow_def
  delete_button_def quiet_action_def revokeSession_def deletePlatformUser_def deletePlatformOrg_def
  revokePlatformAdmin_def removeMember_def changeRole_def revokeInvite_def deleteIPRule_def member_address_def
  said_def silent_def

interpretation delete_route: row_action_laws deleteRoute by unfold_locales (simp_all add: action_defs)
interpretation delete_tenant: row_action_laws deleteTenant by unfold_locales (simp_all add: action_defs)
interpretation delete_token: row_action_laws deleteToken by unfold_locales (simp_all add: action_defs)
interpretation delete_app: row_action_laws deleteApp by unfold_locales (simp_all add: action_defs)
interpretation revoke_token: row_action_laws revokeToken by unfold_locales (simp_all add: action_defs)
interpretation delete_grant: row_action_laws deleteGrantRow by unfold_locales (simp_all add: action_defs)
interpretation revoke_session: row_action_laws revokeSession
  by unfold_locales (simp_all add: action_defs encodeURIComponent_inj)
interpretation delete_user: row_action_laws deletePlatformUser
  by unfold_locales (simp_all add: action_defs encodeURIComponent_inj)
interpretation delete_org: row_action_laws deletePlatformOrg
  by unfold_locales (simp_all add: action_defs encodeURIComponent_inj)
interpretation revoke_admin: row_action_laws revokePlatformAdmin
  by unfold_locales (simp_all add: action_defs encodeURIComponent_inj)
interpretation remove_member: row_action_laws "removeMember org" for org
  by unfold_locales (simp_all add: action_defs encodeURIComponent_inj)
interpretation change_role: row_action_laws "changeRole org" for org
  by unfold_locales (auto simp: action_defs encodeURIComponent_inj)
interpretation revoke_invite: row_action_laws "revokeInvite org" for org
  by unfold_locales (simp_all add: action_defs encodeURIComponent_inj)
interpretation delete_ip_rule: row_action_laws deleteIPRule
  by unfold_locales (simp_all add: action_defs encodeURIComponent_inj)

text \<open>The actions that ask, for the organisation \<open>org\<close>.\<close>

definition asking_actions :: "string \<Rightarrow> string row_action list" where
  "asking_actions org = [deleteRoute, deleteTenant, deleteToken, deleteApp, revokeToken, deleteGrantRow, revokeSession,
     deletePlatformUser, deletePlatformOrg, revokePlatformAdmin, removeMember org, deleteIPRule]"

lemma asking_laws: "R \<in> set (asking_actions org) \<Longrightarrow> row_action_laws R \<and> ra_asks R"
  using delete_route.row_action_laws_axioms delete_tenant.row_action_laws_axioms delete_token.row_action_laws_axioms
    delete_app.row_action_laws_axioms revoke_token.row_action_laws_axioms delete_grant.row_action_laws_axioms
    revoke_session.row_action_laws_axioms delete_user.row_action_laws_axioms delete_org.row_action_laws_axioms
    revoke_admin.row_action_laws_axioms remove_member.row_action_laws_axioms delete_ip_rule.row_action_laws_axioms
  by (auto simp: asking_actions_def) (simp_all add: action_defs)

section \<open>Properties\<close>

text \<open>C27: Nothing is deleted or revoked by one click: in each of the twelve tables with a question, a request
  leaves only when the question of a row that is shown is confirmed, it is the request for that row,
  and no other leaves with it. Where the button waits for its own request, none of the row is under way.
\<close>

theorem row_requests_are_confirmed:
  assumes "R \<in> set (asking_actions org)" and "reach row_fresh (row_trans R) s"
    and "requests (rb_log (row_step R s e)) \<noteq> requests (rb_log s)"
  shows "e = QuestionConfirmed
     \<and> (\<exists>i \<in> set (rb_rows s). rb_asking s = Some i \<and> rb_log (row_step R s e) = rb_log s @ [Sent (ra_request R i)]
          \<and> (ra_waits R = Own_request \<longrightarrow> i \<notin> set (rb_running s)))"
proof -
  have R: "row_action_laws R" "ra_asks R" using asking_laws [OF assms(1)] by auto
  have "row_action_laws.row_inv R s"
    using row_action_laws.reach_row_inv [OF R(1) assms(2)] .
  from row_action_laws.sent_by [OF R(1) this assms(3)] obtain i where
    "i \<in> set (rb_rows s)" "rb_log (row_step R s e) = rb_log s @ [Sent (ra_request R i)]"
    "ra_waits R = Own_request \<longrightarrow> i \<notin> set (rb_running s)"
    "if ra_asks R then e = QuestionConfirmed \<and> rb_asking s = Some i else e = ButtonPressed i" by blast
  then show ?thesis using R(2) by auto
qed

text \<open>
  The buttons that delete a route, a tenant, a token or an app report every answer with exactly one
  toast, which tells success from failure, and refresh the page exactly on success.
\<close>

theorem delete_answers_are_reported:
  assumes "R \<in> {deleteRoute, deleteTenant, deleteToken, deleteApp}"
    and "i \<in> set (rb_running s)" "\<not> rb_crashed s"
  shows "\<exists>title detail. truthy_json (Some detail)
     \<and> rb_log (row_step R s (RowAnswered i (Status n body))) = rb_log s
        @ (if ok_status n then [Toasted title [JStr i] ''success'', Refreshed] else [Toasted ''Delete failed'' [detail] ''error''])"
proof -
  have "\<exists>a d m. R = delete_button a d m \<and> m \<noteq> []"
    using assms(1) unfolding deleteRoute_def deleteTenant_def deleteToken_def deleteApp_def by blast
  then obtain a d m where R: "R = delete_button a d m" "m \<noteq> []" by blast
  have "rb_log (row_step R s (RowAnswered i (Status n body))) = rb_log s
        @ (if ok_status n then [Toasted d [JStr i] ''success'', Refreshed] else [Toasted ''Delete failed'' [error_or body m] ''error''])"
    using assms(2,3) by (simp add: R(1) acted_def delete_button_def said_def Let_def)
  then show ?thesis using truthy_error_or [OF R(2)] by blast
qed

text \<open>The tables that say nothing.\<close>

definition quiet_actions :: "string \<Rightarrow> string row_action list" where
  "quiet_actions org = [revokeSession, deletePlatformUser, deletePlatformOrg, revokePlatformAdmin, removeMember org, revokeInvite org]"

text \<open>A refused request of these tables is not reported: the row stays as it is, without a word.\<close>

theorem refusals_are_not_reported:
  assumes "R \<in> set (quiet_actions org)" "\<not> ok_status n" "i \<in> set (rb_running s)" "\<not> rb_crashed s"
  shows "rb_log (row_step R s (RowAnswered i (Status n body))) = rb_log s
     \<and> rb_error (row_step R s (RowAnswered i (Status n body))) = rb_error s"
  using assms by (auto simp: quiet_actions_def acted_def Let_def action_defs)

text \<open>The grant's button refreshes the page as if the grant were gone, whatever the answer.\<close>

theorem grant_button_ignores_the_answer:
  assumes "i \<in> set (rb_running s)" "\<not> rb_crashed s"
  shows "rb_log (row_step deleteGrantRow s (RowAnswered i (Status n body))) = rb_log s @ [Refreshed]"
  using assms by (simp add: acted_def Let_def action_defs)

text \<open>
  In the tables whose buttons wait only for the refresh of the page, a second click and confirmation
  before the answer sends the request again.
\<close>

theorem deletion_can_be_sent_twice:
  assumes "R \<in> {deletePlatformUser, deletePlatformOrg, revokePlatformAdmin, removeMember org}"
    and "row_fresh s" "i \<in> set (rb_rows s)" "\<not> rb_disabled s"
  shows "rb_log (foldl (row_step R) s [ButtonPressed i, QuestionConfirmed, ButtonPressed i, QuestionConfirmed])
     = [Sent (ra_request R i), Sent (ra_request R i)]"
  using assms by (auto simp: row_fresh_def act_on_def blocked_def action_defs)

section \<open>Examples\<close>

definition exButtons :: "string row_buttons" where
  "exButtons = \<lparr>rb_rows = [''r1'', ''r2''], rb_disabled = False, rb_asking = None, rb_running = [], rb_marked = None,
     rb_refreshing = False, rb_error = None, rb_crashed = False, rb_log = []\<rparr>"

theorem row_requests_are_confirmed_witness:
  "reach row_fresh (row_trans deleteRoute) (exButtons\<lparr>rb_asking := Some ''r1''\<rparr>)
   \<and> rb_log (row_step deleteRoute (exButtons\<lparr>rb_asking := Some ''r1''\<rparr>) QuestionConfirmed)
     = [Sent (''DELETE'', ''/api/admin/routes/r1'', JNull)]"
proof -
  let ?s = "exButtons\<lparr>rb_asking := Some ''r1''\<rparr>"
  have mem: "deleteRoute \<in> set (asking_actions ''o'')" by (simp add: asking_actions_def)
  have "reach row_fresh (row_trans deleteRoute) exButtons" by (rule reach_init) (simp add: row_fresh_def exButtons_def)
  moreover have "row_trans deleteRoute exButtons (ButtonPressed ''r1'') ?s"
    by (simp add: row_trans_def exButtons_def blocked_def action_defs)
  ultimately have r: "reach row_fresh (row_trans deleteRoute) ?s" by (rule reach_step)
  have "requests (rb_log (row_step deleteRoute ?s QuestionConfirmed)) \<noteq> requests (rb_log ?s)"
    by (simp add: act_on_def exButtons_def action_defs)
  from row_requests_are_confirmed [OF mem r this] r show ?thesis
    by (auto simp: exButtons_def action_defs)
qed

theorem delete_answers_are_reported_witness:
  "\<exists>title detail. rb_log (row_step deleteRoute (exButtons\<lparr>rb_running := [''r1'']\<rparr>) (RowAnswered ''r1'' (Status 500 JNull)))
     = [Toasted title [detail] ''error'']"
proof -
  have "deleteRoute \<in> {deleteRoute, deleteTenant, deleteToken, deleteApp}" by simp
  moreover have "''r1'' \<in> set (rb_running (exButtons\<lparr>rb_running := [''r1'']\<rparr>))" "\<not> rb_crashed (exButtons\<lparr>rb_running := [''r1'']\<rparr>)"
    by (simp_all add: exButtons_def)
  ultimately show ?thesis
    using delete_answers_are_reported [of deleteRoute "''r1''" "exButtons\<lparr>rb_running := [''r1'']\<rparr>" 500 JNull]
    by (auto simp: ok_status_def exButtons_def)
qed

end
