(* ===== verification/GlobalSearch.thy ===== *)
theory GlobalSearch
  imports Tables
begin

text \<open>
  The search box of the shell, \<open>components/admin/global-search.tsx\<close>: typing restarts a timer of 300 ms,
  the timer starts a request, and an answer is shown when it comes, whatever has been typed since.
\<close>

section \<open>State\<close>

text \<open>
  \<open>gs_timer\<close> is the debounce timer with the text of its closure, \<open>gs_calls\<close> the searches under way in
  the order they were started. \<open>'d\<close> is the type of results.
\<close>

record 'd global_search =
  gs_open :: bool
  gs_query :: string
  gs_results :: "'d option"
  gs_loading :: bool
  gs_timer :: "string option"
  gs_calls :: "string list"
  gs_pushed :: "string list"

definition search_start :: "'d global_search" where
  "search_start = \<lparr>gs_open = False, gs_query = [], gs_results = None, gs_loading = False,
     gs_timer = Some [], gs_calls = [], gs_pushed = []\<rparr>"

text \<open>\<open>setQuery\<close>; the effect runs when the text has changed.\<close>

definition setQuery :: "string \<Rightarrow> 'd global_search \<Rightarrow> 'd global_search" where
  "setQuery q s = (if q = gs_query s then s else s\<lparr>gs_query := q, gs_timer := Some q\<rparr>)"

definition search :: "string \<Rightarrow> 'd global_search \<Rightarrow> 'd global_search" where
  "search q s =
     (if js_length q < 2 then s\<lparr>gs_results := None\<rparr>
      else s\<lparr>gs_loading := True, gs_calls := gs_calls s @ [q]\<rparr>)"

definition search_url :: "string \<Rightarrow> string" where
  "search_url q = ''/api/admin/search?q='' @ encodeURIComponent q"

text \<open>Results, or nothing: a status that is not \<open>ok\<close>, a body that does not parse, a network error.\<close>

definition searched :: "string \<Rightarrow> 'd option \<Rightarrow> 'd global_search \<Rightarrow> 'd global_search" where
  "searched q a s = s\<lparr>gs_calls := remove1 q (gs_calls s), gs_loading := False,
     gs_results := (case a of Some d \<Rightarrow> Some d | None \<Rightarrow> gs_results s)\<rparr>"

definition forget :: "'d global_search \<Rightarrow> 'd global_search" where
  "forget s = (setQuery [] s)\<lparr>gs_results := None\<rparr>"

definition closeSearch :: "'d global_search \<Rightarrow> 'd global_search" where
  "closeSearch s = forget (s\<lparr>gs_open := False\<rparr>)"

definition navigate :: "string \<Rightarrow> 'd global_search \<Rightarrow> 'd global_search" where
  "navigate href s = (closeSearch s)\<lparr>gs_pushed := gs_pushed s @ [href]\<rparr>"

datatype 'd search_event =
    SearchOpened | EscapePressed | BackdropPressed | ClearPressed | QueryTyped string
  | ResultPressed string | TimerFired | SearchAnswered string "'d option"

fun search_step :: "'d global_search \<Rightarrow> 'd search_event \<Rightarrow> 'd global_search" where
  "search_step s SearchOpened = s\<lparr>gs_open := True\<rparr>"
| "search_step s EscapePressed = closeSearch s"
| "search_step s BackdropPressed = (if gs_open s then closeSearch s else s)"
| "search_step s ClearPressed = (if gs_open s \<and> gs_query s \<noteq> [] then forget s else s)"
| "search_step s (QueryTyped q) = (if gs_open s then setQuery q s else s)"
| "search_step s (ResultPressed href) =
     (if gs_open s \<and> \<not> gs_loading s \<and> gs_results s \<noteq> None then navigate href s else s)"
| "search_step s TimerFired =
     (case gs_timer s of None \<Rightarrow> s | Some q \<Rightarrow> search q (s\<lparr>gs_timer := None\<rparr>))"
| "search_step s (SearchAnswered q a) = (if q \<in> set (gs_calls s) then searched q a s else s)"

text \<open>What the dialog says below the input; \<open>none d\<close>: all lists of the results are empty.\<close>

datatype 'd search_view = SearchHidden | Searching | NoResults | Shown 'd | TypeMore | ShownAndTypeMore 'd

definition search_view :: "('d \<Rightarrow> bool) \<Rightarrow> 'd global_search \<Rightarrow> 'd search_view" where
  "search_view none s =
     (let long = 2 \<le> js_length (gs_query s);
          has = (case gs_results s of Some d \<Rightarrow> \<not> none d | None \<Rightarrow> False)
      in if \<not> gs_open s then SearchHidden
         else if gs_loading s then Searching
         else if has then (if long then Shown (the (gs_results s)) else ShownAndTypeMore (the (gs_results s)))
         else if long then NoResults else TypeMore)"

section \<open>Runs\<close>

definition search_fresh :: "'d global_search \<Rightarrow> bool" where
  "search_fresh s \<longleftrightarrow> s = search_start"

definition search_trans :: "'d global_search \<Rightarrow> 'd search_event \<Rightarrow> 'd global_search \<Rightarrow> bool" where
  "search_trans s e t \<longleftrightarrow> t = search_step s e"

text \<open>Runs in which every search is answered, in the order of the searches, with what the server has for it.\<close>

definition in_order :: "(string \<Rightarrow> 'd) \<Rightarrow> 'd global_search \<Rightarrow> 'd search_event \<Rightarrow> bool" where
  "in_order server s e \<longleftrightarrow>
     (case e of SearchAnswered q a \<Rightarrow> gs_calls s \<noteq> [] \<and> q = hd (gs_calls s) \<and> a = Some (server q) | _ \<Rightarrow> True)"

definition orderly_trans :: "(string \<Rightarrow> 'd) \<Rightarrow> 'd global_search \<Rightarrow> 'd search_event \<Rightarrow> 'd global_search \<Rightarrow> bool" where
  "orderly_trans server s e t \<longleftrightarrow> in_order server s e \<and> t = search_step s e"

text \<open>The timer, while it runs, holds the text that is shown, and every search is for two characters at least.\<close>

definition timer_inv :: "'d global_search \<Rightarrow> bool" where
  "timer_inv s \<longleftrightarrow> (\<forall>q. gs_timer s = Some q \<longrightarrow> q = gs_query s) \<and> (\<forall>q \<in> set (gs_calls s). 2 \<le> js_length q)"

text \<open>At rest, the results are those of the text; before, the last search under way is for it.\<close>

definition rest_inv :: "(string \<Rightarrow> 'd) \<Rightarrow> 'd global_search \<Rightarrow> bool" where
  "rest_inv server s \<longleftrightarrow> timer_inv s \<and>
     (gs_timer s = None \<and> 2 \<le> js_length (gs_query s) \<longrightarrow>
        (if gs_calls s = [] then gs_results s = Some (server (gs_query s)) else last (gs_calls s) = gs_query s))"

lemmas search_handler_defs = setQuery_def forget_def closeSearch_def navigate_def search_def searched_def

lemma js_length_Nil [simp]: "js_length [] = 0"
  by (simp add: js_length_def)

lemma timer_inv_step: "timer_inv s \<Longrightarrow> timer_inv (search_step s e)"
proof (cases e)
  case (SearchAnswered q a)
  assume "timer_inv s"
  then show ?thesis unfolding SearchAnswered
    by (auto simp: timer_inv_def searched_def dest: notin_set_remove1 intro: set_remove1_subset [THEN subsetD])
qed (auto simp: timer_inv_def search_handler_defs split: option.splits)

lemma rest_inv_step:
  assumes "rest_inv server s" "in_order server s e"
  shows "rest_inv server (search_step s e)"
proof -
  have t: "timer_inv (search_step s e)" using assms(1) timer_inv_step by (auto simp: rest_inv_def)
  show ?thesis
  proof (cases e)
    case (SearchAnswered q a)
    with assms(2) obtain qs where qs: "gs_calls s = q # qs" and a: "a = Some (server q)"
      by (cases "gs_calls s") (auto simp: in_order_def)
    show ?thesis
      using assms(1) t unfolding SearchAnswered
      by (auto simp: rest_inv_def searched_def qs a)
  next
    case TimerFired
    then show ?thesis using assms(1) t
      by (auto simp: rest_inv_def timer_inv_def search_def split: option.splits)
  qed (use assms(1) t in \<open>auto simp: rest_inv_def search_handler_defs split: option.splits\<close>)
qed

interpretation searching: invariant search_fresh search_trans timer_inv
proof
  show "timer_inv s" if "search_fresh s" for s :: "'a global_search"
    using that by (simp add: search_fresh_def search_start_def timer_inv_def)
  show "timer_inv t" if "search_trans s e t" "timer_inv s" for s t :: "'a global_search" and e
    using that timer_inv_step by (simp add: search_trans_def)
qed

interpretation orderly: invariant search_fresh "orderly_trans server" "rest_inv server" for server
proof
  show "rest_inv server s" if "search_fresh s" for s
    using that by (simp add: search_fresh_def search_start_def timer_inv_def rest_inv_def)
  show "rest_inv server t" if "orderly_trans server s e t" "rest_inv server s" for s e t
    using that rest_inv_step by (auto simp: orderly_trans_def)
qed

section \<open>Properties\<close>

text \<open>
  A search is started only by the timer, once, for the text that is then shown, and only for two
  characters or more.
\<close>

theorem searches_are_for_the_text_shown:
  assumes "reach search_fresh search_trans s" and "gs_calls (search_step s e) \<noteq> gs_calls s"
    and "\<not> (\<exists>q a. e = SearchAnswered q a)"
  shows "e = TimerFired \<and> 2 \<le> js_length (gs_query s) \<and> gs_timer (search_step s e) = None
     \<and> gs_calls (search_step s e) = gs_calls s @ [gs_query s]"
proof -
  have "timer_inv s" by (rule searching.reach_inv [OF assms(1)])
  with assms(2,3) show ?thesis
    by (cases e) (auto simp: search_handler_defs timer_inv_def split: if_splits option.splits)
qed

text \<open>
  If the answers come in the order of the searches, then once the timer has run out and all searches
  are answered, the results shown are the server's for the text in the box.
\<close>

theorem results_settle:
  assumes "reach search_fresh (orderly_trans server) s"
    and "gs_timer s = None" "gs_calls s = []" "2 \<le> js_length (gs_query s)"
  shows "gs_results s = Some (server (gs_query s))"
  using orderly.reach_inv [OF assms(1)] assms(2-4) by (simp add: rest_inv_def)

definition search_run :: "'d search_event list \<Rightarrow> 'd global_search" where
  "search_run es = foldl search_step search_start es"

lemma search_run_reach: "reach search_fresh search_trans (search_run es)"
proof (induction es rule: rev_induct)
  case (snoc e es)
  then show ?case by (auto simp: search_run_def search_trans_def intro: reach_step)
qed (simp add: search_run_def search_fresh_def reach_init)

text \<open>If they do not, the box can come to rest with the results of an earlier text.\<close>

theorem overtaken_search_shows_old_results:
  "\<exists>s. reach search_fresh search_trans s \<and> gs_timer s = None \<and> gs_calls s = [] \<and> gs_query s = ''abc''
     \<and> gs_results s = Some (server ''ab'')"
proof (intro exI conjI)
  let ?es = "[SearchOpened, QueryTyped ''ab'', TimerFired, QueryTyped ''abc'', TimerFired,
     SearchAnswered ''abc'' (Some (server ''abc'')), SearchAnswered ''ab'' (Some (server ''ab''))]"
  show "reach search_fresh search_trans (search_run ?es)" by (rule search_run_reach)
  have len: "js_length ''ab'' = 2" "js_length ''abc'' = 3" by code_simp+
  show "gs_timer (search_run ?es) = None" "gs_calls (search_run ?es) = []" "gs_query (search_run ?es) = ''abc''"
    "gs_results (search_run ?es) = Some (server ''ab'')"
    by (simp_all add: search_run_def search_start_def search_handler_defs len)
qed

text \<open>
  An answer that comes after the box has been closed is kept: opened again, the box shows the results
  of the earlier search beside the request to type two characters.
\<close>

theorem closed_search_comes_back:
  assumes "\<not> none (server ''ab'')"
  shows "\<exists>s. reach search_fresh search_trans s \<and> gs_query s = [] \<and> search_view none s = ShownAndTypeMore (server ''ab'')"
proof (intro exI conjI)
  let ?es = "[SearchOpened, QueryTyped ''ab'', TimerFired, EscapePressed, TimerFired,
     SearchAnswered ''ab'' (Some (server ''ab'')), SearchOpened]"
  show "reach search_fresh search_trans (search_run ?es)" by (rule search_run_reach)
  have len: "js_length ''ab'' = 2" by code_simp
  show "gs_query (search_run ?es) = []" "search_view none (search_run ?es) = ShownAndTypeMore (server ''ab'')"
    using assms by (simp_all add: search_run_def search_start_def search_handler_defs search_view_def len)
qed

section \<open>Examples\<close>

theorem searches_are_for_the_text_shown_witness:
  "gs_calls (search_step (search_run [SearchOpened, QueryTyped ''ab''] :: nat global_search) TimerFired) = [''ab'']"
proof -
  let ?s = "search_run [SearchOpened, QueryTyped ''ab''] :: nat global_search"
  have len: "js_length ''ab'' = 2" by code_simp
  have "gs_calls (search_step ?s TimerFired) \<noteq> gs_calls ?s" "\<not> (\<exists>q a. TimerFired = (SearchAnswered q a :: nat search_event))"
    by (simp_all add: search_run_def search_start_def search_handler_defs len)
  from searches_are_for_the_text_shown [OF search_run_reach this] show ?thesis
    by (simp add: search_run_def search_start_def search_handler_defs)
qed

theorem results_settle_witness:
  "gs_results (search_run [SearchOpened, QueryTyped ''ab'', TimerFired, SearchAnswered ''ab'' (Some (length ''ab''))]) = Some 2"
proof -
  let ?t = "orderly_trans length" and ?I = "search_fresh :: nat global_search \<Rightarrow> bool"
  let ?e = "[SearchOpened, QueryTyped ''ab'', TimerFired, SearchAnswered ''ab'' (Some (length ''ab''))]"
  have len: "js_length ''ab'' = 2" by code_simp
  have "reach ?I ?t search_start" by (simp add: search_fresh_def reach_init)
  then have "reach ?I ?t (search_step search_start SearchOpened)"
    by (rule reach_step [where e = "SearchOpened"]) (simp add: orderly_trans_def in_order_def)
  then have "reach ?I ?t (search_run [SearchOpened, QueryTyped ''ab''])"
    by (rule reach_step [where e = "QueryTyped ''ab''"]) (simp add: orderly_trans_def in_order_def search_run_def)
  then have "reach ?I ?t (search_run [SearchOpened, QueryTyped ''ab'', TimerFired])"
    by (rule reach_step [where e = "TimerFired"]) (simp add: orderly_trans_def in_order_def search_run_def)
  then have r: "reach ?I ?t (search_run ?e)"
    by (rule reach_step [where e = "SearchAnswered ''ab'' (Some (length ''ab''))"])
      (simp add: orderly_trans_def in_order_def search_run_def search_start_def search_handler_defs len)
  have "gs_timer (search_run ?e) = None" "gs_calls (search_run ?e) = []" "2 \<le> js_length (gs_query (search_run ?e))"
    by (simp_all add: search_run_def search_start_def search_handler_defs len)
  from results_settle [OF r this] show ?thesis
    by (simp add: search_run_def search_start_def search_handler_defs)
qed

end
