(* ===== verification/Notices.thy ===== *)
theory Notices
  imports Tables ApiRoutes
begin

text \<open>
  What the shell tells the user: the toasts of \<open>components/toast-provider.tsx\<close> and the bell of
  \<open>components/admin/notification-center.tsx\<close>.
\<close>

section \<open>Toasts\<close>

text \<open>
  The ids are \<open>toast-1\<close>, \<open>toast-2\<close>, ... of a counter, here the number. Every toast starts a timer when it
  is mounted; \<open>tq_items\<close> keeps the time at which it will fire beside the toast.
\<close>

record toast =
  tt_id :: nat
  tt_title :: string
  tt_description :: "string option"
  tt_variant :: string

record toasts =
  tq_counter :: nat
  tq_items :: "(toast \<times> int) list"
  tq_now :: int

definition TOAST_ms :: int where
  "TOAST_ms = 4500"

definition addToast :: "string \<Rightarrow> string option \<Rightarrow> string option \<Rightarrow> toasts \<Rightarrow> toasts" where
  "addToast title description variant s =
     (let n = tq_counter s + 1 in
      s\<lparr>tq_counter := n,
        tq_items := tq_items s @ [(\<lparr>tt_id = n, tt_title = title, tt_description = description,
                                      tt_variant = nullish variant ''info''\<rparr>, tq_now s + TOAST_ms)]\<rparr>)"

definition removeToast :: "nat \<Rightarrow> toasts \<Rightarrow> toasts" where
  "removeToast i s = s\<lparr>tq_items := filter (\<lambda>(t, due). tt_id t \<noteq> i) (tq_items s)\<rparr>"

text \<open>Time goes on and the timers that are due fire, each removing its toast.\<close>

definition timers_fire :: "toasts \<Rightarrow> toasts" where
  "timers_fire s = fold (\<lambda>(t, due) s. if due \<le> tq_now s then removeToast (tt_id t) s else s) (tq_items s) s"

datatype toast_event = ToastAdded string "string option" "string option" | ToastDismissed nat | TimePassed nat

fun toast_step :: "toasts \<Rightarrow> toast_event \<Rightarrow> toasts" where
  "toast_step s (ToastAdded title d v) = addToast title d v s"
| "toast_step s (ToastDismissed i) = removeToast i s"
| "toast_step s (TimePassed n) = timers_fire (s\<lparr>tq_now := tq_now s + int n\<rparr>)"

definition toast_fresh :: "toasts \<Rightarrow> bool" where
  "toast_fresh s \<longleftrightarrow> tq_counter s = 0 \<and> tq_items s = []"

definition toast_trans :: "toasts \<Rightarrow> toast_event \<Rightarrow> toasts \<Rightarrow> bool" where
  "toast_trans s e t \<longleftrightarrow> t = toast_step s e"

definition toast_inv :: "toasts \<Rightarrow> bool" where
  "toast_inv s \<longleftrightarrow> distinct (map (tt_id \<circ> fst) (tq_items s))
     \<and> (\<forall>(t, due) \<in> set (tq_items s). tt_id t \<le> tq_counter s \<and> tq_now s < due \<and> due \<le> tq_now s + TOAST_ms)"

lemma fire_list:
  "fold (\<lambda>(t, due) s. if due \<le> tq_now s then removeToast (tt_id t) s else s) xs s
     = s\<lparr>tq_items := filter (\<lambda>(t, due). \<forall>(u, d) \<in> set xs. d \<le> tq_now s \<longrightarrow> tt_id u \<noteq> tt_id t) (tq_items s)\<rparr>"
proof (induction xs arbitrary: s)
  case (Cons x xs)
  obtain t due where x: "x = (t, due)" by (cases x)
  show ?case
  proof (cases "due \<le> tq_now s")
    case True
    then show ?thesis unfolding x
      by (simp add: Cons removeToast_def)
        (rule arg_cong [where f = "\<lambda>l. s\<lparr>tq_items := l\<rparr>"], rule filter_cong [OF refl], auto)
  qed (use Cons in \<open>simp add: x\<close>)
qed simp

text \<open>When the ids differ, exactly the toasts whose timers are due go.\<close>

lemma fire_due:
  assumes "distinct (map (tt_id \<circ> fst) (tq_items s))"
  shows "tq_items (timers_fire s) = filter (\<lambda>(t, due). tq_now s < due) (tq_items s)"
proof -
  have same: "x = y" if "x \<in> set (tq_items s)" "y \<in> set (tq_items s)" "tt_id (fst x) = tt_id (fst y)" for x y
    using assms that by (auto simp: distinct_map inj_on_def)
  show ?thesis
    unfolding timers_fire_def fire_list by (auto intro!: filter_cong [OF refl] dest: same)
qed

lemma timers_fire_frame: "tq_counter (timers_fire s) = tq_counter s" "tq_now (timers_fire s) = tq_now s"
  unfolding timers_fire_def fire_list by simp_all

lemma toast_inv_step: "toast_inv s \<Longrightarrow> toast_inv (toast_step s e)"
proof (cases e)
  case (TimePassed n)
  assume s: "toast_inv s"
  let ?s = "s\<lparr>tq_now := tq_now s + int n\<rparr>"
  have items: "tq_items (timers_fire ?s) = filter (\<lambda>(t, due). tq_now ?s < due) (tq_items s)"
    using s fire_due [of ?s] by (simp add: toast_inv_def)
  have "toast_inv (timers_fire ?s)"
    using s unfolding toast_inv_def items timers_fire_frame
    by (auto simp: TOAST_ms_def intro: distinct_map_filter)
  then show ?thesis by (simp add: TimePassed)
next
  case (ToastAdded title d v)
  assume "toast_inv s"
  then show ?thesis unfolding ToastAdded
    by (fastforce simp: toast_inv_def addToast_def Let_def TOAST_ms_def)
qed (auto simp: toast_inv_def removeToast_def intro: distinct_map_filter)

interpretation toasting: invariant toast_fresh toast_trans toast_inv
proof
  show "toast_inv s" if "toast_fresh s" for s using that by (simp add: toast_fresh_def toast_inv_def)
  show "toast_inv t" if "toast_trans s e t" "toast_inv s" for s e t
    using that toast_inv_step by (simp add: toast_trans_def)
qed

text \<open>
  No two toasts have the same id, a toast that is dismissed goes alone, and none stays longer than
  four and a half seconds: after them all toasts of now are gone.
\<close>

theorem toasts_go_away:
  assumes "reach toast_fresh toast_trans s"
  shows "distinct (map (tt_id \<circ> fst) (tq_items s))
     \<and> (\<forall>(t, due) \<in> set (tq_items s).
          set (tq_items (toast_step s (ToastDismissed (tt_id t)))) = set (tq_items s) - {(t, due)})
     \<and> tq_items (toast_step s (TimePassed 4500)) = []"
proof -
  have inv: "toast_inv s" by (rule toasting.reach_inv [OF assms])
  then have d: "distinct (map (tt_id \<circ> fst) (tq_items s))" by (simp add: toast_inv_def)
  have "tq_items (toast_step s (TimePassed 4500)) = []"
    using inv d fire_due [of "s\<lparr>tq_now := tq_now s + int 4500\<rparr>"]
    by (auto simp: toast_inv_def TOAST_ms_def filter_empty_conv)
  moreover have "set (tq_items (removeToast (tt_id t) s)) = set (tq_items s) - {(t, due)}"
    if "(t, due) \<in> set (tq_items s)" for t due
    using d that by (force simp: removeToast_def distinct_map inj_on_def)
  ultimately show ?thesis using d by auto
qed

section \<open>The bell\<close>

record ExpiringToken =
  et_id :: string
  et_name :: string
  et_tenantID :: string
  et_expiresAt :: string
  et_daysUntilExpiry :: int

record CircuitBreakerStatus =
  cb_routeID :: string
  cb_slug :: string
  cb_tenantID :: string
  cb_state :: string
  cb_locked :: bool
  cb_failureCount :: int
  cb_lastFailure :: string
  cb_lastSuccess :: string

record notification =
  nt_id :: string
  nt_type :: string
  nt_title :: string
  nt_body :: string
  nt_href :: string

definition plural :: "int \<Rightarrow> string" where
  "plural n = (if n \<noteq> 1 then ''s'' else [])"

definition token_notification :: "ExpiringToken \<Rightarrow> notification" where
  "token_notification t = \<lparr>nt_id = ''token-'' @ et_id t, nt_type = ''token_expiring'',
     nt_title = ''Token expiring: '' @ et_name t,
     nt_body = ''Expires in '' @ show_int (et_daysUntilExpiry t) @ '' day'' @ plural (et_daysUntilExpiry t),
     nt_href = ''/tokens''\<rparr>"

definition breaker_notification :: "CircuitBreakerStatus \<Rightarrow> notification" where
  "breaker_notification c = \<lparr>nt_id = ''cb-'' @ cb_routeID c, nt_type = ''circuit_breaker'',
     nt_title = ''Circuit breaker open: '' @ cb_slug c,
     nt_body = show_int (cb_failureCount c) @ '' failure'' @ plural (cb_failureCount c) @ '' detected'',
     nt_href = ''/routes''\<rparr>"

text \<open>
  An answer is its status and the list its body parses to, if it does. \<open>None\<close>: one of the requests has
  failed, and with it both. What throws after the first list has been pushed keeps it.
\<close>

definition fetchNotifications ::
  "((int \<times> ExpiringToken list option) \<times> (int \<times> CircuitBreakerStatus list option)) option \<Rightarrow> notification list" where
  "fetchNotifications r =
     (case r of
        None \<Rightarrow> []
      | Some ((n1, ts), (n2, cs)) \<Rightarrow>
          if ok_status n1 \<and> ts = None then []
          else (if ok_status n1 then map token_notification (take 5 (the ts)) else [])
            @ (if ok_status n2 \<and> cs \<noteq> None
               then map breaker_notification (take 5 (filter (\<lambda>c. cb_state c = ''open'') (the cs))) else []))"

record bell =
  bl_open :: bool
  bl_notifications :: "notification list"
  bl_loaded :: bool
  bl_calls :: nat

definition bell_start :: bell where
  "bell_start = \<lparr>bl_open = False, bl_notifications = [], bl_loaded = False, bl_calls = 0\<rparr>"

datatype bell_event = BellPressed | PressedOutside | LinkPressed | Notified "notification list"

fun bell_step :: "bell \<Rightarrow> bell_event \<Rightarrow> bell" where
  "bell_step s BellPressed =
     (if bl_open s then s\<lparr>bl_open := False, bl_loaded := False\<rparr>
      else s\<lparr>bl_open := True, bl_calls := bl_calls s + 1\<rparr>)"
| "bell_step s PressedOutside = s\<lparr>bl_open := False\<rparr>"
| "bell_step s LinkPressed = (if bl_open s \<and> bl_loaded s \<and> bl_notifications s \<noteq> [] then s\<lparr>bl_open := False\<rparr> else s)"
| "bell_step s (Notified ns) =
     (if 0 < bl_calls s then s\<lparr>bl_notifications := ns, bl_loaded := True, bl_calls := bl_calls s - 1\<rparr> else s)"

definition bell_badge :: "bell \<Rightarrow> string option" where
  "bell_badge s =
     (let n = length (bl_notifications s) in
      if n = 0 then None else Some (if n > 9 then ''9+'' else show_nat n))"

text \<open>
  At most ten notices, the expiring tokens before the breakers, each kind in the order of the
  answer, and breakers only while they are open.
\<close>

theorem notices_are_bounded:
  "length (fetchNotifications r) \<le> 10
   \<and> (\<exists>ts cs. fetchNotifications r = map token_notification ts @ map breaker_notification cs
        \<and> length ts \<le> 5 \<and> length cs \<le> 5 \<and> (\<forall>c \<in> set cs. cb_state c = ''open''))"
proof -
  have "\<exists>ts cs. fetchNotifications r = map token_notification ts @ map breaker_notification cs
      \<and> length ts \<le> 5 \<and> length cs \<le> 5 \<and> (\<forall>c \<in> set cs. cb_state c = ''open'')"
  proof (cases r)
    case None
    then show ?thesis by (simp add: fetchNotifications_def)
  next
    case (Some a)
    obtain n1 ts n2 cs where a: "a = ((n1, ts), (n2, cs))" by (metis prod.collapse)
    let ?ts = "if ok_status n1 \<and> ts \<noteq> None then take 5 (the ts) else []"
    let ?cs = "if (ok_status n1 \<longrightarrow> ts \<noteq> None) \<and> ok_status n2 \<and> cs \<noteq> None
      then take 5 (filter (\<lambda>c. cb_state c = ''open'') (the cs)) else []"
    have "fetchNotifications r = map token_notification ?ts @ map breaker_notification ?cs"
      by (auto simp: fetchNotifications_def Some a)
    moreover have "length ?ts \<le> 5" "length ?cs \<le> 5" by simp_all
    moreover have "\<forall>c \<in> set ?cs. cb_state c = ''open''" by (auto dest: in_set_takeD)
    ultimately show ?thesis by blast
  qed
  then show ?thesis by force
qed

section \<open>Nobody answers the bell\<close>

text \<open>
  A router that serves nothing but the files: a request is served by the handler of a file whose
  pattern its address matches. To other requests the server answers with an error status.
\<close>

definition serves_only_api_files :: "router \<Rightarrow> bool" where
  "serves_only_api_files F \<longleftrightarrow>
     (\<forall>m ss h ps. (\<forall>s \<in> set ss. CHR ''/'' \<notin> set s)
        \<and> F m (''/api'' @ concat (map (\<lambda>s. CHR ''/'' # s) ss)) = Some (h, ps) \<longrightarrow>
        (\<exists>pat. api_handler m pat = Some h \<and> matches pat ss))"

definition unserved :: "string \<Rightarrow> string list \<Rightarrow> bool" where
  "unserved m ss \<longleftrightarrow> list_all (\<lambda>(m', pat, h). m' = m \<longrightarrow> \<not> matches pat ss) admin_files"

lemma unserved_None:
  assumes "serves_only_api_files F" "\<forall>s \<in> set ss. CHR ''/'' \<notin> set s" "unserved m ss"
  shows "F m (''/api'' @ concat (map (\<lambda>s. CHR ''/'' # s) ss)) = None"
proof (rule ccontr)
  assume "F m (''/api'' @ concat (map (\<lambda>s. CHR ''/'' # s) ss)) \<noteq> None"
  then obtain h ps pat where "api_handler m pat = Some h" "matches pat ss"
    using assms(1,2) unfolding serves_only_api_files_def by fast
  moreover from this(1) have "(m, pat, h) \<in> set admin_files"
    by (auto simp: api_handler_def dest!: map_of_SomeD)
  ultimately show False using assms(3) by (auto simp: unserved_def list_all_iff)
qed

text \<open>
  The two addresses the bell asks are not served: no file answers a \<open>GET\<close> of
  \<open>/api/admin/tokens/expiring\<close> or of \<open>/api/admin/circuit-breakers\<close>. So both answers are errors, and the
  bell never has anything to show, whatever tokens expire and breakers open.
\<close>

theorem bell_never_rings:
  assumes "serves_only_api_files F" and "\<not> ok_status n1" "\<not> ok_status n2"
  shows "client_fetch F str (''GET'', ''/api/admin/tokens/expiring'', JNull) = None
     \<and> client_fetch F str (''GET'', ''/api/admin/circuit-breakers'', JNull) = None
     \<and> fetchNotifications (Some ((n1, ts), (n2, cs))) = []"
proof -
  have "unserved ''GET'' [''admin'', ''tokens'', ''expiring'']" "unserved ''GET'' [''admin'', ''circuit-breakers'']"
    by (simp_all add: unserved_def admin_files_def tenancy_files_def routing_files_def platform_files_def)
  from this [THEN unserved_None [OF assms(1), rotated]]
  show ?thesis using assms(2,3) by (simp add: client_fetch_def fetchNotifications_def)
qed

text \<open>The router of the files serves only files.\<close>

lemma split_segments:
  "CHR ''/'' \<notin> set p \<Longrightarrow> \<forall>s \<in> set ss. CHR ''/'' \<notin> set s \<Longrightarrow>
   split_on CHR ''/'' (p @ concat (map (\<lambda>s. CHR ''/'' # s) ss)) = p # ss"
  by (induction ss arbitrary: p) (simp_all add: split_on_no_sep split_on_append_sep)

lemma file_router_only: "serves_only_api_files file_router"
  unfolding serves_only_api_files_def
proof (intro allI impI, elim conjE)
  fix m ss h ps
  assume ss: "\<forall>s \<in> set ss. CHR ''/'' \<notin> set s"
    and r: "file_router m (''/api'' @ concat (map (\<lambda>s. CHR ''/'' # s) ss)) = Some (h, ps)"
  have "split_on CHR ''/'' (''/api'' @ concat (map (\<lambda>s. CHR ''/'' # s) ss)) = [] # ''api'' # ss"
    using split_segments [of "''api''" ss] ss split_on_append_sep [of "CHR ''/''" "[]"] by simp
  with r obtain pat where "match_files ss = Some pat" "api_handler m pat = Some h"
    by (auto simp: file_router_def split: option.splits)
  then show "\<exists>pat. api_handler m pat = Some h \<and> matches pat ss"
    using found_in(1) unfolding match_files_def by fast
qed

section \<open>Examples\<close>

theorem toasts_go_away_witness:
  "tq_items (toast_step (toast_step \<lparr>tq_counter = 0, tq_items = [], tq_now = 7\<rparr> (ToastAdded ''Saved'' None None)) (TimePassed 4500)) = []"
proof -
  let ?s = "\<lparr>tq_counter = 0, tq_items = [], tq_now = 7\<rparr>" and ?e = "ToastAdded ''Saved'' None None"
  have "reach toast_fresh toast_trans ?s" by (rule reach_init) (simp add: toast_fresh_def)
  then have "reach toast_fresh toast_trans (toast_step ?s ?e)"
    by (rule reach_step [where e = ?e]) (simp add: toast_trans_def)
  from toasts_go_away [OF this] show ?thesis by blast
qed

theorem bell_never_rings_witness:
  "client_fetch file_router (\<lambda>_. []) (''GET'', ''/api/admin/tokens/expiring'', JNull) = None"
proof -
  have "\<not> ok_status 405" by (simp add: ok_status_def)
  from bell_never_rings [OF file_router_only this this] show ?thesis by blast
qed

end
