(* ===== verification/RouteTester.thy ===== *)
theory RouteTester
  imports Tables
begin

text \<open>
  The route tester, \<open>components/admin/route-tester.tsx\<close>: a route and a request are put together, shown as
  a \<open>curl\<close> command and sent through the handler \<open>app/api/admin/route-test\<close>, one at a time.
\<close>

section \<open>State\<close>

text \<open>
  \<open>rp_null_error\<close> is the platform's message for reading a property of \<open>null\<close>, \<open>rp_origin\<close> is
  \<open>window.location.origin\<close>. \<open>tr_running\<close>: the body of the test under way (\<open>loading\<close>).
\<close>

record tester_props =
  rp_routes :: "RouteSummary list"
  rp_tokens :: "TokenSummary list"
  rp_backendBaseUrl :: string
  rp_origin :: string
  rp_null_error :: string

record tester =
  tr_props :: tester_props
  tr_open :: bool
  tr_routeID :: string
  tr_token :: string
  tr_method :: string
  tr_url :: string
  tr_extraHeaders :: string
  tr_body :: string
  tr_result :: "json option"
  tr_running :: "json option"
  tr_error :: json
  tr_log :: "client_call list"
  tr_clipboard :: "string option"

definition selectedRoute :: "tester \<Rightarrow> RouteSummary option" where
  "selectedRoute s = find (\<lambda>r. ro_id r = tr_routeID s) (rp_routes (tr_props s))"

definition compatibleTokens :: "tester \<Rightarrow> TokenSummary list" where
  "compatibleTokens s = filter (\<lambda>t. (case selectedRoute s of None \<Rightarrow> True | Some r \<Rightarrow> tk_tenantID t = ro_tenantID r)
     \<and> tk_active t) (rp_tokens (tr_props s))"

definition effectiveBaseUrl :: "tester \<Rightarrow> string" where
  "effectiveBaseUrl s = or_str (Some (rp_backendBaseUrl (tr_props s))) (rp_origin (tr_props s))"

definition defaultMethod :: "RouteSummary \<Rightarrow> string" where
  "defaultMethod r = (if ''GET'' \<in> set (ro_methods r) then ''GET''
     else case ro_methods r of [] \<Rightarrow> ''GET'' | m # _ \<Rightarrow> m)"

definition allowedMethods :: "tester \<Rightarrow> string list" where
  "allowedMethods s = (case selectedRoute s of
     Some r \<Rightarrow> if ro_methods r \<noteq> [] then ro_methods r else [''GET'', ''POST'', ''PUT'', ''PATCH'', ''DELETE'', ''HEAD'']
   | None \<Rightarrow> [''GET'', ''POST'', ''PUT'', ''PATCH'', ''DELETE'', ''HEAD''])"

text \<open>The effect of a change of the selected route, which is compared by identity.\<close>

definition followRoute :: "tester \<Rightarrow> tester" where
  "followRoute s = (case selectedRoute s of
     None \<Rightarrow> s
   | Some r \<Rightarrow> s\<lparr>tr_url := effectiveBaseUrl s @ ''/proxy/'' @ ro_slug r, tr_method := defaultMethod r\<rparr>)"

section \<open>Headers and the command\<close>

text \<open>A line counts when its first colon is not its first character; name and value are trimmed.\<close>

definition header_of_line :: "string \<Rightarrow> (string \<times> string) option" where
  "header_of_line line =
     (let name = takeWhile (\<lambda>c. c \<noteq> CHR '':'') line in
      if name = [] \<or> name = line then None
      else Some (trim name, trim (drop (Suc (length name)) line)))"

definition header_lines :: "string \<Rightarrow> string list" where
  "header_lines text =
     (if blank text then [] else filter (\<lambda>l. header_of_line l \<noteq> None) (split_on (CHR ''\<newline>'') text))"

definition headerMap :: "tester \<Rightarrow> (string \<times> string) list" where
  "headerMap s =
     fold (\<lambda>l m. case header_of_line l of None \<Rightarrow> m | Some (k, v) \<Rightarrow> obj_set k v m)
       (header_lines (tr_extraHeaders s))
       (if blank (tr_token s) then [] else [(''Authorization'', ''Bearer '' @ trim (tr_token s))])"

definition quoted :: "string \<Rightarrow> string" where
  "quoted t = CHR 0x22 # t @ [CHR 0x22]"

definition header_option :: "string \<Rightarrow> string" where
  "header_option h = ''  -H '' @ quoted h"

definition sends_body :: "tester \<Rightarrow> bool" where
  "sends_body s \<longleftrightarrow> tr_body s \<noteq> [] \<and> tr_method s \<noteq> ''GET'' \<and> tr_method s \<noteq> ''HEAD''"

definition curl_parts :: "tester \<Rightarrow> string list" where
  "curl_parts s =
     [''curl -X '' @ tr_method s @ '' '' @ quoted (tr_url s)]
     @ (if tr_token s = [] then [] else [header_option (''Authorization: Bearer '' @ tr_token s)])
     @ map (\<lambda>l. header_option (trim l)) (header_lines (tr_extraHeaders s))
     @ (if sends_body s
        then [header_option ''Content-Type: application/json'', ''  -d '' @ CHR 0x27 # tr_body s @ [CHR 0x27]]
        else [])"

definition buildCurlCommand :: "tester \<Rightarrow> string" where
  "buildCurlCommand s = (if tr_url s = [] then [] else join_with [CHR '' '', CHR 0x5C, CHR ''\<newline>''] (curl_parts s))"

section \<open>Steps\<close>

definition test_body :: "tester \<Rightarrow> json" where
  "test_body s = JObj [(''method'', JStr (tr_method s)), (''url'', JStr (trim (tr_url s))),
     (''headers'', JObj (map (\<lambda>(k, v). (k, JStr v)) (headerMap s))), (''body'', JStr (tr_body s))]"

definition handleTest :: "tester \<Rightarrow> tester" where
  "handleTest s =
     (if blank (tr_url s) then s
      else s\<lparr>tr_running := Some (test_body s), tr_error := JStr [], tr_result := None,
             tr_log := tr_log s @ [(''POST'', ''/api/admin/route-test'', test_body s)]\<rparr>)"

text \<open>
  What the request ends with: a status with a body that parses, or the message of what was thrown
  (by \<open>fetch\<close> or by the parser).
\<close>

datatype test_answer = TestStatus int json | TestThrew string

definition tested :: "test_answer \<Rightarrow> tester \<Rightarrow> tester" where
  "tested a s =
     (let s' = s\<lparr>tr_running := None\<rparr> in
      case a of
        TestThrew m \<Rightarrow> s'\<lparr>tr_error := JStr m\<rparr>
      | TestStatus n body \<Rightarrow>
          if ok_status n then s'\<lparr>tr_result := (if body = JNull then None else Some body)\<rparr>
          else if body = JNull then s'\<lparr>tr_error := JStr (rp_null_error (tr_props s))\<rparr>
          else s'\<lparr>tr_error := error_or body (''HTTP '' @ show_int n)\<rparr>)"

datatype tester_event =
    TesterOpened | TesterClosed
  | NewData "RouteSummary list" "TokenSummary list"
  | RouteChosen string | TokenTyped string | MethodChosen string | UrlTyped string
  | HeadersTyped string | BodyTyped string
  | SendPressed | CopyPressed | Tested test_answer

fun tester_step :: "tester \<Rightarrow> tester_event \<Rightarrow> tester" where
  "tester_step s TesterOpened = s\<lparr>tr_open := True\<rparr>"
| "tester_step s TesterClosed =
     (if tr_open s then s\<lparr>tr_open := False, tr_result := None, tr_error := JStr []\<rparr> else s)"
| "tester_step s (NewData rs ts) =
     followRoute (s\<lparr>tr_props := (tr_props s)\<lparr>rp_routes := rs, rp_tokens := ts\<rparr>\<rparr>)"
| "tester_step s (RouteChosen i) =
     (if \<not> tr_open s \<or> i \<notin> ro_id ` set (rp_routes (tr_props s)) \<or> i = tr_routeID s then s
      else (followRoute (s\<lparr>tr_routeID := i\<rparr>))\<lparr>tr_token := []\<rparr>)"
| "tester_step s (TokenTyped v) = (if tr_open s then s\<lparr>tr_token := v\<rparr> else s)"
| "tester_step s (MethodChosen v) = (if tr_open s \<and> v \<in> set (allowedMethods s) then s\<lparr>tr_method := v\<rparr> else s)"
| "tester_step s (UrlTyped v) = (if tr_open s then s\<lparr>tr_url := v\<rparr> else s)"
| "tester_step s (HeadersTyped v) = (if tr_open s then s\<lparr>tr_extraHeaders := v\<rparr> else s)"
| "tester_step s (BodyTyped v) = (if tr_open s then s\<lparr>tr_body := v\<rparr> else s)"
| "tester_step s SendPressed =
     (if \<not> tr_open s \<or> tr_running s \<noteq> None \<or> blank (tr_url s) then s else handleTest s)"
| "tester_step s CopyPressed =
     (if tr_open s \<and> buildCurlCommand s \<noteq> [] then s\<lparr>tr_clipboard := Some (buildCurlCommand s)\<rparr> else s)"
| "tester_step s (Tested a) = (if tr_running s = None then s else tested a s)"

text \<open>Mounted: the effects have run.\<close>

definition tester_start :: "tester_props \<Rightarrow> bool \<Rightarrow> string \<Rightarrow> tester" where
  "tester_start p defaultOpen defaultRouteID =
     (followRoute \<lparr>tr_props = p, tr_open = defaultOpen, tr_routeID = defaultRouteID, tr_token = [], tr_method = ''GET'',
       tr_url = [], tr_extraHeaders = [], tr_body = [], tr_result = None, tr_running = None, tr_error = JStr [],
       tr_log = [], tr_clipboard = None\<rparr>)\<lparr>tr_token := []\<rparr>"

section \<open>Runs\<close>

text \<open>The backend is a parameter: the answers it can give to a body.\<close>

definition tester_fresh :: "tester \<Rightarrow> bool" where
  "tester_fresh s \<longleftrightarrow> (\<exists>p d r. s = tester_start p d r)"

definition tester_trans :: "(json \<Rightarrow> test_answer \<Rightarrow> bool) \<Rightarrow> tester \<Rightarrow> tester_event \<Rightarrow> tester \<Rightarrow> bool" where
  "tester_trans answers s e t \<longleftrightarrow> t = tester_step s e
     \<and> (\<forall>a b. e = Tested a \<and> tr_running s = Some b \<longrightarrow> answers b a)"

text \<open>
  \<open>handleRouteTest\<close> of the backend decodes the body strictly and answers 400 to one without a
  \<open>path\<close>.
\<close>

definition requires_path :: "(json \<Rightarrow> test_answer \<Rightarrow> bool) \<Rightarrow> bool" where
  "requires_path answers \<longleftrightarrow> (\<forall>b n r. answers b (TestStatus n r) \<and> ok_status n \<longrightarrow> jprop b ''path'' \<noteq> None)"

lemma followRoute_frame [simp]:
  "tr_props (followRoute s) = tr_props s" "tr_routeID (followRoute s) = tr_routeID s" "tr_open (followRoute s) = tr_open s"
  "tr_result (followRoute s) = tr_result s" "tr_running (followRoute s) = tr_running s" "tr_log (followRoute s) = tr_log s"
  by (simp_all add: followRoute_def split: option.split)

lemma selectedRoute_cong:
  "tr_props s = tr_props t \<Longrightarrow> tr_routeID s = tr_routeID t \<Longrightarrow> selectedRoute s = selectedRoute t"
  by (simp add: selectedRoute_def)

lemma allowedMethods_cong:
  "tr_props s = tr_props t \<Longrightarrow> tr_routeID s = tr_routeID t \<Longrightarrow> allowedMethods s = allowedMethods t"
  by (simp add: allowedMethods_def selectedRoute_def)

definition method_allowed :: "tester \<Rightarrow> bool" where
  "method_allowed s \<longleftrightarrow> selectedRoute s = None \<or> tr_method s \<in> set (allowedMethods s)"

lemma method_allowed_cong:
  "tr_props s = tr_props t \<Longrightarrow> tr_routeID s = tr_routeID t \<Longrightarrow> tr_method s = tr_method t
   \<Longrightarrow> method_allowed s = method_allowed t"
  using selectedRoute_cong [of s t] allowedMethods_cong [of s t] by (simp add: method_allowed_def)

lemma defaultMethod_allowed:
  "selectedRoute s = Some r \<Longrightarrow> defaultMethod r \<in> set (allowedMethods s)"
  by (auto simp: allowedMethods_def defaultMethod_def split: list.split)

lemma followRoute_allowed: "method_allowed (followRoute s)"
proof (cases "selectedRoute s")
  case None
  then show ?thesis using selectedRoute_cong [of "followRoute s" s] by (simp add: method_allowed_def)
next
  case (Some r)
  then have "tr_method (followRoute s) = defaultMethod r" by (simp add: followRoute_def)
  then show ?thesis using defaultMethod_allowed [OF Some] allowedMethods_cong [of "followRoute s" s]
    by (simp add: method_allowed_def)
qed

lemma tested_frame [simp]:
  "tr_props (tested a s) = tr_props s" "tr_routeID (tested a s) = tr_routeID s" "tr_method (tested a s) = tr_method s"
  "tr_log (tested a s) = tr_log s" "tr_running (tested a s) = None"
  by (simp_all add: tested_def Let_def split: test_answer.split)

lemma method_allowed_step: "method_allowed s \<Longrightarrow> method_allowed (tester_step s e)"
proof (cases e)
  case (NewData rs ts)
  then show ?thesis by (simp add: followRoute_allowed)
next
  case (RouteChosen i)
  assume "method_allowed s"
  then show ?thesis
    using followRoute_allowed [of "s\<lparr>tr_routeID := i\<rparr>"]
      method_allowed_cong [of "(followRoute (s\<lparr>tr_routeID := i\<rparr>))\<lparr>tr_token := []\<rparr>" "followRoute (s\<lparr>tr_routeID := i\<rparr>)"]
    by (simp add: RouteChosen)
next
  case (MethodChosen v)
  assume "method_allowed s"
  then show ?thesis
    using allowedMethods_cong [of "s\<lparr>tr_method := v\<rparr>" s] by (simp add: MethodChosen method_allowed_def)
qed (use method_allowed_cong [of "tester_step s e" s] in \<open>simp_all add: handleTest_def\<close>)

text \<open>What is sent has no path; a result comes only from an answer that is \<open>ok\<close>.\<close>

definition pathless :: "tester \<Rightarrow> bool" where
  "pathless s \<longleftrightarrow> tr_result s = None \<and> (\<forall>b. tr_running s = Some b \<longrightarrow> jprop b ''path'' = None)"

lemma pathless_step:
  assumes "pathless s" "\<And>a b. e = Tested a \<Longrightarrow> tr_running s = Some b \<Longrightarrow> answers b a" "requires_path answers"
  shows "pathless (tester_step s e)"
proof (cases e)
  case (Tested a)
  show ?thesis
  proof (cases "tr_running s")
    case (Some b)
    with assms(1) have "jprop b ''path'' = None" by (simp add: pathless_def)
    moreover have "answers b a" using assms(2) Tested Some by simp
    ultimately have "\<forall>n r. a = TestStatus n r \<longrightarrow> \<not> ok_status n"
      using assms(3) unfolding requires_path_def by blast
    then have "tr_result (tested a s) = tr_result s"
      by (cases a) (simp_all add: tested_def Let_def)
    then show ?thesis using assms(1) Some by (simp add: Tested pathless_def)
  qed (use assms(1) in \<open>simp add: Tested\<close>)
qed (use assms(1) in \<open>auto simp: pathless_def handleTest_def test_body_def\<close>)

definition tester_inv :: "tester \<Rightarrow> bool" where
  "tester_inv s \<longleftrightarrow> method_allowed s \<and> pathless s"

lemma method_allowed_start: "method_allowed (tester_start p d r)"
  unfolding tester_start_def by (rule iffD2 [OF method_allowed_cong followRoute_allowed]) simp_all

interpretation tester_method: invariant tester_fresh "tester_trans answers" method_allowed for answers
proof
  show "method_allowed s" if "tester_fresh s" for s
    using that method_allowed_start by (auto simp: tester_fresh_def)
  show "method_allowed t" if "tester_trans answers s e t" "method_allowed s" for s e t
    using that method_allowed_step by (simp add: tester_trans_def)
qed

text \<open>
  The test is sent from a state with no other under way, and with it exactly one request: it has an
  address that is not blank, and, if a route is selected, a method the route allows.
\<close>

theorem tests_are_allowed:
  assumes "reach tester_fresh (tester_trans answers) s" and "tr_log (tester_step s e) \<noteq> tr_log s"
  shows "e = SendPressed \<and> tr_running s = None \<and> (\<exists>url body. tr_log (tester_step s e)
        = tr_log s @ [(''POST'', ''/api/admin/route-test'', body)]
      \<and> jprop body ''url'' = Some (JStr (trim url)) \<and> \<not> blank url
      \<and> jprop body ''method'' = Some (JStr (tr_method s))
      \<and> (selectedRoute s \<noteq> None \<longrightarrow> tr_method s \<in> set (allowedMethods s)))"
proof -
  have e: "e = SendPressed \<and> tr_running s = None \<and> \<not> blank (tr_url s)"
    using assms(2) by (cases e) (auto split: if_splits)
  moreover have "tr_open s" using assms(2) e by (auto split: if_splits)
  moreover have "method_allowed s" by (rule tester_method.reach_inv [OF assms(1)])
  ultimately show ?thesis
    by (intro conjI exI [of _ "tr_url s"] exI [of _ "test_body s"])
       (auto simp: handleTest_def test_body_def method_allowed_def)
qed

text \<open>No test ever has a result: the tester sends \<open>url\<close> where the backend requires \<open>path\<close>, so every
  answer is a refusal.
\<close>

theorem tester_never_has_a_result:
  assumes "requires_path answers" and "reach tester_fresh (tester_trans answers) s"
  shows "tr_result s = None"
proof -
  have "pathless s" using assms(2)
  proof (induction rule: reach.induct)
    case (reach_init s)
    then show ?case by (auto simp: tester_fresh_def tester_start_def pathless_def)
  next
    case (reach_step s e t)
    then show ?case using pathless_step [OF reach_step.IH _ assms(1)] by (auto simp: tester_trans_def)
  qed
  then show ?thesis by (simp add: pathless_def)
qed

text \<open>
  The command shown and the test sent give the same headers: the lines that count, in their order,
  are the options of the command after that of the token, and the test has for every name the value of
  its last line, and the token's where no line names \<open>Authorization\<close>.
\<close>

lemma fold_headers:
  "\<forall>l \<in> set ls. header_of_line l \<noteq> None \<Longrightarrow>
   map_of (fold (\<lambda>l m. case header_of_line l of None \<Rightarrow> m | Some (k, v) \<Rightarrow> obj_set k v m) ls m)
   = map_of m ++ map_of (rev (map (the \<circ> header_of_line) ls))"
proof (induction ls arbitrary: m)
  case (Cons l ls)
  then obtain k v where "header_of_line l = Some (k, v)" by auto
  with Cons show ?case by simp
qed simp

lemma header_lines_count: "l \<in> set (header_lines text) \<Longrightarrow> header_of_line l \<noteq> None"
  by (simp add: header_lines_def split: if_splits)

theorem command_and_test_have_the_same_headers:
  "\<exists>first last. curl_parts s = first # (if tr_token s = [] then [] else [header_option (''Authorization: Bearer '' @ tr_token s)])
        @ map (header_option \<circ> trim) (header_lines (tr_extraHeaders s)) @ last
     \<and> map_of (headerMap s)
        = (if blank (tr_token s) then Map.empty else [''Authorization'' \<mapsto> ''Bearer '' @ trim (tr_token s)])
          ++ map_of (rev (map (the \<circ> header_of_line) (header_lines (tr_extraHeaders s))))"
  by (intro exI conjI)
     (simp add: curl_parts_def, simp add: headerMap_def fold_headers header_lines_count)

text \<open>A refresh of the page puts the route's address and method back, whatever has been typed.\<close>

theorem refresh_overwrites_the_address:
  assumes "find (\<lambda>r. ro_id r = tr_routeID s) rs = Some r"
  shows "tr_url (tester_step s (NewData rs ts)) = effectiveBaseUrl s @ ''/proxy/'' @ ro_slug r
     \<and> tr_method (tester_step s (NewData rs ts)) = defaultMethod r"
  using assms by (simp add: followRoute_def selectedRoute_def effectiveBaseUrl_def)

section \<open>Examples\<close>

definition exTesterProps :: tester_props where
  "exTesterProps = \<lparr>rp_routes = [], rp_tokens = [], rp_backendBaseUrl = ''http://b'', rp_origin = [], rp_null_error = ''null''\<rparr>"

definition refuse_pathless :: "json \<Rightarrow> test_answer \<Rightarrow> bool" where
  "refuse_pathless b a \<longleftrightarrow> a = (if jprop b ''path'' = None then TestStatus 400 (JObj [(''error'', JStr ''path is required'')])
     else TestStatus 200 (JObj []))"

definition exTester :: tester where
  "exTester = tester_step (tester_start exTesterProps True []) (UrlTyped ''u'')"

lemma exTester_reach: "reach tester_fresh (tester_trans answers) exTester"
  unfolding exTester_def
  by (rule reach_step [where e = "UrlTyped ''u''", OF reach_init])
     (auto simp: tester_fresh_def tester_trans_def)

lemma exTester_url: "tr_url exTester = ''u''" "tr_open exTester" "tr_running exTester = None" "\<not> blank ''u''"
proof -
  show "tr_url exTester = ''u''" "tr_open exTester" "tr_running exTester = None"
    by (simp_all add: exTester_def tester_start_def)
  show "\<not> blank ''u''" by code_simp
qed

theorem tests_are_allowed_witness:
  "tr_log exTester = [] \<and> tr_log (tester_step exTester SendPressed) \<noteq> [] \<and> tr_running exTester = None"
proof -
  have log: "tr_log exTester = []" by (simp add: exTester_def tester_start_def)
  have sent: "tr_log (tester_step exTester SendPressed) \<noteq> tr_log exTester"
    using exTester_url by (simp add: handleTest_def)
  have "tr_running exTester = None"
    by (rule tests_are_allowed [OF exTester_reach [of refuse_pathless] sent, THEN conjunct2, THEN conjunct1])
  with log sent show ?thesis by (simp only: log simp_thms)
qed

definition exRefusal :: tester_event where
  "exRefusal = Tested (TestStatus 400 (JObj [(''error'', JStr ''path is required'')]))"

lemma exTester_sent: "tr_running (tester_step exTester SendPressed) = Some (test_body exTester)"
  using exTester_url by (simp add: handleTest_def)

lemma exTester_refused:
  "reach tester_fresh (tester_trans refuse_pathless) (tester_step (tester_step exTester SendPressed) exRefusal)"
proof (rule reach_step [where e = exRefusal])
  show "reach tester_fresh (tester_trans refuse_pathless) (tester_step exTester SendPressed)"
    by (rule reach_step [where e = SendPressed, OF exTester_reach]) (simp add: tester_trans_def)
  have "jprop (test_body exTester) ''path'' = None" by (simp add: test_body_def)
  then show "tester_trans refuse_pathless (tester_step exTester SendPressed) exRefusal
     (tester_step (tester_step exTester SendPressed) exRefusal)"
    unfolding tester_trans_def exTester_sent by (simp add: exRefusal_def refuse_pathless_def del: tester_step.simps)
qed

theorem tester_never_has_a_result_witness:
  "tr_result (tester_step (tester_step exTester SendPressed) exRefusal) = None"
proof (rule tester_never_has_a_result [OF _ exTester_refused])
  show "requires_path refuse_pathless" by (auto simp: requires_path_def refuse_pathless_def ok_status_def split: if_splits)
qed

end
