(* ===== verification/CredentialTools.thy ===== *)
theory CredentialTools
  imports FormsCredentials RowActions
begin

text \<open>
  Issuing many tokens at once, \<open>components/admin/bulk-create-tokens-modal.tsx\<close>, which is a form of
  theory Wizard with a single step, and rotating one, \<open>rotate-token-button.tsx\<close>.
\<close>

section \<open>Many tokens at once\<close>

text \<open>\<open>cf_name\<close> holds \<open>namePrefix\<close>.\<close>

record bulk_fields = credential_fields +
  bf_count :: rat

definition makeDefaultState :: bulk_fields where
  "makeDefaultState = \<lparr>cf_name = [], cf_tenantID = [], cf_scopes = [], cf_expiresAt = [],
     cf_rateLimitRPM = 0, cf_rateLimitBurst = 0, bf_count = 5\<rparr>"

datatype bulk_input = BulkCommon credential_input | InCount string

fun bulk_edit :: "bulk_input \<Rightarrow> bulk_fields \<Rightarrow> bulk_fields" where
  "bulk_edit (BulkCommon e) f = credential_edit e f"
| "bulk_edit (InCount v) f = f\<lparr>bf_count := min 100 (max 1 (number_or v 1))\<rparr>"

definition bulk_canSubmit :: "bulk_fields \<Rightarrow> bool" where
  "bulk_canSubmit f \<longleftrightarrow> \<not> blank (cf_name f) \<and> cf_tenantID f \<noteq> [] \<and> \<not> blank (cf_scopes f)
     \<and> cf_expiresAt f \<noteq> [] \<and> 1 \<le> bf_count f \<and> bf_count f \<le> 100"

definition bulk_payload :: "date_lib \<Rightarrow> bulk_fields \<Rightarrow> json" where
  "bulk_payload D f = json_object
     [(''namePrefix'', Some (JStr (trim (cf_name f)))), (''tenantID'', Some (JStr (cf_tenantID f))),
      (''scopes'', Some (JStr (cf_scopes f))), (''expiresAt'', Some (JStr (toApiExpiry D (cf_expiresAt f)))),
      (''count'', Some (JNum (bf_count f))),
      (''rateLimitRPM'', num_or_undefined (cf_rateLimitRPM f)),
      (''rateLimitBurst'', num_or_undefined (cf_rateLimitBurst f))]"

text \<open>
  The tokens of the answer are kept and counted in the toast. Without a list the handler or the page
  that shows it throws. \<open>md_reload\<close>: closing the modal refreshes the page when there are results.
\<close>

definition bulk_issued :: "json \<Rightarrow> (date_lib, bulk_fields) modal \<Rightarrow> (date_lib, bulk_fields) modal" where
  "bulk_issued result s =
     (case (if result = JNull then None else jprop result ''tokens'') of
        Some (JArr ts) \<Rightarrow>
          emit (Toasted ''Bulk tokens issued'' [JStr (show_nat (length ts) @ '' tokens created'')] ''success'')
            (s\<lparr>md_issued := Some (JArr ts), md_reload := True\<rparr>)
      | _ \<Rightarrow> crash s)"

definition bulkTokens :: "(date_lib, bulk_fields, bulk_input) form" where
  "bulkTokens = \<lparr>fo_fresh = (\<lambda>_. makeDefaultState), fo_last = 0, fo_edit = (\<lambda>e p. bulk_edit e), fo_at = (\<lambda>_. 0),
     fo_next = (\<lambda>p i f. False), fo_submit = (\<lambda>p. bulk_canSubmit),
     fo_request = (\<lambda>D f. (''POST'', ''/api/admin/tokens/bulk'', bulk_payload D f)),
     fo_refused = (\<lambda>r. error_in r ''Bulk token creation failed''),
     fo_accepted = (\<lambda>p f. bulk_issued)\<rparr>"

text \<open>
  The file offered for download, its name and its contents; \<open>None\<close> when nothing has been issued or an
  entry has no token. \<open>date\<close> is today's date.
\<close>

definition download_entry :: "json \<Rightarrow> json option" where
  "download_entry r =
     (case (if r = JNull then None else jprop r ''token'') of
        None \<Rightarrow> None
      | Some JNull \<Rightarrow> None
      | Some t \<Rightarrow> Some (json_object
          [(''name'', jprop t ''name''), (''secret'', jprop r ''secret''), (''preview'', jprop t ''preview''),
           (''tenantID'', jprop t ''tenantID''), (''scopes'', jprop t ''scopes''), (''expiresAt'', jprop t ''expiresAt'')]))"

definition handleDownload :: "string \<Rightarrow> (date_lib, bulk_fields) modal \<Rightarrow> (string \<times> json) option" where
  "handleDownload date s =
     (case md_issued s of
        Some (JArr rs) \<Rightarrow>
          if \<forall>r \<in> set rs. download_entry r \<noteq> None
          then Some (''tokens-'' @ or_str (Some (cf_name (md_fields s))) ''bulk'' @ ''-'' @ date @ ''.json'',
                     JArr (map (the \<circ> download_entry) rs))
          else None
      | _ \<Rightarrow> None)"

text \<open>The number stays within its limits, whatever is typed; it need not be a whole number.\<close>

definition count_good :: "bulk_fields \<Rightarrow> bool" where
  "count_good f \<longleftrightarrow> 1 \<le> bf_count f \<and> bf_count f \<le> 100"

lemma credential_edit_count [simp]: "bf_count (credential_edit e f) = bf_count f"
  by (cases e) simp_all

interpretation bulk_tokens: checked_form bulkTokens "\<lambda>i f. True" count_good
proof unfold_locales
  show "count_good (fo_fresh bulkTokens p)" for p
    by (simp add: bulkTokens_def makeDefaultState_def count_good_def)
  show "count_good (fo_edit bulkTokens e p f)" if "count_good f" for f e p
    using that by (cases e) (auto simp: bulkTokens_def count_good_def)
  show "md_fields (fo_accepted bulkTokens p f r s) = md_fields s" "md_step (fo_accepted bulkTokens p f r s) = md_step s"
    "md_pending (fo_accepted bulkTokens p f r s) = md_pending s" "sent_calls (fo_accepted bulkTokens p f r s) = sent_calls s"
    for p f r s
    by (simp_all add: bulkTokens_def bulk_issued_def split: option.split json.split)
qed simp_all

section \<open>Rotation\<close>

text \<open>\<open>rr_secret\<close> is \<open>newSecret\<close>; the window that shows it is there while it is truthy.\<close>

record rotate_button =
  rr_disabled :: bool
  rr_asking :: bool
  rr_pending :: bool
  rr_secret :: "json option"
  rr_crashed :: bool
  rr_log :: "form_effect list"

definition rotate_start :: "bool \<Rightarrow> rotate_button" where
  "rotate_start d = \<lparr>rr_disabled = d, rr_asking = False, rr_pending = False, rr_secret = None, rr_crashed = False, rr_log = []\<rparr>"

definition handleRotate :: "string \<Rightarrow> rotate_button \<Rightarrow> rotate_button" where
  "handleRotate i s = s\<lparr>rr_pending := True,
     rr_log := rr_log s @ [Sent (''POST'', ''/api/admin/tokens/'' @ i @ ''/rotate'', JNull)]\<rparr>"

text \<open>
  The status is not looked at. What throws inside the transition (a rejected request, a body that does
  not parse, \<open>in\<close> on a value that is no object) reaches the error boundary.
\<close>

definition rotated :: "status_answer \<Rightarrow> rotate_button \<Rightarrow> rotate_button" where
  "rotated a s =
     (let s' = s\<lparr>rr_pending := False\<rparr> in
      case a of
        Rejected \<Rightarrow> s'\<lparr>rr_crashed := True\<rparr>
      | Status n (JObj kvs) \<Rightarrow> (case map_of kvs ''secret'' of None \<Rightarrow> s' | Some v \<Rightarrow> s'\<lparr>rr_secret := Some v\<rparr>)
      | Status n (JArr vs) \<Rightarrow> s'
      | Status n _ \<Rightarrow> s'\<lparr>rr_crashed := True\<rparr>)"

definition closeSecret :: "rotate_button \<Rightarrow> rotate_button" where
  "closeSecret s = s\<lparr>rr_secret := None, rr_log := rr_log s @ [Refreshed]\<rparr>"

datatype rotate_event = RotatePressed | RotateDeclined | RotateConfirmed | Rotated status_answer | SecretClosed | RowDisabled bool

fun rotate_step :: "string \<Rightarrow> rotate_button \<Rightarrow> rotate_event \<Rightarrow> rotate_button" where
  "rotate_step i s RotatePressed = (if rr_crashed s \<or> rr_disabled s \<or> rr_pending s then s else s\<lparr>rr_asking := True\<rparr>)"
| "rotate_step i s RotateDeclined = s\<lparr>rr_asking := False\<rparr>"
| "rotate_step i s RotateConfirmed =
     (if rr_crashed s \<or> \<not> rr_asking s \<or> rr_pending s then s else handleRotate i (s\<lparr>rr_asking := False\<rparr>))"
| "rotate_step i s (Rotated a) = (if rr_pending s \<and> \<not> rr_crashed s then rotated a s else s)"
| "rotate_step i s SecretClosed = (if \<not> rr_crashed s \<and> truthy_json (rr_secret s) then closeSecret s else s)"
| "rotate_step i s (RowDisabled d) = s\<lparr>rr_disabled := d\<rparr>"

definition rotate_fresh :: "rotate_button \<Rightarrow> bool" where
  "rotate_fresh s \<longleftrightarrow> (\<exists>d. s = rotate_start d)"

definition rotate_trans :: "string \<Rightarrow> rotate_button \<Rightarrow> rotate_event \<Rightarrow> rotate_button \<Rightarrow> bool" where
  "rotate_trans i s e t \<longleftrightarrow> t = rotate_step i s e"

section \<open>Properties\<close>

text \<open>Every order of tokens has a prefix, a tenant, scopes and an expiry, and asks for 1 to 100 of them.\<close>

theorem bulk_orders_are_complete:
  assumes "reach (form_init bulkTokens) (form_trans bulkTokens) s" and "c \<in> set (sent_calls s)"
  shows "\<exists>body prefix tid scopes n. c = (''POST'', ''/api/admin/tokens/bulk'', body)
     \<and> jprop body ''namePrefix'' = Some (JStr (trim prefix)) \<and> \<not> blank prefix
     \<and> jprop body ''tenantID'' = Some (JStr tid) \<and> tid \<noteq> []
     \<and> jprop body ''scopes'' = Some (JStr scopes) \<and> \<not> blank scopes
     \<and> (\<exists>D v. jprop body ''expiresAt'' = Some (JStr (toApiExpiry D v)) \<and> v \<noteq> [])
     \<and> jprop body ''count'' = Some (JNum n) \<and> 1 \<le> n \<and> n \<le> 100"
proof -
  obtain p f where c: "c = fo_request bulkTokens p f" and sub: "fo_submit bulkTokens p f"
    by (rule bulk_tokens.sent_checked [OF assms]) blast
  have c': "c = (''POST'', ''/api/admin/tokens/bulk'', bulk_payload p f)" by (simp add: c bulkTokens_def)
  have f: "bulk_canSubmit f" using sub by (simp add: bulkTokens_def)
  show ?thesis
    unfolding c'
    by (rule exI [of _ "bulk_payload p f"], rule exI [of _ "cf_name f"], rule exI [of _ "cf_tenantID f"],
        rule exI [of _ "cf_scopes f"], rule exI [of _ "bf_count f"])
       (use f in \<open>auto simp: bulk_payload_def jprop_json_object bulk_canSubmit_def\<close>)
qed

text \<open>
  The file has the secret of every token issued, in the order of the answer, and nothing of what
  happens to the form before the modal is opened again changes its contents.
\<close>

theorem download_has_every_secret:
  assumes "md_pending s = Some f" and "md_open s" and "\<not> md_crashed s"
    and "jprop result ''tokens'' = Some (JArr rs)"
    and "\<And>r. r \<in> set rs \<Longrightarrow> \<exists>t. jprop r ''token'' = Some (JObj t)"
  shows "\<exists>name entries. handleDownload date (form_step bulkTokens s (Answered (Answer True result))) = Some (name, JArr entries)
     \<and> map (\<lambda>e. jprop e ''secret'') entries = map (\<lambda>r. jprop r ''secret'') rs
     \<and> form_step bulkTokens (form_step bulkTokens s (Answered (Answer True result))) SubmitPressed
       = form_step bulkTokens s (Answered (Answer True result))"
proof -
  let ?s = "form_step bulkTokens s (Answered (Answer True result))"
  have "result \<noteq> JNull" using assms(4) by auto
  with assms(1-4) have issued: "md_issued ?s = Some (JArr rs)" and open': "md_open ?s"
    by (simp_all add: bulkTokens_def submitted_def bulk_issued_def emit_def)
  have entry: "\<exists>t. download_entry r = Some (json_object
      [(''name'', jprop t ''name''), (''secret'', jprop r ''secret''), (''preview'', jprop t ''preview''),
       (''tenantID'', jprop t ''tenantID''), (''scopes'', jprop t ''scopes''), (''expiresAt'', jprop t ''expiresAt'')])"
    if r: "r \<in> set rs" for r
  proof -
    obtain t where t: "jprop r ''token'' = Some (JObj t)" using assms(5) [OF r] by blast
    then have "r \<noteq> JNull" by auto
    with t show ?thesis by (intro exI [of _ "JObj t"]) (simp add: download_entry_def)
  qed
  then have all: "\<forall>r \<in> set rs. download_entry r \<noteq> None" by blast
  have secret: "jprop (the (download_entry r)) ''secret'' = jprop r ''secret''" if "r \<in> set rs" for r
    using entry [OF that] by (auto simp: jprop_json_object split: option.splits)
  have "map (\<lambda>e. jprop e ''secret'') (map (the \<circ> download_entry) rs) = map (\<lambda>r. jprop r ''secret'') rs"
    using secret by simp
  moreover have "form_step bulkTokens ?s SubmitPressed = ?s" using issued by simp
  ultimately show ?thesis using issued all by (auto simp: handleDownload_def)
qed

text \<open>A fraction is accepted as a number of tokens.\<close>

theorem fractional_counts_are_accepted:
  assumes "bulk_canSubmit f"
  shows "bulk_canSubmit (bulk_edit (InCount ''2.5'') f)
     \<and> jprop (bulk_payload D (bulk_edit (InCount ''2.5'') f)) ''count'' = Some (JNum (5 / 2))"
proof -
  have "js_Number ''2.5'' = Some (5 / 2)" by code_simp
  then have "number_or ''2.5'' 1 = 5 / 2" by (simp add: number_or_def)
  then show ?thesis using assms by (simp add: bulk_canSubmit_def bulk_payload_def jprop_json_object)
qed

text \<open>
  A token is rotated only when its question is confirmed, once at a time, and a secret that has
  come leaves the screen only when its window is closed, with which the page is refreshed, or
  when a further rotation replaces it.
\<close>

definition rotate_inv :: "string \<Rightarrow> rotate_button \<Rightarrow> bool" where
  "rotate_inv i s \<longleftrightarrow> (\<forall>c. Sent c \<in> set (rr_log s) \<longrightarrow> c = (''POST'', ''/api/admin/tokens/'' @ i @ ''/rotate'', JNull))"

lemma rotated_log [simp]: "rr_log (rotated a s) = rr_log s"
  by (simp add: rotated_def Let_def split: status_answer.split json.split option.split)

lemma rotate_inv_step: "rotate_inv i s \<Longrightarrow> rotate_inv i (rotate_step i s e)"
  by (cases e) (auto simp: rotate_inv_def handleRotate_def closeSecret_def)

interpretation rotation: invariant rotate_fresh "rotate_trans i" "rotate_inv i" for i
proof
  show "rotate_inv i s" if "rotate_fresh s" for s
    using that by (auto simp: rotate_fresh_def rotate_start_def rotate_inv_def)
  show "rotate_inv i t" if "rotate_trans i s e t" "rotate_inv i s" for s e t
    using that rotate_inv_step by (simp add: rotate_trans_def)
qed

lemma rotated_secret: "rr_secret (rotated a s) = rr_secret s \<or> rr_secret (rotated a s) \<noteq> None"
  by (simp add: rotated_def Let_def split: status_answer.split json.split option.split)

theorem rotation_is_confirmed_and_shown:
  assumes "reach rotate_fresh (rotate_trans i) s"
  shows "(rr_log (rotate_step i s e) = rr_log s
       \<or> e = RotateConfirmed \<and> rr_asking s \<and> \<not> rr_pending s
         \<and> rr_log (rotate_step i s e) = rr_log s @ [Sent (''POST'', ''/api/admin/tokens/'' @ i @ ''/rotate'', JNull)]
       \<or> e = SecretClosed \<and> rr_log (rotate_step i s e) = rr_log s @ [Refreshed] \<and> rr_secret (rotate_step i s e) = None)
     \<and> (rr_secret (rotate_step i s e) = rr_secret s
       \<or> e = SecretClosed \<and> truthy_json (rr_secret s)
       \<or> rr_pending s \<and> (\<exists>a. e = Rotated a) \<and> rr_secret (rotate_step i s e) \<noteq> None)
     \<and> (\<forall>c. Sent c \<in> set (rr_log s) \<longrightarrow> c = (''POST'', ''/api/admin/tokens/'' @ i @ ''/rotate'', JNull))"
proof (intro conjI)
  show "\<forall>c. Sent c \<in> set (rr_log s) \<longrightarrow> c = (''POST'', ''/api/admin/tokens/'' @ i @ ''/rotate'', JNull)"
    using rotation.reach_inv [OF assms] by (simp add: rotate_inv_def)
  show "rr_log (rotate_step i s e) = rr_log s
       \<or> e = RotateConfirmed \<and> rr_asking s \<and> \<not> rr_pending s
         \<and> rr_log (rotate_step i s e) = rr_log s @ [Sent (''POST'', ''/api/admin/tokens/'' @ i @ ''/rotate'', JNull)]
       \<or> e = SecretClosed \<and> rr_log (rotate_step i s e) = rr_log s @ [Refreshed] \<and> rr_secret (rotate_step i s e) = None"
    by (cases e) (simp_all add: handleRotate_def closeSecret_def)
  show "rr_secret (rotate_step i s e) = rr_secret s
       \<or> e = SecretClosed \<and> truthy_json (rr_secret s)
       \<or> rr_pending s \<and> (\<exists>a. e = Rotated a) \<and> rr_secret (rotate_step i s e) \<noteq> None"
  proof (cases e)
    case (Rotated a)
    then show ?thesis using rotated_secret [of a s] by simp
  qed (simp_all add: handleRotate_def)
qed

text \<open>A rotation that is refused leaves no trace: no message, no refresh, no secret.\<close>

theorem refused_rotation_is_silent:
  assumes "rr_pending s" "\<not> rr_crashed s"
  shows "rotate_step i s (Rotated (Status n (JObj [(''error'', JStr m)]))) = s\<lparr>rr_pending := False\<rparr>"
  using assms by (simp add: rotated_def)

section \<open>Examples\<close>

definition exBulk :: bulk_fields where
  "exBulk = \<lparr>cf_name = ''a'', cf_tenantID = ''t'', cf_scopes = ''s'', cf_expiresAt = ''x'',
     cf_rateLimitRPM = 0, cf_rateLimitBurst = 0, bf_count = 5\<rparr>"

definition exBulkRun :: "(date_lib, bulk_fields) modal" where
  "exBulkRun = form_run bulkTokens (form_start bulkTokens exDates)
     [TriggerPressed, Edited (BulkCommon (InName ''a'')), Edited (BulkCommon (InTenantID ''t'')),
      Edited (BulkCommon (InScopes ''s'')), Edited (BulkCommon (InExpiresAt ''x'')), SubmitPressed]"

lemma exBulk_ready: "bulk_canSubmit exBulk"
proof -
  have "\<not> blank ''a''" "\<not> blank ''s''" by code_simp+
  then show ?thesis by (simp add: bulk_canSubmit_def exBulk_def)
qed

lemma exBulkRun_sent: "sent_calls exBulkRun \<noteq> []" "md_pending exBulkRun = Some exBulk" "md_open exBulkRun" "\<not> md_crashed exBulkRun"
proof -
  have b: "\<not> blank ''a''" "\<not> blank ''s''" by code_simp+
  show "sent_calls exBulkRun \<noteq> []" "md_pending exBulkRun = Some exBulk" "md_open exBulkRun" "\<not> md_crashed exBulkRun"
    using b by (simp_all add: exBulkRun_def exBulk_def bulkTokens_def form_start_def makeDefaultState_def handleOpenChange_def
        handleSubmit_def emit_def bulk_canSubmit_def sent_calls_def)
qed

theorem bulk_orders_are_complete_witness:
  "\<exists>c \<in> set (sent_calls exBulkRun). \<exists>n. jprop (snd (snd c)) ''count'' = Some (JNum n) \<and> 1 \<le> n \<and> n \<le> 100"
proof -
  obtain c where c: "c \<in> set (sent_calls exBulkRun)"
    using exBulkRun_sent(1) by (cases "sent_calls exBulkRun") auto
  have "reach (form_init bulkTokens) (form_trans bulkTokens) exBulkRun"
    unfolding exBulkRun_def by (rule form_run_reach) (rule form_start_reach)
  from bulk_orders_are_complete [OF this c] obtain body n where
    "c = (''POST'', ''/api/admin/tokens/bulk'', body)" "jprop body ''count'' = Some (JNum n)" "1 \<le> n" "n \<le> 100"
    by blast
  with c show ?thesis by (metis snd_conv)
qed

definition exBulkAnswer :: json where
  "exBulkAnswer = JObj [(''tokens'', JArr [JObj [(''token'', JObj [(''name'', JStr ''a-1'')]), (''secret'', JStr ''s1'')]])]"

theorem download_has_every_secret_witness:
  "\<exists>name entries. handleDownload ''2024-01-01'' (form_step bulkTokens exBulkRun (Answered (Answer True exBulkAnswer))) = Some (name, JArr entries)
     \<and> map (\<lambda>e. jprop e ''secret'') entries = [Some (JStr ''s1'')]"
proof -
  have rs: "jprop exBulkAnswer ''tokens'' = Some (JArr [JObj [(''token'', JObj [(''name'', JStr ''a-1'')]), (''secret'', JStr ''s1'')]])"
    by (simp add: exBulkAnswer_def)
  from download_has_every_secret [OF exBulkRun_sent(2-4) rs, of "''2024-01-01''"] show ?thesis by auto
qed

theorem rotation_is_confirmed_and_shown_witness:
  "rr_log (rotate_step ''t'' (rotate_start False) RotatePressed) = []
   \<and> rr_secret (rotate_step ''t'' (rotate_start False) RotatePressed) = None"
proof -
  have r: "reach rotate_fresh (rotate_trans ''t'') (rotate_start False)" by (rule reach_init) (auto simp: rotate_fresh_def)
  show ?thesis using rotation_is_confirmed_and_shown [OF r, of RotatePressed] by (simp add: rotate_start_def)
qed

end
