(* ===== verification/ConfigTransfer.thy ===== *)
theory ConfigTransfer
  imports RowActions
begin

text \<open>
  Export and import of an organisation's configuration, \<open>components/admin/org-config-export-import.tsx\<close>:
  a download named by the answer's header, and a file that is read, shown and sent on.
\<close>

section \<open>The name of the download\<close>

text \<open>
  \<open>disposition.match(/filename="?([^";\n]+)"?/)\<close>: the first place at which the pattern matches.
\<close>

definition name_char :: "char \<Rightarrow> bool" where
  "name_char c \<longleftrightarrow> c \<noteq> CHR 0x22 \<and> c \<noteq> CHR '';'' \<and> c \<noteq> CHR ''\<newline>''"

definition filename_here :: "string \<Rightarrow> string option" where
  "filename_here s =
     (if starts_with ''filename='' s
      then let r = drop 9 s;
               n = takeWhile name_char (if r \<noteq> [] \<and> hd r = CHR 0x22 then tl r else r)
           in if n = [] then None else Some n
      else None)"

fun filename_in :: "string \<Rightarrow> string option" where
  "filename_in [] = None"
| "filename_in (c # s) = (case filename_here (c # s) of Some n \<Rightarrow> Some n | None \<Rightarrow> filename_in s)"

definition download_name :: "int \<Rightarrow> string option \<Rightarrow> string" where
  "download_name now disposition =
     nullish (filename_in (nullish disposition [])) (''justgate-config-'' @ show_int now @ ''.json'')"

section \<open>State\<close>

text \<open>
  \<open>ct_readers\<close>: the files being read, \<open>ct_importing\<close>: the body of the import under way,
  \<open>ct_downloads\<close>: the names of the files saved.
\<close>

record transfer =
  ct_exportError :: "json option"
  ct_exporting :: bool
  ct_downloads :: "string list"
  ct_file :: "string option"
  ct_preview :: "json option"
  ct_previewError :: "string option"
  ct_result :: "json option"
  ct_importError :: "json option"
  ct_importing :: "json option"
  ct_readers :: "string list"
  ct_crashed :: bool
  ct_log :: "form_effect list"

definition transfer_start :: transfer where
  "transfer_start = \<lparr>ct_exportError = None, ct_exporting = False, ct_downloads = [], ct_file = None, ct_preview = None,
     ct_previewError = None, ct_result = None, ct_importError = None, ct_importing = None, ct_readers = [],
     ct_crashed = False, ct_log = []\<rparr>"

text \<open>\<open>body.error ?? message\<close>; on \<open>null\<close> it throws.\<close>

definition error_or_status :: "json \<Rightarrow> string \<Rightarrow> int \<Rightarrow> json option" where
  "error_or_status body what n =
     (if body = JNull then None
      else Some (case jprop body ''error'' of
          Some v \<Rightarrow> if v = JNull then JStr (what @ '' failed ('' @ show_int n @ '')'') else v
        | None \<Rightarrow> JStr (what @ '' failed ('' @ show_int n @ '')'')))"

section \<open>Export\<close>

definition handleExport :: "transfer \<Rightarrow> transfer" where
  "handleExport s = s\<lparr>ct_exportError := None, ct_exporting := True,
     ct_log := ct_log s @ [Sent (''GET'', ''/api/admin/export'', JNull)]\<rparr>"

text \<open>
  The answer: the status, the body (an empty object when it does not parse), the header
  \<open>content-disposition\<close> and the time of the download.
\<close>

datatype export_answer = ExportThrew | Exported int json "string option" int

definition exported :: "export_answer \<Rightarrow> transfer \<Rightarrow> transfer" where
  "exported a s =
     (let s' = s\<lparr>ct_exporting := False\<rparr>;
          failed = s'\<lparr>ct_exportError := Some (JStr ''Unexpected error during export.'')\<rparr> in
      case a of
        ExportThrew \<Rightarrow> failed
      | Exported n body disposition now \<Rightarrow>
          if ok_status n then s'\<lparr>ct_downloads := ct_downloads s @ [download_name now disposition]\<rparr>
          else (case error_or_status body ''Export'' n of None \<Rightarrow> failed | Some e \<Rightarrow> s'\<lparr>ct_exportError := Some e\<rparr>))"

section \<open>Import\<close>

definition clear_import :: "string option \<Rightarrow> transfer \<Rightarrow> transfer" where
  "clear_import f s = s\<lparr>ct_preview := None, ct_previewError := None, ct_result := None, ct_importError := None,
     ct_file := f\<rparr>"

definition handleFileChange :: "string option \<Rightarrow> transfer \<Rightarrow> transfer" where
  "handleFileChange f s =
     (let s' = clear_import f s in
      case f of None \<Rightarrow> s' | Some n \<Rightarrow> s'\<lparr>ct_readers := ct_readers s @ [n]\<rparr>)"

text \<open>A list shown whose entries are read; an entry that is \<open>null\<close> makes the page throw.\<close>

fun readable :: "json option \<Rightarrow> bool" where
  "readable (Some (JArr vs)) = (JNull \<notin> set vs)"
| "readable _ = True"

fun is_array :: "json option \<Rightarrow> bool" where
  "is_array (Some (JArr vs)) = True"
| "is_array _ = False"

text \<open>\<open>reader.onload\<close>; \<open>None\<close>: the text is no JSON.\<close>

definition file_loaded :: "string \<Rightarrow> json option \<Rightarrow> transfer \<Rightarrow> transfer" where
  "file_loaded n content s =
     (let s' = s\<lparr>ct_readers := remove1 n (ct_readers s)\<rparr> in
      case content of
        None \<Rightarrow> s'\<lparr>ct_previewError := Some ''Could not parse file as JSON.''\<rparr>
      | Some v \<Rightarrow>
          if v = JNull then s'\<lparr>ct_previewError := Some ''Could not parse file as JSON.''\<rparr>
          else if \<not> is_array (jprop v ''tenants'') \<or> \<not> is_array (jprop v ''routes'')
          then s'\<lparr>ct_previewError := Some ''Invalid config file: missing tenants or routes arrays.''\<rparr>
          else s'\<lparr>ct_preview := Some v,
                  ct_crashed := \<not> (readable (jprop v ''tenants'') \<and> readable (jprop v ''routes''))\<rparr>)"

definition import_body :: "json \<Rightarrow> json" where
  "import_body v = json_object [(''tenants'', jprop v ''tenants''), (''routes'', jprop v ''routes'')]"

definition handleImport :: "json \<Rightarrow> transfer \<Rightarrow> transfer" where
  "handleImport v s = s\<lparr>ct_importError := None, ct_result := None, ct_importing := Some (import_body v),
     ct_log := ct_log s @ [Sent (''POST'', ''/api/admin/import'', import_body v)]\<rparr>"

datatype import_answer = ImportThrew | Imported int json

text \<open>The summary reads \<open>importResult.errors.length\<close>, and maps over the errors if there are any.\<close>

definition summary_shown :: "json \<Rightarrow> bool" where
  "summary_shown r =
     (case r of
        JObj kvs \<Rightarrow> (case map_of kvs ''errors'' of
            None \<Rightarrow> False | Some JNull \<Rightarrow> False | Some (JStr t) \<Rightarrow> t = [] | Some _ \<Rightarrow> True)
      | v \<Rightarrow> \<not> truthy_json (Some v))"

definition imported :: "import_answer \<Rightarrow> transfer \<Rightarrow> transfer" where
  "imported a s =
     (let s' = s\<lparr>ct_importing := None\<rparr>;
          failed = s'\<lparr>ct_importError := Some (JStr ''Unexpected error during import.'')\<rparr> in
      case a of
        ImportThrew \<Rightarrow> failed
      | Imported n body \<Rightarrow>
          if ok_status n then s'\<lparr>ct_result := (if body = JNull then None else Some body), ct_preview := None,
                                  ct_file := None, ct_crashed := \<not> summary_shown body,
                                  ct_log := ct_log s @ [Refreshed]\<rparr>
          else (case error_or_status body ''Import'' n of None \<Rightarrow> failed | Some e \<Rightarrow> s'\<lparr>ct_importError := Some e\<rparr>))"

section \<open>Steps\<close>

datatype transfer_event =
    ExportPressed | ExportAnswered export_answer
  | FileChosen "string option" | FileRead string "json option" | FileUnreadable string
  | ClearImport | ImportPressed | ImportAnswered import_answer

fun transfer_step :: "transfer \<Rightarrow> transfer_event \<Rightarrow> transfer" where
  "transfer_step s ExportPressed = (if ct_crashed s \<or> ct_exporting s then s else handleExport s)"
| "transfer_step s (ExportAnswered a) = (if ct_crashed s \<or> \<not> ct_exporting s then s else exported a s)"
| "transfer_step s (FileChosen f) = (if ct_crashed s then s else handleFileChange f s)"
| "transfer_step s (FileRead n c) = (if ct_crashed s \<or> n \<notin> set (ct_readers s) then s else file_loaded n c s)"
| "transfer_step s (FileUnreadable n) = s\<lparr>ct_readers := remove1 n (ct_readers s)\<rparr>"
| "transfer_step s ClearImport = (if ct_crashed s \<or> ct_file s = None then s else clear_import None s)"
| "transfer_step s ImportPressed =
     (case ct_preview s of
        None \<Rightarrow> s
      | Some v \<Rightarrow> if ct_crashed s \<or> ct_importing s \<noteq> None then s else handleImport v s)"
| "transfer_step s (ImportAnswered a) = (if ct_crashed s \<or> ct_importing s = None then s else imported a s)"

text \<open>\<open>answers\<close>: what the backend can answer to the body of an import; \<open>files\<close>: what the files contain.\<close>

definition transfer_fresh :: "transfer \<Rightarrow> bool" where
  "transfer_fresh s \<longleftrightarrow> s = transfer_start"

definition transfer_trans ::
  "(json \<Rightarrow> bool) \<Rightarrow> (json \<Rightarrow> import_answer \<Rightarrow> bool) \<Rightarrow> transfer \<Rightarrow> transfer_event \<Rightarrow> transfer \<Rightarrow> bool" where
  "transfer_trans files answers s e t \<longleftrightarrow> t = transfer_step s e
     \<and> (\<forall>n v. e = FileRead n (Some v) \<longrightarrow> files v)
     \<and> (\<forall>a b. e = ImportAnswered a \<and> ct_importing s = Some b \<longrightarrow> answers b a)"

section \<open>What is imported\<close>

text \<open>The body carries the two lists of the file as they are.\<close>

definition config_lists :: "json \<Rightarrow> (json list \<times> json list) option" where
  "config_lists v = (case (jprop v ''tenants'', jprop v ''routes'') of
     (Some (JArr ts), Some (JArr rs)) \<Rightarrow> Some (ts, rs) | _ \<Rightarrow> None)"

lemma arrays_config_lists:
  "is_array (jprop v ''tenants'') \<Longrightarrow> is_array (jprop v ''routes'') \<Longrightarrow> \<exists>ts rs. config_lists v = Some (ts, rs)"
  by (cases "jprop v ''tenants''" rule: is_array.cases; cases "jprop v ''routes''" rule: is_array.cases)
     (auto simp: config_lists_def)

lemma config_lists_body: "config_lists v = Some p \<Longrightarrow> config_lists (import_body v) = Some p"
  by (auto simp: config_lists_def import_body_def jprop_json_object split: option.splits json.splits)

definition transfer_inv :: "(json \<Rightarrow> bool) \<Rightarrow> transfer \<Rightarrow> bool" where
  "transfer_inv files s \<longleftrightarrow>
     (\<forall>v. ct_preview s = Some v \<longrightarrow> files v \<and> config_lists v \<noteq> None)
   \<and> (\<forall>b. ct_importing s = Some b \<longrightarrow> (\<exists>v. files v \<and> config_lists v \<noteq> None \<and> b = import_body v))"

lemma transfer_inv_step:
  assumes "transfer_inv files s" "\<And>n v. e = FileRead n (Some v) \<Longrightarrow> files v"
  shows "transfer_inv files (transfer_step s e)"
proof (cases e)
  case (ExportAnswered a)
  with assms(1) show ?thesis
    by (cases a) (auto simp: transfer_inv_def exported_def Let_def split: option.split)
next
  case (FileChosen f)
  with assms(1) show ?thesis
    by (auto simp: transfer_inv_def handleFileChange_def clear_import_def Let_def split: option.split)
next
  case (FileRead n c)
  show ?thesis
  proof (cases c)
    case None
    with assms(1) FileRead show ?thesis by (simp add: transfer_inv_def file_loaded_def)
  next
    case (Some v)
    with FileRead assms(2) have "files v" by blast
    moreover have "config_lists v \<noteq> None" if "is_array (jprop v ''tenants'')" "is_array (jprop v ''routes'')"
      using arrays_config_lists [OF that] by auto
    ultimately show ?thesis using assms(1) FileRead Some by (simp add: transfer_inv_def file_loaded_def Let_def)
  qed
next
  case ImportPressed
  with assms(1) show ?thesis by (auto simp: transfer_inv_def handleImport_def split: option.split)
next
  case (ImportAnswered a)
  with assms(1) show ?thesis
    by (cases a) (auto simp: transfer_inv_def imported_def Let_def split: option.split)
qed (use assms(1) in \<open>auto simp: transfer_inv_def handleExport_def clear_import_def\<close>)

interpretation transfer: invariant transfer_fresh "transfer_trans files answers" "transfer_inv files" for files answers
proof
  show "transfer_inv files s" if "transfer_fresh s" for s
    using that by (simp add: transfer_fresh_def transfer_start_def transfer_inv_def)
  show "transfer_inv files t" if "transfer_trans files answers s e t" "transfer_inv files s" for s e t
    using that transfer_inv_step [of files s e] by (auto simp: transfer_trans_def)
qed

lemma exported_log [simp]: "ct_log (exported a s) = ct_log s"
  by (cases a) (simp_all add: exported_def Let_def split: option.split)

lemma imported_log: "ct_log (imported a s) = ct_log s \<or> ct_log (imported a s) = ct_log s @ [Refreshed]"
  by (cases a) (simp_all add: imported_def Let_def split: option.split)

lemma file_loaded_log [simp]: "ct_log (file_loaded n c s) = ct_log s"
  by (simp add: file_loaded_def Let_def split: option.split)

lemma log_step:
  "ct_log (transfer_step s e) = ct_log s \<or> ct_log (transfer_step s e) = ct_log s @ [Refreshed]
   \<or> ct_log (transfer_step s e) = ct_log s @ [Sent (''GET'', ''/api/admin/export'', JNull)]
   \<or> e = ImportPressed \<and> ct_importing s = None \<and> (\<exists>v. ct_preview s = Some v
        \<and> ct_log (transfer_step s e) = ct_log s @ [Sent (''POST'', ''/api/admin/import'', import_body v)])"
proof (cases e)
  case (FileChosen f)
  then show ?thesis by (cases f) (simp_all add: handleFileChange_def clear_import_def)
next
  case ImportPressed
  then show ?thesis by (cases "ct_preview s") (simp_all add: handleImport_def)
next
  case (ImportAnswered a)
  then show ?thesis using imported_log [of a s] by (cases "ct_crashed s \<or> ct_importing s = None") auto
qed (simp_all add: handleExport_def clear_import_def)

text \<open>C36: Nothing is imported but what a file has: an import is sent only when it is confirmed and no other
  runs, and its body has the lists of tenants and of routes of a file that has been read, entry by
  entry as they are there.
\<close>

theorem imports_are_what_the_file_has:
  assumes "reach transfer_fresh (transfer_trans files answers) s"
    and "ct_log (transfer_step s e) = ct_log s @ [Sent (''POST'', ''/api/admin/import'', body)]"
  shows "e = ImportPressed \<and> ct_importing s = None
     \<and> (\<exists>v ts rs. files v \<and> ct_preview s = Some v \<and> config_lists v = Some (ts, rs) \<and> config_lists body = Some (ts, rs))"
proof -
  have e: "e = ImportPressed \<and> ct_importing s = None \<and> (\<exists>v. ct_preview s = Some v \<and> body = import_body v)"
    using log_step [of s e] unfolding assms(2) by simp
  then obtain v where v: "ct_preview s = Some v" "body = import_body v" by blast
  have "transfer_inv files s" by (rule transfer.reach_inv [OF assms(1)])
  with v obtain ts rs where f: "files v" "config_lists v = Some (ts, rs)" by (auto simp: transfer_inv_def)
  have "config_lists body = Some (ts, rs)" unfolding v(2) by (rule config_lists_body [OF f(2)])
  with f v(1) have "\<exists>v ts rs. files v \<and> ct_preview s = Some v \<and> config_lists v = Some (ts, rs)
      \<and> config_lists body = Some (ts, rs)" by blast
  then show ?thesis using e by (intro conjI) (elim conjE, assumption)+
qed

text \<open>
  The backend decodes an import strictly: a tenant with a field it does not know, such as the \<open>id\<close> that
  every exported tenant has, makes it refuse the whole body.
\<close>

definition strict_import :: "(json \<Rightarrow> import_answer \<Rightarrow> bool) \<Rightarrow> bool" where
  "strict_import answers \<longleftrightarrow> (\<forall>b n r ts rs. answers b (Imported n r) \<and> ok_status n \<and> config_lists b = Some (ts, rs)
     \<longrightarrow> (\<forall>t \<in> set ts. jprop t ''id'' = None))"

lemma strict_importD:
  "strict_import answers \<Longrightarrow> answers b (Imported n r) \<Longrightarrow> config_lists b = Some (ts, rs)
   \<Longrightarrow> \<exists>t \<in> set ts. jprop t ''id'' \<noteq> None \<Longrightarrow> \<not> ok_status n"
  unfolding strict_import_def by metis

definition from_export :: "json \<Rightarrow> bool" where
  "from_export v \<longleftrightarrow> (\<forall>ts rs. config_lists v = Some (ts, rs) \<longrightarrow> (\<exists>t \<in> set ts. jprop t ''id'' \<noteq> None))"

text \<open>An exported configuration with a tenant is never imported: no import ends with a result.\<close>

theorem exported_configurations_are_refused:
  assumes "strict_import answers" and "reach transfer_fresh (transfer_trans from_export answers) s"
  shows "ct_result s = None"
  using assms(2)
proof (induction rule: reach.induct)
  case (reach_init s)
  then show ?case by (simp add: transfer_fresh_def transfer_start_def)
next
  case (reach_step s e t)
  have inv: "transfer_inv from_export s" by (rule transfer.reach_inv [OF reach_step.hyps(1)])
  have t: "t = transfer_step s e" using reach_step.hyps(2) by (simp add: transfer_trans_def)
  show ?case
  proof (cases e)
    case (ImportAnswered a)
    show ?thesis
    proof (cases "ct_importing s")
      case None
      with t ImportAnswered reach_step.IH show ?thesis by simp
    next
      case (Some b)
      have ab: "answers b a" using reach_step.hyps(2) ImportAnswered Some by (simp add: transfer_trans_def)
      obtain v ts rs where v: "from_export v" "config_lists v = Some (ts, rs)" "b = import_body v"
        using inv Some by (auto simp: transfer_inv_def)
      then have "config_lists b = Some (ts, rs)" "\<exists>t \<in> set ts. jprop t ''id'' \<noteq> None"
        using config_lists_body by (auto simp: from_export_def)
      with assms(1) ab have "\<And>n r. a = Imported n r \<Longrightarrow> \<not> ok_status n" using strict_importD by blast
      then have "ct_result (imported a s) = ct_result s"
        by (cases a) (simp_all add: imported_def Let_def split: option.split)
      with t ImportAnswered reach_step.IH show ?thesis by simp
    qed
  next
    case (FileRead n c)
    have "ct_result (file_loaded n c s) = ct_result s" by (simp add: file_loaded_def Let_def split: option.split)
    with t FileRead reach_step.IH show ?thesis by simp
  next
    case (ExportAnswered a)
    have "ct_result (exported a s) = ct_result s"
      by (cases a) (simp_all add: exported_def Let_def split: option.split)
    with t ExportAnswered reach_step.IH show ?thesis by simp
  qed (use t reach_step.IH in \<open>auto simp: handleExport_def handleImport_def handleFileChange_def clear_import_def Let_def
        split: option.splits\<close>)
qed

text \<open>
  An import without any error is answered with \<open>errors: null\<close> (the list is never made), and its
  summary makes the page throw.
\<close>

theorem import_without_errors_breaks_the_page:
  assumes "ct_importing s \<noteq> None" "\<not> ct_crashed s" "ok_status n" "map_of kvs ''errors'' = Some JNull"
  shows "ct_crashed (transfer_step s (ImportAnswered (Imported n (JObj kvs))))"
  using assms by (simp add: imported_def summary_shown_def)

text \<open>A file that is read late is shown, and imported, under the name of the one chosen after it.\<close>

theorem overtaken_file_is_imported:
  assumes "config_lists v = Some (ts, rs)" "config_lists w = Some (ts', rs')" "JNull \<notin> set (ts @ rs @ ts' @ rs')" "n \<noteq> m"
  shows "(let s = foldl transfer_step transfer_start
            [FileChosen (Some n), FileChosen (Some m), FileRead m (Some w), FileRead n (Some v), ImportPressed]
          in ct_file s = Some m \<and> ct_log s = [Sent (''POST'', ''/api/admin/import'', import_body v)])"
proof -
  have v: "jprop v ''tenants'' = Some (JArr ts)" "jprop v ''routes'' = Some (JArr rs)" "v \<noteq> JNull"
    using assms(1) by (auto simp: config_lists_def split: option.splits json.splits)
  have w: "jprop w ''tenants'' = Some (JArr ts')" "jprop w ''routes'' = Some (JArr rs')" "w \<noteq> JNull"
    using assms(2) by (auto simp: config_lists_def split: option.splits json.splits)
  show ?thesis
    using assms(3,4) v w
    by (simp add: transfer_start_def handleFileChange_def clear_import_def file_loaded_def handleImport_def Let_def)
qed

text \<open>The name the backend gives is the name of the download.\<close>

lemma takeWhile_names: "list_all name_char n \<Longrightarrow> \<not> name_char c \<Longrightarrow> takeWhile name_char (n @ c # s) = n"
  by (induction n) auto

lemma filename_here_quoted:
  "n \<noteq> [] \<Longrightarrow> list_all name_char n \<Longrightarrow> filename_here (''filename='' @ CHR 0x22 # n @ CHR 0x22 # s) = Some n"
  by (simp add: filename_here_def takeWhile_names name_char_def starts_with_def)

lemma filename_skip: "\<not> starts_with ''filename='' (c # s) \<Longrightarrow> filename_in (c # s) = filename_in s"
  by (simp add: filename_here_def)

theorem download_has_the_given_name:
  assumes "n \<noteq> []" and "list_all name_char n"
  shows "download_name now (Some (''attachment; filename='' @ CHR 0x22 # n @ [CHR 0x22])) = n"
proof -
  have "filename_in (''filename='' @ CHR 0x22 # n @ [CHR 0x22]) = Some n"
    using filename_here_quoted [OF assms, of "[]"] by simp
  then have "filename_in (''attachment; filename='' @ CHR 0x22 # n @ [CHR 0x22]) = Some n"
    by (simp add: filename_skip starts_with_def del: filename_in.simps)
  then show ?thesis by (simp add: download_name_def)
qed

section \<open>Examples\<close>

definition exConfig :: json where
  "exConfig = JObj [(''tenants'', JArr [JObj [(''id'', JStr ''t1'')]]), (''routes'', JArr [])]"

definition strict_answer :: "json \<Rightarrow> import_answer \<Rightarrow> bool" where
  "strict_answer b a \<longleftrightarrow> a = (case config_lists b of
     Some (ts, rs) \<Rightarrow> if \<exists>t \<in> set ts. jprop t ''id'' \<noteq> None then Imported 400 (JObj []) else Imported 200 (JObj [])
   | None \<Rightarrow> Imported 400 (JObj []))"

definition exTransfer :: transfer where
  "exTransfer = foldl transfer_step transfer_start [FileChosen (Some ''a''), FileRead ''a'' (Some exConfig)]"

lemma exConfig_lists: "config_lists exConfig = Some ([JObj [(''id'', JStr ''t1'')]], [])"
  by (simp add: exConfig_def config_lists_def)

lemma exTransfer_reach: "reach transfer_fresh (transfer_trans from_export answers) exTransfer"
proof -
  have f: "from_export exConfig" by (simp add: from_export_def exConfig_lists)
  have 1: "reach transfer_fresh (transfer_trans from_export answers) (transfer_step transfer_start (FileChosen (Some ''a'')))"
    by (rule reach_step [where e = "FileChosen (Some ''a'')", OF reach_init]) (simp_all add: transfer_fresh_def transfer_trans_def)
  show ?thesis
    unfolding exTransfer_def foldl_Cons foldl_Nil
    by (rule reach_step [where e = "FileRead ''a'' (Some exConfig)", OF 1]) (simp add: transfer_trans_def f del: transfer_step.simps)
qed

lemma exTransfer_eq: "ct_preview exTransfer = Some exConfig" "ct_importing exTransfer = None" "\<not> ct_crashed exTransfer"
  "ct_log exTransfer = []"
  by (simp_all add: exTransfer_def transfer_start_def handleFileChange_def clear_import_def file_loaded_def exConfig_def Let_def)

theorem imports_are_what_the_file_has_witness:
  "config_lists (import_body exConfig) = Some ([JObj [(''id'', JStr ''t1'')]], [])"
proof -
  have sent: "ct_log (transfer_step exTransfer ImportPressed) = ct_log exTransfer @ [Sent (''POST'', ''/api/admin/import'', import_body exConfig)]"
    using exTransfer_eq by (simp add: handleImport_def)
  from imports_are_what_the_file_has [OF exTransfer_reach [of strict_answer] sent] exTransfer_eq(1) exConfig_lists show ?thesis by auto
qed

theorem exported_configurations_are_refused_witness:
  "ct_result (transfer_step (transfer_step exTransfer ImportPressed) (ImportAnswered (Imported 400 (JObj [])))) = None"
proof (rule exported_configurations_are_refused [where answers = strict_answer])
  show "strict_import strict_answer"
    by (auto simp: strict_import_def strict_answer_def ok_status_def split: option.splits prod.splits if_splits)
  have 1: "reach transfer_fresh (transfer_trans from_export strict_answer) (transfer_step exTransfer ImportPressed)"
    by (rule reach_step [where e = ImportPressed, OF exTransfer_reach]) (simp add: transfer_trans_def)
  have run: "ct_importing (transfer_step exTransfer ImportPressed) = Some (import_body exConfig)"
    using exTransfer_eq by (simp add: handleImport_def)
  have "strict_answer (import_body exConfig) (Imported 400 (JObj []))"
    by (simp add: strict_answer_def config_lists_body [OF exConfig_lists])
  with run show "reach transfer_fresh (transfer_trans from_export strict_answer)
     (transfer_step (transfer_step exTransfer ImportPressed) (ImportAnswered (Imported 400 (JObj []))))"
    by (intro reach_step [where e = "ImportAnswered (Imported 400 (JObj []))", OF 1])
       (simp add: transfer_trans_def del: transfer_step.simps)
qed

theorem download_has_the_given_name_witness:
  "download_name 0 (Some (''attachment; filename='' @ CHR 0x22 # ''c.json'' @ [CHR 0x22])) = ''c.json''"
  by (rule download_has_the_given_name) (simp_all add: name_char_def)

end
