(* ===== verification/Settings.thy ===== *)
theory Settings
  imports RowActions
begin

text \<open>
  The settings of the instance: \<open>components/admin/oidc-settings-form.tsx\<close>, \<open>oidc-org-mappings.tsx\<close> and
  \<open>data-retention-panel.tsx\<close>.
\<close>

section \<open>Single sign-on\<close>

record OIDCConfig =
  oc_issuer :: "string option"
  oc_clientID :: "string option"
  oc_hasSecret :: bool
  oc_displayName :: "string option"
  oc_groupsClaim :: "string option"
  oc_adminGroup :: "string option"
  oc_enabled :: "bool option"

record oidc_fields =
  of_issuer :: string
  of_clientID :: string
  of_clientSecret :: string
  of_displayName :: string
  of_groupsClaim :: string
  of_adminGroup :: string
  of_enabled :: bool

definition initState :: "OIDCConfig \<Rightarrow> oidc_fields" where
  "initState c = \<lparr>of_issuer = nullish (oc_issuer c) [], of_clientID = nullish (oc_clientID c) [], of_clientSecret = [],
     of_displayName = or_str (oc_displayName c) ''Single Sign-On'', of_groupsClaim = nullish (oc_groupsClaim c) [],
     of_adminGroup = nullish (oc_adminGroup c) [], of_enabled = nullish (oc_enabled c) False\<rparr>"

text \<open>
  \<open>of_saving\<close>: the fields the submission under way has captured, and whether its first request has been
  answered (then the cache is being reloaded).
\<close>

record oidc_form =
  os_fields :: oidc_fields
  os_hasSecret :: bool
  os_saving :: "(oidc_fields \<times> bool) option"
  os_error :: "json option"
  os_success :: bool
  os_log :: "client_call list"

text \<open>The effect that runs when one of its five values has changed.\<close>

definition autoEnable :: "oidc_form \<Rightarrow> oidc_form" where
  "autoEnable s =
     (let f = os_fields s in
      if \<not> of_enabled f \<and> of_issuer f \<noteq> [] \<and> of_clientID f \<noteq> [] \<and> (of_clientSecret f \<noteq> [] \<or> os_hasSecret s)
      then s\<lparr>os_fields := f\<lparr>of_enabled := True\<rparr>\<rparr> else s)"

definition oidc_start :: "OIDCConfig \<Rightarrow> oidc_form" where
  "oidc_start c = autoEnable \<lparr>os_fields = initState c, os_hasSecret = oc_hasSecret c, os_saving = None,
     os_error = None, os_success = False, os_log = []\<rparr>"

definition oidc_body :: "oidc_fields \<Rightarrow> json" where
  "oidc_body f = JObj [(''issuer'', JStr (of_issuer f)), (''clientID'', JStr (of_clientID f)),
     (''clientSecret'', JStr (of_clientSecret f)), (''displayName'', JStr (of_displayName f)),
     (''groupsClaim'', JStr (of_groupsClaim f)), (''adminGroup'', JStr (of_adminGroup f)),
     (''enabled'', JBool (of_enabled f))]"

definition saveOIDC :: "oidc_form \<Rightarrow> oidc_form" where
  "saveOIDC s = s\<lparr>os_error := None, os_success := False, os_saving := Some (os_fields s, False),
     os_log := os_log s @ [(''PUT'', ''/api/admin/settings/oidc'', oidc_body (os_fields s))]\<rparr>"

text \<open>A rejected request leaves the handler through \<open>finally\<close>, without a message.\<close>

definition oidc_saved :: "oidc_fields \<Rightarrow> status_answer \<Rightarrow> oidc_form \<Rightarrow> oidc_form" where
  "oidc_saved f a s =
     (case a of
        Rejected \<Rightarrow> s\<lparr>os_saving := None\<rparr>
      | Status n body \<Rightarrow>
          if ok_status n then s\<lparr>os_saving := Some (f, True),
             os_log := os_log s @ [(''POST'', ''/api/admin/settings/oidc/reload'', JNull)]\<rparr>
          else s\<lparr>os_saving := None, os_error := Some (error_or body ''Failed to save OIDC configuration.'')\<rparr>)"

definition oidc_reloaded :: "oidc_fields \<Rightarrow> oidc_form \<Rightarrow> oidc_form" where
  "oidc_reloaded f s = s\<lparr>os_saving := None, os_success := True,
     os_hasSecret := os_hasSecret s \<or> of_clientSecret f \<noteq> [],
     os_fields := (os_fields s)\<lparr>of_clientSecret := []\<rparr>\<rparr>"

datatype oidc_input =
    InIssuer string | InClientID string | InClientSecret string | InDisplayName string
  | InGroupsClaim string | InAdminGroup string | InEnabled bool

fun oidc_edit :: "oidc_input \<Rightarrow> oidc_fields \<Rightarrow> oidc_fields" where
  "oidc_edit (InIssuer v) f = f\<lparr>of_issuer := v\<rparr>"
| "oidc_edit (InClientID v) f = f\<lparr>of_clientID := v\<rparr>"
| "oidc_edit (InClientSecret v) f = f\<lparr>of_clientSecret := v\<rparr>"
| "oidc_edit (InDisplayName v) f = f\<lparr>of_displayName := v\<rparr>"
| "oidc_edit (InGroupsClaim v) f = f\<lparr>of_groupsClaim := v\<rparr>"
| "oidc_edit (InAdminGroup v) f = f\<lparr>of_adminGroup := v\<rparr>"
| "oidc_edit (InEnabled v) f = f\<lparr>of_enabled := v\<rparr>"

datatype oidc_form_event = OIDCEdited oidc_input | OIDCSubmitted | OIDCAnswered status_answer | ReloadEnded

fun oidc_form_step :: "oidc_form \<Rightarrow> oidc_form_event \<Rightarrow> oidc_form" where
  "oidc_form_step s (OIDCEdited e) = autoEnable (s\<lparr>os_fields := oidc_edit e (os_fields s)\<rparr>)"
| "oidc_form_step s OIDCSubmitted = (if os_saving s = None then saveOIDC s else s)"
| "oidc_form_step s (OIDCAnswered a) =
     (case os_saving s of Some (f, False) \<Rightarrow> oidc_saved f a s | _ \<Rightarrow> s)"
| "oidc_form_step s ReloadEnded =
     (case os_saving s of Some (f, True) \<Rightarrow> autoEnable (oidc_reloaded f s) | _ \<Rightarrow> s)"

definition oidc_form_fresh :: "oidc_form \<Rightarrow> bool" where
  "oidc_form_fresh s \<longleftrightarrow> (\<exists>c. s = oidc_start c)"

definition oidc_form_trans :: "oidc_form \<Rightarrow> oidc_form_event \<Rightarrow> oidc_form \<Rightarrow> bool" where
  "oidc_form_trans s e t \<longleftrightarrow> t = oidc_form_step s e"

section \<open>Groups and organisations\<close>

text \<open>
  A mapping is kept as the backend answered it. \<open>om_adding\<close> is \<open>isPending\<close>, \<open>om_deleting\<close> the deletions
  under way; a \<open>null\<close> among the mappings makes the list throw.
\<close>

record org_mappings =
  om_mappings :: "json list"
  om_orgs :: "json list"
  om_adding :: bool
  om_deleting :: "string list"
  om_asking :: "string option"
  om_error :: "json option"
  om_crashed :: bool
  om_log :: "client_call list"

definition mapping_id :: "json \<Rightarrow> string option" where
  "mapping_id m = jstr (jprop m ''id'')"

text \<open>\<open>handleAdd\<close> on the two values of the form.\<close>

definition addMapping :: "string \<Rightarrow> string \<Rightarrow> org_mappings \<Rightarrow> org_mappings" where
  "addMapping grp org s =
     (if blank grp \<or> blank org
      then s\<lparr>om_error := Some (JStr ''Both group name and organisation are required.''), om_adding := False\<rparr>
      else s\<lparr>om_error := None, om_adding := True,
             om_log := om_log s @ [(''POST'', ''/api/admin/settings/oidc/mappings'',
               JObj [(''oidcGroup'', JStr (trim grp)), (''orgID'', JStr (trim org))])]\<rparr>)"

definition mapping_added :: "status_answer \<Rightarrow> org_mappings \<Rightarrow> org_mappings" where
  "mapping_added a s =
     (let s' = s\<lparr>om_adding := False\<rparr> in
      case a of
        Rejected \<Rightarrow> s'
      | Status n body \<Rightarrow>
          if ok_status n then s'\<lparr>om_mappings := body # om_mappings s, om_crashed := (body = JNull)\<rparr>
          else s'\<lparr>om_error := Some (error_or body ''Failed to create mapping.'')\<rparr>)"

definition deleteMapping :: "string \<Rightarrow> org_mappings \<Rightarrow> org_mappings" where
  "deleteMapping i s = s\<lparr>om_deleting := om_deleting s @ [i],
     om_log := om_log s @ [(''DELETE'', ''/api/admin/settings/oidc/mappings/'' @ encodeURIComponent i, JNull)]\<rparr>"

definition mapping_deleted :: "string \<Rightarrow> status_answer \<Rightarrow> org_mappings \<Rightarrow> org_mappings" where
  "mapping_deleted i a s =
     (let s' = s\<lparr>om_deleting := remove1 i (om_deleting s)\<rparr> in
      case a of
        Rejected \<Rightarrow> s'
      | Status n body \<Rightarrow>
          if ok_status n \<or> n = 204 then s'\<lparr>om_mappings := filter (\<lambda>m. mapping_id m \<noteq> Some i) (om_mappings s)\<rparr> else s')"

definition orgName :: "org_mappings \<Rightarrow> string \<Rightarrow> string" where
  "orgName s i = or_str (Option.bind (find (\<lambda>o'. jstr (jprop o' ''id'') = Some i) (om_orgs s))
     (\<lambda>o'. jstr (jprop o' ''name''))) i"

datatype mappings_event =
    OrgsLoaded json | MappingSubmitted string string | MappingAnswered status_answer
  | RemovePressed string | RemoveClosed | RemoveConfirmed | RemoveAnswered string status_answer

fun mappings_step :: "org_mappings \<Rightarrow> mappings_event \<Rightarrow> org_mappings" where
  "mappings_step s (OrgsLoaded v) = (case v of JArr os \<Rightarrow> s\<lparr>om_orgs := os\<rparr> | _ \<Rightarrow> s)"
| "mappings_step s (MappingSubmitted g i) = (if om_crashed s \<or> om_adding s then s else addMapping g i s)"
| "mappings_step s (MappingAnswered a) = (if om_crashed s \<or> \<not> om_adding s then s else mapping_added a s)"
| "mappings_step s (RemovePressed i) =
     (if om_crashed s \<or> Some i \<notin> mapping_id ` set (om_mappings s) then s else s\<lparr>om_asking := Some i\<rparr>)"
| "mappings_step s RemoveClosed = s\<lparr>om_asking := None\<rparr>"
| "mappings_step s RemoveConfirmed =
     (case om_asking s of None \<Rightarrow> s
      | Some i \<Rightarrow> if om_crashed s \<or> Some i \<notin> mapping_id ` set (om_mappings s) then s
                  else deleteMapping i (s\<lparr>om_asking := None\<rparr>))"
| "mappings_step s (RemoveAnswered i a) =
     (if om_crashed s \<or> i \<notin> set (om_deleting s) then s else mapping_deleted i a s)"

section \<open>Retention\<close>

text \<open>
  \<open>rp_saves\<close> and \<open>rp_purges\<close>: the timers that will take a message away. A message is the values its
  template joins.
\<close>

record retention_panel =
  rp_days :: string
  rp_auto :: bool
  rp_saving :: bool
  rp_saveMsg :: "string option"
  rp_saveTimers :: nat
  rp_purging :: bool
  rp_purgeMsg :: "json list option"
  rp_purgeTimers :: nat
  rp_log :: "client_call list"

definition retention_start :: "int \<Rightarrow> bool \<Rightarrow> retention_panel" where
  "retention_start days auto = \<lparr>rp_days = show_int days, rp_auto = auto, rp_saving = False, rp_saveMsg = None,
     rp_saveTimers = 0, rp_purging = False, rp_purgeMsg = None, rp_purgeTimers = 0, rp_log = []\<rparr>"

text \<open>A number in a body; \<open>NaN\<close> becomes \<open>null\<close>.\<close>

definition number_json :: "string \<Rightarrow> json" where
  "number_json v = (case js_Number v of None \<Rightarrow> JNull | Some n \<Rightarrow> JNum n)"

definition handleSave :: "retention_panel \<Rightarrow> retention_panel" where
  "handleSave s = s\<lparr>rp_saving := True, rp_saveMsg := None,
     rp_log := rp_log s @ [(''PATCH'', ''/api/admin/settings/retention'',
       JObj [(''retentionDays'', number_json (rp_days s)), (''autoEnabled'', JBool (rp_auto s))])]\<rparr>"

definition retention_saved :: "status_answer \<Rightarrow> retention_panel \<Rightarrow> retention_panel" where
  "retention_saved a s = s\<lparr>rp_saving := False, rp_saveTimers := rp_saveTimers s + 1,
     rp_saveMsg := Some (case a of Status n body \<Rightarrow> if ok_status n then ''Saved.'' else ''Failed to save settings.''
                         | Rejected \<Rightarrow> ''Failed to save settings.'')\<rparr>"

definition handlePurge :: "retention_panel \<Rightarrow> retention_panel" where
  "handlePurge s = s\<lparr>rp_purging := True, rp_purgeMsg := None,
     rp_log := rp_log s @ [(''POST'', ''/api/admin/settings/retention/purge'',
       JObj [(''olderThanDays'', number_json (rp_days s))])]\<rparr>"

text \<open>A body that is \<open>null\<close> has no \<open>purged\<close> to read; one that does not parse counts as \<open>Rejected\<close>.\<close>

definition retention_purged :: "status_answer \<Rightarrow> retention_panel \<Rightarrow> retention_panel" where
  "retention_purged a s = s\<lparr>rp_purging := False, rp_purgeTimers := rp_purgeTimers s + 1,
     rp_purgeMsg := Some (case a of
         Status n body \<Rightarrow> if ok_status n \<and> body \<noteq> JNull
           then [JStr ''Purged '', (case jprop body ''purged'' of None \<Rightarrow> JStr ''undefined'' | Some v \<Rightarrow> v), JStr '' rows.'']
           else [JStr ''Purge failed.'']
       | Rejected \<Rightarrow> [JStr ''Purge failed.''])\<rparr>"

definition purge_label :: "retention_panel \<Rightarrow> string" where
  "purge_label s = (if rp_purging s then ''Purging'' else ''Purge data older than '' @ or_str (Some (rp_days s)) ''30'' @ '' days'')"

datatype retention_event =
    DaysTyped string | AutoToggled bool | RetentionSavePressed | RetentionSaved status_answer | SaveTimerFired
  | PurgePressed | PurgeAnswered status_answer | PurgeTimerFired

fun retention_step :: "retention_panel \<Rightarrow> retention_event \<Rightarrow> retention_panel" where
  "retention_step s (DaysTyped v) = s\<lparr>rp_days := v\<rparr>"
| "retention_step s (AutoToggled v) = s\<lparr>rp_auto := v\<rparr>"
| "retention_step s RetentionSavePressed = (if rp_saving s then s else handleSave s)"
| "retention_step s (RetentionSaved a) = (if rp_saving s then retention_saved a s else s)"
| "retention_step s SaveTimerFired =
     (if rp_saveTimers s = 0 then s else s\<lparr>rp_saveTimers := rp_saveTimers s - 1, rp_saveMsg := None\<rparr>)"
| "retention_step s PurgePressed = (if rp_purging s then s else handlePurge s)"
| "retention_step s (PurgeAnswered a) = (if rp_purging s then retention_purged a s else s)"
| "retention_step s PurgeTimerFired =
     (if rp_purgeTimers s = 0 then s else s\<lparr>rp_purgeTimers := rp_purgeTimers s - 1, rp_purgeMsg := None\<rparr>)"

definition mappings_fresh :: "org_mappings \<Rightarrow> bool" where
  "mappings_fresh s \<longleftrightarrow> om_orgs s = [] \<and> \<not> om_adding s \<and> om_deleting s = [] \<and> om_asking s = None \<and> om_error s = None
     \<and> \<not> om_crashed s \<and> om_log s = []"

definition mappings_trans :: "org_mappings \<Rightarrow> mappings_event \<Rightarrow> org_mappings \<Rightarrow> bool" where
  "mappings_trans s e t \<longleftrightarrow> t = mappings_step s e"

section \<open>Single sign-on: what is saved\<close>

definition configured :: "oidc_form \<Rightarrow> bool" where
  "configured s \<longleftrightarrow> of_issuer (os_fields s) \<noteq> [] \<and> of_clientID (os_fields s) \<noteq> []
     \<and> (of_clientSecret (os_fields s) \<noteq> [] \<or> os_hasSecret s)"

definition PUT_call :: "oidc_fields \<Rightarrow> client_call" where
  "PUT_call f = (''PUT'', ''/api/admin/settings/oidc'', oidc_body f)"

definition reload_call :: client_call where
  "reload_call = (''POST'', ''/api/admin/settings/oidc/reload'', JNull)"

definition oidc_inv :: "oidc_form \<Rightarrow> bool" where
  "oidc_inv s \<longleftrightarrow> (configured s \<longrightarrow> of_enabled (os_fields s))
   \<and> (\<forall>f. os_saving s = Some (f, False) \<longrightarrow> (\<exists>l. os_log s = l @ [PUT_call f]))
   \<and> (\<forall>f. os_saving s = Some (f, True) \<longrightarrow> (\<exists>l. os_log s = l @ [PUT_call f, reload_call]))
   \<and> (os_success s \<longrightarrow> os_saving s = None \<and> (\<exists>l f. os_log s = l @ [PUT_call f, reload_call]))
   \<and> (os_saving s \<noteq> None \<longrightarrow> \<not> os_success s)"

lemma autoEnable_frame [simp]:
  "os_saving (autoEnable s) = os_saving s" "os_log (autoEnable s) = os_log s" "os_success (autoEnable s) = os_success s"
  "os_error (autoEnable s) = os_error s" "os_hasSecret (autoEnable s) = os_hasSecret s"
  "of_issuer (os_fields (autoEnable s)) = of_issuer (os_fields s)"
  "of_clientID (os_fields (autoEnable s)) = of_clientID (os_fields s)"
  "of_clientSecret (os_fields (autoEnable s)) = of_clientSecret (os_fields s)"
  by (simp_all add: autoEnable_def Let_def)

lemma autoEnable_configured: "configured (autoEnable s) \<longrightarrow> of_enabled (os_fields (autoEnable s))"
  by (auto simp: configured_def autoEnable_def Let_def)

lemma oidc_inv_edit: "oidc_inv s \<Longrightarrow> oidc_inv (autoEnable (s\<lparr>os_fields := f\<rparr>))"
  using autoEnable_configured [of "s\<lparr>os_fields := f\<rparr>"] by (simp add: oidc_inv_def)

lemma oidc_form_inv_step: "oidc_inv s \<Longrightarrow> oidc_inv (oidc_form_step s e)"
proof (cases e)
  case (OIDCEdited x)
  assume "oidc_inv s"
  then show ?thesis using oidc_inv_edit by (simp add: OIDCEdited)
next
  case OIDCSubmitted
  assume "oidc_inv s"
  then show ?thesis by (auto simp: OIDCSubmitted oidc_inv_def saveOIDC_def configured_def PUT_call_def)
next
  case (OIDCAnswered a)
  assume inv: "oidc_inv s"
  show ?thesis
  proof (cases "\<exists>f. os_saving s = Some (f, False)")
    case True
    then obtain f where f: "os_saving s = Some (f, False)" by blast
    with inv obtain l where l: "os_log s = l @ [PUT_call f]" and ns: "\<not> os_success s" by (auto simp: oidc_inv_def)
    have "oidc_inv (oidc_saved f a s)"
      using inv f l ns by (cases a) (auto simp: oidc_inv_def oidc_saved_def configured_def reload_call_def)
    with f show ?thesis by (simp add: OIDCAnswered)
  next
    case False
    then have "oidc_form_step s e = s" by (auto simp: OIDCAnswered split: option.split bool.split)
    with inv show ?thesis by simp
  qed
next
  case ReloadEnded
  assume inv: "oidc_inv s"
  show ?thesis
  proof (cases "\<exists>f. os_saving s = Some (f, True)")
    case True
    then obtain f where f: "os_saving s = Some (f, True)" by blast
    with inv obtain l where l: "os_log s = l @ [PUT_call f, reload_call]" by (auto simp: oidc_inv_def)
    have "oidc_inv (autoEnable (oidc_reloaded f s))"
      using autoEnable_configured [of "oidc_reloaded f s"] l by (auto simp: oidc_inv_def oidc_reloaded_def)
    with f show ?thesis by (simp add: ReloadEnded)
  next
    case False
    then have "oidc_form_step s e = s" by (auto simp: ReloadEnded split: option.split bool.split)
    with inv show ?thesis by simp
  qed
qed

interpretation oidc_settings: invariant oidc_form_fresh oidc_form_trans oidc_inv
proof
  show "oidc_inv s" if fresh: "oidc_form_fresh s" for s
  proof -
    obtain c where s: "s = oidc_start c" using fresh unfolding oidc_form_fresh_def by blast
    have "configured s \<longrightarrow> of_enabled (os_fields s)" unfolding s oidc_start_def by (rule autoEnable_configured)
    then show ?thesis by (simp add: oidc_inv_def s oidc_start_def)
  qed
  show "oidc_inv t" if "oidc_form_trans s e t" "oidc_inv s" for s e t
    using that oidc_form_inv_step by (simp add: oidc_form_trans_def)
qed


text \<open>
  Single sign-on cannot be switched off: with an issuer, a client id and a secret in place the switch
  turns itself on again, so that what is saved has it enabled.
\<close>

theorem sso_cannot_be_switched_off:
  assumes "reach oidc_form_fresh oidc_form_trans s" and "of_issuer (os_fields s) \<noteq> []" "of_clientID (os_fields s) \<noteq> []"
    and "os_hasSecret s"
  shows "oidc_form_step s (OIDCEdited (InEnabled False)) = s \<and> jprop (oidc_body (os_fields s)) ''enabled'' = Some (JBool True)"
proof -
  have on: "of_enabled (os_fields s)"
    using oidc_settings.reach_inv [OF assms(1)] assms(2-4) by (simp add: oidc_inv_def configured_def)
  then have "(os_fields s)\<lparr>of_enabled := True\<rparr> = os_fields s" by simp
  with on assms(2-4) show ?thesis by (simp add: autoEnable_def oidc_body_def)
qed

text \<open>
  Opening the form and saving it sends the configuration back as it is, with an empty secret, which
  keeps the stored one; this holds for every complete configuration that is enabled.
\<close>

theorem unchanged_settings_are_sent_back:
  assumes "oc_issuer c = Some iss" "oc_clientID c = Some cid" "oc_displayName c = Some dn" "dn \<noteq> []"
    "oc_groupsClaim c = Some gc" "oc_adminGroup c = Some ag" "oc_enabled c = Some True"
  shows "os_log (oidc_form_step (oidc_start c) OIDCSubmitted)
     = [(''PUT'', ''/api/admin/settings/oidc'', JObj [(''issuer'', JStr iss), (''clientID'', JStr cid), (''clientSecret'', JStr []),
         (''displayName'', JStr dn), (''groupsClaim'', JStr gc), (''adminGroup'', JStr ag), (''enabled'', JBool True)])]"
  using assms by (simp add: oidc_start_def autoEnable_def initState_def saveOIDC_def oidc_body_def)

text \<open>A secret typed while a saving is under way is thrown away unsent, and the form says that all is saved.\<close>

theorem typed_secret_is_discarded:
  assumes "os_saving s = None" "ok_status n"
  shows "(let t = foldl oidc_form_step s [OIDCSubmitted, OIDCEdited (InClientSecret v), OIDCAnswered (Status n body), ReloadEnded]
          in os_success t \<and> of_clientSecret (os_fields t) = [] \<and> os_log t = os_log s @ [PUT_call (os_fields s), reload_call])"
  using assms by (simp add: Let_def saveOIDC_def oidc_saved_def oidc_reloaded_def PUT_call_def reload_call_def)

section \<open>Mappings\<close>

definition named_post :: "client_call \<Rightarrow> bool" where
  "named_post c \<longleftrightarrow> (\<exists>g i. snd (snd c) = JObj [(''oidcGroup'', JStr (trim g)), (''orgID'', JStr (trim i))] \<and> \<not> blank g \<and> \<not> blank i)"

definition mappings_inv :: "org_mappings \<Rightarrow> bool" where
  "mappings_inv s \<longleftrightarrow> (\<forall>c \<in> set (om_log s). fst c = ''POST'' \<longrightarrow> named_post c)"

lemma mappings_inv_frame: "mappings_inv s \<Longrightarrow> om_log t = om_log s \<Longrightarrow> mappings_inv t"
  by (simp add: mappings_inv_def)

lemma mapping_answers_log [simp]:
  "om_log (mapping_added a s) = om_log s" "om_log (mapping_deleted i a s) = om_log s"
  by (simp_all add: mapping_added_def mapping_deleted_def Let_def split: status_answer.split)

lemma mappings_inv_add: "mappings_inv s \<Longrightarrow> mappings_inv (addMapping g i s)"
  by (cases "blank g \<or> blank i") (auto simp: mappings_inv_def addMapping_def named_post_def)

lemma mappings_inv_delete: "mappings_inv s \<Longrightarrow> mappings_inv (deleteMapping i s)"
  unfolding mappings_inv_def deleteMapping_def by auto

lemma mappings_inv_step: "mappings_inv s \<Longrightarrow> mappings_inv (mappings_step s e)"
proof (cases e)
  case (OrgsLoaded v)
  assume "mappings_inv s"
  then show ?thesis unfolding OrgsLoaded by (rule mappings_inv_frame) (simp split: json.split)
next
  case RemoveConfirmed
  assume "mappings_inv s"
  moreover have "mappings_inv (deleteMapping i (s\<lparr>om_asking := None\<rparr>))" for i
    by (rule mappings_inv_delete, rule mappings_inv_frame [OF \<open>mappings_inv s\<close>]) simp
  ultimately show ?thesis by (simp add: RemoveConfirmed split: option.split)
qed (auto intro: mappings_inv_frame mappings_inv_add)

interpretation mappings: invariant mappings_fresh mappings_trans mappings_inv
proof
  show "mappings_inv s" if "mappings_fresh s" for s using that by (simp add: mappings_fresh_def mappings_inv_def)
  show "mappings_inv t" if "mappings_trans s e t" "mappings_inv s" for s e t
    using that mappings_inv_step by (simp add: mappings_trans_def)
qed

text \<open>
  Every mapping asked for names a group and an organisation; one is removed from the list exactly
  when its own deletion, confirmed before, is answered as done, and the others stay in their order.
\<close>

theorem mappings_are_named_and_removed_on_confirmation:
  assumes "reach mappings_fresh mappings_trans s" and "\<not> om_crashed s"
  shows "(\<forall>c \<in> set (om_log s). fst c = ''POST'' \<longrightarrow> named_post c)
     \<and> (om_mappings (mappings_step s e) = om_mappings s
       \<or> (\<exists>n body. e = MappingAnswered (Status n body) \<and> ok_status n \<and> om_adding s \<and> om_mappings (mappings_step s e) = body # om_mappings s)
       \<or> (\<exists>i n body. e = RemoveAnswered i (Status n body) \<and> ok_status n \<and> i \<in> set (om_deleting s)
            \<and> om_mappings (mappings_step s e) = filter (\<lambda>m. mapping_id m \<noteq> Some i) (om_mappings s)))"
proof (rule conjI)
  show "\<forall>c \<in> set (om_log s). fst c = ''POST'' \<longrightarrow> named_post c"
    using mappings.reach_inv [OF assms(1)] by (simp add: mappings_inv_def)
  show "om_mappings (mappings_step s e) = om_mappings s
       \<or> (\<exists>n body. e = MappingAnswered (Status n body) \<and> ok_status n \<and> om_adding s \<and> om_mappings (mappings_step s e) = body # om_mappings s)
       \<or> (\<exists>i n body. e = RemoveAnswered i (Status n body) \<and> ok_status n \<and> i \<in> set (om_deleting s)
            \<and> om_mappings (mappings_step s e) = filter (\<lambda>m. mapping_id m \<noteq> Some i) (om_mappings s))"
  proof (cases e)
    case (OrgsLoaded v)
    then show ?thesis by (simp split: json.split)
  next
    case (MappingAnswered a)
    then show ?thesis using assms(2) by (cases a) (simp_all add: mapping_added_def Let_def)
  next
    case (RemoveAnswered i a)
    then show ?thesis using assms(2) by (cases a) (auto simp: mapping_deleted_def ok_status_def Let_def)
  qed (simp_all add: addMapping_def deleteMapping_def split: option.split)
qed

section \<open>Retention\<close>

text \<open>The panel asks for one purge and one saving at a time, with the number that is in the field.\<close>

theorem retention_requests_follow_the_field:
  assumes "rp_log (retention_step s e) \<noteq> rp_log s"
  shows "rp_log (retention_step s e) = rp_log s @
     (if e = PurgePressed
      then [(''POST'', ''/api/admin/settings/retention/purge'', JObj [(''olderThanDays'', number_json (rp_days s))])]
      else [(''PATCH'', ''/api/admin/settings/retention'',
             JObj [(''retentionDays'', number_json (rp_days s)), (''autoEnabled'', JBool (rp_auto s))])])
     \<and> (if e = PurgePressed then \<not> rp_purging s \<and> rp_purging (retention_step s e)
        else e = RetentionSavePressed \<and> \<not> rp_saving s \<and> rp_saving (retention_step s e))"
  using assms by (cases e) (auto simp: handleSave_def handlePurge_def retention_saved_def retention_purged_def split: if_splits)

text \<open>An empty field is labelled as 30 days, and asks for, and saves, 0.\<close>

theorem empty_retention_is_zero:
  assumes "rp_days s = []" "\<not> rp_purging s" "\<not> rp_saving s"
  shows "purge_label s = ''Purge data older than 30 days''
     \<and> rp_log (retention_step s PurgePressed) = rp_log s @ [(''POST'', ''/api/admin/settings/retention/purge'', JObj [(''olderThanDays'', JNum 0)])]
     \<and> rp_log (retention_step s RetentionSavePressed) = rp_log s @
        [(''PATCH'', ''/api/admin/settings/retention'', JObj [(''retentionDays'', JNum 0), (''autoEnabled'', JBool (rp_auto s))])]"
proof -
  have "number_json [] = JNum 0" by (simp add: number_json_def js_Number_def trim_def)
  with assms show ?thesis by (simp add: purge_label_def handlePurge_def handleSave_def)
qed

text \<open>The timer of an earlier saving takes the message of a later one away.\<close>

theorem earlier_timer_hides_the_message:
  assumes "\<not> rp_saving s"
  shows "rp_saveMsg (foldl retention_step s [RetentionSavePressed, RetentionSaved a, RetentionSavePressed, RetentionSaved b]) \<noteq> None
     \<and> rp_saveMsg (foldl retention_step s [RetentionSavePressed, RetentionSaved a, RetentionSavePressed, RetentionSaved b, SaveTimerFired]) = None
     \<and> rp_saveTimers (foldl retention_step s [RetentionSavePressed, RetentionSaved a, RetentionSavePressed, RetentionSaved b, SaveTimerFired]) > 0"
  using assms by (simp add: handleSave_def retention_saved_def)

section \<open>Examples\<close>

definition exOIDC :: OIDCConfig where
  "exOIDC = \<lparr>oc_issuer = Some ''i'', oc_clientID = Some ''c'', oc_hasSecret = True, oc_displayName = Some ''d'',
     oc_groupsClaim = Some ''g'', oc_adminGroup = Some ''a'', oc_enabled = Some True\<rparr>"

lemma exOIDC_reach: "reach oidc_form_fresh oidc_form_trans (oidc_start exOIDC)"
  by (rule reach_init) (auto simp: oidc_form_fresh_def)

lemma exOIDC_facts: "of_issuer (os_fields (oidc_start exOIDC)) \<noteq> []" "of_clientID (os_fields (oidc_start exOIDC)) \<noteq> []"
  "os_hasSecret (oidc_start exOIDC)"
  by (simp_all add: oidc_start_def exOIDC_def initState_def)

theorem sso_cannot_be_switched_off_witness:
  "oidc_form_step (oidc_start exOIDC) (OIDCEdited (InEnabled False)) = oidc_start exOIDC"
  using sso_cannot_be_switched_off [OF exOIDC_reach exOIDC_facts] by (rule conjunct1)

definition exSaved :: oidc_form where
  "exSaved = foldl oidc_form_step (oidc_start exOIDC) [OIDCSubmitted, OIDCAnswered (Status 200 JNull), ReloadEnded]"

lemma oidc_foldl_reach:
  "reach oidc_form_fresh oidc_form_trans s \<Longrightarrow> reach oidc_form_fresh oidc_form_trans (foldl oidc_form_step s es)"
proof (induction es arbitrary: s)
  case (Cons e es)
  from Cons.prems have "reach oidc_form_fresh oidc_form_trans (oidc_form_step s e)"
    by (rule reach_step [where e = e]) (simp add: oidc_form_trans_def)
  then show ?case by (simp add: Cons.IH)
qed simp


theorem unchanged_settings_are_sent_back_witness:
  "os_log (oidc_form_step (oidc_start exOIDC) OIDCSubmitted) \<noteq> []"
  by (subst unchanged_settings_are_sent_back [of exOIDC "''i''" "''c''" "''d''" "''g''" "''a''"]) (simp_all add: exOIDC_def)

definition exMappings :: org_mappings where
  "exMappings = \<lparr>om_mappings = [JObj [(''id'', JStr ''m'')]], om_orgs = [], om_adding = False, om_deleting = [], om_asking = None,
     om_error = None, om_crashed = False, om_log = []\<rparr>"

theorem mappings_are_named_and_removed_on_confirmation_witness:
  "om_mappings (mappings_step exMappings (RemovePressed ''m'')) = om_mappings exMappings"
proof -
  have r: "reach mappings_fresh mappings_trans exMappings" by (rule reach_init) (simp add: mappings_fresh_def exMappings_def)
  have "\<not> om_crashed exMappings" by (simp add: exMappings_def)
  from mappings_are_named_and_removed_on_confirmation [OF r this, of "RemovePressed ''m''"] show ?thesis by blast
qed

end
