(* ===== verification/AppDrawer.thy ===== *)
theory AppDrawer
  imports RowActions
begin

text \<open>
  The drawer of a protected app, \<open>components/admin/app-detail-drawer.tsx\<close>: its panels of tokens and of
  sessions load a list of their own, change it after each answer and refresh the page. The two are
  one machine over a description of what removing an entry does; the drawer mounts one of them.
\<close>

section \<open>Panels\<close>

text \<open>
  \<open>pd_removed i\<close>: what the answer to a removal makes of the list; \<open>pd_removable\<close>: whether an entry has the
  button; \<open>pd_issues\<close>: whether the panel issues entries.
\<close>

record app_panel_desc =
  pd_address :: string
  pd_removed :: "string \<Rightarrow> json list \<Rightarrow> json list"
  pd_removable :: "json \<Rightarrow> bool"
  pd_failed :: string
  pd_issues :: bool

definition entry_id :: "json \<Rightarrow> string option" where
  "entry_id v = jstr (jprop v ''id'')"

text \<open>\<open>{ ...s, revoked: true }\<close>.\<close>

fun mark_revoked :: "json \<Rightarrow> json" where
  "mark_revoked (JObj kvs) = JObj (obj_set ''revoked'' (JBool True) kvs)"
| "mark_revoked v = JObj [(''revoked'', JBool True)]"

definition tokensPanel :: "string \<Rightarrow> app_panel_desc" where
  "tokensPanel app = \<lparr>pd_address = ''/api/admin/apps/'' @ app @ ''/tokens'',
     pd_removed = (\<lambda>i. filter (\<lambda>t. entry_id t \<noteq> Some i)), pd_removable = (\<lambda>_. True),
     pd_failed = ''Failed to delete token'', pd_issues = True\<rparr>"

definition sessionsPanel :: "string \<Rightarrow> app_panel_desc" where
  "sessionsPanel app = \<lparr>pd_address = ''/api/admin/apps/'' @ app @ ''/sessions'',
     pd_removed = (\<lambda>i. map (\<lambda>s. if entry_id s = Some i then mark_revoked s else s)),
     pd_removable = (\<lambda>s. \<not> truthy_json (jprop s ''revoked'')),
     pd_failed = ''Failed to revoke session'', pd_issues = False\<rparr>"

text \<open>
  \<open>ap_creating\<close> and \<open>ap_removing\<close>: the requests of the running transitions; \<open>isPending\<close> is that there is
  one.
\<close>

record app_panel =
  ap_entries :: "json list"
  ap_loading :: bool
  ap_name :: string
  ap_secret :: "json option"
  ap_creating :: nat
  ap_removing :: "string list"
  ap_asking :: "string option"
  ap_crashed :: bool
  ap_log :: "form_effect list"

definition panel_mounted :: "app_panel_desc \<Rightarrow> app_panel" where
  "panel_mounted P = \<lparr>ap_entries = [], ap_loading = True, ap_name = [], ap_secret = None, ap_creating = 0,
     ap_removing = [], ap_asking = None, ap_crashed = False, ap_log = [Sent (''GET'', pd_address P, JNull)]\<rparr>"

definition panel_isPending :: "app_panel \<Rightarrow> bool" where
  "panel_isPending s \<longleftrightarrow> 0 < ap_creating s \<or> ap_removing s \<noteq> []"

definition shown_entries :: "app_panel \<Rightarrow> json list" where
  "shown_entries s = (if ap_loading s then [] else ap_entries s)"

text \<open>\<open>None\<close>: the request has failed or its body does not parse. An entry that is \<open>null\<close> makes the list throw.\<close>

definition panel_loaded :: "json option \<Rightarrow> app_panel \<Rightarrow> app_panel" where
  "panel_loaded a s =
     (let es = (case a of Some (JArr vs) \<Rightarrow> vs | _ \<Rightarrow> []) in
      s\<lparr>ap_entries := es, ap_loading := False, ap_crashed := (JNull \<in> set es)\<rparr>)"

definition createToken_press :: "app_panel_desc \<Rightarrow> app_panel \<Rightarrow> app_panel" where
  "createToken_press P s =
     (if blank (ap_name s) then s
      else s\<lparr>ap_creating := ap_creating s + 1,
             ap_log := ap_log s @ [Sent (''POST'', pd_address P, JObj [(''name'', JStr (trim (ap_name s)))])]\<rparr>)"

text \<open>
  What a body that does not parse ends as is \<open>null\<close>; \<open>issued.secret\<close> then throws, and so does a list
  with a token that is missing.
\<close>

definition token_created :: "status_answer \<Rightarrow> app_panel \<Rightarrow> app_panel" where
  "token_created a s =
     (let s' = s\<lparr>ap_creating := ap_creating s - 1\<rparr> in
      case a of
        Rejected \<Rightarrow> s'\<lparr>ap_crashed := True\<rparr>
      | Status n body \<Rightarrow>
          if \<not> ok_status n then s'\<lparr>ap_log := ap_log s @ [Toasted ''Failed to create token'' [error_nullish body []] ''error'']\<rparr>
          else (case (if body = JNull then None else jprop body ''token'') of
              None \<Rightarrow> s'\<lparr>ap_crashed := True\<rparr>
            | Some JNull \<Rightarrow> s'\<lparr>ap_crashed := True\<rparr>
            | Some t \<Rightarrow> s'\<lparr>ap_secret := jprop body ''secret'', ap_entries := t # ap_entries s, ap_name := [],
                           ap_log := ap_log s @ [Refreshed]\<rparr>))"

definition remove_press :: "app_panel_desc \<Rightarrow> string \<Rightarrow> app_panel \<Rightarrow> app_panel" where
  "remove_press P i s = s\<lparr>ap_removing := ap_removing s @ [i],
     ap_log := ap_log s @ [Sent (''DELETE'', pd_address P @ ''/'' @ i, JNull)]\<rparr>"

definition removed :: "app_panel_desc \<Rightarrow> string \<Rightarrow> status_answer \<Rightarrow> app_panel \<Rightarrow> app_panel" where
  "removed P i a s =
     (let s' = s\<lparr>ap_removing := remove1 i (ap_removing s)\<rparr> in
      case a of
        Rejected \<Rightarrow> s'\<lparr>ap_crashed := True\<rparr>
      | Status n body \<Rightarrow>
          if ok_status n then s'\<lparr>ap_entries := pd_removed P i (ap_entries s), ap_log := ap_log s @ [Refreshed]\<rparr>
          else s'\<lparr>ap_log := ap_log s @ [Toasted (pd_failed P) [JStr []] ''error'']\<rparr>)"

datatype app_panel_event =
    PanelLoaded "json option" | NameTyped string | EnterPressed | IssuePressed | TokenCreated status_answer
  | EntryPressed string | EntryDeclined | EntryConfirmed | EntryRemoved string status_answer

definition has_button :: "app_panel_desc \<Rightarrow> app_panel \<Rightarrow> string \<Rightarrow> bool" where
  "has_button P s i \<longleftrightarrow> (\<exists>v \<in> set (shown_entries s). entry_id v = Some i \<and> pd_removable P v)"

fun app_panel_step :: "app_panel_desc \<Rightarrow> app_panel \<Rightarrow> app_panel_event \<Rightarrow> app_panel" where
  "app_panel_step P s (PanelLoaded a) = (if ap_crashed s \<or> \<not> ap_loading s then s else panel_loaded a s)"
| "app_panel_step P s (NameTyped v) = (if ap_crashed s \<or> \<not> pd_issues P then s else s\<lparr>ap_name := v\<rparr>)"
| "app_panel_step P s EnterPressed = (if ap_crashed s \<or> \<not> pd_issues P then s else createToken_press P s)"
| "app_panel_step P s IssuePressed =
     (if ap_crashed s \<or> \<not> pd_issues P \<or> panel_isPending s \<or> blank (ap_name s) then s else createToken_press P s)"
| "app_panel_step P s (TokenCreated a) = (if ap_crashed s \<or> ap_creating s = 0 then s else token_created a s)"
| "app_panel_step P s (EntryPressed i) =
     (if ap_crashed s \<or> panel_isPending s \<or> \<not> has_button P s i then s else s\<lparr>ap_asking := Some i\<rparr>)"
| "app_panel_step P s EntryDeclined = s\<lparr>ap_asking := None\<rparr>"
| "app_panel_step P s EntryConfirmed =
     (case ap_asking s of
        None \<Rightarrow> s
      | Some i \<Rightarrow> if ap_crashed s \<or> \<not> has_button P s i then s else remove_press P i (s\<lparr>ap_asking := None\<rparr>))"
| "app_panel_step P s (EntryRemoved i a) =
     (if ap_crashed s \<or> i \<notin> set (ap_removing s) then s else removed P i a s)"

section \<open>The drawer\<close>

datatype drawer_tab = TabTokens | TabSessions

definition drawer_desc :: "string \<Rightarrow> drawer_tab \<Rightarrow> app_panel_desc" where
  "drawer_desc app t = (case t of TabTokens \<Rightarrow> tokensPanel app | TabSessions \<Rightarrow> sessionsPanel app)"

text \<open>The panel mounted while the drawer is open; what an unmounted one is answered changes nothing here.\<close>

record drawer =
  dw_open :: bool
  dw_tab :: drawer_tab
  dw_panel :: "app_panel option"

definition drawer_start :: drawer where
  "drawer_start = \<lparr>dw_open = False, dw_tab = TabTokens, dw_panel = None\<rparr>"

datatype drawer_event = ManagePressed | DrawerClosed | TabPressed drawer_tab | InPanel app_panel_event

fun drawer_step :: "string \<Rightarrow> bool \<Rightarrow> drawer \<Rightarrow> drawer_event \<Rightarrow> drawer" where
  "drawer_step app disabled s ManagePressed =
     (if disabled \<or> dw_open s then s
      else s\<lparr>dw_open := True, dw_panel := Some (panel_mounted (drawer_desc app (dw_tab s)))\<rparr>)"
| "drawer_step app disabled s DrawerClosed = s\<lparr>dw_open := False, dw_panel := None\<rparr>"
| "drawer_step app disabled s (TabPressed t) =
     (if \<not> dw_open s \<or> t = dw_tab s then s
      else s\<lparr>dw_tab := t, dw_panel := Some (panel_mounted (drawer_desc app t))\<rparr>)"
| "drawer_step app disabled s (InPanel e) =
     s\<lparr>dw_panel := map_option (\<lambda>p. app_panel_step (drawer_desc app (dw_tab s)) p e) (dw_panel s)\<rparr>"

section \<open>The contract of a panel\<close>

text \<open>
  Removing an entry keeps the other entries, in their order, and leaves none with its id that still
  has the button.
\<close>

locale app_panel_laws =
  fixes P :: app_panel_desc
  assumes others_stay: "filter (\<lambda>v. entry_id v \<noteq> Some i) (pd_removed P i vs) = filter (\<lambda>v. entry_id v \<noteq> Some i) vs"
    and gone: "v \<in> set (pd_removed P i vs) \<Longrightarrow> entry_id v = Some i \<Longrightarrow> \<not> pd_removable P v"
begin

definition panel_fresh :: "app_panel \<Rightarrow> bool" where
  "panel_fresh s \<longleftrightarrow> s = panel_mounted P"

definition panel_trans :: "app_panel \<Rightarrow> app_panel_event \<Rightarrow> app_panel \<Rightarrow> bool" where
  "panel_trans s e t \<longleftrightarrow> t = app_panel_step P s e"

lemma confirmed_removal:
  assumes "ap_log (app_panel_step P s e) = ap_log s @ [Sent (''DELETE'', a, b)]"
  obtains i where "e = EntryConfirmed" "ap_asking s = Some i" "has_button P s i" "a = pd_address P @ ''/'' @ i" "b = JNull"
proof (cases e)
  case EntryConfirmed
  with assms that show thesis by (auto simp: remove_press_def split: option.splits if_splits)
next
  case (TokenCreated x)
  with assms show thesis
    by (cases x) (auto simp: token_created_def Let_def split: if_splits option.splits json.splits)
next
  case (EntryRemoved i x)
  with assms show thesis by (cases x) (auto simp: removed_def Let_def split: if_splits)
qed (use assms in \<open>auto simp: createToken_press_def panel_loaded_def Let_def split: if_splits option.splits\<close>)

lemma removal_answered:
  assumes "i \<in> set (ap_removing s)" "\<not> ap_crashed s" "ok_status n"
  shows "filter (\<lambda>v. entry_id v \<noteq> Some i) (ap_entries (app_panel_step P s (EntryRemoved i (Status n body))))
       = filter (\<lambda>v. entry_id v \<noteq> Some i) (ap_entries s)
     \<and> \<not> has_button P (app_panel_step P s (EntryRemoved i (Status n body))) i"
  using assms gone by (auto simp: removed_def others_stay has_button_def shown_entries_def split: if_splits)

end

lemma mark_revoked_revoked [simp]: "truthy_json (jprop (mark_revoked v) ''revoked'')"
  by (cases v) simp_all

lemma entry_id_obj_set: "entry_id (JObj (obj_set ''revoked'' x kvs)) = entry_id (JObj kvs)"
  by (simp add: entry_id_def)

lemma entry_id_mark: "entry_id s = Some i \<Longrightarrow> entry_id (mark_revoked s) = Some i"
  by (cases s) (simp_all add: entry_id_obj_set, simp_all add: entry_id_def)

lemma filter_marked:
  "filter (\<lambda>v. entry_id v \<noteq> Some i) (map (\<lambda>s. if entry_id s = Some i then mark_revoked s else s) vs)
   = filter (\<lambda>v. entry_id v \<noteq> Some i) vs"
  by (induction vs) (auto simp: entry_id_mark)

interpretation tokens_panel: app_panel_laws "tokensPanel app" for app
  by unfold_locales (auto simp: tokensPanel_def)

interpretation sessions_panel: app_panel_laws "sessionsPanel app" for app
proof
  show "filter (\<lambda>v. entry_id v \<noteq> Some i) (pd_removed (sessionsPanel app) i vs) = filter (\<lambda>v. entry_id v \<noteq> Some i) vs" for i vs
    by (simp add: sessionsPanel_def filter_marked)
  show "\<not> pd_removable (sessionsPanel app) v" if "v \<in> set (pd_removed (sessionsPanel app) i vs)" "entry_id v = Some i" for v i vs
    using that by (auto simp: sessionsPanel_def split: if_splits)
qed

section \<open>Properties\<close>

lemma panel_desc_laws: "app_panel_laws (drawer_desc app t)"
  by (cases t) (simp_all add: drawer_desc_def tokens_panel.app_panel_laws_axioms sessions_panel.app_panel_laws_axioms)

text \<open>In both panels a request that removes an entry leaves only when the question of an entry that is
  listed, and still has its button, is confirmed; when it is answered as done that entry has the
  button no more, and every other entry stays as and where it was.
\<close>

theorem removals_are_confirmed_and_precise:
  assumes "ap_log (app_panel_step (drawer_desc app t) s e) = ap_log s @ [Sent (''DELETE'', a, b)]"
    and "ok_status n"
  shows "\<exists>i. e = EntryConfirmed \<and> ap_asking s = Some i \<and> has_button (drawer_desc app t) s i
     \<and> a = pd_address (drawer_desc app t) @ ''/'' @ i
     \<and> (let s1 = app_panel_step (drawer_desc app t) s e;
             s2 = app_panel_step (drawer_desc app t) s1 (EntryRemoved i (Status n body))
         in \<not> has_button (drawer_desc app t) s2 i
            \<and> filter (\<lambda>v. entry_id v \<noteq> Some i) (ap_entries s2) = filter (\<lambda>v. entry_id v \<noteq> Some i) (ap_entries s))"
proof -
  let ?P = "drawer_desc app t"
  obtain i where e: "e = EntryConfirmed" "ap_asking s = Some i" and b: "has_button ?P s i" "a = pd_address ?P @ ''/'' @ i"
    by (rule app_panel_laws.confirmed_removal [OF panel_desc_laws assms(1)])
  let ?s1 = "app_panel_step ?P s e"
  have ok: "\<not> ap_crashed s" using assms(1) e by (auto split: if_splits)
  then have s1: "?s1 = remove_press ?P i (s\<lparr>ap_asking := None\<rparr>)" using e b by simp
  then have r: "i \<in> set (ap_removing ?s1)" "\<not> ap_crashed ?s1" "ap_entries ?s1 = ap_entries s"
    using ok by (simp_all add: remove_press_def)
  from app_panel_laws.removal_answered [OF panel_desc_laws r(1,2) assms(2)] r(3) e b
  show ?thesis by (intro exI [of _ i]) (simp add: Let_def del: app_panel_step.simps)
qed

text \<open>
  The list of tokens that was asked for when the panel was mounted, answered late, takes away a token
  issued meanwhile.
\<close>

theorem late_list_hides_the_token:
  assumes "ok_status n" "\<not> blank name" "jprop body ''token'' = Some (JObj tok)" "JNull \<notin> set vs"
  shows "(let s = foldl (app_panel_step (tokensPanel app)) (panel_mounted (tokensPanel app))
            [NameTyped name, IssuePressed, TokenCreated (Status n body)];
             s' = app_panel_step (tokensPanel app) s (PanelLoaded (Some (JArr vs)))
          in ap_entries s = [JObj tok] \<and> ap_entries s' = vs)"
proof -
  have "body \<noteq> JNull" using assms(3) by auto
  with assms show ?thesis
    by (simp add: Let_def panel_mounted_def tokensPanel_def createToken_press_def token_created_def panel_isPending_def panel_loaded_def)
qed

text \<open>The key Enter is not held back while a token is being issued: pressed twice it issues two.\<close>

theorem enter_issues_twice:
  assumes "\<not> blank name"
  shows "ap_log (foldl (app_panel_step (tokensPanel app)) (panel_mounted (tokensPanel app)) [NameTyped name, EnterPressed, EnterPressed])
     = Sent (''GET'', pd_address (tokensPanel app), JNull)
       # replicate 2 (Sent (''POST'', pd_address (tokensPanel app), JObj [(''name'', JStr (trim name))]))"
  using assms by (simp add: panel_mounted_def tokensPanel_def createToken_press_def numeral_2_eq_2)

text \<open>A look at the sessions forgets the secret that \<open>won't be shown again\<close>.\<close>

theorem switching_tabs_forgets_the_secret:
  assumes "dw_panel s = Some p" "dw_open s" "dw_tab s = TabTokens"
  shows "map_option ap_secret (dw_panel (foldl (drawer_step app False) s [TabPressed TabSessions, TabPressed TabTokens])) = Some None"
  using assms by (simp add: panel_mounted_def)

section \<open>Examples\<close>

definition exPanel :: app_panel where
  "exPanel = (panel_mounted (sessionsPanel ''a''))\<lparr>ap_loading := False,
     ap_entries := [JObj [(''id'', JStr ''s1'')], JObj [(''id'', JStr ''s2'')]], ap_asking := Some ''s1''\<rparr>"

theorem removals_are_confirmed_and_precise_witness:
  "\<not> has_button (drawer_desc ''a'' TabSessions)
      (app_panel_step (drawer_desc ''a'' TabSessions) (app_panel_step (drawer_desc ''a'' TabSessions) exPanel EntryConfirmed)
         (EntryRemoved ''s1'' (Status 200 JNull))) ''s1''"
proof -
  have b: "has_button (drawer_desc ''a'' TabSessions) exPanel ''s1''" "ap_asking exPanel = Some ''s1''" "\<not> ap_crashed exPanel"
    by (simp_all add: has_button_def shown_entries_def exPanel_def drawer_desc_def sessionsPanel_def panel_mounted_def entry_id_def)
  then have "ap_log (app_panel_step (drawer_desc ''a'' TabSessions) exPanel EntryConfirmed) = ap_log exPanel
      @ [Sent (''DELETE'', pd_address (drawer_desc ''a'' TabSessions) @ ''/'' @ ''s1'', JNull)]"
    by (simp add: remove_press_def)
  from removals_are_confirmed_and_precise [OF this, of 200 JNull] b(2) show ?thesis
    by (auto simp: Let_def ok_status_def simp del: app_panel_step.simps)
qed

end
