(* ===== verification/SignIn.thy ===== *)
theory SignIn
  imports ProxyGate BackendServer Tables
begin

text \<open>
  Signing in: the pages \<open>app/signin/page.tsx\<close> and \<open>app/setup/page.tsx\<close>, which ask the backend whether the
  first-run wizard is due, and \<open>components/auth/signin-panel.tsx\<close>. NextAuth's \<open>signIn\<close> is a parameter:
  what it ends with is an event.
\<close>

section \<open>The pages\<close>

text \<open>What a page ends with: a redirect, or its content.\<close>

datatype 'p page = Redirected string | Page 'p

definition statusRequest :: "env \<Rightarrow> http_request" where
  "statusRequest E = \<lparr>rq_method = ''GET'', rq_url = getBackendBaseUrl E @ ''/api/v1/setup/status'', rq_headers = [],
     rq_body = NoBody, rq_no_store = True\<rparr>"

definition checkSetupRequired :: "bool eff" where
  "checkSetupRequired =
     try_catch
       (seq (ask statusRequest) (\<lambda>rq.
        seq (fetch rq) (\<lambda>res.
        if \<not> rs_ok res then ret False
        else seq (response_json res) (\<lambda>data.
             seq (js_member data ''setupRequired'') (\<lambda>v. ret (v = Some (JBool True)))))))
       (\<lambda>_. ret False)"

definition getSetupStatus :: "json eff" where
  "getSetupStatus =
     try_catch
       (seq (ask statusRequest) (\<lambda>rq.
        seq (fetch rq) (\<lambda>res.
        if \<not> rs_ok res then ret (JObj [(''setupRequired'', JBool False)]) else response_json res)))
       (\<lambda>_. ret (JObj [(''setupRequired'', JBool False)]))"

text \<open>The destructuring of the status is outside of the \<open>try\<close>.\<close>

definition SetupPage :: "unit page eff" where
  "SetupPage = seq getSetupStatus (\<lambda>st. seq (js_member st ''setupRequired'') (\<lambda>v.
     ret (if \<not> truthy_json v then Redirected ''/'' else Page ())))"

record signin_props =
  sp_callbackUrl :: string
  sp_oidcEnabled :: bool
  sp_oidcDisplayName :: string
  sp_localAccountsEnabled :: bool
  sp_localRegistrationEnabled :: bool

definition SignInPage :: "string option \<Rightarrow> signin_props page eff" where
  "SignInPage callbackUrl =
     seq checkSetupRequired (\<lambda>required.
     if required then ret (Redirected ''/setup'')
     else seq (ask isLocalAccountsEnabled) (\<lambda>la.
          seq (ask isLocalRegistrationEnabled) (\<lambda>lr.
          seq isOIDCEnabled (\<lambda>oe.
          seq getOIDCDisplayName (\<lambda>dn.
          ret (Page \<lparr>sp_callbackUrl = or_str callbackUrl ''/'', sp_oidcEnabled = oe, sp_oidcDisplayName = dn,
                     sp_localAccountsEnabled = la, sp_localRegistrationEnabled = lr\<rparr>))))))"

section \<open>The panel\<close>

datatype auth_mode = ModeSignIn | ModeRegister

text \<open>
  \<open>si_flows\<close>: the submissions under way, a sign-in, a registration with the credentials its closure has
  captured, and the sign-in that follows it.
\<close>

datatype signin_flow = Direct | Registering string string | AfterRegister

datatype signin_effect =
    TriedCredentials string string string | StartedOIDC string | SentRegister json
  | Pushed string | PageRefreshed

record signin_panel =
  si_email :: string
  si_password :: string
  si_registerName :: string
  si_registerEmail :: string
  si_registerPassword :: string
  si_error :: "json option"
  si_success :: "string option"
  si_mode :: auth_mode
  si_flows :: "signin_flow list"
  si_log :: "signin_effect list"

definition signin_start :: signin_panel where
  "signin_start = \<lparr>si_email = [], si_password = [], si_registerName = [], si_registerEmail = [], si_registerPassword = [],
     si_error = None, si_success = None, si_mode = ModeSignIn, si_flows = [], si_log = []\<rparr>"

definition handleOIDCSignIn :: "signin_props \<Rightarrow> signin_panel \<Rightarrow> signin_panel" where
  "handleOIDCSignIn P s = s\<lparr>si_error := None, si_success := None, si_log := si_log s @ [StartedOIDC (sp_callbackUrl P)]\<rparr>"

definition handleLocalSignIn :: "signin_props \<Rightarrow> signin_panel \<Rightarrow> signin_panel" where
  "handleLocalSignIn P s = s\<lparr>si_error := None, si_success := None, si_flows := si_flows s @ [Direct],
     si_log := si_log s @ [TriedCredentials (si_email s) (si_password s) (sp_callbackUrl P)]\<rparr>"

definition handleRegister :: "signin_panel \<Rightarrow> signin_panel" where
  "handleRegister s = s\<lparr>si_error := None, si_success := None,
     si_flows := si_flows s @ [Registering (si_registerEmail s) (si_registerPassword s)],
     si_log := si_log s @ [SentRegister (JObj [(''name'', JStr (si_registerName s)), (''email'', JStr (si_registerEmail s)),
       (''password'', JStr (si_registerPassword s))])]\<rparr>"

text \<open>What \<open>signIn\<close> with \<open>redirect: false\<close> ends with: nothing, or an error and an address.\<close>

record signin_result =
  sr_error :: "string option"
  sr_url :: "string option"

definition arrive :: "signin_props \<Rightarrow> signin_result \<Rightarrow> signin_panel \<Rightarrow> signin_panel" where
  "arrive P r s = s\<lparr>si_log := si_log s @ [Pushed (or_str (sr_url r) (sp_callbackUrl P)), PageRefreshed]\<rparr>"

definition signed_in :: "signin_props \<Rightarrow> signin_result option \<Rightarrow> signin_panel \<Rightarrow> signin_panel" where
  "signed_in P a s =
     (case a of
        None \<Rightarrow> s\<lparr>si_error := Some (JStr ''Sign-in failed.'')\<rparr>
      | Some r \<Rightarrow>
          if truthy (sr_error r) then s\<lparr>si_error := Some (JStr (the (sr_error r)))\<rparr>
          else arrive P r s)"

definition registered :: "signin_props \<Rightarrow> string \<Rightarrow> string \<Rightarrow> int \<Rightarrow> json \<Rightarrow> signin_panel \<Rightarrow> signin_panel" where
  "registered P email password n body s =
     (if \<not> ok_status n then s\<lparr>si_error := Some (error_or body ''Registration failed.'')\<rparr>
      else s\<lparr>si_flows := si_flows s @ [AfterRegister],
             si_log := si_log s @ [TriedCredentials email password (sp_callbackUrl P)]\<rparr>)"

definition signed_in_after :: "signin_props \<Rightarrow> signin_result option \<Rightarrow> signin_panel \<Rightarrow> signin_panel" where
  "signed_in_after P a s =
     (case a of
        None \<Rightarrow> s\<lparr>si_success := Some ''Account created. Sign in with the new credentials.''\<rparr>
      | Some r \<Rightarrow>
          if truthy (sr_error r) then s\<lparr>si_success := Some ''Account created. Sign in with the new credentials.''\<rparr>
          else arrive P r s)"

datatype signin_event =
    OIDCPressed | EmailTyped string | PasswordTyped string | RegisterTyped string string string
  | ModeChosen auth_mode | SignInSubmitted | RegisterSubmitted
  | SignInAnswered "signin_result option" | RegisterAnswered string string status_answer
  | AfterRegisterAnswered "signin_result option" | FlowFailed signin_flow

definition local_shown :: "signin_props \<Rightarrow> bool" where
  "local_shown P \<longleftrightarrow> sp_localAccountsEnabled P \<or> sp_localRegistrationEnabled P"

definition signin_form_shown :: "signin_props \<Rightarrow> signin_panel \<Rightarrow> bool" where
  "signin_form_shown P s \<longleftrightarrow> local_shown P \<and> (si_mode s = ModeSignIn \<or> \<not> sp_localRegistrationEnabled P)"

definition register_form_shown :: "signin_props \<Rightarrow> signin_panel \<Rightarrow> bool" where
  "register_form_shown P s \<longleftrightarrow> local_shown P \<and> si_mode s = ModeRegister \<and> sp_localRegistrationEnabled P"

definition end_flow :: "signin_flow \<Rightarrow> signin_panel \<Rightarrow> signin_panel" where
  "end_flow f s = s\<lparr>si_flows := remove1 f (si_flows s)\<rparr>"

text \<open>\<open>FlowFailed\<close>: \<open>signIn\<close> or \<open>fetch\<close> rejects, which no handler catches.\<close>

fun signin_step :: "signin_props \<Rightarrow> signin_panel \<Rightarrow> signin_event \<Rightarrow> signin_panel" where
  "signin_step P s OIDCPressed = (if sp_oidcEnabled P then handleOIDCSignIn P s else s)"
| "signin_step P s (EmailTyped v) =
     (if signin_form_shown P s \<and> sp_localAccountsEnabled P then s\<lparr>si_email := v\<rparr> else s)"
| "signin_step P s (PasswordTyped v) =
     (if signin_form_shown P s \<and> sp_localAccountsEnabled P then s\<lparr>si_password := v\<rparr> else s)"
| "signin_step P s (RegisterTyped n e p) =
     (if register_form_shown P s then s\<lparr>si_registerName := n, si_registerEmail := e, si_registerPassword := p\<rparr> else s)"
| "signin_step P s (ModeChosen m) = (if sp_localRegistrationEnabled P then s\<lparr>si_mode := m\<rparr> else s)"
| "signin_step P s SignInSubmitted =
     (if signin_form_shown P s \<and> sp_localAccountsEnabled P then handleLocalSignIn P s else s)"
| "signin_step P s RegisterSubmitted = (if register_form_shown P s then handleRegister s else s)"
| "signin_step P s (SignInAnswered a) =
     (if Direct \<in> set (si_flows s) then signed_in P a (end_flow Direct s) else s)"
| "signin_step P s (RegisterAnswered e p a) =
     (case a of
        Rejected \<Rightarrow> end_flow (Registering e p) s
      | Status n body \<Rightarrow>
          if Registering e p \<in> set (si_flows s) then registered P e p n body (end_flow (Registering e p) s) else s)"
| "signin_step P s (AfterRegisterAnswered a) =
     (if AfterRegister \<in> set (si_flows s) then signed_in_after P a (end_flow AfterRegister s) else s)"
| "signin_step P s (FlowFailed f) = end_flow f s"

definition signin_fresh :: "signin_panel \<Rightarrow> bool" where
  "signin_fresh s \<longleftrightarrow> s = signin_start"

definition signin_trans :: "signin_props \<Rightarrow> signin_panel \<Rightarrow> signin_event \<Rightarrow> signin_panel \<Rightarrow> bool" where
  "signin_trans P s e t \<longleftrightarrow> t = signin_step P s e"

section \<open>The two pages agree\<close>

definition status_answer_of :: "env \<Rightarrow> fetch_result" where
  "status_answer_of E = backend E [] (statusRequest E)"

definition same_status :: "env \<Rightarrow> bool" where
  "same_status E \<longleftrightarrow> (\<forall>h. backend E h (statusRequest E) = status_answer_of E)"

definition setup_due :: "env \<Rightarrow> json option" where
  "setup_due E = (case status_answer_of E of
     NetworkError m \<Rightarrow> None
   | Responded rs \<Rightarrow> if \<not> rs_ok rs then None
                     else (case rs_json rs of Inl m \<Rightarrow> None | Inr v \<Rightarrow> jprop v ''setupRequired''))"

lemma checkSetupRequired_run:
  "same_status E \<Longrightarrow> \<exists>w'. checkSetupRequired E w = (Done (setup_due E = Some (JBool True)), w')"
  unfolding same_status_def
  by (auto simp: checkSetupRequired_def setup_due_def eff_simps response_json_def js_member_def Let_def
      split: fetch_result.split sum.split)

lemma SetupPage_due:
  "same_status E \<Longrightarrow> setup_due E = Some v \<Longrightarrow> \<exists>w'. SetupPage E w = (Done (if truthy_json (Some v) then Page () else Redirected ''/''), w')"
  unfolding same_status_def
  by (auto simp: SetupPage_def getSetupStatus_def setup_due_def eff_simps response_json_def js_member_def Let_def
      split: fetch_result.splits sum.splits if_splits)

lemma SignInPage_stays:
  assumes "same_status E" "setup_due E \<noteq> Some (JBool True)"
  shows "\<exists>p w'. SignInPage cb E w = (Done (Page p), w')"
proof -
  obtain w1 where 1: "checkSetupRequired E w = (Done False, w1)"
    using checkSetupRequired_run [OF assms(1), of w] assms(2) by auto
  have "returns isOIDCEnabled" "returns getOIDCDisplayName"
    unfolding isOIDCEnabled_def getOIDCDisplayName_def by (intro returns_seq returns_getResolvedOIDC returns_ret)+
  then obtain oe w2 dn w3 where 2: "isOIDCEnabled E w1 = (Done oe, w2)" and 3: "getOIDCDisplayName E w2 = (Done dn, w3)"
    unfolding returns_def by meson
  show ?thesis by (simp add: SignInPage_def seq_def 1 2 3 ask_def ret_def)
qed

lemma SignInPage_redirects:
  assumes "same_status E" "setup_due E = Some (JBool True)"
  shows "\<exists>w'. SignInPage cb E w = (Done (Redirected ''/setup''), w')"
proof -
  obtain w1 where "checkSetupRequired E w = (Done True, w1)"
    using checkSetupRequired_run [OF assms(1), of w] assms(2) by auto
  then show ?thesis by (simp add: SignInPage_def seq_def ret_def)
qed

text \<open>C33: For a backend whose status does not change in between, the two pages do not send the user to and
  fro: the sign-in page redirects exactly when the wizard is due, and then to the setup page, which
  stays; otherwise it shows the panel.
\<close>

theorem setup_and_sign_in_do_not_loop:
  assumes "same_status E"
  shows "(\<exists>p w1. SignInPage cb E w = (Done (Page p), w1))
     \<or> (\<exists>w1. SignInPage cb E w = (Done (Redirected ''/setup''), w1) \<and> (\<forall>w2. \<exists>w3. SetupPage E w2 = (Done (Page ()), w3)))"
proof (cases "setup_due E = Some (JBool True)")
  case True
  then show ?thesis using SignInPage_redirects [OF assms True] SetupPage_due [OF assms True] by simp
next
  case False
  then show ?thesis using SignInPage_stays [OF assms False] by blast
qed

section \<open>The panel\<close>

definition account_body :: "string \<Rightarrow> string \<Rightarrow> string \<Rightarrow> json" where
  "account_body n e p = JObj [(''name'', JStr n), (''email'', JStr e), (''password'', JStr p)]"

fun effect_ok :: "signin_props \<Rightarrow> signin_effect set \<Rightarrow> signin_effect \<Rightarrow> bool" where
  "effect_ok P l (TriedCredentials e p c) =
     (c = sp_callbackUrl P \<and> (sp_localAccountsEnabled P \<or> (\<exists>n. SentRegister (account_body n e p) \<in> l)))"
| "effect_ok P l (StartedOIDC c) = (sp_oidcEnabled P \<and> c = sp_callbackUrl P)"
| "effect_ok P l (SentRegister b) = sp_localRegistrationEnabled P"
| "effect_ok P l (Pushed u) = True"
| "effect_ok P l PageRefreshed = True"

definition signin_inv :: "signin_props \<Rightarrow> signin_panel \<Rightarrow> bool" where
  "signin_inv P s \<longleftrightarrow> (\<forall>x \<in> set (si_log s). effect_ok P (set (si_log s)) x)
     \<and> (\<forall>e p. Registering e p \<in> set (si_flows s) \<longrightarrow> (\<exists>n. SentRegister (account_body n e p) \<in> set (si_log s)))"

lemma effect_ok_mono: "effect_ok P l x \<Longrightarrow> l \<subseteq> m \<Longrightarrow> effect_ok P m x"
  by (cases x) auto

lemma signin_inv_log:
  assumes "signin_inv P s" "si_log t = si_log s @ xs" "\<And>x. x \<in> set xs \<Longrightarrow> effect_ok P (set (si_log t)) x"
    and "\<And>e p. Registering e p \<in> set (si_flows t) \<Longrightarrow> Registering e p \<in> set (si_flows s) \<or> (\<exists>n. SentRegister (account_body n e p) \<in> set xs)"
  shows "signin_inv P t"
proof -
  have "effect_ok P (set (si_log t)) x" if "x \<in> set (si_log s)" for x
    using assms(1) that effect_ok_mono [of P "set (si_log s)" x "set (si_log t)"] assms(2) by (auto simp: signin_inv_def)
  moreover have "\<exists>n. SentRegister (account_body n e p) \<in> set (si_log t)" if "Registering e p \<in> set (si_flows t)" for e p
    using assms(4) [OF that]
  proof
    assume "Registering e p \<in> set (si_flows s)"
    then obtain n where "SentRegister (account_body n e p) \<in> set (si_log s)"
      using assms(1) unfolding signin_inv_def by blast
    then show ?thesis by (auto simp: assms(2))
  qed (auto simp: assms(2))
  ultimately show ?thesis using assms(3) unfolding signin_inv_def assms(2) by auto
qed

lemma signin_inv_same:
  assumes "signin_inv P s" "si_log t = si_log s" "set (si_flows t) \<subseteq> set (si_flows s) \<union> {Direct, AfterRegister}"
  shows "signin_inv P t"
  using assms(2,3) by (intro signin_inv_log [OF assms(1), of _ "[]"]) auto

lemma end_flow_frame [simp]: "si_log (end_flow f s) = si_log s" "set (si_flows (end_flow f s)) \<subseteq> set (si_flows s)"
  by (simp_all add: end_flow_def set_remove1_subset)

lemma end_flow_inv: "signin_inv P s \<Longrightarrow> signin_inv P (end_flow f s)"
  by (rule signin_inv_same) (auto dest: subsetD [OF end_flow_frame(2)])

lemma arrive_inv: "signin_inv P s \<Longrightarrow> signin_inv P (arrive P r s)"
  by (rule signin_inv_log [where xs = "[Pushed (or_str (sr_url r) (sp_callbackUrl P)), PageRefreshed]"]) (auto simp: arrive_def)

lemma signed_in_inv: "signin_inv P s \<Longrightarrow> signin_inv P (signed_in P a s)"
  by (cases a) (auto simp: signed_in_def intro: arrive_inv signin_inv_same)

lemma signed_in_after_inv: "signin_inv P s \<Longrightarrow> signin_inv P (signed_in_after P a s)"
  by (cases a) (auto simp: signed_in_after_def intro: arrive_inv signin_inv_same)

lemma registered_inv:
  assumes "signin_inv P s" "\<exists>n. SentRegister (account_body n e p) \<in> set (si_log s)"
  shows "signin_inv P (registered P e p n body s)"
proof (cases "ok_status n")
  case True
  show ?thesis
    by (rule signin_inv_log [OF assms(1), where xs = "[TriedCredentials e p (sp_callbackUrl P)]"])
       (use True assms(2) in \<open>auto simp: registered_def\<close>)
qed (rule signin_inv_same [OF assms(1)], auto simp: registered_def)

lemma signin_inv_step: "signin_inv P s \<Longrightarrow> signin_inv P (signin_step P s e)"
proof (cases e)
  case OIDCPressed
  assume inv: "signin_inv P s"
  show ?thesis
    using inv unfolding OIDCPressed
    by (auto simp: handleOIDCSignIn_def intro: signin_inv_log [where xs = "[StartedOIDC (sp_callbackUrl P)]"])
next
  case SignInSubmitted
  assume inv: "signin_inv P s"
  show ?thesis
    using inv unfolding SignInSubmitted
    by (auto simp: handleLocalSignIn_def
        intro: signin_inv_log [where xs = "[TriedCredentials (si_email s) (si_password s) (sp_callbackUrl P)]"])
next
  case RegisterSubmitted
  assume inv: "signin_inv P s"
  show ?thesis
    using inv unfolding RegisterSubmitted
    by (auto simp: handleRegister_def register_form_shown_def account_body_def
        intro!: signin_inv_log [OF inv, where xs = "[SentRegister (account_body (si_registerName s) (si_registerEmail s) (si_registerPassword s))]"])
next
  case (RegisterAnswered em p a)
  assume inv: "signin_inv P s"
  show ?thesis
  proof (cases a)
    case Rejected
    with inv RegisterAnswered show ?thesis by (simp add: end_flow_inv)
  next
    case (Status n body)
    have "\<exists>n. SentRegister (account_body n em p) \<in> set (si_log s)" if "Registering em p \<in> set (si_flows s)"
      using inv that by (simp add: signin_inv_def)
    then show ?thesis using inv RegisterAnswered Status by (simp add: registered_inv end_flow_inv)
  qed
qed (auto simp: end_flow_inv signed_in_inv signed_in_after_inv intro: signin_inv_same)

interpretation sign_in: invariant signin_fresh "signin_trans P" "signin_inv P" for P
proof
  show "signin_inv P s" if "signin_fresh s" for s
    using that by (simp add: signin_fresh_def signin_start_def signin_inv_def)
  show "signin_inv P t" if "signin_trans P s e t" "signin_inv P s" for s e t
    using that signin_inv_step by (simp add: signin_trans_def)
qed

text \<open>C34: The panel offers only what is enabled: single sign-on where it is configured, a registration where
  it is allowed, and an attempt with credentials only where local accounts are enabled, or for an
  account that has just been registered with exactly these; each of them leads back to the page
  asked for.
\<close>

theorem only_enabled_ways_in_are_used:
  assumes "reach signin_fresh (signin_trans P) s"
  shows "(\<forall>b. SentRegister b \<in> set (si_log s) \<longrightarrow> sp_localRegistrationEnabled P)
     \<and> (\<forall>c. StartedOIDC c \<in> set (si_log s) \<longrightarrow> sp_oidcEnabled P \<and> c = sp_callbackUrl P)
     \<and> (\<forall>e p c. TriedCredentials e p c \<in> set (si_log s) \<longrightarrow> c = sp_callbackUrl P
          \<and> (sp_localAccountsEnabled P \<or> (\<exists>n. SentRegister (account_body n e p) \<in> set (si_log s))))"
  using sign_in.reach_inv [OF assms] unfolding signin_inv_def by fastforce

text \<open>
  A registration that succeeds signs in with the credentials it has registered, whatever has been
  typed since.
\<close>

theorem registered_account_signs_in:
  assumes "register_form_shown P s" "ok_status n"
  shows "si_log (foldl (signin_step P) s [RegisterSubmitted, RegisterTyped n' e' p',
        RegisterAnswered (si_registerEmail s) (si_registerPassword s) (Status n body)])
     = si_log s @ [SentRegister (account_body (si_registerName s) (si_registerEmail s) (si_registerPassword s)),
                   TriedCredentials (si_registerEmail s) (si_registerPassword s) (sp_callbackUrl P)]"
proof -
  have "register_form_shown P (handleRegister s)" using assms(1) by (simp add: register_form_shown_def handleRegister_def)
  with assms show ?thesis
    by (simp add: account_body_def) (simp add: handleRegister_def registered_def end_flow_def)
qed


text \<open>A registration or a sign-in whose request fails on the way says nothing.\<close>

theorem lost_registration_is_silent:
  "si_error (signin_step P s (RegisterAnswered e p Rejected)) = si_error s
   \<and> si_success (signin_step P s (RegisterAnswered e p Rejected)) = si_success s
   \<and> si_log (signin_step P s (RegisterAnswered e p Rejected)) = si_log s"
  by (simp add: end_flow_def)

section \<open>Examples\<close>

definition due_env :: env where
  "due_env = dead_env\<lparr>backend := (\<lambda>_ _. Responded \<lparr>rs_status = 200, rs_headers = [], rs_text = [],
     rs_json = Inr (JObj [(''setupRequired'', JBool True)])\<rparr>)\<rparr>"

theorem setup_and_sign_in_do_not_loop_witness:
  "(\<exists>p w1. SignInPage None due_env example_world = (Done (Page p), w1))
     \<or> (\<exists>w1. SignInPage None due_env example_world = (Done (Redirected ''/setup''), w1)
          \<and> (\<forall>w2. \<exists>w3. SetupPage due_env w2 = (Done (Page ()), w3)))"
  by (rule setup_and_sign_in_do_not_loop) (simp add: same_status_def status_answer_of_def due_env_def)

definition exSignIn :: signin_props where
  "exSignIn = \<lparr>sp_callbackUrl = ''/'', sp_oidcEnabled = True, sp_oidcDisplayName = ''IdP'', sp_localAccountsEnabled = True,
     sp_localRegistrationEnabled = True\<rparr>"

lemma exSignIn_reach: "reach signin_fresh (signin_trans exSignIn) (signin_step exSignIn signin_start OIDCPressed)"
  by (rule reach_step [where e = OIDCPressed, OF reach_init]) (simp_all add: signin_fresh_def signin_trans_def)

theorem only_enabled_ways_in_are_used_witness:
  "StartedOIDC ''/'' \<in> set (si_log (signin_step exSignIn signin_start OIDCPressed)) \<and> sp_oidcEnabled exSignIn"
proof -
  have "StartedOIDC ''/'' \<in> set (si_log (signin_step exSignIn signin_start OIDCPressed))"
    by (simp add: exSignIn_def handleOIDCSignIn_def)
  with only_enabled_ways_in_are_used [OF exSignIn_reach] show ?thesis by blast
qed


end
