(* ===== verification/Team.thy ===== *)
theory Team
  imports RowActions
begin

text \<open>
  Organisations and their people: the small forms of \<open>components/admin/create-org-modal.tsx\<close>,
  \<open>invite-modal.tsx\<close>, \<open>add-member-modal.tsx\<close>, \<open>org-ip-rules-table.tsx\<close> and \<open>platform-admins-table.tsx\<close> as one
  machine over a description of each, \<open>org-switcher.tsx\<close>, the labels of expiry, and the page on which an
  invite is accepted, \<open>app/join/page.tsx\<close>.
\<close>

section \<open>Small forms\<close>

text \<open>What other forms do, the organisation of the session, and \<open>router.replace\<close>.\<close>

datatype team_effect = Did form_effect | ActiveOrg "json option" | Replaced string

text \<open>
  A form has up to two texts. \<open>tf_own\<close>, \<open>tf_refresh\<close>: its button is disabled while its own request runs,
  while the page is refreshed. \<open>tf_freezes\<close>: so are its inputs while it runs. \<open>tf_modal\<close>: it is shown in a modal, which \<open>tf_closes\<close> says it closes when
  done. \<open>tf_refused\<close>: the error shown, \<open>None\<close> if reading it throws; \<open>tf_lost\<close>: what is shown when something
  throws; \<open>tf_done\<close> is \<open>None\<close> where the handler throws.
\<close>

record team_form =
  tf_check :: "string \<times> string \<Rightarrow> string option"
  tf_request :: "string \<times> string \<Rightarrow> client_call"
  tf_refused :: "int \<Rightarrow> json \<Rightarrow> json option"
  tf_lost :: "json option"
  tf_done :: "string \<times> string \<Rightarrow> json \<Rightarrow> team_effect list option"
  tf_initial :: "string \<times> string"
  tf_own :: bool
  tf_refresh :: bool
  tf_freezes :: bool
  tf_modal :: bool
  tf_closes :: bool

definition error_opt :: "json \<Rightarrow> string \<Rightarrow> json option" where
  "error_opt body msg = Some (error_or body msg)"

definition createOrg :: team_form where
  "createOrg = \<lparr>
     tf_check = (\<lambda>(name, _). if blank name then Some ''Organisation name is required.'' else None),
     tf_request = (\<lambda>(name, _). (''POST'', ''/api/admin/orgs'', JObj [(''name'', JStr (trim name))])),
     tf_refused = (\<lambda>n body. error_opt body ''Failed to create organisation.''), tf_lost = None,
     tf_done = (\<lambda>_ org. if org = JNull then None
        else Some [ActiveOrg (jprop org ''id''),
                   Did (Toasted ''Organisation created'' (case jprop org ''name'' of None \<Rightarrow> [] | Some n \<Rightarrow> [n]) ''success''),
                   Did (Created org), Did Refreshed]),
     tf_initial = ([], []), tf_own = False, tf_refresh = True, tf_freezes = False, tf_modal = True, tf_closes = True\<rparr>"

definition orgs_address :: "string \<Rightarrow> string \<Rightarrow> string" where
  "orgs_address org what = ''/api/admin/orgs/'' @ encodeURIComponent org @ what"

definition inviteForm :: "string \<Rightarrow> team_form" where
  "inviteForm org = \<lparr>
     tf_check = (\<lambda>_. None),
     tf_request = (\<lambda>_. (''POST'', orgs_address org ''/invites'', JObj [])),
     tf_refused = (\<lambda>n body. error_opt body ''Failed to create invite.''), tf_lost = None,
     tf_done = (\<lambda>_ _. Some [Did (Toasted ''Invite link generated'' [JStr ''Valid for 7 days''] ''success'')]),
     tf_initial = ([], []), tf_own = True, tf_refresh = False, tf_freezes = False, tf_modal = True, tf_closes = False\<rparr>"

definition addMember :: "string \<Rightarrow> team_form" where
  "addMember org = \<lparr>
     tf_check = (\<lambda>(email, _). if blank email then Some ''Email is required.'' else None),
     tf_request = (\<lambda>(email, role). (''POST'', orgs_address org ''/members'',
        JObj [(''email'', JStr (trim email)), (''role'', JStr (or_str (Some role) ''member''))])),
     tf_refused = (\<lambda>n body. if n = 404
        then Some (JStr ''No account found for that email. The user must sign in at least once before they can be added.'')
        else error_opt body ''Failed to add member.''), tf_lost = None,
     tf_done = (\<lambda>(email, role) data.
        Some [Did (Toasted ''Member added'' [or_json (jprop data ''userEmail'') (JStr (trim email)), JStr '' joined as '',
                     JStr (or_str (Some role) ''member'')] ''success''), Did Refreshed]),
     tf_initial = ([], ''member''), tf_own = False, tf_refresh = False, tf_freezes = False, tf_modal = True, tf_closes = True\<rparr>"

text \<open>\<open>data.error ?? message\<close>; \<open>JNull\<close> is a body that does not parse, for which the code takes \<open>{}\<close>.\<close>

definition addIPRule :: team_form where
  "addIPRule = \<lparr>
     tf_check = (\<lambda>(cidr, _). if blank cidr then Some ''CIDR is required.'' else None),
     tf_request = (\<lambda>(cidr, description). (''POST'', ''/api/admin/org-ip-rules'',
        JObj [(''cidr'', JStr (trim cidr)), (''description'', JStr (trim description))])),
     tf_refused = (\<lambda>n body. Some (error_nullish body ''Failed to add rule.'')),
     tf_lost = Some (JStr ''Network error. Please try again.''),
     tf_done = (\<lambda>_ _. Some [Did (Toasted ''IP rule added'' [] ''success''), Did Refreshed]),
     tf_initial = ([], []), tf_own = True, tf_refresh = True, tf_freezes = True, tf_modal = False, tf_closes = False\<rparr>"

text \<open>The field is \<open>required\<close>: the browser does not submit it empty.\<close>

definition grantAdmin :: team_form where
  "grantAdmin = \<lparr>
     tf_check = (\<lambda>(email, _). if email = [] then Some [] else None),
     tf_request = (\<lambda>(email, _). (''POST'', ''/api/admin/platform/admins'', JObj [(''email'', JStr email)])),
     tf_refused = (\<lambda>n body. error_opt body ''Failed to grant platform admin''),
     tf_lost = Some (JStr ''Network error''),
     tf_done = (\<lambda>_ _. Some [Did Refreshed]),
     tf_initial = ([], []), tf_own = True, tf_refresh = True, tf_freezes = False, tf_modal = False, tf_closes = False\<rparr>"

text \<open>\<open>tm_running\<close>: the texts of the submissions under way, \<open>tm_result\<close>: the invite shown instead of the form.\<close>

record team_state =
  tm_open :: bool
  tm_texts :: "string \<times> string"
  tm_error :: "json option"
  tm_running :: "(string \<times> string) list"
  tm_refreshing :: bool
  tm_result :: "json option"
  tm_log :: "team_effect list"

definition team_start :: "team_form \<Rightarrow> team_state" where
  "team_start F = \<lparr>tm_open = (\<not> tf_modal F), tm_texts = tf_initial F, tm_error = None, tm_running = [],
     tm_refreshing = False, tm_result = None, tm_log = []\<rparr>"

definition team_blocked :: "team_form \<Rightarrow> team_state \<Rightarrow> bool" where
  "team_blocked F s \<longleftrightarrow> tf_own F \<and> tm_running s \<noteq> [] \<or> tf_refresh F \<and> tm_refreshing s"

definition team_close :: "team_form \<Rightarrow> team_state \<Rightarrow> team_state" where
  "team_close F s = s\<lparr>tm_open := \<not> tf_modal F, tm_texts := tf_initial F, tm_error := None, tm_result := None\<rparr>"

definition team_submit :: "team_form \<Rightarrow> team_state \<Rightarrow> team_state" where
  "team_submit F s =
     (case tf_check F (tm_texts s) of
        Some e \<Rightarrow> s\<lparr>tm_error := Some (JStr e)\<rparr>
      | None \<Rightarrow> s\<lparr>tm_error := None, tm_running := tm_running s @ [tm_texts s],
                  tm_log := tm_log s @ [Did (Sent (tf_request F (tm_texts s)))]\<rparr>)"

definition team_lost :: "team_form \<Rightarrow> team_state \<Rightarrow> team_state" where
  "team_lost F s = (case tf_lost F of None \<Rightarrow> s | Some e \<Rightarrow> s\<lparr>tm_error := Some e\<rparr>)"

definition team_answered :: "team_form \<Rightarrow> string \<times> string \<Rightarrow> status_answer \<Rightarrow> team_state \<Rightarrow> team_state" where
  "team_answered F x a s =
     (let s' = s\<lparr>tm_running := remove1 x (tm_running s)\<rparr> in
      case a of
        Rejected \<Rightarrow> team_lost F s'
      | Status n body \<Rightarrow>
          if \<not> ok_status n then (case tf_refused F n body of None \<Rightarrow> team_lost F s' | Some e \<Rightarrow> s'\<lparr>tm_error := Some e\<rparr>)
          else (case tf_done F x body of
              None \<Rightarrow> team_lost F s'
            | Some es \<Rightarrow>
                (let t = s'\<lparr>tm_log := tm_log s @ es, tm_refreshing := tm_refreshing s \<or> (tf_refresh F \<and> Did Refreshed \<in> set es)\<rparr> in
                 if tf_closes F then t\<lparr>tm_open := False, tm_texts := tf_initial F\<rparr>
                 else if tf_modal F then t\<lparr>tm_result := (if body = JNull then None else Some body)\<rparr>
                 else t\<lparr>tm_texts := tf_initial F\<rparr>)))"

datatype team_event =
    TeamOpened | TeamClosed | TextsTyped "string \<times> string" | TeamSubmitted
  | TeamAnswered "string \<times> string" status_answer | TeamRefreshed

fun team_step :: "team_form \<Rightarrow> team_state \<Rightarrow> team_event \<Rightarrow> team_state" where
  "team_step F s TeamOpened = s\<lparr>tm_open := True\<rparr>"
| "team_step F s TeamClosed = team_close F s"
| "team_step F s (TextsTyped x) =
     (if tm_open s \<and> tm_result s = None \<and> \<not> (tf_freezes F \<and> tm_running s \<noteq> []) then s\<lparr>tm_texts := x\<rparr> else s)"
| "team_step F s TeamSubmitted =
     (if tm_open s \<and> tm_result s = None \<and> \<not> team_blocked F s then team_submit F s else s)"
| "team_step F s (TeamAnswered x a) = (if x \<in> set (tm_running s) then team_answered F x a s else s)"
| "team_step F s TeamRefreshed = s\<lparr>tm_refreshing := False\<rparr>"

definition team_fresh :: "team_form \<Rightarrow> team_state \<Rightarrow> bool" where
  "team_fresh F s \<longleftrightarrow> s = team_start F"

definition team_trans :: "team_form \<Rightarrow> team_state \<Rightarrow> team_event \<Rightarrow> team_state \<Rightarrow> bool" where
  "team_trans F s e t \<longleftrightarrow> t = team_step F s e"

section \<open>The switcher of organisations\<close>

record switcher =
  sw_orgs :: "json list"
  sw_open :: bool
  sw_refreshing :: bool
  sw_log :: "team_effect list"

datatype switcher_event = SwitcherLoaded "json option" | SwitcherPressed | PressedOutsideSwitcher | OrgChosen string | OrgCreated json | SwitchEnded

text \<open>The session's update has come to its end when \<open>Refreshed\<close> is logged.\<close>

fun switcher_step :: "switcher \<Rightarrow> switcher_event \<Rightarrow> switcher" where
  "switcher_step s (SwitcherLoaded a) = (case a of Some (JArr os) \<Rightarrow> s\<lparr>sw_orgs := os\<rparr> | _ \<Rightarrow> s)"
| "switcher_step s SwitcherPressed = (if sw_refreshing s then s else s\<lparr>sw_open := \<not> sw_open s\<rparr>)"
| "switcher_step s PressedOutsideSwitcher = s\<lparr>sw_open := False\<rparr>"
| "switcher_step s (OrgChosen i) =
     (if sw_open s \<and> (\<exists>o' \<in> set (sw_orgs s). jstr (jprop o' ''id'') = Some i)
      then s\<lparr>sw_open := False, sw_refreshing := True, sw_log := sw_log s @ [ActiveOrg (Some (JStr i)), Did Refreshed]\<rparr> else s)"
| "switcher_step s (OrgCreated o') = s\<lparr>sw_orgs := sw_orgs s @ [o']\<rparr>"
| "switcher_step s SwitchEnded = s\<lparr>sw_refreshing := False\<rparr>"

section \<open>Labels of expiry\<close>

definition day_len :: int where
  "day_len = 86400000"

text \<open>Of a grant: \<open>None\<close> shows nothing. A time that cannot be read compares with nothing.\<close>

definition expiryLabel :: "int \<Rightarrow> int option \<Rightarrow> (string \<times> bool) option" where
  "expiryLabel now t = (case t of
     None \<Rightarrow> None
   | Some e \<Rightarrow> (let ms = e - now; days = ceil_div ms day_len in
       if ms < 0 then Some (''Expired'', True)
       else if days \<le> 7 then Some (''Expires in '' @ show_int days @ ''d'', days \<le> 2)
       else None))"

text \<open>Of an invite in the list, and on the page where it is accepted.\<close>

definition inviteLabel :: "int \<Rightarrow> int option \<Rightarrow> string \<times> bool" where
  "inviteLabel now t = (case t of
     None \<Rightarrow> (''NaNd remaining'', False)
   | Some e \<Rightarrow> (let diff = e - now; days = diff div day_len in
       if diff < 0 then (''Expired'', True)
       else (if days = 0 then ''Expires today'' else show_int days @ ''d remaining'', days < 2)))"

definition joinLabel :: "int \<Rightarrow> int option \<Rightarrow> string" where
  "joinLabel now t = (case t of
     None \<Rightarrow> ''Expires in NaN days''
   | Some e \<Rightarrow> (let diff = e - now; days = diff div day_len in
       if diff < 0 then ''Expired''
       else if days = 0 then ''Expires today''
       else ''Expires in '' @ show_int days @ '' day'' @ (if days \<noteq> 1 then ''s'' else [])))"

section \<open>Accepting an invite\<close>

text \<open>The link that is copied: in the modal and in the list of invites.\<close>

definition inviteUrl :: "string \<Rightarrow> string \<Rightarrow> string" where
  "inviteUrl origin code = origin @ ''/join?code='' @ encodeURIComponent code"

datatype join_status = JoinLoading | JoinConfirm | Joining | JoinDone | JoinError

text \<open>\<open>jn_asking\<close>, \<open>jn_joining\<close>: the two requests under way; \<open>jn_timer\<close>: the one that leaves the page.\<close>

record join_page =
  jn_code :: string
  jn_preview :: "json option"
  jn_status :: join_status
  jn_message :: "json option"
  jn_asking :: bool
  jn_joining :: bool
  jn_timer :: bool
  jn_log :: "team_effect list"

definition join_start :: "string option \<Rightarrow> join_page" where
  "join_start param =
     (let code = nullish param [] in
      \<lparr>jn_code = code, jn_preview = None, jn_status = (if code \<noteq> [] then JoinLoading else JoinError),
       jn_message = (if code \<noteq> [] then None else Some (JStr ''No invite code provided.'')),
       jn_asking = (code \<noteq> []), jn_joining = False, jn_timer = False,
       jn_log = (if code = [] then [] else [Did (Sent (''GET'', ''/api/invite-preview?code='' @ encodeURIComponent code, JNull))])\<rparr>)"

definition previewed :: "status_answer \<Rightarrow> join_page \<Rightarrow> join_page" where
  "previewed a s =
     (let s' = s\<lparr>jn_asking := False\<rparr> in
      case a of
        Rejected \<Rightarrow> s'\<lparr>jn_status := JoinError, jn_message := Some (JStr ''Could not load invite details. Please try again.'')\<rparr>
      | Status n body \<Rightarrow>
          if \<not> ok_status n then s'\<lparr>jn_status := JoinError, jn_message := Some (error_or body ''Invalid or expired invite.'')\<rparr>
          else s'\<lparr>jn_preview := (if body = JNull then None else Some body), jn_status := JoinConfirm\<rparr>)"

definition handleAccept :: "join_page \<Rightarrow> join_page" where
  "handleAccept s =
     (if jn_status s \<noteq> JoinConfirm then s
      else s\<lparr>jn_status := Joining, jn_joining := True,
             jn_log := jn_log s @ [Did (Sent (''POST'', ''/api/admin/orgs/join'', JObj [(''code'', JStr (jn_code s))]))]\<rparr>)"

definition joined :: "status_answer \<Rightarrow> join_page \<Rightarrow> join_page" where
  "joined a s =
     (let s' = s\<lparr>jn_joining := False\<rparr>;
          lost = s'\<lparr>jn_status := JoinError, jn_message := Some (JStr ''Unexpected error. Please try again.'')\<rparr> in
      case a of
        Rejected \<Rightarrow> lost
      | Status n body \<Rightarrow>
          if \<not> ok_status n then s'\<lparr>jn_status := JoinError, jn_message := Some (error_or body ''Failed to accept invite.'')\<rparr>
          else if body = JNull then lost
          else s'\<lparr>jn_status := JoinDone, jn_timer := True, jn_log := jn_log s @ [ActiveOrg (jprop body ''orgID'')]\<rparr>)"

datatype join_event = PreviewAnswered status_answer | AcceptPressed | LeavePressed | JoinAnswered status_answer | JoinTimer

fun join_step :: "join_page \<Rightarrow> join_event \<Rightarrow> join_page" where
  "join_step s (PreviewAnswered a) = (if jn_asking s then previewed a s else s)"
| "join_step s AcceptPressed = (if jn_preview s \<noteq> None then handleAccept s else s)"
| "join_step s LeavePressed =
     (if jn_status s = JoinError \<or> jn_status s = JoinConfirm \<and> jn_preview s \<noteq> None
      then s\<lparr>jn_log := jn_log s @ [Replaced ''/'']\<rparr> else s)"
| "join_step s (JoinAnswered a) = (if jn_joining s then joined a s else s)"
| "join_step s JoinTimer = (if jn_timer s then s\<lparr>jn_timer := False, jn_log := jn_log s @ [Replaced ''/'']\<rparr> else s)"

definition join_fresh :: "join_page \<Rightarrow> bool" where
  "join_fresh s \<longleftrightarrow> (\<exists>c. s = join_start c)"

definition join_trans :: "join_page \<Rightarrow> join_event \<Rightarrow> join_page \<Rightarrow> bool" where
  "join_trans s e t \<longleftrightarrow> t = join_step s e"

section \<open>The contract of a small form\<close>

definition checked_call :: "team_form \<Rightarrow> client_call \<Rightarrow> bool" where
  "checked_call F c \<longleftrightarrow> (\<exists>x. c = tf_request F x \<and> tf_check F x = None)"

lemma checked_callI: "tf_check F x = None \<Longrightarrow> checked_call F (tf_request F x)"
  unfolding checked_call_def by blast

text \<open>What follows an answer sends nothing.\<close>

locale team_form_laws =
  fixes F :: team_form
  assumes quiet: "tf_done F x body = Some es \<Longrightarrow> Did (Sent c) \<notin> set es"
begin

definition team_inv :: "team_state \<Rightarrow> bool" where
  "team_inv s \<longleftrightarrow> (\<forall>c. Did (Sent c) \<in> set (tm_log s) \<longrightarrow> checked_call F c) \<and> (tf_own F \<longrightarrow> length (tm_running s) \<le> 1)"

lemma team_inv_frame:
  "team_inv s \<Longrightarrow> tm_log t = tm_log s \<Longrightarrow> length (tm_running t) \<le> length (tm_running s) \<Longrightarrow> team_inv t"
  unfolding team_inv_def by auto

lemma team_lost_frame [simp]: "tm_log (team_lost F s) = tm_log s" "tm_running (team_lost F s) = tm_running s"
  by (simp_all add: team_lost_def split: option.split)

lemma answered_running: "tm_running (team_answered F x a s) = remove1 x (tm_running s)"
  by (simp add: team_answered_def Let_def split: status_answer.split option.split)

lemma answered_log: "tm_log (team_answered F x a s) = tm_log s
    \<or> (\<exists>body es. tf_done F x body = Some es \<and> tm_log (team_answered F x a s) = tm_log s @ es)"
  by (cases a) (auto simp: team_answered_def Let_def split: option.split)

lemma team_inv_answered: "team_inv s \<Longrightarrow> team_inv (team_answered F x a s)"
proof -
  assume inv: "team_inv s"
  have "Did (Sent c) \<in> set (tm_log (team_answered F x a s)) \<longleftrightarrow> Did (Sent c) \<in> set (tm_log s)" for c
    using answered_log [of x a s] quiet [where c = c and x = x] by (elim disjE exE conjE) auto
  moreover have "length (tm_running (team_answered F x a s)) \<le> length (tm_running s)"
    by (simp add: answered_running length_remove1)
  ultimately show ?thesis using inv unfolding team_inv_def by auto
qed

lemma team_inv_submit:
  assumes "team_inv s" "\<not> team_blocked F s"
  shows "team_inv (team_submit F s)"
proof (cases "tf_check F (tm_texts s)")
  case None
  then show ?thesis using assms checked_callI [OF None] by (auto simp: team_inv_def team_submit_def team_blocked_def)
next
  case (Some e)
  then show ?thesis by (intro team_inv_frame [OF assms(1)]) (simp_all add: team_submit_def)
qed

lemma team_inv_step: "team_inv s \<Longrightarrow> team_inv (team_step F s e)"
  by (cases e) (auto simp: team_close_def team_inv_answered team_inv_submit intro: team_inv_frame)

end

sublocale team_form_laws \<subseteq> team_machine: invariant "team_fresh F" "team_trans F" team_inv
proof
  show "team_inv s" if "team_fresh F s" for s using that by (simp add: team_fresh_def team_start_def team_inv_def)
  show "team_inv t" if "team_trans F s e t" "team_inv s" for s e t
    using that team_inv_step by (simp add: team_trans_def)
qed

context team_form_laws
begin

lemma reach_team_inv: "reach (team_fresh F) (team_trans F) s \<Longrightarrow> team_inv s"
  by (rule team_machine.reach_inv)

end

lemmas team_defs = createOrg_def inviteForm_def addMember_def addIPRule_def grantAdmin_def

interpretation create_org: team_form_laws createOrg by unfold_locales (auto simp: team_defs split: if_splits)
interpretation invite_member: team_form_laws "inviteForm org" for org by unfold_locales (auto simp: team_defs)
interpretation add_member: team_form_laws "addMember org" for org by unfold_locales (auto simp: team_defs split: prod.splits)
interpretation add_ip_rule: team_form_laws addIPRule by unfold_locales (auto simp: team_defs)
interpretation grant_admin: team_form_laws grantAdmin by unfold_locales (auto simp: team_defs)

definition team_forms :: "string \<Rightarrow> team_form list" where
  "team_forms org = [createOrg, inviteForm org, addMember org, addIPRule, grantAdmin]"

lemma team_forms_laws: "F \<in> set (team_forms org) \<Longrightarrow> team_form_laws F"
  using create_org.team_form_laws_axioms invite_member.team_form_laws_axioms add_member.team_form_laws_axioms
    add_ip_rule.team_form_laws_axioms grant_admin.team_form_laws_axioms
  by (auto simp: team_forms_def)

section \<open>Properties\<close>

text \<open>
  Each of the five forms sends only what passes its check, and those that wait for their own request
  have at most one under way.
\<close>

theorem team_requests_are_checked:
  assumes "F \<in> set (team_forms org)" and "reach (team_fresh F) (team_trans F) s"
  shows "(\<forall>c. Did (Sent c) \<in> set (tm_log s) \<longrightarrow> (\<exists>x. c = tf_request F x \<and> tf_check F x = None))
     \<and> (tf_own F \<longrightarrow> length (tm_running s) \<le> 1)"
  using team_form_laws.reach_team_inv [OF team_forms_laws [OF assms(1)] assms(2)]
  unfolding team_form_laws.team_inv_def [OF team_forms_laws [OF assms(1)]] checked_call_def by blast

text \<open>The two others send the same twice when the button is pressed twice.\<close>

theorem unlocked_forms_send_twice:
  assumes "F \<in> {createOrg, addMember org}" "tf_check F x = None"
  shows "tm_log (foldl (team_step F) (team_start F) [TeamOpened, TextsTyped x, TeamSubmitted, TeamSubmitted])
     = [Did (Sent (tf_request F x)), Did (Sent (tf_request F x))]"
proof -
  have F: "\<not> tf_own F" "tf_modal F" "\<not> tf_freezes F" using assms(1) by (auto simp: team_defs)
  then show ?thesis using assms(2) by (simp add: team_start_def team_submit_def team_blocked_def)
qed

text \<open>The address of an invite is read back exactly by the page it leads to.\<close>

lemma uri_unreserved_not_plus: "uri_unreserved c \<Longrightarrow> c \<noteq> CHR ''+''"
  by (auto simp: uri_unreserved_def is_alnum_def)

lemma form_decode_enc_char: "form_decode (enc_char c @ s) = map_option (Cons c) (form_decode s)"
proof (cases "uri_unreserved c")
  case True
  then show ?thesis using uri_unreserved_not_plus uri_unreserved_not_pct by (simp add: enc_char_def)
next
  case False
  then show ?thesis by (simp add: enc_char_def pct_byte_def hexval_hexdig nibbles_less)
qed

lemma form_decode_encodeURIComponent [str_facts]: "form_decode (encodeURIComponent s) = Some s"
  by (induction s) (simp_all add: encodeURIComponent_def form_decode_enc_char)

theorem invite_link_leads_to_its_invite:
  assumes "code \<noteq> []" "body \<noteq> JNull"
  shows "\<exists>q. inviteUrl origin code = origin @ ''/join?code='' @ q \<and> set q \<inter> {CHR ''&'', CHR ''='', CHR ''#''} = {}
     \<and> form_decode q = Some code
     \<and> jn_log (foldl join_step (join_start (form_decode q)) [PreviewAnswered (Status 200 body), AcceptPressed])
       = [Did (Sent (''GET'', ''/api/invite-preview?code='' @ q, JNull)),
          Did (Sent (''POST'', ''/api/admin/orgs/join'', JObj [(''code'', JStr code)]))]"
proof (intro exI [of _ "encodeURIComponent code"] conjI)
  show "set (encodeURIComponent code) \<inter> {CHR ''&'', CHR ''='', CHR ''#''} = {}" using encodeURIComponent_no_sep by blast
  show "form_decode (encodeURIComponent code) = Some code" by (rule form_decode_encodeURIComponent)
  show "jn_log (foldl join_step (join_start (form_decode (encodeURIComponent code))) [PreviewAnswered (Status 200 body), AcceptPressed])
       = [Did (Sent (''GET'', ''/api/invite-preview?code='' @ encodeURIComponent code, JNull)),
          Did (Sent (''POST'', ''/api/admin/orgs/join'', JObj [(''code'', JStr code)]))]"
    using assms by (simp add: form_decode_encodeURIComponent join_start_def previewed_def handleAccept_def ok_status_def Let_def)
qed (simp add: inviteUrl_def)

fun is_join :: "team_effect \<Rightarrow> bool" where
  "is_join (Did (Sent (m, u, b))) = (m = ''POST'')"
| "is_join e = False"

definition joins :: "join_page \<Rightarrow> nat" where
  "joins s = length (filter is_join (jn_log s))"

definition join_inv :: "join_page \<Rightarrow> bool" where
  "join_inv s \<longleftrightarrow> (jn_asking s \<longrightarrow> jn_status s = JoinLoading) \<and> (jn_joining s \<longrightarrow> jn_status s = Joining)
     \<and> (jn_status s \<in> {JoinLoading, JoinConfirm} \<longrightarrow> joins s = 0) \<and> joins s \<le> 1
     \<and> (jn_status s = JoinDone \<longrightarrow> joins s = 1) \<and> (jn_status s = Joining \<longrightarrow> joins s = 1)
     \<and> (\<forall>x \<in> set (jn_log s). is_join x \<longrightarrow> x = Did (Sent (''POST'', ''/api/admin/orgs/join'', JObj [(''code'', JStr (jn_code s))])))
     \<and> (\<forall>i. ActiveOrg i \<in> set (jn_log s) \<longrightarrow> jn_status s = JoinDone)"

lemma join_inv_step: "join_inv s \<Longrightarrow> join_inv (join_step s e)"
proof (cases e)
  case (PreviewAnswered a)
  assume "join_inv s"
  then show ?thesis unfolding PreviewAnswered
    by (cases a) (auto simp: join_inv_def previewed_def joins_def Let_def)
next
  case AcceptPressed
  assume "join_inv s"
  then show ?thesis unfolding AcceptPressed by (auto simp: join_inv_def handleAccept_def joins_def)
next
  case (JoinAnswered a)
  assume "join_inv s"
  then show ?thesis unfolding JoinAnswered
    by (cases a) (auto simp: join_inv_def joined_def joins_def Let_def)
qed (auto simp: join_inv_def joins_def)

interpretation joining: invariant join_fresh join_trans join_inv
proof
  show "join_inv s" if fresh: "join_fresh s" for s
  proof -
    obtain c where "s = join_start c" using fresh unfolding join_fresh_def by blast
    then show ?thesis by (auto simp: join_start_def join_inv_def joins_def Let_def)
  qed
  show "join_inv t" if "join_trans s e t" "join_inv s" for s e t
    using that join_inv_step by (simp add: join_trans_def)
qed

text \<open>C39: On the page an invite is accepted at most once, only with the code of the page, only after it has
  been shown, and the session changes its organisation only when that has been answered as done.
\<close>

theorem invite_is_accepted_at_most_once:
  assumes "reach join_fresh join_trans s"
  shows "joins s \<le> 1
     \<and> (\<forall>x \<in> set (jn_log s). is_join x \<longrightarrow> x = Did (Sent (''POST'', ''/api/admin/orgs/join'', JObj [(''code'', JStr (jn_code s))])))
     \<and> (joins (join_step s e) \<noteq> joins s \<longrightarrow> e = AcceptPressed \<and> jn_preview s \<noteq> None \<and> jn_status s = JoinConfirm)
     \<and> ((\<exists>i. ActiveOrg i \<in> set (jn_log s)) \<longrightarrow> jn_status s = JoinDone \<and> joins s = 1)"
proof -
  have inv: "join_inv s" by (rule joining.reach_inv [OF assms])
  have "e = AcceptPressed \<and> jn_preview s \<noteq> None \<and> jn_status s = JoinConfirm" if d: "joins (join_step s e) \<noteq> joins s"
  proof (cases e)
    case (PreviewAnswered a)
    with d show ?thesis by (cases a) (auto simp: previewed_def joins_def Let_def split: if_splits)
  next
    case (JoinAnswered a)
    with d show ?thesis by (cases a) (auto simp: joined_def joins_def Let_def split: if_splits)
  qed (use d in \<open>auto simp: handleAccept_def joins_def split: if_splits\<close>)
  with inv show ?thesis unfolding join_inv_def by blast
qed

text \<open>
  The number of days on an invite is that of the whole days left: it says \<open>Expired\<close> exactly when the time
  has passed, and otherwise \<open>n\<close> days for at least \<open>n\<close> and less than \<open>n + 1\<close> of them.
\<close>

theorem invite_label_counts_whole_days:
  "(fst (inviteLabel now (Some t)) = ''Expired'' \<longleftrightarrow> t < now)
   \<and> (now \<le> t \<longrightarrow> (\<exists>n \<ge> 0. n * day_len \<le> t - now \<and> t - now < (n + 1) * day_len
        \<and> inviteLabel now (Some t) = (if n = 0 then ''Expires today'' else show_int n @ ''d remaining'', n < 2)
        \<and> joinLabel now (Some t) = (if n = 0 then ''Expires today''
              else ''Expires in '' @ show_int n @ '' day'' @ (if n \<noteq> 1 then ''s'' else []))))"
proof (cases "t < now")
  case True
  then show ?thesis by (simp add: inviteLabel_def)
next
  case False
  let ?n = "(t - now) div day_len"
  have n: "0 \<le> ?n" "?n * day_len \<le> t - now" "t - now < (?n + 1) * day_len"
    using False by (simp_all add: day_len_def)
  have not_E: "show_int ?n @ ''d remaining'' \<noteq> ''Expired''"
  proof
    assume "show_int ?n @ ''d remaining'' = ''Expired''"
    then have "length (show_int ?n @ ''d remaining'') = length ''Expired''" by (rule arg_cong)
    then show False by simp
  qed
  show ?thesis using False n not_E by (auto simp: inviteLabel_def joinLabel_def Let_def intro!: exI [of _ ?n])
qed

section \<open>Examples\<close>

theorem team_requests_are_checked_witness:
  "Did (Sent (''POST'', ''/api/admin/platform/admins'', JObj [(''email'', JStr ''a'')]))
     \<in> set (tm_log (foldl (team_step grantAdmin) (team_start grantAdmin) [TextsTyped (''a'', []), TeamSubmitted]))
   \<and> length (tm_running (foldl (team_step grantAdmin) (team_start grantAdmin) [TextsTyped (''a'', []), TeamSubmitted])) \<le> 1"
proof -
  let ?s = "foldl (team_step grantAdmin) (team_start grantAdmin) [TextsTyped (''a'', []), TeamSubmitted]"
  have F: "grantAdmin \<in> set (team_forms ''o'')" by (simp add: team_forms_def)
  have 1: "reach (team_fresh grantAdmin) (team_trans grantAdmin) (team_step grantAdmin (team_start grantAdmin) (TextsTyped (''a'', [])))"
    by (rule reach_step [where e = "TextsTyped (''a'', [])", OF reach_init]) (simp_all add: team_fresh_def team_trans_def)
  have r: "reach (team_fresh grantAdmin) (team_trans grantAdmin) ?s"
    unfolding foldl_Cons foldl_Nil by (rule reach_step [where e = TeamSubmitted, OF 1]) (simp add: team_trans_def)
  have "Did (Sent (''POST'', ''/api/admin/platform/admins'', JObj [(''email'', JStr ''a'')])) \<in> set (tm_log ?s)"
    by (simp add: team_start_def team_submit_def team_blocked_def grantAdmin_def)
  moreover have "tf_own grantAdmin" by (simp add: grantAdmin_def)
  ultimately show ?thesis using team_requests_are_checked [OF F r] by blast
qed

theorem invite_link_leads_to_its_invite_witness:
  "\<exists>q. inviteUrl ''http://h'' ''a b'' = ''http://h/join?code='' @ q \<and> form_decode q = Some ''a b''"
  using invite_link_leads_to_its_invite [of "''a b''" "JBool True" "''http://h''"] by auto

theorem invite_is_accepted_at_most_once_witness:
  "joins (join_start (Some ''c'')) \<le> 1 \<and> jn_status (join_start (Some ''c'')) = JoinLoading"
proof -
  have "reach join_fresh join_trans (join_start (Some ''c''))" by (rule reach_init) (auto simp: join_fresh_def)
  from invite_is_accepted_at_most_once [OF this, of AcceptPressed] have "joins (join_start (Some ''c'')) \<le> 1" by (rule conjunct1)
  then show ?thesis by (rule conjI) (simp add: join_start_def Let_def)
qed

theorem invite_label_counts_whole_days_witness:
  "fst (inviteLabel 1000 (Some 500)) = ''Expired''"
  using invite_label_counts_whole_days [of 1000 500] by simp

end
