(* ===== verification/Shell.thy ===== *)
theory Shell
  imports SignIn Machines
begin

text \<open>
  What is around every page: \<open>app/layout.tsx\<close>, the header and menus of \<open>components/app-shell.tsx\<close> with the
  mobile navigation \<open>components/admin/nav.tsx\<close> and \<open>user-menu.tsx\<close>, the trail \<open>breadcrumbs.tsx\<close>, and the
  theme, \<open>components/theme-provider.tsx\<close> and \<open>theme-toggle.tsx\<close>.
\<close>

section \<open>The layout\<close>

definition RootLayout :: "string option eff" where
  "RootLayout = seq auth (\<lambda>session.
     let u = Option.bind session s_user in
     ret (or_opt (or_opt (Option.bind u su_email) (Option.bind u su_name)) None))"

section \<open>Where the menus lead\<close>

text \<open>An item is its address with its label.\<close>

type_synonym nav_item = "string \<times> string"

definition authRoutes :: "string list" where
  "authRoutes = [''/signin'', ''/setup'']"

definition directLinks :: "nav_item list" where
  "directLinks = [(''/'', ''Overview''), (''/topology'', ''Topology''), (''/apps'', ''Apps'')]"

definition proxyNav :: "nav_item list" where
  "proxyNav = [(''/routes'', ''Routes''), (''/tenants'', ''Tenants''), (''/tokens'', ''Tokens''), (''/grants'', ''Grants'')]"

definition activityNav :: "nav_item list" where
  "activityNav = [(''/audit'', ''Audit Log''), (''/sessions'', ''Sessions'')]"

definition manageNav :: "nav_item list" where
  "manageNav = [(''/team'', ''Team''), (''/security'', ''IP Allowlist'')]"

definition platformAdminNav :: "nav_item list" where
  "platformAdminNav = [(''/platform/users'', ''All Users''), (''/platform/orgs'', ''All Orgs''),
     (''/platform/admins'', ''Platform Admins''), (''/settings'', ''Settings'')]"

definition nav_sections :: "(string option \<times> nav_item list) list" where
  "nav_sections =
     [(None, [(''/'', ''Overview''), (''/topology'', ''Topology'')]),
      (Some ''Tenant proxy'',
        [(''/routes'', ''Routes''), (''/tenants'', ''Tenants''), (''/tokens'', ''Tokens''), (''/grants'', ''Grants'')]),
      (Some ''Protected apps'', [(''/apps'', ''Apps'')]),
      (Some ''Activity'', [(''/audit'', ''Audit Log''), (''/sessions'', ''Sessions'')]),
      (Some ''Manage'', [(''/team'', ''Team''), (''/security'', ''IP Allowlist'')])]"

definition platformLinks :: "nav_item list" where
  "platformLinks = [(''/platform/users'', ''All Users''), (''/platform/orgs'', ''All Orgs''),
     (''/platform/admins'', ''Platform Admins''), (''/settings'', ''Settings'')]"

text \<open>The buttons of the mobile navigation, in order.\<close>

definition mobileLinks :: "bool \<Rightarrow> nav_item list" where
  "mobileLinks isPlatformAdmin = concat (map snd nav_sections) @ (if isPlatformAdmin then platformLinks else [])"

datatype menu = MProxy | MActivity | MManage | MAdmin | MUser

fun menu_items :: "menu \<Rightarrow> nav_item list" where
  "menu_items MProxy = proxyNav"
| "menu_items MActivity = activityNav"
| "menu_items MManage = manageNav"
| "menu_items MAdmin = platformAdminNav"
| "menu_items MUser = []"

definition desktopLinks :: "bool \<Rightarrow> nav_item list" where
  "desktopLinks isPlatformAdmin =
     directLinks @ concat (map menu_items ([MProxy, MActivity, MManage] @ (if isPlatformAdmin then [MAdmin] else [])))"

text \<open>What is marked as the place one is at.\<close>

definition item_active :: "string \<Rightarrow> nav_item \<Rightarrow> bool" where
  "item_active pathname i \<longleftrightarrow> pathname = fst i \<or> starts_with (fst i @ ''/'') pathname"

definition direct_active :: "string \<Rightarrow> nav_item \<Rightarrow> bool" where
  "direct_active pathname i \<longleftrightarrow> (if fst i = ''/'' then pathname = ''/'' else item_active pathname i)"

definition menu_active :: "string \<Rightarrow> menu \<Rightarrow> bool" where
  "menu_active pathname m \<longleftrightarrow> (\<exists>i \<in> set (menu_items m). item_active pathname i)"

definition mobile_active :: "string \<Rightarrow> nav_item \<Rightarrow> bool" where
  "mobile_active pathname i \<longleftrightarrow> pathname = fst i"

section \<open>The theme\<close>

datatype theme = Dark | Light | System

fun theme_name :: "theme \<Rightarrow> string" where
  "theme_name Dark = ''dark''"
| "theme_name Light = ''light''"
| "theme_name System = ''system''"

text \<open>\<open>isTheme\<close>, with the theme it finds.\<close>

definition isTheme :: "string option \<Rightarrow> theme option" where
  "isTheme v =
     (if v = Some ''light'' then Some Light else if v = Some ''dark'' then Some Dark
      else if v = Some ''system'' then Some System else None)"

text \<open>
  \<open>th_html\<close> is the class, the data attribute and the colour scheme of the document's root; \<open>th_dark\<close> is the
  system's preference and \<open>th_stored\<close> the browser's storage.
\<close>

record theming =
  th_theme :: theme
  th_resolved :: string
  th_html :: string
  th_dark :: bool
  th_stored :: "string option"

definition effectiveTheme :: "theme \<Rightarrow> bool \<Rightarrow> string" where
  "effectiveTheme t dark = (if t = System then (if dark then ''dark'' else ''light'') else theme_name t)"

definition applyTheme :: "theme \<Rightarrow> theming \<Rightarrow> theming" where
  "applyTheme t s = s\<lparr>th_html := effectiveTheme t (th_dark s), th_resolved := effectiveTheme t (th_dark s)\<rparr>"

text \<open>The provider starts on the page the server has rendered; then its effect runs.\<close>

definition theme_mounted :: "bool \<Rightarrow> string option \<Rightarrow> theming" where
  "theme_mounted dark stored =
     (let t = nullish (isTheme stored) Light in
      applyTheme t \<lparr>th_theme = t, th_resolved = ''light'', th_html = ''light'', th_dark = dark, th_stored = stored\<rparr>)"

definition setTheme :: "theme \<Rightarrow> theming \<Rightarrow> theming" where
  "setTheme t s = applyTheme t (s\<lparr>th_stored := Some (theme_name t), th_theme := t\<rparr>)"

definition handleSystemThemeChange :: "bool \<Rightarrow> theming \<Rightarrow> theming" where
  "handleSystemThemeChange dark s =
     (let s' = s\<lparr>th_dark := dark\<rparr> in if th_theme s' = System then applyTheme System s' else s')"

datatype theme_event = ThemeChosen theme | SystemSwitched bool | Reloaded

fun theme_step :: "theming \<Rightarrow> theme_event \<Rightarrow> theming" where
  "theme_step s (ThemeChosen t) = setTheme t s"
| "theme_step s (SystemSwitched dark) = handleSystemThemeChange dark s"
| "theme_step s Reloaded = theme_mounted (th_dark s) (th_stored s)"

definition theme_fresh :: "theming \<Rightarrow> bool" where
  "theme_fresh s \<longleftrightarrow> (\<exists>dark stored. s = theme_mounted dark stored)"

definition theme_trans :: "theming \<Rightarrow> theme_event \<Rightarrow> theming \<Rightarrow> bool" where
  "theme_trans s e t \<longleftrightarrow> t = theme_step s e"

section \<open>The shell\<close>

text \<open>
  The menus that are open, the mobile navigation, and where the shell is: \<open>sh_path\<close> is the path, \<open>sh_admin\<close>
  the session's flag and \<open>sh_user\<close> what the layout has found.
\<close>

datatype shell_effect = WentTo string | SignedOut string | PickedTheme theme

record shell =
  sh_path :: string
  sh_admin :: bool
  sh_user :: "string option"
  sh_menus :: "menu list"
  sh_mobile :: bool
  sh_log :: "shell_effect list"

definition isAuthRoute :: "string \<Rightarrow> bool" where
  "isAuthRoute pathname \<longleftrightarrow> pathname \<in> set authRoutes"

definition menu_shown :: "shell \<Rightarrow> menu \<Rightarrow> bool" where
  "menu_shown s m \<longleftrightarrow> \<not> isAuthRoute (sh_path s)
     \<and> (case m of MAdmin \<Rightarrow> sh_admin s | MUser \<Rightarrow> truthy (sh_user s) | _ \<Rightarrow> True)"

definition themeOptions :: "theme list" where
  "themeOptions = [Light, Dark, System]"

text \<open>What can be pressed.\<close>

datatype target =
    OnButton menu | OnItem menu nat | OnSignOut | OnHamburger | OnMobile nat | Elsewhere

definition inside :: "target \<Rightarrow> menu \<Rightarrow> bool" where
  "inside t m \<longleftrightarrow> t = OnButton m \<or> (\<exists>i. t = OnItem m i) \<or> m = MUser \<and> t = OnSignOut"

fun on_page :: "shell \<Rightarrow> target \<Rightarrow> bool" where
  "on_page s (OnButton m) = menu_shown s m"
| "on_page s (OnItem m i) =
     (m \<in> set (sh_menus s) \<and> i < (if m = MUser then length themeOptions else length (menu_items m)))"
| "on_page s OnSignOut = (MUser \<in> set (sh_menus s))"
| "on_page s OnHamburger = (\<not> isAuthRoute (sh_path s))"
| "on_page s (OnMobile i) =
     (\<not> isAuthRoute (sh_path s) \<and> sh_mobile s \<and> i < length (mobileLinks (sh_admin s)))"
| "on_page s Elsewhere = True"

text \<open>An open menu listens for \<open>pointerdown\<close> and closes when it is outside.\<close>

definition onPointerDown :: "target \<Rightarrow> shell \<Rightarrow> shell" where
  "onPointerDown t s = s\<lparr>sh_menus := filter (inside t) (sh_menus s)\<rparr>"

definition toggle_menu :: "menu \<Rightarrow> shell \<Rightarrow> shell" where
  "toggle_menu m s = s\<lparr>sh_menus := (if m \<in> set (sh_menus s) then filter (\<lambda>x. x \<noteq> m) (sh_menus s) else sh_menus s @ [m])\<rparr>"

fun onClick :: "target \<Rightarrow> shell \<Rightarrow> shell" where
  "onClick (OnButton m) s = toggle_menu m s"
| "onClick (OnItem m i) s =
     (if m = MUser then s\<lparr>sh_log := sh_log s @ [PickedTheme (themeOptions ! i)]\<rparr>
      else s\<lparr>sh_menus := filter (\<lambda>x. x \<noteq> m) (sh_menus s), sh_log := sh_log s @ [WentTo (fst (menu_items m ! i))]\<rparr>)"
| "onClick OnSignOut s = s\<lparr>sh_log := sh_log s @ [SignedOut ''/signin'']\<rparr>"
| "onClick OnHamburger s = s\<lparr>sh_mobile := \<not> sh_mobile s\<rparr>"
| "onClick (OnMobile i) s =
     s\<lparr>sh_mobile := False, sh_log := sh_log s @ [WentTo (fst (mobileLinks (sh_admin s) ! i))]\<rparr>"
| "onClick Elsewhere s = s"

text \<open>
  A pointer gives \<open>pointerdown\<close> and then \<open>click\<close>, the keyboard a \<open>click\<close> only. A menu that is not shown any
  more forgets that it was open; the shell itself stays when the page changes.
\<close>

datatype shell_event =
    Pointed target | Keyed target | Arrived string | AdminIs bool | UserIs "string option"

definition drop_hidden :: "shell \<Rightarrow> shell" where
  "drop_hidden s = s\<lparr>sh_menus := filter (menu_shown s) (sh_menus s)\<rparr>"

fun shell_step :: "shell \<Rightarrow> shell_event \<Rightarrow> shell" where
  "shell_step s (Pointed t) = (if on_page s t then onClick t (onPointerDown t s) else s)"
| "shell_step s (Keyed t) = (if on_page s t then onClick t s else s)"
| "shell_step s (Arrived p) = drop_hidden (s\<lparr>sh_path := p\<rparr>)"
| "shell_step s (AdminIs b) = drop_hidden (s\<lparr>sh_admin := b\<rparr>)"
| "shell_step s (UserIs u) = drop_hidden (s\<lparr>sh_user := u\<rparr>)"

definition shell_fresh :: "shell \<Rightarrow> bool" where
  "shell_fresh s \<longleftrightarrow> sh_menus s = [] \<and> \<not> sh_mobile s \<and> sh_log s = []"

definition shell_trans :: "shell \<Rightarrow> shell_event \<Rightarrow> shell \<Rightarrow> bool" where
  "shell_trans s e t \<longleftrightarrow> t = shell_step s e"

definition pointer_trans :: "shell \<Rightarrow> shell_event \<Rightarrow> shell \<Rightarrow> bool" where
  "pointer_trans s e t \<longleftrightarrow> (\<forall>x. e \<noteq> Keyed x) \<and> t = shell_step s e"

section \<open>The trail\<close>

text \<open>
  \<open>routeLabels[seg]\<close>: its own labels, and what every object inherits. An inherited value is a function or,
  for \<open>__proto__\<close>, an object; no two of them are equal.
\<close>

definition inherited_names :: "string list" where
  "inherited_names =
     [''constructor'', ''__defineGetter__'', ''__defineSetter__'', ''hasOwnProperty'', ''__lookupGetter__'',
      ''__lookupSetter__'', ''isPrototypeOf'', ''propertyIsEnumerable'', ''toString'', ''valueOf'', ''__proto__'',
      ''toLocaleString'']"

datatype label = Label string | Inherited string

definition routeLabels :: "(string \<times> string) list" where
  "routeLabels =
     [([], ''Overview''), (''routes'', ''Routes''), (''tenants'', ''Tenants''), (''tokens'', ''Tokens''), (''grants'', ''Grants''),
      (''audit'', ''Audit Log''), (''sessions'', ''Sessions''), (''team'', ''Team''), (''security'', ''IP Allowlist''),
      (''settings'', ''Settings''), (''apps'', ''Apps''), (''topology'', ''Topology''), (''dashboard'', ''Dashboard''),
      (''platform'', ''Platform''), (''users'', ''Users''), (''orgs'', ''Organisations''), (''admins'', ''Admins'')]"

definition segmentLabel :: "string \<Rightarrow> label" where
  "segmentLabel seg =
     (case map_of routeLabels seg of
        Some l \<Rightarrow> Label l
      | None \<Rightarrow> if seg \<in> set inherited_names then Inherited seg else Label seg)"

definition path_segments :: "string \<Rightarrow> string list" where
  "path_segments pathname = filter (\<lambda>s. s \<noteq> []) (split_on (CHR ''/'') pathname)"

definition crumb_list :: "string list \<Rightarrow> (string \<times> label) list" where
  "crumb_list segments =
     (''/'', Label ''Overview'') #
     map (\<lambda>i. (''/'' @ join_with ''/'' (take (i + 1) segments), segmentLabel (segments ! i))) [0..<length segments]"

definition unique_crumbs :: "(string \<times> label) list \<Rightarrow> (string \<times> label) list" where
  "unique_crumbs arr =
     map (\<lambda>i. arr ! i) (filter (\<lambda>i. i = 0 \<or> snd (arr ! i) \<noteq> snd (arr ! (i - 1))) [0..<length arr])"

definition Breadcrumbs :: "string \<Rightarrow> (string \<times> label) list option" where
  "Breadcrumbs pathname =
     (if pathname = ''/'' \<or> starts_with ''/signin'' pathname \<or> starts_with ''/setup'' pathname then None
      else let unique = unique_crumbs (crumb_list (path_segments pathname)) in
           if length unique \<le> 1 then None else Some unique)"

text \<open>All but the last are links.\<close>

definition crumb_links :: "(string \<times> label) list \<Rightarrow> string list" where
  "crumb_links cs = map fst (butlast cs)"

section \<open>The user's initials\<close>

text \<open>
  The characters of a text. One outside of the basic plane is two code units in the browser, of which
  none can be written alone; here it stays whole.
\<close>

function characters :: "string \<Rightarrow> string list" where
  "characters [] = []"
| "characters (c # cs) =
     (let x = (of_char c :: nat); n = (if x < 192 then 0 else if x < 224 then 1 else if x < 240 then 2 else 3) in
      (c # take n cs) # characters (drop n cs))"
  by pat_completeness auto
termination by (relation "measure length") (auto simp: Let_def)

definition white_char :: "string \<Rightarrow> bool" where
  "white_char c =
     (case c of [a] \<Rightarrow> white1 a | [a, b] \<Rightarrow> white2 a b | [a, b, d] \<Rightarrow> white3 a b d | _ \<Rightarrow> False)"

text \<open>\<open>split(/\s+/)\<close>; \<open>w\<close> is the word under way.\<close>

function split_white :: "string list \<Rightarrow> string list \<Rightarrow> string list list" where
  "split_white w [] = [w]"
| "split_white w (c # cs) =
     (if white_char c then w # split_white [] (dropWhile white_char cs) else split_white (w @ [c]) cs)"
  by pat_completeness auto
termination
  by (relation "measure (\<lambda>(w, cs). length cs)") (auto simp: le_imp_less_Suc length_dropWhile_le)

definition line_end :: "string \<Rightarrow> bool" where
  "line_end c \<longleftrightarrow> c \<in> set [[CHR 0x0A], [CHR 0x0D], [CHR 0xE2, CHR 0x80, CHR 0xA8], [CHR 0xE2, CHR 0x80, CHR 0xA9]]"

text \<open>\<open>value.replace(/@.*/, "")\<close>.\<close>

definition without_host :: "string list \<Rightarrow> string list" where
  "without_host cs =
     takeWhile (\<lambda>c. c \<noteq> ''@'') cs @ dropWhile (\<lambda>c. \<not> line_end c) (dropWhile (\<lambda>c. c \<noteq> ''@'') cs)"

definition getInitials :: "(string \<Rightarrow> string) \<Rightarrow> string \<Rightarrow> string" where
  "getInitials toUpperCase value =
     (let parts = split_white [] (characters (trim value)) in
      if length parts \<ge> 2 then toUpperCase (hd (hd parts) @ hd (last parts))
      else toUpperCase (concat (take 2 (without_host (characters value)))))"


section \<open>The menus agree\<close>

text \<open>The directories of \<open>app\<close> that have a page.\<close>

definition app_pages :: "string list" where
  "app_pages =
     [''/'', ''/apps'', ''/audit'', ''/dashboard'', ''/grants'', ''/join'', ''/platform/admins'', ''/platform/orgs'',
      ''/platform/users'', ''/routes'', ''/security'', ''/sessions'', ''/settings'', ''/setup'', ''/signin'', ''/team'',
      ''/tenants'', ''/tokens'', ''/topology'']"

lemmas nav_defs = directLinks_def proxyNav_def activityNav_def manageNav_def platformAdminNav_def nav_sections_def
  platformLinks_def mobileLinks_def desktopLinks_def

definition desktop_active :: "string \<Rightarrow> nav_item \<Rightarrow> bool" where
  "desktop_active pathname i \<longleftrightarrow> (if i \<in> set directLinks then direct_active pathname i else item_active pathname i)"

definition unrelated :: "string \<Rightarrow> string \<Rightarrow> bool" where
  "unrelated a b \<longleftrightarrow> \<not> prefix (a @ ''/'') (b @ ''/'') \<and> \<not> prefix (b @ ''/'') (a @ ''/'')"

lemma item_active_prefix: "item_active p i \<longleftrightarrow> prefix (fst i @ ''/'') (p @ ''/'')"
proof
  assume "item_active p i"
  then show "prefix (fst i @ ''/'') (p @ ''/'')"
    by (auto simp: item_active_def starts_with_iff)
next
  assume "prefix (fst i @ ''/'') (p @ ''/'')"
  then obtain r where r: "p @ ''/'' = fst i @ ''/'' @ r" by (auto elim: prefixE)
  show "item_active p i"
  proof (cases r rule: rev_cases)
    case Nil
    with r show ?thesis by (simp add: item_active_def)
  next
    case (snoc r' c)
    with r have "p = fst i @ ''/'' @ r'" by (metis append_assoc butlast_snoc)
    then show ?thesis by (simp add: item_active_def starts_with_iff)
  qed
qed

lemma unrelated_not_both: "unrelated (fst i) (fst j) \<Longrightarrow> \<not> (item_active p i \<and> item_active p j)"
  using prefix_same_cases [of "fst i @ ''/''" "p @ ''/''" "fst j @ ''/''"]
  unfolding item_active_prefix unrelated_def by blast

text \<open>Of the items with an address of their own, no address lies below another.\<close>

lemma sorted_wrt_either: "sorted_wrt R xs \<Longrightarrow> x \<in> set xs \<Longrightarrow> y \<in> set xs \<Longrightarrow> x \<noteq> y \<Longrightarrow> R x y \<or> R y x"
  by (induction xs) auto

lemma addresses_unrelated: "sorted_wrt unrelated (map fst (tl (desktopLinks True)))"
  by code_simp

lemma distinct_addresses: "distinct (map fst (desktopLinks True))"
  by code_simp

lemma address_of_item: "inj_on fst (set (desktopLinks True))"
  using distinct_addresses unfolding distinct_map by (rule conjunct2)

lemma unrelated_sym: "unrelated a b \<Longrightarrow> unrelated b a"
  by (simp add: unrelated_def)

lemma links_unrelated:
  assumes "i \<in> set (desktopLinks True)" "j \<in> set (desktopLinks True)" "i \<noteq> j" "fst i \<noteq> ''/''" "fst j \<noteq> ''/''"
  shows "unrelated (fst i) (fst j)"
proof -
  have "desktopLinks True = (''/'', ''Overview'') # tl (desktopLinks True)"
    by (simp add: desktopLinks_def directLinks_def)
  with assms have "i \<in> set (tl (desktopLinks True))" "j \<in> set (tl (desktopLinks True))"
    by (metis fst_conv set_ConsD)+
  moreover have "fst i \<noteq> fst j" using assms address_of_item by (meson inj_onD)
  ultimately show ?thesis using sorted_wrt_either [OF addresses_unrelated] unrelated_sym by auto
qed

lemma root_item: "i \<in> set (desktopLinks True) \<Longrightarrow> fst i = ''/'' \<Longrightarrow> i = (''/'', ''Overview'') \<and> i \<in> set directLinks"
  using inj_onD [OF address_of_item, of i "(''/'', ''Overview'')"] by (simp add: desktopLinks_def directLinks_def)

lemma root_active: "i \<in> set (desktopLinks True) \<Longrightarrow> fst i = ''/'' \<Longrightarrow> desktop_active p i \<longleftrightarrow> p = ''/''"
  using root_item [of i] by (auto simp: desktop_active_def direct_active_def)

lemma other_active: "fst i \<noteq> ''/'' \<Longrightarrow> desktop_active p i \<longleftrightarrow> item_active p i"
  by (simp add: desktop_active_def direct_active_def)

lemma no_link_below_root: "list_all (\<lambda>i. fst i = ''/'' \<or> \<not> item_active ''/'' i) (desktopLinks True)"
  by code_simp

lemma nothing_below_root: "fst i \<noteq> ''/'' \<Longrightarrow> i \<in> set (desktopLinks True) \<Longrightarrow> \<not> item_active ''/'' i"
  using no_link_below_root by (auto simp: list_all_iff)

text \<open>
  The two navigations lead to the same pages, all of which exist, and on every path at most one item
  of the desktop's is marked, its menu with it.
\<close>

theorem menus_agree:
  "set (mobileLinks a) = set (desktopLinks a) \<and> fst ` set (desktopLinks a) \<subseteq> set app_pages
   \<and> distinct (map fst (desktopLinks a)) \<and> distinct (map fst (mobileLinks a))
   \<and> (\<forall>p \<in> fst ` set (desktopLinks a). \<forall>i \<in> set (desktopLinks a). desktop_active p i = mobile_active p i)"
proof (intro conjI ballI)
  show "set (mobileLinks a) = set (desktopLinks a)" by (auto simp: nav_defs)
  show "fst ` set (desktopLinks a) \<subseteq> set app_pages" by (simp add: nav_defs app_pages_def)
  show "distinct (map fst (desktopLinks a))" by (cases a) (simp_all add: nav_defs)
  show "distinct (map fst (mobileLinks a))" by (cases a) (simp_all add: nav_defs)
  fix p i
  have sub: "set (desktopLinks a) \<subseteq> set (desktopLinks True)" by (auto simp: desktopLinks_def)
  assume "p \<in> fst ` set (desktopLinks a)" and i: "i \<in> set (desktopLinks a)"
  then obtain j where j: "j \<in> set (desktopLinks True)" "p = fst j" using sub by auto
  from i sub have i': "i \<in> set (desktopLinks True)" by blast
  show "desktop_active p i = mobile_active p i"
  proof (cases "fst i = ''/''")
    case True
    then show ?thesis using root_active [OF i'] by (simp add: mobile_active_def)
  next
    case False
    show ?thesis
    proof (cases "fst j = ''/''")
      case True
      with False j show ?thesis
        using nothing_below_root [OF False i'] by (auto simp: other_active [OF False] mobile_active_def)
    next
      case j0: False
      have "item_active (fst j) j" by (simp add: item_active_def)
      moreover have "i \<noteq> j \<Longrightarrow> unrelated (fst i) (fst j)" using links_unrelated [of i j] i' j False j0 by blast
      ultimately have "item_active (fst j) i \<longleftrightarrow> i = j" using unrelated_not_both by blast
      moreover have "fst i = fst j \<longleftrightarrow> i = j"
        using \<open>i \<noteq> j \<Longrightarrow> unrelated (fst i) (fst j)\<close> by (auto simp: unrelated_def)
      ultimately show ?thesis using j by (auto simp: other_active [OF False] mobile_active_def)
    qed
  qed
qed

theorem at_most_one_place_is_marked:
  assumes "i \<in> set (desktopLinks True)" "j \<in> set (desktopLinks True)" "desktop_active p i" "desktop_active p j"
  shows "i = j"
proof (rule ccontr)
  assume ne: "i \<noteq> j"
  consider "fst i = ''/''" "fst j = ''/''" | "fst i = ''/''" "fst j \<noteq> ''/''" | "fst i \<noteq> ''/''" "fst j = ''/''"
    | "fst i \<noteq> ''/''" "fst j \<noteq> ''/''" by blast
  then show False
  proof cases
    case 1
    with ne root_item assms(1,2) show False by blast
  next
    case 2
    with assms root_active [of i p] nothing_below_root [of j] show False by (simp add: other_active)
  next
    case 3
    with assms root_active [of j p] nothing_below_root [of i] show False by (simp add: other_active)
  next
    case 4
    with assms have "item_active p i" "item_active p j" by (simp_all add: other_active)
    with unrelated_not_both links_unrelated [OF assms(1,2) ne 4] show False by blast
  qed
qed

section \<open>The theme is kept\<close>

definition theme_inv :: "theming \<Rightarrow> bool" where
  "theme_inv s \<longleftrightarrow> th_theme s = nullish (isTheme (th_stored s)) Light
     \<and> th_html s = effectiveTheme (th_theme s) (th_dark s) \<and> th_resolved s = th_html s"

lemma isTheme_name [simp]: "isTheme (Some (theme_name t)) = Some t"
  by (cases t) (simp_all add: isTheme_def)

lemma theme_mounted_inv: "theme_inv (theme_mounted dark stored)"
  by (simp add: theme_inv_def theme_mounted_def applyTheme_def Let_def)

lemma theme_step_inv: "theme_inv s \<Longrightarrow> theme_inv (theme_step s e)"
proof (cases e)
  case (ThemeChosen t)
  then show ?thesis by (simp add: theme_inv_def setTheme_def applyTheme_def)
next
  case (SystemSwitched dark)
  assume "theme_inv s"
  with SystemSwitched show ?thesis
    by (auto simp: theme_inv_def handleSystemThemeChange_def applyTheme_def effectiveTheme_def Let_def)
next
  case Reloaded
  then show ?thesis by (simp add: theme_mounted_inv)
qed

interpretation theming: invariant theme_fresh theme_trans theme_inv
  by unfold_locales (auto simp: theme_fresh_def theme_trans_def theme_mounted_inv theme_step_inv)

text \<open>
  Whatever is chosen and however the system's preference changes, the page is drawn in the effective
  theme, and loading it again changes nothing.
\<close>

theorem theme_survives_reloads:
  assumes "reach theme_fresh theme_trans s"
  shows "theme_step s Reloaded = s \<and> th_html s = effectiveTheme (th_theme s) (th_dark s)"
proof -
  from theming.reach_inv [OF assms] show ?thesis
    by (simp add: theme_inv_def theme_mounted_def applyTheme_def Let_def)
qed

section \<open>One menu at a time\<close>

definition one_menu :: "shell \<Rightarrow> bool" where
  "one_menu s \<longleftrightarrow> length (sh_menus s) \<le> 1"

definition shell_inv :: "shell \<Rightarrow> bool" where
  "shell_inv s \<longleftrightarrow> distinct (sh_menus s) \<and> (\<forall>m \<in> set (sh_menus s). menu_shown s m)
     \<and> (\<forall>h. WentTo h \<in> set (sh_log s) \<longrightarrow> h \<in> fst ` set (desktopLinks True))"

lemma menu_shown_cong:
  "sh_path t = sh_path s \<Longrightarrow> sh_admin t = sh_admin s \<Longrightarrow> sh_user t = sh_user s \<Longrightarrow> menu_shown t m = menu_shown s m"
  by (simp add: menu_shown_def cong: menu.case_cong)

lemma menu_items_desktop: "fst ` set (menu_items m) \<subseteq> fst ` set (desktopLinks True)"
  by (cases m) (auto simp: desktopLinks_def)

lemma mobile_items_desktop: "fst ` set (mobileLinks a) \<subseteq> fst ` set (desktopLinks True)"
  by (cases a) (auto simp: nav_defs)

lemma onPointerDown_inv: "shell_inv s \<Longrightarrow> shell_inv (onPointerDown t s)"
  by (simp add: shell_inv_def onPointerDown_def menu_shown_cong [of "_\<lparr>sh_menus := _\<rparr>" s])

lemma onPointerDown_on_page: "on_page s t \<Longrightarrow> on_page (onPointerDown t s) t"
  by (cases t) (simp_all add: onPointerDown_def inside_def menu_shown_cong [of "_\<lparr>sh_menus := _\<rparr>" s])

lemma onClick_inv:
  assumes "shell_inv s" "on_page s t"
  shows "shell_inv (onClick t s)"
proof (cases t)
  case (OnItem m i)
  have "m \<noteq> MUser \<Longrightarrow> fst (menu_items m ! i) \<in> fst ` set (desktopLinks True)"
    using assms(2) OnItem menu_items_desktop [of m] by auto
  with assms OnItem show ?thesis
    by (auto simp: shell_inv_def menu_shown_cong [of "_\<lparr>sh_menus := _, sh_log := _\<rparr>" s]
        menu_shown_cong [of "_\<lparr>sh_log := _\<rparr>" s])
next
  case (OnMobile i)
  have "fst (mobileLinks (sh_admin s) ! i) \<in> fst ` set (desktopLinks True)"
    using assms(2) OnMobile mobile_items_desktop [of "sh_admin s"] by auto
  with assms OnMobile show ?thesis
    by (auto simp: shell_inv_def menu_shown_cong [of "_\<lparr>sh_mobile := _, sh_log := _\<rparr>" s])
qed (use assms in \<open>auto simp: shell_inv_def toggle_menu_def menu_shown_cong [of "_\<lparr>sh_menus := _\<rparr>" s]
       menu_shown_cong [of "_\<lparr>sh_mobile := _\<rparr>" s] menu_shown_cong [of "_\<lparr>sh_log := _\<rparr>" s]\<close>)

lemma drop_hidden_inv:
  "distinct (sh_menus s) \<Longrightarrow> \<forall>h. WentTo h \<in> set (sh_log s) \<longrightarrow> h \<in> fst ` set (desktopLinks True) \<Longrightarrow> shell_inv (drop_hidden s)"
  by (simp add: shell_inv_def drop_hidden_def menu_shown_cong [of "_\<lparr>sh_menus := _\<rparr>" s])

lemma shell_step_inv: "shell_inv s \<Longrightarrow> shell_inv (shell_step s e)"
proof -
  assume inv: "shell_inv s"
  have dropped: "shell_inv (drop_hidden t)" if "sh_menus t = sh_menus s" "sh_log t = sh_log s" for t
    using inv that by (intro drop_hidden_inv) (auto simp: shell_inv_def)
  show ?thesis
  proof (cases e)
    case (Pointed t)
    with inv show ?thesis using onClick_inv onPointerDown_inv onPointerDown_on_page by simp
  next
    case (Keyed t)
    with inv show ?thesis using onClick_inv by simp
  qed (simp_all add: dropped)
qed

interpretation shell_machine: invariant shell_fresh shell_trans shell_inv
  by unfold_locales (auto simp: shell_fresh_def shell_trans_def shell_step_inv, simp add: shell_inv_def)

lemma inside_same: "inside t m \<Longrightarrow> inside t m' \<Longrightarrow> m = m'"
  by (auto simp: inside_def)

lemma one_inside: "distinct ms \<Longrightarrow> length (filter (inside t) ms) \<le> 1"
proof (induction ms)
  case (Cons m ms)
  then have "inside t m \<Longrightarrow> filter (inside t) ms = []"
    using inside_same by (fastforce simp: filter_empty_conv)
  with Cons show ?case by simp
qed simp

lemma one_menu_filter: "one_menu s \<Longrightarrow> length (filter P (sh_menus s)) \<le> 1"
  unfolding one_menu_def by (meson le_trans length_filter_le)

lemma one_menu_toggle:
  assumes "set (sh_menus s) \<subseteq> {m}" "one_menu s"
  shows "one_menu (toggle_menu m s)"
proof (cases "m \<in> set (sh_menus s)")
  case True
  then show ?thesis using one_menu_filter [OF assms(2)] by (simp add: toggle_menu_def one_menu_def)
next
  case False
  with assms have "sh_menus s = []" by (cases "sh_menus s") auto
  then show ?thesis by (simp add: toggle_menu_def one_menu_def)
qed

lemma one_menu_click: "one_menu s \<Longrightarrow> \<forall>m \<in> set (sh_menus s). inside t m \<Longrightarrow> one_menu (onClick t s)"
proof (cases t)
  case (OnButton m)
  assume "one_menu s" "\<forall>m \<in> set (sh_menus s). inside t m"
  with OnButton have "set (sh_menus s) \<subseteq> {m}" "one_menu s" by (auto simp: inside_def)
  with OnButton show ?thesis using one_menu_toggle by simp
next
  case (OnItem m i)
  assume "one_menu s"
  with OnItem one_menu_filter show ?thesis by (simp add: one_menu_def)
qed (simp_all add: one_menu_def)

lemma shell_step_one:
  assumes "one_menu s" "shell_inv s" "\<forall>x. e \<noteq> Keyed x"
  shows "one_menu (shell_step s e)"
proof (cases e)
  case (Pointed t)
  have "one_menu (onPointerDown t s)"
    using assms(2) one_inside [of "sh_menus s" t] by (simp add: one_menu_def onPointerDown_def shell_inv_def)
  then have "one_menu (onClick t (onPointerDown t s))"
    by (rule one_menu_click) (simp add: onPointerDown_def)
  with Pointed assms(1) show ?thesis by simp
next
  case (Keyed t)
  with assms(3) show ?thesis by simp
qed (use one_menu_filter [OF assms(1)] in \<open>simp_all add: one_menu_def drop_hidden_def\<close>)

interpretation pointing: invariant shell_fresh pointer_trans "\<lambda>s. shell_inv s \<and> one_menu s"
proof unfold_locales
  show "shell_fresh s \<Longrightarrow> shell_inv s \<and> one_menu s" for s
    by (simp add: shell_fresh_def shell_inv_def one_menu_def)
  show "pointer_trans s e t \<Longrightarrow> shell_inv s \<and> one_menu s \<Longrightarrow> shell_inv t \<and> one_menu t" for s e t
    using shell_step_inv shell_step_one by (simp add: pointer_trans_def)
qed

text \<open>
  With a pointer at most one menu of the header is open, and only one the session has; what has been
  followed is an address of the navigation.
\<close>

theorem one_menu_at_a_time:
  assumes "reach shell_fresh pointer_trans s"
  shows "length (sh_menus s) \<le> 1 \<and> (\<forall>m \<in> set (sh_menus s). menu_shown s m)
     \<and> (\<forall>h. WentTo h \<in> set (sh_log s) \<longrightarrow> h \<in> set app_pages)"
proof -
  from pointing.reach_inv [OF assms] have "shell_inv s" "one_menu s" by simp_all
  moreover have "fst ` set (desktopLinks True) \<subseteq> set app_pages" using menus_agree by blast
  ultimately show ?thesis by (auto simp: shell_inv_def one_menu_def)
qed

text \<open>The keyboard opens one beside the other: no \<open>pointerdown\<close> tells the first to close.\<close>

definition exShell :: shell where
  "exShell = \<lparr>sh_path = ''/routes'', sh_admin = False, sh_user = Some ''a@b'', sh_menus = [], sh_mobile = False, sh_log = []\<rparr>"

theorem keyboard_opens_two_menus:
  "sh_menus (shell_step (shell_step exShell (Keyed (OnButton MProxy))) (Keyed (OnButton MUser))) = [MProxy, MUser]"
  by (simp add: exShell_def toggle_menu_def menu_shown_def isAuthRoute_def authRoutes_def)

section \<open>The trail\<close>

lemma unique_from:
  "map snd (map (\<lambda>i. (x # xs) ! i) (filter (\<lambda>i. i = 0 \<or> snd ((x # xs) ! i) \<noteq> snd ((x # xs) ! (i - 1))) [0..<Suc (length xs)]))
   = remdups_adj (map snd (x # xs))"
proof (induction xs arbitrary: x)
  case (Cons y ys)
  have up: "[0..<Suc (length (y # ys))] = 0 # map Suc [0..<Suc (length ys)]"
    by (simp add: map_Suc_upt upt_conv_Cons del: upt_Suc)
  have ih: "map (\<lambda>i. snd ((y # ys) ! i))
        (filter (\<lambda>i. i = 0 \<or> snd ((y # ys) ! i) \<noteq> snd ((y # ys) ! (i - 1))) [0..<Suc (length ys)])
      = remdups_adj (map snd (y # ys))"
    using Cons.IH [of y] by (simp add: comp_def del: upt_Suc)
  have up': "[0..<Suc (length ys)] = 0 # map Suc [0..<length ys]"
    by (simp add: map_Suc_upt upt_conv_Cons del: upt_Suc)
  show ?case using ih unfolding up up'
    by (simp add: filter_map comp_def del: upt_Suc)
qed simp

lemma unique_labels: "arr \<noteq> [] \<Longrightarrow> map snd (unique_crumbs arr) = remdups_adj (map snd arr)"
  using unique_from [of "hd arr" "tl arr"] by (cases arr) (simp_all add: unique_crumbs_def del: upt_Suc)

lemma unique_subseq: "subseq (unique_crumbs arr) arr"
proof -
  have "subseq (map (\<lambda>i. arr ! i) (filter P [0..<length arr])) (map (\<lambda>i. arr ! i) [0..<length arr])" for P
    by (intro subseq_map subseq_filter_left)
  then show ?thesis by (simp add: unique_crumbs_def map_nth)
qed

lemma hd_unique: "arr \<noteq> [] \<Longrightarrow> unique_crumbs arr \<noteq> [] \<and> hd (unique_crumbs arr) = hd arr"
  by (cases arr) (simp_all add: unique_crumbs_def upt_conv_Cons del: upt_Suc)


text \<open>The address of a crumb is the path up to its segment.\<close>

lemma join_with_append: "xs \<noteq> [] \<Longrightarrow> ys \<noteq> [] \<Longrightarrow> join_with sep (xs @ ys) = join_with sep xs @ sep @ join_with sep ys"
proof (induction sep xs rule: join_with.induct)
  case (2 sep x)
  then show ?case by (cases ys) auto
qed auto

lemma join_with_Cons: "join_with sep (x # xs) = x @ (if xs = [] then [] else sep @ join_with sep xs)"
  by (cases xs) auto

lemma join_take_prefix: "prefix (join_with sep (take i segs)) (join_with sep segs)"
proof (cases "take i segs = [] \<or> drop i segs = []")
  case True
  then show ?thesis by auto
next
  case False
  then show ?thesis using join_with_append [of "take i segs" "drop i segs" sep] by (simp add: prefix_def)
qed

lemma join_take_less:
  assumes "\<forall>s \<in> set segs. s \<noteq> []" "i < j" "j \<le> length segs"
  shows "length (join_with sep (take i segs)) < length (join_with sep (take j segs))"
proof -
  have "j = i + (j - i)" using assms(2) by simp
  then have t: "take j segs = take i segs @ take (j - i) (drop i segs)" by (metis take_add)
  obtain x xs where x: "take (j - i) (drop i segs) = x # xs" "x \<noteq> []"
    using assms by (cases "take (j - i) (drop i segs)") (auto dest: in_set_takeD in_set_dropD, metis in_set_dropD in_set_takeD list.set_intros(1))
  show ?thesis
  proof (cases "take i segs = []")
    case True
    with x show ?thesis unfolding t by (simp only: append_Nil) (simp add: join_with_Cons)
  next
    case False
    with x show ?thesis unfolding t by (simp add: join_with_append join_with_Cons)
  qed
qed

lemma path_segments_nonempty: "\<forall>s \<in> set (path_segments p). s \<noteq> []"
  by (simp add: path_segments_def)

lemma crumb_addresses:
  "map fst (crumb_list segs) = map (\<lambda>i. ''/'' @ join_with ''/'' (take i segs)) [0..<Suc (length segs)]"
  by (simp add: crumb_list_def comp_def upt_conv_Cons map_Suc_upt [symmetric] del: upt_Suc)

lemma crumbs_distinct:
  assumes "\<forall>s \<in> set segs. s \<noteq> []"
  shows "distinct (map fst (crumb_list segs))"
  unfolding crumb_addresses distinct_map
proof (intro conjI inj_onI)
  fix i j assume ij: "i \<in> set [0..<Suc (length segs)]" "j \<in> set [0..<Suc (length segs)]"
    "''/'' @ join_with ''/'' (take i segs) = ''/'' @ join_with ''/'' (take j segs)"
  then have le: "i \<le> length segs" "j \<le> length segs"
    and eq: "join_with ''/'' (take i segs) = join_with ''/'' (take j segs)" by auto
  show "i = j"
  proof (rule linorder_cases)
    assume "i < j"
    from join_take_less [OF assms this le(2), of "''/''"] eq show ?thesis by simp
  next
    assume "j < i"
    from join_take_less [OF assms this le(1), of "''/''"] eq show ?thesis by simp
  qed
qed simp

lemma crumb_labels: "map snd (crumb_list segs) = Label ''Overview'' # map segmentLabel segs"
proof -
  have "map (\<lambda>i. segmentLabel (segs ! i)) [0..<length segs] = map segmentLabel (map (\<lambda>i. segs ! i) [0..<length segs])"
    by (simp add: comp_def)
  then show ?thesis by (simp add: crumb_list_def comp_def map_nth)
qed

text \<open>
  The trail starts at the overview, its labels are those of the path's segments without repetitions,
  and every crumb has an address of its own, which is the beginning of the path.
\<close>

lemma subseq_elems: "subseq xs ys \<Longrightarrow> set xs \<subseteq> set ys"
  by (induction rule: list_emb.induct) auto

lemma distinct_subseq: "subseq xs ys \<Longrightarrow> distinct ys \<Longrightarrow> distinct xs"
  by (induction rule: list_emb.induct) (auto dest: subseq_elems)

theorem trail_of_a_path:
  assumes "Breadcrumbs p = Some cs"
  shows "hd cs = (''/'', Label ''Overview'') \<and> 2 \<le> length cs \<and> distinct (map fst cs)
     \<and> map snd cs = remdups_adj (Label ''Overview'' # map segmentLabel (path_segments p))
     \<and> (\<forall>h \<in> fst ` set cs. prefix h (''/'' @ join_with ''/'' (path_segments p)))"
proof -
  let ?all = "crumb_list (path_segments p)"
  from assms have cs: "cs = unique_crumbs ?all" "2 \<le> length cs"
    by (auto simp: Breadcrumbs_def Let_def split: if_splits)
  have ne: "?all \<noteq> []" by (simp add: crumb_list_def)
  have "hd cs = (''/'', Label ''Overview'')" using hd_unique [OF ne] cs by (simp add: crumb_list_def)
  moreover have "distinct (map fst cs)"
    using distinct_subseq [OF subseq_map [OF unique_subseq] crumbs_distinct [OF path_segments_nonempty]] cs by simp
  moreover have "map snd cs = remdups_adj (Label ''Overview'' # map segmentLabel (path_segments p))"
    using unique_labels [OF ne] cs by (simp add: crumb_labels)
  moreover have "\<forall>h \<in> fst ` set cs. prefix h (''/'' @ join_with ''/'' (path_segments p))"
  proof
    fix h assume "h \<in> fst ` set cs"
    also have "fst ` set cs \<subseteq> set (map fst ?all)"
      using cs(1) subseq_elems [OF unique_subseq] by auto
    finally obtain i where "h = ''/'' @ join_with ''/'' (take i (path_segments p))"
      unfolding crumb_addresses by (auto simp del: upt_Suc)
    then show "prefix h (''/'' @ join_with ''/'' (path_segments p))"
      using join_take_prefix by simp
  qed
  ultimately show ?thesis using cs(2) by blast
qed

text \<open>
  On the pages of the platform administration the trail has a link to \<open>/platform\<close>, which is no page; on
  all others its links lead to pages.
\<close>

definition trail_is_sound :: "string \<Rightarrow> bool" where
  "trail_is_sound p =
     (case Breadcrumbs p of None \<Rightarrow> True | Some cs \<Rightarrow> list_all (\<lambda>h. h \<in> set app_pages) (crumb_links cs))"

theorem platform_crumb_is_no_page:
  "filter (\<lambda>p. \<not> trail_is_sound p) app_pages = [''/platform/admins'', ''/platform/orgs'', ''/platform/users'']"
  by code_simp

section \<open>Initials\<close>

definition plain :: "char \<Rightarrow> bool" where
  "plain c \<longleftrightarrow> (33 :: nat) \<le> of_char c \<and> (of_char c :: nat) < 127 \<and> c \<noteq> CHR ''@''"

lemma trimStart_plain: "(33 :: nat) \<le> of_char c \<Longrightarrow> (of_char c :: nat) < 127 \<Longrightarrow> trimStart (c # s) = c # s"
  by (cases "(c # s)" rule: trimStart.cases) (auto simp: white1_def white2_def white3_def Let_def)

lemma trimEnd_plain: "(33 :: nat) \<le> of_char c \<Longrightarrow> (of_char c :: nat) < 127 \<Longrightarrow> trimEnd_rev (c # s) = c # s"
  by (cases "(c # s)" rule: trimEnd_rev.cases) (auto simp: white1_def white2_def white3_def Let_def)

definition visible :: "char \<Rightarrow> bool" where
  "visible c \<longleftrightarrow> (33 :: nat) \<le> of_char c \<and> (of_char c :: nat) < 127"

lemma trim_visible: "list_all visible s \<Longrightarrow> trim s = s"
proof (cases s)
  case (Cons c s')
  assume v: "list_all visible s"
  then have st: "trimStart s = s" using Cons trimStart_plain by (simp add: visible_def)
  obtain d r where r: "rev s = d # r" using Cons by (cases "rev s") auto
  then have "d \<in> set s" by (metis list.set_intros(1) set_rev)
  with v have "trimEnd_rev (rev s) = rev s" using r trimEnd_plain by (simp add: list_all_iff visible_def)
  with st show ?thesis by (simp add: trim_def)
qed (simp add: trim_def)

lemma characters_visible: "list_all visible s \<Longrightarrow> characters s = map (\<lambda>c. [c]) s"
  by (induction s) (auto simp: visible_def Let_def)

lemma split_white_visible: "list_all visible s \<Longrightarrow> split_white w (map (\<lambda>c. [c]) s) = [w @ map (\<lambda>c. [c]) s]"
  by (induction s arbitrary: w) (auto simp: visible_def white_char_def white1_def)

text \<open>The initials of an e-mail address are the first two characters before its \<open>@\<close>.\<close>

theorem initials_of_an_address:
  assumes "list_all plain u" "list_all plain d"
  shows "getInitials up (u @ ''@'' @ d) = up (take 2 u)"
proof -
  have v: "list_all visible (u @ ''@'' @ d)" using assms by (auto simp: plain_def visible_def list_all_iff)
  have no: "takeWhile (\<lambda>c. c \<noteq> ''@'') (map (\<lambda>c. [c]) (u @ ''@'' @ d)) = map (\<lambda>c. [c]) u"
    using assms(1) by (induction u) (auto simp: plain_def)
  have "dropWhile (\<lambda>c. c \<noteq> ''@'') (map (\<lambda>c. [c]) (u @ ''@'' @ d)) = map (\<lambda>c. [c]) (CHR ''@'' # d)"
    using assms(1) by (induction u) (auto simp: plain_def)
  moreover have "visible c \<Longrightarrow> \<not> line_end [c]" for c by (auto simp: visible_def line_end_def)
  with v have "\<forall>c \<in> set (CHR ''@'' # d). \<not> line_end [c]" by (simp add: list_all_iff)
  ultimately have le: "dropWhile (\<lambda>c. \<not> line_end c) (dropWhile (\<lambda>c. c \<noteq> ''@'') (map (\<lambda>c. [c]) (u @ ''@'' @ d))) = []"
    by (auto simp: dropWhile_eq_Nil_conv)
  have "concat (take 2 (map (\<lambda>c. [c]) u)) = take 2 u" by (simp add: take_map concat_map_singleton)
  then show ?thesis
    by (simp only: getInitials_def trim_visible [OF v] characters_visible [OF v] split_white_visible [OF v] without_host_def no le)
      (simp add: Let_def)
qed


section \<open>Examples\<close>

theorem theme_survives_reloads_witness:
  "theme_step (theme_mounted True (Some ''system'')) Reloaded = theme_mounted True (Some ''system'')
   \<and> th_html (theme_mounted True (Some ''system'')) = ''dark''"
proof -
  have "reach theme_fresh theme_trans (theme_mounted True (Some ''system''))"
    by (rule reach_init) (auto simp: theme_fresh_def)
  from theme_survives_reloads [OF this] show ?thesis
    by (simp add: effectiveTheme_def theme_mounted_def applyTheme_def isTheme_def Let_def)
qed

theorem one_menu_at_a_time_witness:
  "length (sh_menus (shell_step (shell_step exShell (Pointed (OnButton MProxy))) (Pointed (OnButton MUser)))) \<le> 1"
proof -
  have "reach shell_fresh pointer_trans exShell"
    by (rule reach_init) (simp add: shell_fresh_def exShell_def)
  from reach_step [OF reach_step [OF this, where e = "Pointed (OnButton MProxy)"], where e = "Pointed (OnButton MUser)"]
  have "reach shell_fresh pointer_trans
      (shell_step (shell_step exShell (Pointed (OnButton MProxy))) (Pointed (OnButton MUser)))"
    by (simp add: pointer_trans_def)
  from one_menu_at_a_time [OF this] show ?thesis by (rule conjunct1)
qed

lemma users_trail:
  "Breadcrumbs ''/platform/users'' = Some [(''/'', Label ''Overview''), (''/platform'', Label ''Platform''), (''/platform/users'', Label ''Users'')]"
  by code_simp

theorem trail_of_a_path_witness:
  "map snd [(''/'', Label ''Overview''), (''/platform'', Label ''Platform''), (''/platform/users'', Label ''Users'')]
   = remdups_adj (Label ''Overview'' # map segmentLabel (path_segments ''/platform/users''))"
  using trail_of_a_path [OF users_trail] by blast

end
