(* ===== verification/Pages.thy ===== *)
theory Pages
  imports Shell BackendClient Contracts Notices TopologyGeometry
begin

text \<open>
  The server components \<open>app/*/page.tsx\<close> with their frame \<open>components/admin/section-page.tsx\<close>: who may see a
  page, what it asks the backend, the figures it computes and what it hands to its components. The
  audit log and the pages before sign-in are in theories of their own.

  \<open>Promise.all\<close> is the sequence of its queries: a query never throws, so none cuts another short.
\<close>

section \<open>The frame of a page\<close>

record 'c framed =
  sc_title :: string
  sc_source :: string
  sc_error :: "string option"
  sc_children :: 'c

definition section_of :: "string \<Rightarrow> query_result \<Rightarrow> 'c \<Rightarrow> 'c framed" where
  "section_of title r c = \<lparr>sc_title = title, sc_source = qr_source r, sc_error = qr_error r, sc_children = c\<rparr>"

text \<open>
  Searching for a regular expression without anchors, ignoring case; \<open>None\<close> is the dot. Case folding only
  matters for the ASCII letters of the patterns.
\<close>

definition upper :: "char \<Rightarrow> char" where
  "upper c = (let n = (of_char c :: nat) in if 97 \<le> n \<and> n \<le> 122 then char_of (n - 32) else c)"

fun match_here :: "char option list \<Rightarrow> string \<Rightarrow> bool" where
  "match_here [] s = True"
| "match_here (p # ps) [] = False"
| "match_here (Some x # ps) (c # s) = (upper x = upper c \<and> match_here ps s)"
| "match_here (None # ps) (c # s) = (c \<notin> set [CHR 0x0A, CHR 0x0D] \<and> match_here ps s)"

fun found_in :: "char option list \<Rightarrow> string \<Rightarrow> bool" where
  "found_in p [] = match_here p []"
| "found_in p (c # s) = (match_here p (c # s) \<or> found_in p s)"

definition says :: "string \<Rightarrow> string \<Rightarrow> bool" where
  "says word s = found_in (map Some word) s"

definition org_header_pattern :: "char option list" where
  "org_header_pattern = map Some ''org'' @ [None] @ map Some ''id'' @ [None] @ map Some ''header''"

definition friendlyError :: "string \<Rightarrow> string \<times> bool" where
  "friendlyError raw =
     (if says ''X-Org-ID'' raw \<or> found_in org_header_pattern raw then ([], True)
      else if says ''503'' raw \<or> says ''unavailable'' raw \<or> says ''connect'' raw
      then (''The backend is unreachable. Check that JustGate is running and accessible.'', False)
      else if says ''401'' raw \<or> says ''unauthorized'' raw
      then (''Authorization failed. The admin token may be misconfigured.'', False)
      else if says ''404'' raw then (''The requested resource was not found on the backend.'', False)
      else if says ''timeout'' raw then (''The backend took too long to respond. It may be overloaded.'', False)
      else if says ''500'' raw \<or> says ''internal'' raw
      then (''The backend returned an internal error. Check its logs for details.'', False)
      else (raw, False))"

text \<open>What is drawn: the badge, the notice about a missing organisation or the message, and the content.\<close>

datatype notice = NoOrganisation | Problem string

record 'c drawn =
  dr_live :: bool
  dr_notice :: "notice option"
  dr_content :: "'c option"

definition SectionPage :: "'c framed \<Rightarrow> 'c drawn" where
  "SectionPage s =
     (let parsed = (if truthy (sc_error s) then Some (friendlyError (the (sc_error s))) else None);
          orgRequired = (case parsed of Some (m, b) \<Rightarrow> b | None \<Rightarrow> False) in
      \<lparr>dr_live = (sc_source s = ''backend''),
       dr_notice = (if orgRequired then Some NoOrganisation
                    else case parsed of Some (m, b) \<Rightarrow> if m = [] then None else Some (Problem m) | None \<Rightarrow> None),
       dr_content = (if orgRequired then None else Some (sc_children s))\<rparr>)"

section \<open>What a page reads off its data\<close>

text \<open>
  \<open>map\<close>, \<open>filter\<close> and \<open>length\<close> on the data of a query. What is no array is refused: \<open>null\<close> throws, and the
  \<open>length\<close> of a text or an object, which no query has, is left out.
\<close>

definition items :: "json \<Rightarrow> json list eff" where
  "items v = (case v of JArr xs \<Rightarrow> ret xs | _ \<Rightarrow> throw (TypeError ''not an array''))"

text \<open>\<open>for (const x of v)\<close>.\<close>

definition iterate :: "json \<Rightarrow> json list eff" where
  "iterate v = (case v of JArr xs \<Rightarrow> ret xs | JStr s \<Rightarrow> ret (map JStr (characters s))
                | _ \<Rightarrow> throw (TypeError ''not iterable''))"

primrec field_of :: "string \<Rightarrow> json list \<Rightarrow> json option list eff" where
  "field_of k [] = ret []"
| "field_of k (x # xs) = seq (js_member x k) (\<lambda>v. seq (field_of k xs) (\<lambda>vs. ret (v # vs)))"

text \<open>A value as the key of an object; \<open>num\<close> prints numbers.\<close>

definition property_key :: "(rat \<Rightarrow> string) \<Rightarrow> json option \<Rightarrow> string" where
  "property_key num v = (case v of None \<Rightarrow> ''undefined'' | Some j \<Rightarrow> js_String num j)"

text \<open>
  Counting in a plain object, \<open>rec[k] = (rec[k] ?? 0) + 1\<close>. What the object inherits under \<open>k\<close> is no number:
  adding to it makes a text, \<open>Garbled k n\<close> with \<open>n\<close> ones behind it; and \<open>__proto__\<close> cannot be set to a text.
\<close>

datatype js_count = Count nat | Garbled string nat

type_synonym counts = "string \<Rightarrow> js_count option"

definition count_of :: "counts \<Rightarrow> string \<Rightarrow> js_count" where
  "count_of rec k =
     (case rec k of Some c \<Rightarrow> c | None \<Rightarrow> if k \<in> set inherited_names then Garbled k 0 else Count 0)"

definition count_up :: "counts \<Rightarrow> string \<Rightarrow> counts" where
  "count_up rec k =
     (case count_of rec k of
        Count n \<Rightarrow> rec(k \<mapsto> Count (n + 1))
      | Garbled s n \<Rightarrow> if k = ''__proto__'' then rec else rec(k \<mapsto> Garbled s (n + 1)))"

definition count_all :: "string list \<Rightarrow> counts" where
  "count_all ks = foldl count_up Map.empty ks"

section \<open>Who may see a page\<close>

definition gated :: "(session \<Rightarrow> bool) \<Rightarrow> (session \<Rightarrow> 'p eff) \<Rightarrow> 'p page eff" where
  "gated ok body = seq auth (\<lambda>session.
     case session of
       None \<Rightarrow> ret (Redirected ''/'')
     | Some s \<Rightarrow> if ok s then seq (body s) (\<lambda>p. ret (Page p)) else ret (Redirected ''/''))"

definition isPlatformAdmin :: "session \<Rightarrow> bool" where
  "isPlatformAdmin s \<longleftrightarrow> s_isPlatformAdmin s = Some True"

definition hasActiveOrg :: "session \<Rightarrow> bool" where
  "hasActiveOrg s \<longleftrightarrow> truthy (s_activeOrgId s)"

definition DashboardPage :: "unit page eff" where
  "DashboardPage = ret (Redirected ''/'')"

definition SettingsPage :: "(json \<times> json \<times> json) framed page eff" where
  "SettingsPage = gated isPlatformAdmin (\<lambda>_.
     seq getOIDCConfig (\<lambda>oidc. seq getOIDCOrgMappings (\<lambda>mappings. seq getRetentionSettings (\<lambda>retention.
     ret (section_of ''Settings'' oidc (qr_data oidc, qr_data mappings, qr_data retention))))))"

definition PlatformAdminsPage :: "json framed page eff" where
  "PlatformAdminsPage = gated isPlatformAdmin (\<lambda>_.
     seq getPlatformAdmins (\<lambda>r. ret (section_of ''Platform Admins'' r (qr_data r))))"

definition PlatformUsersPage :: "json list framed page eff" where
  "PlatformUsersPage = gated isPlatformAdmin (\<lambda>_.
     seq getAdminUsers (\<lambda>r. seq (items (qr_data r)) (\<lambda>us. ret (section_of ''All Users'' r us))))"

definition SecurityPage :: "json framed page eff" where
  "SecurityPage = gated hasActiveOrg (\<lambda>_.
     seq getOrgIPRules (\<lambda>r. ret (section_of ''IP Allowlist'' r (qr_data r))))"

subsection \<open>All organisations\<close>

record orgs_content =
  og_orgs :: "json list"
  og_tenantCountByOrg :: counts
  og_routeCountByOrg :: counts

text \<open>The tenants with an organisation, as pairs of their id and its id.\<close>

definition org_tenants :: "(rat \<Rightarrow> string) \<Rightarrow> json option list \<Rightarrow> json option list \<Rightarrow> (string \<times> string) list" where
  "org_tenants num tids orgs =
     map (\<lambda>(t, g). (property_key num t, property_key num g)) (filter (\<lambda>(t, g). truthy_json g) (zip tids orgs))"

text \<open>
  \<open>tenantIDToOrgID\<close>: later tenants replace earlier ones, and an assignment to \<open>__proto__\<close> is lost. Looked up, an
  inherited value is true, and as a key it is its text; \<open>inherited\<close> prints it.
\<close>

definition tenantIDToOrgID :: "(string \<times> string) list \<Rightarrow> string \<Rightarrow> string option" where
  "tenantIDToOrgID ps = map_of (rev (filter (\<lambda>(t, g). t \<noteq> ''__proto__'') ps))"

definition org_of_route :: "(string \<Rightarrow> string) \<Rightarrow> (string \<times> string) list \<Rightarrow> string \<Rightarrow> string option" where
  "org_of_route inherited ps t =
     (case tenantIDToOrgID ps t of
        Some g \<Rightarrow> if g = [] then None else Some g
      | None \<Rightarrow> if t \<in> set inherited_names then Some (inherited t) else None)"

definition org_counts ::
  "(string \<Rightarrow> string) \<Rightarrow> (string \<times> string) list \<Rightarrow> string list \<Rightarrow> counts \<times> counts" where
  "org_counts inherited ps routes =
     (count_all (map snd ps), count_all (List.map_filter (org_of_route inherited ps) routes))"

definition PlatformOrgsPage :: "(rat \<Rightarrow> string) \<Rightarrow> (string \<Rightarrow> string) \<Rightarrow> orgs_content framed page eff" where
  "PlatformOrgsPage num inherited = gated isPlatformAdmin (\<lambda>_.
     seq getAdminOrgs (\<lambda>r. seq getTenants (\<lambda>tenants. seq getRoutes (\<lambda>routes.
     seq (iterate (qr_data tenants)) (\<lambda>ts. seq (field_of ''orgID'' ts) (\<lambda>gs. seq (field_of ''tenantID'' ts) (\<lambda>tids.
     seq (iterate (qr_data routes)) (\<lambda>rs. seq (field_of ''tenantID'' rs) (\<lambda>rtids.
     seq (items (qr_data r)) (\<lambda>orgs.
     let counts = org_counts inherited (org_tenants num tids gs) (map (property_key num) rtids) in
     ret (section_of ''All Organisations'' r
            \<lparr>og_orgs = orgs, og_tenantCountByOrg = fst counts, og_routeCountByOrg = snd counts\<rparr>)))))))))))"

text \<open>The badges of an organisation's row: \<open>None\<close> is not shown.\<close>

definition positive :: "js_count \<Rightarrow> bool" where
  "positive c \<longleftrightarrow> (\<exists>n > 0. c = Count n)"

definition org_badges :: "orgs_content \<Rightarrow> string \<Rightarrow> js_count option \<times> js_count option \<times> bool" where
  "org_badges c o' =
     (let t = count_of (og_tenantCountByOrg c) o'; r = count_of (og_routeCountByOrg c) o' in
      (if positive t then Some t else None, if positive r then Some r else None, t = Count 0 \<and> r = Count 0))"

subsection \<open>The team\<close>

record team_content =
  te_members :: "json list"
  te_org :: "json option"
  te_isOwner :: bool
  te_currentUserID :: string
  te_invites :: "json list"

primrec find_org :: "string \<Rightarrow> json list \<Rightarrow> json option eff" where
  "find_org i [] = ret None"
| "find_org i (x # xs) = seq (js_member x ''id'') (\<lambda>v. if v = Some (JStr i) then ret (Some x) else find_org i xs)"

definition TeamPage :: "team_content framed page eff" where
  "TeamPage = gated hasActiveOrg (\<lambda>s.
     let orgID = the (s_activeOrgId s) in
     seq getOrgs (\<lambda>orgs. seq (getOrgMembers orgID) (\<lambda>members. seq (getOrgInvites orgID) (\<lambda>invites.
     seq (items (qr_data orgs)) (\<lambda>os. seq (find_org orgID os) (\<lambda>activeOrg.
     seq (items (qr_data members)) (\<lambda>ms.
     let isOwner = (case activeOrg of Some g \<Rightarrow> jprop g ''role'' = Some (JStr ''owner'') | None \<Rightarrow> False) in
     seq (if isOwner then items (qr_data invites) else ret []) (\<lambda>is.
     ret (section_of ''Team'' members
            \<lparr>te_members = ms, te_org = activeOrg, te_isOwner = isOwner,
             te_currentUserID = nullish (Option.bind (s_user s) su_id) [], te_invites = is\<rparr>)))))))))"

section \<open>The pages of the gateway\<close>

definition read_only :: "query_result \<Rightarrow> bool" where
  "read_only r \<longleftrightarrow> qr_source r \<noteq> ''backend''"

record tenant_card =
  tc_tenant :: json
  tc_routes :: js_count
  tc_tokens :: js_count

record tenants_content =
  tp_disabled :: bool
  tp_cards :: "tenant_card list"

definition tenant_cards :: "(rat \<Rightarrow> string) \<Rightarrow> json list \<Rightarrow> json option list \<Rightarrow> json option list \<Rightarrow> json option list \<Rightarrow> tenant_card list" where
  "tenant_cards num tenants ids rtids ktids =
     (let routes = count_all (map (property_key num) rtids); tokens = count_all (map (property_key num) ktids) in
      map (\<lambda>(t, i). \<lparr>tc_tenant = t, tc_routes = count_of routes (property_key num i),
                      tc_tokens = count_of tokens (property_key num i)\<rparr>) (zip tenants ids))"

definition TenantsPage :: "(rat \<Rightarrow> string) \<Rightarrow> tenants_content framed eff" where
  "TenantsPage num =
     seq getTenants (\<lambda>r. seq getRoutes (\<lambda>routes. seq getTokens (\<lambda>tokens.
     seq (iterate (qr_data routes)) (\<lambda>rs. seq (field_of ''tenantID'' rs) (\<lambda>rtids.
     seq (iterate (qr_data tokens)) (\<lambda>ks. seq (field_of ''tenantID'' ks) (\<lambda>ktids.
     seq (items (qr_data r)) (\<lambda>ts. seq (field_of ''tenantID'' ts) (\<lambda>ids.
     ret (section_of ''Tenants'' r
            \<lparr>tp_disabled = read_only r, tp_cards = tenant_cards num ts ids rtids ktids\<rparr>))))))))))"

record routes_content =
  rp_routes :: "json list"
  rp_tenants :: "json list"
  rp_tokens :: json
  rp_existingSlugs :: "json option list"
  rp_backendBaseUrl :: string
  rp_disabled :: bool
  rp_heatmap :: bool
  rp_needsTenant :: bool

definition RoutesPage :: "routes_content framed eff" where
  "RoutesPage =
     seq getRoutes (\<lambda>r. seq getTenants (\<lambda>tenants. seq getTokens (\<lambda>tokens. seq (ask getPublicBaseUrl) (\<lambda>base.
     seq (items (qr_data r)) (\<lambda>rs. seq (field_of ''slug'' rs) (\<lambda>slugs. seq (items (qr_data tenants)) (\<lambda>ts.
     ret (section_of ''Proxy Routes'' r
            \<lparr>rp_routes = rs, rp_tenants = ts, rp_tokens = qr_data tokens, rp_existingSlugs = slugs,
             rp_backendBaseUrl = base, rp_disabled = read_only r, rp_heatmap = (rs \<noteq> []),
             rp_needsTenant = (ts = [])\<rparr>))))))))"

record credentials_content =
  cp_items :: "json list"
  cp_tenantIDs :: "json option list"
  cp_disabled :: bool
  cp_lifecycle :: bool

definition TokensPage :: "credentials_content framed eff" where
  "TokensPage =
     seq getTokens (\<lambda>r. seq getTenants (\<lambda>tenants.
     seq (items (qr_data r)) (\<lambda>ks. seq (items (qr_data tenants)) (\<lambda>ts. seq (field_of ''tenantID'' ts) (\<lambda>ids.
     ret (section_of ''Tokens'' r
            \<lparr>cp_items = ks, cp_tenantIDs = ids, cp_disabled = read_only r, cp_lifecycle = (ks \<noteq> [])\<rparr>))))))"

definition GrantsPage :: "credentials_content framed eff" where
  "GrantsPage =
     seq getGrants (\<lambda>r. seq getTenants (\<lambda>tenants.
     seq (items (qr_data r)) (\<lambda>gs. seq (items (qr_data tenants)) (\<lambda>ts. seq (field_of ''tenantID'' ts) (\<lambda>ids.
     ret (section_of ''Provisioning Grants'' r
            \<lparr>cp_items = gs, cp_tenantIDs = ids, cp_disabled = read_only r, cp_lifecycle = False\<rparr>))))))"

definition SessionsPage :: "json framed eff" where
  "SessionsPage = seq getAdminSessions (\<lambda>r. ret (section_of ''Sessions'' r (qr_data r)))"

definition TopologyPage :: "(query_result \<times> string option) eff" where
  "TopologyPage = seq getTopology (\<lambda>topology. seq auth (\<lambda>session.
     ret (topology, Option.bind session s_activeOrgId)))"

subsection \<open>Protected apps\<close>

record apps_content =
  pp_apps :: "json list"
  pp_disabled :: bool
  pp_sessions :: "(string \<times> nat) list"
  pp_tokens :: "(string \<times> nat) list"

primrec each :: "('a \<Rightarrow> 'b eff) \<Rightarrow> 'a list \<Rightarrow> 'b list eff" where
  "each f [] = ret []"
| "each f (x # xs) = seq (f x) (\<lambda>y. seq (each f xs) (\<lambda>ys. ret (y # ys)))"

definition session_count :: "string \<Rightarrow> (string \<times> nat) eff" where
  "session_count i = seq (getAppSessions i) (\<lambda>r. seq (items (qr_data r)) (\<lambda>xs. ret (i, length xs)))"

definition token_count :: "string \<Rightarrow> (string \<times> nat) eff" where
  "token_count i = seq (getAppTokens i) (\<lambda>r. seq (items (qr_data r)) (\<lambda>xs. seq (field_of ''active'' xs) (\<lambda>as.
     ret (i, length (filter truthy_json as)))))"

definition ProtectedAppsPage :: "(rat \<Rightarrow> string) \<Rightarrow> apps_content framed eff" where
  "ProtectedAppsPage num =
     seq getProtectedApps (\<lambda>r. seq (items (qr_data r)) (\<lambda>apps. seq (field_of ''id'' apps) (\<lambda>ids.
     seq (each session_count (map (property_key num) ids)) (\<lambda>sessions.
     seq (each token_count (map (property_key num) ids)) (\<lambda>tokens.
     ret (section_of ''Protected Apps'' r
            \<lparr>pp_apps = apps, pp_disabled = read_only r, pp_sessions = sessions, pp_tokens = tokens\<rparr>))))))"

text \<open>\<open>Object.fromEntries\<close>: the last entry of a key counts.\<close>

definition app_count :: "(string \<times> nat) list \<Rightarrow> string \<Rightarrow> nat option" where
  "app_count entries i = map_of (rev entries) i"


section \<open>The overview\<close>

text \<open>The data as \<open>contracts.ts\<close> types it.\<close>

record setup_item =
  su_step :: string
  su_done :: bool
  su_href :: string
  su_stat :: "string option"

definition setupSteps :: "OverviewStats \<Rightarrow> setup_item list" where
  "setupSteps st =
     [\<lparr>su_step = ''Create a tenant boundary'', su_done = (ov_tenants st > 0), su_href = ''/tenants'',
       su_stat = (if ov_tenants st > 0 then Some (show_int (ov_tenants st) @ '' tenant'' @ plural (ov_tenants st)) else None)\<rparr>,
      \<lparr>su_step = ''Map proxy routes to tenants'', su_done = (ov_routes st > 0), su_href = ''/routes'',
       su_stat = (if ov_routes st > 0 then Some (show_int (ov_routes st) @ '' route'' @ plural (ov_routes st)) else None)\<rparr>,
      \<lparr>su_step = ''Issue scoped access tokens'', su_done = (ov_activeTokens st > 0), su_href = ''/tokens'',
       su_stat = (if ov_activeTokens st > 0 then Some (show_int (ov_activeTokens st) @ '' active'') else None)\<rparr>]"

definition allDone :: "setup_item list \<Rightarrow> bool" where
  "allDone steps \<longleftrightarrow> list_all su_done steps"

definition completedCount :: "setup_item list \<Rightarrow> nat" where
  "completedCount steps = length (filter su_done steps)"

definition auditTrend :: "int \<Rightarrow> int \<Rightarrow> (int \<times> bool) option" where
  "auditTrend cur prior =
     (if prior = 0 then None
      else let pct = math_round ((of_int cur - of_int prior) / of_int prior * 100) in Some (pct, pct \<ge> 0))"

text \<open>A token that expires soon, with its label and colour.\<close>

definition expiring_item :: "ExpiringToken \<Rightarrow> string \<times> string \<times> string" where
  "expiring_item t =
     (let d = et_daysUntilExpiry t in
      (et_name t, if d \<le> 0 then ''Today'' else show_int d @ ''d'',
       if d \<le> 1 then ''danger'' else if d \<le> 3 then ''warning'' else ''muted-foreground''))"

definition breaker_color :: "string \<Rightarrow> string" where
  "breaker_color st = (if st = ''closed'' then ''success'' else if st = ''open'' then ''danger'' else ''warning'')"

record home =
  ho_online :: bool
  ho_stats :: "(string \<times> int \<times> string \<times> (int \<times> bool) option) list"
  ho_header_wizard :: bool
  ho_checklist :: "(nat \<times> setup_item list) option"
  ho_wizard_disabled :: bool
  ho_tenantIDs :: "string list"
  ho_nodes :: int
  ho_breakers :: "(string \<times> string) list"
  ho_expiring :: "(string \<times> string \<times> string) list"

definition Home :: "TopologySnapshot \<Rightarrow> int \<Rightarrow> int \<Rightarrow> CircuitBreakerStatus list \<Rightarrow> ExpiringToken list \<Rightarrow> home" where
  "Home topology totalRequests priorRequests breakers expiring =
     (let st = ts_stats topology; steps = setupSteps st; online = (rt_status (ts_runtime topology) = ''online'') in
      \<lparr>ho_online = online,
       ho_stats = [(''Tenants'', ov_tenants st, ''/tenants'', None), (''Routes'', ov_routes st, ''/routes'', None),
                   (''Active Tokens'', ov_activeTokens st, ''/tokens'', None),
                   (''Audit (24h)'', ov_auditEvents24h st, ''/audit'', auditTrend totalRequests priorRequests)],
       ho_header_wizard = allDone steps,
       ho_checklist = (if allDone steps then None else Some (completedCount steps, steps)),
       ho_wizard_disabled = (\<not> online),
       ho_tenantIDs = map tn_tenantID (ts_tenants topology),
       ho_nodes = ov_tenants st + ov_routes st + ov_activeTokens st,
       ho_breakers = map (\<lambda>b. (''/proxy/'' @ cb_slug b, breaker_color (cb_state b))) breakers,
       ho_expiring = map expiring_item (take 5 expiring)\<rparr>)"

section \<open>Closed pages\<close>

lemma gated_run:
  "gated ok body E w =
     (case auth_result E w of
        Some s \<Rightarrow> if ok s then seq (body s) (\<lambda>p. ret (Page p)) E (auth_world E w)
                  else (Done (Redirected ''/''), auth_world E w)
      | None \<Rightarrow> (Done (Redirected ''/''), auth_world E w))"
  by (simp add: gated_def seq_def auth_run ret_def split: option.splits)

lemma gated_refuses:
  assumes "\<forall>s. auth_result E w = Some s \<longrightarrow> \<not> ok s"
  shows "gated ok body E w = (Done (Redirected ''/''), auth_world E w)"
  using assms by (simp add: gated_run split: option.splits)

text \<open>C37: Without the flag of a platform administrator the pages of the platform send the visitor to the
  overview before they have asked the backend anything; all they may have sent is the refresh of the
  single-sign-on settings.
\<close>

theorem platform_pages_are_closed:
  assumes "\<forall>s. auth_result E w = Some s \<longrightarrow> s_isPlatformAdmin s \<noteq> Some True"
  shows "SettingsPage E w = (Done (Redirected ''/''), auth_world E w)
     \<and> PlatformUsersPage E w = (Done (Redirected ''/''), auth_world E w)
     \<and> PlatformAdminsPage E w = (Done (Redirected ''/''), auth_world E w)
     \<and> PlatformOrgsPage num inh E w = (Done (Redirected ''/''), auth_world E w)
     \<and> (\<exists>rqs. w_sent (auth_world E w) = w_sent w @ rqs \<and> (\<forall>rq \<in> set rqs. is_oidc_refresh rq))"
proof -
  have "\<forall>s. auth_result E w = Some s \<longrightarrow> \<not> isPlatformAdmin s"
    using assms by (simp add: isPlatformAdmin_def)
  note refused = gated_refuses [OF this]
  show ?thesis
    unfolding SettingsPage_def PlatformUsersPage_def PlatformAdminsPage_def PlatformOrgsPage_def
    by (simp add: refused auth_world_sent)
qed

text \<open>The team and the allowlist need an organisation in the same way.\<close>

theorem organisation_pages_need_one:
  assumes "\<forall>s. auth_result E w = Some s \<longrightarrow> \<not> truthy (s_activeOrgId s)"
  shows "TeamPage E w = (Done (Redirected ''/''), auth_world E w)
     \<and> SecurityPage E w = (Done (Redirected ''/''), auth_world E w)"
  unfolding TeamPage_def SecurityPage_def using assms by (simp add: gated_refuses hasActiveOrg_def)

section \<open>Running a page\<close>

definition ends :: "'a eff \<Rightarrow> env \<Rightarrow> world \<Rightarrow> 'a outcome \<Rightarrow> bool" where
  "ends m E w r \<longleftrightarrow> (\<exists>w'. m E w = (r, w'))"

text \<open>The backend answers a query of the path with the JSON value, or with the answer, whatever it was asked before.\<close>

definition answers :: "env \<Rightarrow> string \<Rightarrow> fetch_result \<Rightarrow> bool" where
  "answers E p a \<longleftrightarrow> (\<forall>h rq. rq_url rq = getBackendBaseUrl E @ p \<longrightarrow> backend E h rq = a)"

definition good :: "json \<Rightarrow> fetch_result" where
  "good j = Responded \<lparr>rs_status = 200, rs_headers = [], rs_text = [], rs_json = Inr j\<rparr>"

definition from_backend :: "env \<Rightarrow> json \<Rightarrow> query_result" where
  "from_backend E j = \<lparr>qr_data = j, qr_source = ''backend'', qr_backendUrl = getBackendBaseUrl E, qr_error = None\<rparr>"

named_theorems page_runs \<open>running the steps of a page\<close>

lemma ends_ret [page_runs]: "ends (ret a) E w (Done a)"
  by (simp add: ends_def ret_def)

lemma ends_fetch:
  assumes "answers E p a" "\<And>w'. ends (k (query_answer E fb a)) E w' r"
  shows "ends (seq (fetchBackend p fb) k) E w r"
proof -
  have "\<exists>w'. fetchBackend p fb E w = (Done (query_answer E fb a), w')"
    using assms(1) by (simp add: fetchBackend_run Let_def answers_def query_request_def get_request_def)
  then obtain w' where "fetchBackend p fb E w = (Done (query_answer E fb a), w')" by blast
  with assms(2) [of w'] show ?thesis by (simp add: ends_def seq_def)
qed

lemma ends_pure:
  assumes "\<And>w. m E w = (Done a, w)" "ends (k a) E w r"
  shows "ends (seq m k) E w r"
  using assms by (simp add: ends_def seq_def)

lemma answer_good [simp]: "query_answer E fb (good j) = from_backend E j"
  by (simp add: query_answer_def good_def rs_ok_def from_backend_def Let_def)

lemma from_backend_simps [simp]:
  "qr_data (from_backend E j) = j" "qr_source (from_backend E j) = ''backend''" "qr_error (from_backend E j) = None"
  by (simp_all add: from_backend_def)

lemma items_run: "items (JArr xs) E w = (Done xs, w)" and iterate_run: "iterate (JArr xs) E w = (Done xs, w)"
  by (simp_all add: items_def iterate_def ret_def)

lemma field_of_run: "JNull \<notin> set xs \<Longrightarrow> field_of k xs E w = (Done (map (\<lambda>x. jprop x k) xs), w)"
  by (induction xs) (auto simp: seq_def ret_def js_member_def)


section \<open>Counting\<close>

lemma count_up_other [simp]: "x \<noteq> k \<Longrightarrow> count_of (count_up rec x) k = count_of rec k"
  by (simp add: count_up_def count_of_def split: js_count.splits option.splits)

lemma count_up_number: "k \<notin> set inherited_names \<Longrightarrow> count_of rec k = Count n \<Longrightarrow> count_of (count_up rec k) k = Count (n + 1)"
  by (simp add: count_up_def) (simp add: count_of_def)

lemma count_up_garbled:
  "k \<noteq> ''__proto__'' \<Longrightarrow> count_of rec k = Garbled s n \<Longrightarrow> count_of (count_up rec k) k = Garbled s (n + 1)"
  by (simp add: count_up_def) (simp add: count_of_def)

lemma count_fold:
  "k \<notin> set inherited_names \<Longrightarrow> count_of rec k = Count n \<Longrightarrow>
     count_of (foldl count_up rec ks) k = Count (n + count_list ks k)"
proof (induction ks arbitrary: rec n)
  case (Cons x ks)
  show ?case
  proof (cases "x = k")
    case True
    with Cons.IH [OF Cons.prems(1) count_up_number [OF Cons.prems]] show ?thesis by simp
  next
    case False
    with Cons show ?thesis by simp
  qed
qed simp

text \<open>A name that objects do not inherit is counted rightly; another gives no number.\<close>

lemma count_all_number: "k \<notin> set inherited_names \<Longrightarrow> count_of (count_all ks) k = Count (count_list ks k)"
  using count_fold [of k Map.empty 0 ks] by (simp add: count_all_def count_of_def)

lemma garbled_fold:
  "k \<noteq> ''__proto__'' \<Longrightarrow> count_of rec k = Garbled s n \<Longrightarrow>
     count_of (foldl count_up rec ks) k = Garbled s (n + count_list ks k)"
proof (induction ks arbitrary: rec n)
  case (Cons x ks)
  show ?case
  proof (cases "x = k")
    case True
    with Cons.IH [OF Cons.prems(1) count_up_garbled [OF Cons.prems]] show ?thesis by simp
  next
    case False
    with Cons show ?thesis by simp
  qed
qed simp

theorem inherited_names_are_not_counted:
  assumes "k \<in> set inherited_names" "k \<noteq> ''__proto__''"
  shows "count_of (count_all ks) k = Garbled k (count_list ks k)"
  using garbled_fold [of k Map.empty k 0 ks] assms by (simp add: count_all_def count_of_def)

lemma count_list_filter: "count_list (map f xs) k = length (filter (\<lambda>x. f x = k) xs)"
  by (induction xs) auto

section \<open>The tenants page\<close>

definition tenant_id :: "(rat \<Rightarrow> string) \<Rightarrow> json \<Rightarrow> string" where
  "tenant_id num x = property_key num (jprop x ''tenantID'')"

definition card_of :: "(rat \<Rightarrow> string) \<Rightarrow> json list \<Rightarrow> json list \<Rightarrow> json \<Rightarrow> tenant_card" where
  "card_of num rs ks t =
     \<lparr>tc_tenant = t, tc_routes = count_of (count_all (map (tenant_id num) rs)) (tenant_id num t),
      tc_tokens = count_of (count_all (map (tenant_id num) ks)) (tenant_id num t)\<rparr>"

lemma tenant_cards_map:
  "tenant_cards num ts (map (\<lambda>x. jprop x ''tenantID'') ts) (map (\<lambda>x. jprop x ''tenantID'') rs) (map (\<lambda>x. jprop x ''tenantID'') ks)
   = map (card_of num rs ks) ts"
proof -
  have zips: "zip ts (map f ts) = map (\<lambda>t. (t, f t)) ts" for f :: "json \<Rightarrow> json option"
    by (induction ts) simp_all
  show ?thesis by (simp add: tenant_cards_def card_of_def tenant_id_def [abs_def] zips comp_def Let_def)
qed

lemma TenantsPage_run:
  assumes "answers E ''/api/v1/admin/tenants'' (good (JArr ts))" "answers E ''/api/v1/admin/routes'' (good (JArr rs))"
    "answers E ''/api/v1/admin/tokens'' (good (JArr ks))" "JNull \<notin> set (ts @ rs @ ks)"
  shows "ends (TenantsPage num) E w (Done (section_of ''Tenants'' (from_backend E (JArr ts))
           \<lparr>tp_disabled = False, tp_cards = map (card_of num rs ks) ts\<rparr>))"
  unfolding TenantsPage_def getTenants_def getRoutes_def getTokens_def
  apply (rule ends_fetch [OF assms(1)], rule ends_fetch [OF assms(2)], rule ends_fetch [OF assms(3)])
  apply (simp only: answer_good from_backend_simps)
  apply (rule ends_pure [OF iterate_run], rule ends_pure [OF field_of_run], use assms(4) in simp)
  apply (rule ends_pure [OF iterate_run], rule ends_pure [OF field_of_run], use assms(4) in simp)
  apply (rule ends_pure [OF items_run], rule ends_pure [OF field_of_run], use assms(4) in simp)
  apply (simp add: tenant_cards_map read_only_def ends_ret)
  done

text \<open>C40: The tenants page lists the tenants of the backend, each with the number of the routes and of the
  tokens that have its id, unless the id is a name every JavaScript object inherits.
\<close>

theorem tenants_page_counts:
  assumes "answers E ''/api/v1/admin/tenants'' (good (JArr ts))" "answers E ''/api/v1/admin/routes'' (good (JArr rs))"
    "answers E ''/api/v1/admin/tokens'' (good (JArr ks))" "JNull \<notin> set (ts @ rs @ ks)"
  shows "\<exists>c w'. TenantsPage num E w = (Done c, w') \<and> dr_live (SectionPage c) \<and> \<not> tp_disabled (sc_children c)
     \<and> map tc_tenant (tp_cards (sc_children c)) = ts
     \<and> (\<forall>d \<in> set (tp_cards (sc_children c)). tenant_id num (tc_tenant d) \<notin> set inherited_names \<longrightarrow>
          tc_routes d = Count (length (filter (\<lambda>r. tenant_id num r = tenant_id num (tc_tenant d)) rs))
          \<and> tc_tokens d = Count (length (filter (\<lambda>k. tenant_id num k = tenant_id num (tc_tenant d)) ks)))"
proof -
  let ?c = "section_of ''Tenants'' (from_backend E (JArr ts)) \<lparr>tp_disabled = False, tp_cards = map (card_of num rs ks) ts\<rparr>"
  obtain w' where "TenantsPage num E w = (Done ?c, w')"
    using TenantsPage_run [OF assms] unfolding ends_def by blast
  moreover have "dr_live (SectionPage ?c)" by (simp add: SectionPage_def section_of_def Let_def)
  moreover have "map tc_tenant (map (card_of num rs ks) ts) = ts" by (simp add: card_of_def comp_def)
  moreover have "\<forall>d \<in> set (map (card_of num rs ks) ts). tenant_id num (tc_tenant d) \<notin> set inherited_names \<longrightarrow>
          tc_routes d = Count (length (filter (\<lambda>r. tenant_id num r = tenant_id num (tc_tenant d)) rs))
          \<and> tc_tokens d = Count (length (filter (\<lambda>k. tenant_id num k = tenant_id num (tc_tenant d)) ks))"
    by (auto simp: card_of_def count_all_number count_list_filter)
  ultimately show ?thesis by (intro exI [of _ ?c] exI [of _ w']) (simp add: section_of_def)
qed

section \<open>Other organisations look empty\<close>

definition of_org :: "string \<Rightarrow> json \<Rightarrow> bool" where
  "of_org a t \<longleftrightarrow> t \<noteq> JNull \<and> jprop t ''orgID'' = Some (JStr a)"

lemma org_tenants_same:
  assumes "list_all (of_org a) ts" "a \<noteq> []"
  shows "org_tenants num (map (\<lambda>x. jprop x ''tenantID'') ts) (map (\<lambda>x. jprop x ''orgID'') ts)
         = map (\<lambda>t. (tenant_id num t, a)) ts"
  using assms by (induction ts) (simp_all add: org_tenants_def of_org_def tenant_id_def property_key_def)

lemma org_of_route_same:
  assumes "\<forall>p \<in> set ps. snd p = a" "org_of_route inh ps t = Some g" "t \<notin> set inherited_names"
  shows "g = a"
proof -
  from assms(2,3) have "tenantIDToOrgID ps t = Some g"
    by (auto simp: org_of_route_def split: option.splits if_splits)
  then have "(t, g) \<in> set ps" unfolding tenantIDToOrgID_def by (auto dest: map_of_SomeD)
  with assms(1) show ?thesis by auto
qed

lemma count_list_none: "k \<notin> set xs \<Longrightarrow> count_list xs k = 0"
  by (induction xs) auto

lemma other_org_counts:
  assumes "\<forall>p \<in> set ps. snd p = a" "o' \<noteq> a" "o' \<notin> set inherited_names" "set routes \<inter> set inherited_names = {}"
  shows "count_of (fst (org_counts inh ps routes)) o' = Count 0 \<and> count_of (snd (org_counts inh ps routes)) o' = Count 0"
proof -
  have "o' \<notin> set (map snd ps)" using assms(1,2) by auto
  moreover have "o' \<notin> set (List.map_filter (org_of_route inh ps) routes)"
  proof
    assume "o' \<in> set (List.map_filter (org_of_route inh ps) routes)"
    then obtain t where "t \<in> set routes" "org_of_route inh ps t = Some o'"
      by (auto simp: List.map_filter_def)
    with org_of_route_same [OF assms(1), of inh t o'] assms(2,4) show False by blast
  qed
  ultimately show ?thesis
    by (simp add: org_counts_def count_all_number [OF assms(3)] count_list_none)
qed


text \<open>
  The backend lists the tenants of the administrator's active organisation only. Then on the page of
  all organisations every other one looks as if it had neither tenants nor routes.
\<close>

theorem other_organisations_look_empty:
  assumes "auth_result E w = Some s" "s_isPlatformAdmin s = Some True"
    and "answers E ''/api/v1/admin/platform/orgs'' (good (JArr orgs))" "answers E ''/api/v1/admin/tenants'' (good (JArr ts))"
    and "answers E ''/api/v1/admin/routes'' (good (JArr rs))"
    and "list_all (of_org a) ts" "a \<noteq> []" "list_all (\<lambda>r. r \<noteq> JNull \<and> tenant_id num r \<notin> set inherited_names) rs"
  shows "\<exists>c w'. PlatformOrgsPage num inh E w = (Done (Page c), w') \<and> og_orgs (sc_children c) = orgs
     \<and> (\<forall>o'. o' \<noteq> a \<and> o' \<notin> set inherited_names \<longrightarrow> org_badges (sc_children c) o' = (None, None, True))"
proof -
  let ?ps = "map (\<lambda>t. (tenant_id num t, a)) ts"
  let ?counts = "org_counts inh ?ps (map (tenant_id num) rs)"
  let ?c = "section_of ''All Organisations'' (from_backend E (JArr orgs))
     \<lparr>og_orgs = orgs, og_tenantCountByOrg = fst ?counts, og_routeCountByOrg = snd ?counts\<rparr>"
  have ts: "JNull \<notin> set ts" and rs: "JNull \<notin> set rs"
    using assms(6,8) by (auto simp: list_all_iff of_org_def)
  have key: "map (property_key num) (map (\<lambda>x. jprop x ''tenantID'') rs) = map (tenant_id num) rs"
    by (simp add: tenant_id_def)
  have "ends (PlatformOrgsPage num inh) E w (Done (Page ?c))"
  proof -
    have "ends (seq getAdminOrgs (\<lambda>r. seq getTenants (\<lambda>tenants. seq getRoutes (\<lambda>routes.
       seq (iterate (qr_data tenants)) (\<lambda>ts. seq (field_of ''orgID'' ts) (\<lambda>gs. seq (field_of ''tenantID'' ts) (\<lambda>tids.
       seq (iterate (qr_data routes)) (\<lambda>rs. seq (field_of ''tenantID'' rs) (\<lambda>rtids.
       seq (items (qr_data r)) (\<lambda>orgs.
       let counts = org_counts inh (org_tenants num tids gs) (map (property_key num) rtids) in
       ret (section_of ''All Organisations'' r
            \<lparr>og_orgs = orgs, og_tenantCountByOrg = fst counts, og_routeCountByOrg = snd counts\<rparr>))))))))))) E w' (Done ?c)" for w'
      unfolding getAdminOrgs_def getTenants_def getRoutes_def
      apply (rule ends_fetch [OF assms(3)], rule ends_fetch [OF assms(4)], rule ends_fetch [OF assms(5)])
      apply (simp only: answer_good from_backend_simps)
      apply (rule ends_pure [OF iterate_run], rule ends_pure [OF field_of_run [OF ts]], rule ends_pure [OF field_of_run [OF ts]])
      apply (rule ends_pure [OF iterate_run], rule ends_pure [OF field_of_run [OF rs]], rule ends_pure [OF items_run])
      apply (simp only: org_tenants_same [OF assms(6,7)] key Let_def ends_ret)
      done
    from this [of "auth_world E w"] show ?thesis
      unfolding PlatformOrgsPage_def ends_def gated_run using assms(1,2)
      by (auto simp: isPlatformAdmin_def seq_def [of _ "\<lambda>p. ret (Page p)"] ret_def)
  qed
  then obtain w' where run: "PlatformOrgsPage num inh E w = (Done (Page ?c), w')"
    unfolding ends_def by blast
  have "set (map (tenant_id num) rs) \<inter> set inherited_names = {}"
    using assms(8) by (auto simp: list_all_iff)
  then have "count_of (fst ?counts) o' = Count 0 \<and> count_of (snd ?counts) o' = Count 0"
    if "o' \<noteq> a" "o' \<notin> set inherited_names" for o'
    using that by (intro other_org_counts) auto
  then have "org_badges (sc_children ?c) o' = (None, None, True)" if "o' \<noteq> a" "o' \<notin> set inherited_names" for o'
    using that by (simp add: section_of_def org_badges_def positive_def Let_def)
  then have "\<forall>o'. o' \<noteq> a \<and> o' \<notin> set inherited_names \<longrightarrow> org_badges (sc_children ?c) o' = (None, None, True)"
    by blast
  moreover have "og_orgs (sc_children ?c) = orgs" by (simp add: section_of_def)
  ultimately show ?thesis using run by blast
qed

section \<open>What a visitor is told\<close>

text \<open>A page that does not get through to its data, and what is drawn of it.\<close>

definition draws :: "'c framed eff \<Rightarrow> env \<Rightarrow> world \<Rightarrow> notice \<Rightarrow> bool \<Rightarrow> bool" where
  "draws m E w n content \<longleftrightarrow>
     (\<exists>c w'. m E w = (Done c, w') \<and> \<not> dr_live (SectionPage c) \<and> dr_notice (SectionPage c) = Some n
        \<and> (dr_content (SectionPage c) \<noteq> None \<longleftrightarrow> content))"

definition failed_with :: "env \<Rightarrow> string \<Rightarrow> json \<Rightarrow> query_result" where
  "failed_with E m fb = \<lparr>qr_data = fb, qr_source = ''fallback'', qr_backendUrl = getBackendBaseUrl E, qr_error = Some m\<rparr>"

definition told :: "string \<Rightarrow> notice" where
  "told m = (let (t, b) = friendlyError m in if b then NoOrganisation else Problem t)"

lemma draws_ends:
  assumes "ends m E w (Done (section_of title (failed_with E e fb) c))" "e \<noteq> []" "told e = n" "fst (friendlyError e) \<noteq> [] \<or> n = NoOrganisation"
  shows "draws m E w n (n \<noteq> NoOrganisation)"
proof -
  let ?c = "section_of title (failed_with E e fb) c"
  obtain w' where "m E w = (Done ?c, w')" using assms(1) unfolding ends_def by blast
  moreover obtain t b where f: "friendlyError e = (t, b)" by (cases "friendlyError e")
  moreover have "dr_notice (SectionPage ?c) = Some n"
    using assms(2,3,4) f by (auto simp: SectionPage_def section_of_def failed_with_def told_def Let_def split: if_splits)
  moreover have "\<not> dr_live (SectionPage ?c)"
    by (simp add: SectionPage_def section_of_def failed_with_def Let_def)
  moreover have "dr_content (SectionPage ?c) \<noteq> None \<longleftrightarrow> n \<noteq> NoOrganisation"
    using assms(2,3) f by (auto simp: SectionPage_def section_of_def failed_with_def told_def Let_def split: if_splits)
  ultimately show ?thesis unfolding draws_def by blast
qed

lemma pages_without_data:
  assumes "\<And>p fb. answers E p a \<and> query_answer E fb a = failed_with E e fb" "e \<noteq> []" "told e = n"
    "fst (friendlyError e) \<noteq> [] \<or> n = NoOrganisation"
  shows "draws (TenantsPage num) E w n (n \<noteq> NoOrganisation) \<and> draws RoutesPage E w n (n \<noteq> NoOrganisation)
     \<and> draws TokensPage E w n (n \<noteq> NoOrganisation) \<and> draws GrantsPage E w n (n \<noteq> NoOrganisation)
     \<and> draws (ProtectedAppsPage num) E w n (n \<noteq> NoOrganisation)"
proof (intro conjI)
  note fetch = ends_fetch [OF conjunct1 [OF assms(1)]]
  have q: "query_answer E fb a = failed_with E e fb" for fb using assms(1) by blast
  have d: "qr_data (failed_with E e fb) = fb" for fb by (simp add: failed_with_def)
  have fo: "ends (f []) E w r \<Longrightarrow> ends (seq (field_of k []) f) E w r" for k w r and f :: "json option list \<Rightarrow> 'x eff"
    by (rule ends_pure) (simp_all add: ret_def)
  note run = fetch ends_pure [OF items_run] ends_pure [OF iterate_run] fo ends_ret
  show "draws (TenantsPage num) E w n (n \<noteq> NoOrganisation)"
    apply (rule draws_ends [OF _ assms(2,3,4)])
    unfolding TenantsPage_def getTenants_def getRoutes_def getTokens_def fallbackTenants_def fallbackRoutes_def fallbackTokens_def
    apply (rule fetch, rule fetch, rule fetch, simp only: q d)
    apply (rule run)+
    done
  show "draws RoutesPage E w n (n \<noteq> NoOrganisation)"
    apply (rule draws_ends [OF _ assms(2,3,4)])
    unfolding RoutesPage_def getTenants_def getRoutes_def getTokens_def fallbackTenants_def fallbackRoutes_def fallbackTokens_def
    apply (rule fetch, rule fetch, rule fetch, rule ends_pure, simp add: ask_def, simp only: q d)
    apply (rule run)+
    done
  show "draws TokensPage E w n (n \<noteq> NoOrganisation)"
    apply (rule draws_ends [OF _ assms(2,3,4)])
    unfolding TokensPage_def getTenants_def getTokens_def fallbackTenants_def fallbackTokens_def
    apply (rule fetch, rule fetch, simp only: q d)
    apply (rule run)+
    done
  show "draws GrantsPage E w n (n \<noteq> NoOrganisation)"
    apply (rule draws_ends [OF _ assms(2,3,4)])
    unfolding GrantsPage_def getGrants_def getTenants_def fallbackTenants_def
    apply (rule fetch, rule fetch, simp only: q d)
    apply (rule run)+
    done
  have ea: "ends (h []) E w r \<Longrightarrow> ends (seq (each f (map g [])) h) E w r"
    for f :: "string \<Rightarrow> 'x eff" and g :: "json option \<Rightarrow> string" and h :: "'x list \<Rightarrow> 'y eff" and w r
    by (rule ends_pure) (simp_all add: ret_def)
  show "draws (ProtectedAppsPage num) E w n (n \<noteq> NoOrganisation)"
    apply (rule draws_ends [OF _ assms(2,3,4)])
    unfolding ProtectedAppsPage_def getProtectedApps_def
    apply (rule fetch, simp only: q d)
    apply (rule ends_pure [OF items_run], rule fo, rule ea, rule ea, rule ends_ret)
    done
qed

text \<open>
  A visitor without an organisation is told so on the pages of the gateway: the backend refuses with
  \<open>X-Org-ID header is required\<close>, which the frame recognises, and the content is withheld.
\<close>

definition no_org_answer :: fetch_result where
  "no_org_answer = Responded \<lparr>rs_status = 400, rs_headers = [], rs_text = [],
     rs_json = Inr (JObj [(''error'', JStr ''X-Org-ID header is required'')])\<rparr>"

theorem missing_organisation_is_explained:
  assumes "\<forall>h rq. backend E h rq = no_org_answer"
  shows "draws (TenantsPage num) E w NoOrganisation False \<and> draws RoutesPage E w NoOrganisation False
     \<and> draws TokensPage E w NoOrganisation False \<and> draws GrantsPage E w NoOrganisation False
     \<and> draws (ProtectedAppsPage num) E w NoOrganisation False"
proof -
  let ?e = "''backend returned 400: X-Org-ID header is required''"
  have n: "show_int 400 = ''400''" by code_simp
  have a: "answers E p no_org_answer \<and> query_answer E fb no_org_answer = failed_with E ?e fb" for p fb
    using assms by (simp add: answers_def query_answer_def no_org_answer_def rs_ok_def backend_error_def error_of_body_def
        failed_with_def n Let_def)
  have t: "told ?e = NoOrganisation" by code_simp
  from pages_without_data [OF a _ t] show ?thesis by simp
qed

text \<open>
  A backend that cannot be reached is not called unreachable: \<open>fetch\<close> rejects with \<open>fetch failed\<close>, which no
  pattern knows, so this is what the page says.
\<close>

theorem unreachable_backend_is_not_explained:
  assumes "\<forall>h rq. backend E h rq = NetworkError ''fetch failed''"
  shows "draws (TenantsPage num) E w (Problem ''fetch failed'') True \<and> draws RoutesPage E w (Problem ''fetch failed'') True
     \<and> draws TokensPage E w (Problem ''fetch failed'') True \<and> draws GrantsPage E w (Problem ''fetch failed'') True
     \<and> draws (ProtectedAppsPage num) E w (Problem ''fetch failed'') True"
proof -
  have a: "answers E p (NetworkError ''fetch failed'')
      \<and> query_answer E fb (NetworkError ''fetch failed'') = failed_with E ''fetch failed'' fb" for p fb
    using assms by (simp add: answers_def query_answer_def failed_with_def)
  have t: "told ''fetch failed'' = Problem ''fetch failed''" "fst (friendlyError ''fetch failed'') = ''fetch failed''"
    by code_simp+
  from pages_without_data [OF a _ t(1)] t(2) show ?thesis by simp
qed

section \<open>The checklist\<close>

text \<open>
  The overview offers the guided set-up in one place: in the header when every step is done, and else in
  the checklist, which counts the steps that are.
\<close>

theorem checklist_until_all_is_done:
  "(ho_header_wizard (Home t r p bs es) \<longleftrightarrow> ho_checklist (Home t r p bs es) = None)
   \<and> (ho_checklist (Home t r p bs es) = None \<longleftrightarrow>
        ov_tenants (ts_stats t) > 0 \<and> ov_routes (ts_stats t) > 0 \<and> ov_activeTokens (ts_stats t) > 0)
   \<and> (\<forall>n steps. ho_checklist (Home t r p bs es) = Some (n, steps) \<longrightarrow>
        n < length steps \<and> n = card {i. i < length steps \<and> su_done (steps ! i)})"
proof -
  have "completedCount (setupSteps st) < 3" if "\<not> allDone (setupSteps st)" for st
    using that by (auto simp: completedCount_def allDone_def setupSteps_def)
  moreover have "completedCount steps = card {i. i < length steps \<and> su_done (steps ! i)}" for steps
    unfolding completedCount_def by (rule length_filter_conv_card)
  moreover have "allDone (setupSteps st) \<longleftrightarrow> ov_tenants st > 0 \<and> ov_routes st > 0 \<and> ov_activeTokens st > 0" for st
    by (simp add: allDone_def setupSteps_def)
  moreover have "length (setupSteps st) = 3" for st by (simp add: setupSteps_def)
  ultimately show ?thesis by (auto simp: Home_def Let_def)
qed

text \<open>The trend is the change in percent to the nearest whole number, and up when it is not negative.\<close>

theorem trend_is_close:
  assumes "prior > 0" "auditTrend cur prior = Some (pct, up)"
  shows "\<bar>(of_int pct :: rat) - (of_int cur - of_int prior) / of_int prior * 100\<bar> \<le> 1 / 2 \<and> (cur \<ge> prior \<longrightarrow> up)"
proof -
  let ?x = "(of_int cur - of_int prior) / of_int prior * 100 :: rat"
  from assms have p: "pct = math_round ?x" "up \<longleftrightarrow> pct \<ge> 0" by (auto simp: auditTrend_def Let_def split: if_splits)
  have "cur \<ge> prior \<Longrightarrow> ?x \<ge> 0" using assms(1) by simp
  then have "cur \<ge> prior \<Longrightarrow> math_round ?x \<ge> 0" using math_round_mono [of 0 ?x] math_round_of_int [of 0] by simp
  with p math_round_close [of ?x] show ?thesis by simp
qed


section \<open>Examples\<close>

text \<open>A site whose backend answers by path, with a session.\<close>

definition page_env :: "session option \<Rightarrow> (string \<Rightarrow> fetch_result) \<Rightarrow> env" where
  "page_env s f = dead_env\<lparr>backend := (\<lambda>_ rq. f (drop (length (getBackendBaseUrl dead_env)) (rq_url rq))),
     getServerSession := (\<lambda>_. s)\<rparr>"

lemma page_env_answers: "answers (page_env s f) p (f p)"
  by (auto simp: answers_def page_env_def getBackendBaseUrl_def backendUrl_def)

lemma page_env_session: "auth_result (page_env s f) w = s"
  by (rule auth_result_const) (simp add: page_env_def)

definition exAdmin :: session where
  "exAdmin = \<lparr>s_user = None, s_activeOrgId = Some ''o1'', s_isPlatformAdmin = Some True, s_provider = None, s_groups = None\<rparr>"

definition exTenant :: json where
  "exTenant = JObj [(''tenantID'', JStr ''acme''), (''orgID'', JStr ''o1'')]"

definition exRouteRow :: json where
  "exRouteRow = JObj [(''tenantID'', JStr ''acme''), (''slug'', JStr ''api'')]"

definition exSite :: "string \<Rightarrow> fetch_result" where
  "exSite p = (if p = ''/api/v1/admin/tenants'' then good (JArr [exTenant])
     else if p = ''/api/v1/admin/routes'' then good (JArr [exRouteRow, exRouteRow]) else good (JArr []))"

lemma exSite_answers:
  "answers (page_env s exSite) ''/api/v1/admin/tenants'' (good (JArr [exTenant]))"
  "answers (page_env s exSite) ''/api/v1/admin/routes'' (good (JArr [exRouteRow, exRouteRow]))"
  "answers (page_env s exSite) ''/api/v1/admin/tokens'' (good (JArr []))"
  "answers (page_env s exSite) ''/api/v1/admin/platform/orgs'' (good (JArr []))"
  using page_env_answers [of s exSite "''/api/v1/admin/tenants''"] page_env_answers [of s exSite "''/api/v1/admin/routes''"]
    page_env_answers [of s exSite "''/api/v1/admin/tokens''"] page_env_answers [of s exSite "''/api/v1/admin/platform/orgs''"]
  by (simp_all add: exSite_def)

theorem platform_pages_are_closed_witness:
  "SettingsPage (page_env None exSite) example_world = (Done (Redirected ''/''), auth_world (page_env None exSite) example_world)"
  by (rule platform_pages_are_closed [of "page_env None exSite" example_world, THEN conjunct1]) (simp add: page_env_session)

theorem tenants_page_counts_witness:
  "\<exists>c w'. TenantsPage (\<lambda>_. []) (page_env None exSite) example_world = (Done c, w')
     \<and> map tc_routes (tp_cards (sc_children c)) = [Count 2]"
proof -
  from tenants_page_counts [OF exSite_answers(1,2,3) [where s = None], where num = "\<lambda>_. []" and w = example_world]
  obtain c w' where c: "TenantsPage (\<lambda>_. []) (page_env None exSite) example_world = (Done c, w')"
    "map tc_tenant (tp_cards (sc_children c)) = [exTenant]"
    and counts: "\<forall>d \<in> set (tp_cards (sc_children c)). tenant_id (\<lambda>_. []) (tc_tenant d) \<notin> set inherited_names \<longrightarrow>
       tc_routes d = Count (length (filter (\<lambda>r. tenant_id (\<lambda>_. []) r = tenant_id (\<lambda>_. []) (tc_tenant d)) [exRouteRow, exRouteRow]))"
    by (fastforce simp: exTenant_def exRouteRow_def)
  from c(2) obtain d where d: "tp_cards (sc_children c) = [d]" "tc_tenant d = exTenant"
    by (cases "tp_cards (sc_children c)") auto
  have "tenant_id (\<lambda>_. []) exTenant = ''acme''" "tenant_id (\<lambda>_. []) exRouteRow = ''acme''"
    by (simp_all add: tenant_id_def property_key_def exTenant_def exRouteRow_def)
  with counts d have "tc_routes d = Count 2" by (simp add: inherited_names_def)
  with c(1) d(1) show ?thesis by auto
qed

theorem other_organisations_look_empty_witness:
  "\<exists>c w'. PlatformOrgsPage (\<lambda>_. []) id (page_env (Some exAdmin) exSite) example_world = (Done (Page c), w')
     \<and> org_badges (sc_children c) ''o2'' = (None, None, True)"
proof -
  have f: "s_isPlatformAdmin exAdmin = Some True" "list_all (of_org ''o1'') [exTenant]" "''o1'' \<noteq> []"
    by (simp_all add: exAdmin_def of_org_def exTenant_def)
  have r: "list_all (\<lambda>r. r \<noteq> JNull \<and> tenant_id (\<lambda>_. []) r \<notin> set inherited_names) [exRouteRow, exRouteRow]"
    by (simp add: tenant_id_def property_key_def exRouteRow_def inherited_names_def)
  have o2: "''o2'' \<noteq> ''o1''" "''o2'' \<notin> set inherited_names" by (simp_all add: inherited_names_def)
  from other_organisations_look_empty [OF page_env_session [where s = "Some exAdmin"] f(1)
      exSite_answers(4,1,2) [where s = "Some exAdmin"] f(2,3) r, where inh = id and w = example_world]
  obtain c w' where run: "PlatformOrgsPage (\<lambda>_. []) id (page_env (Some exAdmin) exSite) example_world = (Done (Page c), w')"
    and badges: "\<forall>o'. o' \<noteq> ''o1'' \<and> o' \<notin> set inherited_names \<longrightarrow> org_badges (sc_children c) o' = (None, None, True)"
    by (elim exE conjE)
  from badges [rule_format, OF conjI, OF o2] run show ?thesis by (intro exI conjI)
qed

theorem missing_organisation_is_explained_witness:
  "draws TokensPage (page_env None (\<lambda>_. no_org_answer)) example_world NoOrganisation False"
proof -
  have "\<forall>h rq. backend (page_env None (\<lambda>_. no_org_answer)) h rq = no_org_answer" by (simp add: page_env_def)
  from missing_organisation_is_explained [OF this, of "\<lambda>_. []" example_world] show ?thesis by blast
qed

end
