(* ===== verification/Panels.thy ===== *)
theory Panels
  imports RowActions Charts
begin

text \<open>
  The smaller tables and panels: all users and all organisations (\<open>platform-users-table.tsx\<close>,
  \<open>platform-orgs-table.tsx\<close>), the instances (\<open>instance-status-panel.tsx\<close>), the health checks of a route
  (\<open>health-history.tsx\<close>), the uses of a grant (\<open>grant-issuances-panel.tsx\<close>), the recent traffic
  (\<open>activity-feed.tsx\<close>), the table of audit events (\<open>audit-table.tsx\<close>), the gauge of a rate limit
  (\<open>rate-limit-gauge.tsx\<close>) and the steps of a form (\<open>modal-stepper.tsx\<close>).
\<close>

section \<open>All users and all organisations\<close>

record UserAdminSummary =
  us_id :: string
  us_name :: "string option"
  us_email :: string
  us_source :: string
  us_createdAt :: string
  us_isPlatformAdmin :: bool

record OrgAdminSummary =
  oa_id :: string
  oa_name :: string
  oa_createdAt :: string
  oa_memberCount :: int

datatype user_sort = ByUserName | ByEmail | ByUserCreated
datatype org_sort = ByOrgName | ByMembers | ByOrgCreated

fun user_compare :: "platform \<Rightarrow> user_sort \<Rightarrow> UserAdminSummary \<Rightarrow> UserAdminSummary \<Rightarrow> rat" where
  "user_compare P ByUserName a b = pf_compare P (nullish (us_name a) []) (nullish (us_name b) [])"
| "user_compare P ByEmail a b = pf_compare P (us_email a) (us_email b)"
| "user_compare P ByUserCreated a b = time_diff (pf_getTime P (us_createdAt a)) (pf_getTime P (us_createdAt b))"

fun org_compare :: "platform \<Rightarrow> org_sort \<Rightarrow> OrgAdminSummary \<Rightarrow> OrgAdminSummary \<Rightarrow> rat" where
  "org_compare P ByOrgName a b = pf_compare P (oa_name a) (oa_name b)"
| "org_compare P ByMembers a b = of_int (oa_memberCount a - oa_memberCount b)"
| "org_compare P ByOrgCreated a b = time_diff (pf_getTime P (oa_createdAt a)) (pf_getTime P (oa_createdAt b))"

text \<open>As views of the tables. They have no bulk actions; the request is the one of a row's button.\<close>

definition usersView :: "platform \<Rightarrow> (UserAdminSummary, user_sort) table_view" where
  "usersView P = \<lparr>tv_id = us_id, tv_texts = (\<lambda>u. [nullish (us_name u) [], us_email u]), tv_compare = user_compare P,
     tv_request = (\<lambda>a. ra_request deletePlatformUser), tv_actions = []\<rparr>"

definition orgsView :: "platform \<Rightarrow> (OrgAdminSummary, org_sort) table_view" where
  "orgsView P = \<lparr>tv_id = oa_id, tv_texts = (\<lambda>g. [oa_name g, oa_id g]), tv_compare = org_compare P,
     tv_request = (\<lambda>a. ra_request deletePlatformOrg), tv_actions = []\<rparr>"

text \<open>The table with the buttons of its rows, of which those are on the page that are listed.\<close>

record ('r, 'k) listing = "('r, 'k) table" +
  li_buttons :: "string row_buttons"

definition list_ids :: "platform \<Rightarrow> ('r, 'k) table_view \<Rightarrow> ('r, 'k) listing \<Rightarrow> string list" where
  "list_ids P V s = map (tv_id V) (filtered_rows P V s)"

definition redraw :: "platform \<Rightarrow> ('r, 'k) table_view \<Rightarrow> string row_action \<Rightarrow> ('r, 'k) listing \<Rightarrow> ('r, 'k) listing" where
  "redraw P V R s = s\<lparr>li_buttons := row_step R (li_buttons s) (RowsShown (list_ids P V s) False)\<rparr>"

datatype ('r, 'k) list_event =
    ListLoaded "'r list" | ListSearched string | ListSorted 'k
  | DeletePressed string | DeleteClosed | DeleteConfirmed | DeleteAnswered string status_answer | ListRefreshed

fun button_event :: "('r, 'k) list_event \<Rightarrow> string row_event option" where
  "button_event (DeletePressed i) = Some (ButtonPressed i)"
| "button_event DeleteClosed = Some QuestionClosed"
| "button_event DeleteConfirmed = Some QuestionConfirmed"
| "button_event (DeleteAnswered i a) = Some (RowAnswered i a)"
| "button_event ListRefreshed = Some RefreshEnded"
| "button_event _ = None"

fun table_event_of :: "('r, 'k) list_event \<Rightarrow> ('r, 'k) table_event option" where
  "table_event_of (ListLoaded rs) = Some (NewRows rs False)"
| "table_event_of (ListSearched t) = Some (SearchTyped t)"
| "table_event_of (ListSorted k) = Some (SortPressed k)"
| "table_event_of _ = None"

definition list_step ::
  "platform \<Rightarrow> ('r, 'k) table_view \<Rightarrow> string row_action \<Rightarrow> ('r, 'k) listing \<Rightarrow> ('r, 'k) list_event \<Rightarrow> ('r, 'k) listing" where
  "list_step P V R s e =
     (case table_event_of e of
        Some te \<Rightarrow> redraw P V R (table_step P V s te)
      | None \<Rightarrow> (case button_event e of Some be \<Rightarrow> s\<lparr>li_buttons := row_step R (li_buttons s) be\<rparr> | None \<Rightarrow> s))"

definition list_fresh :: "platform \<Rightarrow> ('r, 'k) table_view \<Rightarrow> ('r, 'k) listing \<Rightarrow> bool" where
  "list_fresh P V s \<longleftrightarrow> table_fresh s \<and> row_fresh (li_buttons s) \<and> rb_rows (li_buttons s) = list_ids P V s"

definition list_trans ::
  "platform \<Rightarrow> ('r, 'k) table_view \<Rightarrow> string row_action \<Rightarrow> ('r, 'k) listing \<Rightarrow> ('r, 'k) list_event \<Rightarrow> ('r, 'k) listing \<Rightarrow> bool" where
  "list_trans P V R s e t \<longleftrightarrow> t = list_step P V R s e"

text \<open>The contract: a row action of which a table lists the rows.\<close>

locale listed_action = row_action_laws R for R :: "string row_action" +
  fixes P :: platform and V :: "('r, 'k) table_view"
  assumes asking: "ra_asks R"
begin

definition list_inv :: "('r, 'k) listing \<Rightarrow> bool" where
  "list_inv s \<longleftrightarrow> row_inv (li_buttons s) \<and> rb_rows (li_buttons s) = list_ids P V s"

lemma list_ids_buttons [simp]: "list_ids P V (s\<lparr>li_buttons := b\<rparr>) = list_ids P V s"
  by (simp add: list_ids_def filtered_rows_def)

lemma rows_kept: "\<forall>rs d. e \<noteq> RowsShown rs d \<Longrightarrow> rb_rows (row_step R s e) = rb_rows s"
proof (cases e)
  case (RowAnswered i a)
  then show ?thesis by (cases a) (simp_all add: acted_def Let_def)
qed (auto simp: act_on_def split: option.splits)

lemma not_redrawn: "button_event e = Some be \<Longrightarrow> \<forall>rs d. be \<noteq> RowsShown rs d"
  by (cases e) auto

lemma table_keeps_buttons: "li_buttons (table_step P V s (te :: ('r, 'k) table_event)) = li_buttons (s :: ('r, 'k) listing)"
  if "te \<in> range (\<lambda>rs. NewRows rs False) \<union> range SearchTyped \<union> range SortPressed"
  using that by (auto simp: toggleSort_def)

lemma table_event_cases: "table_event_of e = Some te \<Longrightarrow> te \<in> range (\<lambda>rs. NewRows rs False) \<union> range SearchTyped \<union> range SortPressed"
  by (cases e) auto

lemma list_inv_step: "list_inv s \<Longrightarrow> list_inv (list_step P V R s e)"
proof (cases "table_event_of e")
  case None
  assume inv: "list_inv s"
  show ?thesis
  proof (cases "button_event e")
    case (Some be)
    with inv None not_redrawn [OF Some] rows_kept [of be] row_inv_step show ?thesis
      by (simp add: list_step_def list_inv_def)
  qed (simp add: list_step_def None inv)
next
  case (Some te)
  assume inv: "list_inv s"
  have "row_inv (li_buttons (table_step P V s te))"
    using inv table_keeps_buttons [OF table_event_cases [OF Some]] by (simp add: list_inv_def)
  then have "row_inv (row_step R (li_buttons (table_step P V s te)) (RowsShown (list_ids P V (table_step P V s te)) False))"
    by (rule row_inv_step)
  then have "list_inv (redraw P V R (table_step P V s te))"
    by (simp add: list_inv_def redraw_def del: row_step.simps) simp
  then show ?thesis using Some by (simp add: list_step_def)
qed

end

sublocale listed_action \<subseteq> listing_machine: invariant "list_fresh P V" "list_trans P V R" list_inv
proof unfold_locales
  show "list_inv s" if "list_fresh P V s" for s
    using that by (auto simp: list_fresh_def list_inv_def row_inv_def row_fresh_def)
  show "list_inv t" if "list_trans P V R s e t" "list_inv s" for s e t
    using that list_inv_step by (simp add: list_trans_def)
qed

context listed_action
begin

lemma deletes_what_is_listed:
  assumes "reach (list_fresh P V) (list_trans P V R) s"
    and "requests (rb_log (li_buttons (list_step P V R s e))) \<noteq> requests (rb_log (li_buttons s))"
  shows "e = DeleteConfirmed \<and> (\<exists>i. rb_asking (li_buttons s) = Some i \<and> i \<in> set (list_ids P V s)
     \<and> rb_log (li_buttons (list_step P V R s e)) = rb_log (li_buttons s) @ [Sent (ra_request R i)])"
proof -
  have inv: "row_inv (li_buttons s)" "rb_rows (li_buttons s) = list_ids P V s"
    using listing_machine.reach_inv [OF assms(1)] by (simp_all add: list_inv_def)
  have no_te: "table_event_of e = None"
  proof (rule ccontr)
    assume "table_event_of e \<noteq> None"
    then obtain te where te: "table_event_of e = Some te" by blast
    with assms(2) table_keeps_buttons [OF table_event_cases [OF te], of s] show False
      by (simp add: list_step_def redraw_def)
  qed
  then obtain be where be: "button_event e = Some be"
    "requests (rb_log (row_step R (li_buttons s) be)) \<noteq> requests (rb_log (li_buttons s))"
    using assms(2) by (auto simp: list_step_def split: option.splits)
  from sent_by [OF inv(1) be(2)] obtain i where "i \<in> set (rb_rows (li_buttons s))"
    "rb_log (row_step R (li_buttons s) be) = rb_log (li_buttons s) @ [Sent (ra_request R i)]"
    "be = QuestionConfirmed \<and> rb_asking (li_buttons s) = Some i" using asking by (metis (full_types))
  moreover have "be = QuestionConfirmed \<Longrightarrow> e = DeleteConfirmed" using be(1) by (cases e) auto
  ultimately show ?thesis using no_te be(1) inv(2) by (auto simp: list_step_def)
qed

end

interpretation all_users: listed_action deletePlatformUser P "usersView P" for P
  by unfold_locales (simp add: action_defs)

interpretation all_orgs: listed_action deletePlatformOrg P "orgsView P" for P
  by unfold_locales (simp add: action_defs)

text \<open>
  In both tables a request deletes one user or organisation, of a row that is listed under the current
  search, whose question has been confirmed.
\<close>

theorem platform_rows_are_deleted_by_confirmation:
  assumes "reach (list_fresh P (usersView P)) (list_trans P (usersView P) deletePlatformUser) s"
    and "reach (list_fresh P (orgsView P)) (list_trans P (orgsView P) deletePlatformOrg) t"
  shows "(requests (rb_log (li_buttons (list_step P (usersView P) deletePlatformUser s e))) \<noteq> requests (rb_log (li_buttons s)) \<longrightarrow>
       e = DeleteConfirmed \<and> (\<exists>u \<in> set (filtered_rows P (usersView P) s). rb_asking (li_buttons s) = Some (us_id u)
         \<and> rb_log (li_buttons (list_step P (usersView P) deletePlatformUser s e))
           = rb_log (li_buttons s) @ [Sent (''DELETE'', ''/api/admin/platform/users/'' @ encodeURIComponent (us_id u), JNull)]))
   \<and> (requests (rb_log (li_buttons (list_step P (orgsView P) deletePlatformOrg t f))) \<noteq> requests (rb_log (li_buttons t)) \<longrightarrow>
       f = DeleteConfirmed \<and> (\<exists>g \<in> set (filtered_rows P (orgsView P) t). rb_asking (li_buttons t) = Some (oa_id g)
         \<and> rb_log (li_buttons (list_step P (orgsView P) deletePlatformOrg t f))
           = rb_log (li_buttons t) @ [Sent (''DELETE'', ''/api/admin/platform/orgs/'' @ encodeURIComponent (oa_id g), JNull)]))"
proof -
  have ids: "list_ids P (usersView P) s = map us_id (filtered_rows P (usersView P) s)"
    "list_ids P (orgsView P) t = map oa_id (filtered_rows P (orgsView P) t)"
    by (simp_all add: list_ids_def usersView_def orgsView_def)
  have req: "ra_request deletePlatformUser i = (''DELETE'', ''/api/admin/platform/users/'' @ encodeURIComponent i, JNull)"
    "ra_request deletePlatformOrg i = (''DELETE'', ''/api/admin/platform/orgs/'' @ encodeURIComponent i, JNull)" for i
    by (simp_all add: action_defs)
  show ?thesis
    using all_users.deletes_what_is_listed [OF assms(1), of e] all_orgs.deletes_what_is_listed [OF assms(2), of f]
    unfolding ids req by fastforce
qed

text \<open>What is listed are the matches, in the order of the chosen column and direction.\<close>

lemma sorted_listing:
  assumes "comparator (tv_compare V (ta_sortKey s))"
  shows "sorted_wrt (\<lambda>a b. directed (ta_asc s) (tv_compare V (ta_sortKey s)) a b \<le> 0) (filtered_rows P V s)"
proof -
  have "comparator (directed (ta_asc s) (tv_compare V (ta_sortKey s)))"
    using assms by (auto simp: comparator_def directed_def)
  then show ?thesis unfolding filtered_rows_def by (rule comparator.sorted_js_sort)
qed

lemma comparator_int: "comparator (\<lambda>a b. of_int (f a - f b) :: rat)"
  by unfold_locales auto

theorem orgs_are_listed_in_order:
  assumes "comparator (pf_compare P)" "ta_sortKey s \<noteq> ByOrgCreated"
  shows "mset (filtered_rows P (orgsView P) s)
         = filter_mset (\<lambda>g. pf_lower P (ta_search s) = [] \<or> sublist (pf_lower P (ta_search s)) (pf_lower P (oa_name g))
             \<or> sublist (pf_lower P (ta_search s)) (pf_lower P (oa_id g))) (mset (ta_rows s))
    \<and> sorted_wrt (\<lambda>a b. directed (ta_asc s) (org_compare P (ta_sortKey s)) a b \<le> 0) (filtered_rows P (orgsView P) s)"
proof -
  have "comparator (org_compare P (ta_sortKey s))"
  proof (cases "ta_sortKey s")
    case ByOrgName
    have "org_compare P ByOrgName = (\<lambda>a b. pf_compare P (oa_name a) (oa_name b))" by (simp add: fun_eq_iff)
    with ByOrgName comparator_on [OF assms(1), of oa_name] show ?thesis by simp
  next
    case ByMembers
    have "org_compare P ByMembers = (\<lambda>a b. of_int (oa_memberCount a - oa_memberCount b))" by (simp add: fun_eq_iff)
    then show ?thesis unfolding ByMembers using comparator_int by metis
  qed (use assms(2) in simp)
  then have "comparator (tv_compare (orgsView P) (ta_sortKey s))" by (simp add: orgsView_def)
  from sorted_listing [OF this] have
    "sorted_wrt (\<lambda>a b. directed (ta_asc s) (org_compare P (ta_sortKey s)) a b \<le> 0) (filtered_rows P (orgsView P) s)"
    by (simp add: orgsView_def)
  moreover have "mset (filtered_rows P (orgsView P) s) = filter_mset (row_matches P (orgsView P) (pf_lower P (ta_search s))) (mset (ta_rows s))"
    by (simp add: filtered_rows_def)
  moreover have "row_matches P (orgsView P) q = (\<lambda>g. q = [] \<or> sublist q (pf_lower P (oa_name g)) \<or> sublist q (pf_lower P (oa_id g)))" for q
    by (auto simp: row_matches_def orgsView_def fun_eq_iff)
  ultimately show ?thesis by simp
qed


section \<open>The instances\<close>

record ReplicaInfo =
  re_instanceID :: string
  re_region :: string
  re_hostname :: string
  re_lastHeartbeat :: string
  re_status :: string

record instance_panel =
  ip_replicas :: "ReplicaInfo list"
  ip_now :: int

text \<open>
  Every 15 seconds the panel asks again and every second it looks at the clock. An answer that is not
  an array, or none, changes nothing.
\<close>

datatype instance_event = ReplicasAnswered "ReplicaInfo list option" | SecondPassed int

fun instance_step :: "instance_panel \<Rightarrow> instance_event \<Rightarrow> instance_panel" where
  "instance_step s (ReplicasAnswered (Some rs)) = s\<lparr>ip_replicas := rs\<rparr>"
| "instance_step s (ReplicasAnswered None) = s"
| "instance_step s (SecondPassed t) = s\<lparr>ip_now := t\<rparr>"

definition instance_start :: "ReplicaInfo list \<Rightarrow> int \<Rightarrow> instance_panel" where
  "instance_start rs t = \<lparr>ip_replicas = rs, ip_now = t\<rparr>"

text \<open>The age of a heartbeat; \<open>None\<close> is \<open>NaN\<close>, with which every comparison fails.\<close>

definition beat_age :: "platform \<Rightarrow> int \<Rightarrow> ReplicaInfo \<Rightarrow> int option" where
  "beat_age P now r = map_option (\<lambda>t. now - t) (pf_getTime P (re_lastHeartbeat r))"

definition younger :: "int option \<Rightarrow> int \<Rightarrow> bool" where
  "younger age limit \<longleftrightarrow> (\<exists>a. age = Some a \<and> a < limit)"

definition onlineCount :: "platform \<Rightarrow> instance_panel \<Rightarrow> nat" where
  "onlineCount P s = length (filter (\<lambda>r. younger (beat_age P (ip_now s) r) (3 * 60000)) (ip_replicas s))"

definition replica_status :: "int option \<Rightarrow> string" where
  "replica_status age =
     (if younger age 45000 then ''online'' else if younger age (3 * 60000) then ''degraded'' else ''offline'')"

definition status_color :: "string \<Rightarrow> string" where
  "status_color st = (if st = ''online'' then ''success'' else if st = ''degraded'' then ''warning'' else ''danger'')"

definition timeSince :: "int option \<Rightarrow> string" where
  "timeSince age =
     (case age of
        None \<Rightarrow> ''NaNh ago''
      | Some ms \<Rightarrow>
          (let secs = ms div 1000; mins = secs div 60 in
           if secs < 60 then show_int secs @ ''s ago''
           else if mins < 60 then show_int mins @ ''m ago''
           else show_int (mins div 60) @ ''h ago''))"

record instance_row =
  ir_name :: string
  ir_region :: "string option"
  ir_beat :: "string option"
  ir_status :: string
  ir_color :: string

definition instance_row_of :: "platform \<Rightarrow> int \<Rightarrow> ReplicaInfo \<Rightarrow> instance_row" where
  "instance_row_of P now r =
     (let age = beat_age P now r; st = replica_status age in
      \<lparr>ir_name = or_str (Some (re_hostname r)) (take 12 (re_instanceID r)),
       ir_region = (if re_region r \<noteq> [] \<and> re_region r \<noteq> ''default'' then Some (re_region r) else None),
       ir_beat = (if re_lastHeartbeat r = [] then None else Some (timeSince age)),
       ir_status = st, ir_color = status_color st\<rparr>)"

text \<open>The number in the header, of how many, and the rows; nothing is drawn without an instance.\<close>

definition instance_view :: "platform \<Rightarrow> instance_panel \<Rightarrow> (nat \<times> nat \<times> instance_row list) option" where
  "instance_view P s =
     (if ip_replicas s = [] then None
      else Some (onlineCount P s, length (ip_replicas s), map (instance_row_of P (ip_now s)) (ip_replicas s)))"

text \<open>
  The header calls the degraded instances online too: its number is the one of the rows that say
  online or degraded.
\<close>

theorem header_counts_degraded_as_online:
  assumes "instance_view P s = Some (n, m, rows)"
  shows "n = length (filter (\<lambda>r. ir_status r = ''online'' \<or> ir_status r = ''degraded'') rows)
     \<and> m = length rows \<and> n \<le> m"
proof -
  have st: "replica_status a = ''online'' \<or> replica_status a = ''degraded'' \<longleftrightarrow> younger a (3 * 60000)" for a
    by (auto simp: replica_status_def younger_def)
  from assms have v: "n = onlineCount P s" "m = length (ip_replicas s)"
    "rows = map (instance_row_of P (ip_now s)) (ip_replicas s)"
    by (auto simp: instance_view_def split: if_splits)
  show ?thesis unfolding v
    by (simp add: onlineCount_def filter_map comp_def instance_row_of_def Let_def st)
qed

text \<open>An instance that stops beating is degraded after 45 seconds and offline after three minutes, whatever the backend answers no longer.\<close>

theorem silent_instance_goes_offline:
  assumes "pf_getTime P (re_lastHeartbeat r) = Some t"
  shows "ir_status (instance_row_of P now r) =
     (if now < t + 45000 then ''online'' else if now < t + 180000 then ''degraded'' else ''offline'')"
  using assms by (simp add: instance_row_of_def replica_status_def younger_def beat_age_def Let_def)

section \<open>Health checks of a route\<close>

text \<open>How a fetch ends: rejected with a message, or a status with the parsed body or the message of the parser.\<close>

datatype fetch_ended = Lost string | Loaded int "string + json"

record health_panel =
  hh_entries :: json
  hh_loading :: bool
  hh_error :: "string option"

definition health_url :: "string \<Rightarrow> string" where
  "health_url routeID = ''/api/admin/health-history?routeID='' @ encodeURIComponent routeID"

definition health_load :: "health_panel \<Rightarrow> health_panel" where
  "health_load s = s\<lparr>hh_loading := True, hh_error := None\<rparr>"

text \<open>Each \<open>throw\<close> is an \<open>Error\<close>, whose message is shown. An error that is no text has none here.\<close>

definition health_loaded :: "fetch_ended \<Rightarrow> health_panel \<Rightarrow> health_panel" where
  "health_loaded a s =
     (case a of
        Lost m \<Rightarrow> s\<lparr>hh_error := Some m\<rparr>
      | Loaded n b \<Rightarrow>
          if \<not> ok_status n
          then s\<lparr>hh_error := Some (or_str (case b of Inl m \<Rightarrow> None | Inr j \<Rightarrow> jstr (jprop j ''error'')) (''Error '' @ show_int n))\<rparr>
          else (case b of Inl m \<Rightarrow> s\<lparr>hh_error := Some m\<rparr> | Inr j \<Rightarrow> s\<lparr>hh_entries := j\<rparr>))\<lparr>hh_loading := False\<rparr>"

definition health_start :: health_panel where
  "health_start = health_load \<lparr>hh_entries = JArr [], hh_loading = True, hh_error = None\<rparr>"

datatype health_view = HealthLoading | HealthError string | HealthNone | HealthRows "json list" | HealthCrash

definition health_view_of :: "health_panel \<Rightarrow> health_view" where
  "health_view_of s =
     (if hh_loading s then HealthLoading
      else if truthy (hh_error s) then HealthError (the (hh_error s))
      else case hh_entries s of
             JArr [] \<Rightarrow> HealthNone | JArr es \<Rightarrow> HealthRows (take 10 es) | _ \<Rightarrow> HealthCrash)"

text \<open>After the answer the panel is not loading, and a failure with a message is shown.\<close>

theorem health_checks_are_shown_or_explained:
  "health_view_of (health_loaded (Loaded 200 (Inr (JArr (e # es)))) health_start) = HealthRows (take 10 (e # es))
   \<and> (m \<noteq> [] \<longrightarrow> health_view_of (health_loaded (Lost m) health_start) = HealthError m)
   \<and> (\<not> ok_status n \<longrightarrow> (\<exists>t. health_view_of (health_loaded (Loaded n b) health_start) = HealthError t))
   \<and> \<not> hh_loading (health_loaded a s)"
proof (intro conjI impI)
  show "health_view_of (health_loaded (Loaded 200 (Inr (JArr (e # es)))) health_start) = HealthRows (take 10 (e # es))"
    by (simp add: health_view_of_def health_loaded_def health_start_def health_load_def ok_status_def)
  show "health_view_of (health_loaded (Lost m) health_start) = HealthError m" if "m \<noteq> []"
    using that by (simp add: health_view_of_def health_loaded_def health_start_def health_load_def)
  show "\<exists>t. health_view_of (health_loaded (Loaded n b) health_start) = HealthError t" if "\<not> ok_status n"
  proof -
    have "truthy (Some (or_str v (''Error '' @ k)))" for v k
      by (cases v rule: option.exhaust) (auto simp: or_str_def truthy_def)
    with that show ?thesis
      by (simp add: health_view_of_def health_loaded_def health_start_def health_load_def)
  qed
  show "\<not> hh_loading (health_loaded a s)" by (simp add: health_loaded_def)
qed

section \<open>The uses of a grant\<close>

record issuance_panel =
  is_issuances :: "json list"
  is_loading :: bool

definition issuances_url :: "string \<Rightarrow> string" where
  "issuances_url grantID = ''/api/admin/grants/'' @ encodeURIComponent grantID @ ''/issuances''"

definition issuances_start :: issuance_panel where
  "issuances_start = \<lparr>is_issuances = [], is_loading = True\<rparr>"

text \<open>The status is not looked at.\<close>

definition issuances_loaded :: "fetch_ended \<Rightarrow> issuance_panel \<Rightarrow> issuance_panel" where
  "issuances_loaded a s =
     (case a of Loaded n (Inr (JArr xs)) \<Rightarrow> s\<lparr>is_issuances := xs\<rparr> | _ \<Rightarrow> s)\<lparr>is_loading := False\<rparr>"

datatype issuance_view = IssuancesLoading | NeverIssued | Issued "json list"

definition issuance_view_of :: "issuance_panel \<Rightarrow> issuance_view" where
  "issuance_view_of s =
     (if is_loading s then IssuancesLoading else if is_issuances s = [] then NeverIssued else Issued (is_issuances s))"

text \<open>A history that could not be loaded is shown as one without a use.\<close>

theorem failed_history_looks_unused:
  assumes "\<And>n xs. a \<noteq> Loaded n (Inr (JArr xs))"
  shows "issuance_view_of (issuances_loaded a issuances_start) = NeverIssued"
  using assms by (auto simp: issuance_view_of_def issuances_loaded_def issuances_start_def
      split: fetch_ended.splits sum.splits json.splits)

section \<open>Recent traffic\<close>

definition relativeTime :: "platform \<Rightarrow> string \<Rightarrow> string" where
  "relativeTime P stamp =
     (case pf_getTime P stamp of
        None \<Rightarrow> ''NaNd ago''
      | Some t \<Rightarrow>
          (let s = (pf_now P - t) div 1000; m = s div 60; h = m div 60 in
           if s < 60 then show_int s @ ''s ago'' else if m < 60 then show_int m @ ''m ago''
           else if h < 24 then show_int h @ ''h ago'' else show_int (h div 24) @ ''d ago''))"

definition event_color :: "int \<Rightarrow> string" where
  "event_color st =
     (if st \<ge> 500 then ''danger'' else if st \<ge> 400 then ''warning''
      else if st \<ge> 200 \<and> st < 300 then ''success'' else ''muted-foreground'')"

text \<open>A line of the feed: method, address, status with its colour, latency and age.\<close>

definition feed_line :: "platform \<Rightarrow> AuditEvent \<Rightarrow> string \<times> string \<times> int \<times> string \<times> int \<times> string" where
  "feed_line P e = (ae_method e, ''/proxy/'' @ ae_routeSlug e, ae_status e, event_color (ae_status e), ae_latencyMs e,
     relativeTime P (ae_timestamp e))"

definition ActivityFeed :: "platform \<Rightarrow> AuditEvent list \<Rightarrow> (string \<times> string \<times> int \<times> string \<times> int \<times> string) list option" where
  "ActivityFeed P events = (if events = [] then None else Some (map (feed_line P) (take 5 events)))"

section \<open>The table of audit events\<close>

record audit_row =
  au_ok :: bool
  au_path :: string
  au_latency :: "(int \<times> string) option"
  au_expanded :: bool

definition audit_row_of :: "string option \<Rightarrow> AuditEvent \<Rightarrow> audit_row" where
  "audit_row_of expandedID e =
     \<lparr>au_ok = (ae_status e < 400), au_path = or_str (ae_requestPath e) (''/proxy/'' @ ae_routeSlug e),
      au_latency = (if ae_latencyMs e > 0
        then Some (ae_latencyMs e, if ae_latencyMs e < 100 then ''success'' else if ae_latencyMs e < 500 then ''warning'' else ''danger'')
        else None),
      au_expanded = (expandedID = Some (ae_id e))\<rparr>"

definition press_audit_row :: "string \<Rightarrow> string option \<Rightarrow> string option" where
  "press_audit_row i expandedID = (if expandedID = Some i then None else Some i)"

definition AuditTable :: "string option \<Rightarrow> AuditEvent list \<Rightarrow> audit_row list option" where
  "AuditTable expandedID events = (if events = [] then None else Some (map (audit_row_of expandedID) events))"

text \<open>At most one event is open, and pressing its row twice closes it.\<close>

theorem one_audit_row_is_open:
  assumes "distinct (map ae_id events)" "AuditTable (press_audit_row i x) events = Some rows"
  shows "length (filter au_expanded rows) \<le> 1
     \<and> (x \<noteq> Some i \<and> i \<in> ae_id ` set events \<longrightarrow> length (filter au_expanded rows) = 1)
     \<and> press_audit_row i (press_audit_row i None) = None"
proof -
  let ?x = "press_audit_row i x"
  have rows: "rows = map (audit_row_of ?x) events"
    using assms(2) by (auto simp: AuditTable_def split: if_splits)
  have len: "length (filter au_expanded rows) = length (filter (\<lambda>j. ?x = Some j) (map ae_id events))"
    by (simp add: rows filter_map comp_def audit_row_of_def)
  have one: "distinct js \<Longrightarrow> length (filter (\<lambda>j. x' = Some j) js) = (if x' \<in> Some ` set js then 1 else 0)"
    for js :: "string list" and x' by (induction js) (auto simp: filter_empty_conv)
  show ?thesis unfolding len one [OF assms(1)] by (auto simp: press_audit_row_def)
qed

section \<open>The gauge and the steps\<close>

text \<open>The text in the middle of the gauge.\<close>

definition RateLimitGauge :: "int \<Rightarrow> string option" where
  "RateLimitGauge rpm =
     (if rpm \<le> 0 then None
      else Some (if rpm \<ge> 1000
                 then (if rpm mod 1000 = 0 then show_int (rpm div 1000) else toFixed1 (of_int rpm / 1000)) @ ''k''
                 else show_int rpm))"

text \<open>A step of a form is done, active or to come; the line after it is drawn except after the last.\<close>

datatype step_state = StepDone | StepActive | StepToCome nat

definition StepList :: "string list \<Rightarrow> nat \<Rightarrow> (string \<times> step_state \<times> bool option) list" where
  "StepList steps currentStep =
     map (\<lambda>i. (steps ! i, if i < currentStep then StepDone else if i = currentStep then StepActive else StepToCome (i + 1),
               if i < length steps - 1 then Some (i < currentStep) else None)) [0..<length steps]"

theorem steps_before_are_done:
  "length (StepList steps c) = length steps
   \<and> length (filter (\<lambda>s. fst (snd s) = StepDone) (StepList steps c)) = min c (length steps)"
proof
  show "length (StepList steps c) = length steps" by (simp add: StepList_def)
  have "length (filter (\<lambda>i. i < c) [0..<n]) = min c n" for n
    by (induction n) auto
  moreover have "(x \<noteq> c \<and> (x \<noteq> c \<longrightarrow> x < c)) = (x < c)" for x by auto
  ultimately show "length (filter (\<lambda>s. fst (snd s) = StepDone) (StepList steps c)) = min c (length steps)"
    by (simp add: StepList_def filter_map comp_def)
qed

end
