(* ===== verification/Mounting.thy ===== *)
theory Mounting
  imports Settings ConfigTransfer FormsRouting FormsCredentials
begin

text \<open>
  Components that mount others: the tabs of the settings page, \<open>components/admin/settings-tabs.tsx\<close>, and the
  buttons of the overview that open the creation forms, \<open>quick-actions.tsx\<close>. What a mounted component
  keeps, and when it starts anew, is decided here.
\<close>

section \<open>The tabs of the settings\<close>

datatype settings_tab = TabOIDC | TabDocs | TabMappings | TabRetention | TabTransfer

definition TABS :: "(settings_tab \<times> string) list" where
  "TABS = [(TabOIDC, ''OIDC Config''), (TabDocs, ''Provider Docs''), (TabMappings, ''Org Mappings''),
     (TabRetention, ''Data Retention''), (TabTransfer, ''Export / Import'')]"

text \<open>What the page gives to its panels.\<close>

record settings_props =
  pr_oidc :: OIDCConfig
  pr_mappings :: "json list"
  pr_days :: int
  pr_auto :: bool

datatype panel = POIDC oidc_form | PDocs | PMappings org_mappings | PRetention retention_panel | PTransfer transfer

definition mappings_start :: "json list \<Rightarrow> org_mappings" where
  "mappings_start ms = \<lparr>om_mappings = ms, om_orgs = [], om_adding = False, om_deleting = [], om_asking = None,
     om_error = None, om_crashed = False, om_log = []\<rparr>"

fun mount_panel :: "settings_props \<Rightarrow> settings_tab \<Rightarrow> panel" where
  "mount_panel p TabOIDC = POIDC (oidc_start (pr_oidc p))"
| "mount_panel p TabDocs = PDocs"
| "mount_panel p TabMappings = PMappings (mappings_start (pr_mappings p))"
| "mount_panel p TabRetention = PRetention (retention_start (pr_days p) (pr_auto p))"
| "mount_panel p TabTransfer = PTransfer transfer_start"

datatype panel_event =
    EOIDC oidc_form_event | EMappings mappings_event | ERetention retention_event | ETransfer transfer_event

fun panel_step :: "panel \<Rightarrow> panel_event \<Rightarrow> panel" where
  "panel_step (POIDC s) (EOIDC e) = POIDC (oidc_form_step s e)"
| "panel_step (PMappings s) (EMappings e) = PMappings (mappings_step s e)"
| "panel_step (PRetention s) (ERetention e) = PRetention (retention_step s e)"
| "panel_step (PTransfer s) (ETransfer e) = PTransfer (transfer_step s e)"
| "panel_step p e = p"

text \<open>What happens by itself: answers, timers and files that have been read.\<close>

fun by_itself :: "panel_event \<Rightarrow> bool" where
  "by_itself (EOIDC e) = (case e of OIDCAnswered a \<Rightarrow> True | ReloadEnded \<Rightarrow> True | _ \<Rightarrow> False)"
| "by_itself (EMappings e) =
     (case e of OrgsLoaded v \<Rightarrow> True | MappingAnswered a \<Rightarrow> True | RemoveAnswered i a \<Rightarrow> True | _ \<Rightarrow> False)"
| "by_itself (ERetention e) =
     (case e of RetentionSaved a \<Rightarrow> True | SaveTimerFired \<Rightarrow> True | PurgeAnswered a \<Rightarrow> True | PurgeTimerFired \<Rightarrow> True | _ \<Rightarrow> False)"
| "by_itself (ETransfer e) =
     (case e of ExportAnswered a \<Rightarrow> True | FileRead f v \<Rightarrow> True | FileUnreadable f \<Rightarrow> True | ImportAnswered a \<Rightarrow> True | _ \<Rightarrow> False)"

text \<open>
  \<open>st_left\<close> are the panels that were left: nothing shows them any more, but the handlers they have started
  go on. A panel keeps the state it started with when the page's props change.
\<close>

record settings_tabs =
  st_props :: settings_props
  st_active :: settings_tab
  st_panel :: panel
  st_left :: "panel list"

datatype tabs_event = TabPressed settings_tab | InPanel panel_event | InLeft nat panel_event | PropsChanged settings_props

fun tabs_step :: "settings_tabs \<Rightarrow> tabs_event \<Rightarrow> settings_tabs" where
  "tabs_step s (TabPressed t) =
     (if t = st_active s then s
      else s\<lparr>st_active := t, st_panel := mount_panel (st_props s) t, st_left := st_left s @ [st_panel s]\<rparr>)"
| "tabs_step s (InPanel e) = s\<lparr>st_panel := panel_step (st_panel s) e\<rparr>"
| "tabs_step s (InLeft n e) =
     (if n < length (st_left s) \<and> by_itself e then s\<lparr>st_left := (st_left s)[n := panel_step (st_left s ! n) e]\<rparr> else s)"
| "tabs_step s (PropsChanged p) = s\<lparr>st_props := p\<rparr>"

definition tabs_start :: "settings_props \<Rightarrow> settings_tabs" where
  "tabs_start p = \<lparr>st_props = p, st_active = TabOIDC, st_panel = mount_panel p TabOIDC, st_left = []\<rparr>"

definition tabs_fresh :: "settings_tabs \<Rightarrow> bool" where
  "tabs_fresh s \<longleftrightarrow> (\<exists>p. s = tabs_start p)"

definition tabs_trans :: "settings_tabs \<Rightarrow> tabs_event \<Rightarrow> settings_tabs \<Rightarrow> bool" where
  "tabs_trans s e t \<longleftrightarrow> t = tabs_step s e"

text \<open>The panel that is shown is the one of the active tab.\<close>

fun panel_tab :: "panel \<Rightarrow> settings_tab" where
  "panel_tab (POIDC s) = TabOIDC"
| "panel_tab PDocs = TabDocs"
| "panel_tab (PMappings s) = TabMappings"
| "panel_tab (PRetention s) = TabRetention"
| "panel_tab (PTransfer s) = TabTransfer"

lemma panel_tab_mount [simp]: "panel_tab (mount_panel p t) = t"
  by (cases t) simp_all

lemma panel_tab_step [simp]: "panel_tab (panel_step q e) = panel_tab q"
  by (cases "(q, e)" rule: panel_step.cases) simp_all

definition tabs_inv :: "settings_tabs \<Rightarrow> bool" where
  "tabs_inv s \<longleftrightarrow> panel_tab (st_panel s) = st_active s"

interpretation tabs: invariant tabs_fresh tabs_trans tabs_inv
proof
  show "tabs_inv s" if "tabs_fresh s" for s using that by (auto simp: tabs_fresh_def tabs_start_def tabs_inv_def)
  show "tabs_inv t" if "tabs_trans s e t" "tabs_inv s" for s e t
    using that by (cases e) (simp_all add: tabs_trans_def tabs_inv_def)
qed

text \<open>
  Changing the tab and coming back starts the form of the single sign-on from what the page was loaded
  with: what was saved meanwhile is not shown, and saving again sends the old settings back.
\<close>

theorem returning_to_the_settings_restores_the_old:
  assumes "reach tabs_fresh tabs_trans s" "st_active s = TabOIDC" "t \<noteq> TabOIDC"
  shows "(\<exists>f. st_panel s = POIDC f)
     \<and> st_panel (tabs_step (tabs_step s (TabPressed t)) (TabPressed TabOIDC)) = POIDC (oidc_start (pr_oidc (st_props s)))
     \<and> (\<exists>g. st_panel (foldl tabs_step s [TabPressed t, TabPressed TabOIDC, InPanel (EOIDC OIDCSubmitted)]) = POIDC g
          \<and> os_log g = [(''PUT'', ''/api/admin/settings/oidc'', oidc_body (os_fields (oidc_start (pr_oidc (st_props s)))))])"
proof -
  have "panel_tab (st_panel s) = TabOIDC" using tabs.reach_inv [OF assms(1)] assms(2) by (simp add: tabs_inv_def)
  then have "\<exists>f. st_panel s = POIDC f" by (cases "st_panel s") simp_all
  moreover have again: "st_panel (tabs_step (tabs_step s (TabPressed t)) (TabPressed TabOIDC)) = POIDC (oidc_start (pr_oidc (st_props s)))"
    using assms(2,3) by auto
  moreover have "os_saving (oidc_start c) = None \<and> os_log (oidc_start c) = []" for c
    by (simp add: oidc_start_def autoEnable_def Let_def)
  ultimately show ?thesis by (simp add: saveOIDC_def del: tabs_step.simps) (simp add: again saveOIDC_def)
qed

section \<open>Quick actions\<close>

datatype quick_modal = QTenant | QRoute | QToken

text \<open>The forms are mounted with the overview and opened by it; they have no trigger of their own.\<close>

record quick =
  qa_open :: "quick_modal option"
  qa_tenant :: "(unit, tenant_fields) modal"
  qa_route :: "(create_route_props, create_route_fields) modal"
  qa_token :: "(token_props, credential_fields) modal"

definition quick_sync :: "quick \<Rightarrow> quick" where
  "quick_sync s = s\<lparr>qa_tenant := (qa_tenant s)\<lparr>md_open := (qa_open s = Some QTenant)\<rparr>,
     qa_route := (qa_route s)\<lparr>md_open := (qa_open s = Some QRoute)\<rparr>,
     qa_token := (qa_token s)\<lparr>md_open := (qa_open s = Some QToken)\<rparr>\<rparr>"

text \<open>What the user does in a form, and its answers; the rest comes from the parent.\<close>

definition own_event :: "('p, 'e) form_event \<Rightarrow> bool" where
  "own_event e \<longleftrightarrow> (case e of TriggerPressed \<Rightarrow> False | ParentOpened \<Rightarrow> False | NewProps p \<Rightarrow> False | _ \<Rightarrow> True)"

text \<open>
  Whether a form calls \<open>onOpenChange(false)\<close> at an event: when its dialog is closed, and, if it closes itself,
  when its submission has been accepted.
\<close>

definition calls_close :: "bool \<Rightarrow> ('p, 'f) modal \<Rightarrow> ('p, 'e) form_event \<Rightarrow> ('p, 'f) modal \<Rightarrow> bool" where
  "calls_close closes m e m' \<longleftrightarrow>
     (case e of
        DialogClosed \<Rightarrow> md_open m \<and> \<not> md_crashed m
      | Answered (Answer True r) \<Rightarrow> closes \<and> md_pending m \<noteq> None \<and> \<not> md_crashed m'
      | _ \<Rightarrow> False)"

definition quick_props :: "date_lib \<Rightarrow> TenantSummary list \<Rightarrow> create_route_props \<times> token_props" where
  "quick_props D tenants =
     (\<lparr>cr_existingSlugs = [], cr_tenants = tenants, cr_initialTenantID = None\<rparr>,
      \<lparr>tp_tenantIDs = map tn_tenantID tenants, tp_initialTenantID = None, tp_initialScopes = None, tp_dates = D\<rparr>)"

datatype quick_event =
    QuickPressed quick_modal
  | TenantForm "(unit, tenant_input) form_event"
  | RouteForm "(create_route_props, route_input) form_event"
  | TokenForm "(token_props, credential_input) form_event"
  | HomeReloaded "TenantSummary list"

fun quick_step :: "date_lib \<Rightarrow> quick \<Rightarrow> quick_event \<Rightarrow> quick" where
  "quick_step D s (QuickPressed m) = quick_sync (s\<lparr>qa_open := Some m\<rparr>)"
| "quick_step D s (TenantForm e) =
     (if \<not> own_event e then s
      else let m = form_step createTenant (qa_tenant s) e in
           quick_sync (s\<lparr>qa_tenant := m, qa_open := (if calls_close True (qa_tenant s) e m then None else qa_open s)\<rparr>))"
| "quick_step D s (RouteForm e) =
     (if \<not> own_event e then s
      else let m = form_step createRoute (qa_route s) e in
           quick_sync (s\<lparr>qa_route := m, qa_open := (if calls_close True (qa_route s) e m then None else qa_open s)\<rparr>))"
| "quick_step D s (TokenForm e) =
     (if \<not> own_event e then s
      else let m = form_step createToken (qa_token s) e in
           quick_sync (s\<lparr>qa_token := m, qa_open := (if calls_close False (qa_token s) e m then None else qa_open s)\<rparr>))"
| "quick_step D s (HomeReloaded ts) =
     s\<lparr>qa_route := form_step createRoute (qa_route s) (NewProps (fst (quick_props D ts))),
       qa_token := form_step createToken (qa_token s) (NewProps (snd (quick_props D ts)))\<rparr>"

definition quick_start :: "date_lib \<Rightarrow> TenantSummary list \<Rightarrow> quick" where
  "quick_start D ts = \<lparr>qa_open = None, qa_tenant = form_start createTenant (),
     qa_route = form_start createRoute (fst (quick_props D ts)), qa_token = form_start createToken (snd (quick_props D ts))\<rparr>"

text \<open>Opening a form this way does not reset it.\<close>

theorem quick_forms_are_not_reset:
  "md_fields (qa_tenant (quick_step D s (QuickPressed m))) = md_fields (qa_tenant s)
   \<and> md_step (qa_tenant (quick_step D s (QuickPressed m))) = md_step (qa_tenant s)
   \<and> md_fields (qa_route (quick_step D s (QuickPressed m))) = md_fields (qa_route s)
   \<and> md_step (qa_route (quick_step D s (QuickPressed m))) = md_step (qa_route s)
   \<and> md_issued (qa_token (quick_step D s (QuickPressed m))) = md_issued (qa_token s)"
  by (simp add: quick_sync_def)

text \<open>A form that shows a secret and waits for nothing sends nothing and goes on showing it.\<close>

definition stuck :: "json \<Rightarrow> (token_props, credential_fields) modal \<Rightarrow> bool" where
  "stuck j m \<longleftrightarrow> md_issued m = Some j \<and> md_pending m = None"

lemma stuck_step:
  assumes "stuck j m" "own_event e \<or> (\<exists>p. e = NewProps p)"
  shows "stuck j (form_step createToken m e) \<and> sent_calls (form_step createToken m e) = sent_calls m"
proof (cases e)
  case DialogClosed
  with assms(1) show ?thesis by (simp add: stuck_def handleOpenChange_def closeModal_def)
qed (use assms in \<open>auto simp: stuck_def own_event_def\<close>)

lemma stuck_open [simp]: "stuck j (m\<lparr>md_open := b\<rparr>) = stuck j m"
  by (simp add: stuck_def)

lemma quick_stuck:
  assumes "stuck j (qa_token s)"
  shows "stuck j (qa_token (quick_step D s e)) \<and> sent_calls (qa_token (quick_step D s e)) = sent_calls (qa_token s)"
proof (cases e)
  case (TokenForm e')
  show ?thesis
  proof (cases "own_event e'")
    case True
    with stuck_step [OF assms, of e'] TokenForm show ?thesis
      by (simp add: quick_sync_def Let_def del: form_step.simps)
  qed (simp add: TokenForm assms)
next
  case (HomeReloaded ts)
  with stuck_step [OF assms, of "NewProps (snd (quick_props D ts))"] show ?thesis by simp
qed (use assms in \<open>simp_all add: quick_sync_def Let_def\<close>)

lemma quick_stuck_run:
  "stuck j (qa_token s) \<Longrightarrow>
     stuck j (qa_token (foldl (quick_step D) s es)) \<and> sent_calls (qa_token (foldl (quick_step D) s es)) = sent_calls (qa_token s)"
proof (induction es arbitrary: s)
  case (Cons e es)
  with quick_stuck [OF Cons.prems, of D e] show ?case by (simp del: quick_step.simps)
qed simp


text \<open>
  An answer to a form that has been closed closes the dialog that is open now.
\<close>

theorem late_answer_closes_another_dialog:
  assumes "qa_open s = Some QRoute" "md_pending (qa_tenant s) = Some f" "\<not> md_crashed (qa_tenant s)"
  shows "qa_open (quick_step D s (TenantForm (Answered (Answer True (JObj kvs))))) = None
     \<and> \<not> md_open (qa_route (quick_step D s (TenantForm (Answered (Answer True (JObj kvs))))))"
proof -
  let ?m = "form_step createTenant (qa_tenant s) (Answered (Answer True (JObj kvs)))"
  have "\<not> md_crashed ?m"
    using assms(2,3) by (simp add: submitted_def createTenant_def createTenant_accepted_def done_close_def closeModal_def emit_def Let_def)
  then have "calls_close True (qa_tenant s) (Answered (Answer True (JObj kvs)) :: (unit, tenant_input) form_event) ?m"
    using assms(2) by (simp add: calls_close_def del: form_step.simps)
  then show ?thesis by (simp add: own_event_def quick_sync_def Let_def del: form_step.simps)
qed

section \<open>Examples\<close>

definition exProps :: settings_props where
  "exProps = \<lparr>pr_oidc = \<lparr>oc_issuer = Some ''https://idp'', oc_clientID = Some ''id'', oc_hasSecret = True, oc_displayName = None,
     oc_groupsClaim = None, oc_adminGroup = None, oc_enabled = Some True\<rparr>, pr_mappings = [], pr_days = 30, pr_auto = False\<rparr>"

theorem returning_to_the_settings_restores_the_old_witness:
  "st_panel (tabs_step (tabs_step (tabs_step (tabs_start exProps) (InPanel (EOIDC (OIDCEdited (InIssuer ''https://new'')))))
       (TabPressed TabDocs)) (TabPressed TabOIDC)) = POIDC (oidc_start (pr_oidc exProps))"
proof -
  let ?s = "tabs_step (tabs_start exProps) (InPanel (EOIDC (OIDCEdited (InIssuer ''https://new''))))"
  have "reach tabs_fresh tabs_trans ?s"
    by (rule reach_step [where e = "InPanel (EOIDC (OIDCEdited (InIssuer ''https://new'')))", OF reach_init])
      (auto simp: tabs_fresh_def tabs_trans_def)
  moreover have "st_active ?s = TabOIDC" "st_props ?s = exProps" by (simp_all add: tabs_start_def)
  ultimately show ?thesis
    using returning_to_the_settings_restores_the_old [of ?s TabDocs] by simp
qed

definition exQuick :: quick where
  "exQuick = (let q = quick_step exDates (quick_start exDates []) (QuickPressed QToken) in
     q\<lparr>qa_token := (qa_token q)\<lparr>md_pending := Some (md_fields (qa_token q))\<rparr>\<rparr>)"


end
