(* ===== verification/TopologyView.thy ===== *)
theory TopologyView
  imports TopologySelection TopologyStream
begin

text \<open>
  What \<open>components/admin/live-topology-map.tsx\<close> shows of its state: the status of the stream, the figures,
  the inspector, how strongly and in which colours nodes and edges are drawn, the packets on them, the
  two panels and where they are placed, the small map and the recent traffic.
\<close>

section \<open>The head of the page\<close>

definition isLive :: "topology_data \<Rightarrow> bool" where
  "isLive d \<longleftrightarrow> td_source d = ''backend''"

definition chipLabel :: "stream_status \<Rightarrow> topology_data \<Rightarrow> string" where
  "chipLabel st d =
     (case st of Live \<Rightarrow> ''WebSocket live'' | Retrying \<Rightarrow> ''Reconnecting'' | Connecting \<Rightarrow> ''Connecting...''
      | Offline \<Rightarrow> if isLive d then ''Snapshot live'' else ''Fallback snapshot'')"

definition chipClass :: "stream_status \<Rightarrow> string" where
  "chipClass st = (case st of Live \<Rightarrow> ''success'' | Retrying \<Rightarrow> ''warning'' | Connecting \<Rightarrow> ''warning'' | Offline \<Rightarrow> ''border'')"

definition openCircuitBreakers :: "TopologySnapshot \<Rightarrow> nat" where
  "openCircuitBreakers d = length (filter (\<lambda>r. breakerOpen (ro_circuitBreakerState r)) (ts_routes d))"

definition summaryMetrics :: "TopologySnapshot \<Rightarrow> (string \<times> nat \<times> bool) list" where
  "summaryMetrics d =
     [(''Tenants'', length (ts_tenants d), False), (''Routes'', length (ts_routes d), False),
      (''Active tokens'', length (filter tk_active (ts_tokens d)), False),
      (''Open breakers'', openCircuitBreakers d, openCircuitBreakers d > 0)]"

text \<open>The buttons that create and connect are enabled while the snapshot is the backend's.\<close>

definition toolbar_enabled :: "topology_data \<Rightarrow> bool" where
  "toolbar_enabled d \<longleftrightarrow> td_source d = ''backend''"

definition connectionHelper :: "ConnectionMode option \<Rightarrow> bool \<Rightarrow> string" where
  "connectionHelper mode isPanning =
     (case mode of
        Some RouteFromTenant \<Rightarrow> ''Click a tenant node to create a route already connected to it.''
      | Some TokenFromTenant \<Rightarrow> ''Click a tenant node to issue a token directly into that tenant.''
      | Some TokenFromRoute \<Rightarrow>
          ''Click a route node to issue a token preloaded with that route'' @ [CHR 0xE2, CHR 0x80, CHR 0x99] @ ''s required scope.''
      | None \<Rightarrow> if isPanning then ''Dragging the graph camera.''
          else ''Drag the background to pan. Use the toolbar to create and connect entities directly on the map.'')"

section \<open>The inspector\<close>

definition inspectedToken :: "topology_ui \<Rightarrow> TokenSummary option" where
  "inspectedToken s = (case ui_selectedNode s of
      Some (k, i) \<Rightarrow> if k = ''token'' then js_find (\<lambda>t. Some (tk_id t) = i) (ts_tokens (ui_snapshot s)) else None
    | None \<Rightarrow> None)"

definition inspectorTitle :: "topology_ui \<Rightarrow> string" where
  "inspectorTitle s =
     (case inspectedRoute s of Some r \<Rightarrow> ro_slug r | None \<Rightarrow>
      case inspectedTenant s of Some t \<Rightarrow> tn_name t | None \<Rightarrow>
      case inspectedToken s of Some k \<Rightarrow> tk_name k | None \<Rightarrow> ''Nothing selected'')"

definition inspectorMeta :: "topology_ui \<Rightarrow> string" where
  "inspectorMeta s =
     (case inspectedRoute s of Some r \<Rightarrow> ro_tenantID r @ bullet @ ro_requiredScope r | None \<Rightarrow>
      case inspectedTenant s of Some t \<Rightarrow> tn_tenantID t @ bullet @ tn_authMode t | None \<Rightarrow>
      case inspectedToken s of Some k \<Rightarrow> tk_tenantID k @ bullet @ join_with '', '' (tk_scopes k) | None \<Rightarrow>
        ''Select a tenant, route, or token node to inspect its available actions and live links.'')"

definition breaker_text :: "string option \<Rightarrow> string" where
  "breaker_text st =
     (if st = Some ''open'' then ''Open '' @ [CHR 0xE2, CHR 0x80, CHR 0x94] @ '' traffic blocked''
      else if st = Some ''half_open'' then ''Half-open '' @ [CHR 0xE2, CHR 0x80, CHR 0x94] @ '' probing''
      else ''Closed '' @ [CHR 0xE2, CHR 0x80, CHR 0x94] @ '' healthy'')"

definition inspectorRows :: "topology_ui \<Rightarrow> (string \<times> string) list" where
  "inspectorRows s =
     (case inspectedTenant s of
        Some t \<Rightarrow> [(''Tenant ID'', tn_tenantID t), (''Auth mode'', tn_authMode t), (''Header'', tn_headerName t)]
      | None \<Rightarrow>
          case inspectedRoute s of
            Some r \<Rightarrow> [(''Tenant'', ro_tenantID r), (''Upstream'', ro_upstreamURL r), (''Scope'', ro_requiredScope r),
               (''Methods'', join_with '', '' (ro_methods r)), (''Circuit breaker'', breaker_text (ro_circuitBreakerState r))]
          | None \<Rightarrow>
              case inspectedToken s of
                Some k \<Rightarrow> [(''Tenant'', tk_tenantID k), (''Scopes'', join_with '', '' (tk_scopes k)), (''Preview'', tk_preview k)]
              | None \<Rightarrow> [])"

datatype inspector_button = EditTenant | NewRouteHere | IssueTokenHere | EditRoute | IssueTokenForRoute

definition inspectorButtons :: "topology_ui \<Rightarrow> inspector_button list" where
  "inspectorButtons s =
     (if inspectedTenant s \<noteq> None then [EditTenant, NewRouteHere, IssueTokenHere] else [])
     @ (if inspectedRoute s \<noteq> None then [EditRoute, IssueTokenForRoute] else [])"

definition button_press :: "inspector_button \<Rightarrow> ui_event" where
  "button_press p =
     (case p of EditTenant \<Rightarrow> InspectorEdit | EditRoute \<Rightarrow> InspectorEdit | NewRouteHere \<Rightarrow> InspectorNewRoute
      | IssueTokenHere \<Rightarrow> InspectorIssueToken | IssueTokenForRoute \<Rightarrow> InspectorIssueTokenForRoute)"

section \<open>Nodes\<close>

definition node_badge :: "node_kind \<Rightarrow> string" where
  "node_badge k = (case k of TenantNode \<Rightarrow> ''Tenant'' | RouteNode \<Rightarrow> ''Route'' | TokenNode \<Rightarrow> ''Token''
     | UpstreamNode \<Rightarrow> ''Upstream'' | DraftNode \<Rightarrow> ''Draft'')"

definition showPulse :: "GraphNode \<Rightarrow> bool" where
  "showPulse n \<longleftrightarrow> (nd_kind n = TenantNode \<or> nd_kind n = UpstreamNode) \<and> nd_tone n \<noteq> ''var(--muted)''"

definition pulseHealth :: "GraphNode \<Rightarrow> string" where
  "pulseHealth n =
     (if nd_tone n = ''var(--success)'' then ''up'' else if nd_tone n = ''var(--danger)'' then ''down'' else ''unknown'')"

record node_look =
  nl_selected :: bool
  nl_active :: bool
  nl_badge :: string
  nl_pulse :: "string option"
  nl_breaker :: "string option"
  nl_title :: "string option"

text \<open>Nothing is faded while nothing is emphasised.\<close>

definition node_active :: "string set \<Rightarrow> string \<Rightarrow> bool" where
  "node_active nodes i \<longleftrightarrow> nodes = {} \<or> i \<in> nodes"

definition node_kind_text :: "node_kind \<Rightarrow> string" where
  "node_kind_text k = (case k of TenantNode \<Rightarrow> ''tenant'' | RouteNode \<Rightarrow> ''route'' | TokenNode \<Rightarrow> ''token''
     | UpstreamNode \<Rightarrow> ''upstream'' | DraftNode \<Rightarrow> ''draft'')"

definition node_look_of :: "browser \<Rightarrow> topology_ui \<Rightarrow> GraphNode \<Rightarrow> node_look" where
  "node_look_of b s n =
     \<lparr>nl_selected = (selectedNodeId s = Some (nd_id n)), nl_active = node_active (snd (emphasis b s)) (nd_id n),
      nl_badge = node_badge (nd_kind n), nl_pulse = (if showPulse n then Some (pulseHealth n) else None),
      nl_breaker = (if truthy (nd_cbState n) \<and> nd_cbState n \<noteq> Some ''closed''
        then Some (if nd_cbState n = Some ''open'' then ''CB Open'' else ''CB '' @ [CHR 0xC2, CHR 0xBD] @ '' Open'') else None),
      nl_title = (if nd_kind n \<noteq> DraftNode \<and> nd_kind n \<noteq> UpstreamNode
        then Some (''Double-click to open '' @ node_kind_text (nd_kind n) @ ''s page'') else None)\<rparr>"

section \<open>Edges\<close>

definition edge_class :: "GraphEdge \<Rightarrow> string" where
  "edge_class e =
     (if ed_kind e = DraftEdge then ''topology-flow-line--draft''
      else if ed_revoked e = Some True then ''topology-flow-line--revoked''
      else if ed_error e then ''topology-flow-line--error''
      else if ed_hot e then ''topology-flow-line--hot''
      else if ed_reachable e = Some True then ''topology-flow-line--reachable''
      else ''topology-flow-line'')"

definition glow_class :: "GraphEdge \<Rightarrow> string" where
  "glow_class e =
     (if ed_revoked e = Some True then ''topology-flow-line--glow-revoked''
      else if ed_error e then ''topology-flow-line--glow-error''
      else if ed_reachable e = Some True then ''topology-flow-line--glow-reachable''
      else ''topology-flow-line--glow'')"

definition packetColor :: "GraphEdge \<Rightarrow> string" where
  "packetColor e =
     (if ed_error e then ''var(--danger)''
      else if ed_kind e = Binding \<or> ed_kind e = Upstream then ''var(--success)'' else ''var(--accent)'')"

text \<open>
  Three packets follow each other on a hot edge: the first at once, the others a third and two thirds
  of the duration later, where \<open>parseFloat\<close> reads the duration as it was written, in hundredths.
\<close>

definition packet_hundredths :: "rat \<Rightarrow> int" where
  "packet_hundredths ms = math_round (100 * packet_seconds ms)"

definition packetBegin :: "nat \<Rightarrow> rat \<Rightarrow> string" where
  "packetBegin k ms = toFixed2 (of_int (packet_hundredths ms) / 100 / 3 * of_nat k) @ ''s''"

definition packets :: "GraphEdge \<Rightarrow> (string \<times> string option) list" where
  "packets e =
     (if ed_hot e \<and> ed_kind e \<noteq> DraftEdge
      then (let ms = nullish (ed_latencyMs e) 0 in
            [(latencyToDuration ms, None), (latencyToDuration ms, Some (packetBegin 1 ms)),
             (latencyToDuration ms, Some (packetBegin 2 ms))])
      else [])"

definition mid_of :: "GraphNode \<Rightarrow> GraphNode \<Rightarrow> point" where
  "mid_of f t = bezierMidpoint (nd_x f, nd_y f) (nd_x t, nd_y t)"

text \<open>An edge is marked as the one of the open panel by the place of its badge.\<close>

definition edge_selected :: "topology_ui \<Rightarrow> point \<Rightarrow> bool" where
  "edge_selected s mid \<longleftrightarrow>
     map_option cp_scene (ui_selectedCBEdge s) = Some mid \<or> map_option tp_scene (ui_selectedTokenEdge s) = Some mid"

definition edge_active :: "string set \<times> string set \<Rightarrow> GraphEdge \<Rightarrow> bool" where
  "edge_active em e \<longleftrightarrow> snd em = {} \<or> ed_id e \<in> fst em \<or> ed_from e \<in> snd em \<or> ed_to e \<in> snd em"

text \<open>The badge of a breaker, and the label of an upstream edge, of ASCII characters.\<close>

definition cbBadge :: "GraphEdge \<Rightarrow> string option" where
  "cbBadge e =
     (let st = nullish (ed_circuitBreakerState e) ''closed'' in
      if st = ''open'' then Some ''OPEN''
      else if st = ''half_open'' then Some ([CHR 0xC2, CHR 0xBD] @ '' OPEN'') else None)"

definition upstream_label :: "string \<Rightarrow> string" where
  "upstream_label l = (if length l > 18 then take 17 l @ [CHR 0xE2, CHR 0x80, CHR 0xA6] else l)"

definition label_width :: "string \<Rightarrow> rat" where
  "label_width l = min (of_nat (length l) * 65 / 10 + 14) 140"

record edge_look =
  el_active :: bool
  el_selected :: bool
  el_class :: string
  el_glow :: string
  el_clickable :: bool
  el_packets :: "(string \<times> string option) list"
  el_color :: string
  el_label :: "(string \<times> rat) option"
  el_badge :: "string option"

text \<open>An edge of which an end is missing is not drawn.\<close>

definition edge_look_of :: "browser \<Rightarrow> topology_ui \<Rightarrow> GraphEdge \<Rightarrow> edge_look option" where
  "edge_look_of b s e =
     (case (js_find (\<lambda>n. nd_id n = ed_from e) (graphNodes b s), js_find (\<lambda>n. nd_id n = ed_to e) (graphNodes b s)) of
        (Some f, Some t) \<Rightarrow> Some
          \<lparr>el_active = edge_active (emphasis b s) e, el_selected = edge_selected s (mid_of f t),
           el_class = edge_class e, el_glow = glow_class e,
           el_clickable = (ed_kind e = Binding \<or> ed_kind e = Access), el_packets = packets e, el_color = packetColor e,
           el_label = (if ed_kind e = Upstream \<and> truthy (ed_label e)
             then Some (upstream_label (the (ed_label e)), label_width (the (ed_label e))) else None),
           el_badge = cbBadge e\<rparr>
      | _ \<Rightarrow> None)"

section \<open>The panels\<close>

text \<open>Where a panel of the size \<open>w\<close> by \<open>h\<close> is placed for a point of the scene.\<close>

definition panelW :: rat where "panelW = 312"

definition cb_panelH :: "string \<Rightarrow> rat" where
  "cb_panelH cbState = (if cbState = ''closed'' then 220 else 330)"

definition token_panelH :: rat where "token_panelH = 240"

definition panel_place :: "CameraState \<Rightarrow> rat \<Rightarrow> rat \<Rightarrow> rat \<Rightarrow> point \<Rightarrow> point" where
  "panel_place camera vw vh panelH scene =
     (let vpX = fst scene * cam_scale camera + cam_x camera;
          vpY = snd scene * cam_scale camera + cam_y camera;
          left = min (max (vpX - panelW / 2) 8) (vw - panelW - 8);
          top' = (if vpY - panelH - 20 < 8 then vpY + 24 else vpY - panelH - 20)
      in (left, min (max top' 8) (vh - panelH - 8)))"

record cb_popover =
  pc_kicker :: string
  pc_chips :: "string list option"
  pc_latency :: "rat option"
  pc_locked_text :: "bool option"
  pc_question :: "string option"
  pc_offer :: string

text \<open>
  The panel of a binding edge shows the breaker as it was at the click; the route's methods and scope
  are read from the snapshot. \<open>pc_locked_text\<close> tells which of the two texts an open breaker has.
\<close>

definition cb_popover_of :: "topology_ui \<Rightarrow> cb_popover option" where
  "cb_popover_of s =
     map_option (\<lambda>p.
       let isClosed = (cp_state p = ''closed''); isOpen = (cp_state p = ''open'') in
       \<lparr>pc_kicker = (if isClosed then ''Route binding''
          else if isOpen then ''Circuit Breaker '' @ [CHR 0xE2, CHR 0x80, CHR 0x94] @ '' Open'' @ (if cp_locked p then '' (locked)'' else [])
          else ''Circuit Breaker '' @ [CHR 0xE2, CHR 0x80, CHR 0x94] @ '' Half Open''),
        pc_chips = map_option (\<lambda>r. ro_methods r
            @ (if ro_requiredScope r \<noteq> [] then [''scope: '' @ ro_requiredScope r] else []))
          (js_find (\<lambda>r. ro_id r = cp_routeID p) (ts_routes (ui_snapshot s))),
        pc_latency = (if cp_latencyMs p > 0 then Some (cp_latencyMs p) else None),
        pc_locked_text = (if isOpen then Some (cp_locked p) else None),
        pc_question = ui_pendingCBAction s,
        pc_offer = (if isClosed then ''Open circuit breaker'' else ''Close circuit breaker'')\<rparr>)
     (ui_selectedCBEdge s)"

record token_popover =
  pt_preview :: "string option"
  pt_scopes :: "string option"
  pt_status :: string
  pt_expires :: bool
  pt_lastUsed :: bool
  pt_question :: "string option"
  pt_offer :: string

text \<open>\<open>year\<close> is \<open>new Date(x).getFullYear()\<close>, \<open>None\<close> for \<open>NaN\<close>.\<close>

definition token_popover_of :: "(string \<Rightarrow> int option) \<Rightarrow> topology_ui \<Rightarrow> token_popover option" where
  "token_popover_of year s =
     map_option (\<lambda>p.
       let tokenData = js_find (\<lambda>t. tk_id t = tp_tokenID p) (ts_tokens (ui_snapshot s)); isActive = panelTokenActive s p in
       \<lparr>pt_preview = map_option tk_preview tokenData,
        pt_scopes = map_option (\<lambda>t. ''scope: '' @ join_with '', '' (tk_scopes t)) tokenData,
        pt_status = (if isActive then ''Active'' else ''Revoked''),
        pt_expires = (case tokenData of None \<Rightarrow> False
          | Some t \<Rightarrow> tk_expiresAt t \<noteq> [] \<and> (case year (tk_expiresAt t) of Some y \<Rightarrow> y < 9999 | None \<Rightarrow> False)),
        pt_lastUsed = (case tokenData of None \<Rightarrow> False
          | Some t \<Rightarrow> tk_lastUsedAt t \<noteq> [] \<and> tk_lastUsedAt t \<noteq> ''0001-01-01T00:00:00Z''),
        pt_question = ui_pendingTokenAction s,
        pt_offer = (if isActive then ''Revoke token'' else ''Re-activate token'')\<rparr>)
     (ui_selectedTokenEdge s)"

section \<open>The small map and the recent traffic\<close>

text \<open>The part of the scene that is in view: its corner and its size.\<close>

definition minimap_rect :: "CameraState \<Rightarrow> rat \<Rightarrow> rat \<Rightarrow> rat \<Rightarrow> point \<times> point" where
  "minimap_rect camera vw vh sceneHeight =
     ((max 0 (- cam_x camera / cam_scale camera), max 0 (- cam_y camera / cam_scale camera)),
      (min SCENE_WIDTH (vw / cam_scale camera), min sceneHeight (vh / cam_scale camera)))"

definition minimap_stroke :: "GraphEdge \<Rightarrow> string" where
  "minimap_stroke e =
     (if ed_error e then ''var(--danger)'' else if ed_hot e then ''var(--accent)''
      else if ed_reachable e = Some True then ''var(--success)'' else ''var(--border)'')"

definition zoom_percent :: "CameraState \<Rightarrow> int" where
  "zoom_percent camera = math_round (cam_scale camera * 100)"

definition flow_color :: "int \<Rightarrow> string" where
  "flow_color st = (if st < 400 then ''success'' else if st < 500 then ''warning'' else ''danger'')"

definition recentFlow :: "TopologySnapshot \<Rightarrow> (string \<times> int \<times> string \<times> string \<times> string) list" where
  "recentFlow d = map (\<lambda>e. (''/'' @ ae_routeSlug e, ae_status e, flow_color (ae_status e), ae_tokenID e, ae_tenantID e))
     (take 4 (recentAudits d))"

section \<open>Panels and the small map\<close>

text \<open>
  In a viewport with room for it a panel lies inside with a margin of 8, and where there is room above
  or below the clicked point it does not cover the point.
\<close>

theorem panels_stay_in_view:
  assumes "panelW + 16 \<le> vw" "h + 16 \<le> vh"
  shows "8 \<le> fst (panel_place c vw vh h p) \<and> fst (panel_place c vw vh h p) + panelW + 8 \<le> vw
     \<and> 8 \<le> snd (panel_place c vw vh h p) \<and> snd (panel_place c vw vh h p) + h + 8 \<le> vh
     \<and> (let y = snd p * cam_scale c + cam_y c in
          0 \<le> y \<and> (h + 28 \<le> y \<or> y + h + 32 \<le> vh) \<longrightarrow>
          snd (panel_place c vw vh h p) + h < y \<or> y < snd (panel_place c vw vh h p))"
proof -
  have left: "8 \<le> min (max x 8) (vw - panelW - 8) \<and> min (max x 8) (vw - panelW - 8) + panelW + 8 \<le> vw" for x
    using assms(1) by (simp add: min_def max_def)
  have top: "8 \<le> min (max x 8) (vh - h - 8) \<and> min (max x 8) (vh - h - 8) + h + 8 \<le> vh" for x
    using assms(2) by (simp add: min_def max_def)
  have clear: "min (max (if y - h - 20 < 8 then y + 24 else y - h - 20) 8) (vh - h - 8) + h < y
      \<or> y < min (max (if y - h - 20 < 8 then y + 24 else y - h - 20) 8) (vh - h - 8)"
    if "0 \<le> y" "h + 28 \<le> y \<or> y + h + 32 \<le> vh" for y
    using that by (auto simp: min_def max_def)
  show ?thesis using left top clear by (simp add: panel_place_def Let_def)
qed

text \<open>The small map marks a part of the scene that begins inside it.\<close>

theorem minimap_marks_the_scene:
  assumes "CAMERA_MARGIN < vw" "CAMERA_MARGIN < vh" "0 < cam_scale c" "0 < sh" "clampCamera c vw vh sh = c"
  shows "case minimap_rect c vw vh sh of ((x, y), (w, h)) \<Rightarrow>
     0 \<le> x \<and> x < SCENE_WIDTH \<and> 0 \<le> y \<and> y < sh \<and> 0 < w \<and> w \<le> SCENE_WIDTH \<and> 0 < h \<and> h \<le> sh"
proof -
  have pos: "0 < SCENE_WIDTH * cam_scale c" "0 < sh * cam_scale c" "0 < vw" "0 < vh" "0 < SCENE_WIDTH"
    using assms by (simp_all add: camera_consts)
  have "cam_x c = clampAxis (SCENE_WIDTH * cam_scale c) vw (cam_x c)" "cam_y c = clampAxis (sh * cam_scale c) vh (cam_y c)"
    using assms(5) clampCamera_sel [of c vw vh sh] by simp_all
  with clampAxis_visible [OF assms(1) pos(1), of "cam_x c"] clampAxis_visible [OF assms(2) pos(2), of "cam_y c"]
  have "- cam_x c < SCENE_WIDTH * cam_scale c" "- cam_y c < sh * cam_scale c" by linarith+
  then have "- cam_x c / cam_scale c < SCENE_WIDTH" "- cam_y c / cam_scale c < sh"
    by (simp_all only: pos_divide_less_eq [OF assms(3)])
  then show ?thesis using pos assms(3,4) by (simp add: minimap_rect_def)
qed

section \<open>Edges and their marks\<close>

lemma binding_row_sum:
  assumes "comparator (br_localeCompare b)" "i < j" "j < length (ts_routes d)"
    and "tenantYByTenantID b d (ro_tenantID (sortedRoutes b d ! i)) = Some u"
    and "tenantYByTenantID b d (ro_tenantID (sortedRoutes b d ! j)) = Some v"
  shows "nd_y (routeNode b d x i) + u < nd_y (routeNode b d y j) + v"
proof -
  have "nd_y (routeNode b d x i) < nd_y (routeNode b d y j)"
    using assms(2,3) by (simp add: routeNode_row laneRows_less_iff)
  moreover from routeOrder_le [OF sortedRoutes_order [OF assms(1-3)]] have "u \<le> v" by (simp add: assms(4,5))
  ultimately show ?thesis by simp
qed

lemma mid_of_y: "mid_of f t = mid_of f' t' \<Longrightarrow> nd_y f + nd_y t = nd_y f' + nd_y t'"
  by (simp add: mid_of_def bezierMidpoint_mean)

lemma nodeAt_id: "nodeAt b d i = Some n \<Longrightarrow> nd_id n = i"
  unfolding nodeAt_def using js_find_Some by fast

text \<open>Binding edges have different badges.\<close>

lemma binding_badges_differ:
  assumes "comparator (br_localeCompare b)" "well_keyed d" "distinct (map tn_tenantID (ts_tenants d))"
    and "e1 \<in> set (tenantEdges b d)" "e2 \<in> set (tenantEdges b d)"
    and "nodeAt b d (ed_from e1) = Some r1" "nodeAt b d (ed_to e1) = Some t1"
    and "nodeAt b d (ed_from e2) = Some r2" "nodeAt b d (ed_to e2) = Some t2"
    and "mid_of r1 t1 = mid_of r2 t2"
  shows "e1 = e2"
proof -
  obtain i k where i: "i < length (ts_routes d)" "k < length (ts_tenants d)"
      "r1 = routeNode b d (sortedRoutes b d ! i) i" "nd_y t1 = tenantYArr d ! k"
      "tenantYByTenantID b d (ro_tenantID (sortedRoutes b d ! i)) = Some (tenantYArr d ! k)"
    by (rule tenantEdge_rows [OF assms(2,3,4)]) (use assms(6,7) in \<open>auto simp: tenantNode_row\<close>)
  obtain j l where j: "j < length (ts_routes d)" "l < length (ts_tenants d)"
      "r2 = routeNode b d (sortedRoutes b d ! j) j" "nd_y t2 = tenantYArr d ! l"
      "tenantYByTenantID b d (ro_tenantID (sortedRoutes b d ! j)) = Some (tenantYArr d ! l)"
    by (rule tenantEdge_rows [OF assms(2,3,5)]) (use assms(8,9) in \<open>auto simp: tenantNode_row\<close>)
  have "nd_y r1 + nd_y t1 = nd_y r2 + nd_y t2" using assms(10) by (rule mid_of_y)
  moreover have "i < j \<Longrightarrow> nd_y r1 + nd_y t1 < nd_y r2 + nd_y t2"
    unfolding i(3,4) j(3,4) by (rule binding_row_sum [OF assms(1) _ j(1) i(5) j(5)])
  moreover have "j < i \<Longrightarrow> nd_y r2 + nd_y t2 < nd_y r1 + nd_y t1"
    unfolding i(3,4) j(3,4) by (rule binding_row_sum [OF assms(1) _ i(1) j(5) i(5)])
  ultimately have "i = j" by (cases i j rule: linorder_cases) simp_all
  then have "ed_from e1 = ed_from e2" using nodeAt_id assms(6,8) i(3) j(3) by metis
  from assms(4) obtain x where x: "x \<in> set (ts_routes d)" "tenantEdge b d x = Some e1" "ed_from e1 = ''route:'' @ ro_id x"
    by (rule tenantEdgesE)
  from assms(5) obtain y where y: "y \<in> set (ts_routes d)" "tenantEdge b d y = Some e2" "ed_from e2 = ''route:'' @ ro_id y"
    by (rule tenantEdgesE)
  have "ro_id x = ro_id y" using \<open>ed_from e1 = ed_from e2\<close> x(3) y(3) by simp
  moreover have "distinct (map ro_id (ts_routes d))" using assms(2) by (simp add: well_keyed_def)
  ultimately have "x = y" using x(1) y(1) by (auto simp: distinct_map inj_on_def)
  with x(2) y(2) show ?thesis by simp
qed

lemma tenantEdges_kind: "e \<in> set (tenantEdges b d) \<Longrightarrow> ed_kind e = Binding"
  by (auto simp: tenantEdges_def List.map_filter_def tenantEdge_def Let_def split: option.splits)

text \<open>
  Clicking a binding edge whose panel is not open marks this binding edge and no other, although edges
  are recognised by the place of their badge.
\<close>

theorem only_the_clicked_edge_is_marked:
  assumes "comparator (br_localeCompare b)" "well_keyed (ui_snapshot s)" "distinct (map tn_tenantID (ts_tenants (ui_snapshot s)))"
    and "e1 \<in> set (tenantEdges b (ui_snapshot s))" "e2 \<in> set (tenantEdges b (ui_snapshot s))"
    and "nodeAt b (ui_snapshot s) (ed_from e1) = Some r1" "nodeAt b (ui_snapshot s) (ed_to e1) = Some t1"
    and "nodeAt b (ui_snapshot s) (ed_from e2) = Some r2" "nodeAt b (ui_snapshot s) (ed_to e2) = Some t2"
    and "map_option cp_scene (ui_selectedCBEdge s) \<noteq> Some (mid_of r1 t1)"
  shows "edge_selected (ui_step s (EdgeClicked e1 r1 t1)) (mid_of r2 t2) \<longleftrightarrow> e2 = e1"
proof -
  have "edge_selected (ui_step s (EdgeClicked e1 r1 t1)) (mid_of r2 t2) \<longleftrightarrow> mid_of r1 t1 = mid_of r2 t2"
    using tenantEdges_kind [OF assms(4)] assms(10) by (auto simp: edge_selected_def openEdgePanel_def mid_of_def Let_def)
  moreover have "e2 = e1 \<Longrightarrow> mid_of r1 t1 = mid_of r2 t2" using assms(6-9) by simp
  ultimately show ?thesis using binding_badges_differ [OF assms(1-9)] by blast
qed

text \<open>A badge is drawn where the breaker is open or half open.\<close>

lemma cbBadge_iff: "cbBadge e \<noteq> None \<longleftrightarrow> breakerOpen (ed_circuitBreakerState e)"
  by (cases "ed_circuitBreakerState e") (auto simp: cbBadge_def breakerOpen_def)

text \<open>
  The figure of open breakers is the number of route nodes that show one, and an alarm is shown exactly
  when there is one.
\<close>

theorem open_breakers_are_counted:
  assumes "well_keyed (ui_snapshot s)"
    and "\<forall>r \<in> set (ts_routes (ui_snapshot s)). ro_circuitBreakerState r \<in> {None, Some ''closed'', Some ''open'', Some ''half_open''}"
  shows "openCircuitBreakers (ui_snapshot s)
       = length (filter (\<lambda>n. nl_breaker (node_look_of b s n) \<noteq> None) (routeNodes b (ui_snapshot s)))
     \<and> last (summaryMetrics (ui_snapshot s)) = (''Open breakers'', openCircuitBreakers (ui_snapshot s),
         \<exists>r \<in> set (ts_routes (ui_snapshot s)). breakerOpen (ro_circuitBreakerState r))"
proof -
  let ?d = "ui_snapshot s"
  have d: "distinct (map ro_id (ts_routes ?d))" using assms(1) by (simp add: well_keyed_def)
  have cb: "cbStateOf ?d (ro_id r) = ro_circuitBreakerState r" if "r \<in> set (ts_routes ?d)" for r
    using js_find_unique [OF d that] by (simp add: cbStateOf_def routeSummary_def)
  let ?shows = "\<lambda>st. truthy st \<and> st \<noteq> Some ''closed''"
  have shows_open: "?shows (ro_circuitBreakerState r) = breakerOpen (ro_circuitBreakerState r)" if "r \<in> set (ts_routes ?d)" for r
    using assms(2) that by (auto simp: breakerOpen_def)
  have node: "(nl_breaker (node_look_of b s n) \<noteq> None) = ?shows (nd_cbState n)" for n
    by (simp add: node_look_of_def)
  have "length (filter (\<lambda>n. ?shows (nd_cbState n)) (routeNodes b ?d))
      = length (filter ?shows (map nd_cbState (routeNodes b ?d)))"
    by (simp add: filter_map comp_def)
  also have "map nd_cbState (routeNodes b ?d) = map (\<lambda>r. cbStateOf ?d (ro_id r)) (sortedRoutes b ?d)"
    unfolding routeNodes_def by (rule map_map_index_const) (simp add: routeNode_def Let_def)
  also have "length (filter ?shows (map (\<lambda>r. cbStateOf ?d (ro_id r)) (sortedRoutes b ?d)))
      = length (filter (\<lambda>r. breakerOpen (ro_circuitBreakerState r)) (sortedRoutes b ?d))"
    by (simp only: filter_map comp_def length_map) (rule arg_cong [where f = length], rule filter_cong, simp_all add: cb shows_open)
  also have "\<dots> = openCircuitBreakers ?d"
    unfolding openCircuitBreakers_def sortedRoutes_def by (simp flip: size_mset add: mset_filter)
  finally show ?thesis
    unfolding node by (simp add: summaryMetrics_def openCircuitBreakers_def filter_empty_conv)
qed

text \<open>The packets of a hot edge follow each other at a third and two thirds of the time one takes.\<close>

definition hundredths_text :: "int \<Rightarrow> string" where
  "hundredths_text n = show_nat (nat n div 100) @ ''.'' @ show_nat (nat n mod 100 div 10) @ show_nat (nat n mod 10) @ ''s''"

theorem packets_follow_at_thirds:
  assumes "ed_hot e" "ed_kind e \<noteq> DraftEdge"
  shows "\<exists>n a c. packets e = [(hundredths_text n, None), (hundredths_text n, Some (hundredths_text a)), (hundredths_text n, Some (hundredths_text c))]
     \<and> 60 \<le> n \<and> n \<le> 400 \<and> \<bar>3 * a - n\<bar> \<le> 1 \<and> \<bar>3 * c - 2 * n\<bar> \<le> 1"
proof -
  let ?ms = "nullish (ed_latencyMs e) 0"
  let ?n = "packet_hundredths ?ms"
  let ?b = "\<lambda>k :: nat. math_round (of_nat k * of_int ?n / 3)"
  have b: "packetBegin k ?ms = hundredths_text (?b k)" for k
    by (simp add: packetBegin_def toFixed2_def hundredths_text_def Let_def)
  have n: "latencyToDuration ?ms = hundredths_text ?n"
    by (simp add: latencyToDuration_def toFixed2_def hundredths_text_def packet_hundredths_def Let_def)
  have "60 \<le> ?n \<and> ?n \<le> 400"
    using packet_seconds_bounds [of ?ms] math_round_mono [of 60 "100 * packet_seconds ?ms"]
      math_round_mono [of "100 * packet_seconds ?ms" 400] math_round_of_int [of 60] math_round_of_int [of 400]
    by (simp add: packet_hundredths_def)
  moreover have "\<bar>3 * ?b k - int k * ?n\<bar> \<le> 1" for k
  proof -
    have "\<bar>of_int (?b k) - of_nat k * of_int ?n / 3\<bar> \<le> (1 / 2 :: rat)" by (rule math_round_close)
    then have "\<bar>of_int (3 * ?b k - int k * ?n)\<bar> \<le> (3 / 2 :: rat)" by (simp add: abs_le_iff field_simps)
    then have "of_int \<bar>3 * ?b k - int k * ?n\<bar> < (2 :: rat)" by simp
    then have "\<bar>3 * ?b k - int k * ?n\<bar> < 2" by (metis of_int_less_iff of_int_numeral)
    then show ?thesis by simp
  qed
  from this [of 1] this [of 2] have "\<bar>3 * ?b 1 - ?n\<bar> \<le> 1" "\<bar>3 * ?b 2 - 2 * ?n\<bar> \<le> 1" by simp_all
  moreover have "packets e = [(hundredths_text ?n, None), (hundredths_text ?n, Some (hundredths_text (?b 1))),
      (hundredths_text ?n, Some (hundredths_text (?b 2)))]"
    using assms by (simp add: packets_def Let_def b n)
  ultimately show ?thesis by blast
qed

section \<open>Nodes and the inspector\<close>

text \<open>
  Only upstreams pulse with their health: tenants always pulse, with an unknown one.
\<close>

theorem tenants_pulse_without_health:
  assumes "n \<in> set (allNodes b d)" "showPulse n"
  shows "if nd_kind n = TenantNode then pulseHealth n = ''unknown''
     else nd_kind n = UpstreamNode \<and> pulseHealth n \<in> {''up'', ''down''}"
proof -
  have tones: "ue_tone x \<in> {''var(--danger)'', ''var(--success)'', ''var(--muted)''}" if "x \<in> set (upstreamEntries b d)" for x
    using that by (rule upstreamEntriesE) (simp add: upstreamEntry_def upstreamTone_def Let_def)
  from assms(1) consider t i where "n = tokenNode d t i" | r i where "n = routeNode b d r i" | t i where "n = tenantNode d t i"
    | x i where "n = upstreamNode b d x i" "x \<in> set (upstreamEntries b d)"
    by (auto simp: allNodes_def tokenNodes_def routeNodes_def tenantNodes_def upstreamNodes_def set_map_index)
  then show ?thesis
  proof cases
    case 4
    with assms(2) tones [of x] show ?thesis by (auto simp: upstreamNode_def showPulse_def pulseHealth_def)
  qed (use assms(2) in \<open>auto simp: tokenNode_def routeNode_def tenantNode_def showPulse_def pulseHealth_def Let_def\<close>)
qed

text \<open>
  The inspector describes one entity, the selected one if the snapshot has it: title, rows and buttons
  belong to the same, and its buttons act on it.
\<close>

theorem inspector_acts_on_what_it_shows:
  "(inspectedTenant s = Some t \<longrightarrow> inspectorTitle s = tn_name t \<and> (''Tenant ID'', tn_tenantID t) \<in> set (inspectorRows s)
       \<and> inspectorButtons s = [EditTenant, NewRouteHere, IssueTokenHere]
       \<and> ui_editingTenantID (ui_step s (button_press EditTenant)) = Some (tn_id t)
       \<and> ui_createRouteOpen (ui_step s (button_press NewRouteHere))
       \<and> ui_routeDraftTenantID (ui_step s (button_press NewRouteHere)) = Some (tn_tenantID t)
       \<and> ui_createTokenOpen (ui_step s (button_press IssueTokenHere))
       \<and> ui_tokenDraftTenantID (ui_step s (button_press IssueTokenHere)) = Some (tn_tenantID t))
   \<and> (inspectedRoute s = Some r \<longrightarrow> inspectorTitle s = ro_slug r \<and> (''Upstream'', ro_upstreamURL r) \<in> set (inspectorRows s)
       \<and> inspectorButtons s = [EditRoute, IssueTokenForRoute]
       \<and> ui_editingRouteID (ui_step s (button_press EditRoute)) = Some (ro_id r)
       \<and> ui_createTokenOpen (ui_step s (button_press IssueTokenForRoute))
       \<and> ui_tokenDraftTenantID (ui_step s (button_press IssueTokenForRoute)) = Some (ro_tenantID r)
       \<and> ui_tokenDraftScopes (ui_step s (button_press IssueTokenForRoute)) = Some (ro_requiredScope r))
   \<and> (inspectedToken s = Some k \<longrightarrow> inspectorTitle s = tk_name k \<and> (''Preview'', tk_preview k) \<in> set (inspectorRows s)
       \<and> inspectorButtons s = [])"
proof -
  have t: "inspectedRoute s = None \<and> inspectedToken s = None" if "inspectedTenant s = Some x" for x
    using that by (auto simp: inspectedTenant_def inspectedRoute_def inspectedToken_def split: option.splits if_splits)
  have r: "inspectedTenant s = None \<and> inspectedToken s = None" if "inspectedRoute s = Some x" for x
    using that by (auto simp: inspectedTenant_def inspectedRoute_def inspectedToken_def split: option.splits if_splits)
  have k: "inspectedTenant s = None \<and> inspectedRoute s = None" if "inspectedToken s = Some x" for x
    using that by (auto simp: inspectedTenant_def inspectedRoute_def inspectedToken_def split: option.splits if_splits)
  note d = inspectorTitle_def inspectorRows_def inspectorButtons_def button_press_def inspectorEdit_def
    inspectorNewRoute_def inspectorIssueToken_def inspectorIssueTokenForRoute_def
  show ?thesis
    by (intro conjI [OF _ conjI] impI) (frule t r k, simp add: d)+
qed

text \<open>
  When the selected entity is gone from the snapshot, the inspector says that nothing is selected, but
  everything on the map is faded.
\<close>

theorem vanished_selection_fades_the_map:
  assumes "selectedNodeId s = Some i" "i \<notin> nd_id ` set (allNodes b (ui_snapshot s))"
    and "draftNodes b s = []" "draftEdges b s = []"
  shows "inspectorTitle s = ''Nothing selected''
     \<and> (\<forall>n \<in> set (graphNodes b s). \<not> nl_active (node_look_of b s n))
     \<and> (\<forall>e \<in> set (graphEdges b s). \<forall>l. edge_look_of b s e = Some l \<longrightarrow> \<not> el_active l)"
proof -
  let ?d = "ui_snapshot s"
  have ids: "nd_id ` set (allNodes b ?d) = set (map nd_id (allNodes b ?d))" by simp
  have gone: "\<forall>t \<in> set (ts_tenants ?d). ''tenant:'' @ tn_id t \<noteq> i"
    using assms(2) unfolding ids all_node_ids by auto
  have gone': "\<forall>r \<in> set (ts_routes ?d). ''route:'' @ ro_id r \<noteq> i"
    using assms(2) unfolding ids all_node_ids by auto
  have gone'': "\<forall>k \<in> set (ts_tokens ?d). ''token:'' @ tk_id k \<noteq> i"
    using assms(2) unfolding ids all_node_ids by auto
  obtain kind j where sel: "ui_selectedNode s = Some (kind, j)" "i = kind @ '':'' @ nullish j ''undefined''"
    using assms(1) by (auto simp: selectedNodeId_def)
  have none: "inspectedTenant s = None" "inspectedRoute s = None" "inspectedToken s = None"
    using sel gone gone' gone'' by (auto simp: inspectedTenant_def inspectedRoute_def inspectedToken_def js_find_None)
  have far: "\<not> touching i e" if "e \<in> set (snapshotEdges b ?d)" for e
    using snapshot_edge_ends [OF that] assms(2) by (auto simp: touching_def)
  then have "filter (touching i) (snapshotEdges b ?d) = []" by (simp add: filter_empty_conv)
  then have em: "emphasis b s = ({}, {i})" using assms(1,3,4) by (simp add: emphasis_def Let_def)
  have "\<not> nl_active (node_look_of b s n)" if "n \<in> set (graphNodes b s)" for n
    using that assms(2,3) by (auto simp: graphNodes_def node_look_of_def node_active_def em)
  moreover have "\<not> edge_active (emphasis b s) e" if "e \<in> set (graphEdges b s)" for e
    using far [of e] that assms(4) by (auto simp: graphEdges_def edge_active_def em touching_def)
  ultimately show ?thesis using none
    by (auto simp: inspectorTitle_def edge_look_of_def split: option.splits)
qed

text \<open>
  The panel of a breaker goes on showing, and offering, what was true at the click; the panel of a token
  follows the snapshot.
\<close>

theorem breaker_panel_is_not_refreshed:
  assumes "ui_selectedCBEdge s = Some p" "ui_selectedTokenEdge t = Some q"
    and "js_find (\<lambda>k. tk_id k = tp_tokenID q) (ts_tokens d) = Some k"
  shows "map_option pc_kicker (cb_popover_of (ui_step s (NewSnapshot d))) = map_option pc_kicker (cb_popover_of s)
     \<and> map_option pc_offer (cb_popover_of (ui_step s (NewSnapshot d)))
         = Some (if cp_state p = ''closed'' then ''Open circuit breaker'' else ''Close circuit breaker'')
     \<and> map_option pt_status (token_popover_of year (ui_step t (NewSnapshot d))) = Some (if tk_active k then ''Active'' else ''Revoked'')
     \<and> map_option pt_offer (token_popover_of year (ui_step t (NewSnapshot d)))
         = Some (if tk_active k then ''Revoke token'' else ''Re-activate token'')"
  using assms by (simp add: cb_popover_of_def token_popover_of_def panelTokenActive_def Let_def)

section \<open>Examples\<close>

theorem panels_stay_in_view_witness:
  "8 \<le> fst (panel_place \<lparr>cam_scale = 1, cam_x = 0, cam_y = 0\<rparr> 700 500 (cb_panelH ''closed'') (1260, 400))"
  using panels_stay_in_view [of 700 "cb_panelH ''closed''" 500 "\<lparr>cam_scale = 1, cam_x = 0, cam_y = 0\<rparr>" "(1260, 400)"]
  by (simp add: panelW_def cb_panelH_def)

theorem minimap_marks_the_scene_witness:
  "fst (fst (minimap_rect (fitCamera 800 600 980) 800 600 980)) < SCENE_WIDTH"
proof -
  have "0 < cam_scale (fitCamera 800 600 980)" by code_simp
  with minimap_marks_the_scene [of 800 600 "fitCamera 800 600 980" 980] show ?thesis
    by (simp add: CAMERA_MARGIN_def split: prod.splits)
qed

definition exMap :: topology_ui where
  "exMap = exUi\<lparr>ui_snapshot := exGraph\<rparr>"

lemma exMap_snapshot [simp]: "ui_snapshot exMap = exGraph" "ui_selectedCBEdge exMap = None"
  by (simp_all add: exMap_def exUi_def)

theorem only_the_clicked_edge_is_marked_witness:
  "\<exists>e1 e2 r1 t1 r2 t2. e1 \<noteq> e2 \<and> ed_from e1 = ''route:ra'' \<and> ed_from e2 = ''route:rd''
     \<and> edge_selected (ui_step exMap (EdgeClicked e1 r1 t1)) (mid_of r1 t1)
     \<and> \<not> edge_selected (ui_step exMap (EdgeClicked e1 r1 t1)) (mid_of r2 t2)"
proof -
  obtain e1 where e1: "e1 \<in> set (tenantEdges exBrowser exGraph)" "ed_from e1 = ''route:ra''" "ed_to e1 = ''tenant:nacme''"
    by (rule exGraph_bindingE [of "''route:ra''" "''tenant:nacme''"]) (simp_all add: exGraph_binding)
  obtain e2 where e2: "e2 \<in> set (tenantEdges exBrowser exGraph)" "ed_from e2 = ''route:rd''" "ed_to e2 = ''tenant:nbeta''"
    by (rule exGraph_bindingE [of "''route:rd''" "''tenant:nbeta''"]) (simp_all add: exGraph_binding)
  obtain r1 r2 t1 t2 where n: "nodeAt exBrowser exGraph ''route:ra'' = Some r1" "nodeAt exBrowser exGraph ''route:rd'' = Some r2"
      "nodeAt exBrowser exGraph ''tenant:nacme'' = Some t1" "nodeAt exBrowser exGraph ''tenant:nbeta'' = Some t2"
    using exGraph_rows by auto
  have ne: "e1 \<noteq> e2" using e1(2) e2(2) by auto
  have "edge_selected (ui_step exMap (EdgeClicked e1 r1 t1)) (mid_of r1 t1) \<longleftrightarrow> e1 = e1"
    by (rule only_the_clicked_edge_is_marked [of exBrowser exMap e1 e1 r1 t1 r1 t1])
      (use e1 n exGraph_keyed exGraph_tenants exBrowser_compare in simp_all)
  moreover have "edge_selected (ui_step exMap (EdgeClicked e1 r1 t1)) (mid_of r2 t2) \<longleftrightarrow> e2 = e1"
    by (rule only_the_clicked_edge_is_marked [of exBrowser exMap e1 e2 r1 t1 r2 t2])
      (use e1 e2 n exGraph_keyed exGraph_tenants exBrowser_compare in simp_all)
  ultimately show ?thesis using ne e1(2) e2(2) by blast
qed

theorem open_breakers_are_counted_witness:
  "openCircuitBreakers (ui_snapshot exMap)
     = length (filter (\<lambda>n. nl_breaker (node_look_of exBrowser exMap n) \<noteq> None) (routeNodes exBrowser (ui_snapshot exMap)))"
proof -
  have "\<forall>r \<in> set (ts_routes (ui_snapshot exMap)). ro_circuitBreakerState r \<in> {None, Some ''closed'', Some ''open'', Some ''half_open''}"
    by (auto simp: exGraph_def exSnapshot_def exRoute_def)
  with open_breakers_are_counted [of exMap exBrowser] exGraph_keyed show ?thesis by simp
qed

theorem vanished_selection_fades_the_map_witness:
  "inspectorTitle (exMap\<lparr>ui_selectedNode := Some (''token'', Some ''gone'')\<rparr>) = ''Nothing selected''"
proof -
  let ?s = "exMap\<lparr>ui_selectedNode := Some (''token'', Some ''gone'')\<rparr>"
  have "selectedNodeId ?s = Some ''token:gone''" by (simp add: selectedNodeId_def)
  moreover have "''token:gone'' \<notin> nd_id ` set (allNodes exBrowser (ui_snapshot ?s))"
  proof -
    have "list_all (\<lambda>n. nd_id n \<noteq> ''token:gone'') (allNodes exBrowser exGraph)" by code_simp
    then show ?thesis by (auto simp: list_all_iff)
  qed
  moreover have "draftNodes exBrowser ?s = []" "draftEdges exBrowser ?s = []"
    by (simp_all add: draftNodes_def draftEdges_def routeDraft_def tokenDraft_def exMap_def exUi_def)
  ultimately show ?thesis using vanished_selection_fades_the_map [of ?s "''token:gone''" exBrowser] by blast
qed

end
