(* ===== verification/Rows.thy ===== *)
theory Rows
  imports Tables Team RouteTester TopologyView FormsApps BackendServer
begin

text \<open>
  What the tables show of a row: \<open>routes-table.tsx\<close> with the details under a route,
  \<open>tokens-table.tsx\<close>, \<open>protected-apps-table.tsx\<close>, \<open>grants-table.tsx\<close>, \<open>sessions-table.tsx\<close>,
  \<open>org-ip-rules-table.tsx\<close>, \<open>platform-admins-table.tsx\<close>, \<open>team-members-table.tsx\<close>,
  \<open>pending-invites-list.tsx\<close> and \<open>tenant-card.tsx\<close>. Dates are left to the browser.
\<close>

definition em_dash :: string where
  "em_dash = [CHR 0xE2, CHR 0x80, CHR 0x94]"

text \<open>\<open>n > 0 && \<dots>\<close> over a rate limit: the limit and the burst.\<close>

definition limit_shown :: "int \<Rightarrow> int \<Rightarrow> (int \<times> int) option" where
  "limit_shown rpm burst = (if rpm > 0 then Some (rpm, burst) else None)"

section \<open>Routes\<close>

text \<open>The colour of the dot of a route and its title.\<close>

definition route_health :: "string option \<Rightarrow> string \<times> string" where
  "route_health st =
     (if st = Some ''open'' then (''danger'', ''Circuit breaker open '' @ em_dash @ '' upstream failing'')
      else if st = Some ''half-open'' then (''warning'', ''Circuit breaker half-open '' @ em_dash @ '' recovering'')
      else (''success'', ''Healthy''))"

text \<open>The box in the header is checked, or undecided, by the number of selected rows.\<close>

definition header_undecided :: "platform \<Rightarrow> ('r, 'k) table_view \<Rightarrow> ('r, 'k, 'm) table_scheme \<Rightarrow> bool" where
  "header_undecided P V s \<longleftrightarrow> length (ta_selected s) > 0 \<and> length (ta_selected s) < length (filtered_rows P V s)"

record route_row =
  rr_selected :: bool
  rr_health :: "string \<times> string"
  rr_path :: string
  rr_url :: string
  rr_methods :: "string list"
  rr_openBadge :: bool
  rr_target :: "string option"
  rr_limit :: "(int \<times> int) option"
  rr_allow :: "string option"
  rr_duplicable :: bool
  rr_testerLabel :: string
  rr_expandLabel :: string

definition route_row_of :: "string option \<Rightarrow> routes_table \<Rightarrow> RouteSummary \<Rightarrow> route_row" where
  "route_row_of base s r =
     \<lparr>rr_selected = (ro_id r \<in> set (ta_selected s)), rr_health = route_health (ro_circuitBreakerState r),
      rr_path = ''/proxy/'' @ ro_slug r, rr_url = fullUrl base r, rr_methods = ro_methods r,
      rr_openBadge = (ro_circuitBreakerState r = Some ''open''),
      rr_target = (if ro_targetPath r \<noteq> [] \<and> ro_targetPath r \<noteq> ''/'' then Some (ro_targetPath r) else None),
      rr_limit = limit_shown (ro_rateLimitRPM r) (ro_rateLimitBurst r),
      rr_allow = (if ro_allowCIDRs r \<noteq> [] then Some (ro_allowCIDRs r) else None),
      rr_duplicable = (\<not> ta_disabled s \<and> rt_duplicating s \<noteq> Some (ro_id r)),
      rr_testerLabel = (if ta_tester s = Some (ro_id r) then ''Close tester'' else ''Test route''),
      rr_expandLabel = (if ta_expanded s = Some (ro_id r) then ''Collapse route details'' else ''Expand route details'')\<rparr>"

text \<open>
  Under an expanded route: the tester, mounted for this route and the active tokens of its tenant, or its
  pool and its health checks. \<open>origin\<close> and \<open>null_error\<close> are what the tester takes from the browser.
\<close>

datatype route_detail = TesterBelow tester | PoolAndHealth string

definition route_tester_props :: "string option \<Rightarrow> TokenSummary list \<Rightarrow> string \<Rightarrow> string \<Rightarrow> RouteSummary \<Rightarrow> tester_props" where
  "route_tester_props base tokens origin null_error r =
     \<lparr>rp_routes = [r], rp_tokens = filter (\<lambda>t. tk_tenantID t = ro_tenantID r \<and> tk_active t) tokens,
      rp_backendBaseUrl = nullish base [], rp_origin = origin, rp_null_error = null_error\<rparr>"

definition route_detail_of ::
  "string option \<Rightarrow> TokenSummary list \<Rightarrow> string \<Rightarrow> string \<Rightarrow> routes_table \<Rightarrow> RouteSummary \<Rightarrow> route_detail option" where
  "route_detail_of base tokens origin null_error s r =
     (if ta_expanded s \<noteq> Some (ro_id r) then None
      else if ta_tester s = Some (ro_id r)
      then Some (TesterBelow (tester_start (route_tester_props base tokens origin null_error r) True (ro_id r)))
      else Some (PoolAndHealth (ro_id r)))"

text \<open>The line that says that nothing matches.\<close>

definition no_match :: "platform \<Rightarrow> ('r, 'k) table_view \<Rightarrow> ('r, 'k, 'm) table_scheme \<Rightarrow> bool" where
  "no_match P V s \<longleftrightarrow> filtered_rows P V s = [] \<and> ta_search s \<noteq> []"

section \<open>Tokens\<close>

datatype token_button = Rotate | Revoke | Delete

record token_row =
  tr_dot :: string
  tr_revoked :: bool
  tr_expiry :: "(string \<times> bool) option"
  tr_lastUsed :: string
  tr_faint :: bool
  tr_scopes :: "string list"
  tr_limit :: "(int \<times> int) option"
  tr_buttons :: "token_button list"
  tr_details :: "((int \<times> int) option \<times> string) option"

definition token_row_of :: "platform \<Rightarrow> int \<Rightarrow> string option \<Rightarrow> TokenSummary \<Rightarrow> token_row" where
  "token_row_of P warningDays expandedID t =
     (let lastUsed = lastUsedLabel P (tk_lastUsedAt t) in
      \<lparr>tr_dot = (if tk_active t then ''success'' else ''muted''), tr_revoked = (\<not> tk_active t),
       tr_expiry = expiryStatus P (tk_expiresAt t) warningDays, tr_lastUsed = lastUsed,
       tr_faint = (lastUsed = ''Never used''), tr_scopes = tk_scopes t,
       tr_limit = limit_shown (tk_rateLimitRPM t) (tk_rateLimitBurst t),
       tr_buttons = (if tk_active t then [Rotate] else []) @ (if tk_active t then [Revoke] else []) @ [Delete],
       tr_details = (if expandedID = Some (tk_id t)
         then Some (limit_shown (tk_rateLimitRPM t) (tk_rateLimitBurst t), tk_id t) else None)\<rparr>)"

section \<open>Protected apps\<close>

text \<open>
  The colour and the label of a way to authenticate; a name that object literals inherit is not one.
\<close>

definition AuthModeBadge :: "string \<Rightarrow> string \<times> string" where
  "AuthModeBadge mode =
     (if mode = ''oidc'' then (''accent'', ''OIDC'') else if mode = ''bearer'' then (''success'', ''Bearer'')
      else if mode = ''any'' then (''warning'', ''Any'') else if mode = ''none'' then (''muted'', ''None'')
      else (''muted'', mode))"

definition counted :: "(string \<Rightarrow> nat option) \<Rightarrow> string \<Rightarrow> string \<Rightarrow> string option" where
  "counted m what i =
     (let n = nullish (m i) 0 in
      if n > 0 then Some (show_nat n @ '' '' @ what @ (if n \<noteq> 1 then ''s'' else [])) else None)"

record app_row =
  pr_address :: string
  pr_mode :: "string \<times> string"
  pr_sessions :: "string option"
  pr_tokens :: "string option"
  pr_unused :: bool
  pr_limit :: string

definition app_row_of :: "(string \<Rightarrow> nat option) \<Rightarrow> (string \<Rightarrow> nat option) \<Rightarrow> ProtectedApp \<Rightarrow> app_row" where
  "app_row_of sessionCountByApp tokenCountByApp a =
     \<lparr>pr_address = ''/app/'' @ ap_slug a @ ''/'', pr_mode = AuthModeBadge (ap_authMode a),
      pr_sessions = counted sessionCountByApp ''session'' (ap_id a), pr_tokens = counted tokenCountByApp ''token'' (ap_id a),
      pr_unused = (nullish (sessionCountByApp (ap_id a)) 0 = 0 \<and> nullish (tokenCountByApp (ap_id a)) 0 = 0),
      pr_limit = (if ap_rateLimitRPM a > 0 then show_int (ap_rateLimitRPM a) @ '' RPM / '' @ ap_rateLimitPer a else em_dash)\<rparr>"

section \<open>Grants\<close>

record GrantSummary =
  gr_id :: string
  gr_name :: string
  gr_tenantID :: string
  gr_scopes :: "string list"
  gr_tokenTTLHours :: int
  gr_maxUses :: int
  gr_useCount :: int
  gr_active :: bool
  gr_preview :: string
  gr_rateLimitRPM :: int
  gr_rateLimitBurst :: int
  gr_orgID :: string
  gr_expiresAt :: string
  gr_createdAt :: string

record grant_row =
  wr_dot :: string
  wr_exhausted :: bool
  wr_expiry :: "(string \<times> bool) option"
  wr_uses :: string
  wr_ttl :: string
  wr_history :: "string option"

definition usedUp :: "GrantSummary \<Rightarrow> bool" where
  "usedUp g \<longleftrightarrow> gr_useCount g \<ge> gr_maxUses g"

definition grant_row_of :: "platform \<Rightarrow> string option \<Rightarrow> GrantSummary \<Rightarrow> grant_row" where
  "grant_row_of P expandedID g =
     \<lparr>wr_dot = (if gr_active g \<and> \<not> usedUp g then ''success'' else ''muted''), wr_exhausted = usedUp g,
      wr_expiry = expiryLabel (pf_now P) (pf_getTime P (gr_expiresAt g)),
      wr_uses = show_int (gr_useCount g) @ '' / '' @ show_int (gr_maxUses g) @ '' uses'',
      wr_ttl = ''Token TTL: '' @ show_int (gr_tokenTTLHours g) @ ''h'',
      wr_history = (if expandedID = Some (gr_id g) then Some (gr_id g) else None)\<rparr>"

section \<open>Sessions\<close>

record AdminSession =
  as_id :: string
  as_ipAddress :: string
  as_userAgent :: string
  as_createdAt :: string
  as_lastSeenAt :: string
  as_isRevoked :: bool

text \<open>The patterns ignore case; on letters beyond ASCII they do not depend.\<close>

definition mentions :: "string list \<Rightarrow> string \<Rightarrow> bool" where
  "mentions ws t \<longleftrightarrow> (\<exists>w \<in> set ws. sublist w (to_lower t))"

definition deviceIcon :: "string \<Rightarrow> string" where
  "deviceIcon ua =
     (if mentions [''mobile'', ''android'', ''iphone''] ua then ''Smartphone''
      else if mentions [''bot'', ''crawler''] ua then ''Globe'' else ''Monitor'')"

record session_row =
  nr_icon :: string
  nr_agent :: string
  nr_status :: string
  nr_button :: "string option"

definition session_row_of :: "string option \<Rightarrow> AdminSession \<Rightarrow> session_row" where
  "session_row_of revoking s =
     \<lparr>nr_icon = deviceIcon (as_userAgent s), nr_agent = take 50 (as_userAgent s),
      nr_status = (if as_isRevoked s then ''Revoked'' else ''Active''),
      nr_button = (if as_isRevoked s then None
        else Some (if revoking = Some (as_id s) then ''Revoking'' @ [CHR 0xE2, CHR 0x80, CHR 0xA6] else ''Revoke''))\<rparr>"

section \<open>Rules, administrators, members and invites\<close>

record OrgIPRule =
  or_id :: string
  or_cidr :: string
  or_description :: string
  or_createdAt :: string
  or_createdBy :: string

definition rule_row_of :: "OrgIPRule \<Rightarrow> string \<times> string" where
  "rule_row_of r = (or_cidr r, or_str (Some (or_description r)) em_dash)"

text \<open>What the question at a rule says.\<close>

definition rule_question :: "OrgIPRule \<Rightarrow> string" where
  "rule_question r = ''Remove '' @ or_cidr r @ '' from the organisation allowlist? IPs in this range may lose access.''"

record PlatformAdminSummary =
  pa_userID :: string
  pa_userName :: string
  pa_userEmail :: string
  pa_grantedBy :: string
  pa_grantedAt :: string

definition admin_row_of :: "PlatformAdminSummary \<Rightarrow> string \<times> string \<times> string" where
  "admin_row_of a = (or_str (Some (pa_userName a)) em_dash, pa_userEmail a, pa_grantedBy a)"

record MemberSummary =
  om_userID :: string
  om_userName :: string
  om_userEmail :: string
  om_role :: string
  om_joinedAt :: string

text \<open>The role of a member is a choice for an owner, except of his own, and a text otherwise.\<close>

datatype role_cell = RoleChoice string | RoleText string string

record member_row =
  mr_name :: string
  mr_role :: role_cell
  mr_removable :: bool

definition member_row_of :: "bool \<Rightarrow> string option \<Rightarrow> MemberSummary \<Rightarrow> member_row" where
  "member_row_of isOwner currentUserID m =
     \<lparr>mr_name = or_str (Some (om_userName m)) em_dash,
      mr_role = (if isOwner \<and> Some (om_userID m) \<noteq> currentUserID then RoleChoice (om_role m)
        else RoleText (om_role m) (if om_role m = ''owner'' then ''primary'' else ''muted'')),
      mr_removable = (isOwner \<and> Some (om_userID m) \<noteq> currentUserID)\<rparr>"

record OrgInvite =
  oi_id :: string
  oi_code :: string
  oi_expiresAt :: string
  oi_maxUses :: int
  oi_useCount :: int
  oi_createdBy :: string
  oi_createdAt :: string

record invite_row =
  vr_code :: string
  vr_label :: "string \<times> bool"
  vr_uses :: string

definition invite_row_of :: "platform \<Rightarrow> OrgInvite \<Rightarrow> invite_row" where
  "invite_row_of P i =
     \<lparr>vr_code = oi_code i, vr_label = inviteLabel (pf_now P) (pf_getTime P (oi_expiresAt i)),
      vr_uses = show_int (oi_useCount i) @ '' / ''
        @ (if oi_maxUses i = 0 then [CHR 0xE2, CHR 0x88, CHR 0x9E] else show_int (oi_maxUses i)) @ '' uses''\<rparr>"

section \<open>Breakers in the table and on the map\<close>

text \<open>
  The backend calls the state \<open>half_open\<close>, the table looks for \<open>half-open\<close>: a breaker that the map shows as
  half open is called healthy in the table.
\<close>

theorem half_open_breakers_look_healthy:
  assumes "ro_circuitBreakerState r = Some ''half_open''" "r \<in> set (ts_routes (ui_snapshot u))" "well_keyed (ui_snapshot u)"
  shows "rr_health (route_row_of base s r) = (''success'', ''Healthy'') \<and> \<not> rr_openBadge (route_row_of base s r)
     \<and> nl_breaker (node_look_of b u (routeNode b (ui_snapshot u) r i)) \<noteq> None
     \<and> openCircuitBreakers (ui_snapshot u) > 0"
proof -
  have "distinct (map ro_id (ts_routes (ui_snapshot u)))" using assms(3) by (simp add: well_keyed_def)
  from js_find_unique [OF this assms(2)] have "cbStateOf (ui_snapshot u) (ro_id r) = Some ''half_open''"
    using assms(1) by (simp add: cbStateOf_def routeSummary_def)
  then have "nl_breaker (node_look_of b u (routeNode b (ui_snapshot u) r i)) \<noteq> None"
    by (simp add: node_look_of_def routeNode_def Let_def)
  moreover have "openCircuitBreakers (ui_snapshot u) > 0"
    using assms(1,2) by (auto simp: openCircuitBreakers_def breakerOpen_def filter_empty_conv)
  ultimately show ?thesis using assms(1) by (simp add: route_row_of_def route_health_def)
qed

section \<open>Details of a route\<close>

text \<open>
  At most one route shows details; a tester below it is for that route and offers exactly the active
  tokens of its tenant.
\<close>

theorem details_are_of_one_route:
  assumes "distinct (map ro_id rs)"
  shows "length (filter (\<lambda>r. route_detail_of base tokens origin ne s r \<noteq> None) rs) \<le> 1
     \<and> (route_detail_of base tokens origin ne s r = Some (TesterBelow t) \<longrightarrow>
          selectedRoute t = Some r \<and> tr_open t
          \<and> compatibleTokens t = filter (\<lambda>k. tk_tenantID k = ro_tenantID r \<and> tk_active k) tokens)"
proof
  have one: "length (filter (\<lambda>r. x = Some (ro_id r)) rs) \<le> 1" for x
    using assms by (induction rs) (auto simp: filter_empty_conv)
  have "filter (\<lambda>r. route_detail_of base tokens origin ne s r \<noteq> None) rs = filter (\<lambda>r. ta_expanded s = Some (ro_id r)) rs"
    by (rule filter_cong) (simp_all add: route_detail_of_def)
  with one show "length (filter (\<lambda>r. route_detail_of base tokens origin ne s r \<noteq> None) rs) \<le> 1" by metis
  show "route_detail_of base tokens origin ne s r = Some (TesterBelow t) \<longrightarrow>
      selectedRoute t = Some r \<and> tr_open t \<and> compatibleTokens t = filter (\<lambda>k. tk_tenantID k = ro_tenantID r \<and> tk_active k) tokens"
  proof
    assume "route_detail_of base tokens origin ne s r = Some (TesterBelow t)"
    then have t: "t = tester_start (route_tester_props base tokens origin ne r) True (ro_id r)"
      by (auto simp: route_detail_of_def split: if_splits)
    have f: "tr_props t = route_tester_props base tokens origin ne r" "tr_routeID t = ro_id r" "tr_open t"
      by (simp_all add: t tester_start_def)
    then have r: "selectedRoute t = Some r" by (simp add: selectedRoute_def route_tester_props_def)
    with f show "selectedRoute t = Some r \<and> tr_open t
        \<and> compatibleTokens t = filter (\<lambda>k. tk_tenantID k = ro_tenantID r \<and> tk_active k) tokens"
      by (simp add: compatibleTokens_def route_tester_props_def conj_commute)
  qed
qed

text \<open>
  The tester of a route stays open when another route is expanded: its button offers to close a tester that
  is nowhere to be seen, and pressing it changes nothing that is shown.
\<close>

theorem unseen_tester_stays_open:
  assumes "i = ro_id r" "j = ro_id x" "i \<noteq> j" "r \<in> set (filtered_rows P (routesView P) s)" "x \<in> set (filtered_rows P (routesView P) s)"
    and "ta_tester s = None" "ta_expanded s = None"
  shows "(let t = table_step P (routesView P) (table_step P (routesView P) s (TesterPressed i)) (ExpandPressed j);
           t' = table_step P (routesView P) t (TesterPressed i) in
     rr_testerLabel (route_row_of base t r) = ''Close tester'' \<and> route_detail_of base tokens origin ne t r = None
     \<and> (\<forall>y. route_detail_of base tokens origin ne t' y = route_detail_of base tokens origin ne t y))"
proof -
  have same: "filtered_rows P (routesView P) (q\<lparr>ta_tester := m, ta_expanded := n\<rparr>) = filtered_rows P (routesView P) q"
    "filtered_rows P (routesView P) (q\<lparr>ta_expanded := n\<rparr>) = filtered_rows P (routesView P) q"
    "filtered_rows P (routesView P) (q\<lparr>ta_tester := m\<rparr>) = filtered_rows P (routesView P) q" for q :: routes_table and m n
    by (simp_all add: filtered_rows_def)
  have shown: "i \<in> tv_id (routesView P) ` set (filtered_rows P (routesView P) s)"
    "j \<in> tv_id (routesView P) ` set (filtered_rows P (routesView P) s)"
    using assms(1,2,4,5) by (auto simp: routesView_def)
  let ?t1 = "s\<lparr>ta_tester := Some i, ta_expanded := Some i\<rparr>"
  let ?t = "?t1\<lparr>ta_expanded := Some j\<rparr>"
  have 1: "table_step P (routesView P) s (TesterPressed i) = ?t1"
    using shown(1) assms(6) by (simp add: toggleTester_def)
  have 2: "table_step P (routesView P) ?t1 (ExpandPressed j) = ?t"
    using shown(2) assms(3) by (simp add: toggleExpanded_def same)
  have 3: "table_step P (routesView P) ?t (TesterPressed i) = ?t\<lparr>ta_tester := None\<rparr>"
    using shown(1) by (simp add: toggleTester_def same)
  show ?thesis unfolding Let_def 1 2 3
    using assms(1-3) by (auto simp: route_row_of_def route_detail_of_def)
qed

text \<open>
  With more rows selected than shown the box in the header is neither checked nor undecided, as if nothing
  were selected.
\<close>

theorem hidden_selection_looks_empty:
  assumes "length (ta_selected s) > length (filtered_rows P V s)"
  shows "\<not> header_checked P V s \<and> \<not> header_undecided P V s"
  using assms by (simp add: header_checked_def header_undecided_def)

section \<open>What may be done with a row\<close>

text \<open>A token can be rotated and revoked as long as it is active, and deleted always.\<close>

theorem revoked_tokens_can_only_be_deleted:
  "tr_buttons (token_row_of P n e t) = (if tr_revoked (token_row_of P n e t) then [Delete] else [Rotate, Revoke, Delete])
   \<and> (tr_details (token_row_of P n e t) \<noteq> None \<longleftrightarrow> e = Some (tk_id t))"
  by (simp add: token_row_of_def Let_def)

text \<open>A grant that has expired has the green dot of one that can be used.\<close>

theorem expired_grants_look_usable:
  assumes "gr_active g" "gr_useCount g < gr_maxUses g" "pf_getTime P (gr_expiresAt g) = Some t" "t < pf_now P"
  shows "wr_dot (grant_row_of P e g) = ''success'' \<and> wr_expiry (grant_row_of P e g) = Some (''Expired'', True)"
  using assms by (simp add: grant_row_of_def usedUp_def expiryLabel_def Let_def)

text \<open>An owner cannot change or remove himself, and who is no owner can change nobody.\<close>

theorem members_change_no_one:
  "mr_removable (member_row_of isOwner me m) \<longleftrightarrow> (\<exists>role. mr_role (member_row_of isOwner me m) = RoleChoice role)"
  "mr_removable (member_row_of isOwner me m) \<Longrightarrow> isOwner \<and> me \<noteq> Some (om_userID m)"
  by (auto simp: member_row_of_def)

text \<open>An app shows its dash exactly when it shows neither figure.\<close>

theorem app_figures_or_dash:
  "pr_unused (app_row_of sc tc a) \<longleftrightarrow> pr_sessions (app_row_of sc tc a) = None \<and> pr_tokens (app_row_of sc tc a) = None"
  by (simp add: app_row_of_def counted_def Let_def)

end
