(* ===== verification/Folding.thy ===== *)
theory Folding
  imports Charts
begin

text \<open>
  Parts of the pages that fold: the analytics of the overview (\<open>collapsible-analytics.tsx\<close>), the guide to
  identity providers (\<open>oidc-provider-docs.tsx\<close>), of which the texts are left out, and the guide to upstreams
  (\<open>upstream-config-guide.tsx\<close>).
\<close>

section \<open>The analytics\<close>

text \<open>
  The charts are mounted while the part is open, and start with what the page was loaded with. The
  platform is the clock of the moment they are mounted.
\<close>

record analytics =
  an_stats :: "TrafficStat list"
  an_overview :: TrafficOverview
  an_charts :: "dashboard option"

definition an_open :: "analytics \<Rightarrow> bool" where
  "an_open s \<longleftrightarrow> an_charts s \<noteq> None"

datatype analytics_event =
    AnalyticsPressed platform | InCharts dashboard_event | OverviewReloaded "TrafficStat list" TrafficOverview

definition analytics_start :: "platform \<Rightarrow> (int \<Rightarrow> string) \<Rightarrow> TrafficStat list \<Rightarrow> TrafficOverview \<Rightarrow> analytics option" where
  "analytics_start P label' stats ov =
     map_option (\<lambda>d. \<lparr>an_stats = stats, an_overview = ov, an_charts = Some d\<rparr>) (dashboard_start P label' stats ov)"

fun analytics_step :: "(int \<Rightarrow> string) \<Rightarrow> analytics \<Rightarrow> analytics_event \<Rightarrow> analytics option" where
  "analytics_step label' s (AnalyticsPressed P) =
     (if an_open s then Some (s\<lparr>an_charts := None\<rparr>)
      else map_option (\<lambda>d. s\<lparr>an_charts := Some d\<rparr>) (dashboard_start P label' (an_stats s) (an_overview s)))"
| "analytics_step label' s (InCharts e) =
     (case an_charts s of
        None \<Rightarrow> Some s
      | Some d \<Rightarrow> map_option (\<lambda>d'. s\<lparr>an_charts := Some d'\<rparr>) (dashboard_step label' d e))"
| "analytics_step label' s (OverviewReloaded stats ov) = Some (s\<lparr>an_stats := stats, an_overview := ov\<rparr>)"

text \<open>
  Folding the analytics and unfolding them again shows the figures the page was loaded with, whatever has
  been polled since, and the zoom is gone.
\<close>

theorem unfolding_shows_the_first_figures:
  assumes "an_open s" "analytics_step label' s (AnalyticsPressed P) = Some t" "analytics_step label' t (AnalyticsPressed Q) = Some u"
  shows "\<exists>d. an_charts u = Some d \<and> db_overview d = an_overview s \<and> db_zoomedDomain d = None
     \<and> buildTimeSeries Q label' (an_stats s) = Some (db_fullData d)"
  using assms by (auto simp: an_open_def dashboard_start_def)

text \<open>A reload of the page that stays mounted does not reach the charts.\<close>

theorem reloaded_figures_wait_for_the_poll:
  "map_option an_charts (analytics_step label' s (OverviewReloaded stats ov)) = Some (an_charts s)"
  by simp

section \<open>The guide to identity providers\<close>

text \<open>Name and titles of the steps of each provider.\<close>

definition PROVIDERS :: "(string \<times> string list) list" where
  "PROVIDERS =
     [(''Keycloak'', [''1. Create or select a Realm'', ''2. Create a Client'', ''3. Set redirect URIs'',
         ''4. Copy your credentials'', ''5. Configure groups claim (optional)'']),
      (''Authentik'', [''1. Create an OAuth2/OIDC Provider'', ''2. Set redirect URIs'', ''3. Create an Application'',
         ''4. Copy your credentials'', ''5. Configure groups claim (optional)''])]"

text \<open>\<open>pd_step\<close> belongs to the section below the tabs, which is mounted while the guide is open.\<close>

record provider_docs =
  pd_open :: bool
  pd_provider :: nat
  pd_step :: "nat option"

datatype docs_event = DocsPressed | ProviderPressed nat | StepPressed nat

definition press_step :: "nat \<Rightarrow> nat option \<Rightarrow> nat option" where
  "press_step i x = (if x = Some i then None else Some i)"

definition docs_steps :: "provider_docs \<Rightarrow> string list" where
  "docs_steps s = snd (PROVIDERS ! pd_provider s)"

fun docs_step :: "provider_docs \<Rightarrow> docs_event \<Rightarrow> provider_docs" where
  "docs_step s DocsPressed = s\<lparr>pd_open := \<not> pd_open s, pd_step := None\<rparr>"
| "docs_step s (ProviderPressed i) = (if pd_open s \<and> i < length PROVIDERS then s\<lparr>pd_provider := i\<rparr> else s)"
| "docs_step s (StepPressed i) = (if pd_open s \<and> i < length (docs_steps s) then s\<lparr>pd_step := press_step i (pd_step s)\<rparr> else s)"

definition docs_start :: provider_docs where
  "docs_start = \<lparr>pd_open = False, pd_provider = 0, pd_step = None\<rparr>"

definition docs_fresh :: "provider_docs \<Rightarrow> bool" where
  "docs_fresh s \<longleftrightarrow> s = docs_start"

definition docs_trans :: "provider_docs \<Rightarrow> docs_event \<Rightarrow> provider_docs \<Rightarrow> bool" where
  "docs_trans s e t \<longleftrightarrow> t = docs_step s e"

definition docs_inv :: "provider_docs \<Rightarrow> bool" where
  "docs_inv s \<longleftrightarrow> pd_provider s < length PROVIDERS \<and> (\<forall>i. pd_step s = Some i \<longrightarrow> pd_open s \<and> i < 5)"

lemma five_steps: "i < length PROVIDERS \<Longrightarrow> length (snd (PROVIDERS ! i)) = 5"
  by (auto simp: PROVIDERS_def less_Suc_eq)

lemma docs_inv_step: "docs_inv s \<Longrightarrow> docs_inv (docs_step s e)"
  by (cases e) (auto simp: docs_inv_def docs_steps_def five_steps press_step_def split: if_splits)

interpretation provider_guide: invariant docs_fresh docs_trans docs_inv
proof
  show "docs_inv s" if "docs_fresh s" for s
    using that by (simp add: docs_fresh_def docs_start_def docs_inv_def PROVIDERS_def)
  show "docs_inv t" if "docs_trans s e t" "docs_inv s" for s e t
    using that docs_inv_step by (simp add: docs_trans_def)
qed

text \<open>
  A step that is open is one of the chosen provider; with another provider chosen the step of the same
  number is open there.
\<close>

theorem open_step_is_carried_over:
  assumes "reach docs_fresh docs_trans s" "pd_step s = Some i" "j < length PROVIDERS"
  shows "i < length (docs_steps s) \<and> docs_step s (ProviderPressed j) = s\<lparr>pd_provider := j\<rparr>
     \<and> pd_step (docs_step s (ProviderPressed j)) = Some i \<and> i < length (docs_steps (docs_step s (ProviderPressed j)))"
proof -
  have "docs_inv s" using provider_guide.reach_inv [OF assms(1)] .
  with assms(2,3) show ?thesis by (auto simp: docs_inv_def docs_steps_def five_steps)
qed

section \<open>The guide to upstreams\<close>

definition lines_of :: "string list \<Rightarrow> string" where
  "lines_of ls = join_with [CHR 10] ls"

text \<open>Name, configuration and note of each.\<close>

definition APPS :: "(string \<times> string \<times> string) list" where
  "APPS = [
    (''Grafana'',
     lines_of [''[server]'',
       ''root_url = %(protocol)s://%(domain)s/app/<slug>/'',
       ''serve_from_sub_path = true''],
     ''Set in grafana.ini or via the GF_SERVER_ROOT_URL and GF_SERVER_SERVE_FROM_SUB_PATH env vars.''),
    (''Prometheus'',
     lines_of [''# Pass --web.external-url when starting Prometheus:'',
       ''--web.external-url=https://<your-domain>/app/<slug>/'',
       ''--web.route-prefix=/''],
     ''Prometheus uses --web.external-url to prefix all asset and redirect URLs.''),
    (''Alertmanager'',
     lines_of [''--web.external-url=https://<your-domain>/app/<slug>/'',
       ''--web.route-prefix=/''],
     ''Same pattern as Prometheus.''),
    (''Uptime Kuma'',
     lines_of [''# Set the BASE_URL environment variable:'',
       ''BASE_URL=/app/<slug>''],
     ''Supported from v1.21+. Restart the container after changing.''),
    (''Gitea'',
     lines_of [''[server]'',
       ''ROOT_URL = https://<your-domain>/app/<slug>/''],
     ''Set in app.ini under [server]. Gitea rebuilds asset paths at startup.''),
    (''Jupyter'',
     lines_of [''# Launch with a base URL:'',
       ''jupyter lab --NotebookApp.base_url=/app/<slug>/''],
     ''Or set c.NotebookApp.base_url in jupyter_notebook_config.py.''),
    (''Netdata'',
     lines_of [''# In netdata.conf:'',
       ''[web]'',
       ''  web server bind to = 127.0.0.1'',
       ''  # Netdata reads X-Forwarded-Prefix automatically '' @ [CHR 0xE2, CHR 0x80, CHR 0x94] @ '' no extra config needed.''],
     ''Netdata honours X-Forwarded-Prefix out of the box (v1.37+).''),
    (''Next.js'',
     lines_of [''// next.config.ts'',
       ''const nextConfig = {'',
       ''  basePath: '' @ [CHR 0x22] @ ''/app/<slug>'' @ [CHR 0x22] @ '','',
       ''};'',
       ''export default nextConfig;''],
     ''Set basePath to the exact path JustGate serves the app under. Next.js will prefix all asset and navigation URLs automatically. JustGate also injects a <base> tag into HTML responses as a fallback for apps that cannot be reconfigured.''),
    (''Generic (falls back to X-Forwarded-Prefix)'',
     lines_of [''# JustGate sends this header on every proxied request:'',
       ''X-Forwarded-Prefix: /app/<slug>'',
       ''X-Forwarded-Host:   <your-domain>'',
       ''X-Forwarded-Proto:  https'',
       [],
       ''# Many frameworks read X-Forwarded-Prefix automatically:'',
       ''#  - Traefik (as a downstream), Spring Boot, Express (trust proxy), etc.''],
     ''If the app supports X-Forwarded-Prefix you may not need any extra configuration.'')]"

record config_guide =
  cg_open :: bool
  cg_active :: "nat option"

datatype guide_event = GuidePressed | AppPressed nat

text \<open>Which part is open is kept while the guide is folded.\<close>

fun guide_step :: "config_guide \<Rightarrow> guide_event \<Rightarrow> config_guide" where
  "guide_step s GuidePressed = s\<lparr>cg_open := \<not> cg_open s\<rparr>"
| "guide_step s (AppPressed i) = (if cg_open s \<and> i < length APPS then s\<lparr>cg_active := press_step i (cg_active s)\<rparr> else s)"

definition guide_start :: config_guide where
  "guide_start = \<lparr>cg_open = False, cg_active = None\<rparr>"

definition guide_shown :: "config_guide \<Rightarrow> (string \<times> (string \<times> string) option) list" where
  "guide_shown s =
     (if cg_open s then map (\<lambda>i. (fst (APPS ! i), if cg_active s = Some i then Some (snd (APPS ! i)) else None)) [0..<length APPS]
      else [])"

text \<open>Folding the guide and unfolding it shows the same.\<close>

theorem guide_keeps_its_place:
  "cg_open s \<Longrightarrow> guide_shown (guide_step (guide_step s GuidePressed) GuidePressed) = guide_shown s"
  by (simp add: guide_shown_def)

text \<open>Every configuration but the one of Netdata, which reads the header, names the path of the app.\<close>

fun names_path :: "string \<Rightarrow> bool" where
  "names_path [] = False"
| "names_path (c # t) = ((if c = CHR ''/'' then starts_with ''app/<slug>'' t else False) \<or> names_path t)"

theorem configurations_name_the_path:
  "map fst (filter (\<lambda>(n, c, t). \<not> names_path c) APPS) = [''Netdata'']"
  by code_simp

end
