(* ===== verification/AuditPage.thy ===== *)
theory AuditPage
  imports AuditSearch AuditStream Pages Panels Rows
begin

text \<open>
  The audit page as it is drawn: \<open>app/audit/page.tsx\<close> with its two tabs, \<open>audit-view.tsx\<close> and
  \<open>admin-audit-view.tsx\<close> below them, and the panel of \<open>live-audit-stream.tsx\<close>. The operations of the filters
  are in theory AuditSearch, those of the stream in theory AuditStream.
\<close>

section \<open>The page\<close>

record AdminAuditEvent =
  aa_id :: string
  aa_timestamp :: string
  aa_userID :: string
  aa_userEmail :: string
  aa_action :: string
  aa_resourceType :: string
  aa_resourceID :: string
  aa_details :: string
  aa_orgID :: string

text \<open>
  \<open>PaginatedAuditResponse\<close> and \<open>PaginatedAdminAuditResponse\<close>, with the items \<open>null\<close> or missing where the page
  provides for it, and the answer of a query that holds one.
\<close>

record 'e paginated =
  pg_items :: "'e list option"
  pg_total :: int
  pg_page :: int
  pg_pageSize :: int

record 'e audit_answer =
  an_data :: "'e paginated"
  an_source :: string
  an_error :: "string option"

text \<open>
  \<open>Math.max(1, Math.ceil(total / pageSize))\<close>: a page size of 0 divides to infinity, or to no number when
  there are no events either.
\<close>

datatype page_count = PagesOf int | Endless | Undefined

definition page_count_of :: "int \<Rightarrow> int \<Rightarrow> page_count" where
  "page_count_of events pageSize =
     (if pageSize \<noteq> 0 then PagesOf (totalPages events pageSize)
      else if events > 0 then Endless else if events = 0 then Undefined else PagesOf 1)"

record 'e audit_props =
  ap_events :: "'e list"
  ap_page :: int
  ap_pageSize :: int
  ap_total :: int
  ap_totalPages :: page_count

definition proxy_props :: "int \<Rightarrow> AuditEvent paginated \<Rightarrow> AuditEvent audit_props" where
  "proxy_props page d = \<lparr>ap_events = nullish (pg_items d) [], ap_page = page, ap_pageSize = pg_pageSize d,
     ap_total = pg_total d, ap_totalPages = page_count_of (pg_total d) (pg_pageSize d)\<rparr>"

text \<open>The page size of the other query is used for both.\<close>

definition admin_props :: "int \<Rightarrow> int \<Rightarrow> AdminAuditEvent paginated \<Rightarrow> AdminAuditEvent audit_props" where
  "admin_props page pageSize d = \<lparr>ap_events = nullish (pg_items d) [], ap_page = page, ap_pageSize = pageSize,
     ap_total = pg_total d, ap_totalPages = page_count_of (pg_total d) pageSize\<rparr>"

record audit_content =
  ac_tabs :: "(string \<times> string \<times> bool) list"
  ac_stream :: bool
  ac_proxy :: "(AuditEvent audit_props \<times> view_filters) option"
  ac_admin :: "AdminAuditEvent audit_props option"

definition audit_tabs :: "string \<Rightarrow> (string \<times> string \<times> bool) list" where
  "audit_tabs activeTab = map (\<lambda>(i, l). (l, ''?tab='' @ i, activeTab = i))
     [(''proxy'', ''Proxy Traffic''), (''admin'', ''Admin Activity'')]"

definition activeTab_of :: "params \<Rightarrow> string" where
  "activeTab_of sp = sp_string sp ''tab'' ''proxy''"

definition AuditPage ::
  "params \<Rightarrow> AuditEvent audit_answer \<Rightarrow> AdminAuditEvent audit_answer \<Rightarrow> audit_content framed" where
  "AuditPage sp proxyResult adminResult =
     (let page = sp_page sp; t = activeTab_of sp in
      \<lparr>sc_title = ''Audit Log'', sc_source = an_source proxyResult, sc_error = an_error proxyResult,
       sc_children =
         \<lparr>ac_tabs = audit_tabs t, ac_stream = (t = ''proxy''),
          ac_proxy = (if t = ''proxy'' then Some (proxy_props page (an_data proxyResult), sp_filters sp) else None),
          ac_admin = (if t = ''admin''
                      then Some (admin_props page (pg_pageSize (an_data proxyResult)) (an_data adminResult))
                      else None)\<rparr>\<rparr>)"

text \<open>\<open>Promise.all\<close> of the two queries; a query never throws.\<close>

definition audit_queries :: "params \<Rightarrow> (query_result \<times> query_result) eff" where
  "audit_queries sp = seq (proxyQuery sp) (\<lambda>p. seq (adminQuery sp) (\<lambda>a. ret (p, a)))"

section \<open>Above the tables\<close>

definition en_dash :: string where
  "en_dash = [CHR 0xE2, CHR 0x80, CHR 0x93]"

definition event_range :: "'e audit_props \<Rightarrow> string" where
  "event_range p =
     show_int (pageStart (ap_page p) (ap_pageSize p)) @ en_dash
     @ show_int (pageEnd (ap_page p) (ap_pageSize p) (ap_total p)) @ '' of '' @ show_int (ap_total p)
     @ '' event'' @ (if ap_total p \<noteq> 1 then ''s'' else [])"

text \<open>The page turner, shown for more than one page: its text and whether its buttons are disabled.\<close>

record turner =
  tu_previous_disabled :: bool
  tu_text :: string
  tu_next_disabled :: bool

definition page_turner :: "'e audit_props \<Rightarrow> turner option" where
  "page_turner p =
     (let shown = (\<lambda>n. ''Page '' @ show_int (ap_page p) @ '' of '' @ n) in
      case ap_totalPages p of
        PagesOf n \<Rightarrow> if n > 1 then Some \<lparr>tu_previous_disabled = (ap_page p \<le> 1), tu_text = shown (show_int n),
                                      tu_next_disabled = (ap_page p \<ge> n)\<rparr> else None
      | Endless \<Rightarrow> Some \<lparr>tu_previous_disabled = (ap_page p \<le> 1), tu_text = shown ''Infinity'', tu_next_disabled = False\<rparr>
      | Undefined \<Rightarrow> None)"

section \<open>The admin tab\<close>

record admin_row =
  ar_time :: string
  ar_user :: string
  ar_action :: string
  ar_resource :: string
  ar_resourceID :: "string option"
  ar_details :: string
  ar_hint :: string

text \<open>\<open>label\<close> prints a time; the identifier is ASCII, so that its first 8 characters are its first 8 bytes.\<close>

definition admin_row_shown :: "(string \<Rightarrow> string) \<Rightarrow> AdminAuditEvent \<Rightarrow> admin_row" where
  "admin_row_shown label e =
     \<lparr>ar_time = label (aa_timestamp e),
      ar_user = (if aa_userEmail e \<noteq> [] then aa_userEmail e else aa_userID e),
      ar_action = aa_action e, ar_resource = aa_resourceType e,
      ar_resourceID = (if aa_resourceID e \<noteq> [] then Some (take 8 (aa_resourceID e)) else None),
      ar_details = (if aa_details e \<noteq> [] then aa_details e else em_dash), ar_hint = aa_details e\<rparr>"

record 'r audit_list =
  al_count :: string
  al_turner :: "turner option"
  al_rows :: "'r"

definition AdminAuditView ::
  "(string \<Rightarrow> string) \<Rightarrow> AdminAuditEvent audit_props \<Rightarrow> (string + admin_row list) audit_list" where
  "AdminAuditView label p =
     \<lparr>al_count = (if ap_total p > 0 then event_range p else ''No admin events recorded yet''),
      al_turner = page_turner p,
      al_rows = (if ap_events p = [] then Inl ''No admin activity recorded.''
                 else Inr (map (admin_row_shown label) (ap_events p)))\<rparr>"

text \<open>\<open>goToPage\<close> of this view is \<open>pageParams\<close>; its buttons only act when they are shown and enabled.\<close>

definition previous_page :: "'e audit_props \<Rightarrow> params \<Rightarrow> params" where
  "previous_page p location =
     (case page_turner p of Some t \<Rightarrow> if tu_previous_disabled t then location else pageParams (ap_page p - 1) location
      | None \<Rightarrow> location)"

definition next_page :: "'e audit_props \<Rightarrow> params \<Rightarrow> params" where
  "next_page p location =
     (case page_turner p of Some t \<Rightarrow> if tu_next_disabled t then location else pageParams (ap_page p + 1) location
      | None \<Rightarrow> location)"

section \<open>The proxy tab\<close>

definition secondsAgo :: "int \<Rightarrow> int \<Rightarrow> int" where
  "secondsAgo now lastRefreshed = math_round (of_int (now - lastRefreshed) / 1000)"

definition refreshLabel :: "int \<Rightarrow> string" where
  "refreshLabel s = (if s < 5 then ''Just now'' else show_int s @ ''s ago'')"

definition status_pills :: "string \<Rightarrow> (string \<times> bool) list" where
  "status_pills statusFilter = map (\<lambda>(v, l). (l, statusFilter = v))
     [(''all'', ''All''), (''success'', ''2xx''), (''error'', ''4xx / 5xx'')]"

record audit_view_shown =
  ax_pills :: "(string \<times> bool) list"
  ax_clear :: bool
  ax_updated :: string
  ax_list :: "audit_row list option audit_list"

definition AuditView ::
  "int \<Rightarrow> int \<Rightarrow> string option \<Rightarrow> view_filters \<Rightarrow> AuditEvent audit_props \<Rightarrow> audit_view_shown" where
  "AuditView now lastRefreshed expandedID f p =
     \<lparr>ax_pills = status_pills (vf_status f), ax_clear = hasFilters f,
      ax_updated = ''Updated '' @ refreshLabel (secondsAgo now lastRefreshed),
      ax_list = \<lparr>al_count = (if ap_total p > 0 then (if hasFilters f then ''Filtered: '' else []) @ event_range p
                             else ''No events recorded yet''),
                 al_turner = page_turner p, al_rows = AuditTable expandedID (ap_events p)\<rparr>\<rparr>"

section \<open>The panel of the stream\<close>

record live_row =
  lr_status :: int
  lr_good :: bool
  lr_method :: string
  lr_path :: string
  lr_latency :: "string option"
  lr_time :: string

record live_panel =
  lp_live :: bool
  lp_count :: string
  lp_route :: string
  lp_method :: string
  lp_clear :: bool
  lp_rows :: "string + live_row list"

definition live_row_of :: "(string \<Rightarrow> string) \<Rightarrow> AuditEvent \<Rightarrow> live_row" where
  "live_row_of label e =
     \<lparr>lr_status = ae_status e, lr_good = (ae_status e < 400), lr_method = ae_method e,
      lr_path = ''/proxy/'' @ ae_routeSlug e,
      lr_latency = (if ae_latencyMs e > 0 then Some (show_int (ae_latencyMs e) @ ''ms'') else None),
      lr_time = label (ae_timestamp e)\<rparr>"

definition live_filtering :: "audit_stream \<Rightarrow> bool" where
  "live_filtering s \<longleftrightarrow> as_filterRoute s \<noteq> [] \<or> as_filterMethod s \<noteq> [] \<or> as_filterStatus s \<noteq> AllStatus"

text \<open>\<open>None\<close> is the button that opens the panel.\<close>

definition LiveAuditStream :: "casing \<Rightarrow> (string \<Rightarrow> string) \<Rightarrow> audit_stream \<Rightarrow> live_panel option" where
  "LiveAuditStream L label s =
     (if \<not> as_panel s then None
      else Some
        \<lparr>lp_live = as_connected s,
         lp_count = (if as_connected s
                     then show_nat (length (filtered L s)) @ '' / '' @ show_nat (length (as_events s)) else ''Disconnected''),
         lp_route = as_filterRoute s,
         lp_method = (if as_filterMethod s \<noteq> [] then as_filterMethod s else ''Method''),
         lp_clear = live_filtering s,
         lp_rows = (if filtered L s = []
                    then Inl (if as_events s = [] then ''Waiting for events'' @ [CHR 0xE2, CHR 0x80, CHR 0xA6]
                              else ''No events match filters'')
                    else Inr (map (live_row_of label) (filtered L s)))\<rparr>)"

text \<open>The button that clears the filters, and the choices offered.\<close>

definition live_clear :: "audit_stream \<Rightarrow> audit_event option" where
  "live_clear s = (if as_panel s \<and> live_filtering s then Some (SetFilters [] [] AllStatus) else None)"

definition live_methods :: "(string \<times> string) list" where
  "live_methods = ([], ''Method'') # map (\<lambda>m. (m, m)) [''GET'', ''POST'', ''PUT'', ''PATCH'', ''DELETE'']"

definition live_statuses :: "(status_filter \<times> string) list" where
  "live_statuses = [(AllStatus, ''All''), (SuccessStatus, ''2xx / 3xx''), (ErrorStatus, ''4xx / 5xx'')]"

section \<open>Which tab is shown\<close>

text \<open>One tab at most is shown, and the tab bar marks it; a name that is neither shows and marks none.\<close>

theorem the_marked_tab_is_shown:
  "(let c = sc_children (AuditPage sp p a) in
     map (snd \<circ> snd) (ac_tabs c) = [ac_proxy c \<noteq> None, ac_admin c \<noteq> None]
     \<and> \<not> (ac_proxy c \<noteq> None \<and> ac_admin c \<noteq> None) \<and> ac_stream c = (ac_proxy c \<noteq> None)
     \<and> (activeTab_of sp \<notin> {''proxy'', ''admin''} \<longrightarrow> ac_proxy c = None \<and> ac_admin c = None))"
  by (simp add: AuditPage_def audit_tabs_def Let_def)

theorem the_marked_tab_is_shown_witness:
  "ac_admin (sc_children (AuditPage [(''tab'', ''other'')]
     \<lparr>an_data = \<lparr>pg_items = None, pg_total = 0, pg_page = 1, pg_pageSize = 20\<rparr>, an_source = ''backend'', an_error = None\<rparr>
     \<lparr>an_data = \<lparr>pg_items = None, pg_total = 0, pg_page = 1, pg_pageSize = 20\<rparr>, an_source = ''backend'', an_error = None\<rparr>)) = None"
  using the_marked_tab_is_shown [of "[(''tab'', ''other'')]", unfolded Let_def]
  by (simp add: activeTab_of_def sp_string_def)

text \<open>A link of the tab bar leads to its tab, at the first page and without the filters that were set.\<close>

theorem tabs_forget_the_filters:
  "\<forall>(l, link, marked) \<in> set (audit_tabs t). (let sp = params_parse (tl link) in
     activeTab_of sp \<in> {''proxy'', ''admin''} \<and> (l, link, True) \<in> set (audit_tabs (activeTab_of sp))
     \<and> sp_page sp = 1 \<and> sp_filters sp = no_filters)"
proof -
  have p: "params_parse ''tab=proxy'' = [(''tab'', ''proxy'')]" "params_parse ''tab=admin'' = [(''tab'', ''admin'')]"
    by (simp_all add: params_parse_def parse_pair_def)
  have "parseInt10 ''1'' = Some 1" by code_simp
  then show ?thesis
    by (simp add: audit_tabs_def p activeTab_of_def sp_string_def sp_page_def sp_filters_def no_filters_def)
qed

theorem tabs_forget_the_filters_witness: "sp_filters (params_parse (tl ''?tab=admin'')) = no_filters"
  using tabs_forget_the_filters [of "''proxy''", unfolded Let_def] by (simp add: audit_tabs_def)

text \<open>Turning the pages of the admin tab stays on it.\<close>

theorem admin_pages_stay_on_their_tab:
  assumes "activeTab_of location = ''admin''" and "1 \<le> ap_page p"
  shows "activeTab_of (next_page p location) = ''admin'' \<and> activeTab_of (previous_page p location) = ''admin''
    \<and> (next_page p location \<noteq> location \<longrightarrow> sp_page (next_page p location) = ap_page p + 1)"
proof -
  have tab: "activeTab_of (pageParams n location) = activeTab_of location" for n
    by (simp add: activeTab_of_def sp_string_values pageParams_def)
  have page: "sp_page (pageParams n l) = n" if "1 \<le> n" for n l
    using that by (intro sp_page_set) (simp_all add: pageParams_def)
  show ?thesis
    using assms by (auto simp: next_page_def previous_page_def tab page split: option.split)
qed

section \<open>What the page leaves out\<close>

text \<open>
  Only the query of the proxy tab is reported on. When the other one fails, the tab says that there was
  no activity, under a live badge and without a notice.
\<close>

theorem failure_of_the_admin_query_is_silent:
  assumes "activeTab_of sp = ''admin''" and "an_source p = ''backend''" "an_error p = None"
    and "an_data a = \<lparr>pg_items = Some [], pg_total = 0, pg_page = n, pg_pageSize = k\<rparr>"
  shows "(let d = SectionPage (AuditPage sp p a) in
      dr_live d \<and> dr_notice d = None
      \<and> map_option (al_rows \<circ> AdminAuditView label) (Option.bind (dr_content d) ac_admin)
        = Some (Inl ''No admin activity recorded.''))"
  using assms by (simp add: SectionPage_def AuditPage_def admin_props_def AdminAuditView_def Let_def)

text \<open>
  The number of the page is never compared with the number of pages: beyond the last one the range is
  empty, starts after the last event and is still printed.
\<close>

theorem range_beyond_the_last_page:
  assumes "0 < pageSize" and "0 < events" and "totalPages events pageSize < page"
  shows "pageEnd page pageSize events = events \<and> events < pageStart page pageSize"
proof -
  have "ceil_div events pageSize \<le> page - 1" using assms(3) by (simp add: totalPages_def)
  then have "events \<le> (page - 1) * pageSize" by (simp only: ceil_div_le [OF assms(1)])
  moreover have "(page - 1) * pageSize \<le> page * pageSize" using assms(1) by (simp add: mult_right_mono)
  ultimately show ?thesis by (simp add: pageStart_def pageEnd_def)
qed

text \<open>With events on one page only, nothing on a page beyond it leads back.\<close>

theorem no_way_back_from_beyond:
  assumes "0 < ap_pageSize p" and "0 < ap_total p" and "ap_total p \<le> ap_pageSize p"
    and "ap_totalPages p = page_count_of (ap_total p) (ap_pageSize p)" and "1 < ap_page p"
  shows "page_turner p = None \<and> previous_page p location = location
    \<and> pageEnd (ap_page p) (ap_pageSize p) (ap_total p) < pageStart (ap_page p) (ap_pageSize p)"
proof -
  have "ceil_div (ap_total p) (ap_pageSize p) \<le> 1"
    using ceil_div_le [OF assms(1), of "ap_total p" 1] assms(3) by simp
  then have one: "totalPages (ap_total p) (ap_pageSize p) = 1" by (simp add: totalPages_def)
  then have none: "page_turner p = None" using assms(1,4) by (simp add: page_turner_def page_count_of_def)
  have "totalPages (ap_total p) (ap_pageSize p) < ap_page p" using one assms(5) by simp
  with range_beyond_the_last_page [OF assms(1,2)]
  show ?thesis by (simp add: none previous_page_def)
qed

section \<open>The buttons at the ends\<close>

text \<open>Within the pages, a button is disabled just where there is no page in its direction.\<close>

theorem turner_stays_within_the_pages:
  assumes "ap_totalPages p = PagesOf n" and "1 \<le> ap_page p" "ap_page p \<le> n" and "page_turner p = Some t"
  shows "(tu_previous_disabled t \<longleftrightarrow> ap_page p = 1) \<and> (tu_next_disabled t \<longleftrightarrow> ap_page p = n)
    \<and> \<not> (tu_previous_disabled t \<and> tu_next_disabled t)"
  using assms by (auto simp: page_turner_def Let_def split: if_splits)

section \<open>The panel\<close>

text \<open>
  The panel counts what it lists; a button to clear the filters is there whenever they hide something, and
  pressing it lists all events.
\<close>

theorem hidden_events_can_be_shown:
  assumes "LiveAuditStream L label s = Some v" and "length (filtered L s) < length (as_events s)"
  shows "lp_clear v \<and> (\<exists>e t w. live_clear s = Some e \<and> audit_step s e t \<and> LiveAuditStream L label t = Some w
     \<and> \<not> lp_clear w \<and> lp_rows w = Inr (map (live_row_of label) (as_events s)))"
proof -
  have panel: "as_panel s" and v: "lp_clear v = live_filtering s"
    using assms(1) by (auto simp: LiveAuditStream_def split: if_splits)
  have all: "passesFilter L [] [] AllStatus = (\<lambda>_. True)" by (simp add: passesFilter_def fun_eq_iff)
  have filtering: "live_filtering s"
    using assms(2) by (rule contrapos_pp) (simp add: live_filtering_def filtered_def all)
  let ?t = "s\<lparr>as_filterRoute := [], as_filterMethod := [], as_filterStatus := AllStatus\<rparr>"
  have "audit_step s (SetFilters [] [] AllStatus) ?t" by (rule audit_step.a_filters)
  moreover have "filtered L ?t = as_events s" by (simp add: filtered_def all)
  moreover have "as_events s \<noteq> []" using assms(2) by auto
  ultimately show ?thesis
    using panel filtering v by (simp add: live_clear_def LiveAuditStream_def live_filtering_def audit_step_simps)
qed

section \<open>Witnesses\<close>

definition example_admin_page :: "AdminAuditEvent audit_props" where
  "example_admin_page = \<lparr>ap_events = [], ap_page = 2, ap_pageSize = 20, ap_total = 45, ap_totalPages = PagesOf 3\<rparr>"

theorem admin_pages_stay_on_their_tab_witness:
  "sp_page (next_page example_admin_page [(''tab'', ''admin'')]) = 3"
proof -
  have "activeTab_of [(''tab'', ''admin'')] = ''admin''" by (simp add: activeTab_of_def sp_string_def)
  moreover have "next_page example_admin_page [(''tab'', ''admin'')] \<noteq> [(''tab'', ''admin'')]"
    by (simp add: example_admin_page_def next_page_def page_turner_def pageParams_def Let_def)
  ultimately show ?thesis
    using admin_pages_stay_on_their_tab [of "[(''tab'', ''admin'')]" example_admin_page]
    by (simp add: example_admin_page_def)
qed

theorem failure_of_the_admin_query_is_silent_witness:
  "dr_live (SectionPage (AuditPage [(''tab'', ''admin'')]
     \<lparr>an_data = \<lparr>pg_items = None, pg_total = 0, pg_page = 1, pg_pageSize = 20\<rparr>, an_source = ''backend'', an_error = None\<rparr>
     \<lparr>an_data = \<lparr>pg_items = Some [], pg_total = 0, pg_page = 1, pg_pageSize = 20\<rparr>, an_source = ''fallback'',
      an_error = Some ''offline''\<rparr>))"
  by (rule failure_of_the_admin_query_is_silent [where label = "\<lambda>s. s", unfolded Let_def, THEN conjunct1])
     (simp_all add: activeTab_of_def sp_string_def)

theorem range_beyond_the_last_page_witness: "pageEnd 50 20 5 = 5 \<and> 5 < pageStart 50 20"
  by (rule range_beyond_the_last_page) (simp_all add: totalPages_def ceil_div_def)

theorem no_way_back_from_beyond_witness:
  "page_turner (example_admin_page\<lparr>ap_total := 5, ap_totalPages := page_count_of 5 20\<rparr>) = None"
  using no_way_back_from_beyond [of "example_admin_page\<lparr>ap_total := 5, ap_totalPages := page_count_of 5 20\<rparr>" "[]"]
  by (simp add: example_admin_page_def)

theorem turner_stays_within_the_pages_witness:
  "\<not> tu_next_disabled (the (page_turner example_admin_page))"
proof -
  have "page_turner example_admin_page = Some (the (page_turner example_admin_page))"
    by (simp add: example_admin_page_def page_turner_def Let_def)
  from turner_stays_within_the_pages [of example_admin_page 3, OF _ _ _ this]
  show ?thesis by (simp add: example_admin_page_def)
qed

definition example_audit_event :: AuditEvent where
  "example_audit_event = \<lparr>ae_id = ''e'', ae_timestamp = [], ae_routeSlug = ''r'', ae_tenantID = ''t'', ae_tokenID = ''k'',
     ae_method = ''GET'', ae_status = 500, ae_upstreamURL = [], ae_latencyMs = 0, ae_requestPath = None\<rparr>"

theorem hidden_events_can_be_shown_witness:
  "\<exists>e. live_clear (fresh_panel\<lparr>as_panel := True, as_events := [example_audit_event], as_filterStatus := SuccessStatus\<rparr>) = Some e"
proof -
  let ?s = "fresh_panel\<lparr>as_panel := True, as_events := [example_audit_event], as_filterStatus := SuccessStatus\<rparr>"
  let ?L = "\<lparr>toLowerCase = (\<lambda>s. s), toUpperCase = (\<lambda>s. s)\<rparr>"
  obtain v where v: "LiveAuditStream ?L (\<lambda>s. s) ?s = Some v" by (simp add: LiveAuditStream_def)
  have "length (filtered ?L ?s) < length (as_events ?s)"
    by (simp add: filtered_def passesFilter_def fresh_panel_def example_audit_event_def)
  from hidden_events_can_be_shown [OF v this] show ?thesis by auto
qed

end
