(* ===== verification/FormViews.thy ===== *)
theory FormViews
  imports FormsRouting FormsCredentials FormsApps
begin

text \<open>
  What the forms show: the controls on each of their pages with the values they show and the inputs
  they make, the buttons below, and what is written above. The forms are those of theories FormsRouting,
  FormsCredentials and FormsApps; the interface \<open>shown_form\<close> says how controls and inputs belong together.
\<close>

section \<open>Controls\<close>

text \<open>
  A text box or a list to choose from makes an input of each text; one that is disabled makes none, a choice
  and a button just one. A box without a label goes by its placeholder.
\<close>

datatype 'e control = Field string string "string \<Rightarrow> 'e" | Fixed string string | Choice string bool 'e | Button string 'e

fun offers :: "'e control \<Rightarrow> 'e \<Rightarrow> bool" where
  "offers (Field l v i) e \<longleftrightarrow> (\<exists>w. e = i w)"
| "offers (Fixed l v) e \<longleftrightarrow> False"
| "offers (Choice l b x) e \<longleftrightarrow> e = x"
| "offers (Button l x) e \<longleftrightarrow> e = x"

fun on_page :: "'e control list \<Rightarrow> 'e \<Rightarrow> bool" where
  "on_page [] e = False"
| "on_page (c # cs) e = (offers c e \<or> on_page cs e)"

lemma on_page_append [simp]: "on_page (xs @ ys) e \<longleftrightarrow> on_page xs e \<or> on_page ys e"
  by (induction xs) auto

lemma on_page_set: "on_page cs e \<longleftrightarrow> (\<exists>c \<in> set cs. offers c e)"
  by (induction cs) auto

text \<open>The buttons below a page: their texts and whether they are enabled.\<close>

definition form_buttons ::
  "('p, 'f, 'e) form \<Rightarrow> string \<Rightarrow> string \<Rightarrow> ('p, 'f) modal \<Rightarrow> (string \<times> bool) list" where
  "form_buttons F label busy s =
     (if md_step s = 0 then [] else [(''Back'', True)]) @
     [if md_step s < fo_last F then (''Continue'', fo_next F (md_props s) (md_step s) (md_fields s))
      else (if md_pending s \<noteq> None then busy else label,
            md_pending s = None \<and> fo_submit F (md_props s) (md_fields s))]"

section \<open>The interface\<close>

locale shown_form = checked_form F ok good
  for F :: "('p, 'f, 'e) form" and ok :: "nat \<Rightarrow> 'f \<Rightarrow> bool" and good :: "'f \<Rightarrow> bool" +
  fixes page :: "'f \<Rightarrow> nat \<Rightarrow> 'e control list"
  assumes offered_at: "k \<le> fo_last F \<Longrightarrow> on_page (page f k) e \<Longrightarrow> fo_at F e = k"
    and hidden: "fo_at F e \<le> fo_last F \<Longrightarrow> \<not> on_page (page f (fo_at F e)) e \<Longrightarrow> fo_edit F e p f = f"
    and frame: "fo_at F e \<noteq> k \<Longrightarrow> page (fo_edit F e p f) k = page f k"
begin

text \<open>An input that changes the form is made by a control in view.\<close>

lemma only_shown_inputs_act:
  assumes "reach (form_init F) (form_trans F) s" and "form_step F s (Edited e) \<noteq> s"
  shows "md_open s \<and> on_page (page (md_fields s) (md_step s)) e"
proof -
  have "md_step s \<le> fo_last F" using machine.reach_inv [OF assms(1)] by (simp add: form_inv_def checked_def)
  moreover have at: "md_open s" "fo_at F e = md_step s" "fo_edit F e (md_props s) (md_fields s) \<noteq> md_fields s"
    using assms(2) by (auto split: if_splits)
  ultimately show ?thesis using hidden [of e "md_fields s" "md_props s"] by auto
qed

text \<open>Turning the pages and filling in others leaves a page as it was.\<close>

lemma page_kept:
  assumes "\<forall>x \<in> set es. x = ContinuePressed \<or> x = BackPressed \<or> (\<exists>e. x = Edited e \<and> fo_at F e \<noteq> k)"
  shows "page (md_fields (form_run F s es)) k = page (md_fields s) k"
  using assms
proof (induction es arbitrary: s)
  case (Cons x es)
  have "page (md_fields (form_step F s x)) k = page (md_fields s) k"
    using Cons.prems by (auto simp: goNext_def goBack_def frame)
  with Cons show ?case by simp
qed simp

text \<open>The last button of a page is enabled just when pressing it does something.\<close>

lemma button_enabled_iff:
  assumes "reach (form_init F) (form_trans F) s" and "md_open s" "\<not> md_crashed s" "md_issued s = None"
  shows "snd (last (form_buttons F label busy s)) \<longleftrightarrow>
    form_step F s (if md_step s < fo_last F then ContinuePressed else SubmitPressed) \<noteq> s"
proof -
  have "md_step s \<le> fo_last F" using machine.reach_inv [OF assms(1)] by (simp add: form_inv_def checked_def)
  moreover have "goNext s \<noteq> s" by (auto simp: goNext_def dest: arg_cong [of _ _ md_step])
  moreover have "handleSubmit F s \<noteq> s" by (auto simp: handleSubmit_def emit_def dest: arg_cong [of _ _ md_log])
  ultimately show ?thesis using assms(2-4) by (auto simp: form_buttons_def)
qed

end

section \<open>Routes\<close>

text \<open>A limit as its box shows it; \<open>num\<close> prints numbers.\<close>

definition limit_text :: "(rat \<Rightarrow> string) \<Rightarrow> rat \<Rightarrow> string" where
  "limit_text num n = (if n = 0 then [] else num n)"

definition route_upstream_page :: "'a route_fields_scheme \<Rightarrow> route_input control list" where
  "route_upstream_page f =
     [Field ''Upstream URL'' (rf_upstreamURL f) route_input.InUpstreamURL, Field ''Target path'' (rf_targetPath f) InTargetPath,
      Field ''Health check path'' (rf_healthCheckPath f) route_input.InHealthCheckPath,
      Field ''Required scope'' (rf_requiredScope f) InRequiredScope, Field ''Allowed methods'' (rf_methods f) InMethods]"

definition route_limits_page :: "(rat \<Rightarrow> string) \<Rightarrow> 'a route_fields_scheme \<Rightarrow> route_input control list" where
  "route_limits_page num f =
     [Field ''Requests / min'' (limit_text num (rf_rateLimitRPM f)) route_input.InRPM,
      Field ''Burst size'' (limit_text num (rf_rateLimitBurst f)) route_input.InBurst,
      Field ''Allow CIDRs'' (rf_allowCIDRs f) route_input.InAllowCIDRs,
      Field ''Deny CIDRs'' (rf_denyCIDRs f) route_input.InDenyCIDRs]"

definition createRoute_page ::
  "(rat \<Rightarrow> string) \<Rightarrow> create_route_fields \<Rightarrow> nat \<Rightarrow> route_input control list" where
  "createRoute_page num f k =
     (if k = 0
      then [Field ''Tenant'' (rf_tenantID f) InTenant,
            if rf_tenantID f = [] then Fixed ''Route name'' (rf_slugName f)
            else Field ''Route name'' (rf_slugName f) route_input.InSlug]
      else if k = 1 then route_upstream_page f else if k = 2 then route_limits_page num f else [])"

definition updateRoute_page :: "(rat \<Rightarrow> string) \<Rightarrow> route_fields \<Rightarrow> nat \<Rightarrow> route_input control list" where
  "updateRoute_page num f k =
     (if k = 0 then [Field ''Proxy slug'' (rf_slug f) route_input.InSlug, Field ''Select tenant'' (rf_tenantID f) InTenant]
      else if k = 1 then route_upstream_page f else if k = 2 then route_limits_page num f else [])"

lemmas route_page_defs = createRoute_page_def updateRoute_page_def route_upstream_page_def route_limits_page_def

subsection \<open>Above the pages\<close>

definition ellipsis :: string where
  "ellipsis = [CHR 0xE2, CHR 0x80, CHR 0xA6]"

text \<open>The note below the name: the mistake in it, or the address it will have.\<close>

definition slug_note :: "create_route_props \<Rightarrow> create_route_fields \<Rightarrow> string + string" where
  "slug_note p f =
     (case slugError p f of
        Some e \<Rightarrow> Inl e
      | None \<Rightarrow> Inr (if rf_tenantID f \<noteq> []
                   then ''URL will be /proxy/'' @ rf_tenantID f @ ''/'' @ or_str (Some (rf_slugName f)) ellipsis
                   else ''Select a tenant to set the slug prefix.''))"

record route_preview =
  rv_method :: string
  rv_path :: string
  rv_tenant :: "(string \<times> string) option"
  rv_targetPath :: "string option"
  rv_scope :: "string option"

text \<open>Splitting gives one part at least, so the default \<open>GET\<close> of the code is never used.\<close>

definition route_preview_of ::
  "string \<Rightarrow> TenantSummary list \<Rightarrow> 'a route_fields_scheme \<Rightarrow> route_preview option" where
  "route_preview_of slug tenants f =
     (if slug = [] \<and> rf_tenantID f = [] then None
      else Some
        \<lparr>rv_method = trim (case split_on CHR '','' (rf_methods f) of [] \<Rightarrow> ''GET'' | m # ms \<Rightarrow> m),
         rv_path = ''/proxy/'' @ or_str (Some slug) ellipsis,
         rv_tenant = map_option (\<lambda>t. (tn_name t, tn_tenantID t)) (find (\<lambda>t. tn_tenantID t = rf_tenantID f) tenants),
         rv_targetPath = (if rf_targetPath f \<noteq> [] \<and> rf_targetPath f \<noteq> ''/'' then Some (rf_targetPath f) else None),
         rv_scope = (if rf_requiredScope f \<noteq> [] then Some (rf_requiredScope f) else None)\<rparr>)"

section \<open>Tenants\<close>

definition auth_mode_page :: "tenant_fields \<Rightarrow> tenant_input control list" where
  "auth_mode_page f =
     [Field ''Auth mode'' (tf_authMode f) InAuthMode, Field ''Injected header'' (tf_headerName f) InHeaderName]"

definition tenant_page :: "tenant_fields \<Rightarrow> nat \<Rightarrow> tenant_input control list" where
  "tenant_page f k =
     (if k = 0 then [Field ''Tenant name'' (tf_name f) InTenantName, Field ''Tenant ID'' (tf_tenantID f) tenant_input.InTenantID]
      else if k = 1 then auth_mode_page f else [])"

text \<open>The modes offered, and whether the create form explains that the header is set by itself.\<close>

definition tenant_modes :: "string list" where
  "tenant_modes = [''header'', ''bearer'', ''none'']"

definition header_injection_note :: "tenant_fields \<Rightarrow> bool" where
  "header_injection_note f \<longleftrightarrow> tf_authMode f = ''header''"

section \<open>Credentials\<close>

definition credential_page ::
  "string \<Rightarrow> (credential_input \<Rightarrow> 'e) \<Rightarrow> 'a credential_fields_scheme \<Rightarrow> 'e control list" where
  "credential_page name c f =
     [Field name (cf_name f) (\<lambda>v. c (credential_input.InName v)),
      Field ''Tenant ID'' (cf_tenantID f) (\<lambda>v. c (credential_input.InTenantID v)),
      Field ''Scopes'' (cf_scopes f) (\<lambda>v. c (InScopes v))]"

definition credential_limits ::
  "(rat \<Rightarrow> string) \<Rightarrow> (credential_input \<Rightarrow> 'e) \<Rightarrow> 'a credential_fields_scheme \<Rightarrow> 'e control list" where
  "credential_limits num c f =
     [Field ''Requests / min'' (limit_text num (cf_rateLimitRPM f)) (\<lambda>v. c (credential_input.InRPM v)),
      Field ''Burst size'' (limit_text num (cf_rateLimitBurst f)) (\<lambda>v. c (credential_input.InBurst v))]"

definition createToken_page ::
  "(rat \<Rightarrow> string) \<Rightarrow> credential_fields \<Rightarrow> nat \<Rightarrow> credential_input control list" where
  "createToken_page num f k =
     (if k = 0 then credential_page ''Token name'' (\<lambda>e. e) f
      else if k = 1 then Field ''Expiration'' (cf_expiresAt f) InExpiresAt # credential_limits num (\<lambda>e. e) f
      else [])"

text \<open>Both branches of the code print the number.\<close>

definition createGrant_page :: "(rat \<Rightarrow> string) \<Rightarrow> grant_fields \<Rightarrow> nat \<Rightarrow> grant_input control list" where
  "createGrant_page num f k =
     (if k = 0 then credential_page ''Grant name'' Common f
      else if k = 1
      then Field ''Grant expiration'' (cf_expiresAt f) (\<lambda>v. Common (InExpiresAt v))
           # Field ''Token TTL (hours)'' (if gf_tokenTTLHours f = 720 then ''720'' else num (gf_tokenTTLHours f)) InTokenTTLHours
           # Field ''Max uses'' (if gf_maxUses f = 10 then ''10'' else num (gf_maxUses f)) InMaxUses
           # credential_limits num Common f
      else [])"

lemmas credential_page_defs =
  createToken_page_def createGrant_page_def credential_page_def credential_limits_def

section \<open>Protected apps\<close>

definition mode_labels :: "string list" where
  "mode_labels = [''OIDC'', ''Bearer'', ''Any'', ''None'']"

definition per_labels :: "string list" where
  "per_labels = [''Session'', ''IP address'', ''Token'']"

definition choices :: "string list \<Rightarrow> string list \<Rightarrow> string \<Rightarrow> (nat \<Rightarrow> 'e) \<Rightarrow> 'e control list" where
  "choices values labels v c = map (\<lambda>i. Choice (labels ! i) (v = values ! i) (c i)) [0..<length values]"

definition rule_controls :: "string \<Rightarrow> string \<Rightarrow> HeaderRule list \<Rightarrow> app_input control list" where
  "rule_controls n v rules =
     concat (map (\<lambda>(i, r). [Field n (hr_name r) (HeaderName i), Field v (hr_value r) (HeaderValue i),
                            Button ''Remove'' (RemoveHeader i)]) (enumerate 0 rules))
     @ [Button ''Add header'' AddHeader]"

definition strip_controls :: "string list \<Rightarrow> string \<Rightarrow> app_input control list" where
  "strip_controls headers input =
     map (\<lambda>(i, h). Button h (StripRemoved i)) (enumerate 0 headers)
     @ [Field ''Header to strip (e.g. X-Real-IP)'' input StripTyped, Button ''Add'' StripAdded]"

definition cidr_controls :: "app_fields \<Rightarrow> app_input control list" where
  "cidr_controls f = [Field ''Allow CIDRs'' (af_allowCIDRs f) app_input.InAllowCIDRs,
                      Field ''Deny CIDRs'' (af_denyCIDRs f) app_input.InDenyCIDRs]"

definition policy_controls :: "app_fields \<Rightarrow> app_input control list" where
  "policy_controls f =
     [Field ''Rate limit (RPM)'' (af_rateLimitRPM f) app_input.InRPM, Field ''Burst'' (af_rateLimitBurst f) app_input.InBurst]
     @ choices RATE_LIMIT_PER per_labels (af_rateLimitPer f) ChoosePer
     @ [Field ''Health check path'' (af_healthCheckPath f) app_input.InHealthCheckPath]"

definition createApp_page :: "app_fields \<Rightarrow> nat \<Rightarrow> app_input control list" where
  "createApp_page f k =
     (if k = 0
      then [Field ''App name'' (af_name f) app_input.InName, Field ''Slug'' (af_slug f) app_input.InSlug,
            Field ''Upstream URL'' (af_upstreamURL f) app_input.InUpstreamURL]
      else if k = 1 then choices AUTH_MODES mode_labels (af_authMode f) ChooseAuthMode @ cidr_controls f
      else if k = 2 then policy_controls f
      else if k = 3 then rule_controls ''Header name'' ''$user.email'' (af_injectHeaders f)
                         @ strip_controls (af_stripHeaders f) (af_stripInput f)
      else [])"

definition editApp_page :: "app_fields \<Rightarrow> nat \<Rightarrow> app_input control list" where
  "editApp_page f k =
     (if k = 0
      then [Field ''App name'' (af_name f) app_input.InName, Field ''Upstream URL'' (af_upstreamURL f) app_input.InUpstreamURL]
           @ choices AUTH_MODES mode_labels (af_authMode f) ChooseAuthMode @ cidr_controls f @ policy_controls f
           @ rule_controls ''Header name (e.g. X-Remote-User)'' ''Value or $user.email'' (af_injectHeaders f)
           @ strip_controls (af_stripHeaders f) (af_stripInput f)
           @ [Field ''Extra CA certificate'' (af_extraCAPEM f) InExtraCAPEM]
      else [])"

lemmas app_page_defs = createApp_page_def editApp_page_def cidr_controls_def policy_controls_def

text \<open>The line below the modes of the create form.\<close>

definition mode_note :: "app_fields \<Rightarrow> string" where
  "mode_note f =
     (if af_authMode f = ''none'' then ''All requests are forwarded directly. Only IP rules below apply.''
      else if af_authMode f = ''bearer''
      then ''Requests must carry a valid app bearer token. No browser login is triggered.''
      else ''Users without a session are redirected to the OIDC provider to log in.'')"

lemma on_page_choices [simp]: "on_page (choices values labels v c) e \<longleftrightarrow> (\<exists>i < length values. e = c i)"
  by (auto simp: choices_def on_page_set)

lemma on_page_concat: "on_page (concat (map g xs)) e \<longleftrightarrow> (\<exists>x \<in> set xs. on_page (g x) e)"
  by (induction xs) auto

lemma on_page_map: "on_page (map g xs) e \<longleftrightarrow> (\<exists>x \<in> set xs. offers (g x) e)"
  by (induction xs) auto

lemma set_enumerate: "set (enumerate 0 xs) = (\<lambda>i. (i, xs ! i)) ` {..<length xs}"
  by (auto simp: in_set_enumerate_eq)

lemma on_page_rules [simp]:
  "on_page (rule_controls n v rules) e \<longleftrightarrow>
     (case e of AddHeader \<Rightarrow> True | RemoveHeader i \<Rightarrow> i < length rules
      | HeaderName i w \<Rightarrow> i < length rules | HeaderValue i w \<Rightarrow> i < length rules | _ \<Rightarrow> False)"
  by (cases e) (auto simp: rule_controls_def on_page_concat set_enumerate)

lemma on_page_strips [simp]:
  "on_page (strip_controls hs v) e \<longleftrightarrow>
     (case e of StripTyped w \<Rightarrow> True | StripAdded \<Rightarrow> True | StripRemoved i \<Rightarrow> i < length hs | _ \<Rightarrow> False)"
  by (cases e) (auto simp: strip_controls_def on_page_map set_enumerate)

lemma removeAt_beyond: "length xs \<le> i \<Longrightarrow> removeAt i xs = xs"
  by (induction i xs rule: removeAt.induct) auto


section \<open>The forms satisfy the interface\<close>

interpretation shown_create_route: shown_form createRoute route_ok "\<lambda>f. True" "createRoute_page num" for num
proof unfold_locales
  show "fo_at createRoute e = k" if "k \<le> fo_last createRoute" "on_page (createRoute_page num f k) e" for k f e
    using that by (auto simp: createRoute_def route_page_defs split: if_splits)
  show "fo_edit createRoute e p f = f"
    if "fo_at createRoute e \<le> fo_last createRoute" "\<not> on_page (createRoute_page num f (fo_at createRoute e)) e" for e p f
    using that by (cases e) (auto simp: createRoute_def route_page_defs split: if_splits)
  show "createRoute_page num (fo_edit createRoute e p f) k = createRoute_page num f k" if "fo_at createRoute e \<noteq> k" for e k p f
    using that by (cases e) (auto simp: createRoute_def route_page_defs)
qed

interpretation shown_update_route: shown_form updateRoute "\<lambda>i f. True" "\<lambda>f. True" "updateRoute_page num" for num
proof unfold_locales
  show "fo_at updateRoute e = k" if "k \<le> fo_last updateRoute" "on_page (updateRoute_page num f k) e" for k f e
    using that by (auto simp: updateRoute_def route_page_defs split: if_splits)
  show "fo_edit updateRoute e p f = f"
    if "fo_at updateRoute e \<le> fo_last updateRoute" "\<not> on_page (updateRoute_page num f (fo_at updateRoute e)) e" for e p f
    using that by (cases e) (auto simp: updateRoute_def route_page_defs)
  show "updateRoute_page num (fo_edit updateRoute e p f) k = updateRoute_page num f k" if "fo_at updateRoute e \<noteq> k" for e k p f
    using that by (cases e) (auto simp: updateRoute_def route_page_defs)
qed

lemma tenant_page_laws:
  "on_page (tenant_page f k) e \<Longrightarrow> tenant_input_step e = k"
  "on_page (tenant_page f (tenant_input_step e)) e"
  "tenant_input_step e \<noteq> k \<Longrightarrow> tenant_page (tenant_edit e f) k = tenant_page f k"
  by (cases e; auto simp: tenant_page_def auth_mode_page_def split: if_splits)+

interpretation shown_create_tenant: shown_form createTenant tenant_ok "\<lambda>f. True" tenant_page
  by unfold_locales (auto simp: createTenant_def tenant_page_laws dest: tenant_page_laws(1))

interpretation shown_update_tenant: shown_form updateTenant "\<lambda>i f. True" "\<lambda>f. True" tenant_page
  by unfold_locales (auto simp: updateTenant_def tenant_page_laws dest: tenant_page_laws(1))

interpretation shown_create_token:
  shown_form createToken "\<lambda>i. credential_next" "\<lambda>f. True" "createToken_page num" for num
proof unfold_locales
  show "fo_at createToken e = k" if "k \<le> fo_last createToken" "on_page (createToken_page num f k) e" for k f e
    using that by (auto simp: createToken_def credential_page_defs split: if_splits)
  show "fo_edit createToken e p f = f"
    if "fo_at createToken e \<le> fo_last createToken" "\<not> on_page (createToken_page num f (fo_at createToken e)) e" for e p f
    using that by (cases e) (auto simp: createToken_def credential_page_defs)
  show "createToken_page num (fo_edit createToken e p f) k = createToken_page num f k" if "fo_at createToken e \<noteq> k" for e k p f
    using that by (cases e) (auto simp: createToken_def credential_page_defs)
qed

lemma common_input: "(\<exists>w. Common e = Common (g w)) \<longleftrightarrow> (\<exists>w. e = g w)"
  by simp

lemma grant_page_laws:
  "k \<le> 1 \<Longrightarrow> on_page (createGrant_page num f k) e \<Longrightarrow> grant_input_step e = k"
  "on_page (createGrant_page num f (grant_input_step e)) e"
  "grant_input_step e \<noteq> k \<Longrightarrow> createGrant_page num (grant_edit e f) k = createGrant_page num f k"
proof -
  show "k \<le> 1 \<Longrightarrow> on_page (createGrant_page num f k) e \<Longrightarrow> grant_input_step e = k"
    by (auto simp: credential_page_defs split: if_splits)
  show "on_page (createGrant_page num f (grant_input_step e)) e"
  proof (cases e)
    case (Common x)
    then show ?thesis by (cases x) (simp_all add: credential_page_defs)
  qed (simp_all add: credential_page_defs)
  show "grant_input_step e \<noteq> k \<Longrightarrow> createGrant_page num (grant_edit e f) k = createGrant_page num f k"
  proof (cases e)
    case (Common x)
    then show "grant_input_step e \<noteq> k \<Longrightarrow> ?thesis" by (cases x) (simp_all add: credential_page_defs)
  qed (simp_all add: credential_page_defs)
qed

interpretation shown_create_grant:
  shown_form createGrantForm "\<lambda>i. credential_next" grant_good "createGrant_page num" for num
proof unfold_locales
  show "fo_at createGrantForm e = k" if "k \<le> fo_last createGrantForm" "on_page (createGrant_page num f k) e" for k f e
    using that grant_page_laws(1) [of k num f e] by (simp add: createGrantForm_def)
  show "fo_edit createGrantForm e p f = f"
    if "fo_at createGrantForm e \<le> fo_last createGrantForm" "\<not> on_page (createGrant_page num f (fo_at createGrantForm e)) e" for e p f
    using that grant_page_laws(2) [of num f e] by (simp add: createGrantForm_def)
  show "createGrant_page num (fo_edit createGrantForm e p f) k = createGrant_page num f k"
    if "fo_at createGrantForm e \<noteq> k" for e k p f
    using that by (simp add: createGrantForm_def grant_page_laws(3))
qed

interpretation shown_create_app:
  shown_form createApp "\<lambda>i f. i = 0 \<longrightarrow> step0Valid f" app_good createApp_page
proof unfold_locales
  show "fo_at createApp e = k" if "k \<le> fo_last createApp" "on_page (createApp_page f k) e" for k f e
    using that by (cases e) (auto simp: createApp_def app_page_defs split: if_splits)
  show "fo_edit createApp e p f = f"
    if "fo_at createApp e \<le> fo_last createApp" "\<not> on_page (createApp_page f (fo_at createApp e)) e" for e p f
    using that by (cases e) (auto simp: createApp_def app_page_defs removeAt_beyond updateRuleName_def updateRuleValue_def)
  show "createApp_page (fo_edit createApp e p f) k = createApp_page f k" if "fo_at createApp e \<noteq> k" for e k p f
    using that by (cases e) (auto simp: createApp_def app_page_defs)
qed

interpretation shown_edit_app: shown_form editApp "\<lambda>i f. True" "\<lambda>f. True" editApp_page
proof unfold_locales
  show "fo_at editApp e = k" if "k \<le> fo_last editApp" "on_page (editApp_page f k) e" for k f e
    using that by (simp add: editApp_def)
  show "fo_edit editApp e p f = f"
    if "fo_at editApp e \<le> fo_last editApp" "\<not> on_page (editApp_page f (fo_at editApp e)) e" for e p f
    using that by (cases e) (auto simp: editApp_def app_page_defs removeAt_beyond updateRuleName_def updateRuleValue_def)
  show "editApp_page (fo_edit editApp e p f) k = editApp_page f k" if "fo_at editApp e \<noteq> k" for e k p f
    using that by (simp add: editApp_def editApp_page_def)
qed

section \<open>Properties\<close>

text \<open>Only what the create form of routes shows can change it: the name, for one, only once a tenant is chosen.\<close>

theorem route_form_shows_its_inputs:
  assumes "reach (form_init createRoute) (form_trans createRoute) s" and "form_step createRoute s (Edited e) \<noteq> s"
  shows "md_open s \<and> on_page (createRoute_page num (md_fields s) (md_step s)) e
    \<and> ((\<exists>v. e = route_input.InSlug v) \<longrightarrow> rf_tenantID (md_fields s) \<noteq> [])"
proof -
  have shown: "md_open s \<and> on_page (createRoute_page num (md_fields s) (md_step s)) e"
    by (rule shown_create_route.only_shown_inputs_act [OF assms])
  then have "(\<exists>v. e = route_input.InSlug v) \<Longrightarrow> rf_tenantID (md_fields s) \<noteq> []"
    by (auto simp: route_page_defs split: if_splits)
  with shown show ?thesis by blast
qed

text \<open>Going back and forth and filling in other pages leaves what a page of the app form shows as it was.\<close>

theorem app_pages_keep_their_entries:
  assumes "\<forall>x \<in> set es. x = ContinuePressed \<or> x = BackPressed \<or> (\<exists>e. x = Edited e \<and> app_input_step e \<noteq> k)"
  shows "createApp_page (md_fields (form_run createApp s es)) k = createApp_page (md_fields s) k"
  by (rule shown_create_app.page_kept) (use assms in \<open>simp add: createApp_def\<close>)

text \<open>
  The preview above the create form tells what will be sent: the address is that of the slug in the request, the
  tenant is the one of the request, and so are the path and the scope it shows.
\<close>

theorem preview_tells_the_request:
  assumes "createRoute_request p f = (m, url, body)" and "route_preview_of (fullSlug f) (cr_tenants p) f = Some v"
    and "rf_slugName f \<noteq> []"
  shows "(\<exists>slug. jprop body ''slug'' = Some (JStr slug) \<and> rv_path v = ''/proxy/'' @ slug)
    \<and> (\<forall>n i. rv_tenant v = Some (n, i) \<longrightarrow> jprop body ''tenantID'' = Some (JStr i) \<and> n \<in> tn_name ` set (cr_tenants p))
    \<and> jprop body ''targetPath'' \<noteq> None
    \<and> (\<forall>t. rv_targetPath v = Some t \<longrightarrow> jprop body ''targetPath'' = Some (JStr t))
    \<and> (\<forall>t. rv_scope v = Some t \<longrightarrow> jprop body ''requiredScope'' = Some (JStr t))"
proof -
  have slug: "fullSlug f \<noteq> []" using assms(3) by (simp add: fullSlug_def)
  have body: "body = route_payload (fullSlug f) f" using assms(1) by (simp add: createRoute_request_def)
  have found: "P x \<and> x \<in> set xs" if "find P xs = Some x" for P x and xs :: "TenantSummary list"
    using that by (auto simp: find_Some_iff)
  show ?thesis
    using assms(2) slug unfolding body
    by (auto simp: route_preview_of_def route_payload_def jprop_json_object or_str_def dest!: found split: if_splits)
qed

text \<open>The default method of the preview is never used: without methods it shows none.\<close>

theorem preview_never_defaults:
  assumes "route_preview_of slug tenants f = Some v" and "CHR '','' \<notin> set (rf_methods f)"
  shows "rv_method v = trim (rf_methods f) \<and> (rf_methods f = [] \<longrightarrow> rv_method v = [])"
proof -
  have "rv_method v = trim (rf_methods f)"
    using assms by (auto simp: route_preview_of_def split_on_no_sep split: if_splits)
  moreover have "trim [] = []" by code_simp
  ultimately show ?thesis by auto
qed

text \<open>
  A header that was typed but not added is not among those sent, and the create form submits without a
  word about it.
\<close>

theorem typed_header_is_dropped:
  assumes "md_open s" "\<not> md_crashed s" "md_issued s = None" "md_step s = 3" "md_pending s = None"
  shows "sent_calls (form_run createApp s [Edited (StripTyped v), SubmitPressed])
    = sent_calls (form_run createApp s [SubmitPressed])"
  using assms by (simp add: createApp_def handleSubmit_def emit_def sent_calls_def app_payload_def)

section \<open>Witnesses\<close>

theorem route_form_shows_its_inputs_witness:
  "on_page (createRoute_page num (createRoute_fresh exRouteProps) 0) (InTenant ''acme'')"
proof -
  let ?s = "form_run createRoute (form_start createRoute exRouteProps) [TriggerPressed]"
  have r: "reach (form_init createRoute) (form_trans createRoute) ?s"
    by (rule form_run_reach [OF form_start_reach])
  have f: "md_fields ?s = createRoute_fresh exRouteProps" "md_step ?s = 0"
    by (simp_all add: form_start_def handleOpenChange_def createRoute_def)
  have "form_step createRoute ?s (Edited (InTenant ''acme'')) \<noteq> ?s"
    by (auto simp: form_start_def handleOpenChange_def createRoute_def createRoute_fresh_def exRouteProps_def
        dest: arg_cong [of _ _ "\<lambda>s. rf_tenantID (md_fields s)"])
  from route_form_shows_its_inputs [OF r this, of num] f show ?thesis by simp
qed

theorem app_pages_keep_their_entries_witness:
  "createApp_page (md_fields (form_run createApp (form_start createApp ()) [Edited (app_input.InName ''a''), ContinuePressed])) 1
   = createApp_page createApp_fresh 1"
  by (subst app_pages_keep_their_entries) (simp_all add: form_start_def createApp_def)

theorem preview_tells_the_request_witness:
  "rv_path (the (route_preview_of ''t/r'' (cr_tenants exRouteProps) ((createRoute_fresh exRouteProps)\<lparr>rf_tenantID := ''t'', rf_slugName := ''r''\<rparr>)))
   = ''/proxy/t/r''"
proof -
  let ?f = "(createRoute_fresh exRouteProps)\<lparr>rf_tenantID := ''t'', rf_slugName := ''r''\<rparr>"
  have s: "fullSlug ?f = ''t/r''" by (simp add: fullSlug_def)
  obtain v where v: "route_preview_of (fullSlug ?f) (cr_tenants exRouteProps) ?f = Some v"
    by (simp add: route_preview_of_def)
  have r: "createRoute_request exRouteProps ?f = (''POST'', ''/api/admin/routes'', route_payload ''t/r'' ?f)"
    by (simp add: createRoute_request_def s)
  have "rf_slugName ?f \<noteq> []" by simp
  from preview_tells_the_request [OF r v this, THEN conjunct1] have "rv_path v = ''/proxy/t/r''"
    by (auto simp: route_payload_def jprop_json_object)
  with v show ?thesis by (simp only: s option.sel)
qed

theorem preview_never_defaults_witness:
  "rv_method (the (route_preview_of ''r'' [] ((createRoute_fresh exRouteProps)\<lparr>rf_methods := []\<rparr>))) = []"
proof -
  let ?f = "(createRoute_fresh exRouteProps)\<lparr>rf_methods := []\<rparr>"
  obtain v where v: "route_preview_of ''r'' [] ?f = Some v" by (simp add: route_preview_of_def)
  have "CHR '','' \<notin> set (rf_methods ?f)" by simp
  from preview_never_defaults [OF v this, THEN conjunct2] have "rv_method v = []" by simp
  with v show ?thesis by (simp only: option.sel)
qed

theorem typed_header_is_dropped_witness:
  "sent_calls (form_run createApp ((form_start createApp ())\<lparr>md_open := True, md_step := 3\<rparr>) [Edited (StripTyped ''X-User''), SubmitPressed])
   = sent_calls (form_run createApp ((form_start createApp ())\<lparr>md_open := True, md_step := 3\<rparr>) [SubmitPressed])"
  by (rule typed_header_is_dropped) (simp_all add: form_start_def)

end
