(* ===== verification/Spec2Isabelle.thy ===== *)
theory Spec2Isabelle
  imports OidcCache ProxyGate ApiRoutes TopologyLaws
    TopologyStream AuditStream FormsOnMap FormsApps SetupWizard Onboarding
    Charts AuditSearch Pools RowActions GlobalSearch Notices RouteTester CredentialTools ConfigTransfer Settings AppDrawer SignIn Team Shell Pages Panels Mounting TopologyView Rows Folding AuditPage FormViews
begin

text \<open>
  JustGate, the admin front end (\<open>services/frontend\<close>, TypeScript on Next.js).

  The program. The browser shows pages whose widgets send requests to the server's own route
  handlers (\<open>app/api\<close>). A page request first passes \<open>proxy.ts\<close>, which lets it through or sends it to the
  sign-in page. A handler reads the session (\<open>lib/auth.ts\<close>, with a cached OIDC configuration that is
  read from the backend), turns it into a signed token and headers (\<open>lib/backend-server.ts\<close>,
  \<open>lib/backend-admin-token.ts\<close>) and forwards the request to the backend service. Server components
  query the backend in the same way (\<open>lib/backend-client.ts\<close>). In the browser the forms and wizards
  collect what is to be created, and the topology map and the audit panel follow the backend
  through event streams.

  Theories and sources.
  \<^item> Prelude: strings, truthiness, percent encoding, JSON and sorting as the code uses them.
    Machines: labelled step relations, reachable states, the contract of an invariant.
  \<^item> Http: requests, responses and the effects of server code, an explicit world and a result that
    may be a thrown error. Auth: \<open>lib/auth.ts\<close>. OidcCache: its cache as a machine of interleaved
    calls, refreshes and busts. BackendServer: \<open>lib/backend-server.ts\<close> and \<open>lib/backend-admin-token.ts\<close>.
    BackendClient: \<open>lib/backend-client.ts\<close> and the fallbacks of \<open>lib/contracts.ts\<close>. ProxyGate: \<open>proxy.ts\<close>.
  \<^item> Gateway: the shape of a handler, as a function of an endpoint description, and the interface
    \<open>endpoint_table\<close>. ApiTenancy, ApiRouting, ApiPlatform: one definition per exported method of the
    route files, and the tables that satisfy the interface. ApiRoutes: the files by address, and what
    is used of the router that serves them.
  \<^item> Contracts: the data types of \<open>lib/contracts.ts\<close> as records. TopologyGeometry, TopologyGraph,
    TopologyLaws, TopologySelection, TopologyStream, TopologyView: \<open>components/admin/live-topology-map.tsx\<close>,
    its camera and curves, the graph made of a snapshot, the laws of that graph, the interaction, the
    event stream, and what is shown of them. AuditStream: \<open>components/admin/live-audit-stream.tsx\<close>.
  \<^item> FormValues: trimming, \<open>Number\<close>, \<open>JSON.stringify\<close> on records. Wizard: the handlers the forms share, as
    one machine over a form description, and the interface \<open>checked_form\<close>. FormsRouting: the forms that
    create and edit routes and tenants. FormsCredentials: tokens and grants. FormsApps: protected apps.
    FormsOnMap: the forms as the map opens them. SetupWizard and Onboarding: \<open>setup-wizard.tsx\<close> and
    \<open>onboarding-modal.tsx\<close>.
  \<^item> Tables: \<open>routes-table.tsx\<close> and \<open>tokens-table.tsx\<close> as one machine over a view, and the interface
    \<open>bulk_view\<close>. AuditSearch: \<open>app/audit/page.tsx\<close>, \<open>audit-view.tsx\<close> and \<open>admin-audit-view.tsx\<close>. Charts: the
    figures of \<open>dashboard-charts.tsx\<close>, \<open>route-traffic-panel.tsx\<close>, \<open>token-stats-panel.tsx\<close>,
    \<open>traffic-heatmap.tsx\<close>, \<open>token-lifecycle-gantt.tsx\<close> and \<open>request-waterfall.tsx\<close>.
    Pools: the editors of load-balancing pools, \<open>route-upstreams.tsx\<close> and \<open>tenant-upstreams.tsx\<close>, as one
    machine over their addresses. RowActions: the buttons at the rows of the tables with
    \<open>confirm-dialog.tsx\<close>, as one machine over a description of each, and the interface
    \<open>row_action_laws\<close>.
    GlobalSearch: \<open>global-search.tsx\<close>. Notices: \<open>toast-provider.tsx\<close> and \<open>notification-center.tsx\<close>.
    RouteTester: \<open>route-tester.tsx\<close>. CredentialTools: \<open>bulk-create-tokens-modal.tsx\<close> and
    \<open>rotate-token-button.tsx\<close>. ConfigTransfer: \<open>org-config-export-import.tsx\<close>. Settings: single sign-on,
    mappings and retention. AppDrawer: \<open>app-detail-drawer.tsx\<close>. SignIn: \<open>app/signin\<close>, \<open>app/setup\<close> and
    \<open>signin-panel.tsx\<close>. Team: organisations, members, invites and \<open>app/join\<close>.
    Shell: \<open>app-shell.tsx\<close> with its menus, the themes and the trail of a page. Pages: every \<open>page.tsx\<close> as an
    effect over the queries, with the frame \<open>section-page.tsx\<close>. Panels: the smaller tables and panels, and the
    interface \<open>listed_action\<close>. Mounting: \<open>settings-tabs.tsx\<close> and \<open>quick-actions.tsx\<close>, which mount components
    of the other theories.
    Rows: what the rows of the tables show, and what is below them. Folding: the analytics and the guides.
    AuditPage: the audit page as it is drawn, its tabs and the panel of the stream.

  Parameters. Libraries and services are arguments: the backend (a function from the requests sent so
  far and the next one to an answer or a network error), the session reader, the signer of tokens,
  the environment, the clock, the router of Next.js, the browser's string comparison and date
  functions, \<open>JSON.stringify\<close>. Hypotheses about them are named in the theorems, and each theorem with
  a hypothesis is followed by a witness on concrete values.

  What the lemmas show. For the server: requests without a session stop at the gate; with one, exactly
  one request leaves, of the method, path and body the description names, under the session's token,
  and its answer is relayed; encoded parameters stay in their place; the cache is shared, expires and
  refines its sequential specification. For the widgets: every state the machines reach keeps the
  invariants stated, and every request they send is complete. In this theory the two meet: every
  request of a form is served by its handler and reaches the backend. Several theorems record
  behaviour that is probably not intended; their texts say so.

  Bounds. Recursion is structural throughout, or on a list that shrinks; nothing needs fuel. Integers
  of the code are counts, times and JSON numbers far below the limits of a double, so they are \<open>int\<close>,
  \<open>nat\<close> or exact \<open>rat\<close>; the rounding of doubles is not modelled.

  Not modelled: markup, styles and icons, and most of the texts shown; copying to the clipboard;
  the texts of the guides; the drawing of markup, icons and transitions; the backend service itself, which is written in Go.
\<close>

section \<open>All route handlers together\<close>

text \<open>Every handler that forwards to the backend, and every handler behind the session check.\<close>

definition admin_table :: "(handler \<times> endpoint) list" where
  "admin_table = tenancy_table @ routing_table @ platform_table"

definition gated_handlers :: "handler list" where
  "gated_handlers = map fst admin_table @
     [settings_oidc_reload_POST, topology_GET, audit_socket_info_GET, topology_socket_info_GET]"

lemma in_admin_table:
  "e \<in> set tenancy_table \<Longrightarrow> e \<in> set admin_table"
  "e \<in> set routing_table \<Longrightarrow> e \<in> set admin_table"
  "e \<in> set platform_table \<Longrightarrow> e \<in> set admin_table"
  by (simp_all add: admin_table_def)

interpretation admin: endpoint_table admin_table
  unfolding admin_table_def
  by (intro endpoint_table_append tenancy.endpoint_table_axioms routing.endpoint_table_axioms
      platform.endpoint_table_axioms)

lemma socket_session_anonymous:
  "\<not> truthy (user_id_of (auth_result E w)) \<Longrightarrow> socket_session k E w = (Done unauthorized, auth_world E w)"
  by (simp add: socket_session_def seq_def auth_run ret_def)

lemma gated_anonymous:
  assumes "h \<in> set gated_handlers" "\<not> truthy (user_id_of (auth_result E w))"
  shows "h rq E w = (Done unauthorized, auth_world E w)"
proof -
  from assms(1) consider ep where "(h, ep) \<in> set admin_table"
    | "h \<in> {settings_oidc_reload_POST, topology_GET, audit_socket_info_GET, topology_socket_info_GET}"
    by (auto simp: gated_handlers_def)
  then show ?thesis
  proof cases
    case 1
    then show ?thesis using assms(2) by (rule admin.anonymous)
  next
    case 2
    then show ?thesis using assms(2)
      by (auto simp: settings_oidc_reload_POST_def topology_GET_def audit_socket_info_GET_def
          topology_socket_info_GET_def authorized_anonymous socket_session_anonymous)
  qed
qed

text \<open>An environment with a signed-in user and a backend that answers with one status and text.\<close>

definition example_session :: session where
  "example_session = \<lparr>s_user = Some \<lparr>su_id = Some ''u1'', su_email = None, su_name = None\<rparr>,
     s_activeOrgId = Some ''org1'', s_isPlatformAdmin = Some False, s_provider = None, s_groups = None\<rparr>"

definition live_env :: "int \<Rightarrow> string \<Rightarrow> env" where
  "live_env status t = dead_env\<lparr>getServerSession := (\<lambda>_. Some example_session),
     backend := (\<lambda>_ _. Responded \<lparr>rs_status = status, rs_headers = [], rs_text = t, rs_json = Inl ''no JSON''\<rparr>)\<rparr>"

lemma live_session:
  "auth_result (live_env st t) w = Some example_session"
  by (rule auth_result_const) (simp add: live_env_def)

lemma live_user: "truthy (user_id_of (Some example_session))"
  by (simp add: user_id_of_def example_session_def)

definition example_request :: client_request where
  "example_request = \<lparr>cq_body = ''{}'', cq_query = [], cq_params = (\<lambda>_. ''id1'')\<rparr>"

section \<open>Properties of the API gateway\<close>

text \<open>C1: No handler behind the session check lets a request without a signed-in user through: the
  answer is 401 and nothing is sent to the backend but the refresh of the OIDC configuration that
  reading the session may cause.\<close>

theorem anonymous_requests_are_refused:
  assumes "h \<in> set gated_handlers" and "\<not> truthy (user_id_of (auth_result E w))"
  shows "\<exists>w' rqs. h rq E w = (Done unauthorized, w') \<and> cs_status unauthorized = 401
     \<and> w_sent w' = w_sent w @ rqs \<and> (\<forall>r \<in> set rqs. is_oidc_refresh r)"
  using gated_anonymous [OF assms] auth_world_sent [of E w]
  by (auto simp: unauthorized_def json_response_def)

theorem anonymous_requests_are_refused_witness:
  "\<exists>w' rqs. tokens_POST example_request dead_env example_world = (Done unauthorized, w')
     \<and> w_sent w' = w_sent example_world @ rqs \<and> (\<forall>r \<in> set rqs. is_oidc_refresh r)"
proof -
  have "tokens_POST \<in> set gated_handlers"
    by (simp add: gated_handlers_def admin_table_def routing_table_def)
  moreover have "auth_result dead_env example_world = None"
    by (rule auth_result_const) (simp add: dead_env_def)
  then have "\<not> truthy (user_id_of (auth_result dead_env example_world))"
    by (simp add: user_id_of_def)
  ultimately show ?thesis using anonymous_requests_are_refused by blast
qed

text \<open>C3: For a signed-in user every forwarding handler makes exactly one call after reading the
  session: the method, path and body of its description to the configured backend, uncached, under
  the bearer token of this session; the call's failure is thrown, its answer goes to the reply.\<close>

theorem signed_in_requests_are_forwarded_once:
  assumes "(h, ep) \<in> set admin_table" and "auth_result E w = Some s" and "truthy (user_id_of (Some s))"
  shows "\<exists>w1 r. w1 = auth_world E w \<and> rq_method r = ep_method ep \<and> rq_body r = ep_body ep rq
     \<and> rq_url r = getBackendBaseUrl E @ ep_path ep rq \<and> rq_no_store r
     \<and> map_of (rq_headers r) ''authorization'' = Some (''Bearer '' @ session_token E w1 s)
     \<and> h rq E w = (case backend E (w_sent w1) r of
          NetworkError m \<Rightarrow> (Threw (NetworkFailure m), w1\<lparr>w_sent := w_sent w1 @ [r]\<rparr>)
        | Responded rs \<Rightarrow> (fst (ep_reply ep rs E (w1\<lparr>w_sent := w_sent w1 @ [r]\<rparr>)), w1\<lparr>w_sent := w_sent w1 @ [r]\<rparr>))"
proof -
  let ?w1 = "auth_world E w"
  let ?r = "endpoint_request ep rq E (admin_headers E ?w1 None s)"
  have "map_of (rq_headers ?r) ''authorization'' = Some (''Bearer '' @ session_token E ?w1 s)"
    using assms(1) by (rule admin.request_authorized)
  moreover have "rq_method ?r = ep_method ep" "rq_body ?r = ep_body ep rq"
    "rq_url ?r = getBackendBaseUrl E @ ep_path ep rq" "rq_no_store ?r"
    by (simp_all add: endpoint_request_def)
  ultimately show ?thesis
    using admin.signed_in [OF assms, of rq] by (intro exI [of _ ?w1] exI [of _ ?r]) (simp add: Let_def)
qed

lemma routes_POST_in_table:
  "(routes_POST, body_ep ''POST'' (\<lambda>rq. ''/api/v1/admin/routes'') relay) \<in> set admin_table"
  by (rule in_admin_table(2)) (unfold routing_table_def, intro list.set_intros)

theorem signed_in_requests_are_forwarded_once_witness:
  "\<exists>w1 r. rq_method r = ''POST'' \<and> rq_url r = ''http://localhost:9090/api/v1/admin/routes''
     \<and> routes_POST example_request (live_env 201 ''ok'') example_world
       = (Done \<lparr>cs_status = 201, cs_headers = [(''content-type'', ''application/json'')],
                cs_body = Text ''ok''\<rparr>, w1\<lparr>w_sent := w_sent w1 @ [r]\<rparr>)"
proof -
  let ?E = "live_env 201 ''ok''"
  have base: "getBackendBaseUrl ?E = ''http://localhost:9090''"
    by (simp add: getBackendBaseUrl_def backendUrl_def live_env_def dead_env_def)
  have answer: "backend ?E hist r = Responded \<lparr>rs_status = 201, rs_headers = [], rs_text = ''ok'',
      rs_json = Inl ''no JSON''\<rparr>" for hist r
    by (simp add: live_env_def)
  obtain w1 r where r: "rq_method r = ''POST''" "rq_url r = ''http://localhost:9090/api/v1/admin/routes''"
    and run: "routes_POST example_request ?E example_world =
      (fst (relay \<lparr>rs_status = 201, rs_headers = [], rs_text = ''ok'', rs_json = Inl ''no JSON''\<rparr> ?E
         (w1\<lparr>w_sent := w_sent w1 @ [r]\<rparr>)), w1\<lparr>w_sent := w_sent w1 @ [r]\<rparr>)"
    using signed_in_requests_are_forwarded_once [OF routes_POST_in_table
        live_session [of 201 "''ok''" example_world] live_user, of example_request]
    by (auto simp: base answer)
  have "routes_POST example_request ?E example_world
       = (Done \<lparr>cs_status = 201, cs_headers = [(''content-type'', ''application/json'')],
                cs_body = Text ''ok''\<rparr>, w1\<lparr>w_sent := w_sent w1 @ [r]\<rparr>)"
    by (simp add: run relay_def newResponse_def null_body_status_def content_type_of_def rs_header_def ret_def)
  with r show ?thesis by blast
qed

definition relaying :: "endpoint \<Rightarrow> bool" where
  "relaying ep \<longleftrightarrow> (ep_reply ep = relay \<or> ep_reply ep = relay_or_empty \<or> ep_reply ep = relay_null_body)"

lemma relaying_reply:
  assumes "relaying ep" "200 \<le> rs_status rs" "rs_status rs \<le> 599" "\<not> null_body_status (rs_status rs)"
  shows "ep_reply ep rs =
    ret \<lparr>cs_status = rs_status rs, cs_headers = content_type_of rs, cs_body = Text (rs_text rs)\<rparr>"
proof -
  have "rs_status rs \<noteq> 204" using assms(4) by auto
  with assms show ?thesis by (auto simp: relaying_def reply_simps)
qed

text \<open>The export is the only handler with a reply of its own.\<close>

lemma relaying_or_export: "(h, ep) \<in> set admin_table \<Longrightarrow> relaying ep \<or> ep_reply ep = export_reply"
  by (auto simp: admin_table_def tenancy_table_def routing_table_def platform_table_def relaying_def)


text \<open>The answer of the example backend.\<close>

definition live_answer :: "int \<Rightarrow> string \<Rightarrow> http_response" where
  "live_answer status t = \<lparr>rs_status = status, rs_headers = [], rs_text = t, rs_json = Inl ''no JSON''\<rparr>"

lemma live_backend: "backend (live_env st t) hist r = Responded (live_answer st t)"
  by (simp add: live_env_def live_answer_def)


section \<open>Answers without content\<close>

text \<open>The handlers whose backend operation answers 204 and that build a response with a body from it.\<close>

definition bodied_204_handlers :: "(handler \<times> endpoint) list" where
  "bodied_204_handlers =
     [(platform_admins_userID_DELETE,
       plain_ep ''DELETE'' (\<lambda>rq. ''/api/v1/admin/platform/admins/'' @ encodeURIComponent (cq_params rq ''userID'')) relay),
      (platform_users_userID_DELETE,
       plain_ep ''DELETE'' (\<lambda>rq. ''/api/v1/admin/platform/users/'' @ encodeURIComponent (cq_params rq ''userID'')) relay),
      (platform_orgs_orgID_DELETE,
       plain_ep ''DELETE'' (\<lambda>rq. ''/api/v1/admin/platform/orgs/'' @ encodeURIComponent (cq_params rq ''orgID'')) relay),
      (sessions_sessionID_revoke_POST,
       plain_ep ''POST'' (\<lambda>rq. ''/api/v1/admin/sessions/'' @ encodeURIComponent (cq_params rq ''sessionID'') @ ''/revoke'') relay)]"

lemma bodied_204_entries: "\<forall>e \<in> set bodied_204_handlers. e \<in> set platform_table \<and> ep_reply (snd e) = relay"
  unfolding bodied_204_handlers_def list.set ball_simps
  by (intro conjI TrueI; (unfold platform_table_def, intro list.set_intros)?; simp)

lemma bodied_204_in_table: "(h, ep) \<in> set bodied_204_handlers \<Longrightarrow> (h, ep) \<in> set admin_table \<and> ep_reply ep = relay"
  using bodied_204_entries in_admin_table(3) by fastforce

text \<open>Revoking a session and deleting a platform admin, a user or an organisation: when the
  backend confirms with 204 No Content, the request has been carried out, yet the handler throws,
  because it constructs a 204 response with a (possibly empty) body.\<close>

theorem no_content_makes_handler_throw:
  assumes "(h, ep) \<in> set bodied_204_handlers"
    and "auth_result E w = Some s" and "truthy (user_id_of (Some s))"
    and "backend E (w_sent (auth_world E w))
           (endpoint_request ep rq E (admin_headers E (auth_world E w) None s)) = Responded rs"
    and "rs_status rs = 204"
  shows "\<exists>w'. h rq E w = (Threw (TypeError ''invalid response status code''), w')
     \<and> w_sent w' = w_sent (auth_world E w)
          @ [endpoint_request ep rq E (admin_headers E (auth_world E w) None s)]"
proof -
  from bodied_204_in_table [OF assms(1)] have "(h, ep) \<in> set admin_table" "ep_reply ep = relay" by auto
  then show ?thesis
    using admin.signed_in [of h ep E w s rq] assms(2-5)
    by (simp add: Let_def relay_204 throw_def)
qed

theorem no_content_makes_handler_throw_witness:
  "\<exists>w'. sessions_sessionID_revoke_POST example_request (live_env 204 []) example_world
     = (Threw (TypeError ''invalid response status code''), w')"
proof -
  have mem: "(sessions_sessionID_revoke_POST,
       plain_ep ''POST'' (\<lambda>rq. ''/api/v1/admin/sessions/'' @ encodeURIComponent (cq_params rq ''sessionID'') @ ''/revoke'') relay)
      \<in> set bodied_204_handlers"
    by (simp add: bodied_204_handlers_def)
  from no_content_makes_handler_throw [OF mem live_session [of 204 "[]" example_world] live_user live_backend,
      where rq = example_request]
  show ?thesis by (auto simp: live_answer_def)
qed

text \<open>All other deletions that the backend confirms with 204 are aware of it: routes, tenants,
  tokens, upstreams, apps, members, invites, mappings, grants and IP rules answer 204 without a
  body.\<close>

theorem deletions_pass_no_content_on:
  assumes "(h, ep) \<in> set admin_table" and "ep_method ep = ''DELETE''"
    and "\<not> starts_with ''/api/v1/admin/platform/'' (ep_path ep rq)"
    and "auth_result E w = Some s" and "truthy (user_id_of (Some s))"
    and "backend E (w_sent (auth_world E w))
           (endpoint_request ep rq E (admin_headers E (auth_world E w) None s)) = Responded rs"
    and "rs_status rs = 204"
  shows "\<exists>a. fst (h rq E w) = Done a \<and> cs_status a = 204 \<and> cs_body a = NoBody"
proof -
  have "ep_reply ep = relay_or_empty \<or> ep_reply ep = relay_null_body"
    using assms(1-3)
    by (auto simp: admin_table_def tenancy_table_def routing_table_def platform_table_def starts_with_def)
  then have "\<exists>a. ep_reply ep rs = ret a \<and> cs_status a = 204 \<and> cs_body a = NoBody"
    using assms(7) by (auto simp: relay_or_empty_204 relay_null_body_204)
  then show ?thesis
    using admin.signed_in [OF assms(1,4,5), of rq] assms(6) by (auto simp: Let_def ret_def)
qed

lemma tokens_DELETE_in_table:
  "(tokens_tokenID_DELETE, plain_ep ''DELETE'' (\<lambda>rq. ''/api/v1/admin/tokens/'' @ cq_params rq ''tokenID'') relay_or_empty)
   \<in> set admin_table"
  by (rule in_admin_table(2)) (unfold routing_table_def, intro list.set_intros)

theorem deletions_pass_no_content_on_witness:
  "\<exists>a. fst (tokens_tokenID_DELETE example_request (live_env 204 []) example_world) = Done a
     \<and> cs_status a = 204 \<and> cs_body a = NoBody"
  by (rule deletions_pass_no_content_on [OF tokens_DELETE_in_table _ _ live_session live_user live_backend])
     (simp_all add: live_answer_def starts_with_def)

section \<open>Parameters in backend URLs\<close>

text \<open>The handlers that encode their path parameter: prefix, parameter name, suffix.\<close>

definition encoded_handlers :: "(handler \<times> string \<times> string \<times> string) list" where
  "encoded_handlers =
     [(platform_admins_userID_DELETE, ''/api/v1/admin/platform/admins/'', ''userID'', []),
      (platform_users_userID_DELETE, ''/api/v1/admin/platform/users/'', ''userID'', []),
      (platform_orgs_orgID_DELETE, ''/api/v1/admin/platform/orgs/'', ''orgID'', []),
      (sessions_sessionID_revoke_POST, ''/api/v1/admin/sessions/'', ''sessionID'', ''/revoke''),
      (settings_oidc_mappings_id_DELETE, ''/api/v1/admin/settings/oidc/mappings/'', ''id'', []),
      (route_upstream_upstreamID_PATCH, ''/api/v1/admin/route-upstream/'', ''upstreamID'', []),
      (route_upstream_upstreamID_DELETE, ''/api/v1/admin/route-upstream/'', ''upstreamID'', []),
      (tenant_upstream_upstreamID_PATCH, ''/api/v1/admin/tenant-upstream/'', ''upstreamID'', []),
      (tenant_upstream_upstreamID_DELETE, ''/api/v1/admin/tenant-upstream/'', ''upstreamID'', []),
      (routes_routeID_upstreams_GET, ''/api/v1/admin/route-upstreams/'', ''routeID'', []),
      (routes_routeID_upstreams_POST, ''/api/v1/admin/route-upstreams/'', ''routeID'', []),
      (tenants_tenantID_upstreams_GET, ''/api/v1/admin/tenant-upstreams/'', ''tenantID'', []),
      (tenants_tenantID_upstreams_POST, ''/api/v1/admin/tenant-upstreams/'', ''tenantID'', [])]"

definition encoded_entry :: "handler \<times> string \<times> string \<times> string \<Rightarrow> bool" where
  "encoded_entry = (\<lambda>(h, pre, k, suf). \<exists>ep. (h, ep) \<in> set admin_table
     \<and> ep_path ep = (\<lambda>rq. pre @ encodeURIComponent (cq_params rq k) @ suf))"

lemma encoded_entryI:
  "(h, ep) \<in> set admin_table \<Longrightarrow> ep_path ep = (\<lambda>rq. pre @ encodeURIComponent (cq_params rq k) @ suf) \<Longrightarrow>
   encoded_entry (h, pre, k, suf)"
  by (auto simp: encoded_entry_def)

lemma encoded_entries: "\<forall>e \<in> set encoded_handlers. encoded_entry e"
  unfolding encoded_handlers_def list.set ball_simps
  by (intro conjI TrueI;
      ((rule encoded_entryI, rule in_admin_table(2), unfold routing_table_def,
        (rule list.set_intros(1) | rule list.set_intros(2))+, simp; fail)
       | (rule encoded_entryI, rule in_admin_table(3), unfold platform_table_def,
          (rule list.set_intros(1) | rule list.set_intros(2))+, simp; fail)))



lemma traffic_route_in_table:
  "(traffic_route_GET, plain_ep ''GET''
      (\<lambda>rq. ''/api/v1/admin/traffic/route?routeSlug='' @ encodeURIComponent (nullish (query_get rq ''routeSlug'') []) @
           ''&hours='' @ nullish (query_get rq ''hours'') ''24'') relay) \<in> set admin_table"
  by (rule in_admin_table(3)) (unfold platform_table_def, intro list.set_intros)

lemma traffic_stats_in_table:
  "(traffic_stats_GET, plain_ep ''GET''
      (\<lambda>rq. ''/api/v1/admin/traffic/stats?hours='' @ encodeURIComponent (nullish (query_get rq ''hours'') ''24'')) relay)
   \<in> set admin_table"
  by (rule in_admin_table(3)) (unfold platform_table_def, intro list.set_intros)

text \<open>The traffic chart of a route pastes its \<open>hours\<close> parameter into the backend's query without
  encoding it, so a browser can add further parameters to the backend call; the route's name beside
  it, and the hours of the summary endpoint, are encoded.\<close>

theorem hours_parameter_is_pasted:
  assumes "auth_result E w = Some s" and "truthy (user_id_of (Some s))"
    and "query_get rq ''hours'' = Some hours"
  shows "called_urls traffic_route_GET rq E w =
           [getBackendBaseUrl E @ ''/api/v1/admin/traffic/route?routeSlug=''
              @ encodeURIComponent (nullish (query_get rq ''routeSlug'') []) @ ''&hours='' @ hours]
     \<and> called_urls traffic_stats_GET rq E w =
           [getBackendBaseUrl E @ ''/api/v1/admin/traffic/stats?hours='' @ encodeURIComponent hours]"
  using admin.called_url [OF traffic_route_in_table assms(1,2), of rq]
    admin.called_url [OF traffic_stats_in_table assms(1,2), of rq] assms(3)
  by (simp add: nullish_def)

theorem hours_parameter_is_pasted_witness:
  "called_urls traffic_route_GET (example_request\<lparr>cq_query := [(''routeSlug'', ''r''), (''hours'', ''1&admin=1'')]\<rparr>)
     (live_env 200 []) example_world
   = [getBackendBaseUrl (live_env 200 []) @ ''/api/v1/admin/traffic/route?routeSlug=r&hours=1&admin=1'']"
  using hours_parameter_is_pasted [OF live_session [of 200 "[]" example_world] live_user,
      where rq = "example_request\<lparr>cq_query := [(''routeSlug'', ''r''), (''hours'', ''1&admin=1'')]\<rparr>"
        and hours = "''1&admin=1''"]
  by (simp add: query_get_def nullish_def encodeURIComponent_def enc_char_def uri_unreserved_def is_alnum_def)

section \<open>From the forms to the backend\<close>

text \<open>What the browser's requests become: the one backend request of the handler that serves them.\<close>

lemma client_fetch_forwards:
  assumes "serves_api_files R" and "api_handler m pat = Some h" and "(h, ep) \<in> set admin_table"
    and "plain_params pat ps" and "unambiguous pat ps"
    and "auth_result E w = Some s" and "truthy (user_id_of (Some s))"
  shows "\<exists>run ps' r. client_fetch R str (m, address pat ps, body) = Some run
     \<and> w_sent (snd (run E w)) = w_sent (auth_world E w) @ [r]
     \<and> r = endpoint_request ep \<lparr>cq_body = str body, cq_query = [], cq_params = ps'\<rparr> E
             (admin_headers E (auth_world E w) None s)
     \<and> (\<forall>k. Dyn k \<in> set pat \<longrightarrow> ps' k = ps k)"
proof -
  obtain ps' where R: "R m (address pat ps) = Some (h, ps')" and ps': "\<forall>k. Dyn k \<in> set pat \<longrightarrow> ps' k = ps k"
    using assms(1,2,4,5) unfolding serves_api_files_def by blast
  let ?rq = "\<lparr>cq_body = str body, cq_query = [], cq_params = ps'\<rparr>"
  have "w_sent (snd (h ?rq E w)) = w_sent (auth_world E w)
      @ [endpoint_request ep ?rq E (admin_headers E (auth_world E w) None s)]"
    using admin.signed_in [OF assms(3,6,7), of ?rq] by (simp add: Let_def split: fetch_result.splits)
  with R ps' show ?thesis by (auto simp: client_fetch_def)
qed

lemma plain_params_cong:
  "(\<forall>k. Dyn k \<in> set pat \<longrightarrow> ps' k = ps k) \<Longrightarrow>
   plain_params pat ps' = plain_params pat ps \<and> path_of pat ps' = path_of pat ps"
proof -
  assume "\<forall>k. Dyn k \<in> set pat \<longrightarrow> ps' k = ps k"
  then have "\<forall>s \<in> set pat. seg_text ps' s = seg_text ps s"
    by (auto simp: seg_text_def split: seg.split)
  then show ?thesis by (auto simp: plain_params_def path_of_def cong: map_cong)
qed


lemma api_handlers_used [simp]:
  "api_handler ''POST'' [Lit ''admin'', Lit ''routes''] = Some routes_POST"
  "api_handler ''POST'' [Lit ''admin'', Lit ''tenants''] = Some tenants_POST"
  "api_handler ''POST'' [Lit ''admin'', Lit ''tokens''] = Some tokens_POST"
  "api_handler ''POST'' [Lit ''admin'', Lit ''grants''] = Some grants_POST"
  "api_handler ''POST'' [Lit ''admin'', Lit ''apps''] = Some apps_POST"
  "api_handler ''POST'' [Lit ''admin'', Lit ''orgs''] = Some orgs_POST"
  "api_handler ''PATCH'' [Lit ''admin'', Lit ''routes'', Dyn ''routeID''] = Some routes_routeID_PATCH"
  "api_handler ''PATCH'' [Lit ''admin'', Lit ''tenants'', Dyn ''tenantID''] = Some tenants_tenantID_PATCH"
  "api_handler ''PUT'' [Lit ''admin'', Lit ''apps'', Dyn ''appID''] = Some apps_appID_PUT"
  by (simp_all add: api_handler_def admin_files_def tenancy_files_def routing_files_def platform_files_def)

lemma unambiguous_used [simp]:
  "unambiguous [Lit ''admin'', Lit ''routes''] ps" "unambiguous [Lit ''admin'', Lit ''tenants''] ps"
  "unambiguous [Lit ''admin'', Lit ''tokens''] ps" "unambiguous [Lit ''admin'', Lit ''grants''] ps"
  "unambiguous [Lit ''admin'', Lit ''apps''] ps" "unambiguous [Lit ''admin'', Lit ''orgs''] ps"
  "unambiguous [Lit ''admin'', Lit ''routes'', Dyn ''routeID''] ps"
  "unambiguous [Lit ''admin'', Lit ''tenants'', Dyn ''tenantID''] ps"
  "unambiguous [Lit ''admin'', Lit ''apps'', Dyn ''appID''] ps"
  by (simp_all add: unambiguous_def seg_text_def admin_files_def tenancy_files_def routing_files_def platform_files_def)

text \<open>A file whose handler passes the body on to the mirrored path.\<close>

definition passes_body :: "string \<Rightarrow> seg list \<Rightarrow> bool" where
  "passes_body m pat \<longleftrightarrow> (\<exists>h ep. api_handler m pat = Some h \<and> (h, ep) \<in> set admin_table \<and> ep_method ep = m
     \<and> ep_body ep = (\<lambda>rq. Text (cq_body rq))
     \<and> (\<forall>rq. ep_path ep rq = ''/api/v1'' @ path_of pat (cq_params rq)) \<and> (\<forall>ps. unambiguous pat ps))"

lemma passes_bodyI:
  assumes "api_handler m pat = Some h" "(h, body_ep m p rep) \<in> set admin_table"
    and "\<And>rq. p rq = ''/api/v1'' @ path_of pat (cq_params rq)" "\<And>ps. unambiguous pat ps"
  shows "passes_body m pat"
  unfolding passes_body_def by (intro exI [of _ h] exI [of _ "body_ep m p rep"] conjI allI) (simp_all add: assms)

lemma used_in_table:
  "(routes_POST, body_ep ''POST'' (\<lambda>rq. ''/api/v1/admin/routes'') relay) \<in> set admin_table"
  "(tenants_POST, body_ep ''POST'' (\<lambda>rq. ''/api/v1/admin/tenants'') relay) \<in> set admin_table"
  "(tokens_POST, body_ep ''POST'' (\<lambda>rq. ''/api/v1/admin/tokens'') relay) \<in> set admin_table"
  "(grants_POST, body_ep ''POST'' (\<lambda>rq. ''/api/v1/admin/grants'') relay) \<in> set admin_table"
  "(apps_POST, body_ep ''POST'' (\<lambda>rq. ''/api/v1/admin/apps'') relay) \<in> set admin_table"
  "(orgs_POST, body_ep ''POST'' (\<lambda>rq. ''/api/v1/admin/orgs'') relay) \<in> set admin_table"
  "(routes_routeID_PATCH, body_ep ''PATCH'' (\<lambda>rq. ''/api/v1/admin/routes/'' @ cq_params rq ''routeID'') relay) \<in> set admin_table"
  "(tenants_tenantID_PATCH, body_ep ''PATCH'' (\<lambda>rq. ''/api/v1/admin/tenants/'' @ cq_params rq ''tenantID'') relay) \<in> set admin_table"
  "(apps_appID_PUT, body_ep ''PUT'' (\<lambda>rq. ''/api/v1/admin/apps/'' @ cq_params rq ''appID'') relay) \<in> set admin_table"
  by (rule in_admin_table(1) in_admin_table(2); (unfold routing_table_def tenancy_table_def), intro list.set_intros; fail)+

lemma passes_body_used:
  "passes_body ''POST'' [Lit ''admin'', Lit ''routes'']" "passes_body ''POST'' [Lit ''admin'', Lit ''tenants'']"
  "passes_body ''POST'' [Lit ''admin'', Lit ''tokens'']" "passes_body ''POST'' [Lit ''admin'', Lit ''grants'']"
  "passes_body ''POST'' [Lit ''admin'', Lit ''apps'']" "passes_body ''POST'' [Lit ''admin'', Lit ''orgs'']"
  "passes_body ''PATCH'' [Lit ''admin'', Lit ''routes'', Dyn ''routeID'']"
  "passes_body ''PATCH'' [Lit ''admin'', Lit ''tenants'', Dyn ''tenantID'']"
  "passes_body ''PUT'' [Lit ''admin'', Lit ''apps'', Dyn ''appID'']"
  by (rule passes_bodyI, simp, rule used_in_table, simp add: path_of_def seg_text_def, simp)+

text \<open>The requests of the forms and wizards, whatever their users do.\<close>

inductive portal_sends :: "client_call \<Rightarrow> bool" where
  by_route_form: "reach (form_init createRoute) (form_trans createRoute) s \<Longrightarrow> c \<in> set (sent_calls s) \<Longrightarrow> portal_sends c"
| by_tenant_form: "reach (form_init createTenant) (form_trans createTenant) s \<Longrightarrow> c \<in> set (sent_calls s) \<Longrightarrow> portal_sends c"
| by_token_form: "reach (form_init createToken) (form_trans createToken) s \<Longrightarrow> c \<in> set (sent_calls s) \<Longrightarrow> portal_sends c"
| by_grant_form: "reach (form_init createGrantForm) (form_trans createGrantForm) s \<Longrightarrow> c \<in> set (sent_calls s) \<Longrightarrow> portal_sends c"
| by_app_form: "reach (form_init createApp) (form_trans createApp) s \<Longrightarrow> c \<in> set (sent_calls s) \<Longrightarrow> portal_sends c"
| by_onboarding: "reach onboarding_init (onboarding_trans C) o' \<Longrightarrow> Sent c \<in> set (ob_log o') \<Longrightarrow> portal_sends c"
| by_route_editor: "reach (form_init updateRoute) (form_trans updateRoute) u \<Longrightarrow>
    (m, ''/api/admin/routes/'' @ i, b) \<in> set (sent_calls u) \<Longrightarrow> plain_seg i \<Longrightarrow>
    portal_sends (m, ''/api/admin/routes/'' @ i, b)"
| by_tenant_editor: "reach (form_init updateTenant) (form_trans updateTenant) t \<Longrightarrow>
    (m, ''/api/admin/tenants/'' @ i, b) \<in> set (sent_calls t) \<Longrightarrow> plain_seg i \<Longrightarrow>
    portal_sends (m, ''/api/admin/tenants/'' @ i, b)"
| by_app_editor: "reach (form_init editApp) (form_trans editApp) a \<Longrightarrow>
    (m, ''/api/admin/apps/'' @ i, b) \<in> set (sent_calls a) \<Longrightarrow> plain_seg i \<Longrightarrow>
    portal_sends (m, ''/api/admin/apps/'' @ i, b)"

text \<open>Where such a request goes.\<close>

definition addressed :: "client_call \<Rightarrow> bool" where
  "addressed c \<longleftrightarrow> (\<exists>m pat ps b. c = (m, address pat ps, b) \<and> passes_body m pat \<and> plain_params pat ps)"

lemma addressed_static:
  "passes_body m pat \<Longrightarrow> addr = address pat (\<lambda>_. []) \<Longrightarrow> plain_params pat (\<lambda>_. []) \<Longrightarrow> addressed (m, addr, b)"
  unfolding addressed_def by blast

lemma addressed_at:
  "passes_body m pat \<Longrightarrow> addr = address pat (\<lambda>_. i) \<Longrightarrow> plain_params pat (\<lambda>_. i) \<Longrightarrow> addressed (m, addr, b)"
  unfolding addressed_def by blast

lemmas address_simps = address_def path_of_def seg_text_def plain_params_def plain_seg_def uri_unreserved_def is_alnum_def

lemma addressed_collections [simp]:
  "addressed (''POST'', ''/api/admin/routes'', b)" "addressed (''POST'', ''/api/admin/tenants'', b)"
  "addressed (''POST'', ''/api/admin/tokens'', b)" "addressed (''POST'', ''/api/admin/grants'', b)"
  "addressed (''POST'', ''/api/admin/apps'', b)" "addressed (''POST'', ''/api/admin/orgs'', b)"
  by (rule addressed_static, rule passes_body_used; simp add: address_simps)+

lemma addressed_elements:
  "plain_seg i \<Longrightarrow> addressed (''PATCH'', ''/api/admin/routes/'' @ i, b)"
  "plain_seg i \<Longrightarrow> addressed (''PATCH'', ''/api/admin/tenants/'' @ i, b)"
  "plain_seg i \<Longrightarrow> addressed (''PUT'', ''/api/admin/apps/'' @ i, b)"
  by (rule addressed_at [where i = i], rule passes_body_used; simp add: address_simps)+

lemma form_request_simps:
  "fo_request createRoute p f = createRoute_request p f"
  "fo_request createTenant q g = (''POST'', ''/api/admin/tenants'', tenant_payload g)"
  "fst (fo_request createToken tp cf) = ''POST''" "fst (snd (fo_request createToken tp cf)) = ''/api/admin/tokens''"
  "fst (fo_request createGrantForm D gf) = ''POST''" "fst (snd (fo_request createGrantForm D gf)) = ''/api/admin/grants''"
  "fst (fo_request createApp q af) = ''POST''" "fst (snd (fo_request createApp q af)) = ''/api/admin/apps''"
  "fst (fo_request updateRoute up rf) = ''PATCH''" "fst (fo_request updateTenant tn g) = ''PATCH''"
  "fst (fo_request editApp ap af) = ''PUT''"
  by (simp_all add: createRoute_def createTenant_def createToken_def createGrantForm_def createApp_def
      updateRoute_def updateRoute_request_def updateTenant_def updateTenant_request_def editApp_def editApp_request_def)

lemma addressedI: "addressed (m, addr, b) \<Longrightarrow> fst c = m \<Longrightarrow> fst (snd c) = addr \<Longrightarrow> addressed c"
  by (cases c) (auto simp: addressed_def)

lemma portal_addressed: "portal_sends c \<Longrightarrow> addressed c"
proof (induction rule: portal_sends.induct)
  case (by_route_form s c)
  then obtain p f where "c = fo_request createRoute p f" by (rule create_route.sent_checked) blast
  then show ?case by (simp add: form_request_simps createRoute_request_def)
next
  case (by_tenant_form s c)
  then obtain p f where "c = fo_request createTenant p f" by (rule create_tenant.sent_checked) blast
  then show ?case by (simp add: form_request_simps)
next
  case (by_token_form s c)
  then obtain p f where "c = fo_request createToken p f" by (rule create_token.sent_checked) blast
  then show ?case by (intro addressedI [OF addressed_collections(3)]) (simp_all add: form_request_simps)
next
  case (by_grant_form s c)
  then obtain p f where "c = fo_request createGrantForm p f" by (rule create_grant.sent_checked) blast
  then show ?case by (intro addressedI [OF addressed_collections(4)]) (simp_all add: form_request_simps)
next
  case (by_app_form s c)
  then obtain p f where "c = fo_request createApp p f" by (rule create_app.sent_checked) blast
  then show ?case by (intro addressedI [OF addressed_collections(5)]) (simp_all add: form_request_simps)
next
  case (by_onboarding C s c)
  from onboarding.reach_inv [OF by_onboarding(1)] by_onboarding(2) have "onboarding_call_ok c"
    unfolding log_ok_def by blast
  then show ?case by (auto simp: onboarding_call_ok_def)
next
  case (by_route_editor u m i b)
  obtain p f where "(m, ''/api/admin/routes/'' @ i, b) = fo_request updateRoute p f"
    using by_route_editor(1,2) by (rule update_route.sent_checked) blast
  then have m: "m = ''PATCH''" by (metis form_request_simps(9) fst_conv)
  show ?case unfolding m using by_route_editor(3) by (rule addressed_elements)
next
  case (by_tenant_editor t m i b)
  obtain p f where "(m, ''/api/admin/tenants/'' @ i, b) = fo_request updateTenant p f"
    using by_tenant_editor(1,2) by (rule update_tenant.sent_checked) blast
  then have m: "m = ''PATCH''" by (metis form_request_simps(10) fst_conv)
  show ?case unfolding m using by_tenant_editor(3) by (rule addressed_elements)
next
  case (by_app_editor a m i b)
  obtain p f where "(m, ''/api/admin/apps/'' @ i, b) = fo_request editApp p f"
    using by_app_editor(1,2) by (rule edit_app.sent_checked) blast
  then have m: "m = ''PUT''" by (metis form_request_simps(11) fst_conv)
  show ?case unfolding m using by_app_editor(3) by (rule addressed_elements)
qed

text \<open>C2: Every request of the creating and editing forms and of the guided set-up, whatever the user has
  done in them, becomes exactly one request to the backend: with the same method and the same body
  text, at the same address under \<open>/api/v1\<close>, under the token of the session.\<close>

theorem form_requests_reach_the_backend:
  assumes "portal_sends (m, addr, body)" and "serves_api_files R"
    and "auth_result E w = Some s" and "truthy (user_id_of (Some s))"
  shows "\<exists>run r. client_fetch R str (m, addr, body) = Some run
     \<and> w_sent (snd (run E w)) = w_sent (auth_world E w) @ [r]
     \<and> rq_method r = m \<and> rq_url r = getBackendBaseUrl E @ ''/api/v1'' @ drop 4 addr \<and> rq_body r = Text (str body)
     \<and> map_of (rq_headers r) ''authorization'' = Some (''Bearer '' @ session_token E (auth_world E w) s)"
proof -
  obtain pat ps where a: "addr = address pat ps" "passes_body m pat" "plain_params pat ps"
    using portal_addressed [OF assms(1)] by (auto simp: addressed_def)
  then obtain h ep where h: "api_handler m pat = Some h" and ep: "(h, ep) \<in> set admin_table" "ep_method ep = m"
      "ep_body ep = (\<lambda>rq. Text (cq_body rq))"
    and path: "\<And>rq. ep_path ep rq = ''/api/v1'' @ path_of pat (cq_params rq)" and u: "unambiguous pat ps"
    by (auto simp: passes_body_def)
  from client_fetch_forwards [OF assms(2) h ep(1) a(3) u assms(3,4), of str body]
  obtain run ps' r where run: "client_fetch R str (m, address pat ps, body) = Some run"
    "w_sent (snd (run E w)) = w_sent (auth_world E w) @ [r]"
    and r: "r = endpoint_request ep \<lparr>cq_body = str body, cq_query = [], cq_params = ps'\<rparr> E
             (admin_headers E (auth_world E w) None s)"
    and ps': "\<forall>k. Dyn k \<in> set pat \<longrightarrow> ps' k = ps k" by blast
  have "rq_method r = m" "rq_url r = getBackendBaseUrl E @ ''/api/v1'' @ drop 4 addr" "rq_body r = Text (str body)"
    using plain_params_cong [OF ps'] by (simp_all add: r endpoint_request_def ep path a(1) address_def)
  moreover have "map_of (rq_headers r) ''authorization'' = Some (''Bearer '' @ session_token E (auth_world E w) s)"
    unfolding r using ep(1) by (rule admin.request_authorized)
  ultimately show ?thesis using run a(1) by blast
qed

theorem form_requests_reach_the_backend_witness:
  "\<exists>c run r. c \<in> set (sent_calls exSubmitting) \<and> client_fetch file_router (\<lambda>_. ''{}'') c = Some run
     \<and> w_sent (snd (run (live_env 201 []) example_world))
       = w_sent (auth_world (live_env 201 []) example_world) @ [r] \<and> rq_body r = Text ''{}''"
proof -
  obtain m addr body where c: "(m, addr, body) \<in> set (sent_calls exSubmitting)"
    using exSubmitting_facts(1) by (cases "sent_calls exSubmitting") auto
  have "reach (form_init createRoute) (form_trans createRoute) exSubmitting"
    unfolding exSubmitting_def by (rule form_run_reach) (rule form_start_reach)
  then have sends: "portal_sends (m, addr, body)" using c by (rule by_route_form)
  from form_requests_reach_the_backend [OF sends file_router_serves
      live_session [of 201 "[]" example_world] live_user, of "\<lambda>_. ''{}''"]
  show ?thesis using c by blast
qed


section \<open>The tables meet the handlers\<close>

text \<open>
  What \<open>fetch\<close> in the browser makes of a run of a handler: its status, or 500 when the handler has
  thrown, which is how Next.js answers then. \<open>body_of\<close> is what the body parses to.
\<close>

definition seen_by_browser :: "(payload \<Rightarrow> json) \<Rightarrow> client_response outcome \<Rightarrow> status_answer" where
  "seen_by_browser body_of out =
     (case out of Done a \<Rightarrow> Status (cs_status a) (body_of (cs_body a)) | Threw e \<Rightarrow> Status 500 JNull)"

text \<open>The removals whose handlers throw on 204, with the address of their file.\<close>

definition unnoticed_removals :: "(string row_action \<times> handler \<times> string \<times> seg list) list" where
  "unnoticed_removals =
     [(revokeSession, sessions_sessionID_revoke_POST, ''POST'', [Lit ''admin'', Lit ''sessions'', Dyn ''sessionID'', Lit ''revoke'']),
      (deletePlatformUser, platform_users_userID_DELETE, ''DELETE'', [Lit ''admin'', Lit ''platform'', Lit ''users'', Dyn ''userID'']),
      (deletePlatformOrg, platform_orgs_orgID_DELETE, ''DELETE'', [Lit ''admin'', Lit ''platform'', Lit ''orgs'', Dyn ''orgID'']),
      (revokePlatformAdmin, platform_admins_userID_DELETE, ''DELETE'', [Lit ''admin'', Lit ''platform'', Lit ''admins'', Dyn ''userID''])]"

lemma unnoticed_files:
  "list_all (\<lambda>(R, h, m, pat). api_handler m pat = Some h) unnoticed_removals"
  by (simp add: unnoticed_removals_def api_handler_def admin_files_def tenancy_files_def routing_files_def platform_files_def)

lemma unnoticed_unambiguous: "list_all (\<lambda>(R, h, m, pat). \<forall>ps. unambiguous pat ps) unnoticed_removals"
  by (simp add: unnoticed_removals_def unambiguous_def seg_text_def admin_files_def tenancy_files_def
      routing_files_def platform_files_def)

lemma unnoticed_requests:
  "plain_seg i \<Longrightarrow> list_all (\<lambda>(R, h, m, pat). ra_request R i = (m, address pat (\<lambda>_. i), JNull)
     \<and> plain_params pat (\<lambda>_. i)) unnoticed_removals"
  by (simp add: unnoticed_removals_def action_defs address_simps encode_plain plain_seg_def)

lemma unnoticed_handlers:
  "list_all (\<lambda>(R, h, m, pat). \<exists>(h', ep) \<in> set bodied_204_handlers. h' = h \<and> ep_method ep = m) unnoticed_removals"
  by (simp add: unnoticed_removals_def bodied_204_handlers_def plain_ep_def)

lemma unnoticed_refusal:
  assumes "(R, h, m, pat) \<in> set unnoticed_removals" "i \<in> set (rb_running b)" "\<not> rb_crashed b"
  shows "rb_log (row_step R b (RowAnswered i (Status 500 JNull))) = rb_log b
     \<and> rb_refreshing (row_step R b (RowAnswered i (Status 500 JNull))) = rb_refreshing b
     \<and> rb_error (row_step R b (RowAnswered i (Status 500 JNull))) = rb_error b"
  using assms by (auto simp: unnoticed_removals_def acted_def Let_def action_defs ok_status_def)

text \<open>C4: Revoking a session and deleting a platform user, an organisation or a platform admin: although the
  backend has received the request and confirmed it with 204 No Content, the user is shown nothing.
  The handler throws on 204, the browser sees a failure, and the table neither refreshes the page
  nor says anything.
\<close>

theorem confirmed_removals_go_unnoticed:
  assumes "(R, h, m, pat) \<in> set unnoticed_removals" and "plain_seg i" and "serves_api_files F"
    and "auth_result E w = Some s" and "truthy (user_id_of (Some s))"
    and "\<And>r. rq_method r = m \<Longrightarrow> backend E (w_sent (auth_world E w)) r = Responded rs" and "rs_status rs = 204"
    and "i \<in> set (rb_running b)" and "\<not> rb_crashed b"
  shows "\<exists>run r. client_fetch F str (ra_request R i) = Some run
     \<and> w_sent (snd (run E w)) = w_sent (auth_world E w) @ [r] \<and> rq_method r = m
     \<and> rb_log (row_step R b (RowAnswered i (seen_by_browser body_of (fst (run E w))))) = rb_log b
     \<and> rb_refreshing (row_step R b (RowAnswered i (seen_by_browser body_of (fst (run E w))))) = rb_refreshing b"
proof -
  have h: "api_handler m pat = Some h" and u: "unambiguous pat (\<lambda>_. i)"
    and q: "ra_request R i = (m, address pat (\<lambda>_. i), JNull)" "plain_params pat (\<lambda>_. i)"
    using assms(1) unnoticed_files unnoticed_unambiguous unnoticed_requests [OF assms(2)]
    by (auto simp: list_all_iff)
  obtain ep where ep: "(h, ep) \<in> set bodied_204_handlers" and meth: "ep_method ep = m"
    using assms(1) unnoticed_handlers by (auto simp: list_all_iff)
  have mem: "(h, ep) \<in> set admin_table" using bodied_204_in_table [OF ep] by simp
  obtain ps' where R: "F m (address pat (\<lambda>_. i)) = Some (h, ps')"
    using assms(3) h q(2) u unfolding serves_api_files_def by blast
  let ?rq = "\<lparr>cq_body = str JNull, cq_query = [], cq_params = ps'\<rparr>"
  let ?r = "endpoint_request ep ?rq E (admin_headers E (auth_world E w) None s)"
  have m: "rq_method ?r = m" by (simp add: endpoint_request_def meth)
  obtain w' where w': "h ?rq E w = (Threw (TypeError ''invalid response status code''), w')"
      "w_sent w' = w_sent (auth_world E w) @ [?r]"
    using no_content_makes_handler_throw [OF ep assms(4,5) assms(6) [OF m] assms(7)] by blast
  have "client_fetch F str (ra_request R i) = Some (h ?rq)" by (simp add: client_fetch_def q(1) R)
  moreover have "seen_by_browser body_of (fst (h ?rq E w)) = Status 500 JNull" by (simp add: w' seen_by_browser_def)
  ultimately show ?thesis
    using w' m unnoticed_refusal [OF assms(1,8,9)] by (intro exI [of _ "h ?rq"] exI [of _ ?r]) simp
qed

theorem confirmed_removals_go_unnoticed_witness:
  "\<exists>run r. client_fetch file_router (\<lambda>_. ''null'') (''DELETE'', ''/api/admin/platform/orgs/r1'', JNull) = Some run
     \<and> w_sent (snd (run (live_env 204 []) example_world)) = w_sent (auth_world (live_env 204 []) example_world) @ [r]
     \<and> rb_log (row_step deletePlatformOrg (exButtons\<lparr>rb_running := [''r1'']\<rparr>)
         (RowAnswered ''r1'' (seen_by_browser (\<lambda>_. JNull) (fst (run (live_env 204 []) example_world))))) = []"
proof -
  have mem: "(deletePlatformOrg, platform_orgs_orgID_DELETE, ''DELETE'', [Lit ''admin'', Lit ''platform'', Lit ''orgs'', Dyn ''orgID''])
      \<in> set unnoticed_removals"
    by (simp add: unnoticed_removals_def)
  have plain: "plain_seg ''r1''" by (simp add: plain_seg_def uri_unreserved_def is_alnum_def)
  have b: "''r1'' \<in> set (rb_running (exButtons\<lparr>rb_running := [''r1'']\<rparr>))" "\<not> rb_crashed (exButtons\<lparr>rb_running := [''r1'']\<rparr>)"
    by (simp_all add: exButtons_def)
  have q: "ra_request deletePlatformOrg ''r1'' = (''DELETE'', ''/api/admin/platform/orgs/r1'', JNull)"
    using plain by (simp add: action_defs encode_plain plain_seg_def)
  have rs: "rs_status (live_answer 204 []) = 204" by (simp add: live_answer_def)
  from confirmed_removals_go_unnoticed [OF mem plain file_router_serves live_session [of 204 "[]" example_world] live_user
      live_backend rs b, of "\<lambda>_. ''null''" "\<lambda>_. JNull"]
  show ?thesis unfolding q by (simp add: exButtons_def) blast
qed

end
